(* ===== verification/Prelude.thy ===== *)
theory Prelude
  imports Main "HOL-Library.Word" "HOL-Library.Code_Target_Nat"
begin

text \<open>
  Shared material of the development: the error values of the Go code, the integers of
  Go at their width, the SQL-like table operations on lists of rows, and the lemmas and
  theorem collections that carry the component proofs.

  Conventions.  A Go \<open>string\<close> is a \<open>string\<close> (a list of bytes).  An instant
  (\<open>time.Time\<close>) is an \<open>int\<close> that counts nanoseconds from Go's zero time, so
  \<open>IsZero\<close> is equality with 0; a \<open>time.Duration\<close> is an \<open>int\<close> of nanoseconds.
  A Go error is a sentinel (what \<open>errors.Is\<close> sees through wrapping with \<open>%w\<close>) and a
  message.  A fallible function returns \<open>error + 'a\<close>, or \<open>error option\<close> when it
  returns only an error.
\<close>

named_theorems frame \<open>what an operation leaves unchanged\<close>
named_theorems op_defs \<open>definitions of operations, unfolded to reason about one call\<close>

section \<open>Errors\<close>

datatype err_kind =
    ErrInvalidInput | ErrSandboxNotFound | ErrSandboxDestroyed | ErrProviderNotFound
  | ErrProviderUnavailable | ErrExecTimeout | ErrResourceLimit
  | ErrNotFound | ErrConflict | ErrVMPoolFull
  | ErrDeadlineExceeded | ErrOther

datatype error = Err (err_kind: err_kind) (err_msg: string)

text \<open>\<open>fmt.Errorf("prefix: %w", err)\<close> keeps the sentinel.\<close>

definition wrap_err :: "string \<Rightarrow> error \<Rightarrow> error" where
  "wrap_err p e = Err (err_kind e) (p @ '': '' @ err_msg e)"

lemma err_kind_wrap [simp]: "err_kind (wrap_err p e) = err_kind e"
  by (simp add: wrap_err_def)

definition ErrorsIs :: "error \<Rightarrow> err_kind \<Rightarrow> bool" where
  "ErrorsIs e k \<longleftrightarrow> err_kind e = k"

section \<open>Integers\<close>

type_synonym time = int
type_synonym duration = int
type_synonym u64 = "64 word"

abbreviation Second :: duration where "Second \<equiv> 1000000000"
abbreviation Minute :: duration where "Minute \<equiv> 60 * Second"

text \<open>A value as an \<open>int64\<close> holds it: two's complement wrap-around.\<close>

definition i64 :: "int \<Rightarrow> int" where
  "i64 x = (x + 2 ^ 63) mod 2 ^ 64 - 2 ^ 63"

lemma i64_id: "- (2 ^ 63) \<le> x \<Longrightarrow> x < 2 ^ 63 \<Longrightarrow> i64 x = x"
  by (simp add: i64_def)

lemma i64_range: "- (2 ^ 63) \<le> i64 x \<and> i64 x < 2 ^ 63"
  by (simp add: i64_def)

text \<open>Go's integer division and remainder truncate towards zero.\<close>

definition go_div :: "int \<Rightarrow> int \<Rightarrow> int" where
  "go_div a b = sgn a * sgn b * (\<bar>a\<bar> div \<bar>b\<bar>)"

definition go_mod :: "int \<Rightarrow> int \<Rightarrow> int" where
  "go_mod a b = a - b * go_div a b"

lemma go_div_nonneg: "0 \<le> a \<Longrightarrow> 0 < b \<Longrightarrow> go_div a b = a div b"
  by (auto simp: go_div_def sgn_if)

lemma go_mod_nonneg: "0 \<le> a \<Longrightarrow> 0 < b \<Longrightarrow> go_mod a b = a mod b"
  by (simp add: go_mod_def go_div_nonneg minus_mult_div_eq_mod)

section \<open>Tables: lists of rows under SQL statements\<close>

text \<open>
  A table is the list of its rows, oldest insertion first.  \<open>UPDATE \<dots> WHERE\<close> and
  \<open>DELETE \<dots> WHERE\<close> act on the rows a condition selects; the number of selected rows is
  what \<open>RowsAffected\<close> reports.
\<close>

definition row_by :: "('r \<Rightarrow> 'k) \<Rightarrow> 'k \<Rightarrow> 'r list \<Rightarrow> 'r option" where
  "row_by key k t = List.find (\<lambda>r. key r = k) t"

definition upd_where :: "('r \<Rightarrow> bool) \<Rightarrow> ('r \<Rightarrow> 'r) \<Rightarrow> 'r list \<Rightarrow> 'r list" where
  "upd_where P f t = map (\<lambda>r. if P r then f r else r) t"

definition del_where :: "('r \<Rightarrow> bool) \<Rightarrow> 'r list \<Rightarrow> 'r list" where
  "del_where P t = filter (\<lambda>r. \<not> P r) t"

definition rows_affected :: "('r \<Rightarrow> bool) \<Rightarrow> 'r list \<Rightarrow> nat" where
  "rows_affected P t = length (filter P t)"

abbreviation unique_key :: "('r \<Rightarrow> 'k) \<Rightarrow> 'r list \<Rightarrow> bool" where
  "unique_key key t \<equiv> distinct (map key t)"

lemma row_by_Nil [simp]: "row_by key k [] = None"
  by (simp add: row_by_def)

lemma row_by_Cons [simp]:
  "row_by key k (r # t) = (if key r = k then Some r else row_by key k t)"
  by (simp add: row_by_def)

lemma row_by_append:
  "row_by key k (t @ u) = (case row_by key k t of Some r \<Rightarrow> Some r | None \<Rightarrow> row_by key k u)"
  by (induction t) auto

lemma row_by_None_iff: "row_by key k t = None \<longleftrightarrow> k \<notin> key ` set t"
  by (induction t) auto

lemma row_by_SomeD: "row_by key k t = Some r \<Longrightarrow> r \<in> set t \<and> key r = k"
  by (induction t) (auto split: if_splits)

lemma row_by_in_set: "unique_key key t \<Longrightarrow> r \<in> set t \<Longrightarrow> row_by key (key r) t = Some r"
  by (induction t) (auto simp: image_iff)

lemma unique_keyD:
  "unique_key key t \<Longrightarrow> r \<in> set t \<Longrightarrow> r' \<in> set t \<Longrightarrow> key r = key r' \<Longrightarrow> r = r'"
  by (metis row_by_in_set option.inject)

lemma rows_affected_0_iff: "rows_affected P t = 0 \<longleftrightarrow> (\<forall>r\<in>set t. \<not> P r)"
  by (simp add: rows_affected_def filter_empty_conv)

lemma rows_affected_key_0: "rows_affected (\<lambda>r. key r = k) t = 0 \<longleftrightarrow> row_by key k t = None"
  by (auto simp: rows_affected_0_iff row_by_None_iff)

lemma map_key_upd_where:
  "(\<And>r. P r \<Longrightarrow> key (f r) = key r) \<Longrightarrow> map key (upd_where P f t) = map key t"
  by (induction t) (auto simp: upd_where_def)

lemma row_by_upd_where:
  assumes "\<And>r. key (f r) = key r"
  shows "row_by key k (upd_where P f t)
       = map_option (\<lambda>r. if P r then f r else r) (row_by key k t)"
  using assms by (induction t) (auto simp: upd_where_def)

lemma set_upd_where: "set (upd_where P f t) = (\<lambda>r. if P r then f r else r) ` set t"
  by (simp add: upd_where_def)

lemma length_upd_where [simp]: "length (upd_where P f t) = length t"
  by (simp add: upd_where_def)

lemma set_del_where: "set (del_where P t) = {r \<in> set t. \<not> P r}"
  by (auto simp: del_where_def)

lemma unique_key_del_where: "unique_key key t \<Longrightarrow> unique_key key (del_where P t)"
  by (simp add: del_where_def distinct_map_filter)

lemma row_by_del_where_other:
  "(\<And>r. r \<in> set t \<Longrightarrow> P r \<Longrightarrow> key r \<noteq> k) \<Longrightarrow> row_by key k (del_where P t) = row_by key k t"
  by (induction t) (auto simp: del_where_def)

lemma row_by_del_where_key: "row_by key k (del_where (\<lambda>r. key r = k) t) = None"
  by (auto simp: row_by_None_iff set_del_where)

lemma unique_key_snoc:
  "unique_key key (t @ [r]) \<longleftrightarrow> unique_key key t \<and> row_by key (key r) t = None"
  by (auto simp: row_by_None_iff)

text \<open>At most one row carries a unique key, so counting the rows that do is 0 or 1.\<close>

lemma filter_unique_key:
  "unique_key key t \<Longrightarrow>
   filter (\<lambda>r. key r = k) t = (case row_by key k t of None \<Rightarrow> [] | Some r \<Rightarrow> [r])"
proof (induction t)
  case (Cons a t)
  then have "row_by key (key a) t = None"
    by (simp add: row_by_None_iff)
  with Cons show ?case
    by (auto simp: filter_empty_conv split: option.splits)
qed simp

section \<open>Association lists as Go maps\<close>

text \<open>A Go map whose size or entries the code looks at: keys are distinct by construction.\<close>

fun al_put :: "'k \<Rightarrow> 'v \<Rightarrow> ('k \<times> 'v) list \<Rightarrow> ('k \<times> 'v) list" where
  "al_put k v [] = [(k, v)]"
| "al_put k v ((k', v') # m) = (if k' = k then (k, v) # m else (k', v') # al_put k v m)"

definition al_del :: "'k \<Rightarrow> ('k \<times> 'v) list \<Rightarrow> ('k \<times> 'v) list" where
  "al_del k m = filter (\<lambda>p. fst p \<noteq> k) m"

abbreviation al_ok :: "('k \<times> 'v) list \<Rightarrow> bool" where
  "al_ok m \<equiv> distinct (map fst m)"

lemma map_of_al_put [simp]: "map_of (al_put k v m) = (map_of m)(k \<mapsto> v)"
  by (induction k v m rule: al_put.induct) (auto simp: fun_eq_iff)

lemma map_of_al_del [simp]: "map_of (al_del k m) = (map_of m)(k := None)"
  by (induction m) (auto simp: al_del_def fun_eq_iff)

lemma set_map_fst_al_put: "fst ` set (al_put k v m) = insert k (fst ` set m)"
  by (induction k v m rule: al_put.induct) auto

lemma al_ok_put [simp]: "al_ok m \<Longrightarrow> al_ok (al_put k v m)"
  by (induction k v m rule: al_put.induct) (auto simp: set_map_fst_al_put)

lemma al_ok_del [simp]: "al_ok m \<Longrightarrow> al_ok (al_del k m)"
  by (simp add: al_del_def distinct_map_filter)

lemma length_al_put:
  "length (al_put k v m) = (if k \<in> fst ` set m then length m else Suc (length m))"
  by (induction k v m rule: al_put.induct) auto

lemma length_al_del:
  "al_ok m \<Longrightarrow> length (al_del k m) = (if k \<in> fst ` set m then length m - 1 else length m)"
proof (induction m)
  case Nil
  then show ?case by (simp add: al_del_def)
next
  case (Cons p m)
  have "k \<notin> fst ` set m \<Longrightarrow> filter (\<lambda>q. fst q \<noteq> k) m = m"
    by (metis (mono_tags, lifting) filter_True image_eqI)
  moreover have "k \<in> fst ` set m \<Longrightarrow> 0 < length m"
    by (cases m) auto
  ultimately show ?case
    using Cons by (auto simp: al_del_def)
qed

lemma set_al_put_subset: "set (al_put k v m) \<subseteq> insert (k, v) (set m)"
  by (induction k v m rule: al_put.induct) auto

lemma set_al_del: "set (al_del k m) = {p \<in> set m. fst p \<noteq> k}"
  by (auto simp: al_del_def)

lemma sum_list_al_put:
  "al_ok m \<Longrightarrow> sum_list (map (\<lambda>p. f (snd p)) (al_put k v m)) + (case map_of m k of None \<Rightarrow> 0 | Some w \<Rightarrow> f w)
     = sum_list (map (\<lambda>p. f (snd p)) m) + (f v :: 'a :: comm_monoid_add)"
proof (induction k v m rule: al_put.induct)
  case (1 k v)
  then show ?case by simp
next
  case (2 k v k' v' m)
  then show ?case
    by (auto simp: add.assoc add.left_commute add.commute)
qed

lemma sum_list_al_del:
  "al_ok m \<Longrightarrow> sum_list (map (\<lambda>p. f (snd p)) (al_del k m)) + (case map_of m k of None \<Rightarrow> 0 | Some w \<Rightarrow> f w)
     = sum_list (map (\<lambda>p. f (snd p)) m :: 'a :: comm_monoid_add list)"
proof (induction m)
  case Nil
  then show ?case by (simp add: al_del_def)
next
  case (Cons p m)
  have same: "k \<notin> fst ` set m \<Longrightarrow> filter (\<lambda>q. fst q \<noteq> k) m = m"
    by (metis (mono_tags, lifting) filter_True image_eqI)
  show ?case
    using Cons same by (cases p) (auto simp: al_del_def add.assoc add.commute add.left_commute)
qed

section \<open>Lists\<close>

lemma length_filter_mono:
  "(\<And>x. x \<in> set xs \<Longrightarrow> P x \<Longrightarrow> Q x) \<Longrightarrow> length (filter P xs) \<le> length (filter Q xs)"
  by (induction xs) (auto simp: le_SucI)

text \<open>The last \<open>n\<close> elements of a list: what a bounded buffer keeps.\<close>

definition last_n :: "nat \<Rightarrow> 'a list \<Rightarrow> 'a list" where
  "last_n n xs = drop (length xs - n) xs"

lemma length_last_n [simp]: "length (last_n n xs) = min n (length xs)"
  by (simp add: last_n_def)

lemma last_n_all: "length xs \<le> n \<Longrightarrow> last_n n xs = xs"
  by (simp add: last_n_def)

lemma last_n_snoc_full:
  "0 < n \<Longrightarrow> n \<le> length xs \<Longrightarrow> last_n n (xs @ [x]) = tl (last_n n xs) @ [x]"
  by (simp add: last_n_def tl_drop drop_Suc Suc_diff_le flip: drop_Suc)

end
