(* ===== verification/Go_Strings.thy ===== *)
theory Go_Strings
  imports Prelude
begin

text \<open>
  The functions of Go's \<open>strings\<close>, \<open>strconv\<close> and \<open>fmt\<close> that the modelled code calls, on
  byte strings.  \<open>TrimSpace\<close> knows the UTF-8 encodings of every Unicode space;
  \<open>EqualFold\<close> folds ASCII letters (the code compares ASCII keywords and provider names
  with it); \<open>Quote\<close> is \<open>strconv.Quote\<close> (\<open>%q\<close>) on ASCII and leaves bytes from 128 on as
  they are.
\<close>

section \<open>Trimming\<close>

definition go_spaces :: "string list" where
  "go_spaces =
     [[CHR 0x09], [CHR 0x0A], [CHR 0x0B], [CHR 0x0C], [CHR 0x0D], [CHR 0x20],
      [CHR 0xC2, CHR 0x85], [CHR 0xC2, CHR 0xA0], [CHR 0xE1, CHR 0x9A, CHR 0x80]]
     @ map (\<lambda>c. [CHR 0xE2, CHR 0x80, c])
        [CHR 0x80, CHR 0x81, CHR 0x82, CHR 0x83, CHR 0x84, CHR 0x85, CHR 0x86, CHR 0x87,
         CHR 0x88, CHR 0x89, CHR 0x8A, CHR 0xA8, CHR 0xA9, CHR 0xAF]
     @ [[CHR 0xE2, CHR 0x81, CHR 0x9F], [CHR 0xE3, CHR 0x80, CHR 0x80]]"

text \<open>Length of the first listed prefix of the string, 0 when there is none.\<close>

fun prefix_len :: "string list \<Rightarrow> string \<Rightarrow> nat" where
  "prefix_len [] s = 0"
| "prefix_len (p # ps) s =
     (if p \<noteq> [] \<and> take (length p) s = p then length p else prefix_len ps s)"

lemma prefix_len_le: "prefix_len ps s \<le> length s"
proof (induction ps)
  case (Cons p ps)
  have "take (length p) s = p \<Longrightarrow> length p \<le> length s"
    by (metis length_take min.cobounded1)
  with Cons show ?case by auto
qed simp

lemma prefix_len_0_iff:
  "prefix_len ps s = 0 \<longleftrightarrow> (\<forall>p\<in>set ps. p = [] \<or> take (length p) s \<noteq> p)"
  by (induction ps) auto

function trim_by :: "string list \<Rightarrow> string \<Rightarrow> string" where
  "trim_by ps s = (if prefix_len ps s = 0 then s else trim_by ps (drop (prefix_len ps s) s))"
  by pat_completeness auto
termination
proof (relation "measure (\<lambda>(ps, s). length s)", goal_cases)
  case (2 ps s)
  then show ?case using prefix_len_le [of ps s] by auto
qed simp

declare trim_by.simps [simp del]

definition TrimSpace :: "string \<Rightarrow> string" where
  "TrimSpace s = rev (trim_by (map rev go_spaces) (rev (trim_by go_spaces s)))"

lemma trim_by_fixed: "prefix_len ps s = 0 \<Longrightarrow> trim_by ps s = s"
  by (simp add: trim_by.simps)

lemma prefix_len_trim_by: "prefix_len ps (trim_by ps s) = 0"
proof (induction ps s rule: trim_by.induct)
  case (1 ps s)
  then show ?case by (subst trim_by.simps) auto
qed

lemma trim_by_suffix: "\<exists>n. trim_by ps s = drop n s"
proof (induction ps s rule: trim_by.induct)
  case (1 ps s)
  show ?case
  proof (cases "prefix_len ps s = 0")
    case True
    then show ?thesis by (metis drop0 trim_by_fixed)
  next
    case False
    with 1 obtain n where "trim_by ps (drop (prefix_len ps s) s) = drop n (drop (prefix_len ps s) s)"
      by blast
    with False show ?thesis
      by (subst trim_by.simps) (metis drop_drop)
  qed
qed

lemma set_trim_by: "set (trim_by ps s) \<subseteq> set s"
  by (metis trim_by_suffix set_drop_subset)

lemma set_TrimSpace: "set (TrimSpace s) \<subseteq> set s"
  using set_trim_by [of "map rev go_spaces" "rev (trim_by go_spaces s)"] set_trim_by [of go_spaces s]
  by (auto simp: TrimSpace_def)

lemma prefix_len_take:
  assumes "prefix_len ps s = 0"
  shows "prefix_len ps (take n s) = 0"
  unfolding prefix_len_0_iff
proof
  fix p assume p: "p \<in> set ps"
  show "p = [] \<or> take (length p) (take n s) \<noteq> p"
  proof (rule ccontr)
    assume "\<not> ?thesis"
    then have ne: "p \<noteq> []" and eq: "take (min (length p) n) s = p" by auto
    have "length p \<le> n" using arg_cong [OF eq, of length] by simp
    with eq have "take (length p) s = p" by (simp add: min_def)
    with assms ne p show False by (auto simp: prefix_len_0_iff)
  qed
qed

lemma TrimSpace_idem [simp]: "TrimSpace (TrimSpace s) = TrimSpace s"
proof -
  let ?t = "trim_by go_spaces s"
  let ?R = "map rev go_spaces"
  obtain n where n: "trim_by ?R (rev ?t) = drop n (rev ?t)"
    using trim_by_suffix by blast
  then have u: "TrimSpace s = take (length ?t - n) ?t"
    by (simp add: TrimSpace_def rev_drop)
  then have "prefix_len go_spaces (TrimSpace s) = 0"
    using prefix_len_take [OF prefix_len_trim_by] by simp
  then have "TrimSpace (TrimSpace s) = rev (trim_by ?R (rev (TrimSpace s)))"
    by (simp add: TrimSpace_def trim_by_fixed)
  also have "\<dots> = TrimSpace s"
    by (simp add: TrimSpace_def trim_by_fixed prefix_len_trim_by)
  finally show ?thesis .
qed

lemma TrimSpace_Nil [simp]: "TrimSpace [] = []"
  by (simp add: TrimSpace_def trim_by.simps prefix_len_0_iff go_spaces_def)

text \<open>A string of graphic ASCII characters has nothing to trim.\<close>

definition graphic :: "char \<Rightarrow> bool" where
  "graphic c \<longleftrightarrow> (32 :: nat) < of_char c \<and> of_char c < (127 :: nat)"

lemma go_spaces_not_graphic: "\<forall>p\<in>set go_spaces. \<exists>c\<in>set p. \<not> graphic c"
  by (simp add: go_spaces_def graphic_def)

lemma prefix_len_graphic:
  "\<forall>p\<in>set ps. \<exists>c\<in>set p. \<not> graphic c \<Longrightarrow> \<forall>c\<in>set s. graphic c \<Longrightarrow> prefix_len ps s = 0"
  unfolding prefix_len_0_iff by (metis in_set_takeD)

lemma TrimSpace_graphic: "\<forall>c\<in>set s. graphic c \<Longrightarrow> TrimSpace s = s"
  using go_spaces_not_graphic
  by (simp add: TrimSpace_def trim_by_fixed prefix_len_graphic)

section \<open>Comparing, joining, splitting\<close>

definition ascii_lower :: "char \<Rightarrow> char" where
  "ascii_lower c = (let n = of_char c :: nat in if 65 \<le> n \<and> n \<le> 90 then char_of (n + 32) else c)"

definition EqualFold :: "string \<Rightarrow> string \<Rightarrow> bool" where
  "EqualFold s t \<longleftrightarrow> map ascii_lower s = map ascii_lower t"

lemma EqualFold_refl [simp]: "EqualFold s s"
  by (simp add: EqualFold_def)

definition HasPrefix :: "string \<Rightarrow> string \<Rightarrow> bool" where
  "HasPrefix s p \<longleftrightarrow> take (length p) s = p"

lemma HasPrefix_iff: "HasPrefix s p \<longleftrightarrow> (\<exists>r. s = p @ r)"
  by (auto simp: HasPrefix_def) (metis append_take_drop_id)

fun split_on :: "char \<Rightarrow> string \<Rightarrow> string list" where
  "split_on c [] = [[]]"
| "split_on c (x # xs) =
     (if x = c then [] # split_on c xs
      else (case split_on c xs of [] \<Rightarrow> [[x]] | y # ys \<Rightarrow> (x # y) # ys))"

fun join_with :: "char \<Rightarrow> string list \<Rightarrow> string" where
  "join_with c [] = []"
| "join_with c [x] = x"
| "join_with c (x # y # ys) = x @ c # join_with c (y # ys)"

lemma split_on_nonempty [simp]: "split_on c s \<noteq> []"
  by (induction s) (auto split: list.split)

lemma split_on_no_sep: "x \<in> set (split_on c s) \<Longrightarrow> c \<notin> set x"
  by (induction s arbitrary: x) (auto split: list.splits if_splits)

lemma split_on_append:
  "split_on c (s @ c # t) = split_on c s @ split_on c t"
  by (induction s) (auto split: list.splits)

lemma split_on_id: "c \<notin> set s \<Longrightarrow> split_on c s = [s]"
  by (induction s) auto

lemma join_split: "join_with c (split_on c s) = s"
proof (induction s)
  case (Cons x s)
  then show ?case
    by (cases "split_on c s") (auto, metis join_with.simps list.exhaust append_Cons)+
qed simp

section \<open>Numbers as text\<close>

definition digit_char :: "nat \<Rightarrow> char" where
  "digit_char d = char_of (48 + d)"

definition is_digit :: "char \<Rightarrow> bool" where
  "is_digit c \<longleftrightarrow> 48 \<le> (of_char c :: nat) \<and> (of_char c :: nat) \<le> 57"

definition digit_val :: "char \<Rightarrow> nat" where
  "digit_val c = of_char c - 48"

lemma digit_char_simps [simp]:
  "d < 10 \<Longrightarrow> is_digit (digit_char d)"
  "d < 10 \<Longrightarrow> digit_val (digit_char d) = d"
  by (simp_all add: is_digit_def digit_val_def digit_char_def)

lemma digit_char_0 [simp]: "digit_char 0 = CHR ''0''"
  by (simp add: digit_char_def char_of_def bit_0)

fun dec_nat :: "nat \<Rightarrow> string" where
  "dec_nat n = (if n < 10 then [digit_char n] else dec_nat (n div 10) @ [digit_char (n mod 10)])"

declare dec_nat.simps [simp del]

definition Itoa :: "int \<Rightarrow> string" where
  "Itoa i = (if i < 0 then CHR ''-'' # dec_nat (nat (- i)) else dec_nat (nat i))"

definition val_of_digits :: "string \<Rightarrow> nat" where
  "val_of_digits s = foldl (\<lambda>a c. a * 10 + digit_val c) 0 s"

lemma val_of_digits_snoc [simp]: "val_of_digits (s @ [c]) = val_of_digits s * 10 + digit_val c"
  by (simp add: val_of_digits_def)

lemma dec_nat_digits: "\<forall>c\<in>set (dec_nat n). is_digit c"
proof (induction n rule: dec_nat.induct)
  case (1 n)
  then show ?case by (subst dec_nat.simps) auto
qed

lemma dec_nat_nonempty [simp]: "dec_nat n \<noteq> []"
  by (subst dec_nat.simps) simp

lemma val_dec_nat [simp]: "val_of_digits (dec_nat n) = n"
proof (induction n rule: dec_nat.induct)
  case (1 n)
  then show ?case
    by (subst dec_nat.simps) (auto simp: val_of_digits_def)
qed

lemma dec_nat_inj: "dec_nat m = dec_nat n \<Longrightarrow> m = n"
  by (metis val_dec_nat)

definition hex_digit :: "nat \<Rightarrow> char" where
  "hex_digit d = (if d < 10 then digit_char d else char_of (87 + d))"

text \<open>\<open>fmt.Sprintf("%08x", b)\<close> on a byte slice: two hex digits per byte.\<close>

definition hex_bytes :: "string \<Rightarrow> string" where
  "hex_bytes bs = concat (map (\<lambda>c. [hex_digit (of_char c div 16), hex_digit (of_char c mod 16)]) bs)"

definition quote_char :: "char \<Rightarrow> string" where
  "quote_char c = (let n = of_char c :: nat in
     if n = 34 then [CHR 0x5C, CHR 0x22] else if n = 92 then [CHR 0x5C, CHR 0x5C]
     else if n = 7 then [CHR 0x5C, CHR ''a''] else if n = 8 then [CHR 0x5C, CHR ''b'']
     else if n = 12 then [CHR 0x5C, CHR ''f''] else if n = 10 then [CHR 0x5C, CHR ''n'']
     else if n = 13 then [CHR 0x5C, CHR ''r''] else if n = 9 then [CHR 0x5C, CHR ''t'']
     else if n = 11 then [CHR 0x5C, CHR ''v'']
     else if n < 32 \<or> n = 127 then [CHR 0x5C, CHR ''x'', hex_digit (n div 16), hex_digit (n mod 16)]
     else [c])"

definition Quote :: "string \<Rightarrow> string" where
  "Quote s = CHR 0x22 # concat (map quote_char s) @ [CHR 0x22]"

section \<open>Searching\<close>

text \<open>\<open>strings.Index\<close> and \<open>strings.LastIndex\<close> of one byte; \<open>None\<close> is -1.  \<open>ToLower\<close> knows ASCII.\<close>

fun index_of :: "char \<Rightarrow> string \<Rightarrow> nat option" where
  "index_of c [] = None"
| "index_of c (d # s) = (if d = c then Some 0 else map_option Suc (index_of c s))"

definition last_index_of :: "char \<Rightarrow> string \<Rightarrow> nat option" where
  "last_index_of c s = map_option (\<lambda>n. length s - 1 - n) (index_of c (rev s))"

definition ToLower :: "string \<Rightarrow> string" where
  "ToLower s = map ascii_lower s"

end
