(* ===== verification/Store_Types.thy ===== *)
theory Store_Types
  imports Go_Strings
begin

text \<open>
  The rows of \<open>internal/store/store.go\<close> and the database of a server, as the tables of
  \<open>internal/store/migrations.go\<close>.  A column that holds JSON is modelled by the value its
  text decodes to: a metadata object by its entries, the lists of a worker by
  \<open>None\<close> when the text is not a JSON array of strings.
\<close>

type_synonym metadata = "(string \<times> string) list"

record SandboxRecord =
  sr_ID :: string
  sr_State :: string
  sr_Provider :: string
  sr_Image :: string
  sr_MemoryMB :: int
  sr_VCPUs :: int
  sr_Metadata :: metadata
  sr_OwnerID :: string
  sr_TenantID :: string
  sr_VMID :: string
  sr_WorkerID :: string
  sr_CreatedAt :: time
  sr_ExpiresAt :: time
  sr_UpdatedAt :: time

record ExecLogRecord =
  xl_SandboxID :: string
  xl_Command :: string
  xl_ExitCode :: int
  xl_Stdout :: string
  xl_Stderr :: string
  xl_Duration :: string
  xl_CreatedAt :: time

record SecretConfig =
  sc_Name :: string
  sc_InjectAt :: string

record TemplateRecord =
  tr_Name :: string
  tr_Version :: int
  tr_Image :: string
  tr_Description :: string
  tr_Setup :: "string list"
  tr_AllowedHosts :: "string list"
  tr_MemoryMB :: int
  tr_CPUCores :: int
  tr_TTLSeconds :: int
  tr_Env :: metadata
  tr_Secrets :: "SecretConfig list"
  tr_PoolSize :: int
  tr_CreatedAt :: time
  tr_UpdatedAt :: time

record OwnerQuotaRecord =
  q_OwnerID :: string
  q_MaxSandboxes :: int
  q_MaxTTLSeconds :: int
  q_MaxExecTimeoutSeconds :: int
  q_CreatedAt :: time
  q_UpdatedAt :: time

record OperationAuditRecord =
  oa_Actor :: string
  oa_Action :: string
  oa_SandboxID :: string
  oa_Resource :: string
  oa_Provider :: string
  oa_Status :: string
  oa_Detail :: string
  oa_TenantID :: string
  oa_CreatedAt :: time

record workerCapacity =
  wc_MaxSandboxes :: int
  wc_RPCURL :: string
  wc_PreviewDomain :: string

record WorkerRecord =
  w_ID :: string
  w_Hostname :: string
  w_Status :: string
  w_Providers :: "string list option"
  w_Capabilities :: "string list option"
  w_Capacity :: workerCapacity
  w_LastHeartbeat :: time
  w_CreatedAt :: time
  w_UpdatedAt :: time

record LeaseRecord =
  l_ResourceID :: string
  l_ResourceType :: string
  l_HolderID :: string
  l_Generation :: int
  l_ExpiresAt :: time
  l_CreatedAt :: time
  l_UpdatedAt :: time

record TenantRecord =
  tn_ID :: string
  tn_Name :: string
  tn_OwnerID :: string
  tn_Settings :: string
  tn_CreatedAt :: time
  tn_UpdatedAt :: time

record TenantMemberRecord =
  tm_TenantID :: string
  tm_UserID :: string
  tm_Role :: string
  tm_CreatedAt :: time
  tm_UpdatedAt :: time

record PolicyRecord =
  p_ID :: string
  p_TenantID :: string
  p_ResourceType :: string
  p_Effect :: string
  p_Pattern :: string
  p_Priority :: int
  p_CreatedAt :: time
  p_UpdatedAt :: time

record AdminAuditRecord =
  aa_ID :: int
  aa_Actor :: string
  aa_Method :: string
  aa_Path :: string
  aa_Status :: int
  aa_DurationMS :: int
  aa_RequestID :: string
  aa_RemoteAddr :: string
  aa_UserAgent :: string
  aa_TenantID :: string
  aa_CreatedAt :: time

record ProviderConfigRecord =
  pf_Name :: string
  pf_Config :: string
  pf_Enabled :: bool
  pf_UpdatedAt :: time

record EnvironmentSpecRecord =
  es_ID :: string
  es_OwnerID :: string
  es_Name :: string
  es_BaseImage :: string
  es_PythonPackages :: "string list"
  es_AptPackages :: "string list"
  es_PythonVersion :: string
  es_CreatedAt :: time
  es_UpdatedAt :: time

record EnvironmentBuildRecord =
  eb_ID :: string
  eb_SpecID :: string
  eb_Status :: string
  eb_CurrentStep :: string
  eb_LogBlob :: string
  eb_ImageSizeBytes :: int
  eb_DigestLocal :: string
  eb_Error :: string
  eb_CreatedAt :: time
  eb_FinishedAt :: "time option"
  eb_UpdatedAt :: time

text \<open>The id of an artifact is its place in the table: rows are never deleted.\<close>

record EnvironmentArtifactRecord =
  ar_BuildID :: string
  ar_Target :: string
  ar_ImageRef :: string
  ar_Digest :: string
  ar_Status :: string
  ar_Error :: string
  ar_CreatedAt :: time
  ar_UpdatedAt :: time

record RegistryConnectionRecord =
  rg_ID :: string
  rg_OwnerID :: string
  rg_Provider :: string
  rg_Username :: string
  rg_SecretRef :: string
  rg_IsDefault :: bool
  rg_CreatedAt :: time
  rg_UpdatedAt :: time

text \<open>\<open>t_audit_seq\<close> is the last id the audit table gave out.\<close>

record store =
  t_sandboxes :: "SandboxRecord list"
  t_quotas :: "OwnerQuotaRecord list"
  t_op_audit :: "OperationAuditRecord list"
  t_workers :: "WorkerRecord list"
  t_leases :: "LeaseRecord list"
  t_exec_logs :: "ExecLogRecord list"
  t_templates :: "TemplateRecord list"
  t_tenants :: "TenantRecord list"
  t_members :: "TenantMemberRecord list"
  t_policies :: "PolicyRecord list"
  t_admin_audit :: "AdminAuditRecord list"
  t_audit_seq :: int
  t_provider_configs :: "ProviderConfigRecord list"
  t_specs :: "EnvironmentSpecRecord list"
  t_builds :: "EnvironmentBuildRecord list"
  t_artifacts :: "EnvironmentArtifactRecord list"
  t_registries :: "RegistryConnectionRecord list"

definition empty_store :: store where
  "empty_store = \<lparr>t_sandboxes = [], t_quotas = [], t_op_audit = [], t_workers = [], t_leases = [],
     t_exec_logs = [], t_templates = [], t_tenants = [], t_members = [], t_policies = [],
     t_admin_audit = [], t_audit_seq = 0, t_provider_configs = [], t_specs = [], t_builds = [], t_artifacts = [],
     t_registries = []\<rparr>"

text \<open>
  One call of a \<open>Store\<close> method, with the key it names.  \<open>db_fail\<close> says which calls the
  database refuses (I/O error, lock timeout); a refused call changes nothing.  \<open>db_now\<close>
  is what \<open>time.Now\<close> answers.
\<close>

datatype store_op =
    OpCreateSandbox string | OpGetSandbox string | OpListSandboxes | OpUpdateSandboxState string
  | OpUpdateSandboxExpiresAt string | OpListExpiredSandboxes | OpListSandboxesByOwner string
  | OpCountSandboxesByVM string
  | OpSaveOwnerQuota string | OpGetOwnerQuota string | OpListOwnerQuotas | OpDeleteOwnerQuota string
  | OpCreateOperationAudit | OpListOperationAudit
  | OpSaveWorker string | OpGetWorker string | OpListWorkers | OpDeleteWorker string
  | OpAcquireLease string | OpRenewLease string | OpGetLease string | OpListLeases
  | OpReleaseLease string
  | OpCreateExecLog | OpListExecLogs
  | OpCreateTemplate string | OpGetTemplate string | OpListTemplates | OpUpdateTemplate string
  | OpDeleteTemplate string
  | OpCreateTenant string | OpGetTenant string | OpListTenants | OpUpdateTenant string
  | OpDeleteTenant string
  | OpSaveTenantMember string string | OpGetTenantMember string string | OpListTenantMembers
  | OpDeleteTenantMember string string
  | OpCreatePolicy string | OpGetPolicy string | OpListPolicies | OpDeletePolicy string
  | OpCreateAdminAudit | OpListAdminAudit | OpDeleteAdminAuditBefore
  | OpGetProviderConfig string | OpSaveProviderConfig string | OpListProviderConfigs
  | OpCreateEnvironmentSpec string | OpGetEnvironmentSpec string | OpListEnvironmentSpecs string
  | OpUpdateEnvironmentSpec string | OpDeleteEnvironmentSpec string
  | OpCreateEnvironmentBuild string | OpGetEnvironmentBuild string | OpListEnvironmentBuilds string
  | OpUpdateEnvironmentBuild string
  | OpSaveEnvironmentArtifact string string | OpListEnvironmentArtifacts string
  | OpSaveRegistryConnection string | OpGetRegistryConnection string | OpListRegistryConnections string
  | OpDeleteRegistryConnection string

record dbenv =
  db_now :: time
  db_fail :: "store_op \<Rightarrow> error option"

section \<open>Errors of the store\<close>

definition NotFoundError :: "string \<Rightarrow> string \<Rightarrow> error" where
  "NotFoundError resource k =
     (if k = [] then Err ErrNotFound (''not found: '' @ resource)
      else Err ErrNotFound (''not found: '' @ resource @ '' '' @ Quote k))"

definition ConflictError :: "string \<Rightarrow> error" where
  "ConflictError msg = Err ErrConflict (''conflict: '' @ msg)"

definition contains :: "string \<Rightarrow> string \<Rightarrow> bool" where
  "contains s sub \<longleftrightarrow> list_ex (\<lambda>n. HasPrefix (drop n s) sub) [0..<Suc (length s)]"

definition IsConstraintError :: "error option \<Rightarrow> bool" where
  "IsConstraintError err =
     (case err of None \<Rightarrow> False
      | Some e \<Rightarrow> contains (err_msg e) ''UNIQUE constraint''
                \<or> contains (err_msg e) ''constraint failed''
                \<or> contains (err_msg e) ''constraint violation''
                \<or> contains (err_msg e) ''duplicate key value violates unique constraint'')"

text \<open>What the driver reports for a second row with the same primary key.\<close>

definition unique_violation :: "string \<Rightarrow> error" where
  "unique_violation col = Err ErrOther (''constraint failed: UNIQUE constraint failed: '' @ col)"

lemma contains_prefix: "HasPrefix s sub \<Longrightarrow> contains s sub"
  by (auto simp: contains_def list_ex_iff intro!: bexI [of _ 0])

lemma IsConstraintError_unique [simp]: "IsConstraintError (Some (unique_violation col))"
proof -
  have "HasPrefix (err_msg (unique_violation col)) ''constraint failed''"
    unfolding HasPrefix_iff by (simp add: unique_violation_def)
  then show ?thesis by (auto simp: IsConstraintError_def dest: contains_prefix)
qed

lemma err_kind_store [simp]:
  "err_kind (NotFoundError r k) = ErrNotFound" "err_kind (ConflictError m) = ErrConflict"
  "err_kind (unique_violation c) = ErrOther"
  by (simp_all add: NotFoundError_def ConflictError_def unique_violation_def)

end
