(* ===== verification/Store.thy ===== *)
theory Store
  imports Store_Types
begin

text \<open>
  \<open>internal/store/sqlite.go\<close>: sandboxes, owner quotas, workers, leases and logs.  A method
  that only reads returns \<open>error + value\<close>; one that writes also returns the new store.
  Rows come back in the order of the \<open>ORDER BY\<close> clause, rows that compare equal in
  insertion order.
\<close>

section \<open>Sandboxes\<close>

definition CreateSandbox :: "'e dbenv_scheme \<Rightarrow> SandboxRecord \<Rightarrow> store \<Rightarrow> error option \<times> store" where
  "CreateSandbox E sb s =
     (let sb = (if TrimSpace (sr_WorkerID sb) = [] then sb\<lparr>sr_WorkerID := ''local''\<rparr> else sb)
      in case db_fail E (OpCreateSandbox (sr_ID sb)) of
           Some e \<Rightarrow> (Some e, s)
         | None \<Rightarrow>
             if row_by sr_ID (sr_ID sb) (t_sandboxes s) \<noteq> None
             then (Some (unique_violation ''sandboxes.id''), s)
             else (None, s\<lparr>t_sandboxes := t_sandboxes s @ [sb]\<rparr>))"

definition GetSandbox :: "'e dbenv_scheme \<Rightarrow> string \<Rightarrow> store \<Rightarrow> error + SandboxRecord" where
  "GetSandbox E i s =
     (case db_fail E (OpGetSandbox i) of
        Some e \<Rightarrow> Inl e
      | None \<Rightarrow> (case row_by sr_ID i (t_sandboxes s) of
                  None \<Rightarrow> Inl (NotFoundError ''sandbox'' i)
                | Some r \<Rightarrow> Inr r))"

definition ListSandboxes :: "'e dbenv_scheme \<Rightarrow> store \<Rightarrow> error + SandboxRecord list" where
  "ListSandboxes E s =
     (case db_fail E OpListSandboxes of
        Some e \<Rightarrow> Inl e
      | None \<Rightarrow> Inr (sort_key (\<lambda>r. - sr_CreatedAt r)
                      (filter (\<lambda>r. sr_State r \<noteq> ''destroyed'') (t_sandboxes s))))"

definition UpdateSandboxState ::
  "'e dbenv_scheme \<Rightarrow> string \<Rightarrow> string \<Rightarrow> store \<Rightarrow> error option \<times> store" where
  "UpdateSandboxState E i st s =
     (case db_fail E (OpUpdateSandboxState i) of
        Some e \<Rightarrow> (Some e, s)
      | None \<Rightarrow>
          if rows_affected (\<lambda>r. sr_ID r = i) (t_sandboxes s) = 0
          then (Some (NotFoundError ''sandbox'' i), s)
          else (None, s\<lparr>t_sandboxes := upd_where (\<lambda>r. sr_ID r = i)
                     (\<lambda>r. r\<lparr>sr_State := st, sr_UpdatedAt := db_now E\<rparr>) (t_sandboxes s)\<rparr>))"

definition UpdateSandboxExpiresAt ::
  "'e dbenv_scheme \<Rightarrow> string \<Rightarrow> time \<Rightarrow> store \<Rightarrow> error option \<times> store" where
  "UpdateSandboxExpiresAt E i expiresAt s =
     (case db_fail E (OpUpdateSandboxExpiresAt i) of
        Some e \<Rightarrow> (Some e, s)
      | None \<Rightarrow>
          if rows_affected (\<lambda>r. sr_ID r = i \<and> sr_State r \<noteq> ''destroyed'') (t_sandboxes s) = 0
          then (Some (NotFoundError ''sandbox'' i), s)
          else (None, s\<lparr>t_sandboxes := upd_where (\<lambda>r. sr_ID r = i \<and> sr_State r \<noteq> ''destroyed'')
                     (\<lambda>r. r\<lparr>sr_ExpiresAt := expiresAt, sr_UpdatedAt := db_now E\<rparr>) (t_sandboxes s)\<rparr>))"

definition DeleteSandbox :: "'e dbenv_scheme \<Rightarrow> string \<Rightarrow> store \<Rightarrow> error option \<times> store" where
  "DeleteSandbox E i s = UpdateSandboxState E i ''destroyed'' s"

definition ListExpiredSandboxes :: "'e dbenv_scheme \<Rightarrow> time \<Rightarrow> store \<Rightarrow> error + SandboxRecord list" where
  "ListExpiredSandboxes E before s =
     (case db_fail E OpListExpiredSandboxes of
        Some e \<Rightarrow> Inl e
      | None \<Rightarrow> Inr (filter (\<lambda>r. sr_State r \<noteq> ''destroyed'' \<and> sr_ExpiresAt r < before) (t_sandboxes s)))"

definition ListSandboxesByOwner :: "'e dbenv_scheme \<Rightarrow> string \<Rightarrow> store \<Rightarrow> error + SandboxRecord list" where
  "ListSandboxesByOwner E ownerID s =
     (case db_fail E (OpListSandboxesByOwner ownerID) of
        Some e \<Rightarrow> Inl e
      | None \<Rightarrow> Inr (sort_key (\<lambda>r. - sr_CreatedAt r)
                      (filter (\<lambda>r. sr_State r \<noteq> ''destroyed'' \<and> sr_OwnerID r = ownerID) (t_sandboxes s))))"

definition CountSandboxesByVM :: "'e dbenv_scheme \<Rightarrow> string \<Rightarrow> store \<Rightarrow> error + nat" where
  "CountSandboxesByVM E vmID s =
     (case db_fail E (OpCountSandboxesByVM vmID) of
        Some e \<Rightarrow> Inl e
      | None \<Rightarrow> Inr (rows_affected (\<lambda>r. sr_State r \<noteq> ''destroyed'' \<and> sr_VMID r = vmID) (t_sandboxes s)))"

section \<open>Owner quotas\<close>

definition SaveOwnerQuota :: "'e dbenv_scheme \<Rightarrow> OwnerQuotaRecord \<Rightarrow> store \<Rightarrow> error option \<times> store" where
  "SaveOwnerQuota E quota s =
     (let quota = (if q_CreatedAt quota = 0 then quota\<lparr>q_CreatedAt := db_now E\<rparr> else quota);
          quota = quota\<lparr>q_UpdatedAt := db_now E\<rparr>
      in case db_fail E (OpSaveOwnerQuota (q_OwnerID quota)) of
           Some e \<Rightarrow> (Some e, s)
         | None \<Rightarrow>
             (None, s\<lparr>t_quotas :=
                (if row_by q_OwnerID (q_OwnerID quota) (t_quotas s) = None then t_quotas s @ [quota]
                 else upd_where (\<lambda>r. q_OwnerID r = q_OwnerID quota)
                        (\<lambda>r. r\<lparr>q_MaxSandboxes := q_MaxSandboxes quota,
                               q_MaxTTLSeconds := q_MaxTTLSeconds quota,
                               q_MaxExecTimeoutSeconds := q_MaxExecTimeoutSeconds quota,
                               q_UpdatedAt := q_UpdatedAt quota\<rparr>) (t_quotas s))\<rparr>))"

definition GetOwnerQuotaRecord :: "'e dbenv_scheme \<Rightarrow> string \<Rightarrow> store \<Rightarrow> error + OwnerQuotaRecord" where
  "GetOwnerQuotaRecord E ownerID s =
     (case db_fail E (OpGetOwnerQuota ownerID) of
        Some e \<Rightarrow> Inl e
      | None \<Rightarrow> (case row_by q_OwnerID ownerID (t_quotas s) of
                  None \<Rightarrow> Inl (NotFoundError ''owner_quota'' ownerID)
                | Some q \<Rightarrow> Inr q))"

text \<open>\<open>ORDER BY owner_id ASC\<close> compares text byte by byte.\<close>

fun bytes_le :: "string \<Rightarrow> string \<Rightarrow> bool" where
  "bytes_le [] t = True"
| "bytes_le (x # s) [] = False"
| "bytes_le (x # s) (y # t) =
     (let m = of_char x :: nat; n = of_char y in m < n \<or> m = n \<and> bytes_le s t)"

fun insert_by :: "('a \<Rightarrow> 'a \<Rightarrow> bool) \<Rightarrow> 'a \<Rightarrow> 'a list \<Rightarrow> 'a list" where
  "insert_by le x [] = [x]"
| "insert_by le x (y # ys) = (if le x y then x # y # ys else y # insert_by le x ys)"

definition order_by :: "('a \<Rightarrow> string) \<Rightarrow> 'a list \<Rightarrow> 'a list" where
  "order_by key xs = foldr (insert_by (\<lambda>a b. bytes_le (key a) (key b))) xs []"

lemma set_insert_by [simp]: "set (insert_by le x ys) = insert x (set ys)"
  by (induction ys) auto

lemma set_order_by [simp]: "set (order_by key xs) = set xs"
  by (induction xs) (auto simp: order_by_def)

lemma length_insert_by [simp]: "length (insert_by le x ys) = Suc (length ys)"
  by (induction ys) auto

lemma length_order_by [simp]: "length (order_by key xs) = length xs"
  by (induction xs) (auto simp: order_by_def)

definition ListOwnerQuotaRecords :: "'e dbenv_scheme \<Rightarrow> store \<Rightarrow> error + OwnerQuotaRecord list" where
  "ListOwnerQuotaRecords E s =
     (case db_fail E OpListOwnerQuotas of
        Some e \<Rightarrow> Inl e | None \<Rightarrow> Inr (order_by q_OwnerID (t_quotas s)))"

definition DeleteOwnerQuotaRecord :: "'e dbenv_scheme \<Rightarrow> string \<Rightarrow> store \<Rightarrow> error option \<times> store" where
  "DeleteOwnerQuotaRecord E ownerID s =
     (case db_fail E (OpDeleteOwnerQuota ownerID) of
        Some e \<Rightarrow> (Some e, s)
      | None \<Rightarrow>
          if rows_affected (\<lambda>r. q_OwnerID r = ownerID) (t_quotas s) = 0
          then (Some (NotFoundError ''owner_quota'' ownerID), s)
          else (None, s\<lparr>t_quotas := del_where (\<lambda>r. q_OwnerID r = ownerID) (t_quotas s)\<rparr>))"

section \<open>Operation audit and exec logs\<close>

definition CreateOperationAudit ::
  "'e dbenv_scheme \<Rightarrow> OperationAuditRecord \<Rightarrow> store \<Rightarrow> error option \<times> store" where
  "CreateOperationAudit E r s =
     (let r = (if oa_CreatedAt r = 0 then r\<lparr>oa_CreatedAt := db_now E\<rparr> else r)
      in case db_fail E OpCreateOperationAudit of
           Some e \<Rightarrow> (Some e, s)
         | None \<Rightarrow> (None, s\<lparr>t_op_audit := t_op_audit s @ [r]\<rparr>))"

record OperationAuditQuery =
  aq_Limit :: int
  aq_Actor :: string
  aq_Action :: string
  aq_SandboxID :: string
  aq_Resource :: string
  aq_Status :: string
  aq_TenantID :: string

definition audit_limit :: "int \<Rightarrow> int" where
  "audit_limit n = (let n = (if n \<le> 0 then 100 else n) in if n > 500 then 500 else n)"

definition audit_match :: "OperationAuditQuery \<Rightarrow> OperationAuditRecord \<Rightarrow> bool" where
  "audit_match q r \<longleftrightarrow>
     (aq_Actor q \<noteq> [] \<longrightarrow> oa_Actor r = aq_Actor q) \<and>
     (aq_Action q \<noteq> [] \<longrightarrow> oa_Action r = aq_Action q) \<and>
     (aq_SandboxID q \<noteq> [] \<longrightarrow> oa_SandboxID r = aq_SandboxID q) \<and>
     (aq_Resource q \<noteq> [] \<longrightarrow> oa_Resource r = aq_Resource q) \<and>
     (aq_Status q \<noteq> [] \<longrightarrow> oa_Status r = aq_Status q) \<and>
     (aq_TenantID q \<noteq> [] \<longrightarrow> oa_TenantID r = aq_TenantID q)"

text \<open>\<open>ORDER BY created_at DESC, id DESC LIMIT n\<close>: ids grow with insertion.\<close>

definition ListOperationAudit ::
  "'e dbenv_scheme \<Rightarrow> OperationAuditQuery \<Rightarrow> store \<Rightarrow> error + OperationAuditRecord list" where
  "ListOperationAudit E q s =
     (case db_fail E OpListOperationAudit of
        Some e \<Rightarrow> Inl e
      | None \<Rightarrow> Inr (take (nat (audit_limit (aq_Limit q)))
                      (sort_key (\<lambda>r. - oa_CreatedAt r)
                        (rev (filter (audit_match q) (t_op_audit s))))))"

definition CreateExecLog :: "'e dbenv_scheme \<Rightarrow> ExecLogRecord \<Rightarrow> store \<Rightarrow> error option \<times> store" where
  "CreateExecLog E l s =
     (case db_fail E OpCreateExecLog of
        Some e \<Rightarrow> (Some e, s)
      | None \<Rightarrow> (None, s\<lparr>t_exec_logs := t_exec_logs s @ [l]\<rparr>))"

definition ListExecLogs :: "'e dbenv_scheme \<Rightarrow> string \<Rightarrow> store \<Rightarrow> error + ExecLogRecord list" where
  "ListExecLogs E sandboxID s =
     (case db_fail E OpListExecLogs of
        Some e \<Rightarrow> Inl e
      | None \<Rightarrow> Inr (sort_key (\<lambda>l. - xl_CreatedAt l)
                      (filter (\<lambda>l. xl_SandboxID l = sandboxID) (t_exec_logs s))))"

section \<open>Workers\<close>

definition SaveWorker :: "'e dbenv_scheme \<Rightarrow> WorkerRecord \<Rightarrow> store \<Rightarrow> error option \<times> store" where
  "SaveWorker E w s =
     (let w = (if w_CreatedAt w = 0 then w\<lparr>w_CreatedAt := db_now E\<rparr> else w);
          w = (if w_LastHeartbeat w = 0 then w\<lparr>w_LastHeartbeat := db_now E\<rparr> else w);
          w = w\<lparr>w_UpdatedAt := db_now E\<rparr>
      in case db_fail E (OpSaveWorker (w_ID w)) of
           Some e \<Rightarrow> (Some e, s)
         | None \<Rightarrow>
             (None, s\<lparr>t_workers :=
                (if row_by w_ID (w_ID w) (t_workers s) = None then t_workers s @ [w]
                 else upd_where (\<lambda>r. w_ID r = w_ID w)
                        (\<lambda>r. w\<lparr>w_CreatedAt := w_CreatedAt r\<rparr>) (t_workers s))\<rparr>))"

definition GetWorker :: "'e dbenv_scheme \<Rightarrow> string \<Rightarrow> store \<Rightarrow> error + WorkerRecord" where
  "GetWorker E i s =
     (case db_fail E (OpGetWorker i) of
        Some e \<Rightarrow> Inl e
      | None \<Rightarrow> (case row_by w_ID i (t_workers s) of
                  None \<Rightarrow> Inl (NotFoundError ''worker'' i)
                | Some w \<Rightarrow> Inr w))"

definition ListWorkers :: "'e dbenv_scheme \<Rightarrow> store \<Rightarrow> error + WorkerRecord list" where
  "ListWorkers E s =
     (case db_fail E OpListWorkers of Some e \<Rightarrow> Inl e | None \<Rightarrow> Inr (order_by w_ID (t_workers s)))"

definition DeleteWorker :: "'e dbenv_scheme \<Rightarrow> string \<Rightarrow> store \<Rightarrow> error option \<times> store" where
  "DeleteWorker E i s =
     (case db_fail E (OpDeleteWorker i) of
        Some e \<Rightarrow> (Some e, s)
      | None \<Rightarrow>
          if rows_affected (\<lambda>r. w_ID r = i) (t_workers s) = 0
          then (Some (NotFoundError ''worker'' i), s)
          else (None, s\<lparr>t_workers := del_where (\<lambda>r. w_ID r = i) (t_workers s)\<rparr>))"

section \<open>Leases\<close>

definition GetLease :: "'e dbenv_scheme \<Rightarrow> string \<Rightarrow> store \<Rightarrow> error + LeaseRecord" where
  "GetLease E resourceID s =
     (case db_fail E (OpGetLease resourceID) of
        Some e \<Rightarrow> Inl e
      | None \<Rightarrow> (case row_by l_ResourceID resourceID (t_leases s) of
                  None \<Rightarrow> Inl (NotFoundError ''lease'' resourceID)
                | Some l \<Rightarrow> Inr l))"

definition ListLeases :: "'e dbenv_scheme \<Rightarrow> store \<Rightarrow> error + LeaseRecord list" where
  "ListLeases E s =
     (case db_fail E OpListLeases of Some e \<Rightarrow> Inl e | None \<Rightarrow> Inr (order_by l_ResourceID (t_leases s)))"

text \<open>
  The upsert of \<open>AcquireLease\<close>: a new row with generation 1, or an update of the row there
  is, which its \<open>WHERE\<close> allows only when that lease has run out or is the caller's own.
\<close>

definition AcquireLease ::
  "'e dbenv_scheme \<Rightarrow> string \<Rightarrow> string \<Rightarrow> string \<Rightarrow> duration \<Rightarrow> store
     \<Rightarrow> (error + LeaseRecord) \<times> store" where
  "AcquireLease E resourceID resourceType holderID ttl s =
     (if TrimSpace resourceID = [] then (Inl (ConflictError ''lease resource id is required''), s)
      else if TrimSpace holderID = [] then (Inl (ConflictError ''lease holder id is required''), s)
      else if ttl \<le> 0 then (Inl (ConflictError ''lease ttl must be positive''), s)
      else case db_fail E (OpAcquireLease resourceID) of
        Some e \<Rightarrow> (Inl e, s)
      | None \<Rightarrow>
          (let now = db_now E; expiresAt = now + ttl in
           case row_by l_ResourceID resourceID (t_leases s) of
             None \<Rightarrow>
               (let s' = s\<lparr>t_leases := t_leases s @
                    [\<lparr>l_ResourceID = resourceID, l_ResourceType = resourceType, l_HolderID = holderID,
                      l_Generation = 1, l_ExpiresAt = expiresAt, l_CreatedAt = now, l_UpdatedAt = now\<rparr>]\<rparr>
                in (GetLease E resourceID s', s'))
           | Some l \<Rightarrow>
               if l_ExpiresAt l \<le> now \<or> l_HolderID l = holderID then
                 (let s' = s\<lparr>t_leases := upd_where (\<lambda>r. l_ResourceID r = resourceID)
                      (\<lambda>r. r\<lparr>l_ResourceType := resourceType, l_HolderID := holderID,
                             l_Generation := l_Generation r + 1, l_ExpiresAt := expiresAt,
                             l_UpdatedAt := now\<rparr>) (t_leases s)\<rparr>
                  in (GetLease E resourceID s', s'))
               else (Inl (ConflictError ''lease is held by another worker''), s)))"

definition RenewLease ::
  "'e dbenv_scheme \<Rightarrow> string \<Rightarrow> string \<Rightarrow> duration \<Rightarrow> store \<Rightarrow> (error + LeaseRecord) \<times> store" where
  "RenewLease E resourceID holderID ttl s =
     (if ttl \<le> 0 then (Inl (ConflictError ''lease ttl must be positive''), s)
      else case db_fail E (OpRenewLease resourceID) of
        Some e \<Rightarrow> (Inl e, s)
      | None \<Rightarrow>
          (let now = db_now E;
               P = (\<lambda>r. l_ResourceID r = resourceID \<and> l_HolderID r = holderID \<and> l_ExpiresAt r > now)
           in if rows_affected P (t_leases s) = 0
              then (Inl (ConflictError ''lease is not held by worker or has expired''), s)
              else (let s' = s\<lparr>t_leases := upd_where P
                        (\<lambda>r. r\<lparr>l_Generation := l_Generation r + 1, l_ExpiresAt := now + ttl,
                               l_UpdatedAt := now\<rparr>) (t_leases s)\<rparr>
                    in (GetLease E resourceID s', s'))))"

definition ReleaseLease :: "'e dbenv_scheme \<Rightarrow> string \<Rightarrow> string \<Rightarrow> store \<Rightarrow> error option \<times> store" where
  "ReleaseLease E resourceID holderID s =
     (case db_fail E (OpReleaseLease resourceID) of
        Some e \<Rightarrow> (Some e, s)
      | None \<Rightarrow>
          (let P = (\<lambda>r. l_ResourceID r = resourceID \<and> l_HolderID r = holderID) in
           if rows_affected P (t_leases s) = 0
           then (Some (NotFoundError ''lease'' resourceID), s)
           else (None, s\<lparr>t_leases := del_where P (t_leases s)\<rparr>)))"

end
