(* ===== verification/Store_Laws.thy ===== *)
theory Store_Laws
  imports Store
begin

text \<open>
  What the store promises its callers.  Two interfaces are stated as locales: an upsert
  table (quotas and workers) and a lease service (the \<open>leases\<close> table).  Their client
  lemmas are proved once from the laws and used through the interpretations on the SQL
  model of \<open>Store\<close>.
\<close>

section \<open>The primary keys\<close>

definition store_ok :: "store \<Rightarrow> bool" where
  "store_ok s \<longleftrightarrow>
     unique_key sr_ID (t_sandboxes s) \<and> unique_key q_OwnerID (t_quotas s) \<and>
     unique_key w_ID (t_workers s) \<and> unique_key l_ResourceID (t_leases s) \<and>
     unique_key tr_Name (t_templates s) \<and> unique_key tn_ID (t_tenants s) \<and>
     unique_key (\<lambda>m. (tm_TenantID m, tm_UserID m)) (t_members s) \<and> unique_key p_ID (t_policies s)"

lemma store_ok_empty [simp]: "store_ok empty_store"
  by (simp add: store_ok_def empty_store_def)

lemma store_ok_CreateSandbox: "store_ok s \<Longrightarrow> store_ok (snd (CreateSandbox E sb s))"
  by (auto simp: CreateSandbox_def store_ok_def Let_def unique_key_snoc row_by_None_iff
      split: option.splits)

lemma store_ok_UpdateSandboxState: "store_ok s \<Longrightarrow> store_ok (snd (UpdateSandboxState E i st s))"
  by (auto simp: UpdateSandboxState_def store_ok_def map_key_upd_where split: option.splits)

lemma store_ok_UpdateSandboxExpiresAt:
  "store_ok s \<Longrightarrow> store_ok (snd (UpdateSandboxExpiresAt E i t s))"
  by (auto simp: UpdateSandboxExpiresAt_def store_ok_def map_key_upd_where split: option.splits)

lemma store_ok_DeleteSandbox: "store_ok s \<Longrightarrow> store_ok (snd (DeleteSandbox E i s))"
  by (simp add: DeleteSandbox_def store_ok_UpdateSandboxState)

lemma store_ok_SaveOwnerQuota: "store_ok s \<Longrightarrow> store_ok (snd (SaveOwnerQuota E q s))"
  by (auto simp: SaveOwnerQuota_def store_ok_def Let_def unique_key_snoc map_key_upd_where row_by_None_iff
      split: option.splits)

lemma store_ok_DeleteOwnerQuotaRecord: "store_ok s \<Longrightarrow> store_ok (snd (DeleteOwnerQuotaRecord E k s))"
  by (auto simp: DeleteOwnerQuotaRecord_def store_ok_def unique_key_del_where split: option.splits)

lemma store_ok_CreateOperationAudit: "store_ok s \<Longrightarrow> store_ok (snd (CreateOperationAudit E r s))"
  by (auto simp: CreateOperationAudit_def store_ok_def Let_def split: option.splits)

lemma store_ok_CreateExecLog: "store_ok s \<Longrightarrow> store_ok (snd (CreateExecLog E l s))"
  by (auto simp: CreateExecLog_def store_ok_def split: option.splits)

lemma map_key_upsert:
  "(\<And>r. key r = k \<Longrightarrow> key (f r) = k) \<Longrightarrow> map key (upd_where (\<lambda>r. key r = k) f t) = map key t"
  by (rule map_key_upd_where) auto

lemma store_ok_SaveWorker: "store_ok s \<Longrightarrow> store_ok (snd (SaveWorker E w s))"
  by (auto simp: SaveWorker_def store_ok_def Let_def unique_key_snoc map_key_upsert row_by_None_iff
      split: option.splits)

lemma store_ok_DeleteWorker: "store_ok s \<Longrightarrow> store_ok (snd (DeleteWorker E i s))"
  by (auto simp: DeleteWorker_def store_ok_def unique_key_del_where split: option.splits)

lemma store_ok_AcquireLease: "store_ok s \<Longrightarrow> store_ok (snd (AcquireLease E r ty h ttl s))"
  by (auto simp: AcquireLease_def store_ok_def Let_def map_key_upd_where row_by_None_iff
      split: option.splits)

lemma store_ok_RenewLease: "store_ok s \<Longrightarrow> store_ok (snd (RenewLease E r h ttl s))"
  by (auto simp: RenewLease_def store_ok_def Let_def map_key_upd_where split: option.splits)

lemma store_ok_ReleaseLease: "store_ok s \<Longrightarrow> store_ok (snd (ReleaseLease E r h s))"
  by (auto simp: ReleaseLease_def store_ok_def Let_def unique_key_del_where split: option.splits)

lemmas store_ok_intros =
  store_ok_CreateSandbox store_ok_UpdateSandboxState store_ok_UpdateSandboxExpiresAt
  store_ok_DeleteSandbox store_ok_SaveOwnerQuota store_ok_DeleteOwnerQuotaRecord
  store_ok_CreateOperationAudit store_ok_CreateExecLog store_ok_SaveWorker store_ok_DeleteWorker
  store_ok_AcquireLease store_ok_RenewLease store_ok_ReleaseLease

section \<open>Which table a method touches\<close>

lemma frame_AcquireLease [frame]:
  "t_sandboxes (snd (AcquireLease E r ty h ttl s)) = t_sandboxes s"
  "t_quotas (snd (AcquireLease E r ty h ttl s)) = t_quotas s"
  "t_workers (snd (AcquireLease E r ty h ttl s)) = t_workers s"
  "t_op_audit (snd (AcquireLease E r ty h ttl s)) = t_op_audit s"
  by (auto simp: AcquireLease_def Let_def split: option.splits)

lemma frame_ReleaseLease [frame]:
  "t_sandboxes (snd (ReleaseLease E r h s)) = t_sandboxes s"
  "t_quotas (snd (ReleaseLease E r h s)) = t_quotas s"
  "t_workers (snd (ReleaseLease E r h s)) = t_workers s"
  "t_op_audit (snd (ReleaseLease E r h s)) = t_op_audit s"
  by (auto simp: ReleaseLease_def Let_def split: option.splits)

lemma frame_CreateSandbox [frame]:
  "t_leases (snd (CreateSandbox E sb s)) = t_leases s"
  "t_quotas (snd (CreateSandbox E sb s)) = t_quotas s"
  "t_workers (snd (CreateSandbox E sb s)) = t_workers s"
  "t_op_audit (snd (CreateSandbox E sb s)) = t_op_audit s"
  by (auto simp: CreateSandbox_def Let_def split: option.splits)

lemma frame_UpdateSandboxState [frame]:
  "t_leases (snd (UpdateSandboxState E i st s)) = t_leases s"
  "t_quotas (snd (UpdateSandboxState E i st s)) = t_quotas s"
  "t_workers (snd (UpdateSandboxState E i st s)) = t_workers s"
  "t_op_audit (snd (UpdateSandboxState E i st s)) = t_op_audit s"
  by (auto simp: UpdateSandboxState_def split: option.splits)

lemma frame_UpdateSandboxExpiresAt [frame]:
  "t_leases (snd (UpdateSandboxExpiresAt E i t s)) = t_leases s"
  "t_quotas (snd (UpdateSandboxExpiresAt E i t s)) = t_quotas s"
  "t_workers (snd (UpdateSandboxExpiresAt E i t s)) = t_workers s"
  by (auto simp: UpdateSandboxExpiresAt_def split: option.splits)

lemma frame_CreateOperationAudit [frame]:
  "t_sandboxes (snd (CreateOperationAudit E r s)) = t_sandboxes s"
  "t_leases (snd (CreateOperationAudit E r s)) = t_leases s"
  "t_quotas (snd (CreateOperationAudit E r s)) = t_quotas s"
  "t_workers (snd (CreateOperationAudit E r s)) = t_workers s"
  by (auto simp: CreateOperationAudit_def Let_def split: option.splits)

lemma frame_CreateExecLog [frame]:
  "t_sandboxes (snd (CreateExecLog E l s)) = t_sandboxes s"
  "t_leases (snd (CreateExecLog E l s)) = t_leases s"
  "t_quotas (snd (CreateExecLog E l s)) = t_quotas s"
  "t_workers (snd (CreateExecLog E l s)) = t_workers s"
  by (auto simp: CreateExecLog_def split: option.splits)

section \<open>Sandboxes\<close>

lemma row_CreateSandbox:
  "fst (CreateSandbox E sb s) = None \<Longrightarrow>
   row_by sr_ID i (t_sandboxes (snd (CreateSandbox E sb s))) =
     (if i = sr_ID sb
      then Some (if TrimSpace (sr_WorkerID sb) = [] then sb\<lparr>sr_WorkerID := ''local''\<rparr> else sb)
      else row_by sr_ID i (t_sandboxes s))"
  by (auto simp: CreateSandbox_def Let_def row_by_append split: option.splits if_splits)

lemma CreateSandbox_fresh:
  "fst (CreateSandbox E sb s) = None \<Longrightarrow> row_by sr_ID (sr_ID sb) (t_sandboxes s) = None"
  by (auto simp: CreateSandbox_def Let_def split: option.splits if_splits)

lemma CreateSandbox_fail: "fst (CreateSandbox E sb s) = Some e \<Longrightarrow> snd (CreateSandbox E sb s) = s"
  by (auto simp: CreateSandbox_def Let_def split: option.splits if_splits)

lemma row_UpdateSandboxState:
  "row_by sr_ID j (t_sandboxes (snd (UpdateSandboxState E i st s))) =
     (if j = i \<and> db_fail E (OpUpdateSandboxState i) = None
      then map_option (\<lambda>r. r\<lparr>sr_State := st, sr_UpdatedAt := db_now E\<rparr>) (row_by sr_ID i (t_sandboxes s))
      else row_by sr_ID j (t_sandboxes s))"
proof (cases "row_by sr_ID j (t_sandboxes s)")
  case None
  then show ?thesis
    by (auto simp: UpdateSandboxState_def row_by_upd_where rows_affected_key_0 split: option.splits)
next
  case (Some r)
  then show ?thesis
    by (auto simp: UpdateSandboxState_def row_by_upd_where rows_affected_key_0
        dest: row_by_SomeD split: option.splits)
qed

lemma fst_UpdateSandboxState:
  "fst (UpdateSandboxState E i st s) = None \<longleftrightarrow>
     db_fail E (OpUpdateSandboxState i) = None \<and> row_by sr_ID i (t_sandboxes s) \<noteq> None"
  by (auto simp: UpdateSandboxState_def rows_affected_key_0 split: option.splits)

lemma set_ListSandboxes:
  "ListSandboxes E s = Inr rs \<Longrightarrow> set rs = {r \<in> set (t_sandboxes s). sr_State r \<noteq> ''destroyed''}"
  by (auto simp: ListSandboxes_def split: option.splits)

lemma length_ListSandboxes:
  "ListSandboxes E s = Inr rs \<Longrightarrow>
   length (filter P rs) = length (filter (\<lambda>r. sr_State r \<noteq> ''destroyed'' \<and> P r) (t_sandboxes s))"
  by (auto simp: ListSandboxes_def filter_sort conj_commute split: option.splits)

section \<open>Upsert tables\<close>

locale upsert_table =
  fixes look :: "'k \<Rightarrow> 's \<Rightarrow> 'v option"
    and save :: "'v \<Rightarrow> 's \<Rightarrow> 's"
    and key :: "'v \<Rightarrow> 'k"
    and payload :: "'v \<Rightarrow> 'p"
  assumes look_save_other: "k \<noteq> key v \<Longrightarrow> look k (save v s) = look k s"
    and look_save_same: "\<exists>w. look (key v) (save v s) = Some w \<and> key w = key v \<and> payload w = payload v"
begin

lemma look_after_saves:
  "k \<notin> key ` set vs \<Longrightarrow> look k (fold save vs s) = look k s"
  by (induction vs arbitrary: s) (auto simp: look_save_other)

text \<open>After any sequence of saves, a key holds the payload saved last under it.\<close>

lemma last_save_wins:
  assumes "key v \<notin> key ` set ws"
  shows "map_option payload (look (key v) (fold save (vs @ v # ws) s)) = Some (payload v)"
  using look_save_same [of v "fold save vs s"] by (auto simp: look_after_saves [OF assms])

end

definition quota_payload :: "OwnerQuotaRecord \<Rightarrow> int \<times> int \<times> int" where
  "quota_payload q = (q_MaxSandboxes q, q_MaxTTLSeconds q, q_MaxExecTimeoutSeconds q)"

definition worker_payload ::
  "WorkerRecord \<Rightarrow> string \<times> string \<times> string list option \<times> string list option \<times> workerCapacity" where
  "worker_payload w = (w_Hostname w, w_Status w, w_Providers w, w_Capabilities w, w_Capacity w)"

lemma row_SaveOwnerQuota:
  assumes "db_fail E (OpSaveOwnerQuota (q_OwnerID q)) = None"
  shows "row_by q_OwnerID k (t_quotas (snd (SaveOwnerQuota E q s))) =
     (if k = q_OwnerID q
      then Some (case row_by q_OwnerID k (t_quotas s) of
           None \<Rightarrow> q\<lparr>q_CreatedAt := (if q_CreatedAt q = 0 then db_now E else q_CreatedAt q), q_UpdatedAt := db_now E\<rparr>
         | Some r \<Rightarrow> r\<lparr>q_MaxSandboxes := q_MaxSandboxes q, q_MaxTTLSeconds := q_MaxTTLSeconds q,
                     q_MaxExecTimeoutSeconds := q_MaxExecTimeoutSeconds q, q_UpdatedAt := db_now E\<rparr>)
      else row_by q_OwnerID k (t_quotas s))"
  using assms
  by (auto simp: SaveOwnerQuota_def Let_def row_by_append row_by_upd_where
      dest: row_by_SomeD split: option.splits)

lemma row_SaveWorker:
  assumes "db_fail E (OpSaveWorker (w_ID w)) = None"
  shows "\<exists>w'. row_by w_ID (w_ID w) (t_workers (snd (SaveWorker E w s))) = Some w' \<and>
            w_ID w' = w_ID w \<and> worker_payload w' = worker_payload w"
    and "k \<noteq> w_ID w \<Longrightarrow> row_by w_ID k (t_workers (snd (SaveWorker E w s))) = row_by w_ID k (t_workers s)"
proof -
  have upd: "row_by w_ID k (upd_where (\<lambda>r. w_ID r = w_ID w) (\<lambda>r. v\<lparr>w_CreatedAt := w_CreatedAt r\<rparr>) t)
      = (if k = w_ID w then map_option (\<lambda>r. v\<lparr>w_CreatedAt := w_CreatedAt r\<rparr>) (row_by w_ID k t)
         else row_by w_ID k t)" if "w_ID v = w_ID w" for v k t
    using that by (induction t) (auto simp: upd_where_def)
  show "\<exists>w'. row_by w_ID (w_ID w) (t_workers (snd (SaveWorker E w s))) = Some w' \<and>
            w_ID w' = w_ID w \<and> worker_payload w' = worker_payload w"
    using assms
    by (auto simp: SaveWorker_def Let_def row_by_append upd worker_payload_def split: option.splits)
  show "row_by w_ID k (t_workers (snd (SaveWorker E w s))) = row_by w_ID k (t_workers s)" if "k \<noteq> w_ID w"
    using assms that
    by (auto simp: SaveWorker_def Let_def row_by_append upd split: option.splits)
qed

text \<open>The database with no failing call, at one instant.\<close>

definition db_up :: "time \<Rightarrow> dbenv" where
  "db_up t = \<lparr>db_now = t, db_fail = (\<lambda>_. None)\<rparr>"

interpretation quota_table: upsert_table
  "\<lambda>k s. row_by q_OwnerID k (t_quotas s)" "\<lambda>q s. snd (SaveOwnerQuota (db_up t) q s)" q_OwnerID quota_payload
  for t
  by unfold_locales (auto simp: row_SaveOwnerQuota db_up_def quota_payload_def dest: row_by_SomeD split: option.splits)

interpretation worker_table: upsert_table
  "\<lambda>k s. row_by w_ID k (t_workers s)" "\<lambda>w s. snd (SaveWorker (db_up t) w s)" w_ID worker_payload
  for t
  by unfold_locales (simp_all add: db_up_def row_SaveWorker)

section \<open>Leases\<close>

text \<open>
  The lease service, for one resource: who holds it until when.  An acquisition by someone
  else before the expiry, a renewal or a release by someone else leaves it alone, whatever
  the database does.
\<close>

datatype 'h lease_req = Acquire 'h time duration | Renew 'h time duration | Release 'h time

fun req_holder :: "'h lease_req \<Rightarrow> 'h" where
  "req_holder (Acquire h t d) = h" | "req_holder (Renew h t d) = h" | "req_holder (Release h t) = h"

fun req_time :: "'h lease_req \<Rightarrow> time" where
  "req_time (Acquire h t d) = t" | "req_time (Renew h t d) = t" | "req_time (Release h t) = t"

locale lease_service =
  fixes step :: "'h lease_req \<Rightarrow> 's \<Rightarrow> 's"
    and held :: "'s \<Rightarrow> ('h \<times> time) option"
    and good :: "'s \<Rightarrow> bool"
  assumes good_step: "good s \<Longrightarrow> good (step q s)"
    and other_blocked:
      "good s \<Longrightarrow> held s = Some (h, e) \<Longrightarrow> req_holder q \<noteq> h \<Longrightarrow> req_time q < e \<Longrightarrow> held (step q s) = Some (h, e)"
    and only_requester:
      "good s \<Longrightarrow> held (step q s) = Some (h, e) \<Longrightarrow> held s = Some (h, e) \<or> h = req_holder q"
begin

lemma good_run: "good s \<Longrightarrow> good (fold step qs s)"
  by (induction qs arbitrary: s) (auto intro: good_step)

text \<open>Mutual exclusion: until it expires, a lease survives everything other holders request.\<close>

lemma exclusive:
  assumes "good s" "held s = Some (h, e)" "\<And>q. q \<in> set qs \<Longrightarrow> req_holder q \<noteq> h \<and> req_time q < e"
  shows "held (fold step qs s) = Some (h, e)"
  using assms
proof (induction qs arbitrary: s)
  case (Cons q qs)
  then have "held (step q s) = Some (h, e)" by (auto intro: other_blocked)
  with Cons show ?case by (auto intro: good_step)
qed simp

text \<open>Nobody holds a lease they did not ask for.\<close>

lemma holder_asked:
  assumes "good s" "held (fold step qs s) = Some (h, e)"
  shows "held s = Some (h, e) \<or> h \<in> req_holder ` set qs"
  using assms
proof (induction qs arbitrary: s)
  case (Cons q qs)
  then have "held (step q s) = Some (h, e) \<or> h \<in> req_holder ` set qs"
    by (auto intro: good_step)
  with Cons.prems(1) only_requester show ?case by auto
qed simp

end

text \<open>
  A request to the lease table under the database \<open>F\<close> (which calls fail, at the time of the
  request), and the row it leaves.
\<close>

fun lease_step ::
  "(string lease_req \<Rightarrow> store_op \<Rightarrow> error option) \<Rightarrow> string \<Rightarrow> string lease_req \<Rightarrow> store \<Rightarrow> store" where
  "lease_step F r (Acquire h t d) s =
     snd (AcquireLease \<lparr>db_now = t, db_fail = F (Acquire h t d)\<rparr> r ''sandbox'' h d s)"
| "lease_step F r (Renew h t d) s = snd (RenewLease \<lparr>db_now = t, db_fail = F (Renew h t d)\<rparr> r h d s)"
| "lease_step F r (Release h t) s = snd (ReleaseLease \<lparr>db_now = t, db_fail = F (Release h t)\<rparr> r h s)"

definition lease_held :: "string \<Rightarrow> store \<Rightarrow> (string \<times> time) option" where
  "lease_held r s = map_option (\<lambda>l. (l_HolderID l, l_ExpiresAt l)) (row_by l_ResourceID r (t_leases s))"

lemma store_ok_lease_step: "store_ok s \<Longrightarrow> store_ok (lease_step F r q s)"
  by (cases q) (auto intro: store_ok_intros)

lemma filter_lease_row:
  "store_ok s \<Longrightarrow> rows_affected (\<lambda>l. l_ResourceID l = r \<and> P l) (t_leases s) =
     (case row_by l_ResourceID r (t_leases s) of None \<Rightarrow> 0 | Some l \<Rightarrow> if P l then 1 else 0)"
proof -
  assume "store_ok s"
  then have row: "filter (\<lambda>l. l_ResourceID l = r) (t_leases s) =
      (case row_by l_ResourceID r (t_leases s) of None \<Rightarrow> [] | Some l \<Rightarrow> [l])"
    by (intro filter_unique_key) (simp add: store_ok_def)
  have "filter (\<lambda>l. l_ResourceID l = r \<and> P l) (t_leases s) = filter P (filter (\<lambda>l. l_ResourceID l = r) (t_leases s))"
    by simp
  then show ?thesis
    unfolding rows_affected_def row by (simp split: option.split)
qed

lemma row_after_AcquireLease:
  "row_by l_ResourceID r (t_leases (snd (AcquireLease E r ty h ttl s))) = row_by l_ResourceID r (t_leases s) \<or>
   (\<exists>l. row_by l_ResourceID r (t_leases (snd (AcquireLease E r ty h ttl s))) = Some l \<and>
        l_HolderID l = h \<and> l_ExpiresAt l = db_now E + ttl \<and>
        (\<forall>l0. row_by l_ResourceID r (t_leases s) = Some l0 \<longrightarrow> l_ExpiresAt l0 \<le> db_now E \<or> l_HolderID l0 = h))"
  by (cases "row_by l_ResourceID r (t_leases s)")
    (auto simp: AcquireLease_def Let_def row_by_append row_by_upd_where
      dest: row_by_SomeD split: option.splits if_splits)

lemma row_after_RenewLease:
  assumes "store_ok s"
  shows "row_by l_ResourceID r (t_leases (snd (RenewLease E r h ttl s))) = row_by l_ResourceID r (t_leases s) \<or>
   (\<exists>l l0. row_by l_ResourceID r (t_leases (snd (RenewLease E r h ttl s))) = Some l \<and>
        row_by l_ResourceID r (t_leases s) = Some l0 \<and> l_HolderID l0 = h \<and> l_HolderID l = h)"
proof (cases "row_by l_ResourceID r (t_leases s)")
  case None
  then show ?thesis
    using filter_lease_row [OF assms, of r "\<lambda>l. l_HolderID l = h \<and> db_now E < l_ExpiresAt l"]
    by (auto simp: RenewLease_def Let_def split: option.splits)
next
  case (Some l0)
  then show ?thesis
    using filter_lease_row [OF assms, of r "\<lambda>l. l_HolderID l = h \<and> db_now E < l_ExpiresAt l"]
    by (auto simp: RenewLease_def Let_def row_by_upd_where dest: row_by_SomeD split: option.splits if_splits)
qed

lemma row_by_del_where_and:
  "unique_key key t \<Longrightarrow> row_by key k (del_where (\<lambda>r. key r = k \<and> P r) t) =
     (case row_by key k t of None \<Rightarrow> None | Some r \<Rightarrow> if P r then None else Some r)"
  by (induction t) (auto simp: del_where_def row_by_None_iff image_iff dest!: row_by_SomeD split: option.splits)

lemma row_after_ReleaseLease:
  assumes "store_ok s"
  shows "row_by l_ResourceID r (t_leases (snd (ReleaseLease E r h s))) =
     (case row_by l_ResourceID r (t_leases s) of
        None \<Rightarrow> None
      | Some l \<Rightarrow> if l_HolderID l = h \<and> db_fail E (OpReleaseLease r) = None then None else Some l)"
proof -
  have "unique_key l_ResourceID (t_leases s)" using assms by (simp add: store_ok_def)
  then show ?thesis
    using filter_lease_row [OF assms, of r "\<lambda>l. l_HolderID l = h"]
    by (auto simp: ReleaseLease_def Let_def row_by_del_where_and split: option.splits)
qed

lemma lease_step_cases:
  assumes ok: "store_ok s"
  shows "lease_held r (lease_step F r q s) = lease_held r s \<or>
    (lease_held r (lease_step F r q s) = None \<and> (\<exists>e. lease_held r s = Some (req_holder q, e))) \<or>
    (\<exists>e'. lease_held r (lease_step F r q s) = Some (req_holder q, e') \<and>
       (\<forall>h0 e0. lease_held r s = Some (h0, e0) \<longrightarrow> e0 \<le> req_time q \<or> h0 = req_holder q))"
proof (cases q)
  case (Acquire h t d)
  show ?thesis
    using row_after_AcquireLease [of r "\<lparr>db_now = t, db_fail = F (Acquire h t d)\<rparr>" "''sandbox''" h d s]
    unfolding Acquire lease_held_def by (elim disjE exE conjE) auto
next
  case (Renew h t d)
  show ?thesis
    using row_after_RenewLease [OF ok, of r "\<lparr>db_now = t, db_fail = F (Renew h t d)\<rparr>" h d]
    unfolding Renew lease_held_def by (elim disjE exE conjE) auto
next
  case (Release h t)
  show ?thesis
    using row_after_ReleaseLease [OF ok, of r "\<lparr>db_now = t, db_fail = F (Release h t)\<rparr>" h]
    unfolding Release lease_held_def by (auto split: option.splits if_splits)
qed

interpretation leases: lease_service "lease_step F r" "lease_held r" store_ok
  for F r
proof
  fix s q h e
  assume ok: "store_ok s"
  show "store_ok (lease_step F r q s)" using ok by (rule store_ok_lease_step)
  show "lease_held r (lease_step F r q s) = Some (h, e)"
    if "lease_held r s = Some (h, e)" "req_holder q \<noteq> h" "req_time q < e"
    using lease_step_cases [OF ok, of r F q] that by auto
  show "lease_held r s = Some (h, e) \<or> h = req_holder q"
    if "lease_held r (lease_step F r q s) = Some (h, e)"
    using lease_step_cases [OF ok, of r F q] that by auto
qed

end
