(* ===== verification/Events.thy ===== *)
theory Events
  imports Go_Strings
begin

text \<open>
  \<open>internal/orchestrator/events.go\<close> and the delivery rule of \<open>events_durable.go\<close>: the
  in-process bus with its ring of past events, its subscribers and the hook of the Postgres
  bridge.  A subscriber's channel is the list of events waiting in it; the goroutines the
  hook starts are recorded in \<open>eb_hooked\<close>.
\<close>

datatype jval = JStr string | JInt int

type_synonym jdata = "(string \<times> jval) list"

record Event =
  ev_ID :: string
  ev_Type :: string
  ev_SandboxID :: string
  ev_Timestamp :: time
  ev_Data :: jdata

abbreviation "EventSandboxCreated \<equiv> ''sandbox.created''"
abbreviation "EventSandboxRunning \<equiv> ''sandbox.running''"
abbreviation "EventSandboxDestroyed \<equiv> ''sandbox.destroyed''"
abbreviation "EventExecStarted \<equiv> ''exec.started''"
abbreviation "EventExecCompleted \<equiv> ''exec.completed''"
abbreviation "EventExecFailed \<equiv> ''exec.failed''"
abbreviation "EventExecTimeout \<equiv> ''exec.timeout''"
abbreviation "EventFileWritten \<equiv> ''file.written''"
abbreviation "EventFileRead \<equiv> ''file.read''"
abbreviation "EventOperationFailed \<equiv> ''operation.failed''"
abbreviation "EventResourceLimit \<equiv> ''resource.limit''"
abbreviation "EventProviderFailed \<equiv> ''provider.failed''"
abbreviation "EventReconcileAction \<equiv> ''reconcile.action''"
abbreviation "EventSpawnQueued \<equiv> ''spawn.queued''"
abbreviation "EventSpawnDequeued \<equiv> ''spawn.dequeued''"
abbreviation "EventSpawnQueueTimeout \<equiv> ''spawn.queue_timeout''"
abbreviation "EventQuotaSaved \<equiv> ''quota.saved''"
abbreviation "EventQuotaDeleted \<equiv> ''quota.deleted''"

abbreviation defaultHistorySize :: nat where "defaultHistorySize \<equiv> 1000"
abbreviation defaultSubscriberBuf :: nat where "defaultSubscriberBuf \<equiv> 64"

record EventBus =
  eb_subscribers :: "(string \<times> Event list) list"
  eb_history :: "Event list"
  eb_historySize :: nat
  eb_nextID :: nat
  eb_onPublish :: bool
  eb_hooked :: "Event list"

definition NewEventBus :: EventBus where
  "NewEventBus = \<lparr>eb_subscribers = [], eb_history = [], eb_historySize = defaultHistorySize,
     eb_nextID = 0, eb_onPublish = False, eb_hooked = []\<rparr>"

definition stringID :: "nat \<Rightarrow> string" where
  "stringID n = ''evt-'' @ Itoa (int n)"

text \<open>A send in a \<open>select\<close> with a \<open>default\<close>: dropped when the buffer is full.\<close>

definition try_send :: "nat \<Rightarrow> Event list \<Rightarrow> Event \<Rightarrow> Event list" where
  "try_send cap ch e = (if length ch < cap then ch @ [e] else ch)"

text \<open>The timestamp and the id an event is given on its way in.\<close>

definition stamp :: "time \<Rightarrow> nat \<Rightarrow> Event \<Rightarrow> Event" where
  "stamp now n e =
     (let e = (if ev_Timestamp e = 0 then e\<lparr>ev_Timestamp := now\<rparr> else e)
      in if ev_ID e = [] then e\<lparr>ev_ID := stringID n\<rparr> else e)"

definition publishLocal :: "time \<Rightarrow> Event \<Rightarrow> EventBus \<Rightarrow> EventBus" where
  "publishLocal now evt eb =
     (let n = Suc (eb_nextID eb);
          evt = stamp now n evt;
          hist = (if length (eb_history eb) < eb_historySize eb then eb_history eb @ [evt]
                  else (eb_history eb)[n mod eb_historySize eb := evt])
      in eb\<lparr>eb_nextID := n, eb_history := hist,
           eb_subscribers := map (\<lambda>(k, ch). (k, try_send defaultSubscriberBuf ch evt)) (eb_subscribers eb)\<rparr>)"

definition Publish :: "time \<Rightarrow> Event \<Rightarrow> EventBus \<Rightarrow> EventBus" where
  "Publish now evt eb =
     (let n = Suc (eb_nextID eb);
          evt = stamp now n evt;
          hist = (if length (eb_history eb) < eb_historySize eb then eb_history eb @ [evt]
                  else (eb_history eb)[n mod eb_historySize eb := evt]);
          eb' = eb\<lparr>eb_nextID := n, eb_history := hist,
                  eb_subscribers := map (\<lambda>(k, ch). (k, try_send defaultSubscriberBuf ch evt)) (eb_subscribers eb)\<rparr>
      in if eb_onPublish eb' then eb'\<lparr>eb_hooked := eb_hooked eb' @ [evt]\<rparr> else eb')"

definition AttachDurableBridge :: "EventBus \<Rightarrow> EventBus" where
  "AttachDurableBridge eb = eb\<lparr>eb_onPublish := True\<rparr>"

definition Subscribe :: "string \<Rightarrow> EventBus \<Rightarrow> EventBus" where
  "Subscribe k eb = eb\<lparr>eb_subscribers := al_put k [] (eb_subscribers eb)\<rparr>"

definition Unsubscribe :: "string \<Rightarrow> EventBus \<Rightarrow> EventBus" where
  "Unsubscribe k eb = eb\<lparr>eb_subscribers := al_del k (eb_subscribers eb)\<rparr>"

definition History :: "int \<Rightarrow> EventBus \<Rightarrow> Event list" where
  "History limit eb =
     (let n = int (length (eb_history eb));
          limit = (if limit \<le> 0 \<or> limit > n then n else limit)
      in drop (nat (n - limit)) (eb_history eb))"

record EventBusStats =
  es_Subscribers :: nat
  es_HistorySize :: nat
  es_EventsTotal :: nat

definition Stats :: "EventBus \<Rightarrow> EventBusStats" where
  "Stats eb = \<lparr>es_Subscribers = length (eb_subscribers eb), es_HistorySize = length (eb_history eb),
     es_EventsTotal = eb_nextID eb\<rparr>"

text \<open>What a bridge listener does with a decoded notification.\<close>

definition bridge_receive :: "time \<Rightarrow> string \<Rightarrow> string \<times> Event \<Rightarrow> EventBus \<Rightarrow> EventBus" where
  "bridge_receive now instanceID env eb =
     (case env of (src, evt) \<Rightarrow> if src = instanceID then eb else publishLocal now evt eb)"

section \<open>Facts\<close>

definition bus_ok :: "EventBus \<Rightarrow> bool" where
  "bus_ok eb \<longleftrightarrow> 0 < eb_historySize eb \<and> length (eb_history eb) = min (eb_nextID eb) (eb_historySize eb) \<and>
     (\<forall>(k, ch) \<in> set (eb_subscribers eb). length ch \<le> defaultSubscriberBuf)"

lemma bus_ok_New: "bus_ok NewEventBus"
  by (simp add: bus_ok_def NewEventBus_def)

lemma bus_ok_publishLocal: "bus_ok eb \<Longrightarrow> bus_ok (publishLocal now e eb)"
  by (auto simp: bus_ok_def publishLocal_def Let_def try_send_def)

text \<open>\<open>Publish\<close> is \<open>publishLocal\<close> and the hook.\<close>

lemma Publish_eq:
  "Publish now e eb = (let eb' = publishLocal now e eb in
     if eb_onPublish eb then eb'\<lparr>eb_hooked := eb_hooked eb @ [stamp now (Suc (eb_nextID eb)) e]\<rparr> else eb')"
  by (simp add: Publish_def publishLocal_def Let_def)

lemma bus_ok_hooked [simp]: "bus_ok (eb\<lparr>eb_hooked := h\<rparr>) = bus_ok eb"
  by (simp add: bus_ok_def)

lemma bus_ok_Publish: "bus_ok eb \<Longrightarrow> bus_ok (Publish now e eb)"
  by (simp add: Publish_eq Let_def bus_ok_publishLocal)

lemma bus_ok_Subscribe: "bus_ok eb \<Longrightarrow> bus_ok (Subscribe k eb)"
  using set_al_put_subset by (fastforce simp: bus_ok_def Subscribe_def)

lemma bus_ok_Unsubscribe: "bus_ok eb \<Longrightarrow> bus_ok (Unsubscribe k eb)"
  by (auto simp: bus_ok_def Unsubscribe_def set_al_del)

lemmas bus_ok_intros = bus_ok_publishLocal bus_ok_Publish bus_ok_Subscribe bus_ok_Unsubscribe

lemma publish_simps [simp]:
  "eb_nextID (Publish now e eb) = Suc (eb_nextID eb)"
  "eb_historySize (Publish now e eb) = eb_historySize eb"
  "eb_onPublish (Publish now e eb) = eb_onPublish eb"
  by (simp_all add: Publish_def Let_def)

text \<open>Publishing a list of events, each at its time, and the events as the bus stamps them.\<close>

definition publish_all :: "(time \<times> Event) list \<Rightarrow> EventBus \<Rightarrow> EventBus" where
  "publish_all es eb = fold (\<lambda>(t, e). Publish t e) es eb"

definition stamped :: "nat \<Rightarrow> (time \<times> Event) list \<Rightarrow> Event list" where
  "stamped k es = map (\<lambda>(i, t, e). stamp t (Suc i) e) (zip [k..<k + length es] es)"

lemma stamped_snoc: "stamped k (es @ [(t, e)]) = stamped k es @ [stamp t (Suc (k + length es)) e]"
  by (simp add: stamped_def)

lemma length_stamped [simp]: "length (stamped k es) = length es"
  by (simp add: stamped_def)

lemma publish_all_snoc: "publish_all (es @ [(t, e)]) eb = Publish t e (publish_all es eb)"
  by (simp add: publish_all_def)

lemma publish_all_simps [simp]:
  "eb_nextID (publish_all es eb) = eb_nextID eb + length es"
  "eb_historySize (publish_all es eb) = eb_historySize eb"
  by (induction es rule: rev_induct; force simp: publish_all_def)+

lemma bus_ok_publish_all: "bus_ok eb \<Longrightarrow> bus_ok (publish_all es eb)"
  by (induction es rule: rev_induct) (auto simp: publish_all_def intro: bus_ok_Publish)

lemma history_Publish:
  "eb_history (Publish now e eb) =
     (if length (eb_history eb) < eb_historySize eb then eb_history eb @ [stamp now (Suc (eb_nextID eb)) e]
      else (eb_history eb)[Suc (eb_nextID eb) mod eb_historySize eb := stamp now (Suc (eb_nextID eb)) e])"
  by (simp add: Publish_def Let_def)

text \<open>Until the ring is full, the history is everything published, in order.\<close>

lemma history_not_full:
  assumes "eb_nextID eb = 0" "eb_history eb = []" "length es \<le> eb_historySize eb"
  shows "eb_history (publish_all es eb) = stamped 0 es"
  using assms(3)
proof (induction es rule: rev_induct)
  case Nil
  then show ?case by (simp add: publish_all_def stamped_def assms)
next
  case (snoc te es)
  obtain t e where te: "te = (t, e)" by (cases te)
  with snoc assms show ?case
    by (simp add: publish_all_snoc stamped_snoc history_Publish)
qed

text \<open>
  On the second lap, the event that arrives as number \<open>N + m\<close> lands in slot \<open>m\<close>: one past
  the slot of the oldest event.  Slot 0 keeps the first event until number \<open>2N\<close>.
\<close>

lemma history_second_lap:
  assumes "eb_nextID eb = 0" "eb_history eb = []" "eb_historySize eb = N"
    and "length es = N" "length fs < N"
  shows "eb_history (publish_all (es @ fs) eb) =
     take 1 (stamped 0 es) @ stamped N fs @ drop (Suc (length fs)) (stamped 0 es)"
  using assms(5)
proof (induction fs rule: rev_induct)
  case Nil
  have "take (Suc 0) (stamped 0 es) @ drop (Suc 0) (stamped 0 es) = stamped 0 es" by simp
  then show ?case
    using assms by (simp add: history_not_full stamped_def [of _ "[]"])
next
  case (snoc te fs)
  obtain t e where te: "te = (t, e)" by (cases te)
  let ?h = "take 1 (stamped 0 es) @ stamped N fs @ drop (Suc (length fs)) (stamped 0 es)"
  have h: "eb_history (publish_all (es @ fs) eb) = ?h" using snoc by simp
  have len: "length ?h = N" using snoc.prems assms(4) by simp
  have idx: "Suc (N + length fs) mod N = Suc (length fs)"
    using snoc.prems mod_add_self1 [of N "Suc (length fs)"] by simp
  have d: "drop (Suc (length fs)) (stamped 0 es) =
      stamped 0 es ! Suc (length fs) # drop (Suc (Suc (length fs))) (stamped 0 es)"
    using snoc.prems assms(4) by (intro Cons_nth_drop_Suc [symmetric]) simp
  have pre: "length (take 1 (stamped 0 es) @ stamped N fs) = Suc (length fs)"
    using snoc.prems assms(4) by simp
  have "eb_history (publish_all (es @ fs @ [te]) eb) = ?h[Suc (length fs) := stamp t (Suc (N + length fs)) e]"
    using h len idx assms unfolding te append_assoc [symmetric] publish_all_snoc history_Publish
    by (simp add: assms(4))
  also have "\<dots> = (take 1 (stamped 0 es) @ stamped N fs) @ stamp t (Suc (N + length fs)) e #
      drop (Suc (Suc (length fs))) (stamped 0 es)"
    unfolding d append_assoc [symmetric] using pre by (simp add: list_update_append)
  finally show ?case
    by (simp add: te stamped_snoc)
qed

text \<open>A subscriber that does not read gets the first \<open>64\<close> events published after it.\<close>

lemma subscribers_Publish:
  "map_of (eb_subscribers (Publish t e eb)) k =
     map_option (\<lambda>ch. try_send defaultSubscriberBuf ch (stamp t (Suc (eb_nextID eb)) e))
       (map_of (eb_subscribers eb) k)"
proof -
  have "map_of (map (\<lambda>(k, ch). (k, f ch)) xs) k = map_option f (map_of xs k)" for f :: "Event list \<Rightarrow> Event list" and xs
    by (induction xs) auto
  then show ?thesis by (simp add: Publish_def Let_def)
qed

lemma subscriber_gets_first:
  assumes "map_of (eb_subscribers eb) k = Some []"
  shows "map_of (eb_subscribers (publish_all es eb)) k =
     Some (take defaultSubscriberBuf (stamped (eb_nextID eb) es))"
proof (induction es rule: rev_induct)
  case Nil
  then show ?case using assms by (simp add: publish_all_def stamped_def)
next
  case (snoc te es)
  obtain t e where te: "te = (t, e)" by (cases te)
  with snoc show ?case
    by (auto simp: publish_all_snoc stamped_snoc subscribers_Publish try_send_def)
qed

lemma stringID_inj: "stringID m = stringID n \<Longrightarrow> m = n"
  by (simp add: stringID_def Itoa_def dec_nat_inj)

end
