(* ===== verification/Metrics.thy ===== *)
theory Metrics
  imports Store
begin

text \<open>
  \<open>internal/orchestrator/metrics.go\<close>: per operation and provider counters.  The counters
  are \<open>uint64\<close>, so they are words and wrap.
\<close>

abbreviation "OperationSpawn \<equiv> ''spawn''"
abbreviation "OperationExec \<equiv> ''exec''"
abbreviation "OperationExecStream \<equiv> ''exec_stream''"
abbreviation "OperationDestroy \<equiv> ''destroy''"
abbreviation "OperationFileWrite \<equiv> ''file_write''"
abbreviation "OperationFileRead \<equiv> ''file_read''"
abbreviation "OperationFileList \<equiv> ''file_list''"
abbreviation "OperationFileDelete \<equiv> ''file_delete''"
abbreviation "OperationFileMove \<equiv> ''file_move''"
abbreviation "OperationFileChmod \<equiv> ''file_chmod''"
abbreviation "OperationFileStat \<equiv> ''file_stat''"
abbreviation "OperationFileGlob \<equiv> ''file_glob''"

record operationMetricBucket =
  mb_successTotal :: u64
  mb_failureTotal :: u64
  mb_latencyCount :: u64
  mb_latencyTotalMS :: u64
  mb_latencyMinMS :: u64
  mb_latencyMaxMS :: u64
  mb_lastError :: string
  mb_lastObservedUnix :: int

type_synonym metric_key = "string \<times> string"

type_synonym MetricsRecorder = "(metric_key \<times> operationMetricBucket) list"

definition Milliseconds :: "duration \<Rightarrow> int" where
  "Milliseconds d = go_div d 1000000"

text \<open>Seconds since 1970 of an instant counted from Go's zero time.\<close>

definition Unix :: "time \<Rightarrow> int" where
  "Unix t = t div Second - 62135596800"

definition new_bucket :: "u64 \<Rightarrow> operationMetricBucket" where
  "new_bucket ms = \<lparr>mb_successTotal = 0, mb_failureTotal = 0, mb_latencyCount = 0, mb_latencyTotalMS = 0,
     mb_latencyMinMS = ms, mb_latencyMaxMS = 0, mb_lastError = [], mb_lastObservedUnix = 0\<rparr>"

definition observe :: "time \<Rightarrow> u64 \<Rightarrow> error option \<Rightarrow> operationMetricBucket \<Rightarrow> operationMetricBucket" where
  "observe now ms err b =
     (let b = (case err of
                 Some e \<Rightarrow> b\<lparr>mb_failureTotal := mb_failureTotal b + 1, mb_lastError := err_msg e\<rparr>
               | None \<Rightarrow> b\<lparr>mb_successTotal := mb_successTotal b + 1\<rparr>);
          b = b\<lparr>mb_latencyCount := mb_latencyCount b + 1, mb_latencyTotalMS := mb_latencyTotalMS b + ms\<rparr>;
          b = (if ms < mb_latencyMinMS b then b\<lparr>mb_latencyMinMS := ms\<rparr> else b);
          b = (if ms > mb_latencyMaxMS b then b\<lparr>mb_latencyMaxMS := ms\<rparr> else b)
      in b\<lparr>mb_lastObservedUnix := Unix now\<rparr>)"

definition RecordOperation ::
  "time \<Rightarrow> string \<Rightarrow> string \<Rightarrow> duration \<Rightarrow> error option \<Rightarrow> MetricsRecorder \<Rightarrow> MetricsRecorder" where
  "RecordOperation now operation provider dur err r =
     (let provider = (if provider = [] then ''unknown'' else provider);
          ms = word_of_int (Milliseconds dur) :: u64;
          key = (operation, provider);
          bucket = (case map_of r key of Some b \<Rightarrow> b | None \<Rightarrow> new_bucket ms)
      in al_put key (observe now ms err bucket) r)"

record OperationMetrics =
  om_Operation :: string
  om_Provider :: string
  om_SuccessTotal :: u64
  om_FailureTotal :: u64
  om_LatencyCount :: u64
  om_LatencyTotalMS :: u64
  om_LatencyMinMS :: u64
  om_LatencyMaxMS :: u64
  om_LatencyAvgMS :: u64
  om_LastError :: string
  om_LastObservedUnix :: int

definition to_metrics :: "metric_key \<times> operationMetricBucket \<Rightarrow> OperationMetrics" where
  "to_metrics kb = (case kb of ((opn, prov), b) \<Rightarrow>
     \<lparr>om_Operation = opn, om_Provider = prov, om_SuccessTotal = mb_successTotal b,
      om_FailureTotal = mb_failureTotal b, om_LatencyCount = mb_latencyCount b,
      om_LatencyTotalMS = mb_latencyTotalMS b, om_LatencyMinMS = mb_latencyMinMS b,
      om_LatencyMaxMS = mb_latencyMaxMS b,
      om_LatencyAvgMS = (if mb_latencyCount b > 0 then mb_latencyTotalMS b div mb_latencyCount b else 0),
      om_LastError = mb_lastError b, om_LastObservedUnix = mb_lastObservedUnix b\<rparr>)"

definition metrics_le :: "OperationMetrics \<Rightarrow> OperationMetrics \<Rightarrow> bool" where
  "metrics_le x y = (if om_Operation x = om_Operation y then bytes_le (om_Provider x) (om_Provider y)
                     else bytes_le (om_Operation x) (om_Operation y))"

definition Snapshot :: "MetricsRecorder \<Rightarrow> OperationMetrics list" where
  "Snapshot r = foldr (insert_by metrics_le) (map to_metrics r) []"

section \<open>Facts\<close>

text \<open>What a bucket says of the latencies observed: bounds of the average.\<close>

definition bucket_ok :: "operationMetricBucket \<Rightarrow> nat list \<Rightarrow> bool" where
  "bucket_ok b xs \<longleftrightarrow>
     unat (mb_latencyCount b) = length xs \<and> unat (mb_latencyTotalMS b) = sum_list xs \<and>
     unat (mb_successTotal b) + unat (mb_failureTotal b) = length xs \<and>
     (xs \<noteq> [] \<longrightarrow> unat (mb_latencyMinMS b) = Min (set xs) \<and> unat (mb_latencyMaxMS b) = Max (set xs))"

lemma unat_incr: "unat (w :: u64) < 2 ^ 64 - 1 \<Longrightarrow> unat (w + 1) = unat w + 1"
  by (simp add: unat_word_ariths)

lemma unat_plus_no_wrap: "unat (w :: u64) + unat v < 2 ^ 64 \<Longrightarrow> unat (w + v) = unat w + unat v"
  by (simp add: unat_word_ariths)

lemma observe_ok:
  assumes ok: "bucket_ok b xs" and ne: "xs = [] \<Longrightarrow> b = new_bucket ms"
    and n: "Suc (length xs) < 2 ^ 64" and tot: "sum_list xs + unat ms < 2 ^ 64"
  shows "bucket_ok (observe now ms err b) (xs @ [unat ms])"
proof -
  have cnt: "unat (mb_latencyCount b + 1) = Suc (length xs)"
    using ok n by (subst unat_incr) (auto simp: bucket_ok_def)
  have total: "unat (mb_latencyTotalMS b + ms) = sum_list xs + unat ms"
    using ok tot by (subst unat_plus_no_wrap) (auto simp: bucket_ok_def)
  have outcome: "unat (mb_successTotal b + 1) + unat (mb_failureTotal b) = Suc (length xs)"
       "unat (mb_successTotal b) + unat (mb_failureTotal b + 1) = Suc (length xs)"
    using ok n unat_incr [of "mb_successTotal b"] unat_incr [of "mb_failureTotal b"]
    by (auto simp: bucket_ok_def)
  have minmax: "unat (mb_latencyMinMS (observe now ms err b)) = Min (set (xs @ [unat ms])) \<and>
      unat (mb_latencyMaxMS (observe now ms err b)) = Max (set (xs @ [unat ms]))"
  proof (cases "xs = []")
    case True
    then show ?thesis
      using ne by (auto simp: observe_def new_bucket_def Let_def word_neq_0_conv not_less split: option.splits)
  next
    case False
    then have mm: "unat (mb_latencyMinMS b) = Min (set xs)" "unat (mb_latencyMaxMS b) = Max (set xs)"
      using ok by (auto simp: bucket_ok_def)
    have "unat (mb_latencyMinMS (observe now ms err b)) = min (unat ms) (unat (mb_latencyMinMS b))"
         "unat (mb_latencyMaxMS (observe now ms err b)) = max (unat ms) (unat (mb_latencyMaxMS b))"
      by (auto simp: observe_def Let_def word_less_nat_alt min_def max_def split: option.splits)
    then show ?thesis
      using False mm by simp
  qed
  have fields: "mb_latencyCount (observe now ms err b) = mb_latencyCount b + 1"
    "mb_latencyTotalMS (observe now ms err b) = mb_latencyTotalMS b + ms"
    "mb_successTotal (observe now ms err b) = (if err = None then mb_successTotal b + 1 else mb_successTotal b)"
    "mb_failureTotal (observe now ms err b) = (if err = None then mb_failureTotal b else mb_failureTotal b + 1)"
    by (auto simp: observe_def Let_def split: option.splits)
  show ?thesis
    unfolding bucket_ok_def fields using cnt total outcome minmax by simp
qed

lemma sum_list_bounds:
  fixes xs :: "nat list"
  assumes "xs \<noteq> []"
  shows "Min (set xs) * length xs \<le> sum_list xs \<and> sum_list xs \<le> Max (set xs) * length xs"
proof -
  have "(\<forall>x\<in>set xs. lo \<le> x \<and> x \<le> hi) \<Longrightarrow> lo * length xs \<le> sum_list xs \<and> sum_list xs \<le> hi * length xs"
    for lo hi
    by (induction xs) auto
  moreover have "\<forall>x\<in>set xs. Min (set xs) \<le> x \<and> x \<le> Max (set xs)" by simp
  ultimately show ?thesis by blast
qed

lemma average_between:
  assumes "bucket_ok b xs" and "xs \<noteq> []"
  shows "mb_latencyMinMS b \<le> om_LatencyAvgMS (to_metrics (k, b)) \<and>
         om_LatencyAvgMS (to_metrics (k, b)) \<le> mb_latencyMaxMS b"
proof -
  obtain opn prov where k: "k = (opn, prov)" by (cases k)
  have len: "0 < length xs" using assms(2) by simp
  then have pos: "mb_latencyCount b > 0"
    using assms(1) by (auto simp: bucket_ok_def word_neq_0_conv [symmetric])
  have avg: "unat (om_LatencyAvgMS (to_metrics (k, b))) = sum_list xs div length xs"
    using assms(1) pos by (simp add: k to_metrics_def bucket_ok_def unat_div)
  have "Min (set xs) \<le> sum_list xs div length xs"
    using sum_list_bounds [OF assms(2)] len by (simp add: less_eq_div_iff_mult_less_eq)
  moreover have "sum_list xs div length xs \<le> Max (set xs)"
    using div_le_mono [of "sum_list xs" "Max (set xs) * length xs" "length xs"] sum_list_bounds [OF assms(2)] len
    by simp
  ultimately show ?thesis
    using assms avg by (simp add: word_le_nat_alt bucket_ok_def)
qed

text \<open>A series of observations under one key, from an empty recorder.\<close>

definition record_all ::
  "string \<Rightarrow> string \<Rightarrow> (time \<times> duration \<times> error option) list \<Rightarrow> MetricsRecorder \<Rightarrow> MetricsRecorder" where
  "record_all opn prov obs r = fold (\<lambda>(t, d, e). RecordOperation t opn prov d e) obs r"

definition obs_ms :: "(time \<times> duration \<times> error option) list \<Rightarrow> nat list" where
  "obs_ms obs = map (\<lambda>(t, d, e). unat (word_of_int (Milliseconds d) :: u64)) obs"

lemma record_all_bucket:
  assumes "prov \<noteq> []" and "obs \<noteq> []" and "length obs < 2 ^ 64" and "sum_list (obs_ms obs) < 2 ^ 64"
  shows "\<exists>b. map_of (record_all opn prov obs []) (opn, prov) = Some b \<and> bucket_ok b (obs_ms obs)"
  using assms(2-4)
proof (induction obs rule: rev_induct)
  case (snoc o1 obs)
  obtain t d e where o1: "o1 = (t, d, e)" by (cases o1)
  let ?ms = "word_of_int (Milliseconds d) :: u64"
  have bounds: "Suc (length (obs_ms obs)) < 2 ^ 64" "sum_list (obs_ms obs) + unat ?ms < 2 ^ 64"
    using snoc.prems by (auto simp: obs_ms_def o1)
  show ?case
  proof (cases "obs = []")
    case True
    have "bucket_ok (new_bucket ?ms) []" by (simp add: bucket_ok_def new_bucket_def)
    from observe_ok [OF this _ , of ?ms t e] bounds True
    show ?thesis using assms(1)
      by (simp add: record_all_def RecordOperation_def Let_def o1 obs_ms_def)
  next
    case False
    then obtain b where b: "map_of (record_all opn prov obs []) (opn, prov) = Some b" "bucket_ok b (obs_ms obs)"
      using snoc bounds by auto
    have "bucket_ok (observe t ?ms e b) (obs_ms obs @ [unat ?ms])"
      using b bounds False by (intro observe_ok) (auto simp: obs_ms_def)
    then show ?thesis using assms(1) b(1)
      by (simp add: record_all_def RecordOperation_def Let_def o1 obs_ms_def)
  qed
qed simp

end
