(* ===== verification/VM_Pool.thy ===== *)
theory VM_Pool
  imports Go_Strings
begin

text \<open>
  \<open>internal/orchestrator/vm_pool.go\<close>: shared VMs with a number of user slots each.
  \<open>Acquire\<close> works in two locked sections with the spawn of a VM between them; the model has
  one definition per section, and \<open>Manager\<close> composes them around its \<open>spawnDirect\<close>.  Go
  walks the map in any order: \<open>pick\<close> says which VM with a free slot comes first.
\<close>

record PoolConfig =
  pc_Enabled :: bool
  pc_MaxVMs :: int
  pc_MaxUsersPerVM :: int
  pc_Image :: string
  pc_MemoryMB :: int
  pc_VCPUs :: int

record VMSlot =
  vm_VMID :: string
  vm_Provider :: string
  vm_Image :: string
  vm_UserCount :: int
  vm_MaxUsers :: int
  vm_CreatedAt :: time

record VMPoolManager =
  vp_vms :: "(string \<times> VMSlot) list"
  vp_config :: PoolConfig

definition NewVMPoolManager :: "PoolConfig \<Rightarrow> VMPoolManager" where
  "NewVMPoolManager cfg = \<lparr>vp_vms = [], vp_config = cfg\<rparr>"

datatype vm_try = VMAssigned string VMPoolManager | VMPoolFull | VMNeedSpawn

definition vm_acquire_existing :: "nat \<Rightarrow> VMPoolManager \<Rightarrow> vm_try" where
  "vm_acquire_existing pick p =
     (let free = filter (\<lambda>(k, s). vm_UserCount s < vm_MaxUsers s) (vp_vms p) in
      if free \<noteq> [] then
        (let (k, slot) = free ! (pick mod length free);
             slot = slot\<lparr>vm_UserCount := vm_UserCount slot + 1\<rparr>
         in VMAssigned (vm_VMID slot) (p\<lparr>vp_vms := al_put k slot (vp_vms p)\<rparr>))
      else if int (length (vp_vms p)) \<ge> pc_MaxVMs (vp_config p) then VMPoolFull
      else VMNeedSpawn)"

definition vm_register :: "time \<Rightarrow> string \<Rightarrow> string \<Rightarrow> VMPoolManager \<Rightarrow> VMPoolManager" where
  "vm_register now vmID provider p =
     p\<lparr>vp_vms := al_put vmID
         \<lparr>vm_VMID = vmID, vm_Provider = provider, vm_Image = pc_Image (vp_config p), vm_UserCount = 1,
          vm_MaxUsers = pc_MaxUsersPerVM (vp_config p), vm_CreatedAt = now\<rparr> (vp_vms p)\<rparr>"

text \<open>\<open>Release\<close>: the new pool and whether the caller should destroy the VM.\<close>

definition vm_release :: "string \<Rightarrow> VMPoolManager \<Rightarrow> bool \<times> VMPoolManager" where
  "vm_release vmID p =
     (case map_of (vp_vms p) vmID of
        None \<Rightarrow> (False, p)
      | Some slot \<Rightarrow>
          (let slot = slot\<lparr>vm_UserCount := vm_UserCount slot - 1\<rparr> in
           if vm_UserCount slot \<le> 0 then (True, p\<lparr>vp_vms := al_del vmID (vp_vms p)\<rparr>)
           else (False, p\<lparr>vp_vms := al_put vmID slot (vp_vms p)\<rparr>)))"

record VMPoolStatus =
  vs_Enabled :: bool
  vs_VMs :: int
  vs_MaxVMs :: int
  vs_TotalUsers :: int
  vs_MaxUsersPerVM :: int

definition total_users :: "VMPoolManager \<Rightarrow> int" where
  "total_users p = sum_list (map (\<lambda>q. vm_UserCount (snd q)) (vp_vms p))"

definition vm_status :: "VMPoolManager \<Rightarrow> VMPoolStatus" where
  "vm_status p = \<lparr>vs_Enabled = True, vs_VMs = int (length (vp_vms p)), vs_MaxVMs = pc_MaxVMs (vp_config p),
     vs_TotalUsers = total_users p, vs_MaxUsersPerVM = pc_MaxUsersPerVM (vp_config p)\<rparr>"

section \<open>The pool invariant\<close>

definition slot_ok :: "PoolConfig \<Rightarrow> string \<times> VMSlot \<Rightarrow> bool" where
  "slot_ok c q \<longleftrightarrow> vm_VMID (snd q) = fst q \<and> vm_MaxUsers (snd q) = pc_MaxUsersPerVM c \<and>
     1 \<le> vm_UserCount (snd q) \<and> vm_UserCount (snd q) \<le> vm_MaxUsers (snd q)"

definition pool_ok :: "VMPoolManager \<Rightarrow> bool" where
  "pool_ok p \<longleftrightarrow> al_ok (vp_vms p) \<and> (\<forall>q\<in>set (vp_vms p). slot_ok (vp_config p) q) \<and>
     int (length (vp_vms p)) \<le> max 0 (pc_MaxVMs (vp_config p))"

lemma pool_ok_New: "pool_ok (NewVMPoolManager c)"
  by (simp add: pool_ok_def NewVMPoolManager_def)

lemma vm_release_config [simp]: "vp_config (snd (vm_release v p)) = vp_config p"
  by (simp add: vm_release_def Let_def split: option.split)

lemma acquire_existing_cases:
  assumes "vm_acquire_existing pick p = VMAssigned v p'"
  obtains k slot where "(k, slot) \<in> set (vp_vms p)" "vm_UserCount slot < vm_MaxUsers slot" "v = vm_VMID slot"
    "p' = p\<lparr>vp_vms := al_put k (slot\<lparr>vm_UserCount := vm_UserCount slot + 1\<rparr>) (vp_vms p)\<rparr>"
proof -
  define free where "free = filter (\<lambda>(k, s). vm_UserCount s < vm_MaxUsers s) (vp_vms p)"
  have attempt: "vm_acquire_existing pick p =
     (if free \<noteq> [] then
        (let (k, slot) = free ! (pick mod length free); slot = slot\<lparr>vm_UserCount := vm_UserCount slot + 1\<rparr>
         in VMAssigned (vm_VMID slot) (p\<lparr>vp_vms := al_put k slot (vp_vms p)\<rparr>))
      else if int (length (vp_vms p)) \<ge> pc_MaxVMs (vp_config p) then VMPoolFull else VMNeedSpawn)"
    unfolding vm_acquire_existing_def free_def Let_def ..
  have ne: "free \<noteq> []" using assms by (auto simp: attempt split: if_splits)
  obtain k slot where ks: "free ! (pick mod length free) = (k, slot)" by fastforce
  have "pick mod length free < length free" using ne by simp
  from nth_mem [OF this] have "(k, slot) \<in> set free" by (simp only: ks)
  then have mem: "(k, slot) \<in> set (vp_vms p)" "vm_UserCount slot < vm_MaxUsers slot" by (simp_all add: free_def)
  have "v = vm_VMID slot" "p' = p\<lparr>vp_vms := al_put k (slot\<lparr>vm_UserCount := vm_UserCount slot + 1\<rparr>) (vp_vms p)\<rparr>"
    using assms ne ks by (simp_all add: attempt)
  with mem show thesis by (rule that)
qed

lemma in_al_put: "q \<in> set (al_put k v m) \<Longrightarrow> q = (k, v) \<or> q \<in> set m"
  using set_al_put_subset by fastforce

lemma pool_ok_acquire_existing:
  assumes "pool_ok p" "vm_acquire_existing pick p = VMAssigned v p'"
  shows "pool_ok p'"
proof -
  obtain k slot where s: "(k, slot) \<in> set (vp_vms p)" "vm_UserCount slot < vm_MaxUsers slot"
    "p' = p\<lparr>vp_vms := al_put k (slot\<lparr>vm_UserCount := vm_UserCount slot + 1\<rparr>) (vp_vms p)\<rparr>"
    by (rule acquire_existing_cases [OF assms(2)])
  have "k \<in> fst ` set (vp_vms p)" using s(1) by force
  moreover have "slot_ok (vp_config p) (k, slot)" using assms(1) s(1) by (auto simp: pool_ok_def)
  ultimately show ?thesis
    using assms(1) s by (auto simp: pool_ok_def length_al_put slot_ok_def dest!: in_al_put)
qed

lemma pool_ok_register:
  assumes "pool_ok p" "vm_acquire_existing pick p = VMNeedSpawn" "1 \<le> pc_MaxUsersPerVM (vp_config p)"
  shows "pool_ok (vm_register now v prov p)"
proof -
  have "int (length (vp_vms p)) < pc_MaxVMs (vp_config p)"
    using assms(2) by (auto simp: vm_acquire_existing_def Let_def split: if_splits prod.splits)
  with assms(1,3) show ?thesis
    by (auto simp: pool_ok_def vm_register_def length_al_put slot_ok_def dest!: in_al_put)
qed

lemma pool_ok_release: "pool_ok p \<Longrightarrow> pool_ok (snd (vm_release v p))"
proof (cases "map_of (vp_vms p) v")
  case (Some slot)
  assume ok: "pool_ok p"
  have in_set: "(v, slot) \<in> set (vp_vms p)" using Some by (rule map_of_SomeD)
  then have v: "v \<in> fst ` set (vp_vms p)" by force
  have "slot_ok (vp_config p) (v, slot)" using ok in_set by (auto simp: pool_ok_def)
  then show ?thesis
    using ok v Some
    by (auto simp: vm_release_def Let_def pool_ok_def length_al_put length_al_del set_al_del slot_ok_def
        dest!: in_al_put)
qed (simp add: vm_release_def)

section \<open>Slots and the sandboxes in them\<close>

text \<open>
  The contract of a pool of slots, for its callers: what they see is the number of users of
  each VM.  Between its acquisition and its release a sandbox occupies one slot, so the
  counts are the numbers of sandboxes outstanding, and a VM is given up exactly when its
  last one leaves.
\<close>

locale slot_pool =
  fixes acquire :: "'c \<Rightarrow> 'p \<Rightarrow> ('v \<times> 'p) option"
    and release :: "'v \<Rightarrow> 'p \<Rightarrow> bool \<times> 'p"
    and users :: "'p \<Rightarrow> 'v \<Rightarrow> nat"
    and good :: "'p \<Rightarrow> bool"
  assumes acquire_good: "good p \<Longrightarrow> acquire c p = Some (v, p') \<Longrightarrow> good p'"
    and acquire_users: "good p \<Longrightarrow> acquire c p = Some (v, p') \<Longrightarrow> users p' = (users p)(v := Suc (users p v))"
    and release_good: "good p \<Longrightarrow> good (snd (release v p))"
    and release_users: "good p \<Longrightarrow> 0 < users p v \<Longrightarrow> users (snd (release v p)) = (users p)(v := users p v - 1)"
    and release_last: "good p \<Longrightarrow> 0 < users p v \<Longrightarrow> fst (release v p) \<longleftrightarrow> users p v = 1"
begin

text \<open>Sandboxes come (with the choice the pool makes) and go; the list is who is where.\<close>

inductive traffic :: "'p \<Rightarrow> 'v list \<Rightarrow> 'p \<Rightarrow> 'v list \<Rightarrow> bool" for p0 outs0 where
  start: "traffic p0 outs0 p0 outs0"
| come: "traffic p0 outs0 p outs \<Longrightarrow> acquire c p = Some (v, p') \<Longrightarrow> traffic p0 outs0 p' (v # outs)"
| go: "traffic p0 outs0 p outs \<Longrightarrow> v \<in> set outs \<Longrightarrow> traffic p0 outs0 (snd (release v p)) (remove1 v outs)"

lemma counts_outstanding:
  assumes "traffic p0 outs0 p outs" "good p0" "users p0 = count_list outs0"
  shows "good p \<and> users p = count_list outs"
  using assms
proof (induction rule: traffic.induct)
  case start
  then show ?case by simp
next
  case (come p outs c v p')
  then have "users p' = (users p)(v := Suc (users p v))" "good p'"
    using acquire_users acquire_good by blast+
  with come show ?case by (auto simp: fun_eq_iff)
next
  case (go p outs v)
  have "count_list outs v > 0" using go.hyps(2) by (metis count_list_0_iff gr0I)
  moreover have "count_list (remove1 v outs) w = (if w = v then count_list outs v - 1 else count_list outs w)" for w
    by (induction outs) auto
  ultimately show ?case
    using go release_users [of p v] release_good [of p v] by (auto simp: fun_eq_iff)
qed

lemma destroyed_when_last_leaves:
  assumes "traffic p0 outs0 p outs" "good p0" "users p0 = count_list outs0" "v \<in> set outs"
  shows "fst (release v p) \<longleftrightarrow> v \<notin> set (remove1 v outs)"
proof -
  have g: "good p" "users p v = count_list outs v"
    using counts_outstanding [OF assms(1-3)] by auto
  have pos: "0 < count_list outs v" using assms(4) by (metis count_list_0_iff gr0I)
  have "count_list (remove1 v outs) v = count_list outs v - 1"
    by (induction outs) auto
  then show ?thesis
    using release_last [OF g(1)] g(2) pos
    by (metis One_nat_def Suc_pred count_list_0_iff diff_Suc_1)
qed

end

text \<open>
  The Go pool as such a pool: an acquisition of an existing slot, or the registration of the
  VM that was spawned because there was none (its id is new to the pool).
\<close>

definition vm_acquire :: "nat \<times> time \<times> string \<times> string \<Rightarrow> VMPoolManager \<Rightarrow> (string \<times> VMPoolManager) option" where
  "vm_acquire c p = (case c of (pick, now, vmID, prov) \<Rightarrow>
     (case vm_acquire_existing pick p of
        VMAssigned v p' \<Rightarrow> Some (v, p')
      | VMPoolFull \<Rightarrow> None
      | VMNeedSpawn \<Rightarrow> if map_of (vp_vms p) vmID = None then Some (vmID, vm_register now vmID prov p) else None))"

definition vm_users :: "VMPoolManager \<Rightarrow> string \<Rightarrow> nat" where
  "vm_users p v = (case map_of (vp_vms p) v of None \<Rightarrow> 0 | Some s \<Rightarrow> nat (vm_UserCount s))"

lemma slot_lookup: "pool_ok p \<Longrightarrow> map_of (vp_vms p) v = Some s \<Longrightarrow> slot_ok (vp_config p) (v, s)"
  by (auto simp: pool_ok_def dest: map_of_SomeD)

interpretation vm_pool: slot_pool vm_acquire vm_release vm_users
  "\<lambda>p. pool_ok p \<and> 1 \<le> pc_MaxUsersPerVM (vp_config p)"
proof
  fix p c v p'
  assume g: "pool_ok p \<and> 1 \<le> pc_MaxUsersPerVM (vp_config p)" and a: "vm_acquire c p = Some (v, p')"
  obtain pick now vmID prov where c: "c = (pick, now, vmID, prov)" by (metis prod_cases4)
  have "pool_ok p' \<and> vp_config p' = vp_config p \<and> vm_users p' = (vm_users p)(v := Suc (vm_users p v))"
  proof (cases "vm_acquire_existing pick p")
    case (VMAssigned w q)
    then have wq: "w = v" "q = p'" using a c by (auto simp: vm_acquire_def)
    obtain k slot where s: "(k, slot) \<in> set (vp_vms p)" "v = vm_VMID slot"
      "p' = p\<lparr>vp_vms := al_put k (slot\<lparr>vm_UserCount := vm_UserCount slot + 1\<rparr>) (vp_vms p)\<rparr>"
      using acquire_existing_cases [OF VMAssigned] wq by metis
    have "slot_ok (vp_config p) (k, slot)" "map_of (vp_vms p) k = Some slot"
      using g s(1) by (auto simp: pool_ok_def)
    then have "vm_users p' = (vm_users p)(v := Suc (vm_users p v))"
      using s by (auto simp: vm_users_def fun_eq_iff slot_ok_def nat_add_distrib)
    then show ?thesis using pool_ok_acquire_existing [OF _ VMAssigned] g s wq by auto
  next
    case VMNeedSpawn
    then have "vmID = v" "p' = vm_register now v prov p" "map_of (vp_vms p) v = None"
      using a c by (auto simp: vm_acquire_def split: if_splits)
    then show ?thesis
      using pool_ok_register [OF _ VMNeedSpawn] g
      by (auto simp: vm_users_def vm_register_def fun_eq_iff)
  qed (use a c in \<open>simp add: vm_acquire_def\<close>)
  with g show "pool_ok p' \<and> 1 \<le> pc_MaxUsersPerVM (vp_config p')"
    and "vm_users p' = (vm_users p)(v := Suc (vm_users p v))" by auto
next
  fix p v
  assume g: "pool_ok p \<and> 1 \<le> pc_MaxUsersPerVM (vp_config p)"
  then show "pool_ok (snd (vm_release v p)) \<and> 1 \<le> pc_MaxUsersPerVM (vp_config (snd (vm_release v p)))"
    using pool_ok_release by simp
  assume pos: "0 < vm_users p v"
  then obtain s where s: "map_of (vp_vms p) v = Some s" "0 < vm_UserCount s"
    by (auto simp: vm_users_def split: option.splits)
  show "vm_users (snd (vm_release v p)) = (vm_users p)(v := vm_users p v - 1)"
    using s by (auto simp: vm_release_def Let_def vm_users_def fun_eq_iff nat_diff_distrib)
  show "fst (vm_release v p) \<longleftrightarrow> vm_users p v = 1"
    using s by (auto simp: vm_release_def Let_def vm_users_def)
qed

end
