(* ===== verification/Go_Path.thy ===== *)
theory Go_Path
  imports Go_Strings
begin

text \<open>
  Go's \<open>path/filepath\<close> on Unix: \<open>Clean\<close> and \<open>Join\<close>, by components, and the lemmas that
  say what a cleaned rooted path looks like.  The manager confines the files of a pooled
  sandbox with them.
\<close>

abbreviation slash :: char where "slash \<equiv> CHR 0x2F"
abbreviation dot :: string where "dot \<equiv> [CHR 0x2E]"
abbreviation dotdot :: string where "dotdot \<equiv> [CHR 0x2E, CHR 0x2E]"

text \<open>
  The loop of \<open>Clean\<close>: the stack holds the components written so far, last first.  A
  \<open>..\<close> removes the last one, unless there is nothing to back over; a rooted path then
  drops it, another keeps it.
\<close>

fun clean_loop :: "bool \<Rightarrow> string list \<Rightarrow> string list \<Rightarrow> string list" where
  "clean_loop rooted st [] = rev st"
| "clean_loop rooted st (c # cs) =
     (if c = [] \<or> c = dot then clean_loop rooted st cs
      else if c = dotdot then
        (case st of
           [] \<Rightarrow> clean_loop rooted (if rooted then [] else [dotdot]) cs
         | d # ds \<Rightarrow> if d = dotdot then clean_loop rooted (dotdot # st) cs else clean_loop rooted ds cs)
      else clean_loop rooted (c # st) cs)"

definition Clean :: "string \<Rightarrow> string" where
  "Clean p =
     (case p of
        [] \<Rightarrow> dot
      | c # rest \<Rightarrow>
          if c = slash then slash # join_with slash (clean_loop True [] (split_on slash rest))
          else (let q = join_with slash (clean_loop False [] (split_on slash p))
                in if q = [] then dot else q))"

definition Join2 :: "string \<Rightarrow> string \<Rightarrow> string" where
  "Join2 a b = (if a \<noteq> [] then Clean (a @ slash # b) else if b \<noteq> [] then Clean b else [])"

text \<open>A component that names an entry of its directory.\<close>

definition plain :: "string \<Rightarrow> bool" where
  "plain c \<longleftrightarrow> c \<noteq> [] \<and> c \<noteq> dot \<and> c \<noteq> dotdot \<and> slash \<notin> set c"

lemma plainD: "plain c \<Longrightarrow> c \<noteq> []" "plain c \<Longrightarrow> slash \<notin> set c"
  by (simp_all add: plain_def)

lemma clean_loop_plain:
  assumes "\<And>c. c \<in> set cs \<Longrightarrow> slash \<notin> set c" and "\<And>c. c \<in> set st \<Longrightarrow> plain c"
    and "c \<in> set (clean_loop True st cs)"
  shows "plain c"
  using assms
proof (induction cs arbitrary: st)
  case (Cons d ds)
  consider "d = [] \<or> d = dot" | "d = dotdot" | "d \<noteq> []" "d \<noteq> dot" "d \<noteq> dotdot" by blast
  then show ?case
  proof cases
    case 1
    with Cons show ?thesis by auto
  next
    case 2
    have "plain x" if "x \<in> set (tl st)" for x
      using that Cons.prems(2) by (cases st) auto
    moreover have "clean_loop True st (d # ds) = clean_loop True (tl st) ds"
      using 2 Cons.prems(2) by (auto simp: plain_def split: list.split)
    ultimately show ?thesis
      using Cons by auto
  next
    case 3
    then have "plain d" using Cons.prems(1) [of d] by (auto simp: plain_def)
    then have "plain x" if "x \<in> set (d # st)" for x
      using that Cons.prems(2) by auto
    moreover have "c \<in> set (clean_loop True (d # st) ds)"
      using 3 Cons.prems(3) by simp
    ultimately show ?thesis
      using Cons.IH Cons.prems(1) by (meson list.set_intros(2))
  qed
qed auto

lemma clean_loop_of_plain:
  "(\<And>c. c \<in> set cs \<Longrightarrow> plain c) \<Longrightarrow> clean_loop r st cs = rev st @ cs"
  by (induction cs arbitrary: st) (auto simp: plain_def)

text \<open>A plain prefix of the components is pushed on the stack first.\<close>

lemma clean_loop_plain_prefix:
  "(\<And>c. c \<in> set ps \<Longrightarrow> plain c) \<Longrightarrow> clean_loop r st (ps @ cs) = clean_loop r (rev ps @ st) cs"
  by (induction ps arbitrary: st) (auto simp: plain_def)

lemma split_join:
  "cs \<noteq> [] \<Longrightarrow> (\<And>c. c \<in> set cs \<Longrightarrow> slash \<notin> set c) \<Longrightarrow> split_on slash (join_with slash cs) = cs"
proof (induction slash cs rule: join_with.induct)
  case (2 x)
  then show ?case by (simp add: split_on_id)
next
  case (3 x y ys)
  then show ?case by (simp add: split_on_append split_on_id)
qed simp

lemma split_on_join_plain:
  "(\<And>c. c \<in> set cs \<Longrightarrow> plain c) \<Longrightarrow>
   split_on slash (join_with slash cs) = (if cs = [] then [[]] else cs)"
  using split_join [of cs] by (auto simp: plain_def)

definition rooted_path :: "string list \<Rightarrow> string" where
  "rooted_path cs = slash # join_with slash cs"

lemma Clean_rooted:
  "Clean (slash # rest) = rooted_path (clean_loop True [] (split_on slash rest))"
  by (simp add: Clean_def rooted_path_def)

lemma Clean_rooted_plain:
  "(\<And>c. c \<in> set cs \<Longrightarrow> plain c) \<Longrightarrow> Clean (rooted_path cs) = rooted_path cs"
  unfolding rooted_path_def [of cs] Clean_rooted
  by (cases "cs = []") (auto simp: split_on_join_plain clean_loop_of_plain rooted_path_def)

lemma Clean_rooted_comps:
  obtains cs where "Clean (slash # rest) = rooted_path cs" and "\<And>c. c \<in> set cs \<Longrightarrow> plain c"
proof
  show "Clean (slash # rest) = rooted_path (clean_loop True [] (split_on slash rest))"
    by (rule Clean_rooted)
  show "plain c" if "c \<in> set (clean_loop True [] (split_on slash rest))" for c
    by (rule clean_loop_plain [OF _ _ that]) (auto dest: split_on_no_sep)
qed

lemma join_with_prefix:
  "join_with slash (a # b # cs) = join_with slash [a, b] @ concat (map (Cons slash) cs)"
proof (induction cs arbitrary: b)
  case (Cons c cs)
  have "join_with slash (b # c # cs) = b @ slash # join_with slash (c # cs)" by simp
  with Cons [of c] Cons [of b] show ?case
    by (cases cs) auto
qed simp

text \<open>Two plain component lists give the same path only if they are the same.\<close>

lemma rooted_path_inj:
  assumes "rooted_path cs = rooted_path ds"
    and "\<And>c. c \<in> set cs \<Longrightarrow> plain c" and "\<And>c. c \<in> set ds \<Longrightarrow> plain c"
  shows "cs = ds"
proof -
  have "split_on slash (join_with slash cs) = split_on slash (join_with slash ds)"
    using assms(1) by (simp add: rooted_path_def)
  then show ?thesis
    using assms(2,3) by (auto simp: split_on_join_plain plain_def split: if_splits)
qed

lemma rooted_path_under:
  assumes "\<And>c. c \<in> set cs \<Longrightarrow> plain c" and "plain a" and "plain b"
  shows "HasPrefix (rooted_path cs) (rooted_path [a, b] @ [slash]) \<longleftrightarrow> (\<exists>c ds. cs = a # b # c # ds)"
proof
  assume "HasPrefix (rooted_path cs) (rooted_path [a, b] @ [slash])"
  then obtain r where r: "join_with slash cs = a @ slash # b @ slash # r"
    by (auto simp: HasPrefix_iff rooted_path_def)
  have "split_on slash (join_with slash cs) = a # b # split_on slash r"
    unfolding r using assms(2,3) by (simp add: split_on_append split_on_id plain_def)
  then have "cs = a # b # split_on slash r"
    using assms(1) by (auto simp: split_on_join_plain split: if_splits)
  then show "\<exists>c ds. cs = a # b # c # ds"
    by (cases "split_on slash r") auto
next
  assume "\<exists>c ds. cs = a # b # c # ds"
  then show "HasPrefix (rooted_path cs) (rooted_path [a, b] @ [slash])"
    by (auto simp: HasPrefix_iff rooted_path_def)
qed

end
