(* ===== verification/Go_Duration.thy ===== *)
theory Go_Duration
  imports Go_Strings
begin

text \<open>
  \<open>time.Duration.String\<close> and \<open>time.ParseDuration\<close>.  The quota code prints limits with
  the first and reads them back with the second; \<open>Parse_Duration_seconds\<close> is the round trip
  it relies on.  A fraction (\<open>1.5h\<close>) is added in exact arithmetic, rounded down, where Go
  multiplies in \<open>float64\<close>; every other step, the overflow checks included, is Go's.
\<close>

section \<open>Printing\<close>

fun pad_digits :: "nat \<Rightarrow> nat \<Rightarrow> string" where
  "pad_digits 0 v = []"
| "pad_digits (Suc n) v = pad_digits n (v div 10) @ [digit_char (v mod 10)]"

fun strip_zeros :: "string \<Rightarrow> string" where
  "strip_zeros [] = []"
| "strip_zeros (c # s) = (let r = strip_zeros s in if r = [] \<and> c = CHR ''0'' then [] else c # r)"

definition fmtFrac :: "nat \<Rightarrow> nat \<Rightarrow> string" where
  "fmtFrac prec v = (let f = strip_zeros (pad_digits prec (v mod 10 ^ prec)) in
     if f = [] then [] else CHR 0x2E # f)"

definition Duration_abs_String :: "nat \<Rightarrow> string" where
  "Duration_abs_String u =
     (if u < 1000000000 then
        (if u = 0 then ''0s''
         else if u < 1000 then dec_nat u @ ''ns''
         else if u < 1000000 then dec_nat (u div 1000) @ fmtFrac 3 u @ [CHR 0xC2, CHR 0xB5, CHR ''s'']
         else dec_nat (u div 1000000) @ fmtFrac 6 u @ ''ms'')
      else
        (let secs = u div 1000000000;
             mins = secs div 60;
             hours = mins div 60
         in (if hours > 0 then dec_nat hours @ ''h'' else [])
            @ (if mins > 0 then dec_nat (mins mod 60) @ ''m'' else [])
            @ dec_nat (secs mod 60) @ fmtFrac 9 u @ ''s''))"

definition Duration_String :: "duration \<Rightarrow> string" where
  "Duration_String d = (if d < 0 then CHR ''-'' # Duration_abs_String (nat (- d)) else Duration_abs_String (nat d))"

section \<open>Parsing\<close>

definition bad_duration :: "string \<Rightarrow> string \<Rightarrow> error" where
  "bad_duration what s = Err ErrOther (''time: '' @ what @ '' '' @ Quote s)"

definition unitMap :: "string \<Rightarrow> nat option" where
  "unitMap = map_of
     [(''ns'', 1), (''us'', 1000), ([CHR 0xC2, CHR 0xB5, CHR ''s''], 1000),
      ([CHR 0xCE, CHR 0xBC, CHR ''s''], 1000), (''ms'', 1000000), (''s'', 1000000000),
      (''m'', 60000000000), (''h'', 3600000000000)]"

text \<open>\<open>leadingInt\<close>: the leading digits as a number and the rest; \<open>None\<close> above \<open>2^63\<close>.\<close>

fun leadingInt :: "nat \<Rightarrow> string \<Rightarrow> (nat \<times> string) option" where
  "leadingInt x [] = Some (x, [])"
| "leadingInt x (c # s) =
     (if \<not> is_digit c then Some (x, c # s)
      else if x > 2 ^ 63 div 10 then None
      else (let y = x * 10 + digit_val c in if y > 2 ^ 63 then None else leadingInt y s))"

text \<open>\<open>leadingFraction\<close>: digits after the point, dropping those that would overflow.\<close>

fun leadingFraction :: "nat \<Rightarrow> nat \<Rightarrow> bool \<Rightarrow> string \<Rightarrow> nat \<times> nat \<times> string" where
  "leadingFraction x sc ovf [] = (x, sc, [])"
| "leadingFraction x sc ovf (c # s) =
     (if \<not> is_digit c then (x, sc, c # s)
      else if ovf \<or> x > (2 ^ 63 - 1) div 10 then leadingFraction x sc True s
      else (let y = x * 10 + digit_val c in
            if y > 2 ^ 63 then leadingFraction x sc True s
            else leadingFraction y (sc * 10) False s))"

definition unit_char :: "char \<Rightarrow> bool" where
  "unit_char c \<longleftrightarrow> c \<noteq> CHR 0x2E \<and> \<not> is_digit c"

text \<open>One \<open>[0-9]*(.[0-9]*)?unit\<close> group: its nanoseconds and the rest of the input.\<close>

definition parse_group :: "string \<Rightarrow> string \<Rightarrow> error + (nat \<times> string)" where
  "parse_group orig s =
     (case s of [] \<Rightarrow> Inl (bad_duration ''invalid duration'' orig) | c0 # _ \<Rightarrow>
      if \<not> (c0 = CHR 0x2E \<or> is_digit c0) then Inl (bad_duration ''invalid duration'' orig)
      else case leadingInt 0 s of
        None \<Rightarrow> Inl (bad_duration ''invalid duration'' orig)
      | Some (v, s1) \<Rightarrow>
        (let pre = length s1 \<noteq> length s;
             (f, scale, s2) = (case s1 of
                 c # r \<Rightarrow> if c = CHR 0x2E then leadingFraction 0 1 False r else (0, 1, s1)
               | [] \<Rightarrow> (0, 1, s1));
             post = (case s1 of c # r \<Rightarrow> c = CHR 0x2E \<and> length s2 \<noteq> length r | [] \<Rightarrow> False);
             u = takeWhile unit_char s2;
             s3 = dropWhile unit_char s2
         in if \<not> pre \<and> \<not> post then Inl (bad_duration ''invalid duration'' orig)
            else if u = [] then Inl (bad_duration ''missing unit in duration'' orig)
            else case unitMap u of
              None \<Rightarrow> Inl (Err ErrOther (''time: unknown unit '' @ Quote u @ '' in duration '' @ Quote orig))
            | Some unit \<Rightarrow>
                if v > 2 ^ 63 div unit then Inl (bad_duration ''invalid duration'' orig)
                else (let w = v * unit + (f * unit) div scale in
                      if w > 2 ^ 63 then Inl (bad_duration ''invalid duration'' orig)
                      else Inr (w, s3))))"

lemma leadingInt_length: "leadingInt x s = Some (v, r) \<Longrightarrow> length r \<le> length s"
  by (induction x s rule: leadingInt.induct) (auto simp: Let_def split: if_splits)

lemma leadingFraction_length: "leadingFraction x sc ovf s = (f, sc', r) \<Longrightarrow> length r \<le> length s"
  by (induction x sc ovf s rule: leadingFraction.induct) (auto simp: Let_def split: if_splits)

lemma length_dropWhile_takeWhile: "takeWhile P s \<noteq> [] \<Longrightarrow> length (dropWhile P s) < length s"
  by (cases s) (auto simp: length_dropWhile_le le_imp_less_Suc split: if_splits)

lemma parse_group_shrinks:
  assumes "parse_group orig s = Inr (w, r)"
  shows "length r < length s"
proof -
  obtain c0 t v s1 where s: "s = c0 # t" and li: "leadingInt 0 s = Some (v, s1)"
    using assms by (auto simp: parse_group_def split: list.splits if_splits option.splits)
  have s1: "length s1 \<le> length s" by (rule leadingInt_length [OF li])
  obtain f sc s2 where s2: "(case s1 of
                 c # r \<Rightarrow> if c = CHR 0x2E then leadingFraction 0 1 False r else (0, 1, s1)
               | [] \<Rightarrow> (0, 1, s1)) = (f, sc, s2)"
    by (metis prod_cases3)
  then have "length s2 \<le> length s1"
    by (auto split: list.splits if_splits dest: leadingFraction_length)
  moreover have "takeWhile unit_char s2 \<noteq> [] \<and> r = dropWhile unit_char s2"
    using assms s2 unfolding parse_group_def s li [unfolded s]
    by (auto simp: Let_def li [unfolded s] split: if_splits option.splits prod.splits)
  ultimately show ?thesis
    using s1 length_dropWhile_takeWhile by fastforce
qed

function parse_groups :: "string \<Rightarrow> nat \<Rightarrow> string \<Rightarrow> error + nat" where
  "parse_groups orig d s =
     (if s = [] then Inr d
      else case parse_group orig s of
        Inl e \<Rightarrow> Inl e
      | Inr (w, r) \<Rightarrow>
          if d + w > 2 ^ 63 then Inl (bad_duration ''invalid duration'' orig)
          else parse_groups orig (d + w) r)"
  by pat_completeness auto
termination
  by (relation "measure (\<lambda>(orig, d, s). length s)") (auto dest: parse_group_shrinks)

declare parse_groups.simps [simp del]

definition ParseDuration :: "string \<Rightarrow> error + duration" where
  "ParseDuration orig =
     (let neg = (case orig of c # _ \<Rightarrow> c = CHR ''-'' | [] \<Rightarrow> False);
          s = (case orig of c # r \<Rightarrow> if c = CHR ''-'' \<or> c = CHR ''+'' then r else orig | [] \<Rightarrow> [])
      in if s = ''0'' then Inr 0
         else if s = [] then Inl (bad_duration ''invalid duration'' orig)
         else case parse_groups orig 0 s of
           Inl e \<Rightarrow> Inl e
         | Inr d \<Rightarrow> if neg then Inr (- int d)
                    else if d > 2 ^ 63 - 1 then Inl (bad_duration ''invalid duration'' orig)
                    else Inr (int d))"

text \<open>A parsed duration always fits in an \<open>int64\<close>.\<close>

lemma parse_groups_bound: "parse_groups orig d s = Inr x \<Longrightarrow> d \<le> 2 ^ 63 \<Longrightarrow> x \<le> 2 ^ 63"
proof (induction orig d s rule: parse_groups.induct)
  case (1 orig d s)
  then show ?case
    by (subst (asm) (2) parse_groups.simps) (auto split: if_splits sum.splits prod.splits)
qed

lemma ParseDuration_range:
  assumes "ParseDuration s = Inr d"
  shows "- (2 ^ 63) \<le> d \<and> d < 2 ^ 63"
  using assms parse_groups_bound [of s 0]
  by (fastforce simp: ParseDuration_def Let_def split: if_splits sum.splits)

section \<open>Whole seconds: print, then parse\<close>

lemma leadingInt_digits:
  assumes "\<forall>c\<in>set ds. is_digit c" and "case r of [] \<Rightarrow> True | c # _ \<Rightarrow> \<not> is_digit c"
    and "foldl (\<lambda>a c. a * 10 + digit_val c) x ds \<le> 2 ^ 63 div 10"
  shows "leadingInt x (ds @ r) = Some (foldl (\<lambda>a c. a * 10 + digit_val c) x ds, r)"
  using assms
proof (induction ds arbitrary: x)
  case Nil
  then show ?case by (cases r) auto
next
  case (Cons c ds)
  have mono: "y \<le> foldl (\<lambda>a c. a * 10 + digit_val c) y ds" for y
  proof (induction ds arbitrary: y)
    case (Cons b bs)
    from Cons [of "y * 10 + digit_val b"] show ?case by simp
  qed simp
  have "x * 10 + digit_val c \<le> 2 ^ 63 div 10"
    using mono [of "x * 10 + digit_val c"] Cons.prems(3) by simp
  then show ?case
    using Cons by (simp add: Let_def)
qed

lemma parse_group_plain:
  assumes n: "n \<le> 2 ^ 63 div unit" "n \<le> 2 ^ 63 div 10"
    and u: "unitMap u = Some unit" "u \<noteq> []" "\<forall>c\<in>set u. unit_char c"
    and r: "case r of [] \<Rightarrow> True | c # _ \<Rightarrow> is_digit c"
    and unit: "0 < unit"
  shows "parse_group orig (dec_nat n @ u @ r) = Inr (n * unit, r)"
proof -
  obtain c0 t where dn: "dec_nat n = c0 # t"
    by (cases "dec_nat n") auto
  have c0: "is_digit c0" using dec_nat_digits [of n] dn by simp
  obtain d u' where ud: "u = d # u'" using u(2) by (cases u) auto
  have nd: "\<not> is_digit d" "d \<noteq> CHR 0x2E" using u(3) ud by (auto simp: unit_char_def)
  have li: "leadingInt 0 (dec_nat n @ u @ r) = Some (n, u @ r)"
    using leadingInt_digits [of "dec_nat n" "u @ r" 0] dec_nat_digits n(2) val_dec_nat [of n] ud nd
    by (simp add: val_of_digits_def)
  have r': "r = [] \<or> \<not> unit_char (hd r)"
    using r by (cases r) (auto simp: unit_char_def)
  have tw: "takeWhile unit_char (u @ r) = u" "dropWhile unit_char (u @ r) = r"
    using u(3) r' by (cases r; force simp: takeWhile_append dropWhile_append)+
  have le: "n * unit \<le> 2 ^ 63"
    using mult_le_mono1 [OF n(1), of unit] div_times_less_eq_dividend [of "2 ^ 63" unit] by linarith
  show ?thesis
    using n(1) u(1,2) le nd c0 li tw ud unfolding parse_group_def
    by (simp add: dn Let_def)
qed

lemma parse_groups_step:
  "parse_group orig s = Inr (w, r) \<Longrightarrow> s \<noteq> [] \<Longrightarrow> d + w \<le> 2 ^ 63 \<Longrightarrow>
   parse_groups orig d s = parse_groups orig (d + w) r"
  by (subst parse_groups.simps) simp

lemma parse_groups_Nil [simp]: "parse_groups orig d [] = Inr d"
  by (subst parse_groups.simps) simp

lemmas units = unitMap_def unit_char_def is_digit_def

lemma fmtFrac_whole: "fmtFrac p (n * 10 ^ p) = []"
proof -
  have "strip_zeros (pad_digits p 0) = []"
  proof (induction p)
    case (Suc p)
    have "strip_zeros (s @ [CHR ''0'']) = strip_zeros s" for s
      by (induction s) (auto simp: Let_def)
    with Suc show ?case by simp
  qed simp
  then show ?thesis by (simp add: fmtFrac_def)
qed

lemma digit_or_end: "case dec_nat n @ s of [] \<Rightarrow> True | c # _ \<Rightarrow> is_digit c"
  using dec_nat_digits [of n] by (cases "dec_nat n") auto

text \<open>
  Every whole number of seconds an \<open>int64\<close> of nanoseconds can hold is read back from its
  printed form.
\<close>

lemma Parse_Duration_seconds:
  assumes n: "n \<le> 9223372036"
  shows "ParseDuration (Duration_String (int n * Second)) = Inr (int n * Second)"
proof (cases "n = 0")
  case True
  have "parse_group ''0s'' ''0s'' = Inr (0, [])"
    using parse_group_plain [of 0 1000000000 "''s''" "[]" "''0s''"] by (simp add: units dec_nat.simps)
  then show ?thesis
    using True by (simp add: Duration_String_def Duration_abs_String_def ParseDuration_def Let_def
        parse_groups_step)
next
  case False
  define h m s where hms: "h = n div 60 div 60" "m = n div 60 mod 60" "s = n mod 60"
  let ?H = "if h > 0 then dec_nat h @ ''h'' else []"
  let ?M = "if n div 60 > 0 then dec_nat m @ ''m'' else []"
  let ?S = "dec_nat s @ ''s''"
  let ?o = "?H @ ?M @ ?S"
  have str: "Duration_String (int n * Second) = ?o"
  proof -
    have "nat (int n * Second) = n * 10 ^ 9" by (simp add: nat_mult_distrib)
    moreover have "\<not> n * 10 ^ 9 < 1000000000" using False by simp
    ultimately show ?thesis
      using fmtFrac_whole [of 9 n]
      by (simp add: Duration_String_def Duration_abs_String_def Let_def hms)
  qed
  have hm: "h * 60 + m = n div 60" by (simp add: hms)
  have "n = (h * 60 + m) * 60 + s" unfolding hm by (simp add: hms)
  moreover have "h \<le> 2562047" "m < 60" "s < 60"
    using n by (auto simp: hms div_le_mono [of n 9223372036 3600, simplified] div_mult2_eq [symmetric])
  ultimately have bounds: "h \<le> 2562047" "m < 60" "s < 60" "n = (h * 60 + m) * 60 + s"
    by blast+
  have gS: "parse_groups ?o d ?S = Inr (d + s * 1000000000)" if "d + s * 1000000000 \<le> 2 ^ 63" for d
  proof -
    have "parse_group ?o (dec_nat s @ ''s'' @ []) = Inr (s * 1000000000, [])"
      using bounds by (intro parse_group_plain) (auto simp: units)
    then show ?thesis using that by (simp add: parse_groups_step)
  qed
  have gM: "parse_groups ?o d (?M @ ?S) = Inr (d + m * 60000000000 + s * 1000000000)"
    if "d + m * 60000000000 + s * 1000000000 \<le> 2 ^ 63" for d
  proof (cases "n div 60 > 0")
    case True
    have "parse_group ?o (dec_nat m @ ''m'' @ ?S) = Inr (m * 60000000000, ?S)"
      using bounds digit_or_end by (intro parse_group_plain) (auto simp: units)
    then show ?thesis
      using that gS [of "d + m * 60000000000"] True
      by (simp add: parse_groups_step add.assoc)
  next
    case False
    then have "m = 0" by (simp add: hms)
    with False that show ?thesis using gS [of d] by simp
  qed
  have total: "h * 3600000000000 + m * 60000000000 + s * 1000000000 = n * 1000000000"
    using bounds(4) by simp
  have le: "n * 1000000000 \<le> 2 ^ 63 - 1" using n by simp
  have gH: "parse_groups ?o 0 ?o = Inr (n * 1000000000)"
  proof (cases "h > 0")
    case True
    have "case ?M @ ?S of [] \<Rightarrow> True | c # _ \<Rightarrow> is_digit c"
      using digit_or_end [of m] digit_or_end [of s] by simp
    then have "parse_group ?o (dec_nat h @ ''h'' @ ?M @ ?S) = Inr (h * 3600000000000, ?M @ ?S)"
      using bounds by (intro parse_group_plain) (auto simp: units)
    then show ?thesis
      using gM [of "h * 3600000000000"] total le True
      by (simp add: parse_groups_step)
  next
    case False
    then show ?thesis using gM [of 0] total le by simp
  qed
  obtain c0 t where o: "?o = c0 # t" and c0: "is_digit c0"
  proof -
    have "case ?o of [] \<Rightarrow> True | c # _ \<Rightarrow> is_digit c"
      using digit_or_end [of h] digit_or_end [of m] digit_or_end [of s] by simp
    moreover have "?o \<noteq> []" by simp
    ultimately show ?thesis using that by (cases ?o) auto
  qed
  have "?o \<noteq> ''0''"
  proof
    assume "?o = ''0''"
    then have "last ?o = CHR ''0''" by simp
    then show False by simp
  qed
  with o c0 gH le show ?thesis
    unfolding str ParseDuration_def
    by (auto simp: Let_def is_digit_def)
qed

end
