(* ===== verification/Manager_State.thy ===== *)
theory Manager_State
  imports Store_Laws Events Metrics VM_Pool Go_Path Go_Duration
begin

text \<open>
  The state of the orchestrator's \<open>Manager\<close> (\<open>internal/orchestrator/manager.go\<close>,
  \<open>types.go\<close>, \<open>errors.go\<close>), the world it calls (providers, remote workers, clock,
  database faults) and the small helpers every operation uses.

  The world.  Providers and remote workers are reached through Go interfaces.  What they
  answer is a parameter: a function of the calls made so far and of the call, held in
  \<open>env\<close>.  Each call is appended to \<open>m_calls\<close>, so theorems can say which calls an operation
  made.  One operation runs at one instant \<open>db_now\<close>; \<open>env_elapsed\<close> is what
  \<open>time.Since\<close> measures.
\<close>

section \<open>Data\<close>

abbreviation "StateCreating \<equiv> ''creating''"
abbreviation "StateRunning \<equiv> ''running''"
abbreviation "StateUnhealthy \<equiv> ''unhealthy''"
abbreviation "StateExpired \<equiv> ''expired''"
abbreviation "StateDestroyed \<equiv> ''destroyed''"
abbreviation "StateError \<equiv> ''error''"

record Sandbox =
  sb_ID :: string
  sb_State :: string
  sb_Provider :: string
  sb_Image :: string
  sb_MemoryMB :: int
  sb_VCPUs :: int
  sb_OwnerID :: string
  sb_TenantID :: string
  sb_VMID :: string
  sb_WorkerID :: string
  sb_CreatedAt :: time
  sb_ExpiresAt :: time
  sb_Metadata :: metadata
  sb_PreviewDomain :: string

record SpawnRequest =
  rq_Image :: string
  rq_Provider :: string
  rq_MemoryMB :: int
  rq_VCPUs :: int
  rq_TTL :: string
  rq_Template :: string
  rq_OwnerID :: string
  rq_TenantID :: string
  rq_Metadata :: metadata

record ExecRequest =
  xr_Command :: string
  xr_Args :: "string list"
  xr_Mode :: string
  xr_Env :: metadata
  xr_WorkDir :: string
  xr_Timeout :: string

record ExecResult =
  er_ExitCode :: int
  er_Stdout :: string
  er_Stderr :: string
  er_Duration :: string

record FileInfo =
  fi_Path :: string
  fi_Size :: int
  fi_Mode :: string
  fi_IsDir :: bool
  fi_ModTime :: string

text \<open>The share of the processor, a float, is left out.\<close>

record SandboxStats =
  ss_MemoryBytes :: u64
  ss_MemoryLimitBytes :: u64

record RuntimeSandbox =
  rs_ID :: string
  rs_State :: string
  rs_Provider :: string
  rs_Image :: string
  rs_CreatedAt :: time
  rs_Metadata :: metadata

record OperationalLimits =
  lim_MaxSandboxes :: int
  lim_MaxSandboxesPerOwner :: int
  lim_DefaultExecTimeout :: duration
  lim_MaxExecTimeout :: duration
  lim_MaxTTL :: duration
  lim_SpawnOverflow :: string
  lim_SpawnQueueTimeout :: duration
  lim_MaxSpawnQueue :: int

record spawnQueueStats =
  qs_queuedTotal :: u64
  qs_dequeuedTotal :: u64
  qs_timeoutTotal :: u64
  qs_waitCount :: u64
  qs_waitTotal :: duration
  qs_waitMax :: duration

section \<open>The registry of providers\<close>

text \<open>A registered provider is its name, with whether it can list its runtimes.\<close>

record Registry =
  rg_providers :: "(string \<times> bool) list"
  rg_dflt :: string

definition registry_Register :: "string \<Rightarrow> bool \<Rightarrow> Registry \<Rightarrow> Registry" where
  "registry_Register name lister r = r\<lparr>rg_providers := al_put name lister (rg_providers r)\<rparr>"

definition registry_SetDefault :: "string \<Rightarrow> Registry \<Rightarrow> error option \<times> Registry" where
  "registry_SetDefault name r =
     (case map_of (rg_providers r) name of
        None \<Rightarrow> (Some (Err ErrOther (''provider '' @ Quote name @ '' not registered'')), r)
      | Some _ \<Rightarrow> (None, r\<lparr>rg_dflt := name\<rparr>))"

definition ProviderNotFoundError :: "string \<Rightarrow> error" where
  "ProviderNotFoundError name = Err ErrProviderNotFound (''provider not found: '' @ name)"

definition registry_Get :: "Registry \<Rightarrow> string \<Rightarrow> error + string" where
  "registry_Get r name =
     (let name = (if name = [] then rg_dflt r else name) in
      if name = [] then Inl (Err ErrOther ''no provider specified and no default set'')
      else case map_of (rg_providers r) name of
        None \<Rightarrow> Inl (ProviderNotFoundError name)
      | Some _ \<Rightarrow> Inr name)"

definition registry_List :: "Registry \<Rightarrow> string list" where
  "registry_List r = map fst (rg_providers r)"

section \<open>The world\<close>

record LeaseToken =
  lt_ResourceID :: string
  lt_HolderID :: string
  lt_Generation :: int
  lt_ExpiresAt :: time

datatype ext_call =
    PSpawn string string int int metadata
  | PDestroy string string
  | PStatus string string
  | PExec string string ExecRequest string
  | PExecStream string string ExecRequest string
  | PWriteFile string string string string string
  | PReadFile string string string
  | PListFiles string string string
  | PDeleteFile string string string bool
  | PMoveFile string string string string
  | PChmodFile string string string string
  | PStatFile string string string
  | PGlobFiles string string string
  | PConsoleLog string string int
  | PStats string string
  | PListRuntimeSandboxes string
  | RSpawn string string LeaseToken string string string int int string string metadata
  | RDestroy string string LeaseToken string string string
  | RStatus string string string string string
  | RExec string string string string string ExecRequest string
  | RExecStream string string string string string ExecRequest string
  | RFileWrite string string string string string string string string
  | RFileRead string string string string string string
  | RFileList string string string string string string
  | RFileDelete string string string string string string bool
  | RFileMove string string string string string string string
  | RFileChmod string string string string string string string
  | RFileStat string string string string string string
  | RFileGlob string string string string string string
  | RLogs string string string string string int

record env = dbenv +
  env_rand4 :: string
  env_elapsed :: duration
  env_pick :: nat
  env_deadline :: bool
  re_id :: "ext_call list \<Rightarrow> ext_call \<Rightarrow> error + string"
  re_unit :: "ext_call list \<Rightarrow> ext_call \<Rightarrow> error option"
  re_exec :: "ext_call list \<Rightarrow> ext_call \<Rightarrow> error + int \<times> string \<times> string"
  re_bytes :: "ext_call list \<Rightarrow> ext_call \<Rightarrow> error + string"
  re_content :: "ext_call list \<Rightarrow> ext_call \<Rightarrow> error + string"
  re_stat :: "ext_call list \<Rightarrow> ext_call \<Rightarrow> error + FileInfo"
  re_stream :: "ext_call list \<Rightarrow> ext_call \<Rightarrow> error + (string \<times> string) list"
  re_errs :: "ext_call list \<Rightarrow> ext_call \<Rightarrow> error list"
  re_files :: "ext_call list \<Rightarrow> ext_call \<Rightarrow> error + FileInfo list"
  re_strings :: "ext_call list \<Rightarrow> ext_call \<Rightarrow> error + string list"
  re_runtimes :: "ext_call list \<Rightarrow> ext_call \<Rightarrow> error + RuntimeSandbox list"
  re_spawned :: "ext_call list \<Rightarrow> ext_call \<Rightarrow> error + string \<times> string"
  re_stats :: "ext_call list \<Rightarrow> ext_call \<Rightarrow> (error + SandboxStats) option"

section \<open>The manager\<close>

record mconfig =
  mc_defaultTTL :: duration
  mc_defaultImage :: string
  mc_defaultMemory :: int
  mc_defaultVCPUs :: int
  mc_limits :: OperationalLimits
  mc_workerID :: string
  mc_workerToken :: string
  mc_workerSigningKey :: string
  mc_pool :: PoolConfig
  mc_previewDomain :: string

record mgr =
  m_cfg :: mconfig
  m_registry :: Registry
  m_store :: store
  m_events :: EventBus
  m_metrics :: MetricsRecorder
  m_sandboxes :: "(string \<times> Sandbox) list"
  m_queueWaiters :: int
  m_capacityGen :: nat
  m_queueStats :: spawnQueueStats
  m_vmPool :: "VMPoolManager option"
  m_calls :: "ext_call list"

abbreviation m_limits :: "mgr \<Rightarrow> OperationalLimits" where "m_limits m \<equiv> mc_limits (m_cfg m)"
abbreviation m_workerID :: "mgr \<Rightarrow> string" where "m_workerID m \<equiv> mc_workerID (m_cfg m)"

definition NewManager :: "Registry \<Rightarrow> store \<Rightarrow> EventBus \<Rightarrow> mconfig \<Rightarrow> mgr" where
  "NewManager reg st eb cfg =
     (let c = cfg\<lparr>mc_workerID := TrimSpace (mc_workerID cfg), mc_workerToken := TrimSpace (mc_workerToken cfg),
                 mc_workerSigningKey := TrimSpace (mc_workerSigningKey cfg)\<rparr>;
          c = (if mc_defaultTTL c = 0 then c\<lparr>mc_defaultTTL := 30 * Minute\<rparr> else c);
          c = (if mc_defaultImage c = [] then c\<lparr>mc_defaultImage := ''alpine:latest''\<rparr> else c);
          c = (if mc_defaultMemory c = 0 then c\<lparr>mc_defaultMemory := 512\<rparr> else c);
          c = (if mc_defaultVCPUs c = 0 then c\<lparr>mc_defaultVCPUs := 1\<rparr> else c);
          l = mc_limits c;
          l = (if lim_SpawnOverflow l = [] then l\<lparr>lim_SpawnOverflow := ''reject''\<rparr> else l);
          l = (if lim_SpawnQueueTimeout l = 0 then l\<lparr>lim_SpawnQueueTimeout := 30 * Second\<rparr> else l);
          l = (if lim_MaxSpawnQueue l = 0 then l\<lparr>lim_MaxSpawnQueue := 100\<rparr> else l);
          c = c\<lparr>mc_limits := l\<rparr>;
          c = (if mc_workerID c = [] then c\<lparr>mc_workerID := ''local''\<rparr> else c)
      in \<lparr>m_cfg = c, m_registry = reg, m_store = st, m_events = eb, m_metrics = [], m_sandboxes = [],
          m_queueWaiters = 0, m_capacityGen = 0,
          m_queueStats = \<lparr>qs_queuedTotal = 0, qs_dequeuedTotal = 0, qs_timeoutTotal = 0, qs_waitCount = 0,
                          qs_waitTotal = 0, qs_waitMax = 0\<rparr>,
          m_vmPool = None, m_calls = []\<rparr>)"

definition InitVMPool :: "mgr \<Rightarrow> mgr" where
  "InitVMPool m = (if \<not> pc_Enabled (mc_pool (m_cfg m)) then m
                   else m\<lparr>m_vmPool := Some (NewVMPoolManager (mc_pool (m_cfg m)))\<rparr>)"

section \<open>Errors\<close>

definition InvalidInputError :: "string \<Rightarrow> error" where
  "InvalidInputError message = Err ErrInvalidInput (''invalid input: '' @ message)"

definition SandboxNotFoundError :: "string \<Rightarrow> error" where
  "SandboxNotFoundError i = Err ErrSandboxNotFound (''sandbox not found: '' @ i)"

definition SandboxDestroyedError :: "string \<Rightarrow> error" where
  "SandboxDestroyedError i = Err ErrSandboxDestroyed (''sandbox destroyed: '' @ i)"

definition ExecTimeoutError :: "string \<Rightarrow> error" where
  "ExecTimeoutError i = Err ErrExecTimeout (''exec timeout: '' @ i)"

definition ResourceLimitError :: "string \<Rightarrow> error" where
  "ResourceLimitError r = Err ErrResourceLimit (''resource limit exceeded: '' @ r)"

lemma err_kind_mgr [simp]:
  "err_kind (InvalidInputError x) = ErrInvalidInput" "err_kind (SandboxNotFoundError x) = ErrSandboxNotFound"
  "err_kind (SandboxDestroyedError x) = ErrSandboxDestroyed" "err_kind (ExecTimeoutError x) = ErrExecTimeout"
  "err_kind (ResourceLimitError x) = ErrResourceLimit"
  by (simp_all add: InvalidInputError_def SandboxNotFoundError_def SandboxDestroyedError_def
      ExecTimeoutError_def ResourceLimitError_def)

section \<open>Effects\<close>

definition call :: "(ext_call list \<Rightarrow> ext_call \<Rightarrow> 'a) \<Rightarrow> ext_call \<Rightarrow> mgr \<Rightarrow> 'a \<times> mgr" where
  "call re c m = (re (m_calls m) c, m\<lparr>m_calls := m_calls m @ [c]\<rparr>)"

definition on_store :: "(store \<Rightarrow> 'a \<times> store) \<Rightarrow> mgr \<Rightarrow> 'a \<times> mgr" where
  "on_store f m = (fst (f (m_store m)), m\<lparr>m_store := snd (f (m_store m))\<rparr>)"

definition publish_event :: "env \<Rightarrow> string \<Rightarrow> string \<Rightarrow> jdata \<Rightarrow> mgr \<Rightarrow> mgr" where
  "publish_event E ty sandboxID data m =
     m\<lparr>m_events := Publish (db_now E)
        \<lparr>ev_ID = [], ev_Type = ty, ev_SandboxID = sandboxID, ev_Timestamp = 0, ev_Data = data\<rparr> (m_events m)\<rparr>"

definition publishOperationalEvent :: "env \<Rightarrow> string \<Rightarrow> string \<Rightarrow> jdata \<Rightarrow> mgr \<Rightarrow> mgr" where
  "publishOperationalEvent E ty sandboxID data m = publish_event E ty sandboxID data m"

definition publishOperationFailure :: "env \<Rightarrow> string \<Rightarrow> string \<Rightarrow> string \<Rightarrow> string \<Rightarrow> error \<Rightarrow> mgr \<Rightarrow> mgr" where
  "publishOperationFailure E ty sandboxID operation provider err m =
     publishOperationalEvent E ty sandboxID
       [(''operation'', JStr operation), (''provider'', JStr provider), (''error'', JStr (err_msg err))] m"

definition publishFailureForError :: "env \<Rightarrow> string \<Rightarrow> string \<Rightarrow> string \<Rightarrow> error \<Rightarrow> mgr \<Rightarrow> mgr" where
  "publishFailureForError E sandboxID operation provider err m =
     (if ErrorsIs err ErrResourceLimit then publishOperationFailure E EventResourceLimit sandboxID operation provider err m
      else if ErrorsIs err ErrProviderUnavailable \<or> ErrorsIs err ErrProviderNotFound
      then publishOperationFailure E EventProviderFailed sandboxID operation provider err m
      else publishOperationFailure E EventOperationFailed sandboxID operation provider err m)"

definition recordOperation :: "env \<Rightarrow> string \<Rightarrow> string \<Rightarrow> error option \<Rightarrow> mgr \<Rightarrow> mgr" where
  "recordOperation E operation provider err m =
     m\<lparr>m_metrics := RecordOperation (db_now E) operation provider (env_elapsed E) err (m_metrics m)\<rparr>"

definition truncateAuditDetail :: "string \<Rightarrow> string" where
  "truncateAuditDetail detail = (if length detail \<le> 2048 then detail else take 2048 detail)"

definition auditOperation ::
  "env \<Rightarrow> string \<Rightarrow> Sandbox option \<Rightarrow> string \<Rightarrow> string \<Rightarrow> string \<Rightarrow> string \<Rightarrow> mgr \<Rightarrow> mgr" where
  "auditOperation E action sb sandboxID resource status detail m =
     (let r = \<lparr>oa_Actor = [], oa_Action = action, oa_SandboxID = sandboxID, oa_Resource = resource,
               oa_Provider = [], oa_Status = status, oa_Detail = truncateAuditDetail detail,
               oa_TenantID = [], oa_CreatedAt = db_now E\<rparr>;
          r = (case sb of None \<Rightarrow> r
               | Some b \<Rightarrow>
                   (let r = r\<lparr>oa_Actor := sb_OwnerID b, oa_Provider := sb_Provider b\<rparr>
                    in if oa_SandboxID r = [] then r\<lparr>oa_SandboxID := sb_ID b\<rparr> else r))
      in snd (on_store (CreateOperationAudit E r) m))"

definition cache_put :: "string \<Rightarrow> Sandbox \<Rightarrow> mgr \<Rightarrow> mgr" where
  "cache_put i sb m = m\<lparr>m_sandboxes := al_put i sb (m_sandboxes m)\<rparr>"

definition cache_del :: "string \<Rightarrow> mgr \<Rightarrow> mgr" where
  "cache_del i m = m\<lparr>m_sandboxes := al_del i (m_sandboxes m)\<rparr>"

definition cached :: "mgr \<Rightarrow> string \<Rightarrow> Sandbox option" where
  "cached m i = map_of (m_sandboxes m) i"

text \<open>Closing \<open>capacityCh\<close> wakes its waiters; the generation counts the channels closed.\<close>

definition notifySpawnCapacity :: "mgr \<Rightarrow> mgr" where
  "notifySpawnCapacity m = m\<lparr>m_capacityGen := Suc (m_capacityGen m)\<rparr>"

section \<open>Leases of sandboxes\<close>

abbreviation sandboxLeaseGrace :: duration where "sandboxLeaseGrace \<equiv> 5 * Minute"

definition acquireSandboxLeaseFor ::
  "env \<Rightarrow> string \<Rightarrow> string \<Rightarrow> time \<Rightarrow> mgr \<Rightarrow> (error + LeaseRecord) \<times> mgr" where
  "acquireSandboxLeaseFor E sandboxID workerID expiresAt m =
     (let ttl = (expiresAt - db_now E) + sandboxLeaseGrace;
          ttl = (if ttl \<le> 0 then sandboxLeaseGrace else ttl)
      in on_store (AcquireLease E sandboxID ''sandbox'' workerID ttl) m)"

definition acquireSandboxLease :: "env \<Rightarrow> string \<Rightarrow> time \<Rightarrow> mgr \<Rightarrow> (error + LeaseRecord) \<times> mgr" where
  "acquireSandboxLease E sandboxID expiresAt m =
     acquireSandboxLeaseFor E sandboxID (m_workerID m) expiresAt m"

definition releaseSandboxLease :: "env \<Rightarrow> string \<Rightarrow> mgr \<Rightarrow> error option \<times> mgr" where
  "releaseSandboxLease E sandboxID m =
     (let (err, m) = on_store (ReleaseLease E sandboxID (m_workerID m)) m in
      case err of Some e \<Rightarrow> (if ErrorsIs e ErrNotFound then None else Some e, m) | None \<Rightarrow> (None, m))"

section \<open>Sandboxes\<close>

definition recordToSandbox :: "SandboxRecord \<Rightarrow> Sandbox" where
  "recordToSandbox r =
     \<lparr>sb_ID = sr_ID r, sb_State = sr_State r, sb_Provider = sr_Provider r, sb_Image = sr_Image r,
      sb_MemoryMB = sr_MemoryMB r, sb_VCPUs = sr_VCPUs r, sb_OwnerID = sr_OwnerID r,
      sb_TenantID = sr_TenantID r, sb_VMID = sr_VMID r, sb_WorkerID = sr_WorkerID r,
      sb_CreatedAt = sr_CreatedAt r, sb_ExpiresAt = sr_ExpiresAt r, sb_Metadata = sr_Metadata r,
      sb_PreviewDomain = []\<rparr>"

definition resolveVMID :: "Sandbox \<Rightarrow> string" where
  "resolveVMID sb = (if sb_VMID sb \<noteq> [] then sb_VMID sb else sb_ID sb)"

definition isRemoteOwnedSandbox :: "mgr \<Rightarrow> Sandbox \<Rightarrow> bool" where
  "isRemoteOwnedSandbox m sb \<longleftrightarrow> TrimSpace (sb_WorkerID sb) \<noteq> [] \<and> sb_WorkerID sb \<noteq> m_workerID m"

definition generateSandboxID :: "env \<Rightarrow> string" where
  "generateSandboxID E = ''sb-'' @ hex_bytes (env_rand4 E)"

definition getSandboxAndProvider :: "env \<Rightarrow> string \<Rightarrow> mgr \<Rightarrow> error + Sandbox \<times> string" where
  "getSandboxAndProvider E i m =
     (let sb = (case cached m i of
                  Some sb \<Rightarrow> Inr sb
                | None \<Rightarrow> (case GetSandbox E i (m_store m) of
                            Inl e \<Rightarrow> Inl (SandboxNotFoundError i)
                          | Inr r \<Rightarrow> Inr (recordToSandbox r)))
      in case sb of
           Inl e \<Rightarrow> Inl e
         | Inr sb \<Rightarrow>
             if sb_State sb = StateDestroyed then Inl (SandboxDestroyedError i)
             else case registry_Get (m_registry m) (sb_Provider sb) of
                Inl e \<Rightarrow> Inl (wrap_err (''provider '' @ Quote (sb_Provider sb)) e)
              | Inr prov \<Rightarrow> Inr (sb, prov))"

definition getProvider :: "env \<Rightarrow> string \<Rightarrow> mgr \<Rightarrow> error + string" where
  "getProvider E i m =
     (case cached m i of
        Some sb \<Rightarrow> registry_Get (m_registry m) (sb_Provider sb)
      | None \<Rightarrow> (case GetSandbox E i (m_store m) of
                  Inl e \<Rightarrow> Inl (SandboxNotFoundError i)
                | Inr r \<Rightarrow> registry_Get (m_registry m) (sb_Provider (recordToSandbox r))))"

section \<open>Remote workers\<close>

definition workerRPCURL :: "WorkerRecord \<Rightarrow> string" where
  "workerRPCURL w = TrimSpace (wc_RPCURL (w_Capacity w))"

definition workerPreviewDomain :: "WorkerRecord \<Rightarrow> string" where
  "workerPreviewDomain w = TrimSpace (wc_PreviewDomain (w_Capacity w))"

text \<open>
  \<open>remoteWorkerRPCClient\<close>: the base URL of the client, when the manager has credentials and
  the worker an address.
\<close>

definition remoteWorkerRPCClient :: "env \<Rightarrow> string \<Rightarrow> mgr \<Rightarrow> error + string" where
  "remoteWorkerRPCClient E workerID m =
     (if TrimSpace (mc_workerToken (m_cfg m)) = [] \<and> TrimSpace (mc_workerSigningKey (m_cfg m)) = []
      then Inl (Err ErrOther ''worker token is required for remote worker RPC'')
      else case GetWorker E workerID (m_store m) of
        Inl e \<Rightarrow> Inl e
      | Inr w \<Rightarrow> (let u = workerRPCURL w in
                  if u = [] then Inl (Err ErrOther (''worker '' @ workerID @ '' has no rpc_url''))
                  else Inr u))"

definition canUseRemoteWorker :: "env \<Rightarrow> string \<Rightarrow> mgr \<Rightarrow> bool" where
  "canUseRemoteWorker E workerID m = (case remoteWorkerRPCClient E workerID m of Inr _ \<Rightarrow> True | Inl _ \<Rightarrow> False)"

definition leaseTokenFromStore :: "LeaseRecord \<Rightarrow> LeaseToken" where
  "leaseTokenFromStore l = \<lparr>lt_ResourceID = l_ResourceID l, lt_HolderID = l_HolderID l,
     lt_Generation = l_Generation l, lt_ExpiresAt = l_ExpiresAt l\<rparr>"

definition previewDomainForWorker :: "env \<Rightarrow> string \<Rightarrow> mgr \<Rightarrow> string" where
  "previewDomainForWorker E workerID m =
     (if TrimSpace workerID = [] \<or> workerID = m_workerID m then mc_previewDomain (m_cfg m)
      else case GetWorker E workerID (m_store m) of
        Inl e \<Rightarrow> mc_previewDomain (m_cfg m)
      | Inr w \<Rightarrow> (let d = workerPreviewDomain w in if d \<noteq> [] then d else mc_previewDomain (m_cfg m)))"

definition applyPreviewDomain :: "env \<Rightarrow> mgr \<Rightarrow> Sandbox \<Rightarrow> Sandbox" where
  "applyPreviewDomain E m sb = sb\<lparr>sb_PreviewDomain := previewDomainForWorker E (sb_WorkerID sb) m\<rparr>"

definition remoteRuntimeID :: "Sandbox \<Rightarrow> string \<Rightarrow> string" where
  "remoteRuntimeID sb i = (let r = TrimSpace (sb_VMID sb) in if r = [] then i else r)"

end
