(* ===== verification/Manager_Frame.thy ===== *)
theory Manager_Frame
  imports Manager_State
begin

text \<open>
  What the small effects of the manager leave unchanged: publishing an event touches the bus
  only, an audit record the audit table only, and so on.  These facts are in \<open>frame\<close> and in the
  simplifier, so the proofs of the operations see through the bookkeeping around them.
\<close>

section \<open>Fields\<close>

lemma frame_call [frame, simp]:
  "m_cfg (snd (call re c m)) = m_cfg m"
  "m_registry (snd (call re c m)) = m_registry m"
  "m_store (snd (call re c m)) = m_store m"
  "m_events (snd (call re c m)) = m_events m"
  "m_metrics (snd (call re c m)) = m_metrics m"
  "m_sandboxes (snd (call re c m)) = m_sandboxes m"
  "m_queueWaiters (snd (call re c m)) = m_queueWaiters m"
  "m_capacityGen (snd (call re c m)) = m_capacityGen m"
  "m_queueStats (snd (call re c m)) = m_queueStats m"
  "m_vmPool (snd (call re c m)) = m_vmPool m"
  by (simp_all add: call_def)

lemma frame_on_store [frame, simp]:
  "m_cfg (snd (on_store f m)) = m_cfg m"
  "m_registry (snd (on_store f m)) = m_registry m"
  "m_events (snd (on_store f m)) = m_events m"
  "m_metrics (snd (on_store f m)) = m_metrics m"
  "m_sandboxes (snd (on_store f m)) = m_sandboxes m"
  "m_queueWaiters (snd (on_store f m)) = m_queueWaiters m"
  "m_capacityGen (snd (on_store f m)) = m_capacityGen m"
  "m_queueStats (snd (on_store f m)) = m_queueStats m"
  "m_vmPool (snd (on_store f m)) = m_vmPool m"
  "m_calls (snd (on_store f m)) = m_calls m"
  by (simp_all add: on_store_def)

lemma frame_publish_event [frame, simp]:
  "m_cfg (publish_event E ty i d m) = m_cfg m"
  "m_registry (publish_event E ty i d m) = m_registry m"
  "m_store (publish_event E ty i d m) = m_store m"
  "m_metrics (publish_event E ty i d m) = m_metrics m"
  "m_sandboxes (publish_event E ty i d m) = m_sandboxes m"
  "m_queueWaiters (publish_event E ty i d m) = m_queueWaiters m"
  "m_capacityGen (publish_event E ty i d m) = m_capacityGen m"
  "m_queueStats (publish_event E ty i d m) = m_queueStats m"
  "m_vmPool (publish_event E ty i d m) = m_vmPool m"
  "m_calls (publish_event E ty i d m) = m_calls m"
  by (simp_all add: publish_event_def)

lemma frame_publishOperationalEvent [frame, simp]:
  "m_cfg (publishOperationalEvent E ty i d m) = m_cfg m"
  "m_registry (publishOperationalEvent E ty i d m) = m_registry m"
  "m_store (publishOperationalEvent E ty i d m) = m_store m"
  "m_metrics (publishOperationalEvent E ty i d m) = m_metrics m"
  "m_sandboxes (publishOperationalEvent E ty i d m) = m_sandboxes m"
  "m_queueWaiters (publishOperationalEvent E ty i d m) = m_queueWaiters m"
  "m_capacityGen (publishOperationalEvent E ty i d m) = m_capacityGen m"
  "m_queueStats (publishOperationalEvent E ty i d m) = m_queueStats m"
  "m_vmPool (publishOperationalEvent E ty i d m) = m_vmPool m"
  "m_calls (publishOperationalEvent E ty i d m) = m_calls m"
  by (simp_all add: publishOperationalEvent_def publish_event_def)

lemma frame_publishOperationFailure [frame, simp]:
  "m_cfg (publishOperationFailure E ty i oper p e m) = m_cfg m"
  "m_registry (publishOperationFailure E ty i oper p e m) = m_registry m"
  "m_store (publishOperationFailure E ty i oper p e m) = m_store m"
  "m_metrics (publishOperationFailure E ty i oper p e m) = m_metrics m"
  "m_sandboxes (publishOperationFailure E ty i oper p e m) = m_sandboxes m"
  "m_queueWaiters (publishOperationFailure E ty i oper p e m) = m_queueWaiters m"
  "m_capacityGen (publishOperationFailure E ty i oper p e m) = m_capacityGen m"
  "m_queueStats (publishOperationFailure E ty i oper p e m) = m_queueStats m"
  "m_vmPool (publishOperationFailure E ty i oper p e m) = m_vmPool m"
  "m_calls (publishOperationFailure E ty i oper p e m) = m_calls m"
  by (simp_all add: publishOperationFailure_def publishOperationalEvent_def publish_event_def)

lemma frame_publishFailureForError [frame, simp]:
  "m_cfg (publishFailureForError E i oper p e m) = m_cfg m"
  "m_registry (publishFailureForError E i oper p e m) = m_registry m"
  "m_store (publishFailureForError E i oper p e m) = m_store m"
  "m_metrics (publishFailureForError E i oper p e m) = m_metrics m"
  "m_sandboxes (publishFailureForError E i oper p e m) = m_sandboxes m"
  "m_queueWaiters (publishFailureForError E i oper p e m) = m_queueWaiters m"
  "m_capacityGen (publishFailureForError E i oper p e m) = m_capacityGen m"
  "m_queueStats (publishFailureForError E i oper p e m) = m_queueStats m"
  "m_vmPool (publishFailureForError E i oper p e m) = m_vmPool m"
  "m_calls (publishFailureForError E i oper p e m) = m_calls m"
  by (simp_all add: publishFailureForError_def publishOperationFailure_def publishOperationalEvent_def publish_event_def)

lemma frame_recordOperation [frame, simp]:
  "m_cfg (recordOperation E oper p e m) = m_cfg m"
  "m_registry (recordOperation E oper p e m) = m_registry m"
  "m_store (recordOperation E oper p e m) = m_store m"
  "m_events (recordOperation E oper p e m) = m_events m"
  "m_sandboxes (recordOperation E oper p e m) = m_sandboxes m"
  "m_queueWaiters (recordOperation E oper p e m) = m_queueWaiters m"
  "m_capacityGen (recordOperation E oper p e m) = m_capacityGen m"
  "m_queueStats (recordOperation E oper p e m) = m_queueStats m"
  "m_vmPool (recordOperation E oper p e m) = m_vmPool m"
  "m_calls (recordOperation E oper p e m) = m_calls m"
  by (simp_all add: recordOperation_def)

lemma frame_auditOperation [frame, simp]:
  "m_cfg (auditOperation E a sb i r st d m) = m_cfg m"
  "m_registry (auditOperation E a sb i r st d m) = m_registry m"
  "m_events (auditOperation E a sb i r st d m) = m_events m"
  "m_metrics (auditOperation E a sb i r st d m) = m_metrics m"
  "m_sandboxes (auditOperation E a sb i r st d m) = m_sandboxes m"
  "m_queueWaiters (auditOperation E a sb i r st d m) = m_queueWaiters m"
  "m_capacityGen (auditOperation E a sb i r st d m) = m_capacityGen m"
  "m_queueStats (auditOperation E a sb i r st d m) = m_queueStats m"
  "m_vmPool (auditOperation E a sb i r st d m) = m_vmPool m"
  "m_calls (auditOperation E a sb i r st d m) = m_calls m"
  by (simp_all add: auditOperation_def on_store_def Let_def)

lemma frame_cache_put [frame, simp]:
  "m_cfg (cache_put i sb m) = m_cfg m"
  "m_registry (cache_put i sb m) = m_registry m"
  "m_store (cache_put i sb m) = m_store m"
  "m_events (cache_put i sb m) = m_events m"
  "m_metrics (cache_put i sb m) = m_metrics m"
  "m_queueWaiters (cache_put i sb m) = m_queueWaiters m"
  "m_capacityGen (cache_put i sb m) = m_capacityGen m"
  "m_queueStats (cache_put i sb m) = m_queueStats m"
  "m_vmPool (cache_put i sb m) = m_vmPool m"
  "m_calls (cache_put i sb m) = m_calls m"
  by (simp_all add: cache_put_def)

lemma frame_cache_del [frame, simp]:
  "m_cfg (cache_del i m) = m_cfg m"
  "m_registry (cache_del i m) = m_registry m"
  "m_store (cache_del i m) = m_store m"
  "m_events (cache_del i m) = m_events m"
  "m_metrics (cache_del i m) = m_metrics m"
  "m_queueWaiters (cache_del i m) = m_queueWaiters m"
  "m_capacityGen (cache_del i m) = m_capacityGen m"
  "m_queueStats (cache_del i m) = m_queueStats m"
  "m_vmPool (cache_del i m) = m_vmPool m"
  "m_calls (cache_del i m) = m_calls m"
  by (simp_all add: cache_del_def)

lemma frame_notifySpawnCapacity [frame, simp]:
  "m_cfg (notifySpawnCapacity m) = m_cfg m"
  "m_registry (notifySpawnCapacity m) = m_registry m"
  "m_store (notifySpawnCapacity m) = m_store m"
  "m_events (notifySpawnCapacity m) = m_events m"
  "m_metrics (notifySpawnCapacity m) = m_metrics m"
  "m_sandboxes (notifySpawnCapacity m) = m_sandboxes m"
  "m_queueWaiters (notifySpawnCapacity m) = m_queueWaiters m"
  "m_queueStats (notifySpawnCapacity m) = m_queueStats m"
  "m_vmPool (notifySpawnCapacity m) = m_vmPool m"
  "m_calls (notifySpawnCapacity m) = m_calls m"
  by (simp_all add: notifySpawnCapacity_def)

section \<open>Tables\<close>

lemma tables_auditOperation [frame, simp]:
  "t_sandboxes (m_store (auditOperation E a sb i r st d m)) = t_sandboxes (m_store m)"
  "t_leases (m_store (auditOperation E a sb i r st d m)) = t_leases (m_store m)"
  "t_quotas (m_store (auditOperation E a sb i r st d m)) = t_quotas (m_store m)"
  "t_workers (m_store (auditOperation E a sb i r st d m)) = t_workers (m_store m)"
  by (simp_all add: auditOperation_def on_store_def Let_def frame)

lemma store_on_store [simp]: "m_store (snd (on_store f m)) = snd (f (m_store m))"
  by (simp add: on_store_def)

lemma fst_on_store [simp]: "fst (on_store f m) = fst (f (m_store m))"
  by (simp add: on_store_def)

lemma fst_call [simp]: "fst (call re c m) = re (m_calls m) c"
  by (simp add: call_def)

lemma calls_call [simp]: "m_calls (snd (call re c m)) = m_calls m @ [c]"
  by (simp add: call_def)

lemma store_ok_auditOperation [simp]: "store_ok (m_store m) \<Longrightarrow> store_ok (m_store (auditOperation E a sb i r st d m))"
  by (simp add: auditOperation_def on_store_def Let_def store_ok_CreateOperationAudit)

lemma cached_cache_put [simp]: "cached (cache_put i sb m) = (cached m)(i \<mapsto> sb)"
  by (simp add: cached_def cache_put_def fun_eq_iff)

lemma cached_cache_del [simp]: "cached (cache_del i m) = (cached m)(i := None)"
  by (simp add: cached_def cache_del_def fun_eq_iff)

lemma cached_cong: "m_sandboxes m = m_sandboxes m' \<Longrightarrow> cached m = cached m'"
  by (simp add: cached_def fun_eq_iff)

section \<open>Leases of sandboxes\<close>

lemma acquireSandboxLeaseFor_on_store:
  "acquireSandboxLeaseFor E i w t m =
     on_store (AcquireLease E i ''sandbox'' w (if t - db_now E + sandboxLeaseGrace \<le> 0 then sandboxLeaseGrace
       else t - db_now E + sandboxLeaseGrace)) m"
  by (simp add: acquireSandboxLeaseFor_def Let_def)

lemma frame_acquireSandboxLeaseFor [frame, simp]:
  "m_cfg (snd (acquireSandboxLeaseFor E i w t m)) = m_cfg m"
  "m_registry (snd (acquireSandboxLeaseFor E i w t m)) = m_registry m"
  "m_events (snd (acquireSandboxLeaseFor E i w t m)) = m_events m"
  "m_metrics (snd (acquireSandboxLeaseFor E i w t m)) = m_metrics m"
  "m_sandboxes (snd (acquireSandboxLeaseFor E i w t m)) = m_sandboxes m"
  "m_queueWaiters (snd (acquireSandboxLeaseFor E i w t m)) = m_queueWaiters m"
  "m_capacityGen (snd (acquireSandboxLeaseFor E i w t m)) = m_capacityGen m"
  "m_queueStats (snd (acquireSandboxLeaseFor E i w t m)) = m_queueStats m"
  "m_vmPool (snd (acquireSandboxLeaseFor E i w t m)) = m_vmPool m"
  "m_calls (snd (acquireSandboxLeaseFor E i w t m)) = m_calls m"
  "t_sandboxes (m_store (snd (acquireSandboxLeaseFor E i w t m))) = t_sandboxes (m_store m)"
  "t_quotas (m_store (snd (acquireSandboxLeaseFor E i w t m))) = t_quotas (m_store m)"
  "t_workers (m_store (snd (acquireSandboxLeaseFor E i w t m))) = t_workers (m_store m)"
  "t_op_audit (m_store (snd (acquireSandboxLeaseFor E i w t m))) = t_op_audit (m_store m)"
  by (simp_all add: acquireSandboxLeaseFor_on_store frame)

lemma snd_releaseSandboxLease:
  "snd (releaseSandboxLease E i m) = snd (on_store (ReleaseLease E i (m_workerID m)) m)"
  by (simp add: releaseSandboxLease_def case_prod_beta split: option.split)

lemma frame_releaseSandboxLease [frame, simp]:
  "m_cfg (snd (releaseSandboxLease E i m)) = m_cfg m"
  "m_registry (snd (releaseSandboxLease E i m)) = m_registry m"
  "m_events (snd (releaseSandboxLease E i m)) = m_events m"
  "m_metrics (snd (releaseSandboxLease E i m)) = m_metrics m"
  "m_sandboxes (snd (releaseSandboxLease E i m)) = m_sandboxes m"
  "m_queueWaiters (snd (releaseSandboxLease E i m)) = m_queueWaiters m"
  "m_capacityGen (snd (releaseSandboxLease E i m)) = m_capacityGen m"
  "m_queueStats (snd (releaseSandboxLease E i m)) = m_queueStats m"
  "m_vmPool (snd (releaseSandboxLease E i m)) = m_vmPool m"
  "m_calls (snd (releaseSandboxLease E i m)) = m_calls m"
  "t_sandboxes (m_store (snd (releaseSandboxLease E i m))) = t_sandboxes (m_store m)"
  "t_quotas (m_store (snd (releaseSandboxLease E i m))) = t_quotas (m_store m)"
  "t_workers (m_store (snd (releaseSandboxLease E i m))) = t_workers (m_store m)"
  "t_op_audit (m_store (snd (releaseSandboxLease E i m))) = t_op_audit (m_store m)"
  by (simp_all add: snd_releaseSandboxLease frame)

lemma store_ok_sandbox_leases [simp]:
  assumes "store_ok (m_store m)"
  shows "store_ok (m_store (snd (acquireSandboxLeaseFor E i w t m)))"
    and "store_ok (m_store (snd (releaseSandboxLease E i m)))"
  using assms by (simp_all add: acquireSandboxLeaseFor_on_store snd_releaseSandboxLease store_ok_intros)

end
