(* ===== verification/Scheduler.thy ===== *)
theory Scheduler
  imports Manager_Frame
begin

text \<open>
  \<open>internal/orchestrator/scheduler.go\<close>: the choice of the worker for a new sandbox.  The
  loop over the workers is \<open>place\<close>, with the loop's variables as arguments; whether a worker
  may take the sandbox is \<open>worker_eligible\<close>, the \<open>continue\<close> conditions of the loop.
\<close>

section \<open>Definitions\<close>

abbreviation workerHeartbeatStaleAfter :: duration where "workerHeartbeatStaleAfter \<equiv> 2 * Minute"

record workerPlacement =
  wp_SelectedID :: string
  wp_Eligible :: int
  wp_Reason :: string

definition workerSupportsProvider :: "WorkerRecord \<Rightarrow> string \<Rightarrow> bool" where
  "workerSupportsProvider w provider =
     (case w_Providers w of
        None \<Rightarrow> False
      | Some ps \<Rightarrow> ps = [] \<or> (\<exists>name\<in>set ps. EqualFold (TrimSpace name) provider))"

definition workerMaxSandboxes :: "WorkerRecord \<Rightarrow> int" where
  "workerMaxSandboxes w = wc_MaxSandboxes (w_Capacity w)"

definition activeByWorker :: "string \<Rightarrow> SandboxRecord list \<Rightarrow> string \<Rightarrow> int" where
  "activeByWorker self sandboxes wid =
     int (length (filter (\<lambda>sb. sr_State sb \<noteq> StateDestroyed \<and> sr_State sb \<noteq> StateExpired \<and>
        (let w = TrimSpace (sr_WorkerID sb) in if w = [] then self else w) = wid) sandboxes))"

definition worker_eligible :: "time \<Rightarrow> string \<Rightarrow> (string \<Rightarrow> int) \<Rightarrow> WorkerRecord \<Rightarrow> bool" where
  "worker_eligible now provider active w \<longleftrightarrow>
     (let wid = TrimSpace (w_ID w) in
      wid \<noteq> [] \<and> EqualFold (w_Status w) ''online'' \<and>
      \<not> now - w_LastHeartbeat w > workerHeartbeatStaleAfter \<and>
      \<not> (provider \<noteq> [] \<and> \<not> workerSupportsProvider w provider) \<and>
      \<not> (workerMaxSandboxes w > 0 \<and> active wid \<ge> workerMaxSandboxes w))"

fun place :: "string \<Rightarrow> (WorkerRecord \<Rightarrow> bool) \<Rightarrow> (string \<Rightarrow> int) \<Rightarrow> WorkerRecord list \<Rightarrow>
    string \<times> int \<times> int \<Rightarrow> string \<times> int \<times> int" where
  "place self ok active [] st = st"
| "place self ok active (w # ws) (bestID, bestCount, eligible) =
     (if \<not> ok w then place self ok active ws (bestID, bestCount, eligible)
      else
        (let wid = TrimSpace (w_ID w); count = active wid; eligible = eligible + 1 in
         if wid = self then place self ok active ws (wid, count, eligible)
         else if bestID = [] \<or> count < bestCount then place self ok active ws (wid, count, eligible)
         else place self ok active ws (bestID, bestCount, eligible)))"

definition evaluateWorkerPlacement ::
  "env \<Rightarrow> string \<Rightarrow> SandboxRecord list \<Rightarrow> mgr \<Rightarrow> workerPlacement" where
  "evaluateWorkerPlacement E provider sandboxes m =
     (case ListWorkers E (m_store m) of
        Inl e \<Rightarrow> \<lparr>wp_SelectedID = m_workerID m, wp_Eligible = 1, wp_Reason = ''local_fallback''\<rparr>
      | Inr [] \<Rightarrow> \<lparr>wp_SelectedID = m_workerID m, wp_Eligible = 1, wp_Reason = ''local_fallback''\<rparr>
      | Inr workers \<Rightarrow>
          (let active = activeByWorker (m_workerID m) sandboxes;
               (bestID, bestCount, eligible) =
                 place (m_workerID m) (worker_eligible (db_now E) provider active) active workers ([], 0, 0)
           in if bestID = [] then \<lparr>wp_SelectedID = [], wp_Eligible = 0, wp_Reason = ''no_eligible_worker''\<rparr>
              else \<lparr>wp_SelectedID = bestID, wp_Eligible = eligible, wp_Reason = []\<rparr>))"

definition currentSpawnPlacement :: "env \<Rightarrow> string \<Rightarrow> mgr \<Rightarrow> workerPlacement" where
  "currentSpawnPlacement E provider m =
     (case ListSandboxes E (m_store m) of
        Inl e \<Rightarrow> \<lparr>wp_SelectedID = m_workerID m, wp_Eligible = 1, wp_Reason = ''local_fallback''\<rparr>
      | Inr records \<Rightarrow> evaluateWorkerPlacement E provider records m)"

section \<open>What the loop computes\<close>

text \<open>
  The loop keeps the first of the least loaded workers among those it still compares: seeing
  the manager's own worker makes it the candidate whatever came before.  So the workers that
  compete are the eligible ones from the own worker on, or all of them when it is not eligible.
\<close>

definition competing :: "string \<Rightarrow> string list \<Rightarrow> string list" where
  "competing self ids = (if self \<in> set ids then self # rev (takeWhile (\<lambda>i. i \<noteq> self) (rev ids)) else ids)"

fun first_least :: "(string \<Rightarrow> int) \<Rightarrow> string list \<Rightarrow> string" where
  "first_least f [] = []"
| "first_least f [i] = i"
| "first_least f (i # j # is) = (if f j < f i then first_least f (j # is) else first_least f (i # is))"

lemma first_least_in: "is \<noteq> [] \<Longrightarrow> first_least f is \<in> set is"
  by (induction f "is" rule: first_least.induct) auto

lemma first_least_le: "i \<in> set is \<Longrightarrow> f (first_least f is) \<le> f i"
proof (induction f "is" arbitrary: i rule: first_least.induct)
  case (3 f i' j "is")
  then show ?case
    by (cases "f j < f i'") (auto, smt (verit) "3.IH" list.set_intros, smt (verit) "3.IH" list.set_intros)
qed simp_all

lemma first_least_snoc:
  "is \<noteq> [] \<Longrightarrow> first_least f (is @ [j]) = (if f j < f (first_least f is) then j else first_least f is)"
  by (induction f "is" rule: first_least.induct) auto

abbreviation eligible_ids :: "(WorkerRecord \<Rightarrow> bool) \<Rightarrow> WorkerRecord list \<Rightarrow> string list" where
  "eligible_ids ok ws \<equiv> map (\<lambda>w. TrimSpace (w_ID w)) (filter ok ws)"

lemma competing_snoc:
  "competing self (is @ [j]) = (if j = self then [self] else competing self is @ [j])"
  by (auto simp: competing_def)

lemma competing_Nil [simp]: "competing self [] = []"
  by (simp add: competing_def)

lemma competing_eq_Nil [simp]: "competing self is = [] \<longleftrightarrow> is = []"
  by (auto simp: competing_def)

lemma set_competing: "set (competing self is) \<subseteq> set is"
  by (auto simp: competing_def dest: set_takeWhileD)

lemma place_eq_foldl:
  "place self ok f ws st = foldl (\<lambda>st w. place self ok f [w] st) st ws"
  by (induction ws arbitrary: st) (auto simp: Let_def split: prod.split)

lemma place_snoc: "place self ok f (ws @ [w]) st = place self ok f [w] (place self ok f ws st)"
  by (subst (1 2) place_eq_foldl) simp

lemma place_result:
  assumes "\<And>w. w \<in> set ws \<Longrightarrow> ok w \<Longrightarrow> TrimSpace (w_ID w) \<noteq> []"
  shows "place self ok f ws ([], 0, 0) =
     (let ids = eligible_ids ok ws; best = first_least f (competing self ids)
      in (best, if ids = [] then 0 else f best, int (length ids)))"
  using assms
proof (induction ws rule: rev_induct)
  case (snoc w ws)
  have ids: "eligible_ids ok (ws @ [w]) = eligible_ids ok ws @ (if ok w then [TrimSpace (w_ID w)] else [])"
    by simp
  have ne: "eligible_ids ok ws \<noteq> [] \<Longrightarrow> first_least f (competing self (eligible_ids ok ws)) \<noteq> []"
    using first_least_in [of "competing self (eligible_ids ok ws)" f] set_competing snoc.prems
    by fastforce
  have IH: "place self ok f ws ([], 0, 0) =
     (let ids = eligible_ids ok ws; best = first_least f (competing self ids)
      in (best, if ids = [] then 0 else f best, int (length ids)))"
    using snoc by simp
  show ?case
    unfolding place_snoc IH ids using ne snoc.prems [of w]
    by (auto simp: Let_def competing_snoc first_least_snoc)
qed (simp add: Let_def)

lemma evaluateWorkerPlacement_eq:
  assumes "ListWorkers E (m_store m) = Inr ws" "ws \<noteq> []"
  shows "evaluateWorkerPlacement E provider sbs m =
     (let active = activeByWorker (m_workerID m) sbs;
          ids = eligible_ids (worker_eligible (db_now E) provider active) ws
      in if ids = [] then \<lparr>wp_SelectedID = [], wp_Eligible = 0, wp_Reason = ''no_eligible_worker''\<rparr>
         else \<lparr>wp_SelectedID = first_least active (competing (m_workerID m) ids),
                wp_Eligible = int (length ids), wp_Reason = []\<rparr>)"
proof -
  let ?active = "activeByWorker (m_workerID m) sbs"
  let ?ids = "eligible_ids (worker_eligible (db_now E) provider ?active) ws"
  have ne: "worker_eligible now provider ?active w \<Longrightarrow> TrimSpace (w_ID w) \<noteq> []" for now w
    by (simp add: worker_eligible_def Let_def)
  have "?ids \<noteq> [] \<Longrightarrow> first_least ?active (competing (m_workerID m) ?ids) \<noteq> []"
    using first_least_in [of "competing (m_workerID m) ?ids" ?active] set_competing ne by fastforce
  moreover have "place (m_workerID m) (worker_eligible (db_now E) provider ?active) ?active ws ([], 0, 0) =
      (let best = first_least ?active (competing (m_workerID m) ?ids)
       in (best, if ?ids = [] then 0 else ?active best, int (length ?ids)))"
    using place_result [of ws] ne by (simp add: Let_def)
  moreover have "first_least ?active (competing (m_workerID m) ?ids) = []" if "?ids = []"
    by (subst that) simp
  moreover have "evaluateWorkerPlacement E provider sbs m =
      (case place (m_workerID m) (worker_eligible (db_now E) provider ?active) ?active ws ([], 0, 0) of
         (bestID, bestCount, eligible) \<Rightarrow>
           if bestID = [] then \<lparr>wp_SelectedID = [], wp_Eligible = 0, wp_Reason = ''no_eligible_worker''\<rparr>
           else \<lparr>wp_SelectedID = bestID, wp_Eligible = eligible, wp_Reason = []\<rparr>)"
    using assms by (cases ws) (simp_all add: evaluateWorkerPlacement_def Let_def del: place.simps)
  ultimately show ?thesis
    by (cases "?ids = []") (simp_all only: Let_def prod.case if_True if_False simp_thms)
qed

text \<open>
  A worker record that is selected is one of the store's, eligible, and no competing worker
  has fewer active sandboxes.
\<close>

lemma selected_worker:
  assumes "ListWorkers E (m_store m) = Inr ws" "ws \<noteq> []"
    and "wp_SelectedID (evaluateWorkerPlacement E provider sbs m) = s" "s \<noteq> []"
  obtains w where "w \<in> set (t_workers (m_store m))" "TrimSpace (w_ID w) = s"
    "worker_eligible (db_now E) provider (activeByWorker (m_workerID m) sbs) w"
proof -
  let ?active = "activeByWorker (m_workerID m) sbs"
  let ?ok = "worker_eligible (db_now E) provider ?active"
  have ids: "eligible_ids ?ok ws \<noteq> []"
    and s: "s = first_least ?active (competing (m_workerID m) (eligible_ids ?ok ws))"
    using assms(3,4) unfolding evaluateWorkerPlacement_eq [OF assms(1,2)]
    by (auto simp: Let_def split: if_splits)
  then have "s \<in> set (eligible_ids ?ok ws)"
    using first_least_in [of "competing (m_workerID m) (eligible_ids ?ok ws)" ?active] set_competing by fastforce
  then obtain w where w: "w \<in> set ws" "?ok w" "TrimSpace (w_ID w) = s"
    by auto
  moreover have "set ws = set (t_workers (m_store m))"
    using assms(1) by (auto simp: ListWorkers_def split: option.splits)
  ultimately show thesis using that by blast
qed

end
