(* ===== verification/Sample.thy ===== *)
theory Sample
  imports Manager_Frame
begin

text \<open>
  A concrete server on which the theorems with hypotheses are instantiated: one registered
  provider \<open>mock\<close> whose calls all succeed, a database that answers, and the manager that
  \<open>NewManager\<close> builds from a small configuration.
\<close>

definition sample_env :: env where
  "sample_env = \<lparr>db_now = 1000 * Second, db_fail = (\<lambda>_. None), env_rand4 = ''abcd'', env_elapsed = 5000000,
     env_pick = 0, env_deadline = False,
     re_id = (\<lambda>h c. Inr (''sb-'' @ replicate (Suc (length h)) (CHR ''0''))), re_unit = (\<lambda>h c. None),
     re_exec = (\<lambda>h c. Inr (0, ''out'', [])), re_bytes = (\<lambda>h c. Inr ''data''), re_content = (\<lambda>h c. Inr ''data''),
     re_stat = (\<lambda>h c. Inr \<lparr>fi_Path = ''a'', fi_Size = 4, fi_Mode = ''0644'', fi_IsDir = False, fi_ModTime = []\<rparr>),
     re_stream = (\<lambda>h c. Inr [(''stdout'', ''out'')]), re_errs = (\<lambda>h c. []), re_files = (\<lambda>h c. Inr []),
     re_strings = (\<lambda>h c. Inr []), re_runtimes = (\<lambda>h c. Inr []),
     re_spawned = (\<lambda>h c. Inr (''rt-'' @ replicate (Suc (length h)) (CHR ''0''), ''mock'')),
     re_stats = (\<lambda>h c. None)\<rparr>"

definition sample_limits :: OperationalLimits where
  "sample_limits = \<lparr>lim_MaxSandboxes = 2, lim_MaxSandboxesPerOwner = 1, lim_DefaultExecTimeout = 30 * Second,
     lim_MaxExecTimeout = 60 * Second, lim_MaxTTL = 0, lim_SpawnOverflow = ''queue'',
     lim_SpawnQueueTimeout = 0, lim_MaxSpawnQueue = 0\<rparr>"

definition sample_config :: mconfig where
  "sample_config = \<lparr>mc_defaultTTL = 0, mc_defaultImage = [], mc_defaultMemory = 0, mc_defaultVCPUs = 0,
     mc_limits = sample_limits, mc_workerID = [], mc_workerToken = ''token'', mc_workerSigningKey = [],
     mc_pool = \<lparr>pc_Enabled = True, pc_MaxVMs = 2, pc_MaxUsersPerVM = 3, pc_Image = ''alpine'', pc_MemoryMB = 512,
                pc_VCPUs = 1\<rparr>,
     mc_previewDomain = ''localhost''\<rparr>"

definition sample_registry :: Registry where
  "sample_registry = \<lparr>rg_providers = [(''mock'', True)], rg_dflt = ''mock''\<rparr>"

definition sample_mgr :: mgr where
  "sample_mgr = NewManager sample_registry empty_store NewEventBus sample_config"

definition sample_spawn :: SpawnRequest where
  "sample_spawn = \<lparr>rq_Image = [], rq_Provider = [], rq_MemoryMB = 0, rq_VCPUs = 0, rq_TTL = ''10m'', rq_Template = [],
     rq_OwnerID = '' alice'', rq_TenantID = ''acme'', rq_Metadata = []\<rparr>"

text \<open>The same server with a worker on another machine, whose RPC address is known.\<close>

definition sample_worker :: WorkerRecord where
  "sample_worker = \<lparr>w_ID = ''w1'', w_Hostname = ''h1'', w_Status = ''online'', w_Providers = Some [],
     w_Capabilities = Some [], w_Capacity = \<lparr>wc_MaxSandboxes = 4, wc_RPCURL = ''http://w1:9'', wc_PreviewDomain = []\<rparr>,
     w_LastHeartbeat = 1000 * Second, w_CreatedAt = 0, w_UpdatedAt = 0\<rparr>"

definition sample_row :: "string \<Rightarrow> string \<Rightarrow> SandboxRecord" where
  "sample_row i owner = \<lparr>sr_ID = i, sr_State = StateRunning, sr_Provider = ''mock'', sr_Image = ''alpine'',
     sr_MemoryMB = 512, sr_VCPUs = 1, sr_Metadata = [], sr_OwnerID = owner, sr_TenantID = [], sr_VMID = [],
     sr_WorkerID = ''local'', sr_CreatedAt = 900 * Second, sr_ExpiresAt = 2000 * Second, sr_UpdatedAt = 900 * Second\<rparr>"

text \<open>The server with both of its sandboxes taken.\<close>

definition sample_full :: mgr where
  "sample_full = sample_mgr\<lparr>m_store := empty_store\<lparr>t_sandboxes := [sample_row ''sb-a'' ''bob'', sample_row ''sb-b'' ''eve'']\<rparr>\<rparr>"

end
