(* ===== verification/Quotas.thy ===== *)
theory Quotas
  imports Scheduler Sample
begin

text \<open>
  Owner quotas and the limits they override (\<open>internal/orchestrator/manager.go\<close>,
  \<open>GetOwnerQuota\<close> to \<open>OwnerUsage\<close>, \<open>resolveExecTimeout\<close> to \<open>optionalSecondsString\<close>, and
  the read-only reports \<open>Limits\<close> and \<open>SchedulerStatus\<close>).
\<close>

section \<open>Definitions\<close>

record OwnerQuota =
  oq_OwnerID :: string
  oq_MaxSandboxes :: int
  oq_MaxTTL :: string
  oq_MaxExecTimeout :: string
  oq_CreatedAt :: time
  oq_UpdatedAt :: time

record OwnerUsage =
  ou_OwnerID :: string
  ou_ActiveSandboxes :: int
  ou_MaxSandboxes :: int
  ou_MaxTTL :: string
  ou_MaxExecTimeout :: string
  ou_QuotaConfigured :: bool

record QuotaSummary =
  qy_Total :: int
  qy_WithMaxSandboxes :: int
  qy_WithMaxTTL :: int
  qy_WithMaxExecTimeout :: int

definition normalizeOwnerID :: "string \<Rightarrow> error + string" where
  "normalizeOwnerID ownerID =
     (let ownerID = TrimSpace ownerID in
      if ownerID = [] then Inl (InvalidInputError ''owner_id is required'')
      else if length ownerID > 128 then Inl (InvalidInputError ''owner_id must be 128 characters or fewer'')
      else if \<exists>c\<in>set ownerID. c = CHR ''/'' \<or> c = CHR 0x5C
      then Inl (InvalidInputError ''owner_id cannot contain path separators'')
      else if \<exists>c\<in>set ownerID. of_char c \<le> (31 :: nat) \<or> of_char c = (127 :: nat) \<or> c = CHR '' ''
      then Inl (InvalidInputError ''owner_id cannot contain whitespace or control characters'')
      else Inr ownerID)"

definition normalizeOptionalOwnerID :: "string \<Rightarrow> error + string" where
  "normalizeOptionalOwnerID ownerID =
     (let ownerID = TrimSpace ownerID in if ownerID = [] then Inr [] else normalizeOwnerID ownerID)"

definition parseOptionalDurationSeconds :: "string \<Rightarrow> error + int" where
  "parseOptionalDurationSeconds raw =
     (let raw = TrimSpace raw in
      if raw = [] \<or> raw = ''0'' \<or> raw = ''0s'' then Inr 0
      else case ParseDuration raw of
        Inl e \<Rightarrow> Inl e
      | Inr d \<Rightarrow>
          if d < 0 then Inl (Err ErrOther ''duration cannot be negative'')
          else if d > 0 \<and> d < Second then Inl (Err ErrOther ''duration must be at least 1s'')
          else if go_mod d Second \<noteq> 0 then Inl (Err ErrOther ''duration must use whole seconds'')
          else Inr (d div Second))"

definition optionalSecondsString :: "int \<Rightarrow> string" where
  "optionalSecondsString seconds = (if seconds \<le> 0 then ''0s'' else Duration_String (i64 (seconds * Second)))"

definition ownerQuotaFromRecord :: "OwnerQuotaRecord \<Rightarrow> OwnerQuota" where
  "ownerQuotaFromRecord rec =
     \<lparr>oq_OwnerID = q_OwnerID rec, oq_MaxSandboxes = q_MaxSandboxes rec,
      oq_MaxTTL = optionalSecondsString (q_MaxTTLSeconds rec),
      oq_MaxExecTimeout = optionalSecondsString (q_MaxExecTimeoutSeconds rec),
      oq_CreatedAt = q_CreatedAt rec, oq_UpdatedAt = q_UpdatedAt rec\<rparr>"

definition GetOwnerQuota :: "env \<Rightarrow> string \<Rightarrow> mgr \<Rightarrow> error + OwnerQuota" where
  "GetOwnerQuota E ownerID m =
     (case normalizeOwnerID ownerID of
        Inl e \<Rightarrow> Inl e
      | Inr ownerID \<Rightarrow> (case GetOwnerQuotaRecord E ownerID (m_store m) of
                        Inl e \<Rightarrow> Inl e | Inr rec \<Rightarrow> Inr (ownerQuotaFromRecord rec)))"

definition ListOwnerQuotas :: "env \<Rightarrow> mgr \<Rightarrow> error + OwnerQuota list" where
  "ListOwnerQuotas E m =
     (case ListOwnerQuotaRecords E (m_store m) of
        Inl e \<Rightarrow> Inl e | Inr records \<Rightarrow> Inr (map ownerQuotaFromRecord records))"

definition getQuotaSummary :: "env \<Rightarrow> mgr \<Rightarrow> error + QuotaSummary" where
  "getQuotaSummary E m =
     (case ListOwnerQuotaRecords E (m_store m) of
        Inl e \<Rightarrow> Inl e
      | Inr records \<Rightarrow>
          (let count = \<lambda>f. int (length (filter (\<lambda>q. f q > 0) records))
           in Inr \<lparr>qy_Total = int (length records), qy_WithMaxSandboxes = count q_MaxSandboxes,
                   qy_WithMaxTTL = count q_MaxTTLSeconds, qy_WithMaxExecTimeout = count q_MaxExecTimeoutSeconds\<rparr>))"

definition Manager_SaveOwnerQuota :: "env \<Rightarrow> OwnerQuota \<Rightarrow> mgr \<Rightarrow> (error + OwnerQuota) \<times> mgr" where
  "Manager_SaveOwnerQuota E quota m =
     (case normalizeOwnerID (oq_OwnerID quota) of
        Inl e \<Rightarrow> (Inl e, m)
      | Inr ownerID \<Rightarrow>
      case parseOptionalDurationSeconds (oq_MaxTTL quota) of
        Inl e \<Rightarrow> (Inl (InvalidInputError (''parsing max_ttl: '' @ err_msg e)), m)
      | Inr maxTTL \<Rightarrow>
      case parseOptionalDurationSeconds (oq_MaxExecTimeout quota) of
        Inl e \<Rightarrow> (Inl (InvalidInputError (''parsing max_exec_timeout: '' @ err_msg e)), m)
      | Inr maxExecTimeout \<Rightarrow>
      if oq_MaxSandboxes quota < 0 then (Inl (InvalidInputError ''max_sandboxes cannot be negative''), m)
      else
        (let rec = \<lparr>q_OwnerID = ownerID, q_MaxSandboxes = oq_MaxSandboxes quota, q_MaxTTLSeconds = maxTTL,
                    q_MaxExecTimeoutSeconds = maxExecTimeout, q_CreatedAt = 0, q_UpdatedAt = 0\<rparr>;
             (err, m) = on_store (SaveOwnerQuota E rec) m
         in case err of
              Some e \<Rightarrow> (Inl e, m)
            | None \<Rightarrow>
                (case GetOwnerQuota E ownerID m of
                   Inl e \<Rightarrow> (Inl e, m)
                 | Inr saved \<Rightarrow>
                     (let m = publishOperationalEvent E EventQuotaSaved []
                                [(''owner_id'', JStr (oq_OwnerID saved)),
                                 (''max_sandboxes'', JInt (oq_MaxSandboxes saved)),
                                 (''max_ttl'', JStr (oq_MaxTTL saved)),
                                 (''max_exec_timeout'', JStr (oq_MaxExecTimeout saved))] m
                      in (Inr saved, notifySpawnCapacity m)))))"

definition DeleteOwnerQuota :: "env \<Rightarrow> string \<Rightarrow> mgr \<Rightarrow> error option \<times> mgr" where
  "DeleteOwnerQuota E ownerID m =
     (case normalizeOwnerID ownerID of
        Inl e \<Rightarrow> (Some e, m)
      | Inr ownerID \<Rightarrow>
          (let (err, m) = on_store (DeleteOwnerQuotaRecord E ownerID) m in
           case err of
             Some e \<Rightarrow> (Some e, m)
           | None \<Rightarrow>
               (None, notifySpawnCapacity
                  (publishOperationalEvent E EventQuotaDeleted [] [(''owner_id'', JStr ownerID)] m))))"

definition getOwnerUsage :: "env \<Rightarrow> string \<Rightarrow> mgr \<Rightarrow> error + OwnerUsage" where
  "getOwnerUsage E ownerID m =
     (case normalizeOwnerID ownerID of
        Inl e \<Rightarrow> Inl e
      | Inr ownerID \<Rightarrow>
      case ListSandboxesByOwner E ownerID (m_store m) of
        Inl e \<Rightarrow> Inl e
      | Inr records \<Rightarrow>
          (let usage = \<lparr>ou_OwnerID = ownerID, ou_ActiveSandboxes = int (length records),
                        ou_MaxSandboxes = lim_MaxSandboxesPerOwner (m_limits m),
                        ou_MaxTTL = Duration_String (lim_MaxTTL (m_limits m)),
                        ou_MaxExecTimeout = Duration_String (lim_MaxExecTimeout (m_limits m)),
                        ou_QuotaConfigured = False\<rparr>
           in case GetOwnerQuotaRecord E ownerID (m_store m) of
                Inl e \<Rightarrow> Inr usage
              | Inr quota \<Rightarrow>
                  (let usage = usage\<lparr>ou_QuotaConfigured := True\<rparr>;
                       usage = (if q_MaxSandboxes quota > 0 then usage\<lparr>ou_MaxSandboxes := q_MaxSandboxes quota\<rparr> else usage);
                       usage = (if q_MaxTTLSeconds quota > 0
                                then usage\<lparr>ou_MaxTTL := Duration_String (i64 (q_MaxTTLSeconds quota * Second))\<rparr> else usage);
                       usage = (if q_MaxExecTimeoutSeconds quota > 0
                                then usage\<lparr>ou_MaxExecTimeout := Duration_String (i64 (q_MaxExecTimeoutSeconds quota * Second))\<rparr>
                                else usage)
                   in Inr usage)))"

definition ownerLimitOverrides :: "env \<Rightarrow> string \<Rightarrow> mgr \<Rightarrow> duration \<times> int" where
  "ownerLimitOverrides E ownerID m =
     (let maxTTL = lim_MaxTTL (m_limits m); maxPerOwner = lim_MaxSandboxesPerOwner (m_limits m) in
      if ownerID = [] then (maxTTL, maxPerOwner)
      else case GetOwnerQuotaRecord E ownerID (m_store m) of
        Inl e \<Rightarrow> (maxTTL, maxPerOwner)
      | Inr quota \<Rightarrow>
          (if q_MaxTTLSeconds quota > 0 then i64 (q_MaxTTLSeconds quota * Second) else maxTTL,
           if q_MaxSandboxes quota > 0 then q_MaxSandboxes quota else maxPerOwner))"

definition ownerMaxExecTimeout :: "env \<Rightarrow> string \<Rightarrow> mgr \<Rightarrow> duration" where
  "ownerMaxExecTimeout E ownerID m =
     (let maxExecTimeout = lim_MaxExecTimeout (m_limits m) in
      if ownerID = [] then maxExecTimeout
      else case GetOwnerQuotaRecord E ownerID (m_store m) of
        Inl e \<Rightarrow> maxExecTimeout
      | Inr quota \<Rightarrow>
          if q_MaxExecTimeoutSeconds quota > 0 then i64 (q_MaxExecTimeoutSeconds quota * Second)
          else maxExecTimeout)"

definition resolveExecTimeout :: "env \<Rightarrow> string \<Rightarrow> string \<Rightarrow> mgr \<Rightarrow> error + duration" where
  "resolveExecTimeout E raw ownerID m =
     (case (if raw \<noteq> [] then ParseDuration raw else Inr (lim_DefaultExecTimeout (m_limits m))) of
        Inl e \<Rightarrow> Inl (wrap_err ''parsing exec timeout'' e)
      | Inr timeout \<Rightarrow>
          if timeout < 0 then Inl (ResourceLimitError ''exec timeout cannot be negative'')
          else
            (let maxExecTimeout = ownerMaxExecTimeout E ownerID m in
             if maxExecTimeout > 0 \<and> timeout > maxExecTimeout
             then Inl (ResourceLimitError (''exec timeout '' @ Duration_String timeout
                    @ '' exceeds max exec timeout '' @ Duration_String maxExecTimeout))
             else Inr timeout))"

record OperationalLimitsInfo =
  li_MaxSandboxes :: int
  li_MaxSandboxesPerOwner :: int
  li_DefaultExecTimeout :: string
  li_MaxExecTimeout :: string
  li_MaxTTL :: string
  li_SpawnOverflow :: string
  li_SpawnQueueTimeout :: string
  li_MaxSpawnQueue :: int

definition Limits :: "mgr \<Rightarrow> OperationalLimitsInfo" where
  "Limits m =
     (let l = m_limits m in
      \<lparr>li_MaxSandboxes = lim_MaxSandboxes l, li_MaxSandboxesPerOwner = lim_MaxSandboxesPerOwner l,
       li_DefaultExecTimeout = Duration_String (lim_DefaultExecTimeout l),
       li_MaxExecTimeout = Duration_String (lim_MaxExecTimeout l), li_MaxTTL = Duration_String (lim_MaxTTL l),
       li_SpawnOverflow = lim_SpawnOverflow l, li_SpawnQueueTimeout = Duration_String (lim_SpawnQueueTimeout l),
       li_MaxSpawnQueue = lim_MaxSpawnQueue l\<rparr>)"

text \<open>The part of \<open>SchedulerStatus\<close> that is computed; the rest are fields of the manager.\<close>

record SchedulerStatus =
  ss_SpawnQueueDepth :: int
  ss_SelectedWorkerID :: string
  ss_EligibleWorkers :: int
  ss_SpawnQueueWaitTotalMS :: int
  ss_SpawnQueueWaitMaxMS :: int
  ss_SpawnQueueWaitAvgMS :: int

definition getSchedulerStatus :: "env \<Rightarrow> mgr \<Rightarrow> SchedulerStatus" where
  "getSchedulerStatus E m =
     (let q = m_queueStats m;
          waitAvg = (if qs_waitCount q > 0 then go_div (qs_waitTotal q) (sint (qs_waitCount q)) else 0);
          placement = (case ListSandboxes E (m_store m) of
              Inl e \<Rightarrow> \<lparr>wp_SelectedID = m_workerID m, wp_Eligible = 1, wp_Reason = []\<rparr>
            | Inr records \<Rightarrow> evaluateWorkerPlacement E (rg_dflt (m_registry m)) records m)
      in \<lparr>ss_SpawnQueueDepth = m_queueWaiters m, ss_SelectedWorkerID = wp_SelectedID placement,
          ss_EligibleWorkers = wp_Eligible placement,
          ss_SpawnQueueWaitTotalMS = Milliseconds (qs_waitTotal q),
          ss_SpawnQueueWaitMaxMS = Milliseconds (qs_waitMax q),
          ss_SpawnQueueWaitAvgMS = Milliseconds waitAvg\<rparr>)"

section \<open>Owner identifiers\<close>

definition owner_char :: "char \<Rightarrow> bool" where
  "owner_char c \<longleftrightarrow> (32 :: nat) < of_char c \<and> of_char c \<noteq> (127 :: nat) \<and> c \<noteq> CHR ''/'' \<and> c \<noteq> CHR 0x5C"

lemma of_char_space: "of_char CHR '' '' = (32 :: nat)"
  by simp

lemma owner_char_iff:
  "owner_char c \<longleftrightarrow> \<not> (c = CHR ''/'' \<or> c = CHR 0x5C) \<and>
     \<not> (of_char c \<le> (31 :: nat) \<or> of_char c = (127 :: nat) \<or> c = CHR '' '')"
proof -
  have "of_char c = (32 :: nat) \<longleftrightarrow> c = CHR '' ''"
    by (metis of_char_eq_iff of_char_space)
  then show ?thesis by (auto simp: owner_char_def)
qed

lemma normalizeOwnerID_Inr:
  "normalizeOwnerID s = Inr owner \<longleftrightarrow>
     owner = TrimSpace s \<and> owner \<noteq> [] \<and> length owner \<le> 128 \<and> (\<forall>c\<in>set owner. owner_char c)"
proof -
  have *: "(if t = [] then Inl a else if length t > 128 then Inl b else if \<exists>c\<in>set t. P c then Inl d
        else if \<exists>c\<in>set t. Q c then Inl f else Inr t) = (Inr owner :: error + string) \<longleftrightarrow>
      owner = t \<and> owner \<noteq> [] \<and> length owner \<le> 128 \<and> (\<forall>c\<in>set owner. \<not> P c \<and> \<not> Q c)" for P Q a b d f t
    by auto
  show ?thesis unfolding normalizeOwnerID_def Let_def owner_char_iff by (rule *)
qed

lemma normalizeOwnerID_again: "normalizeOwnerID s = Inr owner \<Longrightarrow> normalizeOwnerID owner = Inr owner"
  by (auto simp: normalizeOwnerID_Inr)

lemma normalizeOptionalOwnerID_Inr:
  "normalizeOptionalOwnerID s = Inr owner \<longleftrightarrow>
     owner = TrimSpace s \<and> length owner \<le> 128 \<and> (\<forall>c\<in>set owner. owner_char c)"
  by (auto simp: normalizeOptionalOwnerID_def Let_def normalizeOwnerID_Inr)

section \<open>Durations of quotas\<close>

lemma parseOptionalDurationSeconds_range:
  assumes "parseOptionalDurationSeconds raw = Inr n"
  shows "0 \<le> n \<and> n \<le> 9223372036"
proof (cases "TrimSpace raw \<in> {[], ''0'', ''0s''}")
  case False
  with assms obtain d where d: "ParseDuration (TrimSpace raw) = Inr d" "0 \<le> d" "n = d div Second"
    by (auto simp: parseOptionalDurationSeconds_def Let_def split: sum.splits if_splits)
  then show ?thesis using ParseDuration_range [OF d(1)] by (auto simp: div_le_dividend intro: order_trans)
qed (use assms in \<open>auto simp: parseOptionalDurationSeconds_def Let_def\<close>)

lemma TrimSpace_Duration_String:
  "0 < n \<Longrightarrow> TrimSpace (Duration_String (int n * Second)) = Duration_String (int n * Second)"
proof (rule TrimSpace_graphic)
  assume "0 < n"
  moreover have "nat (int n * Second) = n * 10 ^ 9" by (simp add: nat_mult_distrib)
  moreover have "is_digit c \<Longrightarrow> graphic c" for c
    by (simp add: is_digit_def graphic_def)
  then have "\<forall>c\<in>set (dec_nat k). graphic c" for k using dec_nat_digits by blast
  ultimately show "\<forall>c\<in>set (Duration_String (int n * Second)). graphic c"
    using fmtFrac_whole [of 9 n]
    by (auto simp: Duration_String_def Duration_abs_String_def Let_def graphic_def)
qed

lemma Duration_String_neq:
  "0 < n \<Longrightarrow> n \<le> 9223372036 \<Longrightarrow> Duration_String (int n * Second) \<notin> {[], ''0'', ''0s''}"
proof
  assume n: "0 < n" "n \<le> 9223372036" and "Duration_String (int n * Second) \<in> {[], ''0'', ''0s''}"
  moreover have "ParseDuration [] \<noteq> Inr (int n * Second)" by (simp add: ParseDuration_def Let_def)
  moreover have "ParseDuration ''0'' = Inr 0" by (simp add: ParseDuration_def Let_def)
  moreover have "ParseDuration ''0s'' = Inr 0"
    using Parse_Duration_seconds [of 0] by (simp add: Duration_String_def Duration_abs_String_def)
  ultimately show False using Parse_Duration_seconds [OF n(2)] by auto
qed

text \<open>What a quota shows of a limit is what it accepts to set that limit.\<close>

lemma parse_optionalSecondsString:
  assumes "0 \<le> n" "n \<le> 9223372036"
  shows "parseOptionalDurationSeconds (optionalSecondsString n) = Inr n"
proof (cases "n = 0")
  case True
  then show ?thesis by (simp add: parseOptionalDurationSeconds_def optionalSecondsString_def Let_def TrimSpace_graphic graphic_def)
next
  case False
  define k where "k = nat n"
  have k: "n = int k" "0 < k" "k \<le> 9223372036" using assms False by (auto simp: k_def)
  have "i64 (n * Second) = int k * Second" using k by (simp add: i64_id)
  then show ?thesis
    using k Duration_String_neq [OF k(2,3)] Parse_Duration_seconds [OF k(3)] TrimSpace_Duration_String [OF k(2)]
    by (simp add: parseOptionalDurationSeconds_def optionalSecondsString_def Let_def go_mod_nonneg)
qed

section \<open>Saving and reading a quota\<close>

lemma Manager_SaveOwnerQuota_Inr:
  assumes "Manager_SaveOwnerQuota E quota m = (Inr saved, m')"
  obtains owner ttl exec q where
    "normalizeOwnerID (oq_OwnerID quota) = Inr owner"
    "parseOptionalDurationSeconds (oq_MaxTTL quota) = Inr ttl"
    "parseOptionalDurationSeconds (oq_MaxExecTimeout quota) = Inr exec"
    "0 \<le> oq_MaxSandboxes quota"
    "q = \<lparr>q_OwnerID = owner, q_MaxSandboxes = oq_MaxSandboxes quota, q_MaxTTLSeconds = ttl,
          q_MaxExecTimeoutSeconds = exec, q_CreatedAt = 0, q_UpdatedAt = 0\<rparr>"
    "db_fail E (OpSaveOwnerQuota owner) = None"
    "m_store m' = snd (SaveOwnerQuota E q (m_store m))"
    "m_capacityGen m' = Suc (m_capacityGen m)"
    "\<exists>r. row_by q_OwnerID owner (t_quotas (m_store m')) = Some r \<and> saved = ownerQuotaFromRecord r"
proof -
  from assms obtain owner ttl exec where
    n: "normalizeOwnerID (oq_OwnerID quota) = Inr owner"
      "parseOptionalDurationSeconds (oq_MaxTTL quota) = Inr ttl"
      "parseOptionalDurationSeconds (oq_MaxExecTimeout quota) = Inr exec"
      "0 \<le> oq_MaxSandboxes quota"
    by (auto simp: Manager_SaveOwnerQuota_def split: sum.splits if_splits)
  define q where "q = \<lparr>q_OwnerID = owner, q_MaxSandboxes = oq_MaxSandboxes quota, q_MaxTTLSeconds = ttl,
          q_MaxExecTimeoutSeconds = exec, q_CreatedAt = 0, q_UpdatedAt = 0\<rparr>"
  have eq: "fst (SaveOwnerQuota E q (m_store m)) = None"
      "GetOwnerQuota E owner (snd (on_store (SaveOwnerQuota E q) m)) = Inr saved"
      "m_store m' = snd (SaveOwnerQuota E q (m_store m))" "m_capacityGen m' = Suc (m_capacityGen m)"
    using assms n
    by (auto simp: Manager_SaveOwnerQuota_def Let_def case_prod_beta q_def notifySpawnCapacity_def
        split: sum.splits if_splits option.splits)
  have up: "db_fail E (OpSaveOwnerQuota owner) = None"
    using eq(1) by (auto simp: SaveOwnerQuota_def Let_def q_def split: option.splits if_splits)
  have "\<exists>r. row_by q_OwnerID owner (t_quotas (m_store m')) = Some r \<and> saved = ownerQuotaFromRecord r"
    using eq(2,3) normalizeOwnerID_again [OF n(1)]
    by (auto simp: GetOwnerQuota_def GetOwnerQuotaRecord_def split: sum.splits option.splits)
  with n q_def up eq(3,4) that show thesis by blast
qed

text \<open>
  Saving a quota and reading it back, at any later time the database answers: the owner is
  the trimmed identifier, the sandbox limit is the one given, both durations are shown in a
  form that parses to the seconds given, and no other owner's quota has changed.
\<close>

theorem save_owner_quota_roundtrip:
  assumes "Manager_SaveOwnerQuota E quota m = (Inr saved, m')"
    and "db_fail E' (OpGetOwnerQuota (oq_OwnerID saved)) = None"
  shows "GetOwnerQuota E' (oq_OwnerID quota) m' = Inr saved
    \<and> oq_OwnerID saved = TrimSpace (oq_OwnerID quota)
    \<and> oq_MaxSandboxes saved = oq_MaxSandboxes quota
    \<and> parseOptionalDurationSeconds (oq_MaxTTL saved) = parseOptionalDurationSeconds (oq_MaxTTL quota)
    \<and> parseOptionalDurationSeconds (oq_MaxExecTimeout saved) = parseOptionalDurationSeconds (oq_MaxExecTimeout quota)
    \<and> (\<forall>other. other \<noteq> oq_OwnerID saved \<longrightarrow>
          row_by q_OwnerID other (t_quotas (m_store m')) = row_by q_OwnerID other (t_quotas (m_store m)))"
proof -
  obtain owner ttl exec q r where
    n: "normalizeOwnerID (oq_OwnerID quota) = Inr owner"
      "parseOptionalDurationSeconds (oq_MaxTTL quota) = Inr ttl"
      "parseOptionalDurationSeconds (oq_MaxExecTimeout quota) = Inr exec"
    and q: "q = \<lparr>q_OwnerID = owner, q_MaxSandboxes = oq_MaxSandboxes quota, q_MaxTTLSeconds = ttl,
          q_MaxExecTimeoutSeconds = exec, q_CreatedAt = 0, q_UpdatedAt = 0\<rparr>"
    and st: "db_fail E (OpSaveOwnerQuota owner) = None" "m_store m' = snd (SaveOwnerQuota E q (m_store m))"
    and r: "row_by q_OwnerID owner (t_quotas (m_store m')) = Some r" "saved = ownerQuotaFromRecord r"
    by (rule Manager_SaveOwnerQuota_Inr [OF assms(1)]) blast
  have up: "db_fail E (OpSaveOwnerQuota (q_OwnerID q)) = None" using st(1) q by simp
  have row: "q_OwnerID r = owner" "q_MaxSandboxes r = oq_MaxSandboxes quota" "q_MaxTTLSeconds r = ttl"
      "q_MaxExecTimeoutSeconds r = exec"
    using r(1) row_SaveOwnerQuota [OF up, of owner "m_store m"] q
    by (auto simp: st(2) dest: row_by_SomeD split: option.splits)
  have other: "row_by q_OwnerID k (t_quotas (m_store m')) = row_by q_OwnerID k (t_quotas (m_store m))"
    if "k \<noteq> owner" for k
    using that row_SaveOwnerQuota [OF up, of k "m_store m"] q st(2) by simp
  have saved: "oq_OwnerID saved = owner" "oq_MaxSandboxes saved = oq_MaxSandboxes quota"
      "oq_MaxTTL saved = optionalSecondsString ttl" "oq_MaxExecTimeout saved = optionalSecondsString exec"
    using r(2) row by (simp_all add: ownerQuotaFromRecord_def)
  have "GetOwnerQuota E' (oq_OwnerID quota) m' = Inr saved"
    using assms(2) n(1) r saved(1) by (simp add: GetOwnerQuota_def GetOwnerQuotaRecord_def)
  moreover have "owner = TrimSpace (oq_OwnerID quota)" using n(1) by (simp add: normalizeOwnerID_Inr)
  ultimately show ?thesis
    using n(2,3) saved other parseOptionalDurationSeconds_range [OF n(2)] parseOptionalDurationSeconds_range [OF n(3)]
    by (simp add: parse_optionalSecondsString)
qed

end
