(* ===== verification/Admission.thy ===== *)
theory Admission
  imports Quotas
begin

text \<open>
  Spawn admission and its queue (\<open>manager.go\<close>: \<open>acquireSpawnAdmission\<close> to
  \<open>notifySpawnCapacity\<close>, \<open>evaluateSpawnAdmission\<close>, \<open>spawnAdmissionError\<close>).

  A request that waits is at the mercy of the other goroutines.  What they do between two of
  its own steps is a function on managers, given with the step: a \<open>wait_event\<close> is what
  others did before the \<open>select\<close> fired and which branch fired.  Each stretch of code under
  \<open>queueMu\<close> or \<open>admissionMu\<close> is one step.  A request that is still waiting when its
  schedule ends has no result (\<open>None\<close>).
\<close>

section \<open>Definitions\<close>

record SpawnAdmissionDecision =
  ad_Allowed :: bool
  ad_Queueable :: bool
  ad_Reason :: string
  ad_ActiveSandboxes :: int
  ad_MaxSandboxes :: int
  ad_ActiveOwnerSandboxes :: int
  ad_MaxOwnerSandboxes :: int
  ad_MaxTTL :: string
  ad_SelectedWorkerID :: string
  ad_EligibleWorkers :: int
  ad_WorkerReason :: string

definition evaluateSpawnAdmission ::
  "env \<Rightarrow> string \<Rightarrow> duration \<Rightarrow> string \<Rightarrow> mgr \<Rightarrow> error + SpawnAdmissionDecision" where
  "evaluateSpawnAdmission E ownerID ttl provider m =
     (let (maxTTL, maxPerOwner) = ownerLimitOverrides E ownerID m;
          d = \<lparr>ad_Allowed = True, ad_Queueable = False, ad_Reason = [], ad_ActiveSandboxes = 0,
               ad_MaxSandboxes = lim_MaxSandboxes (m_limits m), ad_ActiveOwnerSandboxes = 0,
               ad_MaxOwnerSandboxes = maxPerOwner,
               ad_MaxTTL = (if maxTTL > 0 then Duration_String maxTTL else []),
               ad_SelectedWorkerID = [], ad_EligibleWorkers = 0, ad_WorkerReason = []\<rparr>
      in if maxTTL > 0 \<and> ttl > maxTTL then Inr (d\<lparr>ad_Allowed := False, ad_Reason := ''max_ttl''\<rparr>)
      else case ListSandboxes E (m_store m) of
        Inl e \<Rightarrow> Inl (wrap_err ''checking sandbox limits'' e)
      | Inr records \<Rightarrow>
      (let placement = evaluateWorkerPlacement E provider records m;
           d = d\<lparr>ad_SelectedWorkerID := wp_SelectedID placement, ad_EligibleWorkers := wp_Eligible placement,
                 ad_WorkerReason := wp_Reason placement\<rparr>
       in if wp_SelectedID placement = []
          then Inr (d\<lparr>ad_Allowed := False, ad_Reason := ''worker_unavailable''\<rparr>)
       else if wp_SelectedID placement \<noteq> m_workerID m \<and> \<not> canUseRemoteWorker E (wp_SelectedID placement) m
          then Inr (d\<lparr>ad_WorkerReason := ''remote_worker_selected'', ad_Allowed := False,
                      ad_Reason := ''remote_worker_rpc_unavailable''\<rparr>)
       else
         (let d = (if wp_SelectedID placement \<noteq> m_workerID m
                   then d\<lparr>ad_WorkerReason := ''remote_worker_selected''\<rparr> else d);
              live = filter (\<lambda>rec. sr_State rec \<noteq> StateDestroyed) records;
              total = int (length live);
              ownerTotal = int (length (filter (\<lambda>rec. ownerID \<noteq> [] \<and> sr_OwnerID rec = ownerID) live));
              d = d\<lparr>ad_ActiveSandboxes := total, ad_ActiveOwnerSandboxes := ownerTotal\<rparr>
          in if lim_MaxSandboxes (m_limits m) > 0 \<and> total \<ge> lim_MaxSandboxes (m_limits m)
             then Inr (d\<lparr>ad_Allowed := False, ad_Queueable := True, ad_Reason := ''max_sandboxes''\<rparr>)
             else if ownerID \<noteq> [] \<and> maxPerOwner > 0 \<and> ownerTotal \<ge> maxPerOwner
             then Inr (d\<lparr>ad_Allowed := False, ad_Queueable := True, ad_Reason := ''max_sandboxes_per_owner''\<rparr>)
             else Inr d)))"

definition spawnAdmissionError :: "SpawnAdmissionDecision \<Rightarrow> error" where
  "spawnAdmissionError d =
     (if ad_Reason d = ''max_ttl'' then ResourceLimitError (''ttl exceeds max ttl '' @ ad_MaxTTL d)
      else if ad_Reason d = ''max_sandboxes''
      then ResourceLimitError (''max sandboxes reached ('' @ Itoa (ad_MaxSandboxes d) @ '')'')
      else if ad_Reason d = ''max_sandboxes_per_owner''
      then ResourceLimitError (''max sandboxes per owner reached ('' @ Itoa (ad_MaxOwnerSandboxes d) @ '')'')
      else if ad_Reason d = ''worker_unavailable'' then ResourceLimitError ''no eligible worker available''
      else if ad_Reason d = ''remote_worker_rpc_unavailable''
      then ResourceLimitError ''selected worker requires remote worker RPC''
      else ResourceLimitError ''spawn admission denied'')"

definition EvaluateSpawnRequestAdmission :: "env \<Rightarrow> SpawnRequest \<Rightarrow> mgr \<Rightarrow> error + SpawnAdmissionDecision" where
  "EvaluateSpawnRequestAdmission E req m =
     (case (if rq_TTL req \<noteq> [] then ParseDuration (rq_TTL req) else Inr (mc_defaultTTL (m_cfg m))) of
        Inl e \<Rightarrow> Inl (InvalidInputError (''parsing TTL: '' @ err_msg e))
      | Inr ttl \<Rightarrow>
      case normalizeOptionalOwnerID (rq_OwnerID req) of
        Inl e \<Rightarrow> Inl e
      | Inr ownerID \<Rightarrow>
      (let providerName = (if rq_Provider req = [] then rg_dflt (m_registry m) else rq_Provider req) in
       case evaluateSpawnAdmission E ownerID ttl providerName m of
         Inl e \<Rightarrow> Inl e
       | Inr d \<Rightarrow>
           if ad_Queueable d \<and> \<not> EqualFold (lim_SpawnOverflow (m_limits m)) ''queue''
           then Inr (d\<lparr>ad_Queueable := False\<rparr>) else Inr d))"

section \<open>The queue\<close>

definition queue_denied :: "mgr \<Rightarrow> SpawnAdmissionDecision \<Rightarrow> bool" where
  "queue_denied m d \<longleftrightarrow> \<not> ad_Queueable d \<or> \<not> EqualFold (lim_SpawnOverflow (m_limits m)) ''queue''"

text \<open>Entering: the waiter is counted, and takes the channel of the current generation.\<close>

definition queue_enter :: "env \<Rightarrow> string \<Rightarrow> string \<Rightarrow> mgr \<Rightarrow> (error + nat) \<times> mgr" where
  "queue_enter E ownerID provider m =
     (if m_queueWaiters m \<ge> lim_MaxSpawnQueue (m_limits m)
      then (Inl (ResourceLimitError (''spawn queue full ('' @ Itoa (lim_MaxSpawnQueue (m_limits m)) @ '')'')), m)
      else
        (let m = m\<lparr>m_queueWaiters := m_queueWaiters m + 1,
                   m_queueStats := (m_queueStats m)\<lparr>qs_queuedTotal := qs_queuedTotal (m_queueStats m) + 1\<rparr>\<rparr>
         in (Inr (m_capacityGen m),
             publishOperationalEvent E EventSpawnQueued []
               [(''operation'', JStr OperationSpawn), (''provider'', JStr provider),
                (''owner_id'', JStr ownerID), (''depth'', JInt (m_queueWaiters m))] m)))"

definition queue_leave :: "mgr \<Rightarrow> mgr" where
  "queue_leave m = m\<lparr>m_queueWaiters := m_queueWaiters m - 1\<rparr>"

definition record_wait :: "duration \<Rightarrow> spawnQueueStats \<Rightarrow> spawnQueueStats" where
  "record_wait d q = q\<lparr>qs_waitCount := qs_waitCount q + 1, qs_waitTotal := qs_waitTotal q + d,
     qs_waitMax := (if d > qs_waitMax q then d else qs_waitMax q)\<rparr>"

definition recordSpawnDequeued :: "duration \<Rightarrow> mgr \<Rightarrow> mgr" where
  "recordSpawnDequeued d m = m\<lparr>m_queueStats := record_wait d
     ((m_queueStats m)\<lparr>qs_dequeuedTotal := qs_dequeuedTotal (m_queueStats m) + 1\<rparr>)\<rparr>"

definition recordSpawnQueueTimeout :: "duration \<Rightarrow> mgr \<Rightarrow> mgr" where
  "recordSpawnQueueTimeout d m = m\<lparr>m_queueStats := record_wait d
     ((m_queueStats m)\<lparr>qs_timeoutTotal := qs_timeoutTotal (m_queueStats m) + 1\<rparr>)\<rparr>"

datatype wait_event =
    CapacitySignal env "mgr \<Rightarrow> mgr"
  | DeadlinePassed env "mgr \<Rightarrow> mgr"
  | RequestCancelled error "mgr \<Rightarrow> mgr"

text \<open>
  The \<open>for\<close>/\<open>select\<close> loop.  The capacity branch can fire only when the channel the waiter
  holds has been closed, that is when the generation has moved on.
\<close>

fun wait_loop :: "string \<Rightarrow> duration \<Rightarrow> string \<Rightarrow> time \<Rightarrow> nat \<Rightarrow> wait_event list \<Rightarrow> mgr \<Rightarrow> error option option \<times> mgr" where
  "wait_loop ownerID ttl provider queuedAt gen [] m = (None, m)"
| "wait_loop ownerID ttl provider queuedAt gen (DeadlinePassed E f # ws) m =
     (let m = f m;
          err = ResourceLimitError (''spawn queue timeout after '' @ Duration_String (lim_SpawnQueueTimeout (m_limits m)));
          waitDuration = db_now E - queuedAt;
          m = recordSpawnQueueTimeout waitDuration m;
          m = publishOperationalEvent E EventSpawnQueueTimeout []
                [(''operation'', JStr OperationSpawn), (''provider'', JStr provider), (''owner_id'', JStr ownerID),
                 (''error'', JStr (err_msg err)), (''wait_ms'', JInt (Milliseconds waitDuration))] m
      in (Some (Some err), m))"
| "wait_loop ownerID ttl provider queuedAt gen (RequestCancelled e f # ws) m = (Some (Some e), f m)"
| "wait_loop ownerID ttl provider queuedAt gen (CapacitySignal E f # ws) m =
     (let m = f m in
      if m_capacityGen m \<le> gen then wait_loop ownerID ttl provider queuedAt gen ws m
      else case evaluateSpawnAdmission E ownerID ttl provider m of
        Inl e \<Rightarrow> (Some (Some e), m)
      | Inr d \<Rightarrow>
          if ad_Allowed d then
            (let waitDuration = db_now E - queuedAt;
                 m = recordSpawnDequeued waitDuration m;
                 m = publishOperationalEvent E EventSpawnDequeued []
                       [(''operation'', JStr OperationSpawn), (''provider'', JStr provider),
                        (''owner_id'', JStr ownerID), (''wait_ms'', JInt (Milliseconds waitDuration))] m
             in (Some None, m))
          else if \<not> ad_Queueable d then (Some (Some (spawnAdmissionError d)), m)
          else wait_loop ownerID ttl provider queuedAt (m_capacityGen m) ws m)"

definition waitForSpawnCapacity ::
  "env \<Rightarrow> string \<Rightarrow> duration \<Rightarrow> string \<Rightarrow> (mgr \<Rightarrow> mgr) \<Rightarrow> wait_event list \<Rightarrow> mgr \<Rightarrow> error option option \<times> mgr" where
  "waitForSpawnCapacity E ownerID ttl provider others ws m =
     (case evaluateSpawnAdmission E ownerID ttl provider m of
        Inl e \<Rightarrow> (Some (Some e), m)
      | Inr d \<Rightarrow>
          if ad_Allowed d then (Some None, m)
          else if queue_denied m d then (Some (Some (spawnAdmissionError d)), m)
          else
            (case queue_enter E ownerID provider (others m) of
               (Inl e, m) \<Rightarrow> (Some (Some e), m)
             | (Inr gen, m) \<Rightarrow>
                 (case wait_loop ownerID ttl provider (db_now E) gen ws m of
                    (None, m) \<Rightarrow> (None, m)
                  | (Some r, m) \<Rightarrow> (Some r, queue_leave m))))"

text \<open>
  One turn of the outer loop: the wait, what others do before the lock is taken, and the
  evaluation under it.  An admitted request returns with the lock held.
\<close>

record admission_round =
  ar_env :: env
  ar_others :: "mgr \<Rightarrow> mgr"
  ar_waits :: "wait_event list"
  ar_locked_env :: env
  ar_before_lock :: "mgr \<Rightarrow> mgr"

fun acquireSpawnAdmission ::
  "string \<Rightarrow> duration \<Rightarrow> string \<Rightarrow> admission_round list \<Rightarrow> mgr \<Rightarrow> error option option \<times> mgr" where
  "acquireSpawnAdmission ownerID ttl provider [] m = (None, m)"
| "acquireSpawnAdmission ownerID ttl provider (r # rs) m =
     (case waitForSpawnCapacity (ar_env r) ownerID ttl provider (ar_others r) (ar_waits r) m of
        (None, m) \<Rightarrow> (None, m)
      | (Some (Some e), m) \<Rightarrow> (Some (Some e), m)
      | (Some None, m) \<Rightarrow>
          (let m = ar_before_lock r m in
           case evaluateSpawnAdmission (ar_locked_env r) ownerID ttl provider m of
             Inl e \<Rightarrow> (Some (Some e), m)
           | Inr d \<Rightarrow>
               if ad_Allowed d then (Some None, m)
               else if queue_denied m d then (Some (Some (spawnAdmissionError d)), m)
               else acquireSpawnAdmission ownerID ttl provider rs m))"

text \<open>A request nobody interferes with.\<close>

definition alone :: "env \<Rightarrow> admission_round list" where
  "alone E = [\<lparr>ar_env = E, ar_others = id, ar_waits = [], ar_locked_env = E, ar_before_lock = id\<rparr>]"

section \<open>What an admission decides\<close>

definition live_records :: "store \<Rightarrow> SandboxRecord list" where
  "live_records s = filter (\<lambda>r. sr_State r \<noteq> StateDestroyed) (t_sandboxes s)"

definition owner_live :: "string \<Rightarrow> store \<Rightarrow> SandboxRecord list" where
  "owner_live ownerID s = filter (\<lambda>r. sr_OwnerID r = ownerID) (live_records s)"

text \<open>What a request has to satisfy to be admitted: the limits, its owner's quota first, and a worker.\<close>

definition under_limits :: "env \<Rightarrow> string \<Rightarrow> duration \<Rightarrow> mgr \<Rightarrow> bool" where
  "under_limits E ownerID ttl m \<longleftrightarrow>
     (let (maxTTL, maxPerOwner) = ownerLimitOverrides E ownerID m in
      (maxTTL > 0 \<longrightarrow> ttl \<le> maxTTL) \<and>
      (lim_MaxSandboxes (m_limits m) > 0 \<longrightarrow> int (length (live_records (m_store m))) < lim_MaxSandboxes (m_limits m)) \<and>
      (ownerID \<noteq> [] \<and> maxPerOwner > 0 \<longrightarrow> int (length (owner_live ownerID (m_store m))) < maxPerOwner))"

definition worker_found :: "env \<Rightarrow> string \<Rightarrow> mgr \<Rightarrow> bool" where
  "worker_found E provider m \<longleftrightarrow>
     (let w = wp_SelectedID (currentSpawnPlacement E provider m) in
      w \<noteq> [] \<and> (w = m_workerID m \<or> canUseRemoteWorker E w m))"

lemma live_counts:
  assumes "ListSandboxes E s = Inr records"
  shows "length (filter (\<lambda>r. sr_State r \<noteq> StateDestroyed) records) = length (live_records s)"
    and "ownerID \<noteq> [] \<Longrightarrow>
      length (filter (\<lambda>r. ownerID \<noteq> [] \<and> sr_OwnerID r = ownerID) (filter (\<lambda>r. sr_State r \<noteq> StateDestroyed) records))
        = length (owner_live ownerID s)"
proof -
  have *: "filter (\<lambda>r. sr_State r \<noteq> StateDestroyed \<and> sr_State r \<noteq> StateDestroyed) xs
      = filter (\<lambda>r. sr_State r \<noteq> StateDestroyed) xs"
    "filter P (filter (\<lambda>r. sr_State r \<noteq> StateDestroyed) xs) = filter (\<lambda>r. sr_State r \<noteq> StateDestroyed \<and> P r) xs"
    "filter (\<lambda>r. sr_State r \<noteq> StateDestroyed \<and> sr_State r \<noteq> StateDestroyed \<and> P r) xs
      = filter (\<lambda>r. sr_State r \<noteq> StateDestroyed \<and> P r) xs" for xs P
    by (induction xs) auto
  show "length (filter (\<lambda>r. sr_State r \<noteq> StateDestroyed) records) = length (live_records s)"
    unfolding live_records_def length_ListSandboxes [OF assms, of "\<lambda>r. sr_State r \<noteq> StateDestroyed"] * ..
  show "ownerID \<noteq> [] \<Longrightarrow>
      length (filter (\<lambda>r. ownerID \<noteq> [] \<and> sr_OwnerID r = ownerID) (filter (\<lambda>r. sr_State r \<noteq> StateDestroyed) records))
        = length (owner_live ownerID s)"
    unfolding live_records_def owner_live_def *
      length_ListSandboxes [OF assms, of "\<lambda>r. sr_State r \<noteq> StateDestroyed \<and> ownerID \<noteq> [] \<and> sr_OwnerID r = ownerID"]
    by simp
qed

lemma evaluateSpawnAdmission_allowed:
  assumes "evaluateSpawnAdmission E ownerID ttl provider m = Inr d"
    and list: "db_fail E OpListSandboxes = None"
  shows "ad_Allowed d \<longleftrightarrow> under_limits E ownerID ttl m \<and> worker_found E provider m"
proof -
  obtain maxTTL maxPerOwner where o: "ownerLimitOverrides E ownerID m = (maxTTL, maxPerOwner)" by force
  obtain records where r: "ListSandboxes E (m_store m) = Inr records"
    using list by (simp add: ListSandboxes_def)
  have p: "currentSpawnPlacement E provider m = evaluateWorkerPlacement E provider records m"
    by (simp add: currentSpawnPlacement_def r)
  note c = live_counts(1) [OF r] live_counts(2) [OF r, of ownerID]
  let ?p = "wp_SelectedID (evaluateWorkerPlacement E provider records m)"
  consider (ttl) "maxTTL > 0 \<and> ttl > maxTTL"
    | (none) "\<not> (maxTTL > 0 \<and> ttl > maxTTL)" "?p = []"
    | (rpc) "\<not> (maxTTL > 0 \<and> ttl > maxTTL)" "?p \<noteq> []" "?p \<noteq> m_workerID m \<and> \<not> canUseRemoteWorker E ?p m"
    | (limits) "\<not> (maxTTL > 0 \<and> ttl > maxTTL)" "?p \<noteq> []" "?p = m_workerID m \<or> canUseRemoteWorker E ?p m"
    by blast
  then show ?thesis
  proof cases
    case limits
    show ?thesis
    proof (cases "ownerID = []")
      case True
      then show ?thesis
        using assms(1) limits c(1) unfolding evaluateSpawnAdmission_def o r Let_def under_limits_def worker_found_def p
        by (auto split: if_split_asm)
    next
      case False
      then show ?thesis
        using assms(1) limits c(1) c(2) [OF False]
        unfolding evaluateSpawnAdmission_def o r Let_def under_limits_def worker_found_def p
        by (auto split: if_split_asm)
    qed
  qed (use assms(1) in \<open>auto simp: evaluateSpawnAdmission_def o r Let_def under_limits_def worker_found_def p\<close>)
qed

text \<open>A failed listing never admits: the evaluation returns its error.\<close>

lemma evaluateSpawnAdmission_list:
  "evaluateSpawnAdmission E ownerID ttl provider m = Inr d \<Longrightarrow> ad_Allowed d \<Longrightarrow> db_fail E OpListSandboxes = None"
  by (auto simp: evaluateSpawnAdmission_def ListSandboxes_def Let_def split: prod.splits option.splits if_splits)

lemma evaluateSpawnAdmission_queueable:
  "evaluateSpawnAdmission E ownerID ttl provider m = Inr d \<Longrightarrow> ad_Queueable d \<Longrightarrow> \<not> ad_Allowed d"
  by (auto simp: evaluateSpawnAdmission_def Let_def split: prod.splits sum.splits if_splits)

lemma evaluateSpawnAdmission_reason:
  assumes "evaluateSpawnAdmission E ownerID ttl provider m = Inr d" "ad_Queueable d"
  shows "ad_Reason d = ''max_sandboxes'' \<or> ad_Reason d = ''max_sandboxes_per_owner''"
  using assms by (auto simp: evaluateSpawnAdmission_def Let_def split: prod.splits sum.splits if_splits)

lemma spawnAdmissionError_kind: "err_kind (spawnAdmissionError d) = ErrResourceLimit"
  by (simp add: spawnAdmissionError_def)

text \<open>
  C13. The admission decision is exactly the limits: a request is allowed if and only if its TTL is
  within its owner's (or the server's) maximum, the live sandboxes of the server and of its
  owner are below their maxima, and a worker is found for it that is the manager itself or can
  be reached by RPC.  Only a sandbox count makes a denied request queueable, and every denial
  is reported as a resource limit.
\<close>

theorem admission_exact:
  assumes "evaluateSpawnAdmission E ownerID ttl provider m = Inr d"
  shows "(ad_Allowed d \<longleftrightarrow> (\<exists>records. ListSandboxes E (m_store m) = Inr records) \<and>
            under_limits E ownerID ttl m \<and> worker_found E provider m) \<and>
    (ad_Queueable d \<longrightarrow> \<not> ad_Allowed d \<and> ad_Reason d \<in> {''max_sandboxes'', ''max_sandboxes_per_owner''}) \<and>
    err_kind (spawnAdmissionError d) = ErrResourceLimit"
proof -
  have "(\<exists>records. ListSandboxes E (m_store m) = Inr records) \<longleftrightarrow> db_fail E OpListSandboxes = None"
    by (auto simp: ListSandboxes_def split: option.splits)
  then show ?thesis
    using evaluateSpawnAdmission_allowed [OF assms] evaluateSpawnAdmission_list [OF assms]
      evaluateSpawnAdmission_queueable [OF assms] evaluateSpawnAdmission_reason [OF assms]
    by (auto simp: spawnAdmissionError_kind)
qed

theorem admission_exact_witness:
  "(let d = projr (evaluateSpawnAdmission sample_env ''alice'' Minute ''mock'' sample_full)
    in \<not> ad_Allowed d \<and> ad_Queueable d \<and> \<not> under_limits sample_env ''alice'' Minute sample_full)"
proof -
  let ?r = "evaluateSpawnAdmission sample_env ''alice'' Minute ''mock'' sample_full"
  have 1: "\<not> isl ?r \<and> ad_Queueable (projr ?r) \<and> worker_found sample_env ''mock'' sample_full
      \<and> \<not> isl (ListSandboxes sample_env (m_store sample_full))" by code_simp
  then have "?r = Inr (projr ?r)" by simp
  moreover have "\<exists>records. ListSandboxes sample_env (m_store sample_full) = Inr records"
    using 1 by (metis sum.collapse(2))
  ultimately show ?thesis
    using 1 admission_exact [of sample_env "''alice''" Minute "''mock''" sample_full "projr ?r"]
    by (auto simp: Let_def)
qed

section \<open>Through the queue\<close>

lemma acquireSpawnAdmission_admits:
  assumes "acquireSpawnAdmission ownerID ttl provider rs m = (Some None, m')"
  shows "\<exists>r\<in>set rs. under_limits (ar_locked_env r) ownerID ttl m' \<and> worker_found (ar_locked_env r) provider m'"
  using assms
proof (induction rs arbitrary: m)
  case (Cons r rs)
  then obtain m1 where w: "waitForSpawnCapacity (ar_env r) ownerID ttl provider (ar_others r) (ar_waits r) m = (Some None, m1)"
    by (auto split: prod.splits option.splits)
  then obtain d where d: "evaluateSpawnAdmission (ar_locked_env r) ownerID ttl provider (ar_before_lock r m1) = Inr d"
    using Cons.prems by (auto simp: Let_def split: sum.splits)
  show ?case
  proof (cases "ad_Allowed d")
    case True
    then show ?thesis
      using Cons.prems w d evaluateSpawnAdmission_allowed [OF d] evaluateSpawnAdmission_list [OF d]
      by (auto simp: Let_def)
  next
    case False
    then show ?thesis
      using Cons w d by (auto simp: Let_def split: if_splits)
  qed
qed simp

text \<open>
  C3. A spawn is admitted only under the limits, whatever the others do: if
  \<open>acquireSpawnAdmission\<close> returns without an error, after any number of waits and with any
  actions of other requests between its steps, then at the moment it holds the admission lock
  the limits leave room for the request and a usable worker is selected.
\<close>

theorem admitted_under_limits:
  assumes "acquireSpawnAdmission ownerID ttl provider rounds m = (Some None, m')"
  shows "\<exists>r\<in>set rounds. under_limits (ar_locked_env r) ownerID ttl m' \<and> worker_found (ar_locked_env r) provider m'"
  using assms by (rule acquireSpawnAdmission_admits)

text \<open>A request that waits for two sandboxes to go.\<close>

definition free_all :: "mgr \<Rightarrow> mgr" where
  "free_all m = notifySpawnCapacity (snd (on_store (DeleteSandbox sample_env ''sb-b'')
     (snd (on_store (DeleteSandbox sample_env ''sb-a'') m))))"

definition sample_rounds :: "admission_round list" where
  "sample_rounds = [\<lparr>ar_env = sample_env, ar_others = id, ar_waits = [CapacitySignal sample_env free_all],
     ar_locked_env = sample_env, ar_before_lock = id\<rparr>]"

theorem admitted_under_limits_witness:
  "under_limits sample_env ''alice'' Minute
     (snd (acquireSpawnAdmission ''alice'' Minute ''mock'' sample_rounds sample_full))"
proof -
  let ?r = "acquireSpawnAdmission ''alice'' Minute ''mock'' sample_rounds sample_full"
  have "fst ?r = Some None" by code_simp
  then have "?r = (Some None, snd ?r)" by (simp add: prod_eq_iff)
  from admitted_under_limits [OF this] show ?thesis
    by (simp add: sample_rounds_def)
qed

section \<open>The counters of the queue\<close>

text \<open>
  Everyone's steps on the queue counter: requests enter and leave, and any other step leaves
  the counter and the configuration alone.  The number is of the requests inside.
\<close>

inductive queue_run :: "mgr \<Rightarrow> mgr \<Rightarrow> nat \<Rightarrow> bool" for m0 where
  queue_start: "queue_run m0 m0 0"
| queue_enters: "queue_run m0 m n \<Longrightarrow> queue_enter E ownerID provider m = (Inr g, m') \<Longrightarrow> queue_run m0 m' (Suc n)"
| queue_leaves: "queue_run m0 m (Suc n) \<Longrightarrow> queue_run m0 (queue_leave m) n"
| queue_other: "queue_run m0 m n \<Longrightarrow> m_queueWaiters m' = m_queueWaiters m \<Longrightarrow> m_cfg m' = m_cfg m \<Longrightarrow> queue_run m0 m' n"

lemma queue_enter_Inr:
  assumes "queue_enter E ownerID provider m = (Inr g, m')"
  shows "m_queueWaiters m < lim_MaxSpawnQueue (m_limits m)" "m_queueWaiters m' = m_queueWaiters m + 1"
    "m_cfg m' = m_cfg m" "g = m_capacityGen m" "m_capacityGen m' = m_capacityGen m" "m_store m' = m_store m"
  using assms by (auto simp: queue_enter_def Let_def split: if_splits)

lemma queue_run_counts:
  assumes "queue_run m0 m n" "m_queueWaiters m0 = 0" "0 \<le> lim_MaxSpawnQueue (m_limits m0)"
  shows "m_queueWaiters m = int n \<and> int n \<le> lim_MaxSpawnQueue (m_limits m0) \<and> m_cfg m = m_cfg m0"
  using assms
proof (induction rule: queue_run.induct)
  case (queue_enters m n E ownerID provider g m')
  then show ?case using queue_enter_Inr [OF queue_enters.hyps(2)] by auto
qed (auto simp: queue_leave_def)

text \<open>
  C14. The spawn queue is bounded: the counter \<open>queueWaiters\<close> is the number of requests inside
  the queue, never more than \<open>MaxSpawnQueue\<close>, and a request that finds the queue full is
  turned away with a resource-limit error and changes nothing.
\<close>

theorem spawn_queue_bounded:
  assumes "queue_run m0 m n" and "m_queueWaiters m0 = 0" and "0 \<le> lim_MaxSpawnQueue (m_limits m0)"
  shows "m_queueWaiters m = int n \<and> int n \<le> lim_MaxSpawnQueue (m_limits m0) \<and>
    (int n = lim_MaxSpawnQueue (m_limits m0) \<longrightarrow>
       (\<exists>e. queue_enter E ownerID provider m = (Inl e, m) \<and> err_kind e = ErrResourceLimit))"
  using queue_run_counts [OF assms] by (simp add: queue_enter_def)

theorem spawn_queue_bounded_witness:
  "\<exists>m. queue_run sample_full m 1 \<and> m_queueWaiters m = 1"
proof -
  obtain g m where e: "queue_enter sample_env ''alice'' ''mock'' sample_full = (Inr g, m)"
    by (simp add: queue_enter_def sample_full_def sample_mgr_def NewManager_def sample_config_def sample_limits_def Let_def)
  have r: "queue_run sample_full m 1"
    using queue_enters [OF queue_start e] by simp
  have z: "m_queueWaiters sample_full = 0" "0 \<le> lim_MaxSpawnQueue (m_limits sample_full)"
    by (simp_all add: sample_full_def sample_mgr_def NewManager_def sample_config_def sample_limits_def Let_def)
  from spawn_queue_bounded [OF r z] r show ?thesis by auto
qed

text \<open>What other goroutines do, as far as this request's own slot is concerned.\<close>

definition keeps_waiters :: "(mgr \<Rightarrow> mgr) \<Rightarrow> bool" where
  "keeps_waiters f \<longleftrightarrow> (\<forall>m. m_queueWaiters (f m) = m_queueWaiters m)"

fun event_others :: "wait_event \<Rightarrow> mgr \<Rightarrow> mgr" where
  "event_others (CapacitySignal E f) = f"
| "event_others (DeadlinePassed E f) = f"
| "event_others (RequestCancelled e f) = f"

definition round_keeps :: "admission_round \<Rightarrow> bool" where
  "round_keeps r \<longleftrightarrow> keeps_waiters (ar_others r) \<and> keeps_waiters (ar_before_lock r) \<and>
     (\<forall>w\<in>set (ar_waits r). keeps_waiters (event_others w))"

lemma wait_loop_waiters:
  "wait_loop ownerID ttl provider t gen ws m = (r, m') \<Longrightarrow> \<forall>w\<in>set ws. keeps_waiters (event_others w) \<Longrightarrow>
   m_queueWaiters m' = m_queueWaiters m"
proof (induction ownerID ttl provider t gen ws m rule: wait_loop.induct)
  case (4 ownerID ttl provider queuedAt gen E f ws m)
  have f: "m_queueWaiters (f m) = m_queueWaiters m" and ws: "\<forall>w\<in>set ws. keeps_waiters (event_others w)"
    using "4.prems"(2) by (simp_all add: keeps_waiters_def)
  show ?case
  proof (cases "m_capacityGen (f m) \<le> gen")
    case True
    then show ?thesis using "4.IH"(1) [OF refl True _ ws] "4.prems"(1) f by simp
  next
    case False
    show ?thesis
    proof (cases "evaluateSpawnAdmission E ownerID ttl provider (f m)")
      case (Inr d)
      then show ?thesis
        using "4.IH"(2) [OF refl False Inr _ _ _ ws] "4.prems"(1) f False
        by (cases "ad_Allowed d"; cases "ad_Queueable d") (auto simp: Let_def recordSpawnDequeued_def)
    qed (use "4.prems"(1) f False in auto)
  qed
qed (auto simp: Let_def keeps_waiters_def recordSpawnQueueTimeout_def)

lemma waitForSpawnCapacity_waiters:
  assumes "waitForSpawnCapacity E ownerID ttl provider others ws m = (r, m')"
    and "keeps_waiters others" "\<forall>w\<in>set ws. keeps_waiters (event_others w)"
  shows "m_queueWaiters m' = m_queueWaiters m + (if r = None then 1 else 0)"
proof -
  have o: "m_queueWaiters (others m) = m_queueWaiters m" using assms(2) by (simp add: keeps_waiters_def)
  show ?thesis
  proof (cases "queue_enter E ownerID provider (others m)")
    case (Pair q m1)
    show ?thesis
    proof (cases q)
      case (Inl e)
      then show ?thesis
        using assms(1) o Pair
        by (auto simp: waitForSpawnCapacity_def queue_enter_def Let_def split: sum.splits if_splits)
    next
      case (Inr g)
      obtain r2 m2 where l: "wait_loop ownerID ttl provider (db_now E) g ws m1 = (r2, m2)" by fastforce
      then show ?thesis
        using assms(1) o Pair Inr queue_enter_Inr(2) [OF Pair [unfolded Inr]] wait_loop_waiters [OF l assms(3)]
        by (auto simp: waitForSpawnCapacity_def queue_leave_def split: sum.splits if_splits option.splits)
    qed
  qed
qed

lemma acquireSpawnAdmission_waiters:
  assumes "acquireSpawnAdmission ownerID ttl provider rs m = (Some r, m')" "\<forall>r\<in>set rs. round_keeps r"
  shows "m_queueWaiters m' = m_queueWaiters m"
  using assms
proof (induction rs arbitrary: m)
  case (Cons a rs)
  have keep: "keeps_waiters (ar_others a)" "keeps_waiters (ar_before_lock a)"
      "\<forall>w\<in>set (ar_waits a). keeps_waiters (event_others w)" "\<forall>r\<in>set rs. round_keeps r"
    using Cons.prems(2) by (simp_all add: round_keeps_def)
  obtain r1 m1 where w: "waitForSpawnCapacity (ar_env a) ownerID ttl provider (ar_others a) (ar_waits a) m = (r1, m1)"
    by fastforce
  have m1: "m_queueWaiters m1 = m_queueWaiters m + (if r1 = None then 1 else 0)"
    using waitForSpawnCapacity_waiters [OF w keep(1,3)] .
  have m2: "m_queueWaiters (ar_before_lock a m1) = m_queueWaiters m1"
    using keep(2) by (simp add: keeps_waiters_def)
  show ?case
    using Cons.IH [OF _ keep(4)] Cons.prems(1) w m1 m2
    by (auto simp: Let_def split: option.splits sum.splits if_splits)
qed simp

text \<open>
  No slot of the queue is leaked: a request that comes back from the admission, admitted or
  with any error (limit, timeout, cancellation, database), has left the counter of waiters as
  it found it, when the others leave their own steps' effect on it out of account.
\<close>

theorem spawn_queue_slot_returned:
  assumes "acquireSpawnAdmission ownerID ttl provider rounds m = (Some r, m')"
    and "\<forall>r\<in>set rounds. round_keeps r"
  shows "m_queueWaiters m' = m_queueWaiters m"
  using assms by (rule acquireSpawnAdmission_waiters)

section \<open>A wake-up that is lost\<close>

text \<open>
  The waiter evaluates first and takes the capacity channel afterwards.  A sandbox that goes
  in between closes the previous channel, which nobody holds.
\<close>

lemma wait_loop_deaf:
  "m_capacityGen m \<le> gen \<Longrightarrow> wait_loop ownerID ttl provider t gen (replicate n (CapacitySignal E id)) m = (None, m)"
  by (induction n) auto

text \<open>
  Capacity freed between a request's evaluation and its queue entry is not noticed: the
  request stays in the queue, however often it looks, though the limits would now admit it and
  no further signal is due (it can only time out, or wait for another sandbox to go).
\<close>

theorem spawn_queue_lost_wakeup:
  assumes "evaluateSpawnAdmission E ownerID ttl provider m = Inr d" "\<not> ad_Allowed d" "\<not> queue_denied m d"
    and "queue_enter E ownerID provider (others m) = (Inr g, m1)"
    and "evaluateSpawnAdmission E ownerID ttl provider m1 = Inr d1" "ad_Allowed d1"
  shows "waitForSpawnCapacity E ownerID ttl provider others (replicate n (CapacitySignal E id)) m = (None, m1)
    \<and> under_limits E ownerID ttl m1 \<and> worker_found E provider m1"
proof
  have "m_capacityGen m1 \<le> g" using queue_enter_Inr [OF assms(4)] by simp
  from wait_loop_deaf [OF this] show
    "waitForSpawnCapacity E ownerID ttl provider others (replicate n (CapacitySignal E id)) m = (None, m1)"
    using assms(1-4) by (simp add: waitForSpawnCapacity_def)
  show "under_limits E ownerID ttl m1 \<and> worker_found E provider m1"
    using evaluateSpawnAdmission_allowed [OF assms(5)] evaluateSpawnAdmission_list [OF assms(5,6)] assms(6) by blast
qed

end
