(* ===== verification/Lifecycle.thy ===== *)
theory Lifecycle
  imports Admission
begin

text \<open>
  The life of a sandbox (\<open>manager.go\<close>): \<open>Spawn\<close> and its three ways (on a provider, on a remote
  worker, in a slot of a shared VM), \<open>Destroy\<close> and its three ways, \<open>Get\<close>, \<open>List\<close>,
  \<open>ExtendTTL\<close>, \<open>Prune\<close> and the reaper.

  The cache \<open>m.sandboxes\<close> maps to pointers, so what the code writes through the pointer it
  returned shows in the cache: the model writes the cache entry.  The section under
  \<open>admissionMu\<close>, from the admission to the end of \<open>Spawn\<close>, is one step.
\<close>

section \<open>Spawning\<close>

definition sandboxRecord :: "time \<Rightarrow> Sandbox \<Rightarrow> SandboxRecord" where
  "sandboxRecord now sb =
     \<lparr>sr_ID = sb_ID sb, sr_State = sb_State sb, sr_Provider = sb_Provider sb, sr_Image = sb_Image sb,
      sr_MemoryMB = sb_MemoryMB sb, sr_VCPUs = sb_VCPUs sb, sr_Metadata = sb_Metadata sb,
      sr_OwnerID = sb_OwnerID sb, sr_TenantID = sb_TenantID sb, sr_VMID = sb_VMID sb,
      sr_WorkerID = sb_WorkerID sb, sr_CreatedAt = sb_CreatedAt sb, sr_ExpiresAt = sb_ExpiresAt sb,
      sr_UpdatedAt = now\<rparr>"

text \<open>The end of every successful spawn: cache, the two events, the audit record.\<close>

definition announce_spawn :: "env \<Rightarrow> Sandbox \<Rightarrow> string \<Rightarrow> mgr \<Rightarrow> mgr" where
  "announce_spawn E sb detail m =
     (let m = cache_put (sb_ID sb) sb m;
          m = publish_event E EventSandboxCreated (sb_ID sb) [] m;
          m = publish_event E EventSandboxRunning (sb_ID sb) [] m
      in auditOperation E ''sandbox.spawn'' (Some sb) (sb_ID sb) (sb_Image sb) ''success'' detail m)"

definition spawnLocal ::
  "env \<Rightarrow> string \<Rightarrow> SpawnRequest \<Rightarrow> string \<Rightarrow> int \<Rightarrow> int \<Rightarrow> duration \<Rightarrow> mgr \<Rightarrow> (error + Sandbox) \<times> error option \<times> mgr" where
  "spawnLocal E prov req img memMB vcpus ttl m =
     (let now = db_now E;
          sb = \<lparr>sb_ID = [], sb_State = StateCreating, sb_Provider = prov, sb_Image = img, sb_MemoryMB = memMB,
                sb_VCPUs = vcpus, sb_OwnerID = rq_OwnerID req, sb_TenantID = rq_TenantID req, sb_VMID = [],
                sb_WorkerID = m_workerID m, sb_CreatedAt = now, sb_ExpiresAt = now + ttl,
                sb_Metadata = rq_Metadata req, sb_PreviewDomain = mc_previewDomain (m_cfg m)\<rparr>;
          (r, m) = call (re_id E) (PSpawn prov img memMB vcpus (rq_Metadata req)) m
      in case r of
        Inl err \<Rightarrow> (Inl (wrap_err ''spawning sandbox'' err), Some err,
                    publishFailureForError E [] OperationSpawn prov err m)
      | Inr i \<Rightarrow>
      (let sb = sb\<lparr>sb_ID := i, sb_State := StateRunning\<rparr>;
           (l, m) = acquireSandboxLease E i (sb_ExpiresAt sb) m
       in case l of
         Inl err \<Rightarrow>
           (let m = snd (call (re_unit E) (PDestroy prov i) m);
                m = publishOperationFailure E EventOperationFailed i OperationSpawn prov err m
            in (Inl (wrap_err ''acquiring sandbox lease'' err), Some err, m))
       | Inr _ \<Rightarrow>
       (let (c, m) = on_store (CreateSandbox E (sandboxRecord now sb)) m in
        case c of
          Some err \<Rightarrow>
            (let m = snd (call (re_unit E) (PDestroy prov i) m);
                 m = snd (releaseSandboxLease E i m);
                 m = publishOperationFailure E EventOperationFailed i OperationSpawn prov err m
             in (Inl (wrap_err ''persisting sandbox'' err), Some err, m))
        | None \<Rightarrow> (Inr sb, None, announce_spawn E sb ''state=running'' m))))"

definition spawnRemote ::
  "env \<Rightarrow> string \<Rightarrow> SpawnRequest \<Rightarrow> string \<Rightarrow> string \<Rightarrow> int \<Rightarrow> int \<Rightarrow> duration \<Rightarrow> mgr \<Rightarrow> (error + Sandbox) \<times> mgr" where
  "spawnRemote E workerID req providerName img memMB vcpus ttl m =
     (case remoteWorkerRPCClient E workerID m of
        Inl err \<Rightarrow> (Inl err, m)
      | Inr url \<Rightarrow>
      (let now = db_now E;
           sandboxID = generateSandboxID E;
           expiresAt = now + ttl;
           (l, m) = acquireSandboxLeaseFor E sandboxID workerID expiresAt m
       in case l of
         Inl err \<Rightarrow> (Inl (wrap_err ''acquiring remote sandbox lease'' err), m)
       | Inr lease \<Rightarrow>
       (let (r, m) = call (re_spawned E)
              (RSpawn url (''spawn-'' @ sandboxID) (leaseTokenFromStore lease) sandboxID img providerName memMB vcpus
                 (rq_OwnerID req) (Duration_String ttl) (rq_Metadata req)) m
        in case r of
          Inl err \<Rightarrow> (Inl (wrap_err ''remote worker spawn'' err),
                      snd (on_store (ReleaseLease E sandboxID workerID) m))
        | Inr (runtimeID, rprovider) \<Rightarrow>
        (let sb = \<lparr>sb_ID = sandboxID, sb_State = StateRunning,
                   sb_Provider = (if rprovider = [] then providerName else rprovider), sb_Image = img,
                   sb_MemoryMB = memMB, sb_VCPUs = vcpus, sb_OwnerID = rq_OwnerID req, sb_TenantID = [],
                   sb_VMID = runtimeID, sb_WorkerID = workerID, sb_CreatedAt = now, sb_ExpiresAt = expiresAt,
                   sb_Metadata = rq_Metadata req, sb_PreviewDomain = previewDomainForWorker E workerID m\<rparr>;
             (c, m) = on_store (CreateSandbox E (sandboxRecord now sb)) m
         in case c of
           Some err \<Rightarrow> (Inl (wrap_err ''persisting remote sandbox'' err),
                        snd (on_store (ReleaseLease E sandboxID workerID) m))
         | None \<Rightarrow> (Inr sb, announce_spawn E sb (''state=running remote_worker='' @ workerID) m)))))"

text \<open>\<open>spawnDirect\<close>: a VM for the pool; \<open>spawn_vm\<close> is its part after the defaults.\<close>

definition spawn_vm :: "env \<Rightarrow> string \<Rightarrow> string \<Rightarrow> int \<Rightarrow> int \<Rightarrow> mgr \<Rightarrow> (error + Sandbox) \<times> mgr" where
  "spawn_vm E prov img memMB vcpus m =
     (let now = db_now E;
          (r, m) = call (re_id E) (PSpawn prov img memMB vcpus []) m
      in case r of
        Inl err \<Rightarrow> (Inl (wrap_err ''spawning VM'' err), m)
      | Inr i \<Rightarrow>
      (let sb = \<lparr>sb_ID = i, sb_State = StateRunning, sb_Provider = prov, sb_Image = img, sb_MemoryMB = memMB,
                 sb_VCPUs = vcpus, sb_OwnerID = [], sb_TenantID = [], sb_VMID = [], sb_WorkerID = m_workerID m,
                 sb_CreatedAt = now, sb_ExpiresAt = now + mc_defaultTTL (m_cfg m), sb_Metadata = [],
                 sb_PreviewDomain = mc_previewDomain (m_cfg m)\<rparr>;
           (l, m) = acquireSandboxLease E i (sb_ExpiresAt sb) m
       in case l of
         Inl err \<Rightarrow> (Inl (wrap_err ''acquiring pool VM lease'' err), snd (call (re_unit E) (PDestroy prov i) m))
       | Inr _ \<Rightarrow>
       (let (c, m) = on_store (CreateSandbox E (sandboxRecord now sb)) m in
        case c of
          Some err \<Rightarrow> (Inl (wrap_err ''persisting pool VM'' err),
                       snd (releaseSandboxLease E i (snd (call (re_unit E) (PDestroy prov i) m))))
        | None \<Rightarrow> (Inr sb, cache_put i sb m))))"

definition spawnDirect :: "env \<Rightarrow> SpawnRequest \<Rightarrow> mgr \<Rightarrow> (error + Sandbox) \<times> mgr" where
  "spawnDirect E req m =
     (case registry_Get (m_registry m) (rq_Provider req) of
        Inl err \<Rightarrow> (Inl (wrap_err ''getting provider'' err), m)
      | Inr prov \<Rightarrow>
          spawn_vm E prov (if rq_Image req = [] then mc_defaultImage (m_cfg m) else rq_Image req)
            (if rq_MemoryMB req = 0 then mc_defaultMemory (m_cfg m) else rq_MemoryMB req)
            (if rq_VCPUs req = 0 then mc_defaultVCPUs (m_cfg m) else rq_VCPUs req) m)"

text \<open>
  \<open>VMPoolManager.Acquire\<close> with the manager's \<open>spawnDirect\<close> as its \<open>spawn\<close>: a free slot, or a
  new VM (of the default provider, with the pool's image and sizes).
\<close>

definition set_pool :: "VMPoolManager \<Rightarrow> mgr \<Rightarrow> mgr" where
  "set_pool p m = m\<lparr>m_vmPool := Some p\<rparr>"

definition ErrVMPoolFull_error :: error where
  "ErrVMPoolFull_error = Err ErrVMPoolFull ''vm pool at capacity''"

definition pool_acquire :: "env \<Rightarrow> VMPoolManager \<Rightarrow> mgr \<Rightarrow> (error + string) \<times> mgr" where
  "pool_acquire E p m =
     (case vm_acquire_existing (env_pick E) p of
        VMAssigned vmID p' \<Rightarrow> (Inr vmID, set_pool p' m)
      | VMPoolFull \<Rightarrow> (Inl ErrVMPoolFull_error, m)
      | VMNeedSpawn \<Rightarrow>
          (let (r, m) = spawnDirect E \<lparr>rq_Image = pc_Image (vp_config p), rq_Provider = [],
                   rq_MemoryMB = pc_MemoryMB (vp_config p), rq_VCPUs = pc_VCPUs (vp_config p), rq_TTL = [],
                   rq_Template = [], rq_OwnerID = [], rq_TenantID = [], rq_Metadata = []\<rparr> m
           in case r of
                Inl err \<Rightarrow> (Inl (wrap_err ''spawn pool VM'' err), m)
              | Inr sb \<Rightarrow> (Inr (sb_ID sb), set_pool (vm_register (db_now E) (sb_ID sb) (sb_Provider sb) p) m)))"

text \<open>\<open>Release\<close>, when its answer is not looked at.\<close>

definition pool_release :: "string \<Rightarrow> mgr \<Rightarrow> bool \<times> mgr" where
  "pool_release vmID m =
     (case m_vmPool m of
        None \<Rightarrow> (False, m)
      | Some p \<Rightarrow> (fst (vm_release vmID p), set_pool (snd (vm_release vmID p)) m))"

definition spawnPooled ::
  "env \<Rightarrow> VMPoolManager \<Rightarrow> string \<Rightarrow> SpawnRequest \<Rightarrow> string \<Rightarrow> int \<Rightarrow> int \<Rightarrow> duration \<Rightarrow> mgr \<Rightarrow> (error + Sandbox) \<times> mgr" where
  "spawnPooled E p prov req img memMB vcpus ttl m =
     (let now = db_now E;
          sandboxID = generateSandboxID E;
          (a, m) = pool_acquire E p m
      in case a of
        Inl err \<Rightarrow>
          (if ErrorsIs err ErrVMPoolFull then (Inl (ResourceLimitError (err_msg err)), m)
           else (Inl (wrap_err ''pool acquire'' err), m))
      | Inr vmID \<Rightarrow>
      (let sb = \<lparr>sb_ID = sandboxID, sb_State = StateRunning, sb_Provider = prov, sb_Image = img,
                 sb_MemoryMB = memMB, sb_VCPUs = vcpus, sb_OwnerID = rq_OwnerID req, sb_TenantID = [],
                 sb_VMID = vmID, sb_WorkerID = m_workerID m, sb_CreatedAt = now, sb_ExpiresAt = now + ttl,
                 sb_Metadata = rq_Metadata req, sb_PreviewDomain = mc_previewDomain (m_cfg m)\<rparr>;
           (l, m) = acquireSandboxLease E sandboxID (sb_ExpiresAt sb) m
       in case l of
         Inl err \<Rightarrow>
           (let m = snd (pool_release vmID m);
                m = publishOperationFailure E EventOperationFailed sandboxID OperationSpawn prov err m
            in (Inl (wrap_err ''acquiring sandbox lease'' err), m))
       | Inr _ \<Rightarrow>
       (let (r, m) = call (re_exec E) (PExec prov vmID
              \<lparr>xr_Command = ''mkdir -p '' @ ''/workspace/'' @ sandboxID, xr_Args = [], xr_Mode = [], xr_Env = [],
               xr_WorkDir = [], xr_Timeout = []\<rparr> []) m
        in case r of
          Inl err \<Rightarrow>
            (let m = snd (pool_release vmID m);
                 m = snd (releaseSandboxLease E sandboxID m);
                 m = publishOperationFailure E EventOperationFailed sandboxID OperationSpawn prov err m
             in (Inl (wrap_err ''creating workspace'' err), m))
        | Inr _ \<Rightarrow>
        (let (c, m) = on_store (CreateSandbox E (sandboxRecord now sb)) m in
         case c of
           Some err \<Rightarrow>
             (let m = snd (pool_release vmID m);
                  m = snd (releaseSandboxLease E sandboxID m);
                  m = publishOperationFailure E EventOperationFailed sandboxID OperationSpawn prov err m
              in (Inl (wrap_err ''persisting sandbox'' err), m))
         | None \<Rightarrow> (Inr sb, announce_spawn E sb ''state=running pooled=true'' m)))))"

text \<open>What \<open>Spawn\<close> does under the admission lock: the result and what the metrics see.\<close>

definition spawn_admitted ::
  "env \<Rightarrow> string \<Rightarrow> SpawnRequest \<Rightarrow> string \<Rightarrow> int \<Rightarrow> int \<Rightarrow> duration \<Rightarrow> mgr \<Rightarrow> (error + Sandbox) \<times> error option \<times> mgr" where
  "spawn_admitted E prov req img memMB vcpus ttl m =
     (let report = (\<lambda>(r, m). case r of
             Inl err \<Rightarrow> (r, Some err, publishFailureForError E [] OperationSpawn prov err m)
           | Inr sb \<Rightarrow> (r, None, m))
      in case m_vmPool m of
        Some p \<Rightarrow> report (spawnPooled E p prov req img memMB vcpus ttl m)
      | None \<Rightarrow>
          (let placement = currentSpawnPlacement E prov m in
           if wp_SelectedID placement \<noteq> [] \<and> wp_SelectedID placement \<noteq> m_workerID m
           then report (spawnRemote E (wp_SelectedID placement) req prov img memMB vcpus ttl m)
           else spawnLocal E prov req img memMB vcpus ttl m))"

definition Spawn :: "env \<Rightarrow> admission_round list \<Rightarrow> SpawnRequest \<Rightarrow> mgr \<Rightarrow> (error + Sandbox) option \<times> mgr" where
  "Spawn E rounds req m =
     (let metricsProvider = (if rq_Provider req = [] then rg_dflt (m_registry m) else rq_Provider req) in
      case registry_Get (m_registry m) (rq_Provider req) of
        Inl err \<Rightarrow>
          (Some (Inl (wrap_err ''getting provider'' err)),
           recordOperation E OperationSpawn metricsProvider (Some err)
             (publishOperationFailure E EventProviderFailed [] OperationSpawn metricsProvider err m))
      | Inr prov \<Rightarrow>
      (let img = (if rq_Image req = [] then mc_defaultImage (m_cfg m) else rq_Image req);
           memMB = (if rq_MemoryMB req = 0 then mc_defaultMemory (m_cfg m) else rq_MemoryMB req);
           vcpus = (if rq_VCPUs req = 0 then mc_defaultVCPUs (m_cfg m) else rq_VCPUs req)
       in case (if rq_TTL req \<noteq> [] then ParseDuration (rq_TTL req) else Inr (mc_defaultTTL (m_cfg m))) of
         Inl err \<Rightarrow> (Some (Inl (wrap_err ''parsing TTL'' err)), recordOperation E OperationSpawn prov None m)
       | Inr ttl \<Rightarrow>
       case normalizeOptionalOwnerID (rq_OwnerID req) of
         Inl err \<Rightarrow> (Some (Inl err), recordOperation E OperationSpawn prov (Some err)
                      (publishFailureForError E [] OperationSpawn prov err m))
       | Inr ownerID \<Rightarrow>
       (case acquireSpawnAdmission ownerID ttl prov rounds m of
          (None, m) \<Rightarrow> (None, m)
        | (Some (Some err), m) \<Rightarrow> (Some (Inl err), recordOperation E OperationSpawn prov (Some err)
                      (publishFailureForError E [] OperationSpawn prov err m))
        | (Some None, m) \<Rightarrow>
            (let (r, metricsErr, m) = spawn_admitted E prov (req\<lparr>rq_OwnerID := ownerID\<rparr>) img memMB vcpus ttl m
             in (Some r, recordOperation E OperationSpawn prov metricsErr m)))))"

section \<open>Destroying\<close>

text \<open>
  The cached object is marked destroyed and dropped from the cache; the record is marked in
  the store (a failing update is not looked at), and the lease given back.
\<close>

definition destroyRemote :: "env \<Rightarrow> string \<Rightarrow> Sandbox \<Rightarrow> mgr \<Rightarrow> error option \<times> mgr" where
  "destroyRemote E i sb m =
     (case remoteWorkerRPCClient E (sb_WorkerID sb) m of
        Inl err \<Rightarrow> (Some err, m)
      | Inr url \<Rightarrow>
      case GetLease E i (m_store m) of
        Inl err \<Rightarrow> (Some (wrap_err ''getting remote sandbox lease'' err), m)
      | Inr lease \<Rightarrow>
      if l_HolderID lease \<noteq> sb_WorkerID sb
      then (Some (Err ErrOther (''remote sandbox lease holder '' @ Quote (l_HolderID lease)
              @ '' does not match worker '' @ Quote (sb_WorkerID sb))), m)
      else
        (let (r, m) = call (re_unit E) (RDestroy url (''destroy-'' @ i) (leaseTokenFromStore lease) i
                (sb_Provider sb) (remoteRuntimeID sb i)) m
         in case r of
           Some err \<Rightarrow> (Some (wrap_err ''remote worker destroy'' err), m)
         | None \<Rightarrow>
         (let (u, m) = on_store (UpdateSandboxState E i StateDestroyed) m in
          case u of
            Some err \<Rightarrow> (Some err, m)
          | None \<Rightarrow>
              (let m = snd (on_store (ReleaseLease E i (sb_WorkerID sb)) m);
                   m = cache_del i m;
                   m = publish_event E EventSandboxDestroyed i [] m
               in (None, notifySpawnCapacity m)))))"

definition destroyPooled :: "env \<Rightarrow> string \<Rightarrow> Sandbox \<Rightarrow> mgr \<Rightarrow> mgr" where
  "destroyPooled E i sb m =
     (let vmID = sb_VMID sb;
          prov = registry_Get (m_registry m) (sb_Provider sb);
          m = (case prov of
                 Inr p \<Rightarrow> snd (call (re_unit E) (PDeleteFile p vmID (''/workspace/'' @ i) True) m)
               | Inl _ \<Rightarrow> m);
          (shouldDestroy, m) = pool_release vmID m;
          m = (if shouldDestroy then
                 (let m = (case prov of Inr p \<Rightarrow> snd (call (re_unit E) (PDestroy p vmID) m) | Inl _ \<Rightarrow> m);
                      m = snd (on_store (DeleteSandbox E vmID) m);
                      m = snd (releaseSandboxLease E vmID m)
                  in cache_del vmID m)
               else m);
          m = snd (on_store (UpdateSandboxState E i StateDestroyed) m);
          m = snd (releaseSandboxLease E i m);
          m = cache_del i m;
          m = publish_event E EventSandboxDestroyed i [] m
      in notifySpawnCapacity m)"

text \<open>\<open>Destroy\<close> finds the sandbox in the cache, then in the store; it may be unknown.\<close>

definition find_sandbox :: "env \<Rightarrow> string \<Rightarrow> mgr \<Rightarrow> Sandbox option" where
  "find_sandbox E i m =
     (case cached m i of
        Some sb \<Rightarrow> Some sb
      | None \<Rightarrow> (case GetSandbox E i (m_store m) of Inr rec \<Rightarrow> Some (recordToSandbox rec) | Inl _ \<Rightarrow> None))"

definition destroyLocal :: "env \<Rightarrow> string \<Rightarrow> string \<Rightarrow> Sandbox option \<Rightarrow> mgr \<Rightarrow> mgr" where
  "destroyLocal E i metricsProvider sb m =
     (case getProvider E i m of
        Inl err \<Rightarrow>
          (let m = snd (on_store (DeleteSandbox E i) m);
               m = snd (releaseSandboxLease E i m);
               m = cache_del i m;
               m = notifySpawnCapacity m
           in auditOperation E ''sandbox.destroy'' sb i [] ''success'' ''provider_unavailable=true'' m)
      | Inr prov \<Rightarrow>
          (let (r, m) = call (re_unit E) (PDestroy prov i) m;
               m = (case r of
                      Some err \<Rightarrow> publishOperationFailure E EventProviderFailed i OperationDestroy metricsProvider err m
                    | None \<Rightarrow> m);
               m = snd (on_store (UpdateSandboxState E i StateDestroyed) m);
               m = snd (releaseSandboxLease E i m);
               m = cache_del i m;
               m = publish_event E EventSandboxDestroyed i [] m;
               m = notifySpawnCapacity m
           in auditOperation E ''sandbox.destroy'' sb i [] ''success'' [] m))"

definition Destroy :: "env \<Rightarrow> string \<Rightarrow> mgr \<Rightarrow> error option \<times> mgr" where
  "Destroy E i m =
     (let sb = find_sandbox E i m;
          metricsProvider = (case sb of Some b \<Rightarrow> sb_Provider b | None \<Rightarrow> ''unknown'');
          fail = (\<lambda>err detail m.
            (let m = publishOperationFailure E EventOperationFailed i OperationDestroy metricsProvider err m;
                 m = auditOperation E ''sandbox.destroy'' sb i [] ''failure'' detail m
             in (Some err, recordOperation E OperationDestroy metricsProvider (Some err) m)));
          done_ok = (\<lambda>m. (None, recordOperation E OperationDestroy metricsProvider None m))
      in case sb of
        None \<Rightarrow> done_ok (destroyLocal E i metricsProvider sb m)
      | Some b \<Rightarrow>
          if TrimSpace (sb_WorkerID b) \<noteq> [] \<and> sb_WorkerID b \<noteq> m_workerID m then
            (let (r, m) = destroyRemote E i b m in
             case r of
               Some err \<Rightarrow> fail err (err_msg err) m
             | None \<Rightarrow> done_ok (auditOperation E ''sandbox.destroy'' sb i [] ''success''
                         (''remote_worker='' @ sb_WorkerID b) m))
          else
            (let (l, m) = acquireSandboxLease E i (sb_ExpiresAt b) m in
             case l of
               Inl err \<Rightarrow> fail err (''lease_unavailable: '' @ err_msg err) m
             | Inr _ \<Rightarrow>
                 if sb_VMID b \<noteq> [] \<and> m_vmPool m \<noteq> None
                 then done_ok (auditOperation E ''sandbox.destroy'' sb i [] ''success'' ''pooled=true''
                        (destroyPooled E i b m))
                 else done_ok (destroyLocal E i metricsProvider sb m)))"

fun destroy_each :: "env \<Rightarrow> SandboxRecord list \<Rightarrow> int \<Rightarrow> mgr \<Rightarrow> int \<times> mgr" where
  "destroy_each E [] n m = (n, m)"
| "destroy_each E (rec # rs) n m =
     (case Destroy E (sr_ID rec) m of
        (Some err, m) \<Rightarrow> destroy_each E rs n m
      | (None, m) \<Rightarrow> destroy_each E rs (n + 1) m)"

definition pruneExpired :: "env \<Rightarrow> mgr \<Rightarrow> mgr" where
  "pruneExpired E m =
     (case ListExpiredSandboxes E (db_now E) (m_store m) of
        Inl err \<Rightarrow> m
      | Inr expired \<Rightarrow> snd (destroy_each E expired 0 m))"

definition Prune :: "env \<Rightarrow> mgr \<Rightarrow> (error + int) \<times> mgr" where
  "Prune E m =
     (case ListSandboxes E (m_store m) of
        Inl err \<Rightarrow> (Inl err, m)
      | Inr sandboxes \<Rightarrow>
          (let (n, m) = destroy_each E (filter (\<lambda>sb. sr_ExpiresAt sb < db_now E) sandboxes) 0 m in (Inr n, m)))"

section \<open>Looking up\<close>

text \<open>
  \<open>refreshRemoteSandboxStatus\<close>, for a sandbox that is the cache's object (\<open>in_cache\<close>) or a
  fresh one read from the store.
\<close>

definition refreshRemoteSandboxStatus :: "env \<Rightarrow> Sandbox \<Rightarrow> mgr \<Rightarrow> (error + Sandbox) \<times> mgr" where
  "refreshRemoteSandboxStatus E sb m =
     (let sb = applyPreviewDomain E m sb in
      if TrimSpace (sb_WorkerID sb) = [] \<or> sb_WorkerID sb = m_workerID m then (Inr sb, m)
      else case remoteWorkerRPCClient E (sb_WorkerID sb) m of
        Inl err \<Rightarrow> (Inl err, m)
      | Inr url \<Rightarrow>
      (let (r, m) = call (re_id E) (RStatus url (''status-'' @ sb_ID sb) (sb_ID sb) (sb_Provider sb)
              (remoteRuntimeID sb (sb_ID sb))) m
       in case r of
         Inl err \<Rightarrow> (Inl err, m)
       | Inr state \<Rightarrow>
           if state = [] then (Inr sb, m)
           else if state \<noteq> sb_State sb then
             (let sb = sb\<lparr>sb_State := state\<rparr>;
                  m = snd (on_store (UpdateSandboxState E (sb_ID sb) state) m);
                  m = (case cached m (sb_ID sb) of
                         Some current \<Rightarrow> cache_put (sb_ID sb) (current\<lparr>sb_State := state\<rparr>) m
                       | None \<Rightarrow> cache_put (sb_ID sb) sb m)
              in (Inr sb, m))
           else (Inr sb, m)))"

definition Get :: "env \<Rightarrow> string \<Rightarrow> mgr \<Rightarrow> (error + Sandbox) \<times> mgr" where
  "Get E i m =
     (case cached m i of
        Some sb \<Rightarrow>
          (let sb = applyPreviewDomain E m sb;
               m = cache_put i sb m;
               (r, m) = refreshRemoteSandboxStatus E sb m
           in case r of Inr refreshed \<Rightarrow> (Inr refreshed, m) | Inl _ \<Rightarrow> (Inr sb, m))
      | None \<Rightarrow>
          (case GetSandbox E i (m_store m) of
             Inl err \<Rightarrow> (Inl (SandboxNotFoundError i), m)
           | Inr rec \<Rightarrow>
               (let sb = applyPreviewDomain E m (recordToSandbox rec) in
                if sb_State sb = StateDestroyed then (Inl (SandboxDestroyedError i), m)
                else (let (r, m) = refreshRemoteSandboxStatus E sb m
                      in case r of Inr refreshed \<Rightarrow> (Inr refreshed, m) | Inl _ \<Rightarrow> (Inr sb, m)))))"

definition CountByProvider :: "string \<Rightarrow> mgr \<Rightarrow> int" where
  "CountByProvider provider m = int (length (filter (\<lambda>p. sb_Provider (snd p) = provider) (m_sandboxes m)))"

definition Manager_List :: "env \<Rightarrow> mgr \<Rightarrow> error + Sandbox list" where
  "Manager_List E m =
     (case ListSandboxes E (m_store m) of
        Inl err \<Rightarrow> Inl err
      | Inr records \<Rightarrow> Inr (map (\<lambda>r. applyPreviewDomain E m (recordToSandbox r)) records))"

definition ExtendTTL :: "env \<Rightarrow> string \<Rightarrow> duration \<Rightarrow> mgr \<Rightarrow> (error + Sandbox) \<times> mgr" where
  "ExtendTTL E i extra m =
     (let (r, m) = Get E i m in
      case r of
        Inl err \<Rightarrow> (Inl err, m)
      | Inr sb \<Rightarrow>
          (let newExpiresAt = db_now E + extra;
               (u, m) = on_store (UpdateSandboxExpiresAt E i newExpiresAt) m
           in case u of
                Some err \<Rightarrow> (Inl (wrap_err ''extending TTL'' err), m)
              | None \<Rightarrow>
                  (let m = (case cached m i of
                              Some c \<Rightarrow> cache_put i (c\<lparr>sb_ExpiresAt := newExpiresAt\<rparr>) m
                            | None \<Rightarrow> m)
                   in (Inr (sb\<lparr>sb_ExpiresAt := newExpiresAt\<rparr>), m))))"

definition ConsoleLog :: "env \<Rightarrow> string \<Rightarrow> int \<Rightarrow> mgr \<Rightarrow> (error + string list) \<times> mgr" where
  "ConsoleLog E i lines m =
     (case getSandboxAndProvider E i m of
        Inl err \<Rightarrow> (Inl err, m)
      | Inr (sb, prov) \<Rightarrow>
          if isRemoteOwnedSandbox m sb then
            (case remoteWorkerRPCClient E (sb_WorkerID sb) m of
               Inl err \<Rightarrow> (Inl err, m)
             | Inr url \<Rightarrow>
                 (let (r, m) = call (re_strings E) (RLogs url (''logs-'' @ sb_ID sb) (sb_ID sb) (sb_Provider sb)
                        (remoteRuntimeID sb (sb_ID sb)) lines) m
                  in case r of Inl err \<Rightarrow> (Inl (wrap_err ''remote worker logs'' err), m) | Inr ls \<Rightarrow> (Inr ls, m)))
          else call (re_strings E) (PConsoleLog prov (resolveVMID sb) lines) m)"

text \<open>\<open>re_stats\<close> is \<open>None\<close> for a provider that reports no statistics, which is not asked.\<close>

definition Manager_Stats :: "env \<Rightarrow> string \<Rightarrow> mgr \<Rightarrow> (error + SandboxStats option) \<times> mgr" where
  "Manager_Stats E i m =
     (case getSandboxAndProvider E i m of
        Inl err \<Rightarrow> (Inl err, m)
      | Inr (sb, prov) \<Rightarrow>
          if isRemoteOwnedSandbox m sb then (Inr None, m)
          else
            (let c = PStats prov (resolveVMID sb) in
             case re_stats E (m_calls m) c of
               None \<Rightarrow> (Inr None, m)
             | Some r \<Rightarrow> (map_sum id Some r, snd (call (re_stats E) c m))))"

end
