(* ===== verification/Exec_Files.thy ===== *)
theory Exec_Files
  imports Lifecycle
begin

text \<open>
  Running commands and handling files in a sandbox (\<open>manager.go\<close>: \<open>Exec\<close>, the file operations,
  their remote variants and \<open>scopedPathForOperation\<close>).

  Every operation starts alike: find the sandbox and its provider, or fail; its deferred
  \<open>recordOperation\<close> runs last.  \<open>on_sandbox\<close> is that frame, and the continuation returns the
  result, the error the metrics see, and the manager.  \<open>re_unit\<close> on a \<open>ReadFile\<close> says whether it
  gives a reader, \<open>re_content\<close> what reading it to the end gives.  \<open>env_deadline\<close>
  says whether the context of the call had passed its deadline when it failed.
\<close>

section \<open>Paths\<close>

definition workspace :: "string \<Rightarrow> string" where
  "workspace i = ''/workspace/'' @ i"

definition scopedPath :: "mgr \<Rightarrow> Sandbox \<Rightarrow> string \<Rightarrow> string" where
  "scopedPath m sb path =
     (if sb_VMID sb = [] \<or> isRemoteOwnedSandbox m sb then path
      else
        (let base = workspace (sb_ID sb); cleaned = Clean (Join2 base path) in
         if \<not> HasPrefix cleaned (base @ [slash]) \<and> cleaned \<noteq> base then base else cleaned))"

definition scopedPathForOperation :: "mgr \<Rightarrow> Sandbox \<Rightarrow> string \<Rightarrow> error + string" where
  "scopedPathForOperation m sb path =
     (if TrimSpace path = [] then Inl (InvalidInputError ''path is required'')
      else if sb_VMID sb = [] \<or> isRemoteOwnedSandbox m sb then Inr path
      else
        (let base = workspace (sb_ID sb); cleaned = Clean (Join2 base path) in
         if \<not> HasPrefix cleaned (base @ [slash]) \<and> cleaned \<noteq> base
         then Inl (InvalidInputError (''path '' @ Quote path @ '' escapes sandbox workspace''))
         else Inr cleaned))"

section \<open>The frame of an operation\<close>

definition on_sandbox ::
  "env \<Rightarrow> string \<Rightarrow> string \<Rightarrow> mgr \<Rightarrow> (Sandbox \<Rightarrow> string \<Rightarrow> mgr \<Rightarrow> (error + 'a) \<times> error option \<times> mgr) \<Rightarrow> (error + 'a) \<times> mgr"
where
  "on_sandbox E operation i m body =
     (case getSandboxAndProvider E i m of
        Inl err \<Rightarrow>
          (Inl err, recordOperation E operation ''unknown'' (Some err)
             (publishOperationFailure E EventOperationFailed i operation ''unknown'' err m))
      | Inr (sb, prov) \<Rightarrow>
          (let (r, metricsErr, m) = body sb prov m in (r, recordOperation E operation (sb_Provider sb) metricsErr m)))"

text \<open>A file operation's failure: the event and the audit record.\<close>

definition file_failed :: "env \<Rightarrow> string \<Rightarrow> string \<Rightarrow> Sandbox \<Rightarrow> string \<Rightarrow> string \<Rightarrow> error \<Rightarrow> mgr \<Rightarrow> mgr" where
  "file_failed E operation action sb i resource err m =
     auditOperation E action (Some sb) i resource ''failure'' (err_msg err)
       (publishOperationFailure E EventOperationFailed i operation (sb_Provider sb) err m)"

text \<open>A call to the worker that owns the sandbox, once there is a client for it.\<close>

definition remote_call :: "env \<Rightarrow> Sandbox \<Rightarrow> (string \<Rightarrow> mgr \<Rightarrow> (error + 'a) \<times> mgr) \<Rightarrow> mgr \<Rightarrow> (error + 'a) \<times> mgr" where
  "remote_call E sb f m =
     (case remoteWorkerRPCClient E (sb_WorkerID sb) m of Inl err \<Rightarrow> (Inl err, m) | Inr url \<Rightarrow> f url m)"

text \<open>A call that answers nothing but an error.\<close>

definition call_unit :: "env \<Rightarrow> ext_call \<Rightarrow> mgr \<Rightarrow> (error + unit) \<times> mgr" where
  "call_unit E c m = (let (r, m) = call (re_unit E) c m in (case r of Some e \<Rightarrow> Inl e | None \<Rightarrow> Inr (), m))"

section \<open>Remote file operations\<close>

definition remoteFileWrite :: "env \<Rightarrow> Sandbox \<Rightarrow> string \<Rightarrow> string \<Rightarrow> string \<Rightarrow> mgr \<Rightarrow> (error + unit) \<times> mgr" where
  "remoteFileWrite E sb path content fmode m =
     remote_call E sb (\<lambda>url. call_unit E (RFileWrite url (''file-write-'' @ sb_ID sb) (sb_ID sb) (sb_Provider sb)
       (remoteRuntimeID sb (sb_ID sb)) path content fmode)) m"

definition remoteFileRead :: "env \<Rightarrow> Sandbox \<Rightarrow> string \<Rightarrow> mgr \<Rightarrow> (error + string) \<times> mgr" where
  "remoteFileRead E sb path m =
     remote_call E sb (\<lambda>url. call (re_bytes E) (RFileRead url (''file-read-'' @ sb_ID sb) (sb_ID sb) (sb_Provider sb)
       (remoteRuntimeID sb (sb_ID sb)) path)) m"

definition remoteFileList :: "env \<Rightarrow> Sandbox \<Rightarrow> string \<Rightarrow> mgr \<Rightarrow> (error + FileInfo list) \<times> mgr" where
  "remoteFileList E sb path m =
     remote_call E sb (\<lambda>url. call (re_files E) (RFileList url (''file-list-'' @ sb_ID sb) (sb_ID sb) (sb_Provider sb)
       (remoteRuntimeID sb (sb_ID sb)) path)) m"

definition remoteFileDelete :: "env \<Rightarrow> Sandbox \<Rightarrow> string \<Rightarrow> bool \<Rightarrow> mgr \<Rightarrow> (error + unit) \<times> mgr" where
  "remoteFileDelete E sb path recursive m =
     remote_call E sb (\<lambda>url. call_unit E (RFileDelete url (''file-delete-'' @ sb_ID sb) (sb_ID sb) (sb_Provider sb)
       (remoteRuntimeID sb (sb_ID sb)) path recursive)) m"

definition remoteFileMove :: "env \<Rightarrow> Sandbox \<Rightarrow> string \<Rightarrow> string \<Rightarrow> mgr \<Rightarrow> (error + unit) \<times> mgr" where
  "remoteFileMove E sb oldPath newPath m =
     remote_call E sb (\<lambda>url. call_unit E (RFileMove url (''file-move-'' @ sb_ID sb) (sb_ID sb) (sb_Provider sb)
       (remoteRuntimeID sb (sb_ID sb)) oldPath newPath)) m"

definition remoteFileChmod :: "env \<Rightarrow> Sandbox \<Rightarrow> string \<Rightarrow> string \<Rightarrow> mgr \<Rightarrow> (error + unit) \<times> mgr" where
  "remoteFileChmod E sb path fmode m =
     remote_call E sb (\<lambda>url. call_unit E (RFileChmod url (''file-chmod-'' @ sb_ID sb) (sb_ID sb) (sb_Provider sb)
       (remoteRuntimeID sb (sb_ID sb)) path fmode)) m"

definition remoteFileStat :: "env \<Rightarrow> Sandbox \<Rightarrow> string \<Rightarrow> mgr \<Rightarrow> (error + FileInfo) \<times> mgr" where
  "remoteFileStat E sb path m =
     remote_call E sb (\<lambda>url. call (re_stat E) (RFileStat url (''file-stat-'' @ sb_ID sb) (sb_ID sb) (sb_Provider sb)
       (remoteRuntimeID sb (sb_ID sb)) path)) m"

definition remoteFileGlob :: "env \<Rightarrow> Sandbox \<Rightarrow> string \<Rightarrow> mgr \<Rightarrow> (error + string list) \<times> mgr" where
  "remoteFileGlob E sb pattern m =
     remote_call E sb (\<lambda>url. call (re_strings E) (RFileGlob url (''file-glob-'' @ sb_ID sb) (sb_ID sb) (sb_Provider sb)
       (remoteRuntimeID sb (sb_ID sb)) pattern)) m"

section \<open>Files\<close>

record FileWriteRequest =
  fw_Path :: string
  fw_Content :: string
  fw_Mode :: string

record FileDeleteRequest =
  fd_Path :: string
  fd_Recursive :: bool

record FileMoveRequest =
  fm_OldPath :: string
  fm_NewPath :: string

record FileChmodRequest =
  fc_Path :: string
  fc_Mode :: string

definition WriteFile :: "env \<Rightarrow> string \<Rightarrow> FileWriteRequest \<Rightarrow> mgr \<Rightarrow> (error + unit) \<times> mgr" where
  "WriteFile E i req m = on_sandbox E OperationFileWrite i m (\<lambda>sb prov m.
     let fmode = (if fw_Mode req = [] then ''0644'' else fw_Mode req);
         fail = (\<lambda>err m. file_failed E OperationFileWrite ''file.write'' sb i (fw_Path req) err m)
     in case scopedPathForOperation m sb (fw_Path req) of
       Inl err \<Rightarrow> (Inl err, Some err, fail err m)
     | Inr path \<Rightarrow>
         (let (r, m) = (if isRemoteOwnedSandbox m sb then remoteFileWrite E sb path (fw_Content req) fmode m
                        else call_unit E (PWriteFile prov (resolveVMID sb) path (fw_Content req) fmode) m)
          in case r of
            Inl err \<Rightarrow> (Inl (wrap_err ''writing file'' err), Some err, fail err m)
          | Inr _ \<Rightarrow>
              (let m = publish_event E EventFileWritten i [] m
               in (Inr (), None, auditOperation E ''file.write'' (Some sb) i (fw_Path req) ''success'' (''mode='' @ fmode) m))))"

definition ReadFile :: "env \<Rightarrow> string \<Rightarrow> string \<Rightarrow> mgr \<Rightarrow> (error + string) \<times> mgr" where
  "ReadFile E i path m = on_sandbox E OperationFileRead i m (\<lambda>sb prov m.
     let fail = (\<lambda>err m. file_failed E OperationFileRead ''file.read'' sb i path err m);
         finish = (\<lambda>buf m.
           (let m = publish_event E EventFileRead i [] m
            in (Inr buf, None, auditOperation E ''file.read'' (Some sb) i path ''success''
                  (''bytes='' @ Itoa (int (length buf))) m)))
     in case scopedPathForOperation m sb path of
       Inl err \<Rightarrow> (Inl err, Some err, fail err m)
     | Inr scoped \<Rightarrow>
         if isRemoteOwnedSandbox m sb then
           (let (r, m) = remoteFileRead E sb scoped m in
            case r of
              Inl err \<Rightarrow> (Inl (wrap_err ''reading file'' err), Some err, fail err m)
            | Inr buf \<Rightarrow> finish buf m)
         else
           (let c = PReadFile prov (resolveVMID sb) scoped;
                content = re_content E (m_calls m) c;
                (r, m) = call_unit E c m
            in case r of
              Inl err \<Rightarrow> (Inl (wrap_err ''reading file'' err), Some err, fail err m)
            | Inr _ \<Rightarrow>
                (case content of
                   Inl err \<Rightarrow> (Inl (wrap_err ''reading file content'' err), Some err,
                      publishOperationFailure E EventOperationFailed i OperationFileRead (sb_Provider sb) err m)
                 | Inr buf \<Rightarrow> finish buf m)))"

definition ListFiles :: "env \<Rightarrow> string \<Rightarrow> string \<Rightarrow> mgr \<Rightarrow> (error + FileInfo list) \<times> mgr" where
  "ListFiles E i path m = on_sandbox E OperationFileList i m (\<lambda>sb prov m.
     let fail = (\<lambda>err m. file_failed E OperationFileList ''file.list'' sb i path err m)
     in case scopedPathForOperation m sb path of
       Inl err \<Rightarrow> (Inl err, Some err, fail err m)
     | Inr scoped \<Rightarrow>
         (let (r, m) = (if isRemoteOwnedSandbox m sb then remoteFileList E sb scoped m
                        else call (re_files E) (PListFiles prov (resolveVMID sb) scoped) m)
          in case r of
            Inl err \<Rightarrow> (Inl err, Some err, fail err m)
          | Inr files \<Rightarrow> (Inr files, None, auditOperation E ''file.list'' (Some sb) i path ''success''
                            (''count='' @ Itoa (int (length files))) m)))"

definition DeleteFile :: "env \<Rightarrow> string \<Rightarrow> FileDeleteRequest \<Rightarrow> mgr \<Rightarrow> (error + unit) \<times> mgr" where
  "DeleteFile E i req m = on_sandbox E OperationFileDelete i m (\<lambda>sb prov m.
     let fail = (\<lambda>err m. file_failed E OperationFileDelete ''file.delete'' sb i (fd_Path req) err m)
     in case scopedPathForOperation m sb (fd_Path req) of
       Inl err \<Rightarrow> (Inl err, Some err, fail err m)
     | Inr path \<Rightarrow>
         (let (r, m) = (if isRemoteOwnedSandbox m sb then remoteFileDelete E sb path (fd_Recursive req) m
                        else call_unit E (PDeleteFile prov (resolveVMID sb) path (fd_Recursive req)) m)
          in case r of
            Inl err \<Rightarrow> (Inl err, Some err, fail err m)
          | Inr _ \<Rightarrow> (Inr (), None, auditOperation E ''file.delete'' (Some sb) i (fd_Path req) ''success''
                        (''recursive='' @ (if fd_Recursive req then ''true'' else ''false'')) m)))"

definition MoveFile :: "env \<Rightarrow> string \<Rightarrow> FileMoveRequest \<Rightarrow> mgr \<Rightarrow> (error + unit) \<times> mgr" where
  "MoveFile E i req m = on_sandbox E OperationFileMove i m (\<lambda>sb prov m.
     let fail = (\<lambda>resource err m. file_failed E OperationFileMove ''file.move'' sb i resource err m);
         both = fm_OldPath req @ '' -> '' @ fm_NewPath req
     in case scopedPathForOperation m sb (fm_OldPath req) of
       Inl err \<Rightarrow> (Inl err, Some err, fail (fm_OldPath req) err m)
     | Inr oldPath \<Rightarrow>
     case scopedPathForOperation m sb (fm_NewPath req) of
       Inl err \<Rightarrow> (Inl err, Some err, fail (fm_NewPath req) err m)
     | Inr newPath \<Rightarrow>
         (let (r, m) = (if isRemoteOwnedSandbox m sb then remoteFileMove E sb oldPath newPath m
                        else call_unit E (PMoveFile prov (resolveVMID sb) oldPath newPath) m)
          in case r of
            Inl err \<Rightarrow> (Inl err, Some err, fail both err m)
          | Inr _ \<Rightarrow> (Inr (), None, auditOperation E ''file.move'' (Some sb) i both ''success'' [] m)))"

definition ChmodFile :: "env \<Rightarrow> string \<Rightarrow> FileChmodRequest \<Rightarrow> mgr \<Rightarrow> (error + unit) \<times> mgr" where
  "ChmodFile E i req m = on_sandbox E OperationFileChmod i m (\<lambda>sb prov m.
     let fail = (\<lambda>err m. file_failed E OperationFileChmod ''file.chmod'' sb i (fc_Path req) err m)
     in case scopedPathForOperation m sb (fc_Path req) of
       Inl err \<Rightarrow> (Inl err, Some err, fail err m)
     | Inr path \<Rightarrow>
         (let (r, m) = (if isRemoteOwnedSandbox m sb then remoteFileChmod E sb path (fc_Mode req) m
                        else call_unit E (PChmodFile prov (resolveVMID sb) path (fc_Mode req)) m)
          in case r of
            Inl err \<Rightarrow> (Inl err, Some err, fail err m)
          | Inr _ \<Rightarrow> (Inr (), None, auditOperation E ''file.chmod'' (Some sb) i (fc_Path req) ''success''
                        (''mode='' @ fc_Mode req) m)))"

definition StatFile :: "env \<Rightarrow> string \<Rightarrow> string \<Rightarrow> mgr \<Rightarrow> (error + FileInfo) \<times> mgr" where
  "StatFile E i path m = on_sandbox E OperationFileStat i m (\<lambda>sb prov m.
     let fail = (\<lambda>err m. file_failed E OperationFileStat ''file.stat'' sb i path err m)
     in case scopedPathForOperation m sb path of
       Inl err \<Rightarrow> (Inl err, Some err, fail err m)
     | Inr scoped \<Rightarrow>
         (let (r, m) = (if isRemoteOwnedSandbox m sb then remoteFileStat E sb scoped m
                        else call (re_stat E) (PStatFile prov (resolveVMID sb) scoped) m)
          in case r of
            Inl err \<Rightarrow> (Inl err, Some err, fail err m)
          | Inr fi \<Rightarrow> (Inr fi, None, auditOperation E ''file.stat'' (Some sb) i path ''success'' [] m)))"

definition GlobFiles :: "env \<Rightarrow> string \<Rightarrow> string \<Rightarrow> mgr \<Rightarrow> (error + string list) \<times> mgr" where
  "GlobFiles E i pattern m = on_sandbox E OperationFileGlob i m (\<lambda>sb prov m.
     let fail = (\<lambda>err m. file_failed E OperationFileGlob ''file.glob'' sb i pattern err m)
     in case scopedPathForOperation m sb pattern of
       Inl err \<Rightarrow> (Inl err, Some err, fail err m)
     | Inr scoped \<Rightarrow>
         (let (r, m) = (if isRemoteOwnedSandbox m sb then remoteFileGlob E sb scoped m
                        else call (re_strings E) (PGlobFiles prov (resolveVMID sb) scoped) m)
          in case r of
            Inl err \<Rightarrow> (Inl err, Some err, fail err m)
          | Inr matches \<Rightarrow> (Inr matches, None, auditOperation E ''file.glob'' (Some sb) i pattern ''success''
                              (''count='' @ Itoa (int (length matches))) m)))"

section \<open>Commands\<close>

definition validateExecRequest :: "ExecRequest \<Rightarrow> error option" where
  "validateExecRequest req =
     (let emode = TrimSpace (xr_Mode req) in
      if emode = [] \<or> emode = ''shell'' then None
      else if emode = ''argv'' then
        (if TrimSpace (xr_Command req) = [] then Some (InvalidInputError ''argv exec mode requires command'') else None)
      else Some (InvalidInputError (''unsupported exec mode '' @ Quote (xr_Mode req))))"

definition execRemote :: "env \<Rightarrow> Sandbox \<Rightarrow> ExecRequest \<Rightarrow> string \<Rightarrow> mgr \<Rightarrow> (error + int \<times> string \<times> string) \<times> mgr" where
  "execRemote E sb req workDir m =
     remote_call E sb (\<lambda>url m.
       let (r, m) = call (re_exec E) (RExec url (''exec-'' @ sb_ID sb) (sb_ID sb) (sb_Provider sb)
              (remoteRuntimeID sb (sb_ID sb)) req workDir) m
       in (case r of Inl err \<Rightarrow> Inl (wrap_err ''remote worker exec'' err) | Inr x \<Rightarrow> Inr x, m)) m"

text \<open>The working directory of a pooled sandbox is its workspace unless the request names one.\<close>

definition exec_workdir :: "mgr \<Rightarrow> Sandbox \<Rightarrow> string \<Rightarrow> ExecRequest \<Rightarrow> string" where
  "exec_workdir m sb i req =
     (if xr_WorkDir req = [] \<and> sb_VMID sb \<noteq> [] \<and> \<not> isRemoteOwnedSandbox m sb then workspace i else xr_WorkDir req)"

definition Exec :: "env \<Rightarrow> string \<Rightarrow> ExecRequest \<Rightarrow> mgr \<Rightarrow> (error + ExecResult) \<times> mgr" where
  "Exec E i req m =
     (case validateExecRequest req of
        Some err \<Rightarrow> (Inl err, recordOperation E OperationExec ''unknown'' (Some err)
                      (publishFailureForError E i OperationExec ''unknown'' err m))
      | None \<Rightarrow>
      case getSandboxAndProvider E i m of
        Inl err \<Rightarrow> (Inl err, recordOperation E OperationExec ''unknown'' (Some err)
                      (publishOperationFailure E EventExecFailed i OperationExec ''unknown'' err m))
      | Inr (sb, prov) \<Rightarrow>
      case resolveExecTimeout E (xr_Timeout req) (sb_OwnerID sb) m of
        Inl err \<Rightarrow> (Inl err, recordOperation E OperationExec (sb_Provider sb) (Some err)
                      (publishFailureForError E i OperationExec (sb_Provider sb) err m))
      | Inr timeout \<Rightarrow>
      (let m = publish_event E EventExecStarted i [] m;
           workDir = exec_workdir m sb i req;
           (r, m) = (if isRemoteOwnedSandbox m sb then execRemote E sb req workDir m
                     else call (re_exec E) (PExec prov (resolveVMID sb) req workDir) m)
       in case r of
         Inl err \<Rightarrow>
           (let deadline = env_deadline E;
                metricsErr = (if deadline then ExecTimeoutError i else err);
                m = publishOperationFailure E (if deadline then EventExecTimeout else EventExecFailed) i OperationExec
                      (sb_Provider sb) metricsErr m;
                m = auditOperation E ''exec'' (Some sb) i (xr_Command req) ''failure'' (err_msg metricsErr) m
            in (Inl (if deadline then ExecTimeoutError i else wrap_err ''exec'' err),
                recordOperation E OperationExec (sb_Provider sb) (Some metricsErr) m))
       | Inr (code, out, errout) \<Rightarrow>
           (let duration = Duration_String (env_elapsed E);
                m = snd (on_store (CreateExecLog E \<lparr>xl_SandboxID = i, xl_Command = xr_Command req, xl_ExitCode = code,
                      xl_Stdout = out, xl_Stderr = errout, xl_Duration = duration, xl_CreatedAt = db_now E\<rparr>) m);
                m = publish_event E EventExecCompleted i [] m;
                m = auditOperation E ''exec'' (Some sb) i (xr_Command req) ''success''
                      (''exit='' @ Itoa code @ '' duration='' @ duration @ '' mode='' @ xr_Mode req) m
            in (Inr \<lparr>er_ExitCode = code, er_Stdout = out, er_Stderr = errout, er_Duration = duration\<rparr>,
                recordOperation E OperationExec (sb_Provider sb) None m))))"

section \<open>Streamed commands\<close>

text \<open>
  \<open>ExecStream\<close> hands the chunks of the command on through a channel.  With a timeout, the
  forwarding goroutine chooses for each chunk between delivering it and noticing that the
  context is done; the choices and the end of the context are its schedule.
\<close>

type_synonym chunk = "string \<times> string"

datatype ctx_end = CtxRunning | CtxDeadlineExceeded | CtxCanceled

record stream_schedule =
  ss_end :: ctx_end
  ss_noticed :: "nat \<Rightarrow> bool"
  ss_last :: bool

text \<open>The chunks delivered, and whether one was dropped because the context was done.\<close>

fun forward :: "stream_schedule \<Rightarrow> nat \<Rightarrow> chunk list \<Rightarrow> chunk list \<times> bool" where
  "forward S k [] = ([], False)"
| "forward S k (c # cs) =
     (let (out, interrupted) = forward S (Suc k) cs in
      if ss_end S \<noteq> CtxRunning \<and> ss_noticed S k then (out, True) else (c # out, interrupted))"

definition execStreamRemote :: "env \<Rightarrow> Sandbox \<Rightarrow> ExecRequest \<Rightarrow> string \<Rightarrow> mgr \<Rightarrow> (error + chunk list) \<times> mgr" where
  "execStreamRemote E sb req workDir m =
     remote_call E sb (\<lambda>url m.
       let c = RExecStream url (''exec-stream-'' @ sb_ID sb) (sb_ID sb) (sb_Provider sb)
              (remoteRuntimeID sb (sb_ID sb)) req workDir;
           errs = re_errs E (m_calls m) c;
           (r, m) = call (re_stream E) c m
       in (case r of
             Inl err \<Rightarrow> Inl (wrap_err ''remote worker exec stream'' err)
           | Inr chunks \<Rightarrow> Inr (chunks @ map (\<lambda>e. (''stderr'', err_msg e)) errs), m)) m"

definition ExecStream :: "env \<Rightarrow> string \<Rightarrow> ExecRequest \<Rightarrow> stream_schedule \<Rightarrow> mgr \<Rightarrow> (error + chunk list) \<times> mgr" where
  "ExecStream E i req S m =
     (case validateExecRequest req of
        Some err \<Rightarrow> (Inl err, recordOperation E OperationExecStream ''unknown'' (Some err)
                      (publishFailureForError E i OperationExecStream ''unknown'' err m))
      | None \<Rightarrow>
      case getSandboxAndProvider E i m of
        Inl err \<Rightarrow> (Inl err, recordOperation E OperationExecStream ''unknown'' (Some err)
                      (publishOperationFailure E EventExecFailed i OperationExecStream ''unknown'' err m))
      | Inr (sb, prov) \<Rightarrow>
      case resolveExecTimeout E (xr_Timeout req) (sb_OwnerID sb) m of
        Inl err \<Rightarrow> (Inl err, recordOperation E OperationExecStream (sb_Provider sb) (Some err)
                      (publishFailureForError E i OperationExecStream (sb_Provider sb) err m))
      | Inr timeout \<Rightarrow>
      (let workDir = exec_workdir m sb i req;
           (r, m) = (if isRemoteOwnedSandbox m sb then execStreamRemote E sb req workDir m
                     else call (re_stream E) (PExecStream prov (resolveVMID sb) req workDir) m)
       in case r of
         Inl err \<Rightarrow>
           (let deadline = env_deadline E;
                metricsErr = (if deadline then ExecTimeoutError i else err);
                m = publishOperationFailure E (if deadline then EventExecTimeout else EventExecFailed) i OperationExecStream
                      (sb_Provider sb) metricsErr m
            in (Inl metricsErr, recordOperation E OperationExecStream (sb_Provider sb) (Some metricsErr) m))
       | Inr chunks \<Rightarrow>
           if \<not> timeout > 0 then (Inr chunks, recordOperation E OperationExecStream (sb_Provider sb) None m)
           else
             (let (out, interrupted) = forward S 0 chunks in
              if ss_end S = CtxDeadlineExceeded then
                (let err = ExecTimeoutError i;
                     m = publishOperationFailure E EventExecTimeout i OperationExecStream (sb_Provider sb) err m
                 in (Inr (if ss_last S then out @ [(''stderr'', err_msg err)] else out),
                     recordOperation E OperationExecStream (sb_Provider sb) (Some err) m))
              else if interrupted \<and> ss_end S = CtxCanceled then
                (let err = Err ErrOther ''context canceled'';
                     m = publishOperationFailure E EventExecFailed i OperationExecStream (sb_Provider sb) err m
                 in (Inr out, recordOperation E OperationExecStream (sb_Provider sb) (Some err) m))
              else (Inr out, recordOperation E OperationExecStream (sb_Provider sb) None m))))"

text \<open>The pool's status, when there is a pool.\<close>

definition getVMPoolStatus :: "mgr \<Rightarrow> VMPoolStatus option" where
  "getVMPoolStatus m = map_option vm_status (m_vmPool m)"

end
