(* ===== verification/Exec_Files_Laws.thy ===== *)
theory Exec_Files_Laws
  imports Exec_Files "HOL-Library.Sublist"
begin

text \<open>
  What the file operations and \<open>Exec\<close> guarantee: the files of a sandbox that shares its VM are
  confined to its workspace, a path outside is refused before anything is called, and every
  operation leaves its trace (one provider call at most, one audit record, one metric).
\<close>

section \<open>Paths\<close>

text \<open>The components of the paths below \<open>/workspace/i\<close>.\<close>

definition in_workspace :: "string \<Rightarrow> string \<Rightarrow> bool" where
  "in_workspace i p \<longleftrightarrow> (\<exists>ds. p = rooted_path (''workspace'' # i # ds) \<and> (\<forall>d\<in>set ds. plain d))"

definition shares_vm :: "mgr \<Rightarrow> Sandbox \<Rightarrow> bool" where
  "shares_vm m sb \<longleftrightarrow> sb_VMID sb \<noteq> [] \<and> \<not> isRemoteOwnedSandbox m sb \<and> plain (sb_ID sb)"

lemma plain_workspace [simp]: "plain ''workspace''"
  by (simp add: plain_def)

lemma workspace_rooted: "workspace i = rooted_path [''workspace'', i]"
  by (simp add: workspace_def rooted_path_def)

lemma cleaned_cases:
  assumes "plain i"
  shows "HasPrefix (Clean (Join2 (workspace i) path)) (workspace i @ [slash]) \<or> Clean (Join2 (workspace i) path) = workspace i
    \<longleftrightarrow> in_workspace i (Clean (Join2 (workspace i) path))"
proof -
  obtain rest where j: "Join2 (workspace i) path = Clean (slash # rest)"
    by (simp add: Join2_def workspace_def)
  obtain cs where cs: "Clean (slash # rest) = rooted_path cs" "\<And>c. c \<in> set cs \<Longrightarrow> plain c"
    using Clean_rooted_comps [of rest] by blast
  have c: "Clean (Join2 (workspace i) path) = rooted_path cs"
    unfolding j cs(1) using cs(2) by (rule Clean_rooted_plain)
  have base: "rooted_path cs = workspace i \<longleftrightarrow> cs = [''workspace'', i]"
  proof
    assume "rooted_path cs = workspace i"
    then show "cs = [''workspace'', i]"
      using cs(2) assms unfolding workspace_rooted by (intro rooted_path_inj) auto
  qed (simp add: workspace_rooted)
  have inw: "in_workspace i (rooted_path cs) \<longleftrightarrow> (\<exists>ds. cs = ''workspace'' # i # ds)"
  proof
    assume "in_workspace i (rooted_path cs)"
    then obtain ds where d: "rooted_path cs = rooted_path (''workspace'' # i # ds)" "\<forall>d\<in>set ds. plain d"
      by (auto simp: in_workspace_def)
    have "cs = ''workspace'' # i # ds"
      using d(2) assms cs(2) by (intro rooted_path_inj [OF d(1)]) auto
    then show "\<exists>ds. cs = ''workspace'' # i # ds" ..
  qed (use cs(2) in \<open>auto simp: in_workspace_def\<close>)
  have "HasPrefix (rooted_path cs) (workspace i @ [slash]) \<longleftrightarrow> (\<exists>c ds. cs = ''workspace'' # i # c # ds)"
    unfolding workspace_rooted using cs(2) assms by (intro rooted_path_under) auto
  then show ?thesis
    unfolding c base inw by (metis list.exhaust)
qed

lemma scopedPathForOperation_shared:
  assumes "shares_vm m sb"
  shows "scopedPathForOperation m sb path =
    (if TrimSpace path = [] then Inl (InvalidInputError ''path is required'')
     else if in_workspace (sb_ID sb) (Clean (Join2 (workspace (sb_ID sb)) path))
     then Inr (Clean (Join2 (workspace (sb_ID sb)) path))
     else Inl (InvalidInputError (''path '' @ Quote path @ '' escapes sandbox workspace'')))"
  using assms cleaned_cases [of "sb_ID sb" path]
  by (auto simp: scopedPathForOperation_def shares_vm_def Let_def)

lemma scopedPathForOperation_Inl: "scopedPathForOperation m sb path = Inl e \<Longrightarrow> err_kind e = ErrInvalidInput"
  by (auto simp: scopedPathForOperation_def Let_def split: if_splits)

lemma scopedPath_frame:
  "m_cfg m' = m_cfg m \<Longrightarrow> scopedPathForOperation m' sb = scopedPathForOperation m sb"
  by (simp add: scopedPathForOperation_def isRemoteOwnedSandbox_def fun_eq_iff)

text \<open>
  The path a shared sandbox may name: for a non-blank path, \<open>scopedPathForOperation\<close> accepts
  exactly the paths that, joined to the workspace and cleaned, lie in it, and answers the
  cleaned path; a plain relative path is accepted as the same components below the workspace;
  \<open>scopedPath\<close>, which cannot fail, gives the same path or falls back to the workspace.
\<close>

theorem scoped_path_exact:
  assumes "shares_vm m sb" and "TrimSpace path \<noteq> []"
  defines "p \<equiv> Clean (Join2 (workspace (sb_ID sb)) path)"
  shows "(scopedPathForOperation m sb path = Inr q \<longleftrightarrow> q = p \<and> in_workspace (sb_ID sb) q) \<and>
    scopedPath m sb path = (case scopedPathForOperation m sb path of Inr r \<Rightarrow> r | Inl _ \<Rightarrow> workspace (sb_ID sb)) \<and>
    (\<forall>ds. path = join_with slash ds \<and> ds \<noteq> [] \<and> (\<forall>d\<in>set ds. plain d) \<longrightarrow>
       scopedPathForOperation m sb path = Inr (rooted_path (''workspace'' # sb_ID sb # ds)))"
proof (intro conjI allI impI)
  have s: "plain (sb_ID sb)" "sb_VMID sb \<noteq> []" "\<not> isRemoteOwnedSandbox m sb"
    using assms(1) by (simp_all add: shares_vm_def)
  show "scopedPathForOperation m sb path = Inr q \<longleftrightarrow> q = p \<and> in_workspace (sb_ID sb) q"
    using assms(2) by (auto simp: scopedPathForOperation_shared [OF assms(1)] p_def)
  show "scopedPath m sb path = (case scopedPathForOperation m sb path of Inr r \<Rightarrow> r | Inl _ \<Rightarrow> workspace (sb_ID sb))"
    using assms(2) s(2,3) cleaned_cases [OF s(1), of path]
    by (auto simp add: scopedPathForOperation_shared [OF assms(1)] scopedPath_def Let_def)
  fix ds
  assume ds: "path = join_with slash ds \<and> ds \<noteq> [] \<and> (\<forall>d\<in>set ds. plain d)"
  let ?cs = "''workspace'' # sb_ID sb # ds"
  have pl: "\<And>c. c \<in> set ?cs \<Longrightarrow> plain c" using ds s(1) by auto
  have "Join2 (workspace (sb_ID sb)) path = Clean (rooted_path ?cs)"
    using ds by (cases ds) (simp_all add: Join2_def workspace_def rooted_path_def)
  then have "p = rooted_path ?cs"
    using Clean_rooted_plain [of ?cs] pl by (simp add: p_def)
  moreover have "in_workspace (sb_ID sb) (rooted_path ?cs)"
    using ds unfolding in_workspace_def by blast
  ultimately show "scopedPathForOperation m sb path = Inr (rooted_path (''workspace'' # sb_ID sb # ds))"
    using assms(2) by (simp add: scopedPathForOperation_shared [OF assms(1)] p_def)
qed

definition sample_guest :: SandboxRecord where
  "sample_guest = (sample_row ''sb-g'' ''bob'')\<lparr>sr_VMID := ''sb-v''\<rparr>"

definition sample_shared_vm :: mgr where
  "sample_shared_vm = sample_mgr\<lparr>m_store := empty_store\<lparr>t_sandboxes := [sample_guest]\<rparr>\<rparr>"

lemma sample_guest_shares: "shares_vm sample_shared_vm (recordToSandbox sample_guest)"
  unfolding shares_vm_def by code_simp

section \<open>The file operations as one family\<close>

datatype file_op =
    OpWrite FileWriteRequest
  | OpRead string
  | OpList string
  | OpDelete FileDeleteRequest
  | OpMove FileMoveRequest
  | OpChmod FileChmodRequest
  | OpStat string
  | OpGlob string

definition failure :: "(error + 'a) \<times> mgr \<Rightarrow> error option \<times> mgr" where
  "failure r = ((case fst r of Inl e \<Rightarrow> Some e | Inr _ \<Rightarrow> None), snd r)"

fun run_file :: "env \<Rightarrow> string \<Rightarrow> file_op \<Rightarrow> mgr \<Rightarrow> error option \<times> mgr" where
  "run_file E i (OpWrite q) m = failure (WriteFile E i q m)"
| "run_file E i (OpRead p) m = failure (ReadFile E i p m)"
| "run_file E i (OpList p) m = failure (ListFiles E i p m)"
| "run_file E i (OpDelete q) m = failure (DeleteFile E i q m)"
| "run_file E i (OpMove q) m = failure (MoveFile E i q m)"
| "run_file E i (OpChmod q) m = failure (ChmodFile E i q m)"
| "run_file E i (OpStat p) m = failure (StatFile E i p m)"
| "run_file E i (OpGlob p) m = failure (GlobFiles E i p m)"

fun op_paths :: "file_op \<Rightarrow> string list" where
  "op_paths (OpWrite q) = [fw_Path q]"
| "op_paths (OpRead p) = [p]"
| "op_paths (OpList p) = [p]"
| "op_paths (OpDelete q) = [fd_Path q]"
| "op_paths (OpMove q) = [fm_OldPath q, fm_NewPath q]"
| "op_paths (OpChmod q) = [fc_Path q]"
| "op_paths (OpStat p) = [p]"
| "op_paths (OpGlob p) = [p]"

fun op_action :: "file_op \<Rightarrow> string" where
  "op_action (OpWrite q) = ''file.write''"
| "op_action (OpRead p) = ''file.read''"
| "op_action (OpList p) = ''file.list''"
| "op_action (OpDelete q) = ''file.delete''"
| "op_action (OpMove q) = ''file.move''"
| "op_action (OpChmod q) = ''file.chmod''"
| "op_action (OpStat p) = ''file.stat''"
| "op_action (OpGlob p) = ''file.glob''"

text \<open>The VM and the paths that a call to a provider names.\<close>

fun call_target :: "ext_call \<Rightarrow> string \<times> string list" where
  "call_target (PWriteFile pr v p c md) = (v, [p])"
| "call_target (PReadFile pr v p) = (v, [p])"
| "call_target (PListFiles pr v p) = (v, [p])"
| "call_target (PDeleteFile pr v p r) = (v, [p])"
| "call_target (PMoveFile pr v p q) = (v, [p, q])"
| "call_target (PChmodFile pr v p md) = (v, [p])"
| "call_target (PStatFile pr v p) = (v, [p])"
| "call_target (PGlobFiles pr v p) = (v, [p])"
| "call_target _ = ([], [])"

lemma fst_failure [simp]: "fst (failure r) = None \<longleftrightarrow> \<not> isl (fst r)" "fst (failure r) = Some e \<longleftrightarrow> fst r = Inl e"
  by (auto simp: failure_def split: sum.splits)

lemma snd_failure [simp]: "snd (failure r) = snd r"
  by (simp add: failure_def)

lemma on_sandbox_found:
  assumes "getSandboxAndProvider E i m = Inr (sb, prov)"
  shows "on_sandbox E oper i m body =
    (fst (body sb prov m), recordOperation E oper (sb_Provider sb) (fst (snd (body sb prov m))) (snd (snd (body sb prov m))))"
  using assms by (simp add: on_sandbox_def case_prod_beta)

lemma frame_call_unit [simp]:
  "m_cfg (snd (call_unit E c m)) = m_cfg m" "m_store (snd (call_unit E c m)) = m_store m"
  "m_metrics (snd (call_unit E c m)) = m_metrics m" "m_sandboxes (snd (call_unit E c m)) = m_sandboxes m"
  "m_calls (snd (call_unit E c m)) = m_calls m @ [c]"
  by (simp_all add: call_unit_def case_prod_beta)

lemma frame_file_failed [simp]:
  "m_cfg (file_failed E oper a sb i r e m) = m_cfg m"
  "m_metrics (file_failed E oper a sb i r e m) = m_metrics m" "m_sandboxes (file_failed E oper a sb i r e m) = m_sandboxes m"
  "m_calls (file_failed E oper a sb i r e m) = m_calls m"
  "t_sandboxes (m_store (file_failed E oper a sb i r e m)) = t_sandboxes (m_store m)"
  by (simp_all add: file_failed_def)

text \<open>Confinement of the calls, for every operation of the family.\<close>

lemmas file_ops = WriteFile_def ReadFile_def ListFiles_def DeleteFile_def MoveFile_def ChmodFile_def
  StatFile_def GlobFiles_def

definition confined :: "Sandbox \<Rightarrow> ext_call \<Rightarrow> bool" where
  "confined sb c \<longleftrightarrow> fst (call_target c) = sb_VMID sb \<and> (\<forall>p\<in>set (snd (call_target c)). in_workspace (sb_ID sb) p)"

lemma scoped_in_workspace:
  "shares_vm m sb \<Longrightarrow> scopedPathForOperation m sb path = Inr p \<Longrightarrow> in_workspace (sb_ID sb) p"
  by (auto simp: scopedPathForOperation_shared split: if_splits)

lemma shares_vm_simps:
  "shares_vm m sb \<Longrightarrow> \<not> isRemoteOwnedSandbox m sb" "shares_vm m sb \<Longrightarrow> resolveVMID sb = sb_VMID sb"
  by (simp_all add: shares_vm_def resolveVMID_def)

lemma run_file_calls:
  assumes "getSandboxAndProvider E i m = Inr (sb, prov)" and "shares_vm m sb"
  shows "m_calls (snd (run_file E i oper m)) = m_calls m \<or>
    (\<exists>c. m_calls (snd (run_file E i oper m)) = m_calls m @ [c] \<and> confined sb c)"
  using scoped_in_workspace [OF assms(2)] shares_vm_simps [OF assms(2)]
  by (cases oper)
    (auto simp: file_ops on_sandbox_found [OF assms(1)] Let_def case_prod_beta confined_def split: sum.split)

lemma run_file_refuses:
  assumes "getSandboxAndProvider E i m = Inr (sb, prov)" and "p \<in> set (op_paths oper)"
    and "isl (scopedPathForOperation m sb p)"
  shows "(\<exists>e. fst (run_file E i oper m) = Some e \<and> err_kind e = ErrInvalidInput) \<and>
    m_calls (snd (run_file E i oper m)) = m_calls m"
  using assms(2,3) scopedPathForOperation_Inl [of m sb]
  by (cases oper)
    (auto simp: file_ops on_sandbox_found [OF assms(1)] Let_def case_prod_beta failure_def split: sum.splits)

text \<open>
  C10. Files of a shared sandbox are confined, whichever of the eight operations is called with
  whatever request: it makes at most one call, to the provider, on the VM of the sandbox, and
  every path in the call lies in the workspace of the sandbox, written without \<open>.\<close> and \<open>..\<close>.
  If any path of the request would leave the workspace, the operation fails as invalid
  input and calls nothing.
\<close>

theorem file_ops_confined:
  assumes "getSandboxAndProvider E i m = Inr (sb, prov)" and "shares_vm m sb"
  shows "(m_calls (snd (run_file E i oper m)) = m_calls m \<or>
     (\<exists>c. m_calls (snd (run_file E i oper m)) = m_calls m @ [c] \<and> confined sb c)) \<and>
    ((\<exists>p\<in>set (op_paths oper). isl (scopedPathForOperation m sb p)) \<longrightarrow>
       (\<exists>e. fst (run_file E i oper m) = Some e \<and> err_kind e = ErrInvalidInput) \<and>
       m_calls (snd (run_file E i oper m)) = m_calls m)"
proof
  show "m_calls (snd (run_file E i oper m)) = m_calls m \<or>
     (\<exists>c. m_calls (snd (run_file E i oper m)) = m_calls m @ [c] \<and> confined sb c)"
    by (rule run_file_calls [OF assms])
  show "(\<exists>p\<in>set (op_paths oper). isl (scopedPathForOperation m sb p)) \<longrightarrow>
       (\<exists>e. fst (run_file E i oper m) = Some e \<and> err_kind e = ErrInvalidInput) \<and>
       m_calls (snd (run_file E i oper m)) = m_calls m"
    using run_file_refuses [OF assms(1)] by blast
qed

theorem file_ops_confined_witness:
  "\<exists>e. fst (run_file sample_env ''sb-g'' (OpMove \<lparr>fm_OldPath = ''a'', fm_NewPath = ''../sb-h/a''\<rparr>) sample_shared_vm) = Some e
     \<and> err_kind e = ErrInvalidInput"
proof -
  have f: "getSandboxAndProvider sample_env ''sb-g'' sample_shared_vm = Inr (recordToSandbox sample_guest, ''mock'')"
    by code_simp
  have "isl (scopedPathForOperation sample_shared_vm (recordToSandbox sample_guest) ''../sb-h/a'')"
    by code_simp
  then show ?thesis
    using file_ops_confined [OF f sample_guest_shares, of "OpMove \<lparr>fm_OldPath = ''a'', fm_NewPath = ''../sb-h/a''\<rparr>"]
    by auto
qed

section \<open>Audit and metrics\<close>

fun op_metric :: "file_op \<Rightarrow> string" where
  "op_metric (OpWrite q) = OperationFileWrite"
| "op_metric (OpRead p) = OperationFileRead"
| "op_metric (OpList p) = OperationFileList"
| "op_metric (OpDelete q) = OperationFileDelete"
| "op_metric (OpMove q) = OperationFileMove"
| "op_metric (OpChmod q) = OperationFileChmod"
| "op_metric (OpStat p) = OperationFileStat"
| "op_metric (OpGlob p) = OperationFileGlob"

text \<open>The audit records of \<open>m'\<close> are those of \<open>m\<close> and one more, of this action.\<close>

definition audited :: "string \<Rightarrow> Sandbox \<Rightarrow> string \<Rightarrow> string \<Rightarrow> mgr \<Rightarrow> mgr \<Rightarrow> bool" where
  "audited action sb i status m m' \<longleftrightarrow>
     (\<exists>a. t_op_audit (m_store m') = t_op_audit (m_store m) @ [a] \<and> oa_Action a = action \<and> oa_Actor a = sb_OwnerID sb \<and>
          oa_SandboxID a = (if i = [] then sb_ID sb else i) \<and> oa_Status a = status \<and> length (oa_Detail a) \<le> 2048)"

lemma audited_auditOperation:
  "db_fail E OpCreateOperationAudit = None \<Longrightarrow> m_store m' = m_store m \<Longrightarrow>
   audited action sb i status m (auditOperation E action (Some sb) i r status d m')"
  by (simp add: audited_def auditOperation_def CreateOperationAudit_def truncateAuditDetail_def Let_def)

lemma audited_frames [simp]:
  "audited action sb i status m (recordOperation E oper p e m') = audited action sb i status m m'"
  "audited action sb i status m (publish_event E ty j dt m') = audited action sb i status m m'"
  by (simp_all add: audited_def)

lemma audited_file_failed:
  "db_fail E OpCreateOperationAudit = None \<Longrightarrow> m_store m' = m_store m \<Longrightarrow>
   audited action sb i ''failure'' m (file_failed E oper action sb i r e m')"
  unfolding file_failed_def by (rule audited_auditOperation) simp_all

lemmas remote_files = remoteFileWrite_def remoteFileRead_def remoteFileList_def remoteFileDelete_def
  remoteFileMove_def remoteFileChmod_def remoteFileStat_def remoteFileGlob_def

lemma remote_files_frame [simp]:
  "m_store (snd (remoteFileWrite E sb p c md m)) = m_store m" "m_metrics (snd (remoteFileWrite E sb p c md m)) = m_metrics m"
  "m_store (snd (remoteFileRead E sb p m)) = m_store m" "m_metrics (snd (remoteFileRead E sb p m)) = m_metrics m"
  "m_store (snd (remoteFileList E sb p m)) = m_store m" "m_metrics (snd (remoteFileList E sb p m)) = m_metrics m"
  "m_store (snd (remoteFileDelete E sb p rc m)) = m_store m" "m_metrics (snd (remoteFileDelete E sb p rc m)) = m_metrics m"
  "m_store (snd (remoteFileMove E sb p q m)) = m_store m" "m_metrics (snd (remoteFileMove E sb p q m)) = m_metrics m"
  "m_store (snd (remoteFileChmod E sb p md m)) = m_store m" "m_metrics (snd (remoteFileChmod E sb p md m)) = m_metrics m"
  "m_store (snd (remoteFileStat E sb p m)) = m_store m" "m_metrics (snd (remoteFileStat E sb p m)) = m_metrics m"
  "m_store (snd (remoteFileGlob E sb p m)) = m_store m" "m_metrics (snd (remoteFileGlob E sb p m)) = m_metrics m"
  by (simp_all add: remote_files remote_call_def split: sum.split)

lemma run_file_audited:
  assumes "getSandboxAndProvider E i m = Inr (sb, prov)" and "db_fail E OpCreateOperationAudit = None"
    and "\<And>h c. \<not> isl (re_content E h c)"
  shows "audited (op_action oper) sb i (if fst (run_file E i oper m) = None then ''success'' else ''failure'')
    m (snd (run_file E i oper m))"
proof -
  note a = audited_auditOperation [OF assms(2)] audited_file_failed [OF assms(2)]
  have c: "re_content E h cl \<noteq> Inl x" for h cl x using assms(3) [of h cl] by auto
  show ?thesis
    by (cases oper)
      (auto simp: c file_ops on_sandbox_found [OF assms(1)] Let_def case_prod_beta a failure_def split: sum.splits)
qed

lemma run_file_metrics:
  assumes "getSandboxAndProvider E i m = Inr (sb, prov)"
  shows "\<exists>me. (me = None \<longleftrightarrow> fst (run_file E i oper m) = None) \<and>
    m_metrics (snd (run_file E i oper m)) =
      RecordOperation (db_now E) (op_metric oper) (sb_Provider sb) (env_elapsed E) me (m_metrics m)"
  by (cases oper)
    (auto simp: file_ops on_sandbox_found [OF assms(1)] Let_def case_prod_beta recordOperation_def failure_def
      split: sum.splits)

text \<open>
  Every file operation on a sandbox that is found leaves exactly one audit record, under the
  sandbox's owner, with its outcome, and is counted once in the metrics, as the failure or
  success it was; when the database takes the audit record and file contents can be read.
\<close>

theorem file_ops_audited:
  assumes "getSandboxAndProvider E i m = Inr (sb, prov)" and "db_fail E OpCreateOperationAudit = None"
    and "\<And>h c. \<not> isl (re_content E h c)"
  shows "audited (op_action oper) sb i (if fst (run_file E i oper m) = None then ''success'' else ''failure'')
      m (snd (run_file E i oper m)) \<and>
    (\<exists>me. (me = None \<longleftrightarrow> fst (run_file E i oper m) = None) \<and>
      m_metrics (snd (run_file E i oper m)) =
        RecordOperation (db_now E) (op_metric oper) (sb_Provider sb) (env_elapsed E) me (m_metrics m))"
  using run_file_audited [OF assms] run_file_metrics [OF assms(1)] by blast

text \<open>
  A read that fails while its content is read is the exception: the error is reported and
  counted, and no audit record is written.
\<close>

theorem read_failure_unaudited:
  assumes "getSandboxAndProvider E i m = Inr (sb, prov)" and "\<not> isRemoteOwnedSandbox m sb"
    and "scopedPathForOperation m sb path = Inr p" and "re_unit E (m_calls m) (PReadFile prov (resolveVMID sb) p) = None"
    and "re_content E (m_calls m) (PReadFile prov (resolveVMID sb) p) = Inl e"
  shows "fst (ReadFile E i path m) = Inl (wrap_err ''reading file content'' e) \<and>
    m_store (snd (ReadFile E i path m)) = m_store m"
  using assms(2-5) by (simp add: ReadFile_def on_sandbox_found [OF assms(1)] Let_def case_prod_beta call_unit_def)

section \<open>Commands\<close>

lemma frame_execRemote [simp]:
  "m_store (snd (execRemote E sb req wd m)) = m_store m" "m_metrics (snd (execRemote E sb req wd m)) = m_metrics m"
  by (simp_all add: execRemote_def remote_call_def case_prod_beta Let_def split: sum.split)

lemma resolveExecTimeout_zero: "resolveExecTimeout E ''0s'' ownerID m = Inr 0"
proof -
  have "ParseDuration ''0s'' = Inr 0" by code_simp
  then show ?thesis by (simp add: resolveExecTimeout_def Let_def)
qed

lemma resolveExecTimeout_Inr:
  assumes "resolveExecTimeout E raw ownerID m = Inr t"
  shows "0 \<le> t \<and> (0 < ownerMaxExecTimeout E ownerID m \<longrightarrow> t \<le> ownerMaxExecTimeout E ownerID m)"
  using assms by (auto simp: resolveExecTimeout_def Let_def split: sum.splits if_splits)

text \<open>
  No command runs past the limit on its timeout: if \<open>Exec\<close> calls anything at all, the timeout
  it resolved is not negative and within the owner's (or the server's) maximum.  A timeout
  that cannot be parsed or is too long refuses the request before anything is called or logged.
  The way round is a request for \<open>0s\<close>: it always resolves to 0, which sets no deadline.
\<close>

theorem exec_timeout_bounded:
  assumes "getSandboxAndProvider E i m = Inr (sb, prov)"
  shows "(m_calls (snd (Exec E i req m)) \<noteq> m_calls m \<longrightarrow>
       (\<exists>t. resolveExecTimeout E (xr_Timeout req) (sb_OwnerID sb) m = Inr t \<and> 0 \<le> t \<and>
          (0 < ownerMaxExecTimeout E (sb_OwnerID sb) m \<longrightarrow> t \<le> ownerMaxExecTimeout E (sb_OwnerID sb) m))) \<and>
    (\<forall>e. validateExecRequest req = None \<and> resolveExecTimeout E (xr_Timeout req) (sb_OwnerID sb) m = Inl e \<longrightarrow>
       fst (Exec E i req m) = Inl e \<and> m_calls (snd (Exec E i req m)) = m_calls m \<and>
       m_store (snd (Exec E i req m)) = m_store m) \<and>
    resolveExecTimeout E ''0s'' (sb_OwnerID sb) m = Inr 0"
proof (cases "resolveExecTimeout E (xr_Timeout req) (sb_OwnerID sb) m")
  case (Inl e)
  then show ?thesis
    using assms by (auto simp: Exec_def resolveExecTimeout_zero split: option.split)
next
  case (Inr t)
  then show ?thesis
    using resolveExecTimeout_Inr [OF Inr] by (simp add: resolveExecTimeout_zero)
qed

definition sample_exec :: ExecRequest where
  "sample_exec = \<lparr>xr_Command = ''ls'', xr_Args = [], xr_Mode = [], xr_Env = [], xr_WorkDir = [], xr_Timeout = ''10m''\<rparr>"

text \<open>What is called for a command, and what it answers.\<close>

definition exec_call :: "env \<Rightarrow> Sandbox \<Rightarrow> string \<Rightarrow> string \<Rightarrow> ExecRequest \<Rightarrow> mgr \<Rightarrow> (error + int \<times> string \<times> string) \<times> mgr" where
  "exec_call E sb prov i req m =
     (if isRemoteOwnedSandbox m sb then execRemote E sb req (exec_workdir m sb i req) m
      else call (re_exec E) (PExec prov (resolveVMID sb) req (exec_workdir m sb i req)) m)"

lemma frame_exec_call [simp]:
  "m_store (snd (exec_call E sb prov i req m)) = m_store m" "m_metrics (snd (exec_call E sb prov i req m)) = m_metrics m"
  by (simp_all add: exec_call_def)

lemma t_exec_logs_auditOperation [simp]:
  "t_exec_logs (m_store (auditOperation E a sb i r st d m)) = t_exec_logs (m_store m)"
  by (simp add: auditOperation_def on_store_def CreateOperationAudit_def Let_def split: option.split)

lemma Exec_cases:
  assumes "getSandboxAndProvider E i m = Inr (sb, prov)" and "validateExecRequest req = None"
    and "resolveExecTimeout E (xr_Timeout req) (sb_OwnerID sb) m = Inr t"
    and "db_fail E OpCreateOperationAudit = None"
  shows "case fst (exec_call E sb prov i req (publish_event E EventExecStarted i [] m)) of
     Inl e \<Rightarrow> fst (Exec E i req m) = Inl (if env_deadline E then ExecTimeoutError i else wrap_err ''exec'' e) \<and>
       t_exec_logs (m_store (snd (Exec E i req m))) = t_exec_logs (m_store m) \<and>
       audited ''exec'' sb i ''failure'' m (snd (Exec E i req m))
   | Inr (code, out, errout) \<Rightarrow>
       (let dur = Duration_String (env_elapsed E) in
        fst (Exec E i req m) = Inr \<lparr>er_ExitCode = code, er_Stdout = out, er_Stderr = errout, er_Duration = dur\<rparr> \<and>
        t_exec_logs (m_store (snd (Exec E i req m))) = t_exec_logs (m_store m) @
          (if db_fail E OpCreateExecLog = None
           then [\<lparr>xl_SandboxID = i, xl_Command = xr_Command req, xl_ExitCode = code, xl_Stdout = out, xl_Stderr = errout,
                  xl_Duration = dur, xl_CreatedAt = db_now E\<rparr>] else []) \<and>
        audited ''exec'' sb i ''success'' m (snd (Exec E i req m)))"
proof -
  let ?m = "publish_event E EventExecStarted i [] m"
  have a: "audited action sb i status m (auditOperation E action (Some sb) i r status d m')"
    if "t_op_audit (m_store m') = t_op_audit (m_store m)" for action status r d m'
    using that assms(4) by (simp add: audited_def auditOperation_def CreateOperationAudit_def truncateAuditDetail_def Let_def)
  obtain r m1 where rm: "exec_call E sb prov i req ?m = (r, m1)" by fastforce
  then have e: "(if isRemoteOwnedSandbox ?m sb then execRemote E sb req (exec_workdir ?m sb i req) ?m
      else call (re_exec E) (PExec prov (resolveVMID sb) req (exec_workdir ?m sb i req)) ?m) = (r, m1)"
    by (simp add: exec_call_def)
  have st: "m_store m1 = m_store m" using frame_exec_call(1) [of E sb prov i req ?m] rm by simp
  show ?thesis
    using assms(1-3)
    by (auto simp: Exec_def rm e st a Let_def CreateExecLog_def split: sum.split option.split)
qed

text \<open>
  C15. What a command that is allowed to run leaves: the result is the provider's (or the worker's)
  exit code and output, exactly one exec log with them is written (when the database takes
  it) and one audit record; a failed call gives an error, a timeout error if the deadline had
  passed, an audit record of the failure and no log.
\<close>

theorem exec_outcome:
  assumes "getSandboxAndProvider E i m = Inr (sb, prov)" and "validateExecRequest req = None"
    and "resolveExecTimeout E (xr_Timeout req) (sb_OwnerID sb) m = Inr t"
    and "db_fail E OpCreateOperationAudit = None" and "db_fail E OpCreateExecLog = None"
  shows "case fst (exec_call E sb prov i req (publish_event E EventExecStarted i [] m)) of
     Inl e \<Rightarrow> fst (Exec E i req m) = Inl (if env_deadline E then ExecTimeoutError i else wrap_err ''exec'' e) \<and>
       t_exec_logs (m_store (snd (Exec E i req m))) = t_exec_logs (m_store m) \<and>
       audited ''exec'' sb i ''failure'' m (snd (Exec E i req m))
   | Inr (code, out, errout) \<Rightarrow>
       (\<exists>res l. fst (Exec E i req m) = Inr res \<and> (er_ExitCode res, er_Stdout res, er_Stderr res) = (code, out, errout) \<and>
          t_exec_logs (m_store (snd (Exec E i req m))) = t_exec_logs (m_store m) @ [l] \<and>
          (xl_SandboxID l, xl_Command l, xl_ExitCode l, xl_Stdout l, xl_Stderr l, xl_Duration l) =
            (i, xr_Command req, code, out, errout, er_Duration res)) \<and>
       audited ''exec'' sb i ''success'' m (snd (Exec E i req m))"
  using Exec_cases [OF assms(1-4)] assms(5) by (auto simp: Let_def split: sum.splits)

theorem exec_outcome_witness:
  "\<exists>res. fst (Exec sample_env ''sb-g'' (sample_exec\<lparr>xr_Timeout := ''5s''\<rparr>) sample_shared_vm) = Inr res \<and> er_Stdout res = ''out''"
proof -
  have f: "getSandboxAndProvider sample_env ''sb-g'' sample_shared_vm = Inr (recordToSandbox sample_guest, ''mock'')"
    by code_simp
  have v: "validateExecRequest (sample_exec\<lparr>xr_Timeout := ''5s''\<rparr>) = None"
    "resolveExecTimeout sample_env (xr_Timeout (sample_exec\<lparr>xr_Timeout := ''5s''\<rparr>)) (sb_OwnerID (recordToSandbox sample_guest))
       sample_shared_vm = Inr (5 * Second)"
    by code_simp+
  have d: "db_fail sample_env OpCreateOperationAudit = None" "db_fail sample_env OpCreateExecLog = None"
    by (simp_all add: sample_env_def)
  have l: "\<not> isRemoteOwnedSandbox sample_shared_vm (recordToSandbox sample_guest)"
    using sample_guest_shares by (simp add: shares_vm_def)
  show ?thesis
    using exec_outcome [OF f v d] l
    by (auto simp: exec_call_def isRemoteOwnedSandbox_def sample_env_def)
qed

section \<open>Streamed commands\<close>

lemma forward_running: "ss_end S = CtxRunning \<Longrightarrow> forward S k cs = (cs, False)"
  by (induction cs arbitrary: k) simp_all

lemma forward_subseq: "subseq (fst (forward S k cs)) cs"
  by (induction cs arbitrary: k) (auto simp: Let_def case_prod_beta)

lemma forward_complete: "\<not> snd (forward S k cs) \<Longrightarrow> fst (forward S k cs) = cs"
  by (induction cs arbitrary: k) (auto simp: Let_def case_prod_beta split: if_splits)

definition stream_call :: "env \<Rightarrow> Sandbox \<Rightarrow> string \<Rightarrow> string \<Rightarrow> ExecRequest \<Rightarrow> mgr \<Rightarrow> (error + chunk list) \<times> mgr" where
  "stream_call E sb prov i req m =
     (if isRemoteOwnedSandbox m sb then execStreamRemote E sb req (exec_workdir m sb i req) m
      else call (re_stream E) (PExecStream prov (resolveVMID sb) req (exec_workdir m sb i req)) m)"

lemma frame_stream_call [simp]:
  "m_store (snd (stream_call E sb prov i req m)) = m_store m" "m_metrics (snd (stream_call E sb prov i req m)) = m_metrics m"
  by (simp_all add: stream_call_def execStreamRemote_def remote_call_def Let_def case_prod_beta split: sum.split)

text \<open>
  A stream loses nothing silently.  If the command could be started, what the client reads
  are chunks of the command, in their order, and after them at most the notice of the timeout;
  they are all of its chunks unless the deadline passed or the request was cancelled, and
  whenever chunks were dropped, or the deadline passed, the command is counted as a failure
  (with the timeout error at the deadline), else as a success; in each case once.
\<close>

theorem exec_stream_faithful:
  assumes "getSandboxAndProvider E i m = Inr (sb, prov)" and "validateExecRequest req = None"
    and "resolveExecTimeout E (xr_Timeout req) (sb_OwnerID sb) m = Inr t"
    and "fst (stream_call E sb prov i req m) = Inr chunks"
  shows "\<exists>out notice me. fst (ExecStream E i req S m) = Inr (out @ notice) \<and> subseq out chunks \<and>
    (notice = [] \<or> notice = [(''stderr'', err_msg (ExecTimeoutError i))] \<and> me = Some (ExecTimeoutError i)) \<and>
    (me = None \<longrightarrow> out = chunks \<and> notice = []) \<and>
    (ss_end S = CtxRunning \<or> t = 0 \<longrightarrow> me = None) \<and>
    m_metrics (snd (ExecStream E i req S m)) =
      RecordOperation (db_now E) OperationExecStream (sb_Provider sb) (env_elapsed E) me (m_metrics m)"
proof -
  obtain m1 where c: "stream_call E sb prov i req m = (Inr chunks, m1)"
    using assms(4) by (metis prod.collapse)
  then have e: "(if isRemoteOwnedSandbox m sb then execStreamRemote E sb req (exec_workdir m sb i req) m
      else call (re_stream E) (PExecStream prov (resolveVMID sb) req (exec_workdir m sb i req)) m) = (Inr chunks, m1)"
    by (simp add: stream_call_def)
  have mt: "m_metrics m1 = m_metrics m" using frame_stream_call(2) [of E sb prov i req m] c by simp
  have x: "ExecStream E i req S m =
     (if \<not> t > 0 then (Inr chunks, recordOperation E OperationExecStream (sb_Provider sb) None m1)
      else if ss_end S = CtxDeadlineExceeded then
        (Inr (fst (forward S 0 chunks) @ (if ss_last S then [(''stderr'', err_msg (ExecTimeoutError i))] else [])),
         recordOperation E OperationExecStream (sb_Provider sb) (Some (ExecTimeoutError i))
           (publishOperationFailure E EventExecTimeout i OperationExecStream (sb_Provider sb) (ExecTimeoutError i) m1))
      else if snd (forward S 0 chunks) \<and> ss_end S = CtxCanceled then
        (Inr (fst (forward S 0 chunks)), recordOperation E OperationExecStream (sb_Provider sb) (Some (Err ErrOther ''context canceled''))
           (publishOperationFailure E EventExecFailed i OperationExecStream (sb_Provider sb) (Err ErrOther ''context canceled'') m1))
      else (Inr (fst (forward S 0 chunks)), recordOperation E OperationExecStream (sb_Provider sb) None m1))"
    using assms(1-3) by (cases "forward S 0 chunks") (simp add: ExecStream_def e Let_def)
  note f = forward_subseq [of S 0 chunks] forward_complete [of S 0 chunks] forward_running [of S 0 chunks]
  show ?thesis
  proof (cases "t > 0 \<and> ss_end S = CtxDeadlineExceeded")
    case True
    then show ?thesis
      using f(1) by (intro exI [of _ "fst (forward S 0 chunks)"]
          exI [of _ "if ss_last S then [(''stderr'', err_msg (ExecTimeoutError i))] else []"] exI [of _ "Some (ExecTimeoutError i)"])
        (simp add: x recordOperation_def mt)
  next
    case False
    consider "\<not> t > 0" | "t > 0" "snd (forward S 0 chunks)" "ss_end S = CtxCanceled" | "t > 0" "\<not> snd (forward S 0 chunks)"
      using False f(3) by (cases "ss_end S") auto
    then show ?thesis
    proof cases
      case 1
      then show ?thesis
        by (intro exI [of _ chunks] exI [of _ "[]"] exI [of _ None]) (simp add: x recordOperation_def mt)
    next
      case 2
      then show ?thesis
        using f(1) by (intro exI [of _ "fst (forward S 0 chunks)"] exI [of _ "[]"]
            exI [of _ "Some (Err ErrOther ''context canceled'')"]) (simp add: x recordOperation_def mt)
    next
      case 3
      then show ?thesis
        using f(1,2) False by (intro exI [of _ chunks] exI [of _ "[]"] exI [of _ None]) (simp add: x recordOperation_def mt)
    qed
  qed
qed

end
