(* ===== verification/Reconcile.thy ===== *)
theory Reconcile
  imports Exec_Files_Laws
begin

text \<open>
  Startup recovery (\<open>manager.go\<close>: \<open>Reconcile\<close>, \<open>reconcileRemoteOwnedSandbox\<close>,
  \<open>reconcileProviderRuntimes\<close>): the records of the database are compared with what the
  providers and the remote workers say, and runtimes nobody knows are adopted.  A Go loop that
  returns an error in the middle leaves what it did so far, so every step gives the error and
  the manager.
\<close>

section \<open>Records of remote workers\<close>

definition publishRemoteOwnershipEvent :: "env \<Rightarrow> SandboxRecord \<Rightarrow> string \<Rightarrow> string \<Rightarrow> mgr \<Rightarrow> mgr" where
  "publishRemoteOwnershipEvent E rec action reason m =
     publishOperationalEvent E EventReconcileAction (sr_ID rec)
       [(''action'', JStr action), (''reason'', JStr reason), (''worker'', JStr (sr_WorkerID rec))] m"

text \<open>The state of a record whose worker cannot be asked: unhealthy, or expired.\<close>

definition mark_remote :: "env \<Rightarrow> SandboxRecord \<Rightarrow> string \<Rightarrow> mgr \<Rightarrow> error option \<times> mgr" where
  "mark_remote E rec reason m =
     (let expired = (sr_ExpiresAt rec \<noteq> 0 \<and> db_now E > sr_ExpiresAt rec);
          state = (if expired then StateExpired else StateUnhealthy);
          action = (if expired then ''marked_expired'' else ''marked_unhealthy'');
          m = (if expired then snd (on_store (ReleaseLease E (sr_ID rec) (sr_WorkerID rec)) m) else m);
          (err, m) = (if sr_State rec \<noteq> state then on_store (UpdateSandboxState E (sr_ID rec) state) m else (None, m))
      in case err of
           Some e \<Rightarrow> (Some (wrap_err (''marking remote sandbox '' @ sr_ID rec @ '' '' @ state) e), m)
         | None \<Rightarrow>
             (let sb = applyPreviewDomain E m ((recordToSandbox rec)\<lparr>sb_State := state\<rparr>)
              in (None, publishRemoteOwnershipEvent E rec action reason (cache_put (sr_ID rec) sb m))))"

definition reconcileRemoteOwnedSandbox :: "env \<Rightarrow> SandboxRecord \<Rightarrow> mgr \<Rightarrow> bool \<times> error option \<times> mgr" where
  "reconcileRemoteOwnedSandbox E rec m =
     (if TrimSpace (sr_WorkerID rec) = [] \<or> sr_WorkerID rec = m_workerID m then (False, None, m)
      else case GetWorker E (sr_WorkerID rec) (m_store m) of
        Inl _ \<Rightarrow> (True, mark_remote E rec ''worker_missing'' m)
      | Inr w \<Rightarrow>
          if db_now E - w_LastHeartbeat w > workerHeartbeatStaleAfter then (True, mark_remote E rec ''worker_stale'' m)
          else if EqualFold (w_Status w) ''draining'' then
            (let m = publishRemoteOwnershipEvent E rec ''worker_draining'' ''worker is draining; keeping existing ownership'' m;
                 (r, m) = refreshRemoteSandboxStatus E (recordToSandbox rec) m
             in (True, None, case r of Inr refreshed \<Rightarrow> cache_put (sr_ID rec) refreshed m | Inl _ \<Rightarrow> m))
          else if \<not> EqualFold (w_Status w) ''online'' then
            (True, mark_remote E rec (''worker_'' @ TrimSpace (w_Status w)) m)
          else
            (let (r, m) = refreshRemoteSandboxStatus E (recordToSandbox rec) m
             in case r of
                  Inl _ \<Rightarrow> (True, mark_remote E rec ''worker_rpc_unavailable'' m)
                | Inr refreshed \<Rightarrow> (True, None, cache_put (sr_ID rec) refreshed m)))"

section \<open>Records of this worker\<close>

definition provider_failed :: "env \<Rightarrow> string \<Rightarrow> string \<Rightarrow> string \<Rightarrow> error \<Rightarrow> mgr \<Rightarrow> mgr" where
  "provider_failed E i operation provider err m =
     publishOperationalEvent E EventProviderFailed i
       [(''operation'', JStr operation), (''provider'', JStr provider), (''error'', JStr (err_msg err))] m"

text \<open>The record is marked \<open>error\<close>: its provider is not registered, or cannot say how it is.\<close>

definition mark_error :: "env \<Rightarrow> SandboxRecord \<Rightarrow> error \<Rightarrow> mgr \<Rightarrow> error option \<times> mgr" where
  "mark_error E rec err m =
     (let m = provider_failed E (sr_ID rec) ''reconcile.status'' (sr_Provider rec) err m;
          (ue, m) = on_store (UpdateSandboxState E (sr_ID rec) StateError) m
      in (map_option (wrap_err (''marking sandbox '' @ sr_ID rec @ '' error'')) ue, m))"

definition reconcile_local :: "env \<Rightarrow> SandboxRecord \<Rightarrow> mgr \<Rightarrow> error option \<times> mgr" where
  "reconcile_local E rec m =
     (case registry_Get (m_registry m) (sr_Provider rec) of
        Inl err \<Rightarrow> mark_error E rec err m
      | Inr prov \<Rightarrow>
      (let (r, m) = call (re_id E) (PStatus prov (sr_ID rec)) m
       in case r of
         Inl err \<Rightarrow>
           if ErrorsIs err ErrSandboxNotFound \<or> ErrorsIs err ErrSandboxDestroyed then
             (let (ue, m) = on_store (UpdateSandboxState E (sr_ID rec) StateDestroyed) m
              in case ue of
                   Some e \<Rightarrow> (Some (wrap_err (''marking stale sandbox '' @ sr_ID rec @ '' destroyed'') e), m)
                 | None \<Rightarrow>
                     (None, publishOperationalEvent E EventReconcileAction (sr_ID rec)
                        [(''action'', JStr ''marked_destroyed''), (''provider'', JStr (sr_Provider rec)),
                         (''reason'', JStr (err_msg err))] (cache_del (sr_ID rec) m)))
           else mark_error E rec err m
       | Inr status \<Rightarrow>
           (let state = (if status = [] then StateRunning else status) in
            if state = StateDestroyed then
              (let (ue, m) = on_store (UpdateSandboxState E (sr_ID rec) StateDestroyed) m
               in (map_option (wrap_err (''marking sandbox '' @ sr_ID rec @ '' destroyed'')) ue, m))
            else
              (let (ue, m) = (if state \<noteq> sr_State rec then on_store (UpdateSandboxState E (sr_ID rec) state) m else (None, m))
               in case ue of
                    Some e \<Rightarrow> (Some (wrap_err (''updating reconciled sandbox '' @ sr_ID rec @ '' state'') e), m)
                  | None \<Rightarrow>
                      (None, cache_put (sr_ID rec) (applyPreviewDomain E m ((recordToSandbox rec)\<lparr>sb_State := state\<rparr>)) m)))))"

definition reconcile_record :: "env \<Rightarrow> SandboxRecord \<Rightarrow> mgr \<Rightarrow> error option \<times> mgr" where
  "reconcile_record E rec m =
     (if sr_State rec = StateDestroyed then (None, m)
      else (let (handled, err, m) = reconcileRemoteOwnedSandbox E rec m in
            if handled \<or> err \<noteq> None then (err, m) else reconcile_local E rec m))"

text \<open>A loop whose body may end it with an error.\<close>

fun each :: "('a \<Rightarrow> 's \<Rightarrow> error option \<times> 's) \<Rightarrow> 'a list \<Rightarrow> 's \<Rightarrow> error option \<times> 's" where
  "each f [] s = (None, s)"
| "each f (x # xs) s = (let (err, s) = f x s in case err of Some e \<Rightarrow> (Some e, s) | None \<Rightarrow> each f xs s)"

section \<open>Runtimes nobody knows\<close>

definition adopted_record :: "env \<Rightarrow> RuntimeSandbox \<Rightarrow> string \<Rightarrow> mgr \<Rightarrow> SandboxRecord" where
  "adopted_record E runtime provider m =
     (let created = (if rs_CreatedAt runtime = 0 then db_now E else rs_CreatedAt runtime);
          expires = created + mc_defaultTTL (m_cfg m);
          expires = (if expires < db_now E then db_now E + mc_defaultTTL (m_cfg m) else expires)
      in \<lparr>sr_ID = rs_ID runtime, sr_State = (if rs_State runtime = [] then StateRunning else rs_State runtime),
          sr_Provider = (if rs_Provider runtime = [] then provider else rs_Provider runtime),
          sr_Image = (if rs_Image runtime = [] then mc_defaultImage (m_cfg m) else rs_Image runtime),
          sr_MemoryMB = mc_defaultMemory (m_cfg m), sr_VCPUs = mc_defaultVCPUs (m_cfg m),
          sr_Metadata = rs_Metadata runtime, sr_OwnerID = [], sr_TenantID = [], sr_VMID = [],
          sr_WorkerID = m_workerID m, sr_CreatedAt = created, sr_ExpiresAt = expires, sr_UpdatedAt = db_now E\<rparr>)"

definition adopt_runtime ::
  "env \<Rightarrow> string \<Rightarrow> RuntimeSandbox \<Rightarrow> string list \<times> mgr \<Rightarrow> error option \<times> string list \<times> mgr" where
  "adopt_runtime E provider runtime km = (case km of (known, m) \<Rightarrow>
     if rs_ID runtime \<in> set known \<or> rs_State runtime = StateDestroyed then (None, known, m)
     else
       (let rec = adopted_record E runtime provider m;
            (lease, m) = acquireSandboxLease E (rs_ID runtime) (sr_ExpiresAt rec) m
        in case lease of
             Inl _ \<Rightarrow> (None, known, m)
           | Inr _ \<Rightarrow>
               (let (err, m) = on_store (CreateSandbox E rec) m
                in case err of
                     Some e \<Rightarrow>
                       if ErrorsIs e ErrConflict then (None, known, m)
                       else (Some (wrap_err (''adopting runtime sandbox '' @ rs_ID runtime) e), known, m)
                   | None \<Rightarrow>
                       (let sb = (recordToSandbox rec)\<lparr>sb_PreviewDomain := mc_previewDomain (m_cfg m)\<rparr>;
                            m = cache_put (rs_ID runtime) sb m;
                            m = publishOperationalEvent E EventReconcileAction (rs_ID runtime)
                              [(''action'', JStr ''adopted_runtime''), (''provider'', JStr (sr_Provider rec)),
                               (''image'', JStr (sr_Image rec))] m
                        in (None, rs_ID runtime # known, m)))))"

definition adopt_provider :: "env \<Rightarrow> string \<Rightarrow> string list \<times> mgr \<Rightarrow> error option \<times> string list \<times> mgr" where
  "adopt_provider E name km = (case km of (known, m) \<Rightarrow>
     case registry_Get (m_registry m) name of
       Inl _ \<Rightarrow> (None, known, m)
     | Inr prov \<Rightarrow>
         if map_of (rg_providers (m_registry m)) prov \<noteq> Some True then (None, known, m)
         else
           (let (r, m) = call (re_runtimes E) (PListRuntimeSandboxes prov) m
            in case r of
                 Inl err \<Rightarrow> (None, known, provider_failed E [] ''reconcile.runtime_inventory'' name err m)
               | Inr runtimes \<Rightarrow> each (adopt_runtime E prov) runtimes (known, m)))"

definition reconcileProviderRuntimes :: "env \<Rightarrow> string list \<Rightarrow> mgr \<Rightarrow> error option \<times> mgr" where
  "reconcileProviderRuntimes E known m =
     (let (err, _, m) = each (adopt_provider E) (registry_List (m_registry m)) (known, m) in (err, m))"

definition Reconcile :: "env \<Rightarrow> mgr \<Rightarrow> error option \<times> mgr" where
  "Reconcile E m =
     (case ListSandboxes E (m_store m) of
        Inl err \<Rightarrow> (Some (wrap_err ''listing sandboxes for reconciliation'' err), m)
      | Inr records \<Rightarrow>
          (let (err, m) = each (reconcile_record E) records m
           in case err of
                Some e \<Rightarrow> (Some e, m)
              | None \<Rightarrow> reconcileProviderRuntimes E (map sr_ID records) m))"

end
