(* ===== verification/Lifecycle_Laws.thy ===== *)
theory Lifecycle_Laws
  imports Lifecycle
begin

text \<open>
  What spawning and destroying do to the table of sandboxes, the cache, the leases and the
  provider: one lemma per way and outcome, then the properties of \<open>Spawn\<close> and \<open>Destroy\<close>.
\<close>

section \<open>Pieces\<close>

definition stored :: "SandboxRecord \<Rightarrow> SandboxRecord" where
  "stored r = (if TrimSpace (sr_WorkerID r) = [] then r\<lparr>sr_WorkerID := ''local''\<rparr> else r)"

lemma CreateSandbox_None:
  assumes "fst (CreateSandbox E sb s) = None"
  shows "t_sandboxes (snd (CreateSandbox E sb s)) = t_sandboxes s @ [stored sb]"
    and "row_by sr_ID (sr_ID sb) (t_sandboxes s) = None"
  using assms by (auto simp: CreateSandbox_def stored_def Let_def split: option.splits if_splits)

lemma stored_ID [simp]: "sr_ID (stored r) = sr_ID r" and stored_State [simp]: "sr_State (stored r) = sr_State r"
  by (simp_all add: stored_def)

lemma t_sandboxes_CreateSandbox:
  "t_sandboxes (snd (CreateSandbox E sb s)) =
     t_sandboxes s @ (if fst (CreateSandbox E sb s) = None then [stored sb] else [])"
  by (cases "fst (CreateSandbox E sb s)") (auto dest: CreateSandbox_fail simp: CreateSandbox_None)

lemma AcquireLease_Inr:
  assumes "fst (AcquireLease E r ty h d s) = Inr l"
  shows "lease_held r (snd (AcquireLease E r ty h d s)) = Some (h, db_now E + d)"
proof (cases "row_by l_ResourceID r (t_leases s)")
  case None
  then show ?thesis
    using assms by (auto simp: AcquireLease_def Let_def lease_held_def row_by_append split: option.splits if_splits)
next
  case (Some l0)
  have upd: "row_by l_ResourceID r (upd_where (\<lambda>x. l_ResourceID x = r)
        (\<lambda>x. x\<lparr>l_ResourceType := ty, l_HolderID := h, l_Generation := l_Generation x + 1,
               l_ExpiresAt := db_now E + d, l_UpdatedAt := db_now E\<rparr>) (t_leases s)) =
      Some (l0\<lparr>l_ResourceType := ty, l_HolderID := h, l_Generation := l_Generation l0 + 1,
               l_ExpiresAt := db_now E + d, l_UpdatedAt := db_now E\<rparr>)"
    by (subst row_by_upd_where) (use Some in \<open>auto dest: row_by_SomeD\<close>)
  show ?thesis
    using assms Some upd by (auto simp: AcquireLease_def Let_def lease_held_def split: option.splits if_splits)
qed

lemma acquireSandboxLeaseFor_Inr:
  assumes "fst (acquireSandboxLeaseFor E i w t m) = Inr l"
  shows "lease_held i (m_store (snd (acquireSandboxLeaseFor E i w t m))) =
     Some (w, db_now E + (if t - db_now E + sandboxLeaseGrace \<le> 0 then sandboxLeaseGrace
                          else t - db_now E + sandboxLeaseGrace))"
  using assms by (simp add: acquireSandboxLeaseFor_on_store AcquireLease_Inr)

lemma lease_held_cong: "t_leases s = t_leases s' \<Longrightarrow> lease_held r s = lease_held r s'"
  by (simp add: lease_held_def)

lemma frame_announce_spawn [frame, simp]:
  "m_cfg (announce_spawn E sb d m) = m_cfg m"
  "m_registry (announce_spawn E sb d m) = m_registry m"
  "m_vmPool (announce_spawn E sb d m) = m_vmPool m"
  "m_calls (announce_spawn E sb d m) = m_calls m"
  "m_queueWaiters (announce_spawn E sb d m) = m_queueWaiters m"
  "m_capacityGen (announce_spawn E sb d m) = m_capacityGen m"
  "t_sandboxes (m_store (announce_spawn E sb d m)) = t_sandboxes (m_store m)"
  "t_leases (m_store (announce_spawn E sb d m)) = t_leases (m_store m)"
  by (simp_all add: announce_spawn_def Let_def)

lemma cached_simps [simp]:
  "cached (publish_event E ty i d m) = cached m"
  "cached (auditOperation E a sb i r st dt m) = cached m"
  "cached (recordOperation E oper p oe m) = cached m"
  "cached (notifySpawnCapacity m) = cached m"
  "cached (publishOperationFailure E ty i oper p e m) = cached m"
  "cached (publishFailureForError E i oper p e m) = cached m"
  "cached (snd (on_store f m)) = cached m"
  "cached (snd (call re c m)) = cached m"
  "cached (snd (acquireSandboxLeaseFor E i w t m)) = cached m"
  "cached (snd (releaseSandboxLease E i m)) = cached m"
  "cached (set_pool pl m) = cached m"
  by (simp_all add: cached_def set_pool_def fun_eq_iff)

lemma lease_held_frames [simp]:
  "lease_held r (snd (CreateSandbox E rec s)) = lease_held r s"
  "lease_held r (snd (UpdateSandboxState E i st s)) = lease_held r s"
  "lease_held r (m_store (announce_spawn E sb d m)) = lease_held r (m_store m)"
  "lease_held r (m_store (auditOperation E a osb i res st d m)) = lease_held r (m_store m)"
  by (simp_all add: lease_held_def frame)

lemma cached_announce [simp]: "cached (announce_spawn E sb d m) = (cached m)(sb_ID sb \<mapsto> sb)"
  by (simp add: announce_spawn_def Let_def)

lemma frame_pool_release [frame, simp]:
  "m_cfg (snd (pool_release v m)) = m_cfg m"
  "m_registry (snd (pool_release v m)) = m_registry m"
  "m_store (snd (pool_release v m)) = m_store m"
  "m_calls (snd (pool_release v m)) = m_calls m"
  "m_sandboxes (snd (pool_release v m)) = m_sandboxes m"
  "m_queueWaiters (snd (pool_release v m)) = m_queueWaiters m"
  "m_capacityGen (snd (pool_release v m)) = m_capacityGen m"
  "cached (snd (pool_release v m)) = cached m"
  by (simp_all add: pool_release_def set_pool_def cached_def fun_eq_iff split: option.split)

lemma frame_set_pool [frame, simp]:
  "m_cfg (set_pool p m) = m_cfg m" "m_registry (set_pool p m) = m_registry m" "m_store (set_pool p m) = m_store m"
  "m_calls (set_pool p m) = m_calls m" "m_sandboxes (set_pool p m) = m_sandboxes m"
  "m_capacityGen (set_pool p m) = m_capacityGen m" "m_vmPool (set_pool p m) = Some p"
  by (simp_all add: set_pool_def)

section \<open>Spawning\<close>

lemma sandboxRecord_ID [simp]: "sr_ID (sandboxRecord now sb) = sb_ID sb"
  by (simp add: sandboxRecord_def)

text \<open>What every successful spawn leaves behind.\<close>

definition spawned :: "env \<Rightarrow> SpawnRequest \<Rightarrow> duration \<Rightarrow> Sandbox \<Rightarrow> mgr \<Rightarrow> bool" where
  "spawned E req ttl sb m' \<longleftrightarrow>
     sb_State sb = StateRunning \<and> sb_OwnerID sb = rq_OwnerID req \<and> sb_CreatedAt sb = db_now E \<and>
     sb_ExpiresAt sb = db_now E + ttl \<and>
     row_by sr_ID (sb_ID sb) (t_sandboxes (m_store m')) = Some (stored (sandboxRecord (db_now E) sb)) \<and>
     cached m' (sb_ID sb) = Some sb \<and>
     lease_held (sb_ID sb) (m_store m') =
       Some (sb_WorkerID sb, db_now E + (if ttl + sandboxLeaseGrace \<le> 0 then sandboxLeaseGrace else ttl + sandboxLeaseGrace))"

text \<open>The three ways of spawning end alike: lease, record, announcement.\<close>

lemma spawned_intro:
  assumes "fst (acquireSandboxLeaseFor E (sb_ID sb) (sb_WorkerID sb) (sb_ExpiresAt sb) m1) = Inr l"
    and "t_leases (m_store m2) = t_leases (m_store (snd (acquireSandboxLeaseFor E (sb_ID sb) (sb_WorkerID sb) (sb_ExpiresAt sb) m1)))"
    and "fst (on_store (CreateSandbox E (sandboxRecord (db_now E) sb)) m2) = None"
    and "m' = announce_spawn E sb d (snd (on_store (CreateSandbox E (sandboxRecord (db_now E) sb)) m2))"
    and "sb_State sb = StateRunning" "sb_OwnerID sb = rq_OwnerID req" "sb_CreatedAt sb = db_now E"
      "sb_ExpiresAt sb = db_now E + ttl"
  shows "spawned E req ttl sb m'"
    and "t_sandboxes (m_store m') = t_sandboxes (m_store m2) @ [stored (sandboxRecord (db_now E) sb)]"
    and "row_by sr_ID (sb_ID sb) (t_sandboxes (m_store m2)) = None"
    and "cached m' = (cached m2)(sb_ID sb \<mapsto> sb)" "m_calls m' = m_calls m2"
proof -
  note c = CreateSandbox_None [OF assms(3) [unfolded fst_on_store]]
  show "t_sandboxes (m_store m') = t_sandboxes (m_store m2) @ [stored (sandboxRecord (db_now E) sb)]"
    "cached m' = (cached m2)(sb_ID sb \<mapsto> sb)" "m_calls m' = m_calls m2"
    using c(1) by (simp_all add: assms(4))
  show "row_by sr_ID (sb_ID sb) (t_sandboxes (m_store m2)) = None" using c(2) by simp
  show "spawned E req ttl sb m'"
    using c acquireSandboxLeaseFor_Inr [OF assms(1)] lease_held_cong [OF assms(2), of "sb_ID sb"] assms(5-8)
    by (simp add: spawned_def assms(4) row_by_append)
qed

lemma spawnLocal_Inr:
  assumes "spawnLocal E prov req img memMB vcpus ttl m = (Inr sb, me, m')"
  shows "me = None" "spawned E req ttl sb m'" "sb_TenantID sb = rq_TenantID req" "sb_WorkerID sb = m_workerID m"
    and "m_calls m' = m_calls m @ [PSpawn prov img memMB vcpus (rq_Metadata req)]"
    and "t_sandboxes (m_store m') = t_sandboxes (m_store m) @ [stored (sandboxRecord (db_now E) sb)]"
    and "cached m' = (cached m)(sb_ID sb \<mapsto> sb)"
proof -
  let ?m1 = "snd (call (re_id E) (PSpawn prov img memMB vcpus (rq_Metadata req)) m)"
  let ?lease = "acquireSandboxLeaseFor E (sb_ID sb) (sb_WorkerID sb) (sb_ExpiresAt sb) ?m1"
  have sb: "sb_State sb = StateRunning" "sb_OwnerID sb = rq_OwnerID req" "sb_CreatedAt sb = db_now E"
      "sb_ExpiresAt sb = db_now E + ttl" "sb_TenantID sb = rq_TenantID req" "sb_WorkerID sb = m_workerID m" "me = None"
    and lease: "\<exists>l. fst ?lease = Inr l"
    and create: "fst (on_store (CreateSandbox E (sandboxRecord (db_now E) sb)) (snd ?lease)) = None"
      "m' = announce_spawn E sb ''state=running'' (snd (on_store (CreateSandbox E (sandboxRecord (db_now E) sb)) (snd ?lease)))"
    using assms
    by (auto simp: spawnLocal_def Let_def case_prod_beta acquireSandboxLease_def split: sum.splits option.splits)
  obtain l where l: "fst ?lease = Inr l" using lease by blast
  note s = spawned_intro [OF l refl create sb(1-4)]
  show "me = None" "spawned E req ttl sb m'" "sb_TenantID sb = rq_TenantID req" "sb_WorkerID sb = m_workerID m"
    using s(1) sb by auto
  show "m_calls m' = m_calls m @ [PSpawn prov img memMB vcpus (rq_Metadata req)]"
    "t_sandboxes (m_store m') = t_sandboxes (m_store m) @ [stored (sandboxRecord (db_now E) sb)]"
    "cached m' = (cached m)(sb_ID sb \<mapsto> sb)"
    using s by simp_all
qed

lemma spawnLocal_Inl:
  assumes "isl (fst (spawnLocal E prov req img memMB vcpus ttl m))"
  defines "m' \<equiv> snd (snd (spawnLocal E prov req img memMB vcpus ttl m))"
  shows "fst (snd (spawnLocal E prov req img memMB vcpus ttl m)) \<noteq> None"
    and "t_sandboxes (m_store m') = t_sandboxes (m_store m)" "cached m' = cached m"
    and "m_calls m' = m_calls m @ PSpawn prov img memMB vcpus (rq_Metadata req) #
           (case re_id E (m_calls m) (PSpawn prov img memMB vcpus (rq_Metadata req)) of
              Inl _ \<Rightarrow> [] | Inr i \<Rightarrow> [PDestroy prov i])"
  using assms(1) unfolding m'_def
  by (auto simp: spawnLocal_def Let_def case_prod_beta acquireSandboxLease_def t_sandboxes_CreateSandbox
      split: sum.splits option.splits)

lemma spawnLocal_frame:
  "m_cfg (snd (snd (spawnLocal E prov req img memMB vcpus ttl m))) = m_cfg m"
  "m_registry (snd (snd (spawnLocal E prov req img memMB vcpus ttl m))) = m_registry m"
  "m_vmPool (snd (snd (spawnLocal E prov req img memMB vcpus ttl m))) = m_vmPool m"
  "m_queueWaiters (snd (snd (spawnLocal E prov req img memMB vcpus ttl m))) = m_queueWaiters m"
  by (auto simp: spawnLocal_def Let_def case_prod_beta acquireSandboxLease_def split: sum.splits option.splits)

lemma spawnRemote_Inr:
  assumes "spawnRemote E w req prov img memMB vcpus ttl m = (Inr sb, m')"
  shows "spawned E req ttl sb m'" "sb_WorkerID sb = w" "sb_TenantID sb = []"
    and "t_sandboxes (m_store m') = t_sandboxes (m_store m) @ [stored (sandboxRecord (db_now E) sb)]"
    and "cached m' = (cached m)(sb_ID sb \<mapsto> sb)" "sb_ID sb = generateSandboxID E"
proof -
  let ?lease = "acquireSandboxLeaseFor E (sb_ID sb) (sb_WorkerID sb) (sb_ExpiresAt sb) m"
  let ?m2 = "\<lambda>url l. snd (call (re_spawned E)
       (RSpawn url (''spawn-'' @ sb_ID sb) (leaseTokenFromStore l) (sb_ID sb) img prov memMB vcpus
                 (rq_OwnerID req) (Duration_String ttl) (rq_Metadata req)) (snd ?lease))"
  have "\<exists>url l m2. remoteWorkerRPCClient E w m = Inr url \<and> fst ?lease = Inr l \<and> m2 = ?m2 url l \<and>
      sb_ID sb = generateSandboxID E \<and> sb_TenantID sb = [] \<and> sb_WorkerID sb = w \<and>
      t_leases (m_store m2) = t_leases (m_store (snd ?lease)) \<and>
      t_sandboxes (m_store m2) = t_sandboxes (m_store m) \<and> cached m2 = cached m \<and>
      fst (on_store (CreateSandbox E (sandboxRecord (db_now E) sb)) m2) = None \<and>
      m' = announce_spawn E sb (''state=running remote_worker='' @ w)
             (snd (on_store (CreateSandbox E (sandboxRecord (db_now E) sb)) m2)) \<and>
      sb_State sb = StateRunning \<and> sb_OwnerID sb = rq_OwnerID req \<and> sb_CreatedAt sb = db_now E \<and>
      sb_ExpiresAt sb = db_now E + ttl"
    using assms
    by (auto simp: spawnRemote_def Let_def case_prod_beta split: sum.splits option.splits prod.splits)
  then obtain l m2 where f: "sb_ID sb = generateSandboxID E" "sb_TenantID sb = []" "sb_WorkerID sb = w"
    and s: "fst ?lease = Inr l" "t_leases (m_store m2) = t_leases (m_store (snd ?lease))"
      "fst (on_store (CreateSandbox E (sandboxRecord (db_now E) sb)) m2) = None"
      "m' = announce_spawn E sb (''state=running remote_worker='' @ w)
             (snd (on_store (CreateSandbox E (sandboxRecord (db_now E) sb)) m2))"
      "sb_State sb = StateRunning" "sb_OwnerID sb = rq_OwnerID req" "sb_CreatedAt sb = db_now E"
      "sb_ExpiresAt sb = db_now E + ttl"
    and m2: "t_sandboxes (m_store m2) = t_sandboxes (m_store m)" "cached m2 = cached m"
    by blast
  note r = spawned_intro [OF s]
  show "spawned E req ttl sb m'" "sb_WorkerID sb = w" "sb_TenantID sb = []" "sb_ID sb = generateSandboxID E"
    "t_sandboxes (m_store m') = t_sandboxes (m_store m) @ [stored (sandboxRecord (db_now E) sb)]"
    "cached m' = (cached m)(sb_ID sb \<mapsto> sb)"
    using r f m2 by simp_all
qed

lemma spawnRemote_Inl:
  assumes "isl (fst (spawnRemote E w req prov img memMB vcpus ttl m))"
  shows "t_sandboxes (m_store (snd (spawnRemote E w req prov img memMB vcpus ttl m))) = t_sandboxes (m_store m)"
    "cached (snd (spawnRemote E w req prov img memMB vcpus ttl m)) = cached m"
  using assms
  by (auto simp: spawnRemote_def Let_def case_prod_beta frame t_sandboxes_CreateSandbox
      split: sum.splits option.splits prod.splits)

lemma spawnRemote_frame:
  "m_cfg (snd (spawnRemote E w req prov img memMB vcpus ttl m)) = m_cfg m"
  "m_registry (snd (spawnRemote E w req prov img memMB vcpus ttl m)) = m_registry m"
  "m_vmPool (snd (spawnRemote E w req prov img memMB vcpus ttl m)) = m_vmPool m"
  "m_queueWaiters (snd (spawnRemote E w req prov img memMB vcpus ttl m)) = m_queueWaiters m"
  by (auto simp: spawnRemote_def Let_def case_prod_beta split: sum.splits option.splits prod.splits)

lemma spawn_vm_tables:
  "t_sandboxes (m_store (snd (spawn_vm E prov img memMB vcpus m))) = t_sandboxes (m_store m) @
     (case fst (spawn_vm E prov img memMB vcpus m) of Inl _ \<Rightarrow> [] | Inr vm \<Rightarrow> [stored (sandboxRecord (db_now E) vm)])"
  "cached (snd (spawn_vm E prov img memMB vcpus m)) =
     (case fst (spawn_vm E prov img memMB vcpus m) of Inl _ \<Rightarrow> cached m | Inr vm \<Rightarrow> (cached m)(sb_ID vm \<mapsto> vm))"
  by (auto simp: spawn_vm_def Let_def case_prod_beta acquireSandboxLease_def t_sandboxes_CreateSandbox
      split: sum.splits option.splits)

lemma spawn_vm_frame [simp]:
  "m_cfg (snd (spawn_vm E prov img memMB vcpus m)) = m_cfg m"
  "m_registry (snd (spawn_vm E prov img memMB vcpus m)) = m_registry m"
  "m_vmPool (snd (spawn_vm E prov img memMB vcpus m)) = m_vmPool m"
  "m_queueWaiters (snd (spawn_vm E prov img memMB vcpus m)) = m_queueWaiters m"
  by (auto simp: spawn_vm_def Let_def case_prod_beta acquireSandboxLease_def split: sum.splits option.splits)

lemma spawnDirect_tables:
  "t_sandboxes (m_store (snd (spawnDirect E req m))) = t_sandboxes (m_store m) @
     (case fst (spawnDirect E req m) of Inl _ \<Rightarrow> [] | Inr vm \<Rightarrow> [stored (sandboxRecord (db_now E) vm)])"
  "cached (snd (spawnDirect E req m)) =
     (case fst (spawnDirect E req m) of Inl _ \<Rightarrow> cached m | Inr vm \<Rightarrow> (cached m)(sb_ID vm \<mapsto> vm))"
  by (simp_all add: spawnDirect_def spawn_vm_tables split: sum.split del: if_split)

lemma spawnDirect_frame [simp]:
  "m_cfg (snd (spawnDirect E req m)) = m_cfg m"
  "m_registry (snd (spawnDirect E req m)) = m_registry m"
  "m_vmPool (snd (spawnDirect E req m)) = m_vmPool m"
  "m_queueWaiters (snd (spawnDirect E req m)) = m_queueWaiters m"
  by (simp_all add: spawnDirect_def split: sum.split)

lemma pool_acquire_frame [simp]:
  "m_cfg (snd (pool_acquire E p m)) = m_cfg m"
  "m_registry (snd (pool_acquire E p m)) = m_registry m"
  by (auto simp: pool_acquire_def Let_def case_prod_beta split: vm_try.split sum.split)

text \<open>An acquisition adds the record of the VM it spawned, if it spawned one.\<close>

lemma pool_acquire_tables:
  "\<exists>vms. t_sandboxes (m_store (snd (pool_acquire E p m))) = t_sandboxes (m_store m) @ vms \<and>
     (vms \<noteq> [] \<longrightarrow> (\<exists>vm. vms = [stored (sandboxRecord (db_now E) vm)] \<and> fst (pool_acquire E p m) = Inr (sb_ID vm)))"
  by (auto simp: pool_acquire_def Let_def case_prod_beta spawnDirect_tables split: vm_try.split sum.split)

lemma spawnPooled_Inr:
  assumes "spawnPooled E p prov req img memMB vcpus ttl m = (Inr sb, m')"
  shows "spawned E req ttl sb m'"
    and "\<exists>vms. length vms \<le> 1 \<and>
      t_sandboxes (m_store m') = t_sandboxes (m_store m) @ vms @ [stored (sandboxRecord (db_now E) sb)]"
    and "sb_TenantID sb = []" "sb_WorkerID sb = m_workerID m" "fst (pool_acquire E p m) = Inr (sb_VMID sb)"
    and spawnPooled_appends: "t_sandboxes (m_store m') =
      t_sandboxes (m_store (snd (pool_acquire E p m))) @ [stored (sandboxRecord (db_now E) sb)]"
proof -
  let ?m1 = "snd (pool_acquire E p m)"
  let ?lease = "acquireSandboxLeaseFor E (sb_ID sb) (sb_WorkerID sb) (sb_ExpiresAt sb) ?m1"
  let ?m2 = "snd (call (re_exec E) (PExec prov (sb_VMID sb)
              \<lparr>xr_Command = ''mkdir -p '' @ ''/workspace/'' @ sb_ID sb, xr_Args = [], xr_Mode = [], xr_Env = [],
               xr_WorkDir = [], xr_Timeout = []\<rparr> []) (snd ?lease))"
  have sb: "sb_State sb = StateRunning" "sb_OwnerID sb = rq_OwnerID req" "sb_CreatedAt sb = db_now E"
      "sb_ExpiresAt sb = db_now E + ttl" "sb_TenantID sb = []" "sb_WorkerID sb = m_workerID m"
      "fst (pool_acquire E p m) = Inr (sb_VMID sb)"
    and lease: "\<exists>l. fst ?lease = Inr l"
    and create: "fst (on_store (CreateSandbox E (sandboxRecord (db_now E) sb)) ?m2) = None"
      "m' = announce_spawn E sb ''state=running pooled=true''
         (snd (on_store (CreateSandbox E (sandboxRecord (db_now E) sb)) ?m2))"
    using assms
    by (auto simp: spawnPooled_def Let_def case_prod_beta acquireSandboxLease_def split: sum.splits option.splits if_splits)
  obtain l where l: "fst ?lease = Inr l" using lease by blast
  have m2: "t_leases (m_store ?m2) = t_leases (m_store (snd ?lease))" by simp
  note s = spawned_intro [OF l m2 create sb(1-4)]
  show "spawned E req ttl sb m'" "sb_TenantID sb = []" "sb_WorkerID sb = m_workerID m"
    "fst (pool_acquire E p m) = Inr (sb_VMID sb)"
    using s(1) sb by auto
  show "t_sandboxes (m_store m') =
      t_sandboxes (m_store (snd (pool_acquire E p m))) @ [stored (sandboxRecord (db_now E) sb)]"
    using s(2) by simp
  obtain vms where "t_sandboxes (m_store ?m1) = t_sandboxes (m_store m) @ vms" "length vms \<le> 1"
    using pool_acquire_tables [of E p m] by (metis One_nat_def le_refl length_Cons list.size(3) zero_le_one)
  then show "\<exists>vms. length vms \<le> 1 \<and>
      t_sandboxes (m_store m') = t_sandboxes (m_store m) @ vms @ [stored (sandboxRecord (db_now E) sb)]"
    using s(2) by auto
qed

section \<open>Under the admission lock\<close>

lemma spawn_admitted_Inr:
  assumes "spawn_admitted E prov req img memMB vcpus ttl m = (Inr sb, me, m')"
  shows "me = None" "spawned E req ttl sb m'"
    and "m_vmPool m = None \<Longrightarrow> t_sandboxes (m_store m') = t_sandboxes (m_store m) @ [stored (sandboxRecord (db_now E) sb)]"
proof -
  consider (pool) p where "m_vmPool m = Some p" "spawnPooled E p prov req img memMB vcpus ttl m = (Inr sb, m')" "me = None"
    | (remote) w where "m_vmPool m = None" "spawnRemote E w req prov img memMB vcpus ttl m = (Inr sb, m')" "me = None"
    | (loc) "m_vmPool m = None" "spawnLocal E prov req img memMB vcpus ttl m = (Inr sb, me, m')"
    using assms by (auto simp: spawn_admitted_def Let_def split: option.splits prod.splits sum.splits if_splits)
  then show "me = None" "spawned E req ttl sb m'"
    "m_vmPool m = None \<Longrightarrow> t_sandboxes (m_store m') = t_sandboxes (m_store m) @ [stored (sandboxRecord (db_now E) sb)]"
    by (cases; simp add: spawnPooled_Inr(1) spawnRemote_Inr(1,4) spawnLocal_Inr(1,2,6))+
qed

lemma spawnPooled_cfg: "m_cfg (snd (spawnPooled E p prov req img memMB vcpus ttl m)) = m_cfg m"
  by (simp add: spawnPooled_def Let_def case_prod_beta acquireSandboxLease_def split: option.split sum.split)

lemma spawn_admitted_cfg: "m_cfg (snd (snd (spawn_admitted E prov req img memMB vcpus ttl m))) = m_cfg m"
  by (simp add: spawn_admitted_def Let_def case_prod_beta spawnLocal_frame spawnRemote_frame spawnPooled_cfg
      split: option.split sum.split)

lemma pool_acquire_pool: "m_vmPool m = Some p \<Longrightarrow> m_vmPool (snd (pool_acquire E p m)) \<noteq> None"
  by (simp add: pool_acquire_def case_prod_beta set_pool_def split: vm_try.split sum.split)

lemma spawn_admitted_pool:
  assumes "spawn_admitted E prov req img memMB vcpus ttl m = (Inr sb, me, m')" "m_vmPool m \<noteq> None"
  shows "m_vmPool m' \<noteq> None"
proof -
  obtain p where p: "m_vmPool m = Some p" using assms(2) by blast
  then have "spawnPooled E p prov req img memMB vcpus ttl m = (Inr sb, m')"
    using assms(1) by (auto simp: spawn_admitted_def Let_def split: prod.splits sum.splits)
  then have "m_vmPool m' = m_vmPool (snd (pool_acquire E p m))"
    by (auto simp: spawnPooled_def Let_def case_prod_beta acquireSandboxLease_def
        split: sum.splits option.splits if_splits)
  then show ?thesis using pool_acquire_pool [OF p] by metis
qed

section \<open>Destroying\<close>

text \<open>Destroying only ever marks records as destroyed.\<close>

definition marks :: "SandboxRecord list \<Rightarrow> SandboxRecord list \<Rightarrow> bool" where
  "marks = list_all2 (\<lambda>r r'. r' = r \<or> (\<exists>t. r' = r\<lparr>sr_State := StateDestroyed, sr_UpdatedAt := t\<rparr>))"

lemma marks_refl [simp, intro]: "marks t t"
  by (simp add: marks_def list_all2_refl)

lemma marks_trans: "marks s t \<Longrightarrow> marks t u \<Longrightarrow> marks s u"
  unfolding marks_def by (erule (1) list_all2_trans [rotated]) auto

lemma marks_UpdateSandboxState: "marks (t_sandboxes s) (t_sandboxes (snd (UpdateSandboxState E i StateDestroyed s)))"
  by (auto simp: marks_def UpdateSandboxState_def upd_where_def list_all2_map2 intro!: list_all2_refl
      split: option.split)

lemma marks_live:
  "marks t t' \<Longrightarrow> length (filter (\<lambda>r. sr_State r \<noteq> StateDestroyed) t') \<le> length (filter (\<lambda>r. sr_State r \<noteq> StateDestroyed) t)"
  unfolding marks_def by (induction rule: list_all2_induct) auto

lemma marks_frames [simp]:
  "marks t (t_sandboxes (snd (UpdateSandboxState E i StateDestroyed s))) = True" if "marks t (t_sandboxes s)"
  using marks_trans [OF that marks_UpdateSandboxState] by simp

lemma marks_DeleteSandbox [simp]:
  "marks t (t_sandboxes (snd (DeleteSandbox E i s)))" if "marks t (t_sandboxes s)"
  using that by (simp add: DeleteSandbox_def)

lemma destroyRemote_marks: "marks (t_sandboxes (m_store m)) (t_sandboxes (m_store (snd (destroyRemote E i sb m))))"
  by (simp add: destroyRemote_def Let_def case_prod_beta frame split: sum.split option.split)

lemma destroyPooled_marks: "marks (t_sandboxes (m_store m)) (t_sandboxes (m_store (destroyPooled E i sb m)))"
  by (simp add: destroyPooled_def Let_def case_prod_beta split: sum.split)

lemma destroyLocal_marks: "marks (t_sandboxes (m_store m)) (t_sandboxes (m_store (destroyLocal E i p sb m)))"
  by (simp add: destroyLocal_def Let_def case_prod_beta split: sum.split option.split)

text \<open>The branches of \<open>Destroy\<close>.\<close>

abbreviation remote_owned :: "mgr \<Rightarrow> Sandbox \<Rightarrow> bool" where
  "remote_owned m b \<equiv> TrimSpace (sb_WorkerID b) \<noteq> [] \<and> sb_WorkerID b \<noteq> m_workerID m"

abbreviation destroy_lease :: "env \<Rightarrow> string \<Rightarrow> Sandbox \<Rightarrow> mgr \<Rightarrow> (error + LeaseRecord) \<times> mgr" where
  "destroy_lease E i b m \<equiv> acquireSandboxLeaseFor E i (m_workerID m) (sb_ExpiresAt b) m"

definition destroy_failed :: "env \<Rightarrow> string \<Rightarrow> Sandbox \<Rightarrow> error \<Rightarrow> string \<Rightarrow> mgr \<Rightarrow> mgr" where
  "destroy_failed E i b err detail m =
     recordOperation E OperationDestroy (sb_Provider b) (Some err)
       (auditOperation E ''sandbox.destroy'' (Some b) i [] ''failure'' detail
         (publishOperationFailure E EventOperationFailed i OperationDestroy (sb_Provider b) err m))"

definition destroy_done :: "env \<Rightarrow> Sandbox option \<Rightarrow> mgr \<Rightarrow> mgr" where
  "destroy_done E sb m =
     recordOperation E OperationDestroy (case sb of Some b \<Rightarrow> sb_Provider b | None \<Rightarrow> ''unknown'') None m"

lemma Destroy_cases:
  obtains
    (unknown) "find_sandbox E i m = None"
      "Destroy E i m = (None, destroy_done E None (destroyLocal E i ''unknown'' None m))"
  | (remote_fails) b err where "find_sandbox E i m = Some b" "remote_owned m b" "fst (destroyRemote E i b m) = Some err"
      "Destroy E i m = (Some err, destroy_failed E i b err (err_msg err) (snd (destroyRemote E i b m)))"
  | (remote) b where "find_sandbox E i m = Some b" "remote_owned m b" "fst (destroyRemote E i b m) = None"
      "Destroy E i m = (None, destroy_done E (Some b) (auditOperation E ''sandbox.destroy'' (Some b) i [] ''success''
         (''remote_worker='' @ sb_WorkerID b) (snd (destroyRemote E i b m))))"
  | (lease_fails) b err where "find_sandbox E i m = Some b" "\<not> remote_owned m b" "fst (destroy_lease E i b m) = Inl err"
      "Destroy E i m = (Some err, destroy_failed E i b err (''lease_unavailable: '' @ err_msg err) (snd (destroy_lease E i b m)))"
  | (pooled) b l where "find_sandbox E i m = Some b" "\<not> remote_owned m b" "fst (destroy_lease E i b m) = Inr l"
      "sb_VMID b \<noteq> []" "m_vmPool m \<noteq> None"
      "Destroy E i m = (None, destroy_done E (Some b) (auditOperation E ''sandbox.destroy'' (Some b) i [] ''success''
         ''pooled=true'' (destroyPooled E i b (snd (destroy_lease E i b m)))))"
  | (local_vm) b l where "find_sandbox E i m = Some b" "\<not> remote_owned m b" "fst (destroy_lease E i b m) = Inr l"
      "sb_VMID b = [] \<or> m_vmPool m = None"
      "Destroy E i m = (None, destroy_done E (Some b)
         (destroyLocal E i (sb_Provider b) (Some b) (snd (destroy_lease E i b m))))"
proof -
  note d = Destroy_def Let_def case_prod_beta acquireSandboxLease_def destroy_failed_def destroy_done_def
  show thesis
  proof (cases "find_sandbox E i m")
    case None
    then show thesis by (intro unknown) (simp_all add: d)
  next
    case (Some b)
    note b = this
    show thesis
    proof (cases "remote_owned m b")
      case True
      then show thesis
        using remote_fails [OF b True] remote [OF b True] b
        by (cases "fst (destroyRemote E i b m)") (simp_all add: d)
    next
      case False
      then have rm: "\<not> (TrimSpace (sb_WorkerID b) \<noteq> [] \<and> sb_WorkerID b \<noteq> m_workerID m)" .
      show thesis
      proof (cases "fst (destroy_lease E i b m)")
        case (Inl err)
        show thesis by (rule lease_fails [OF b False Inl]) (simp add: d b rm Inl del: de_Morgan_conj)
      next
        case (Inr l)
        show thesis
        proof (cases "sb_VMID b \<noteq> [] \<and> m_vmPool m \<noteq> None")
          case True
          then show thesis
            by (intro pooled [OF b False Inr]) (simp_all add: d b rm Inr del: de_Morgan_conj)
        next
          case other: False
          then have vm: "sb_VMID b = [] \<or> m_vmPool m = None" by blast
          from other show thesis
            by (intro local_vm [OF b False Inr vm]) (simp_all add: d b rm Inr del: de_Morgan_conj not_None_eq)
        qed
      qed
    qed
  qed
qed

lemma destroy_wrap_simps [simp]:
  "m_cfg (destroy_failed E i b err dt m) = m_cfg m" "m_cfg (destroy_done E osb m) = m_cfg m"
  "t_sandboxes (m_store (destroy_failed E i b err dt m)) = t_sandboxes (m_store m)"
  "t_sandboxes (m_store (destroy_done E osb m)) = t_sandboxes (m_store m)"
  "t_leases (m_store (destroy_failed E i b err dt m)) = t_leases (m_store m)"
  "t_leases (m_store (destroy_done E osb m)) = t_leases (m_store m)"
  "cached (destroy_failed E i b err dt m) = cached m" "cached (destroy_done E osb m) = cached m"
  "m_capacityGen (destroy_failed E i b err dt m) = m_capacityGen m"
  "m_capacityGen (destroy_done E osb m) = m_capacityGen m"
  "m_calls (destroy_failed E i b err dt m) = m_calls m" "m_calls (destroy_done E osb m) = m_calls m"
  "m_vmPool (destroy_failed E i b err dt m) = m_vmPool m" "m_vmPool (destroy_done E osb m) = m_vmPool m"
  by (simp_all add: destroy_failed_def destroy_done_def)

lemma Destroy_marks: "marks (t_sandboxes (m_store m)) (t_sandboxes (m_store (snd (Destroy E i m))))"
  by (rule Destroy_cases [of E i m];
      simp add: destroyRemote_marks destroyPooled_marks [of "snd (destroy_lease E i b m)" E i for b, simplified]
        destroyLocal_marks destroyLocal_marks [of "snd (destroy_lease E i b m)" E i for b, simplified])

lemma destroy_frames [simp]:
  "m_cfg (snd (destroyRemote E i sb m)) = m_cfg m"
  "m_cfg (destroyPooled E i sb m) = m_cfg m"
  "m_cfg (destroyLocal E i p osb m) = m_cfg m"
  by (simp_all add: destroyRemote_def destroyPooled_def destroyLocal_def Let_def case_prod_beta
      split: sum.split option.split)

lemma Destroy_cfg [simp]: "m_cfg (snd (Destroy E i m)) = m_cfg m"
  by (rule Destroy_cases [of E i m]; simp)

text \<open>What is left of a sandbox after its record is marked and its lease given back.\<close>

lemma state_after_update:
  assumes "db_fail E (OpUpdateSandboxState i) = None"
    and "row_by sr_ID i (t_sandboxes (snd (UpdateSandboxState E i StateDestroyed s))) = Some r"
  shows "sr_State r = StateDestroyed"
  using assms by (auto simp: row_UpdateSandboxState)

lemma capacityGen_notify [simp]: "m_capacityGen (notifySpawnCapacity m) = Suc (m_capacityGen m)"
  by (simp add: notifySpawnCapacity_def)

definition gone :: "env \<Rightarrow> string \<Rightarrow> mgr \<Rightarrow> bool" where
  "gone E i m \<longleftrightarrow> cached m i = None \<and>
     (db_fail E (OpUpdateSandboxState i) = None \<longrightarrow>
        (\<forall>r. row_by sr_ID i (t_sandboxes (m_store m)) = Some r \<longrightarrow> sr_State r = StateDestroyed))"

lemma gone_wraps [simp]:
  "gone E i (destroy_done E osb m) = gone E i m"
  "gone E i (auditOperation E a osb j res st dt m) = gone E i m"
  by (simp_all add: gone_def)

lemma destroyLocal_gone:
  "gone E i (destroyLocal E i p osb m)" "m_capacityGen (destroyLocal E i p osb m) = Suc (m_capacityGen m)"
  by (auto simp: destroyLocal_def Let_def case_prod_beta gone_def DeleteSandbox_def
      dest: state_after_update split: sum.split option.split)

lemma destroyPooled_gone:
  "gone E i (destroyPooled E i b m)" "m_capacityGen (destroyPooled E i b m) = Suc (m_capacityGen m)"
  by (auto simp: destroyPooled_def Let_def case_prod_beta gone_def
      dest: state_after_update split: sum.split)

lemma destroyRemote_gone:
  assumes "fst (destroyRemote E i b m) = None"
  shows "gone E i (snd (destroyRemote E i b m))" "m_capacityGen (snd (destroyRemote E i b m)) = Suc (m_capacityGen m)"
  using assms
  by (auto simp: destroyRemote_def Let_def case_prod_beta gone_def frame
      dest: state_after_update split: sum.splits option.splits if_splits)

lemma destroyRemote_fail:
  assumes "fst (destroyRemote E i b m) = Some e"
  shows "t_sandboxes (m_store (snd (destroyRemote E i b m))) = t_sandboxes (m_store m)"
    "cached (snd (destroyRemote E i b m)) = cached m"
    "m_capacityGen (snd (destroyRemote E i b m)) = m_capacityGen m"
  using assms
  by (auto simp: destroyRemote_def Let_def case_prod_beta UpdateSandboxState_def
      split: sum.splits option.splits if_splits)

text \<open>
  The calls a successful \<open>Destroy\<close> makes: on a remote worker's sandbox one to the worker, with
  the lease's token; on a pooled one the removal of its workspace, and the destruction of the VM
  with its last user; otherwise the provider's \<open>Destroy\<close>.  Without a provider, none.
\<close>

definition destroy_calls :: "env \<Rightarrow> string \<Rightarrow> mgr \<Rightarrow> ext_call list \<Rightarrow> bool" where
  "destroy_calls E i m new \<longleftrightarrow>
     (case find_sandbox E i m of
        None \<Rightarrow> new = []
      | Some b \<Rightarrow>
          if remote_owned m b then
            (\<exists>url l. remoteWorkerRPCClient E (sb_WorkerID b) m = Inr url \<and> GetLease E i (m_store m) = Inr l \<and>
               l_HolderID l = sb_WorkerID b \<and>
               new = [RDestroy url (''destroy-'' @ i) (leaseTokenFromStore l) i (sb_Provider b) (remoteRuntimeID b i)])
          else case registry_Get (m_registry m) (sb_Provider b) of
            Inl _ \<Rightarrow> new = []
          | Inr p \<Rightarrow>
              if sb_VMID b \<noteq> [] \<and> m_vmPool m \<noteq> None
              then new = PDeleteFile p (sb_VMID b) (''/workspace/'' @ i) True #
                (if fst (pool_release (sb_VMID b) m) then [PDestroy p (sb_VMID b)] else [])
              else new = [PDestroy p i])"

text \<open>The worker whose sandbox it is: the manager's own for one nothing is known of.\<close>

definition destroying_worker :: "env \<Rightarrow> string \<Rightarrow> mgr \<Rightarrow> string" where
  "destroying_worker E i m =
     (case find_sandbox E i m of None \<Rightarrow> m_workerID m | Some b \<Rightarrow> if remote_owned m b then sb_WorkerID b else m_workerID m)"

definition lease_returned :: "env \<Rightarrow> string \<Rightarrow> string \<Rightarrow> mgr \<Rightarrow> bool" where
  "lease_returned E i w m \<longleftrightarrow>
     (db_fail E (OpReleaseLease i) = None \<longrightarrow> (\<forall>l\<in>set (t_leases (m_store m)). l_ResourceID l = i \<longrightarrow> l_HolderID l \<noteq> w))"

lemma leases_released:
  "db_fail E (OpReleaseLease i) = None \<Longrightarrow> l \<in> set (t_leases (snd (ReleaseLease E i w s))) \<Longrightarrow>
   l_ResourceID l = i \<Longrightarrow> l_HolderID l \<noteq> w"
  by (auto simp: ReleaseLease_def Let_def rows_affected_0_iff set_del_where split: if_splits)

lemma lease_returned_wraps [simp]:
  "lease_returned E i w (destroy_done E osb m) = lease_returned E i w m"
  "lease_returned E i w (auditOperation E a osb j res st dt m) = lease_returned E i w m"
  "lease_returned E i w (publish_event E ty j d m) = lease_returned E i w m"
  "lease_returned E i w (notifySpawnCapacity m) = lease_returned E i w m"
  "lease_returned E i w (cache_del j m) = lease_returned E i w m"
  by (simp_all add: lease_returned_def frame)

lemma lease_returned_release [simp]:
  "lease_returned E i w (snd (on_store (ReleaseLease E i w) m))"
  "m_workerID m = w \<Longrightarrow> lease_returned E i w (snd (releaseSandboxLease E i m))"
  by (auto simp: lease_returned_def snd_releaseSandboxLease leases_released)

lemma destroy_returns_lease:
  "lease_returned E i (m_workerID m) (destroyLocal E i p osb m)"
  "lease_returned E i (m_workerID m) (destroyPooled E i b m)"
  "fst (destroyRemote E i b m) = None \<Longrightarrow> lease_returned E i (sb_WorkerID b) (snd (destroyRemote E i b m))"
  by (auto simp: destroyLocal_def destroyPooled_def destroyRemote_def Let_def case_prod_beta
      split: sum.splits option.splits if_splits)

lemma getProvider_found:
  "find_sandbox E i m = Some b \<Longrightarrow> getProvider E i m = registry_Get (m_registry m) (sb_Provider b)"
  "find_sandbox E i m = None \<Longrightarrow> isl (getProvider E i m)"
  by (auto simp: find_sandbox_def getProvider_def split: option.splits sum.splits)

lemma find_sandbox_lease [simp]: "find_sandbox E i (snd (acquireSandboxLeaseFor E j w t m)) = find_sandbox E i m"
  by (simp add: find_sandbox_def GetSandbox_def split: option.split)

lemma fst_pool_release_cong: "m_vmPool m = m_vmPool m' \<Longrightarrow> fst (pool_release v m) = fst (pool_release v m')"
  by (simp add: pool_release_def split: option.split)

lemma destroyLocal_calls:
  "m_calls (destroyLocal E i p osb m) = m_calls m @ (case getProvider E i m of Inl _ \<Rightarrow> [] | Inr prov \<Rightarrow> [PDestroy prov i])"
  by (simp add: destroyLocal_def Let_def case_prod_beta split: sum.split option.split)

lemma destroyPooled_calls:
  "m_calls (destroyPooled E i b m) = m_calls m @ (case registry_Get (m_registry m) (sb_Provider b) of Inl _ \<Rightarrow> [] | Inr p \<Rightarrow>
     PDeleteFile p (sb_VMID b) (''/workspace/'' @ i) True # (if fst (pool_release (sb_VMID b) m) then [PDestroy p (sb_VMID b)] else []))"
  using fst_pool_release_cong [of "snd (call (re_unit E) c m)" m "sb_VMID b" for c]
  by (simp add: destroyPooled_def Let_def case_prod_beta split: sum.split)

lemma destroyRemote_calls:
  assumes "fst (destroyRemote E i b m) = None"
  shows "\<exists>url l. remoteWorkerRPCClient E (sb_WorkerID b) m = Inr url \<and> GetLease E i (m_store m) = Inr l \<and>
    l_HolderID l = sb_WorkerID b \<and>
    m_calls (snd (destroyRemote E i b m)) =
      m_calls m @ [RDestroy url (''destroy-'' @ i) (leaseTokenFromStore l) i (sb_Provider b) (remoteRuntimeID b i)]"
  using assms by (auto simp: destroyRemote_def Let_def case_prod_beta split: sum.splits option.splits if_splits)

lemma Destroy_calls:
  assumes "fst (Destroy E i m) = None"
  shows "\<exists>new. m_calls (snd (Destroy E i m)) = m_calls m @ new \<and> destroy_calls E i m new"
proof (cases rule: Destroy_cases [of E i m])
  case (pooled b l)
  have v: "fst (pool_release (sb_VMID b) (snd (destroy_lease E i b m))) = fst (pool_release (sb_VMID b) m)"
    by (rule fst_pool_release_cong) simp
  have r: "TrimSpace (sb_WorkerID b) = [] \<or> sb_WorkerID b = m_workerID m" using pooled(2) by blast
  show ?thesis
    using pooled(1,4,5) r unfolding pooled(6) destroy_calls_def by (auto simp: destroyPooled_calls v split: sum.split)
next
  case (local_vm b l)
  have r: "TrimSpace (sb_WorkerID b) = [] \<or> sb_WorkerID b = m_workerID m" using local_vm(2) by blast
  have g: "getProvider E i (snd (destroy_lease E i b m)) = registry_Get (m_registry m) (sb_Provider b)"
    using getProvider_found(1) [of E i "snd (destroy_lease E i b m)" b] local_vm(1) by simp
  show ?thesis
    using local_vm(1,4) r unfolding local_vm(5) destroy_calls_def by (auto simp: destroyLocal_calls g split: sum.split)
next
  case unknown
  then show ?thesis
    using getProvider_found(2) [OF unknown(1)] by (auto simp: destroyLocal_calls destroy_calls_def split: sum.split)
next
  case (remote b)
  then show ?thesis using destroyRemote_calls [OF remote(3)] by (auto simp: destroy_calls_def)
qed (use assms in simp_all)

lemma Destroy_returns_lease:
  assumes "fst (Destroy E i m) = None"
  shows "lease_returned E i (destroying_worker E i m) (snd (Destroy E i m))"
proof (cases rule: Destroy_cases [of E i m])
  case (pooled b l)
  then show ?thesis
    using destroy_returns_lease(2) [of E i "snd (destroy_lease E i b m)" b] by (auto simp: destroying_worker_def)
next
  case (local_vm b l)
  then show ?thesis
    using destroy_returns_lease(1) [of E i "snd (destroy_lease E i b m)"] by (auto simp: destroying_worker_def)
next
  case (remote b)
  then show ?thesis using destroy_returns_lease(3) [OF remote(3)] by (simp add: destroying_worker_def)
qed (use assms in \<open>simp_all add: destroying_worker_def destroy_returns_lease\<close>)

text \<open>
  C4. After a \<open>Destroy\<close> that reports no error the sandbox is not in the cache, the worker it ran on
  holds no lease of it any more (unless the database refused the release), the waiters of the
  spawn queue are told that capacity is free, and the calls made are exactly those that end it
  (\<open>destroy_calls\<close>): the provider's, the remote worker's, or the workspace of a shared VM and the
  VM with its last user; none when its provider is not registered any more.  Its record is in the state
  \<open>destroyed\<close> on the condition that the database takes the update: the code does not look
  at a failing update and reports success with a live record.  Neither does it look at the answer of the
  provider's call.  When \<open>Destroy\<close> reports an error, the table of sandboxes, the cache and the
  queue's signal are as before.
\<close>

theorem destroy_outcome:
  "(fst (Destroy E i m) = None \<longrightarrow>
      cached (snd (Destroy E i m)) i = None \<and>
      (db_fail E (OpUpdateSandboxState i) = None \<longrightarrow>
         (\<forall>r. row_by sr_ID i (t_sandboxes (m_store (snd (Destroy E i m)))) = Some r \<longrightarrow> sr_State r = StateDestroyed)) \<and>
      lease_returned E i (destroying_worker E i m) (snd (Destroy E i m)) \<and>
      (\<exists>new. m_calls (snd (Destroy E i m)) = m_calls m @ new \<and> destroy_calls E i m new) \<and>
      m_capacityGen (snd (Destroy E i m)) = Suc (m_capacityGen m)) \<and>
   (\<forall>e. fst (Destroy E i m) = Some e \<longrightarrow>
      t_sandboxes (m_store (snd (Destroy E i m))) = t_sandboxes (m_store m) \<and>
      cached (snd (Destroy E i m)) = cached m \<and> m_capacityGen (snd (Destroy E i m)) = m_capacityGen m)"
proof (intro conjI impI allI)
  assume ok: "fst (Destroy E i m) = None"
  then have g: "gone E i (snd (Destroy E i m)) \<and> m_capacityGen (snd (Destroy E i m)) = Suc (m_capacityGen m)"
    by (cases rule: Destroy_cases [of E i m]) (simp_all add: destroyLocal_gone destroyPooled_gone destroyRemote_gone)
  show "cached (snd (Destroy E i m)) i = None" "m_capacityGen (snd (Destroy E i m)) = Suc (m_capacityGen m)"
    using g by (simp_all add: gone_def)
  show "lease_returned E i (destroying_worker E i m) (snd (Destroy E i m))" by (rule Destroy_returns_lease [OF ok])
  show "\<exists>new. m_calls (snd (Destroy E i m)) = m_calls m @ new \<and> destroy_calls E i m new" by (rule Destroy_calls [OF ok])
  fix r
  assume "db_fail E (OpUpdateSandboxState i) = None"
    "row_by sr_ID i (t_sandboxes (m_store (snd (Destroy E i m)))) = Some r"
  then show "sr_State r = StateDestroyed" using g by (simp add: gone_def)
next
  fix e
  assume "fst (Destroy E i m) = Some e"
  then show "t_sandboxes (m_store (snd (Destroy E i m))) = t_sandboxes (m_store m)"
    "cached (snd (Destroy E i m)) = cached m" "m_capacityGen (snd (Destroy E i m)) = m_capacityGen m"
    by (cases rule: Destroy_cases [of E i m]; simp add: destroyRemote_fail)+
qed

definition sample_destroyed :: mgr where
  "sample_destroyed = snd (Destroy sample_env ''sb-a'' sample_full)"

theorem destroy_outcome_witness:
  "cached sample_destroyed ''sb-a'' = None \<and> m_calls sample_destroyed = [PDestroy ''mock'' ''sb-a''] \<and>
   m_capacityGen sample_destroyed = 1"
proof -
  let ?b = "recordToSandbox (sample_row ''sb-a'' ''bob'')"
  have b: "find_sandbox sample_env ''sb-a'' sample_full = Some ?b"
    "sb_WorkerID ?b = m_workerID sample_full" "sb_VMID ?b = []" "m_calls sample_full = []"
    "registry_Get (m_registry sample_full) (sb_Provider ?b) = Inr ''mock''"
    "\<not> isl (fst (destroy_lease sample_env ''sb-a'' ?b sample_full))"
    "m_capacityGen sample_full = 0"
    by code_simp+
  then have "fst (Destroy sample_env ''sb-a'' sample_full) = None"
    by (cases rule: Destroy_cases [of sample_env "''sb-a''" sample_full]) auto
  then show ?thesis
    using destroy_outcome [of sample_env "''sb-a''" sample_full] b by (simp add: sample_destroyed_def destroy_calls_def)
qed

section \<open>Spawn as a whole\<close>

lemma Spawn_Inr:
  assumes "Spawn E rounds req m = (Some (Inr sb), m')"
  obtains prov ownerID ttl img memMB vcpus m1 m2 where
    "registry_Get (m_registry m) (rq_Provider req) = Inr prov"
    "(if rq_TTL req \<noteq> [] then ParseDuration (rq_TTL req) else Inr (mc_defaultTTL (m_cfg m))) = Inr ttl"
    "normalizeOptionalOwnerID (rq_OwnerID req) = Inr ownerID"
    "acquireSpawnAdmission ownerID ttl prov rounds m = (Some None, m1)"
    "spawn_admitted E prov (req\<lparr>rq_OwnerID := ownerID\<rparr>) img memMB vcpus ttl m1 = (Inr sb, None, m2)"
    "m' = recordOperation E OperationSpawn prov None m2"
proof -
  from assms obtain prov where prov: "registry_Get (m_registry m) (rq_Provider req) = Inr prov"
    by (auto simp: Spawn_def Let_def split: sum.splits)
  from assms prov obtain ttl where ttl:
    "(if rq_TTL req \<noteq> [] then ParseDuration (rq_TTL req) else Inr (mc_defaultTTL (m_cfg m))) = Inr ttl"
    by (auto simp: Spawn_def Let_def split: sum.splits)
  from assms prov ttl obtain ownerID where owner: "normalizeOptionalOwnerID (rq_OwnerID req) = Inr ownerID"
    by (auto simp: Spawn_def Let_def simp del: not_None_eq split: sum.splits if_split_asm)
  let ?img = "if rq_Image req = [] then mc_defaultImage (m_cfg m) else rq_Image req"
  let ?mem = "if rq_MemoryMB req = 0 then mc_defaultMemory (m_cfg m) else rq_MemoryMB req"
  let ?vc = "if rq_VCPUs req = 0 then mc_defaultVCPUs (m_cfg m) else rq_VCPUs req"
  obtain a m1 where acq: "acquireSpawnAdmission ownerID ttl prov rounds m = (a, m1)" by force
  obtain r me m2 where sp: "spawn_admitted E prov (req\<lparr>rq_OwnerID := ownerID\<rparr>) ?img ?mem ?vc ttl m1 = (r, me, m2)"
    by (metis prod_cases3)
  have "Spawn E rounds req m = (case a of None \<Rightarrow> (None, m1)
      | Some (Some err) \<Rightarrow> (Some (Inl err), recordOperation E OperationSpawn prov (Some err)
                      (publishFailureForError E [] OperationSpawn prov err m1))
      | Some None \<Rightarrow> (Some r, recordOperation E OperationSpawn prov me m2))"
    unfolding Spawn_def Let_def prov sum.case ttl owner acq prod.case sp
    by (simp split: option.split del: if_split)
  then have "a = Some None" "r = Inr sb" "m' = recordOperation E OperationSpawn prov me m2"
    using assms by (auto split: option.splits)
  then show thesis
    using that [OF prov ttl owner] acq sp spawn_admitted_Inr(1) by metis
qed

text \<open>
  C1. What a successful \<open>Spawn\<close> leaves, on whichever way it took (provider, remote worker, shared
  VM) and after whatever waits: the sandbox is running, it belongs to the trimmed owner of the
  request, it expires a TTL after now; the store has exactly its record under its id, the cache
  has it, and its worker holds its lease until five minutes after it expires.
\<close>

theorem spawn_success:
  assumes "Spawn E rounds req m = (Some (Inr sb), m')"
  shows "\<exists>ttl. (if rq_TTL req \<noteq> [] then ParseDuration (rq_TTL req) else Inr (mc_defaultTTL (m_cfg m))) = Inr ttl \<and>
    spawned E (req\<lparr>rq_OwnerID := TrimSpace (rq_OwnerID req)\<rparr>) ttl sb m'"
proof -
  obtain prov ownerID ttl img memMB vcpus m1 m2 where
    ttl: "(if rq_TTL req \<noteq> [] then ParseDuration (rq_TTL req) else Inr (mc_defaultTTL (m_cfg m))) = Inr ttl"
    and owner: "normalizeOptionalOwnerID (rq_OwnerID req) = Inr ownerID"
    and sp: "spawn_admitted E prov (req\<lparr>rq_OwnerID := ownerID\<rparr>) img memMB vcpus ttl m1 = (Inr sb, None, m2)"
    and m': "m' = recordOperation E OperationSpawn prov None m2"
    by (rule Spawn_Inr [OF assms])
  have "spawned E (req\<lparr>rq_OwnerID := ownerID\<rparr>) ttl sb m'"
    using spawn_admitted_Inr(2) [OF sp] by (simp add: spawned_def m')
  with ttl owner show ?thesis by (simp add: normalizeOptionalOwnerID_Inr)
qed

definition sample_run :: "(error + Sandbox) option \<times> mgr" where
  "sample_run = Spawn sample_env (alone sample_env) sample_spawn sample_mgr"

text \<open>Enough for a spawn on a provider to succeed.\<close>

lemma spawnLocal_succeeds:
  fixes E m prov req img memMB vcpus ttl
  defines "sb \<equiv> (\<lambda>i. \<lparr>sb_ID = i, sb_State = StateRunning, sb_Provider = prov, sb_Image = img, sb_MemoryMB = memMB,
            sb_VCPUs = vcpus, sb_OwnerID = rq_OwnerID req, sb_TenantID = rq_TenantID req, sb_VMID = [],
            sb_WorkerID = m_workerID m, sb_CreatedAt = db_now E, sb_ExpiresAt = db_now E + ttl,
            sb_Metadata = rq_Metadata req, sb_PreviewDomain = mc_previewDomain (m_cfg m)\<rparr>)"
  assumes "re_id E (m_calls m) (PSpawn prov img memMB vcpus (rq_Metadata req)) = Inr i"
    and "0 < ttl + sandboxLeaseGrace"
    and "\<not> isl (fst (AcquireLease E i ''sandbox'' (m_workerID m) (ttl + sandboxLeaseGrace) (m_store m)))"
    and "db_fail E (OpCreateSandbox i) = None" "row_by sr_ID i (t_sandboxes (m_store m)) = None"
  shows "fst (spawnLocal E prov req img memMB vcpus ttl m) = Inr (sb i)"
  using assms(2-)
  by (auto simp: sb_def spawnLocal_def Let_def case_prod_beta acquireSandboxLease_def acquireSandboxLeaseFor_on_store
      CreateSandbox_def sandboxRecord_def frame split: sum.split option.split)

lemma sample_run_local:
  "\<exists>img memMB vcpus. let r = spawnLocal sample_env ''mock'' (sample_spawn\<lparr>rq_OwnerID := ''alice''\<rparr>) img memMB vcpus
      (10 * Minute) sample_mgr
   in \<not> isl (fst r) \<and> sample_run = (Some (fst r), recordOperation sample_env OperationSpawn ''mock'' (fst (snd r)) (snd (snd r)))"
proof -
  let ?E = sample_env and ?m = sample_mgr
  have pre: "registry_Get (m_registry ?m) (rq_Provider sample_spawn) = Inr ''mock''"
    "rq_TTL sample_spawn \<noteq> []" "ParseDuration (rq_TTL sample_spawn) = Inr (10 * Minute)"
    "normalizeOptionalOwnerID (rq_OwnerID sample_spawn) = Inr ''alice''"
    "m_vmPool ?m = None" by code_simp+
  have adm: "acquireSpawnAdmission ''alice'' (10 * Minute) ''mock'' (alone ?E) ?m = (Some None, ?m)"
  proof -
    have "\<not> isl (evaluateSpawnAdmission ?E ''alice'' (10 * Minute) ''mock'' ?m) \<and>
        ad_Allowed (projr (evaluateSpawnAdmission ?E ''alice'' (10 * Minute) ''mock'' ?m))" by code_simp
    then show ?thesis
      by (cases "evaluateSpawnAdmission ?E ''alice'' (10 * Minute) ''mock'' ?m")
         (simp_all add: alone_def waitForSpawnCapacity_def)
  qed
  have place: "wp_SelectedID (currentSpawnPlacement ?E ''mock'' ?m) = m_workerID ?m" by code_simp
  have "\<not> isl (fst (spawnLocal ?E ''mock'' (sample_spawn\<lparr>rq_OwnerID := ''alice''\<rparr>) img memMB vcpus (10 * Minute) ?m))"
    for img memMB vcpus
  proof -
    have "\<not> isl (fst (AcquireLease ?E ''sb-0'' ''sandbox'' (m_workerID ?m) (15 * Minute) (m_store ?m)))" by code_simp
    moreover have "re_id ?E (m_calls ?m) c = Inr ''sb-0''" for c
      by (simp add: sample_env_def sample_mgr_def NewManager_def Let_def)
    moreover have "db_fail ?E c = None" for c by (simp add: sample_env_def)
    moreover have "row_by sr_ID ''sb-0'' (t_sandboxes (m_store ?m)) = None" by code_simp
    ultimately show ?thesis
      by (subst spawnLocal_succeeds [where i = "''sb-0''"]) simp_all
  qed
  then show ?thesis
    using pre adm place
    by (simp add: sample_run_def Spawn_def Let_def spawn_admitted_def case_prod_beta del: if_split) blast
qed

lemma sample_run_eq: "sample_run = (Some (Inr (projr (the (fst sample_run)))), snd sample_run)"
proof -
  obtain x m' where "\<not> isl x" "sample_run = (Some x, m')"
    using sample_run_local by (metis (no_types, lifting))
  then show ?thesis by (metis fst_conv snd_conv option.sel sum.collapse(2))
qed

lemma sample_run_frame: "m_vmPool (snd sample_run) = None" "m_cfg (snd sample_run) = m_cfg sample_mgr"
proof -
  have "m_vmPool sample_mgr = None" by code_simp
  then show "m_vmPool (snd sample_run) = None" "m_cfg (snd sample_run) = m_cfg sample_mgr"
    using sample_run_local by (metis (no_types, lifting) snd_conv spawnLocal_frame(1,3) frame_recordOperation(1,9))+
qed

theorem spawn_success_witness:
  "spawned sample_env (sample_spawn\<lparr>rq_OwnerID := ''alice''\<rparr>) (10 * Minute) (projr (the (fst sample_run))) (snd sample_run)"
proof -
  have "TrimSpace (rq_OwnerID sample_spawn) = ''alice''" "rq_TTL sample_spawn = ''10m''"
    "ParseDuration ''10m'' = Inr (10 * Minute)" by code_simp+
  then show ?thesis
    using spawn_success [OF sample_run_eq [unfolded sample_run_def]] by (auto simp: sample_run_def)
qed

lemma live_count_snoc:
  "t_sandboxes s' = t_sandboxes s @ [r] \<Longrightarrow> length (live_records s') \<le> Suc (length (live_records s))"
  by (simp add: live_records_def)

text \<open>
  C5. A server without a VM pool never holds more sandboxes than allowed because of a spawn:
  after any successful \<open>Spawn\<close>, whatever others did while it waited, the live sandboxes of the
  server number at most \<open>MaxSandboxes\<close> (when that limit is set).
\<close>

theorem spawn_within_limit:
  assumes "Spawn E rounds req m = (Some (Inr sb), m')" and "m_vmPool m' = None"
    and "0 < lim_MaxSandboxes (m_limits m')"
  shows "int (length (live_records (m_store m'))) \<le> lim_MaxSandboxes (m_limits m')"
proof -
  obtain prov ownerID ttl img memMB vcpus m1 m2 where
    acq: "acquireSpawnAdmission ownerID ttl prov rounds m = (Some None, m1)"
    and sp: "spawn_admitted E prov (req\<lparr>rq_OwnerID := ownerID\<rparr>) img memMB vcpus ttl m1 = (Inr sb, None, m2)"
    and m': "m' = recordOperation E OperationSpawn prov None m2"
    by (rule Spawn_Inr [OF assms(1)])
  have cfg: "m_cfg m' = m_cfg m1"
    using spawn_admitted_cfg [of E prov "req\<lparr>rq_OwnerID := ownerID\<rparr>" img memMB vcpus ttl m1] sp m' by simp
  have "int (length (live_records (m_store m1))) < lim_MaxSandboxes (m_limits m1)"
    using acquireSpawnAdmission_admits [OF acq] assms(3) cfg by (auto simp: under_limits_def)
  moreover have "m_vmPool m1 = None"
  proof (rule ccontr)
    assume "m_vmPool m1 \<noteq> None"
    then have "m_vmPool m2 \<noteq> None" using spawn_admitted_pool [OF sp] by simp
    then show False using assms(2) m' by simp
  qed
  from live_count_snoc [OF spawn_admitted_Inr(3) [OF sp this]]
  have "length (live_records (m_store m')) \<le> Suc (length (live_records (m_store m1)))"
    by (simp add: m' live_records_def)
  ultimately show ?thesis using cfg by simp
qed

theorem spawn_within_limit_witness:
  "int (length (live_records (m_store (snd sample_run)))) \<le> 2"
proof -
  have "lim_MaxSandboxes (m_limits sample_mgr) = 2" by code_simp
  then show ?thesis
    using spawn_within_limit [OF sample_run_eq [unfolded sample_run_def]] sample_run_frame
    by (simp add: sample_run_def)
qed

text \<open>What a request waiting for its admission leaves alone, when the others do.\<close>

definition untouched :: "mgr \<Rightarrow> mgr \<Rightarrow> bool" where
  "untouched m m' \<longleftrightarrow> t_sandboxes (m_store m') = t_sandboxes (m_store m) \<and> cached m' = cached m \<and>
     m_calls m' = m_calls m \<and> m_metrics m' = m_metrics m"

definition round_untouched :: "admission_round \<Rightarrow> bool" where
  "round_untouched r \<longleftrightarrow> (\<forall>f\<in>{ar_others r, ar_before_lock r} \<union> event_others ` set (ar_waits r). \<forall>m. untouched m (f m))"

lemma untouched_refl [simp]: "untouched m m"
  by (simp add: untouched_def)

lemma untouched_trans [trans]: "untouched m1 m2 \<Longrightarrow> untouched m2 m3 \<Longrightarrow> untouched m1 m3"
  by (simp add: untouched_def)

lemma untouched_wraps [simp]:
  "untouched m0 (publishOperationalEvent E ty i d m) = untouched m0 m"
  "untouched m0 (recordSpawnDequeued w m) = untouched m0 m"
  "untouched m0 (recordSpawnQueueTimeout w m) = untouched m0 m"
  "untouched m0 (queue_leave m) = untouched m0 m"
  "untouched m0 (snd (queue_enter E ownerID provider m)) = untouched m0 m"
  by (simp_all add: untouched_def recordSpawnDequeued_def recordSpawnQueueTimeout_def queue_leave_def
      queue_enter_def Let_def cached_def fun_eq_iff publishOperationalEvent_def publish_event_def)

lemma wait_loop_untouched:
  assumes "\<forall>w\<in>set ws. \<forall>m. untouched m (event_others w m)"
  shows "untouched m (snd (wait_loop ownerID ttl provider t gen ws m))"
  using assms
proof (induction ownerID ttl provider t gen ws m rule: wait_loop.induct)
  case (4 ownerID ttl provider queuedAt gen E f ws m)
  have f: "untouched m (f m)" and ws: "\<forall>w\<in>set ws. \<forall>m. untouched m (event_others w m)"
    using "4.prems" by simp_all
  show ?case
  proof (cases "m_capacityGen (f m) \<le> gen")
    case True
    then show ?thesis using "4.IH"(1) [OF refl True ws] f by (simp add: untouched_trans)
  next
    case False
    show ?thesis
    proof (cases "evaluateSpawnAdmission E ownerID ttl provider (f m)")
      case (Inr d)
      then show ?thesis
        using "4.IH"(2) [OF refl False Inr _ _ ws] f False
        by (cases "ad_Allowed d"; cases "ad_Queueable d") (auto simp: Let_def intro: untouched_trans)
    qed (use f False in auto)
  qed
qed (auto simp: Let_def)

lemma waitForSpawnCapacity_untouched:
  assumes "round_untouched r"
  shows "untouched m (snd (waitForSpawnCapacity E ownerID ttl provider (ar_others r) (ar_waits r) m))"
proof -
  have o: "untouched m (ar_others r m)" and w: "\<forall>w\<in>set (ar_waits r). \<forall>m. untouched m (event_others w m)"
    using assms by (auto simp: round_untouched_def)
  have q: "untouched m (snd (queue_enter E ownerID provider (ar_others r m)))" using o by simp
  show ?thesis
  proof (cases "queue_enter E ownerID provider (ar_others r m)")
    case (Pair g m1)
    have l: "untouched m (snd (wait_loop ownerID ttl provider (db_now E) gen (ar_waits r) m1))" for gen
      using q Pair wait_loop_untouched [OF w, of m1] by (auto intro: untouched_trans)
    show ?thesis
      using q Pair l by (auto simp: waitForSpawnCapacity_def case_prod_beta split: sum.split option.split)
  qed
qed

lemma acquireSpawnAdmission_untouched:
  assumes "\<forall>r\<in>set rounds. round_untouched r"
  shows "untouched m (snd (acquireSpawnAdmission ownerID ttl provider rounds m))"
  using assms
proof (induction rounds arbitrary: m)
  case (Cons r rs)
  have r: "round_untouched r" and rs: "\<forall>r\<in>set rs. round_untouched r" using Cons.prems by simp_all
  have b: "untouched x (ar_before_lock r x)" for x using r by (simp add: round_untouched_def)
  obtain a m1 where w: "waitForSpawnCapacity (ar_env r) ownerID ttl provider (ar_others r) (ar_waits r) m = (a, m1)"
    by fastforce
  have m1: "untouched m m1" using waitForSpawnCapacity_untouched [OF r] w by (metis snd_conv)
  have m2: "untouched m (ar_before_lock r m1)" using untouched_trans [OF m1 b] .
  show ?case
    using w m1 m2 untouched_trans [OF m2 Cons.IH [OF rs]]
    by (auto simp: Let_def split: option.split sum.split)
qed simp

lemma spawnLocal_metrics [simp]: "m_metrics (snd (snd (spawnLocal E prov req img memMB vcpus ttl m))) = m_metrics m"
  by (auto simp: spawnLocal_def Let_def case_prod_beta acquireSandboxLease_def announce_spawn_def split: sum.splits option.splits)

lemma spawnRemote_metrics [simp]: "m_metrics (snd (spawnRemote E w req prov img memMB vcpus ttl m)) = m_metrics m"
  by (auto simp: spawnRemote_def Let_def case_prod_beta announce_spawn_def split: sum.splits option.splits prod.splits)

text \<open>
  The calls a failing spawn has made when it returns: none, the provider's \<open>Spawn\<close> with the
  \<open>Destroy\<close> of the sandbox it answered, if it answered one, or the \<open>Spawn\<close> of a worker.
\<close>

definition failed_spawn_calls :: "env \<Rightarrow> ext_call list \<Rightarrow> ext_call list \<Rightarrow> bool" where
  "failed_spawn_calls E h new \<longleftrightarrow> new = [] \<or>
     (\<exists>prov img memMB vcpus md. new = PSpawn prov img memMB vcpus md #
        (case re_id E h (PSpawn prov img memMB vcpus md) of Inl _ \<Rightarrow> [] | Inr i \<Rightarrow> [PDestroy prov i])) \<or>
     (\<exists>url k tok i img prov memMB vcpus ow ttl md. new = [RSpawn url k tok i img prov memMB vcpus ow ttl md])"

lemma spawnRemote_Inl_calls:
  assumes "isl (fst (spawnRemote E w req prov img memMB vcpus ttl m))"
  shows "\<exists>new. m_calls (snd (spawnRemote E w req prov img memMB vcpus ttl m)) = m_calls m @ new \<and>
    failed_spawn_calls E (m_calls m) new"
  using assms
  by (auto simp: spawnRemote_def Let_def case_prod_beta failed_spawn_calls_def split: sum.splits option.splits prod.splits)

lemma spawn_admitted_Inl:
  assumes "spawn_admitted E prov req img memMB vcpus ttl m = (Inl e, me, m')" and "m_vmPool m = None"
  shows "me \<noteq> None" "t_sandboxes (m_store m') = t_sandboxes (m_store m)" "cached m' = cached m" "m_metrics m' = m_metrics m"
    and "\<exists>new. m_calls m' = m_calls m @ new \<and> failed_spawn_calls E (m_calls m) new"
proof -
  have "me \<noteq> None \<and> t_sandboxes (m_store m') = t_sandboxes (m_store m) \<and> cached m' = cached m \<and> m_metrics m' = m_metrics m \<and>
    (\<exists>new. m_calls m' = m_calls m @ new \<and> failed_spawn_calls E (m_calls m) new)"
  proof (cases "wp_SelectedID (currentSpawnPlacement E prov m) \<noteq> [] \<and>
      wp_SelectedID (currentSpawnPlacement E prov m) \<noteq> m_workerID m")
    case True
    let ?w = "wp_SelectedID (currentSpawnPlacement E prov m)"
    have r: "isl (fst (spawnRemote E ?w req prov img memMB vcpus ttl m))" "me = Some e"
      "m' = publishFailureForError E [] OperationSpawn prov e (snd (spawnRemote E ?w req prov img memMB vcpus ttl m))"
      using assms True by (auto simp: spawn_admitted_def Let_def case_prod_beta split: sum.splits)
    then show ?thesis
      using spawnRemote_Inl [OF r(1)] spawnRemote_Inl_calls [OF r(1)] by simp
  next
    case False
    then have l: "spawnLocal E prov req img memMB vcpus ttl m = (Inl e, me, m')"
      using assms by (auto simp: spawn_admitted_def Let_def)
    have "m_metrics m' = m_metrics m" using spawnLocal_metrics [of E prov req img memMB vcpus ttl m] l by simp
    then show ?thesis
      using l spawnLocal_Inl [of E prov req img memMB vcpus ttl m] by (auto simp: failed_spawn_calls_def)
  qed
  then show "me \<noteq> None" "t_sandboxes (m_store m') = t_sandboxes (m_store m)" "cached m' = cached m" "m_metrics m' = m_metrics m"
    "\<exists>new. m_calls m' = m_calls m @ new \<and> failed_spawn_calls E (m_calls m) new" by blast+
qed

text \<open>The request's provider and TTL, and the manager at the end of its wait (as it came, when it does not get there).\<close>

definition spawn_provider :: "SpawnRequest \<Rightarrow> mgr \<Rightarrow> string" where
  "spawn_provider req m = (if rq_Provider req = [] then rg_dflt (m_registry m) else rq_Provider req)"

definition spawn_ttl :: "SpawnRequest \<Rightarrow> mgr \<Rightarrow> error + duration" where
  "spawn_ttl req m = (if rq_TTL req \<noteq> [] then ParseDuration (rq_TTL req) else Inr (mc_defaultTTL (m_cfg m)))"

definition spawn_begins :: "admission_round list \<Rightarrow> SpawnRequest \<Rightarrow> mgr \<Rightarrow> mgr" where
  "spawn_begins rounds req m =
     (case (registry_Get (m_registry m) (rq_Provider req), spawn_ttl req m, normalizeOptionalOwnerID (rq_OwnerID req)) of
        (Inr prov, Inr ttl, Inr ownerID) \<Rightarrow> snd (acquireSpawnAdmission ownerID ttl prov rounds m)
      | _ \<Rightarrow> m)"

lemma spawn_begins_untouched: "\<forall>r\<in>set rounds. round_untouched r \<Longrightarrow> untouched m (spawn_begins rounds req m)"
  by (auto simp: spawn_begins_def intro: acquireSpawnAdmission_untouched split: sum.split)

lemma registry_Get_name: "registry_Get r name = Inr prov \<Longrightarrow> prov = (if name = [] then rg_dflt r else name)"
  by (auto simp: registry_Get_def Let_def split: if_splits option.splits)

lemma Spawn_Inl:
  assumes "Spawn E rounds req m = (Some (Inl e), m')"
  obtains (bad_provider) err where "registry_Get (m_registry m) (rq_Provider req) = Inl err"
      "m' = recordOperation E OperationSpawn (spawn_provider req m) (Some err)
              (publishOperationFailure E EventProviderFailed [] OperationSpawn (spawn_provider req m) err m)"
  | (bad_ttl) prov err where "registry_Get (m_registry m) (rq_Provider req) = Inr prov" "spawn_ttl req m = Inl err"
      "m' = recordOperation E OperationSpawn (spawn_provider req m) None m"
  | (refused) prov ttl err where "registry_Get (m_registry m) (rq_Provider req) = Inr prov" "spawn_ttl req m = Inr ttl"
      "m' = recordOperation E OperationSpawn (spawn_provider req m) (Some err)
              (publishFailureForError E [] OperationSpawn (spawn_provider req m) err (spawn_begins rounds req m))"
  | (failed) prov ttl ownerID img memMB vcpus me m2 where "registry_Get (m_registry m) (rq_Provider req) = Inr prov"
      "spawn_ttl req m = Inr ttl"
      "spawn_admitted E prov (req\<lparr>rq_OwnerID := ownerID\<rparr>) img memMB vcpus ttl (spawn_begins rounds req m) = (Inl e, me, m2)"
      "m' = recordOperation E OperationSpawn (spawn_provider req m) me m2"
proof -
  note d = Spawn_def Let_def spawn_provider_def [symmetric] spawn_ttl_def [symmetric]
  show thesis
  proof (cases "registry_Get (m_registry m) (rq_Provider req)")
    case (Inl err)
    then show thesis using assms by (intro bad_provider [OF Inl]) (simp add: d)
  next
    case prov: (Inr prov)
    have name: "prov = spawn_provider req m" using registry_Get_name [OF prov] by (simp add: spawn_provider_def)
    show thesis
    proof (cases "spawn_ttl req m")
      case (Inl err)
      then show thesis using assms prov name by (intro bad_ttl [OF prov Inl]) (simp add: d)
    next
      case ttl: (Inr ttl)
      show thesis
      proof (cases "normalizeOptionalOwnerID (rq_OwnerID req)")
        case (Inl err)
        then have "spawn_begins rounds req m = m" by (simp add: spawn_begins_def prov ttl)
        then show thesis using assms prov ttl name Inl by (intro refused [OF prov ttl, of err]) (auto simp: d)
      next
        case owner: (Inr ownerID)
        let ?img = "if rq_Image req = [] then mc_defaultImage (m_cfg m) else rq_Image req"
        let ?mem = "if rq_MemoryMB req = 0 then mc_defaultMemory (m_cfg m) else rq_MemoryMB req"
        let ?vc = "if rq_VCPUs req = 0 then mc_defaultVCPUs (m_cfg m) else rq_VCPUs req"
        obtain a m1 where acq: "acquireSpawnAdmission ownerID ttl prov rounds m = (a, m1)" by force
        then have m1: "spawn_begins rounds req m = m1" by (simp add: spawn_begins_def prov ttl owner)
        obtain r me m2 where sp: "spawn_admitted E prov (req\<lparr>rq_OwnerID := ownerID\<rparr>) ?img ?mem ?vc ttl m1 = (r, me, m2)"
          by (metis prod_cases3)
        have "Spawn E rounds req m = (case a of None \<Rightarrow> (None, m1)
            | Some (Some err) \<Rightarrow> (Some (Inl err), recordOperation E OperationSpawn prov (Some err)
                            (publishFailureForError E [] OperationSpawn prov err m1))
            | Some None \<Rightarrow> (Some r, recordOperation E OperationSpawn prov me m2))"
          unfolding d prov sum.case ttl owner acq prod.case sp
          by (simp split: option.split del: if_split)
        with assms name m1 sp refused [OF prov ttl] failed [OF prov ttl] show thesis
          by (auto split: option.splits)
      qed
    qed
  qed
qed

text \<open>
  C2. A \<open>Spawn\<close> that fails, at whatever point, leaves no sandbox on this server (without a VM
  pool): the table of sandboxes and the cache are as they were when it came through its checks and
  its wait (\<open>spawn_begins\<close>), which is as it found them if the others did not touch them meanwhile.
  The calls it made are none, or the provider's \<open>Spawn\<close> directly followed by the \<open>Destroy\<close>
  of the sandbox the provider answered, or one \<open>Spawn\<close> of a remote worker: a runtime that worker
  started is left running when its record cannot be written.  The operation is recorded once in the metrics, as a
  failure unless the TTL does not parse, which the code records as a success.
\<close>

theorem spawn_failure_cleans_up:
  fixes E rounds req m
  defines "m1 \<equiv> spawn_begins rounds req m"
  assumes "Spawn E rounds req m = (Some (Inl e), m')" and "m_vmPool m1 = None"
  shows "t_sandboxes (m_store m') = t_sandboxes (m_store m1) \<and> cached m' = cached m1 \<and>
    (\<exists>counted. m_metrics m' = RecordOperation (db_now E) OperationSpawn (spawn_provider req m) (env_elapsed E) counted (m_metrics m1) \<and>
       (counted = None \<longrightarrow> isl (spawn_ttl req m))) \<and>
    (\<exists>new. m_calls m' = m_calls m1 @ new \<and> failed_spawn_calls E (m_calls m1) new) \<and>
    ((\<forall>r\<in>set rounds. round_untouched r) \<longrightarrow> untouched m m1)"
proof -
  have rec: "m_metrics (recordOperation E oper p c x) = RecordOperation (db_now E) oper p (env_elapsed E) c (m_metrics x)" for oper p c x
    by (simp add: recordOperation_def)
  have none: "failed_spawn_calls E h []" for h by (simp add: failed_spawn_calls_def)
  have m1: "m1 = m" if "\<not> (\<exists>p t. registry_Get (m_registry m) (rq_Provider req) = Inr p \<and> spawn_ttl req m = Inr t)"
    using that by (auto simp: m1_def spawn_begins_def split: sum.split)
  have "t_sandboxes (m_store m') = t_sandboxes (m_store m1) \<and> cached m' = cached m1 \<and>
    (\<exists>counted. m_metrics m' = RecordOperation (db_now E) OperationSpawn (spawn_provider req m) (env_elapsed E) counted (m_metrics m1) \<and>
       (counted = None \<longrightarrow> isl (spawn_ttl req m))) \<and>
    (\<exists>new. m_calls m' = m_calls m1 @ new \<and> failed_spawn_calls E (m_calls m1) new)"
    using assms(2)
  proof (cases rule: Spawn_Inl)
    case (failed prov ttl ownerID img memMB vcpus me m2)
    show ?thesis
      using spawn_admitted_Inl [OF failed(3) [folded m1_def] assms(3)] failed(4) by (auto simp: rec)
  next
    case (refused prov ttl err)
    then show ?thesis using none by (auto simp: rec m1_def [symmetric])
  next
    case (bad_ttl prov err)
    then show ?thesis using none m1 by (auto simp: rec)
  next
    case (bad_provider err)
    then show ?thesis using none m1 by (auto simp: rec)
  qed
  then show ?thesis using spawn_begins_untouched [of rounds m req] by (simp add: m1_def)
qed

text \<open>A database that refuses new sandboxes.\<close>

definition sample_readonly :: env where
  "sample_readonly = sample_env\<lparr>db_fail := (\<lambda>c. case c of OpCreateSandbox i \<Rightarrow> Some (Err ErrOther ''read-only'') | _ \<Rightarrow> None)\<rparr>"

theorem spawn_failure_cleans_up_witness:
  "\<exists>e m'. Spawn sample_readonly (alone sample_readonly) sample_spawn sample_mgr = (Some (Inl e), m') \<and>
     t_sandboxes (m_store m') = [] \<and> cached m' = Map.empty"
proof -
  let ?E = sample_readonly and ?m = sample_mgr
  have pre: "registry_Get (m_registry ?m) (rq_Provider sample_spawn) = Inr ''mock''"
    "spawn_ttl sample_spawn ?m = Inr (10 * Minute)" "normalizeOptionalOwnerID (rq_OwnerID sample_spawn) = Inr ''alice''"
    "m_vmPool ?m = None" "t_sandboxes (m_store ?m) = []" "m_sandboxes ?m = []" by code_simp+
  have "\<not> isl (evaluateSpawnAdmission ?E ''alice'' (10 * Minute) ''mock'' ?m) \<and>
      ad_Allowed (projr (evaluateSpawnAdmission ?E ''alice'' (10 * Minute) ''mock'' ?m))" by code_simp
  then have adm: "acquireSpawnAdmission ''alice'' (10 * Minute) ''mock'' (alone ?E) ?m = (Some None, ?m)"
    by (cases "evaluateSpawnAdmission ?E ''alice'' (10 * Minute) ''mock'' ?m")
       (simp_all add: alone_def waitForSpawnCapacity_def)
  have place: "wp_SelectedID (currentSpawnPlacement ?E ''mock'' ?m) = m_workerID ?m" by code_simp
  have "isl (fst (spawnLocal ?E ''mock'' (sample_spawn\<lparr>rq_OwnerID := ''alice''\<rparr>) img memMB vcpus (10 * Minute) ?m))"
    for img memMB vcpus
    by (simp add: spawnLocal_def Let_def case_prod_beta CreateSandbox_def sandboxRecord_def sample_readonly_def split: sum.split)
  then have fails: "\<exists>e m'. Spawn ?E (alone ?E) sample_spawn ?m = (Some (Inl e), m')"
    using pre adm place
    by (simp add: Spawn_def spawn_ttl_def [symmetric] Let_def spawn_admitted_def case_prod_beta isl_def del: if_split)
  have begins: "spawn_begins (alone ?E) sample_spawn ?m = ?m" using pre adm by (simp add: spawn_begins_def)
  obtain e m' where run: "Spawn ?E (alone ?E) sample_spawn ?m = (Some (Inl e), m')" using fails by blast
  have "t_sandboxes (m_store m') = t_sandboxes (m_store ?m) \<and> cached m' = cached ?m"
    using spawn_failure_cleans_up [OF run] begins pre(4) by simp
  then show ?thesis using run pre(5,6) by (auto simp: cached_def fun_eq_iff)
qed

section \<open>Shared VMs: what goes wrong\<close>

text \<open>
  Destroying a pooled sandbox a second time takes a slot that is not its own.  A destroyed
  sandbox is found in the store again, and \<open>Destroy\<close> releases its VM once more: with one user
  left on the VM, the VM is destroyed and forgotten under that user, whose sandbox is still
  recorded as running on it.
\<close>

theorem pooled_double_destroy:
  assumes "cached m i = None" "GetSandbox E i (m_store m) = Inr r" "sr_State r = StateDestroyed"
    and "sr_WorkerID r = m_workerID m" "sr_VMID r = v" "v \<noteq> []" "v \<noteq> i"
    and "registry_Get (m_registry m) (sr_Provider r) = Inr prov"
    and "m_vmPool m = Some p" "map_of (vp_vms p) v = Some slot" "vm_UserCount slot = 1"
    and "row_by sr_ID j (t_sandboxes (m_store m)) = Some other" "sr_State other = StateRunning" "sr_VMID other = v"
      "j \<noteq> i" "j \<noteq> v"
    and "fst (acquireSandboxLeaseFor E i (m_workerID m) (sr_ExpiresAt r) m) = Inr l"
  shows "fst (Destroy E i m) = None \<and> PDestroy prov v \<in> set (m_calls (snd (Destroy E i m))) \<and>
    (\<exists>p'. m_vmPool (snd (Destroy E i m)) = Some p' \<and> map_of (vp_vms p') v = None) \<and>
    row_by sr_ID j (t_sandboxes (m_store (snd (Destroy E i m)))) = Some other"
proof -
  let ?b = "recordToSandbox r"
  have find: "find_sandbox E i m = Some ?b" using assms(1,2) by (simp add: find_sandbox_def)
  have b: "sb_WorkerID ?b = m_workerID m" "sb_VMID ?b = v" "sb_ExpiresAt ?b = sr_ExpiresAt r"
    using assms(4,5) by (simp_all add: recordToSandbox_def)
  have D: "Destroy E i m = (None, destroy_done E (Some ?b) (auditOperation E ''sandbox.destroy'' (Some ?b) i [] ''success''
         ''pooled=true'' (destroyPooled E i ?b (snd (destroy_lease E i ?b m)))))"
    by (rule Destroy_cases [of E i m]) (use find b assms(6,9,17) in \<open>auto simp del: not_None_eq\<close>)
  let ?m1 = "snd (acquireSandboxLeaseFor E i (m_workerID m) (sr_ExpiresAt r) m)"
  have rel: "fst (pool_release v m2) = True \<and> (\<exists>p'. m_vmPool (snd (pool_release v m2)) = Some p' \<and> map_of (vp_vms p') v = None)"
    if "m_vmPool m2 = Some p" for m2
    using that assms(10,11) by (simp add: pool_release_def vm_release_def Let_def set_pool_def)
  show ?thesis
    using assms rel
    by (simp add: D destroyPooled_def Let_def case_prod_beta recordToSandbox_def row_UpdateSandboxState DeleteSandbox_def)
qed

text \<open>
  A pooled spawn that needs a new VM counts twice: it adds the record of the VM and the record
  of the sandbox, so a server one below \<open>MaxSandboxes\<close> ends up one above it.
\<close>

theorem pooled_spawn_adds_two:
  assumes "spawn_admitted E prov req img memMB vcpus ttl m = (Inr sb, me, m')"
    and "m_vmPool m = Some p" "vm_acquire_existing (env_pick E) p = VMNeedSpawn"
  shows "length (live_records (m_store m')) = length (live_records (m_store m)) + 2"
proof -
  have sp: "spawnPooled E p prov req img memMB vcpus ttl m = (Inr sb, m')"
    using assms(1,2) by (auto simp: spawn_admitted_def Let_def split: prod.splits sum.splits)
  let ?r = "\<lparr>rq_Image = pc_Image (vp_config p), rq_Provider = [],
                   rq_MemoryMB = pc_MemoryMB (vp_config p), rq_VCPUs = pc_VCPUs (vp_config p), rq_TTL = [],
                   rq_Template = [], rq_OwnerID = [], rq_TenantID = [], rq_Metadata = []\<rparr>"
  obtain vm where vm: "fst (spawnDirect E ?r m) = Inr vm" "sb_State vm = StateRunning"
    "t_sandboxes (m_store (snd (pool_acquire E p m))) = t_sandboxes (m_store m) @ [stored (sandboxRecord (db_now E) vm)]"
  proof -
    obtain vm where v: "fst (spawnDirect E ?r m) = Inr vm"
      using spawnPooled_Inr(5) [OF sp] assms(3)
      by (auto simp: pool_acquire_def Let_def case_prod_beta split: sum.splits)
    moreover have "sb_State vm = StateRunning"
      using v by (auto simp: spawnDirect_def spawn_vm_def Let_def case_prod_beta split: sum.splits option.splits)
    moreover have "t_sandboxes (m_store (snd (pool_acquire E p m))) = t_sandboxes (m_store m) @ [stored (sandboxRecord (db_now E) vm)]"
      using v assms(3) by (simp add: pool_acquire_def Let_def case_prod_beta spawnDirect_tables)
    ultimately show thesis using that by blast
  qed
  have "t_sandboxes (m_store m') = t_sandboxes (m_store (snd (pool_acquire E p m))) @ [stored (sandboxRecord (db_now E) sb)]"
    by (rule spawnPooled_appends [OF sp])
  moreover have "sb_State sb = StateRunning" using spawnPooled_Inr(1) [OF sp] by (simp add: spawned_def)
  ultimately show ?thesis
    using vm by (simp add: live_records_def sandboxRecord_def)
qed

lemma spawnPooled_succeeds:
  assumes "fst (pool_acquire E p m) = Inr v" "0 < ttl + sandboxLeaseGrace"
    and "\<not> isl (fst (AcquireLease E (generateSandboxID E) ''sandbox'' (m_workerID m) (ttl + sandboxLeaseGrace)
           (m_store (snd (pool_acquire E p m)))))"
    and "\<And>h c. \<not> isl (re_exec E h c)" "db_fail E (OpCreateSandbox (generateSandboxID E)) = None"
    and "row_by sr_ID (generateSandboxID E) (t_sandboxes (m_store (snd (pool_acquire E p m)))) = None"
  shows "\<not> isl (fst (spawnPooled E p prov req img memMB vcpus ttl m))"
proof -
  have "isl (re_exec E h c) = False" for h c using assms(4) by simp
  then have "re_exec E h c = Inl e \<longleftrightarrow> False" for h c e by (metis sum.disc(1))
  then show ?thesis
    using assms(1-3,5,6)
    by (auto simp: spawnPooled_def Let_def case_prod_beta acquireSandboxLease_def acquireSandboxLeaseFor_on_store
        CreateSandbox_def sandboxRecord_def frame split: sum.split option.split)
qed

end
