(* ===== verification/Reconcile_Laws.thy ===== *)
theory Reconcile_Laws
  imports Reconcile Lifecycle_Laws
begin

text \<open>
  What startup recovery leaves: the states the providers report, a cache that agrees with the
  table, and no runtime taken from a worker that holds its lease.  And where it goes wrong:
  sandboxes in shared VMs, and runtimes of destroyed sandboxes.
\<close>

section \<open>Loops that stop at an error\<close>

lemma each_append: "each f (xs @ ys) s = (case each f xs s of (None, s') \<Rightarrow> each f ys s' | (Some e, s') \<Rightarrow> (Some e, s'))"
  by (induction xs arbitrary: s) (auto split: prod.split option.split)

lemma each_invariant:
  assumes "P s" and "\<And>x s. x \<in> set xs \<Longrightarrow> P s \<Longrightarrow> P (snd (f x s))"
  shows "P (snd (each f xs s))"
  using assms
proof (induction xs arbitrary: s)
  case (Cons x xs)
  show ?case
  proof (cases "f x s")
    case (Pair err s1)
    then have "P s1" using Cons.prems(2) [of x s] Cons.prems(1) by simp
    then show ?thesis using Cons.IH [of s1] Cons.prems(2) Pair by (auto split: option.split)
  qed
qed simp

lemma each_None_split:
  assumes "each f (xs @ x # ys) s = (None, s')"
  obtains s1 s2 where "each f xs s = (None, s1)" "f x s1 = (None, s2)" "each f ys s2 = (None, s')"
  using assms by (auto simp: each_append split: prod.splits option.splits)

section \<open>What one record's step touches\<close>

abbreviation row :: "mgr \<Rightarrow> string \<Rightarrow> SandboxRecord option" where
  "row m i \<equiv> row_by sr_ID i (t_sandboxes (m_store m))"

definition only_record :: "string \<Rightarrow> mgr \<Rightarrow> mgr \<Rightarrow> bool" where
  "only_record i m m' \<longleftrightarrow> m_cfg m' = m_cfg m \<and> m_registry m' = m_registry m \<and>
     (\<forall>j. j \<noteq> i \<longrightarrow> row m' j = row m j \<and> cached m' j = cached m j) \<and> (row m' i = None \<longleftrightarrow> row m i = None)"

lemma only_record_refl [simp]: "only_record i m m"
  by (simp add: only_record_def)

lemma only_record_frames [simp]:
  "only_record i m (snd (call re c m')) = only_record i m m'"
  "only_record i m (publishOperationalEvent E ty j d m') = only_record i m m'"
  "only_record i m (publishRemoteOwnershipEvent E rec a rs m') = only_record i m m'"
  "only_record i m (provider_failed E j oper p e m') = only_record i m m'"
  "only_record i m (snd (on_store (ReleaseLease E r h) m')) = only_record i m m'"
  by (simp_all add: only_record_def publishRemoteOwnershipEvent_def provider_failed_def cached_def frame)

lemma only_record_cache [simp]:
  "only_record i m m' \<Longrightarrow> only_record i m (cache_put i sb m')" "only_record i m m' \<Longrightarrow> only_record i m (cache_del i m')"
  by (simp_all add: only_record_def)

lemma only_record_update [simp]:
  "only_record i m m' \<Longrightarrow> only_record i m (snd (on_store (UpdateSandboxState E i st) m'))"
  by (simp add: only_record_def row_UpdateSandboxState cached_def)

lemma only_record_trans: "only_record i m m' \<Longrightarrow> only_record i m' m'' \<Longrightarrow> only_record i m m''"
  by (simp add: only_record_def)

lemma recordToSandbox_ID [simp]: "sb_ID (recordToSandbox r) = sr_ID r" "sb_State (recordToSandbox r) = sr_State r"
  by (simp_all add: recordToSandbox_def)

lemma applyPreviewDomain_simps [simp]:
  "sb_ID (applyPreviewDomain E m sb) = sb_ID sb" "sb_State (applyPreviewDomain E m sb) = sb_State sb"
  "sb_WorkerID (applyPreviewDomain E m sb) = sb_WorkerID sb"
  by (simp_all add: applyPreviewDomain_def)

lemma refresh_only_record: "only_record (sb_ID sb) m (snd (refreshRemoteSandboxStatus E sb m))"
  by (simp add: refreshRemoteSandboxStatus_def Let_def case_prod_beta split: sum.split option.split)

lemma refresh_only_record' [simp]:
  "only_record (sr_ID rec) m m' \<Longrightarrow> only_record (sr_ID rec) m (snd (refreshRemoteSandboxStatus E (recordToSandbox rec) m'))"
  using refresh_only_record [of "recordToSandbox rec" m' E] only_record_trans by simp

lemma mark_remote_only_record [simp]: "only_record (sr_ID rec) m m' \<Longrightarrow> only_record (sr_ID rec) m (snd (mark_remote E rec reason m'))"
  by (simp add: mark_remote_def Let_def case_prod_beta split: option.split)

lemma remote_only_record: "only_record (sr_ID rec) m (snd (snd (reconcileRemoteOwnedSandbox E rec m)))"
  by (simp add: reconcileRemoteOwnedSandbox_def Let_def case_prod_beta split: sum.split)

lemma local_only_record: "only_record (sr_ID rec) m (snd (reconcile_local E rec m))"
  by (simp add: reconcile_local_def mark_error_def Let_def case_prod_beta split: sum.split option.split)

lemma record_only_record: "only_record (sr_ID rec) m (snd (reconcile_record E rec m))"
  using remote_only_record [of rec m E] local_only_record only_record_trans
  by (simp add: reconcile_record_def Let_def case_prod_beta)

lemma records_only:
  assumes "j \<notin> sr_ID ` set recs"
  shows "row (snd (each (reconcile_record E) recs m)) j = row m j \<and>
    cached (snd (each (reconcile_record E) recs m)) j = cached m j"
proof (rule each_invariant)
  fix x s
  assume "x \<in> set recs" "row s j = row m j \<and> cached s j = cached m j"
  then show "row (snd (reconcile_record E x s)) j = row m j \<and> cached (snd (reconcile_record E x s)) j = cached m j"
    using record_only_record [of x s E] assms by (auto simp: only_record_def)
qed simp

lemma records_cfg:
  "m_cfg (snd (each (reconcile_record E) recs m)) = m_cfg m \<and> m_registry (snd (each (reconcile_record E) recs m)) = m_registry m"
  by (rule each_invariant) (use record_only_record in \<open>auto simp: only_record_def\<close>)

section \<open>The states the providers report\<close>

definition reported :: "env \<Rightarrow> Registry \<Rightarrow> ext_call list \<Rightarrow> SandboxRecord \<Rightarrow> string" where
  "reported E reg h r =
     (case registry_Get reg (sr_Provider r) of
        Inl _ \<Rightarrow> StateError
      | Inr prov \<Rightarrow>
          (case re_id E h (PStatus prov (sr_ID r)) of
             Inl e \<Rightarrow> if ErrorsIs e ErrSandboxNotFound \<or> ErrorsIs e ErrSandboxDestroyed then StateDestroyed else StateError
           | Inr st \<Rightarrow> if st = [] then StateRunning else st))"

definition coherent :: "mgr \<Rightarrow> string \<Rightarrow> bool" where
  "coherent m i \<longleftrightarrow> (\<forall>sb. cached m i = Some sb \<longrightarrow> (\<exists>r. row m i = Some r \<and> sr_State r = sb_State sb))"

lemma update_None_row:
  assumes "fst (UpdateSandboxState E i st s) = None"
  shows "\<exists>r. row_by sr_ID i (t_sandboxes (snd (UpdateSandboxState E i st s))) = Some r \<and> sr_State r = st"
  using assms unfolding row_UpdateSandboxState
  by (auto simp: UpdateSandboxState_def rows_affected_key_0 split: option.splits if_splits)

lemma reconcile_local_state:
  assumes "reconcile_local E rec m = (None, m')" "row m (sr_ID rec) = Some r" "sr_State r = sr_State rec"
    and "cached m (sr_ID rec) = None"
  shows "(\<exists>r'. row m' (sr_ID rec) = Some r' \<and> sr_State r' = reported E (m_registry m) (m_calls m) rec) \<and> coherent m' (sr_ID rec)"
proof -
  note up = update_None_row [of E "sr_ID rec" _ "m_store m"]
  have c: "cached (snd (on_store f x)) = cached x" "cached (publishOperationalEvent E ty j d x) = cached x"
    "cached (snd (call (re_id E) cl x)) = cached x" for f x ty j d cl
    by (simp_all add: cached_def fun_eq_iff)
  show ?thesis
    using assms up
    by (auto simp: reconcile_local_def reported_def mark_error_def provider_failed_def coherent_def Let_def case_prod_beta c
        split: sum.splits option.splits if_splits)
qed

section \<open>Adoption\<close>

definition lease_kept_or_taken :: "env \<Rightarrow> string \<Rightarrow> mgr \<Rightarrow> mgr \<Rightarrow> string \<Rightarrow> bool" where
  "lease_kept_or_taken E w m m' j \<longleftrightarrow>
     lease_held j (m_store m') = lease_held j (m_store m) \<or>
     (\<exists>e. lease_held j (m_store m') = Some (w, e) \<and> db_now E < e \<and>
        (\<forall>h e0. lease_held j (m_store m) = Some (h, e0) \<longrightarrow> h = w \<or> e0 \<le> db_now E))"

definition row_adopted :: "env \<Rightarrow> string \<Rightarrow> duration \<Rightarrow> mgr \<Rightarrow> mgr \<Rightarrow> string \<Rightarrow> bool" where
  "row_adopted E w ttl m m' j \<longleftrightarrow> row m j = None \<and>
     (\<exists>r sb e. row m' j = Some r \<and> cached m' j = Some sb \<and> sr_State r = sb_State sb \<and> sr_WorkerID r = w \<and>
        lease_held j (m_store m') = Some (w, e) \<and> db_now E < e \<and> (0 \<le> ttl \<longrightarrow> db_now E \<le> sr_ExpiresAt r))"

definition adoption :: "env \<Rightarrow> mgr \<Rightarrow> mgr \<Rightarrow> bool" where
  "adoption E m m' \<longleftrightarrow> m_cfg m' = m_cfg m \<and> m_registry m' = m_registry m \<and>
     (\<forall>j. lease_kept_or_taken E (m_workerID m) m m' j \<and>
        (row m' j = row m j \<and> cached m' j = cached m j \<or> row_adopted E (m_workerID m) (mc_defaultTTL (m_cfg m)) m m' j))"

lemma adoption_refl [simp]: "adoption E m m"
  by (simp add: adoption_def lease_kept_or_taken_def)

lemma lease_kept_or_taken_trans:
  "lease_kept_or_taken E w m1 m2 j \<Longrightarrow> lease_kept_or_taken E w m2 m3 j \<Longrightarrow> lease_kept_or_taken E w m1 m3 j"
  unfolding lease_kept_or_taken_def by auto

lemma row_adopted_later:
  "row_adopted E w ttl m1 m2 j \<Longrightarrow> lease_kept_or_taken E w m2 m3 j \<Longrightarrow> row m3 j = row m2 j \<Longrightarrow> cached m3 j = cached m2 j \<Longrightarrow>
   row_adopted E w ttl m1 m3 j"
  unfolding row_adopted_def lease_kept_or_taken_def by (elim conjE exE disjE) auto

lemma row_adopted_before: "row_adopted E w ttl m2 m3 j \<Longrightarrow> row m2 j = row m1 j \<Longrightarrow> row_adopted E w ttl m1 m3 j"
  by (simp add: row_adopted_def)

lemma row_adopted_once: "row_adopted E w ttl m1 m2 j \<Longrightarrow> \<not> row_adopted E w ttl' m2 m3 j"
  by (auto simp: row_adopted_def)

lemma adoption_trans:
  assumes "adoption E m1 m2" "adoption E m2 m3"
  shows "adoption E m1 m3"
proof -
  have w: "m_cfg m2 = m_cfg m1" "m_cfg m3 = m_cfg m1" "m_registry m3 = m_registry m1"
    using assms by (simp_all add: adoption_def)
  let ?w = "m_workerID m1" and ?d = "mc_defaultTTL (m_cfg m1)"
  have "lease_kept_or_taken E ?w m1 m3 j \<and> (row m3 j = row m1 j \<and> cached m3 j = cached m1 j \<or> row_adopted E ?w ?d m1 m3 j)" for j
  proof -
    have 1: "lease_kept_or_taken E ?w m1 m2 j" "row m2 j = row m1 j \<and> cached m2 j = cached m1 j \<or> row_adopted E ?w ?d m1 m2 j"
      using assms(1) by (auto simp: adoption_def)
    have 2: "lease_kept_or_taken E ?w m2 m3 j" "row m3 j = row m2 j \<and> cached m3 j = cached m2 j \<or> row_adopted E ?w ?d m2 m3 j"
      using assms(2) w(1) by (auto simp: adoption_def)
    show ?thesis
      using lease_kept_or_taken_trans [OF 1(1) 2(1)] 1(2) 2(2)
        row_adopted_later [OF _ 2(1)] row_adopted_before row_adopted_once by metis
  qed
  then show ?thesis
    using w unfolding adoption_def by blast
qed

lemma lease_held_other: "j \<noteq> i \<Longrightarrow> lease_held j (snd (AcquireLease E i ty h d s)) = lease_held j s"
  by (auto simp: AcquireLease_def Let_def lease_held_def row_by_append row_by_upd_where option.map_comp comp_def
      dest: row_by_SomeD split: option.splits intro!: option.map_cong)

lemma acquireSandboxLease_kept:
  "lease_kept_or_taken E (m_workerID m) m (snd (acquireSandboxLease E i t m)) j"
proof (cases "j = i")
  case True
  show ?thesis
    using row_after_AcquireLease [of i E "''sandbox''" "m_workerID m"
        "if t - db_now E + sandboxLeaseGrace \<le> 0 then sandboxLeaseGrace else t - db_now E + sandboxLeaseGrace" "m_store m"]
    unfolding True lease_kept_or_taken_def lease_held_def acquireSandboxLease_def acquireSandboxLeaseFor_on_store store_on_store
    by (elim disjE exE conjE) (auto split: if_splits)
next
  case False
  show ?thesis
    using False
    by (simp add: lease_kept_or_taken_def acquireSandboxLease_def acquireSandboxLeaseFor_on_store lease_held_other)
qed

lemma adoption_same:
  assumes "m_cfg m' = m_cfg m" "m_registry m' = m_registry m" "m_store m' = m_store m" "m_sandboxes m' = m_sandboxes m"
  shows "adoption E m m'"
  using assms by (simp add: adoption_def lease_kept_or_taken_def cached_def)

lemma adoption_lease: "adoption E m (snd (acquireSandboxLease E i t m))"
  unfolding adoption_def using acquireSandboxLease_kept
  by (simp add: acquireSandboxLease_def cached_def)

lemma adopted_expiry:
  "0 \<le> mc_defaultTTL (m_cfg m) \<Longrightarrow> db_now E \<le> sr_ExpiresAt (adopted_record E rt p m)"
  by (simp add: adopted_record_def Let_def)

lemma adopted_record_simps [simp]:
  "sr_ID (adopted_record E rt p m) = rs_ID rt" "sr_WorkerID (adopted_record E rt p m) = m_workerID m"
  by (simp_all add: adopted_record_def Let_def)

lemma adopt_runtime_adoption: "adoption E m (snd (snd (adopt_runtime E p rt (known, m))))"
proof (cases "rs_ID rt \<in> set known \<or> rs_State rt = StateDestroyed")
  case False
  let ?rec = "adopted_record E rt p m"
  obtain lease m1 where l: "acquireSandboxLease E (rs_ID rt) (sr_ExpiresAt ?rec) m = (lease, m1)" by fastforce
  have a1: "adoption E m m1" using adoption_lease [of E m "rs_ID rt" "sr_ExpiresAt ?rec"] l by simp
  have cfg: "m_cfg m1 = m_cfg m" using a1 by (simp add: adoption_def)
  show ?thesis
  proof (cases lease)
    case (Inl e)
    then show ?thesis using False l a1 by (simp add: adopt_runtime_def Let_def)
  next
    case (Inr lr)
    have held: "\<exists>e. lease_held (rs_ID rt) (m_store m1) = Some (m_workerID m, e) \<and> db_now E < e"
      using acquireSandboxLeaseFor_Inr [of E "rs_ID rt" "m_workerID m" "sr_ExpiresAt ?rec" m] l Inr
      by (simp add: acquireSandboxLease_def)
    show ?thesis
    proof (cases "fst (CreateSandbox E ?rec (m_store m1))")
      case None
      let ?m2 = "snd (snd (adopt_runtime E p rt (known, m)))"
      let ?m3 = "snd (on_store (CreateSandbox E ?rec) m1)"
      have worker: "TrimSpace (m_workerID m) \<noteq> []"
        using l Inr by (auto simp: acquireSandboxLease_def acquireSandboxLeaseFor_on_store AcquireLease_def on_store_def split: if_splits)
      have m2: "m_cfg ?m2 = m_cfg m1" "m_registry ?m2 = m_registry m1" "m_store ?m2 = snd (CreateSandbox E ?rec (m_store m1))"
        "cached ?m2 = (cached m1)(rs_ID rt \<mapsto> (recordToSandbox ?rec)\<lparr>sb_PreviewDomain := mc_previewDomain (m_cfg m)\<rparr>)"
        using False l Inr None cfg
        by (simp_all add: adopt_runtime_def Let_def case_prod_beta publishOperationalEvent_def publish_event_def
            cached_def cache_put_def fun_eq_iff)
      have fresh: "row m1 (rs_ID rt) = None" using CreateSandbox_fresh [OF None] by simp
      have "adoption E m1 ?m2"
        unfolding adoption_def lease_kept_or_taken_def row_adopted_def
        using m2 cfg held fresh worker adopted_expiry [of m E rt p]
        by (auto simp: row_CreateSandbox [OF None])
      then show ?thesis using a1 adoption_trans by blast
    next
      case (Some e)
      have "m_store (snd (on_store (CreateSandbox E ?rec) m1)) = m_store m1"
        using CreateSandbox_fail [OF Some] by simp
      then have "adoption E m1 (snd (snd (adopt_runtime E p rt (known, m))))"
        using False l Inr Some by (intro adoption_same) (simp_all add: adopt_runtime_def Let_def case_prod_beta)
      then show ?thesis using a1 adoption_trans by blast
    qed
  qed
qed (simp add: adopt_runtime_def)

lemma adopt_runtimes_adoption: "adoption E m (snd (snd (each (adopt_runtime E p) rts (known, m))))"
proof (rule each_invariant [where P = "\<lambda>km. adoption E m (snd km)"])
  fix rt and km :: "string list \<times> mgr"
  assume "adoption E m (snd km)"
  then show "adoption E m (snd (snd (adopt_runtime E p rt km)))"
    using adopt_runtime_adoption [of E "snd km" p rt "fst km"] adoption_trans by (metis prod.collapse)
qed simp

lemma adopt_provider_adoption: "adoption E m (snd (snd (adopt_provider E name (known, m))))"
proof -
  have c: "adoption E m (snd (call (re_runtimes E) c m))" for c
    by (rule adoption_same) simp_all
  have f: "adoption E m (provider_failed E i oper q e (snd (call (re_runtimes E) c m)))" for i oper q e c
    by (rule adoption_same) (simp_all add: provider_failed_def)
  show ?thesis
    using c f adopt_runtimes_adoption adoption_trans [OF c adopt_runtimes_adoption]
    by (simp add: adopt_provider_def Let_def case_prod_beta split: sum.split)
qed

lemma reconcileProviderRuntimes_adoption: "adoption E m (snd (reconcileProviderRuntimes E known m))"
proof -
  have "adoption E m (snd (snd (each (adopt_provider E) names (known, m))))" for names
  proof (rule each_invariant [where P = "\<lambda>km. adoption E m (snd km)"])
    fix name and km :: "string list \<times> mgr"
    assume "adoption E m (snd km)"
    then show "adoption E m (snd (snd (adopt_provider E name km)))"
      using adopt_provider_adoption [of E "snd km" name "fst km"] adoption_trans by (metis prod.collapse)
  qed simp
  then show ?thesis by (simp add: reconcileProviderRuntimes_def case_prod_beta)
qed

lemma adoption_keeps:
  assumes "row m j = Some r"
  shows "row (snd (reconcileProviderRuntimes E known m)) j = Some r"
    "cached (snd (reconcileProviderRuntimes E known m)) j = cached m j"
  using assms reconcileProviderRuntimes_adoption [of E m known]
  by (simp_all add: adoption_def row_adopted_def) (metis option.distinct(1))+

text \<open>
  C12. Adoption takes no sandbox from another worker: whatever the providers list, while
  \<open>reconcileProviderRuntimes\<close> runs, with or without an error, a lease of another worker that has
  not expired stays with it; no row and no cache entry of a sandbox already in the table changes; and
  a runtime that gets a row was unknown, belongs to this worker, whose lease covers it, is
  cached in the state recorded and has not expired (for a TTL that is not negative).
\<close>

theorem adoption_respects_leases:
  "(\<forall>h e. lease_held j (m_store m) = Some (h, e) \<and> h \<noteq> m_workerID m \<and> db_now E < e \<longrightarrow>
      lease_held j (m_store (snd (reconcileProviderRuntimes E known m))) = Some (h, e) \<and>
      row (snd (reconcileProviderRuntimes E known m)) j = row m j) \<and>
   (\<forall>r. row m j = Some r \<longrightarrow> row (snd (reconcileProviderRuntimes E known m)) j = Some r \<and>
      cached (snd (reconcileProviderRuntimes E known m)) j = cached m j) \<and>
   (\<forall>r. row m j = None \<and> row (snd (reconcileProviderRuntimes E known m)) j = Some r \<longrightarrow>
      sr_WorkerID r = m_workerID m \<and>
      (\<exists>sb. cached (snd (reconcileProviderRuntimes E known m)) j = Some sb \<and> sb_State sb = sr_State r) \<and>
      (\<exists>e. lease_held j (m_store (snd (reconcileProviderRuntimes E known m))) = Some (m_workerID m, e) \<and> db_now E < e) \<and>
      (0 \<le> mc_defaultTTL (m_cfg m) \<longrightarrow> db_now E \<le> sr_ExpiresAt r))" (is "?lhs (snd (reconcileProviderRuntimes E known m))")
proof -
  define M where "M = snd (reconcileProviderRuntimes E known m)"
  have "adoption E m M" unfolding M_def by (rule reconcileProviderRuntimes_adoption)
  then have l: "lease_kept_or_taken E (m_workerID m) m M j"
    and r: "row M j = row m j \<and> cached M j = cached m j \<or> row_adopted E (m_workerID m) (mc_defaultTTL (m_cfg m)) m M j"
    by (simp_all add: adoption_def)
  from r show ?thesis
    unfolding M_def [symmetric]
  proof
    assume "row M j = row m j \<and> cached M j = cached m j"
    then show "?lhs M" using l by (auto simp: lease_kept_or_taken_def)
  next
    assume "row_adopted E (m_workerID m) (mc_defaultTTL (m_cfg m)) m M j"
    then show "?lhs M" using l by (auto simp: lease_kept_or_taken_def row_adopted_def)
  qed
qed

section \<open>The whole of Reconcile\<close>

lemma unique_split:
  "unique_key key t \<Longrightarrow> r \<in> set t \<Longrightarrow> \<exists>xs ys. t = xs @ r # ys \<and> key r \<notin> key ` set xs \<and> key r \<notin> key ` set ys"
proof -
  assume u: "unique_key key t" and "r \<in> set t"
  then obtain xs ys where "t = xs @ r # ys" by (auto simp: in_set_conv_decomp)
  moreover from this u have "key r \<notin> key ` set xs" "key r \<notin> key ` set ys" by auto
  ultimately show ?thesis by blast
qed

lemma ListSandboxes_unique:
  assumes "ListSandboxes E s = Inr rs" "store_ok s"
  shows "unique_key sr_ID rs"
proof -
  have t: "unique_key sr_ID (t_sandboxes s)" using assms(2) by (simp add: store_ok_def)
  show ?thesis
    using assms(1) t by (auto simp: ListSandboxes_def distinct_map split: option.splits intro: inj_on_subset)
qed

lemma Reconcile_None:
  assumes "Reconcile E m = (None, m')"
  obtains recs m1 where "ListSandboxes E (m_store m) = Inr recs" "each (reconcile_record E) recs m = (None, m1)"
    "reconcileProviderRuntimes E (map sr_ID recs) m1 = (None, m')"
  using assms by (auto simp: Reconcile_def Let_def split: sum.splits prod.splits option.splits)

lemma reconciled_record:
  assumes "Reconcile E m = (None, m')" and "store_ok (m_store m)" and "m_sandboxes m = []"
    and "row m i = Some r" and "sr_State r \<noteq> StateDestroyed"
    and "TrimSpace (sr_WorkerID r) = [] \<or> sr_WorkerID r = m_workerID m"
  shows "\<exists>h r'. row m' i = Some r' \<and> sr_State r' = reported E (m_registry m) h r \<and> coherent m' i"
proof -
  obtain recs m1 where recs: "ListSandboxes E (m_store m) = Inr recs" "each (reconcile_record E) recs m = (None, m1)"
    "reconcileProviderRuntimes E (map sr_ID recs) m1 = (None, m')"
    by (rule Reconcile_None [OF assms(1)])
  have id: "sr_ID r = i" using assms(4) by (auto dest: row_by_SomeD)
  have "r \<in> set recs"
    using set_ListSandboxes [OF recs(1)] assms(4,5) by (auto dest: row_by_SomeD)
  then obtain xs ys where split: "recs = xs @ r # ys" "i \<notin> sr_ID ` set xs" "i \<notin> sr_ID ` set ys"
    using unique_split [OF ListSandboxes_unique [OF recs(1) assms(2)]] id by blast
  obtain s1 s2 where steps: "each (reconcile_record E) xs m = (None, s1)" "reconcile_record E r s1 = (None, s2)"
      "each (reconcile_record E) ys s2 = (None, m1)"
    using recs(2) unfolding split(1) by (rule each_None_split)
  have s1: "row s1 i = Some r" "cached s1 i = None" "m_registry s1 = m_registry m" "m_cfg s1 = m_cfg m"
    using records_only [OF split(2), of E m] records_cfg [of E xs m] steps(1) assms(3,4) by (simp_all add: cached_def)
  have "reconcile_local E r s1 = (None, s2)"
    using steps(2) assms(5,6) s1(4) by (auto simp: reconcile_record_def reconcileRemoteOwnedSandbox_def)
  from reconcile_local_state [OF this] s1 id
  obtain r' where r': "row s2 i = Some r'" "sr_State r' = reported E (m_registry m) (m_calls s1) r" "coherent s2 i"
    by auto
  have "row m1 i = Some r'" "cached m1 i = cached s2 i"
    using records_only [OF split(3), of E s2] steps(3) r'(1) by simp_all
  then have "row m' i = Some r'" "cached m' i = cached s2 i"
    using adoption_keeps [where m = m1 and j = i and E = E and known = "map sr_ID recs"] recs(3) by simp_all
  then show ?thesis using r' unfolding coherent_def by metis
qed

text \<open>
  C11. After a successful \<open>Reconcile\<close> of a manager that has just started, the record of every live
  sandbox of this worker is in the state its provider reported: running or what it said,
  destroyed if the provider does not know it, \<open>error\<close> if the provider could not be asked; and
  the cache says the same as the record.
\<close>

theorem reconcile_states:
  assumes "Reconcile E m = (None, m')" and "store_ok (m_store m)" and "m_sandboxes m = []"
    and "row m i = Some r" and "sr_State r \<noteq> StateDestroyed"
    and "TrimSpace (sr_WorkerID r) = [] \<or> sr_WorkerID r = m_workerID m"
  shows "\<exists>h r'. row m' i = Some r' \<and> sr_State r' = reported E (m_registry m) h r \<and> coherent m' i"
  by (rule reconciled_record [OF assms])

text \<open>Two sandboxes run that are not in the table; another worker holds the lease of one.\<close>

definition adopting_env :: env where
  "adopting_env = sample_env\<lparr>re_runtimes := (\<lambda>h c. Inr
     (map (\<lambda>i. \<lparr>rs_ID = i, rs_State = [], rs_Provider = [], rs_Image = [], rs_CreatedAt = 0, rs_Metadata = []\<rparr>) [''sb-x'', ''sb-y'']))\<rparr>"

definition sample_contended :: mgr where
  "sample_contended = sample_mgr\<lparr>m_store :=
     snd (AcquireLease adopting_env ''sb-x'' ''sandbox'' ''w1'' (60 * Second) empty_store)\<rparr>"

theorem adoption_respects_leases_witness:
  "lease_held ''sb-x'' (m_store (snd (reconcileProviderRuntimes adopting_env [] sample_contended))) = Some (''w1'', 1060 * Second) \<and>
   row (snd (reconcileProviderRuntimes adopting_env [] sample_contended)) ''sb-x'' = None \<and>
   (\<exists>e. lease_held ''sb-y'' (m_store (snd (reconcileProviderRuntimes adopting_env [] sample_contended))) = Some (''local'', e))"
proof -
  let ?m = "snd (reconcileProviderRuntimes adopting_env [] sample_contended)"
  have 1: "lease_held ''sb-x'' (m_store sample_contended) = Some (''w1'', 1060 * Second)" "m_workerID sample_contended = ''local''"
    "db_now adopting_env < 1060 * Second" "row sample_contended ''sb-x'' = None" "row sample_contended ''sb-y'' = None" by code_simp+
  have "row ?m ''sb-y'' \<noteq> None" by code_simp
  then obtain r where "row ?m ''sb-y'' = Some r" by blast
  then show ?thesis
    using adoption_respects_leases [of "''sb-x''" sample_contended adopting_env "[]"]
      adoption_respects_leases [of "''sb-y''" sample_contended adopting_env "[]"] 1 by auto
qed

text \<open>A provider that runs one sandbox, and the VM of the shared ones, and knows no other.\<close>

definition restarted_env :: env where
  "restarted_env = sample_env\<lparr>re_id := (\<lambda>h c. case c of
       PStatus p i \<Rightarrow> (if i = ''sb-a'' \<or> i = ''sb-v'' then Inr StateRunning else Inl (SandboxNotFoundError i))
     | _ \<Rightarrow> Inl (Err ErrOther [])),
     re_runtimes := (\<lambda>h c. Inr [\<lparr>rs_ID = ''sb-old'', rs_State = [], rs_Provider = [], rs_Image = [], rs_CreatedAt = 0, rs_Metadata = []\<rparr>])\<rparr>"

lemma restarted_status [simp]:
  "re_id restarted_env h (PStatus p i) =
     (if i = ''sb-a'' \<or> i = ''sb-v'' then Inr StateRunning else Inl (SandboxNotFoundError i))"
  by (simp add: restarted_env_def)

theorem reconcile_states_witness:
  "\<exists>r'. row (snd (Reconcile restarted_env sample_full)) ''sb-b'' = Some r' \<and> sr_State r' = StateDestroyed"
proof -
  have 1: "fst (Reconcile restarted_env sample_full) = None" by code_simp
  then have R: "Reconcile restarted_env sample_full = (None, snd (Reconcile restarted_env sample_full))"
    by (simp add: prod_eq_iff)
  have 2: "row sample_full ''sb-b'' = Some (sample_row ''sb-b'' ''eve'')" "registry_Get (m_registry sample_full) ''mock'' = Inr ''mock''"
    by code_simp+
  have 3: "store_ok (m_store sample_full)" "m_sandboxes sample_full = []" "m_workerID sample_full = ''local''"
    by (simp_all add: sample_full_def store_ok_def empty_store_def sample_row_def sample_mgr_def NewManager_def
        sample_config_def Let_def TrimSpace_Nil)
  show ?thesis
    using reconcile_states [OF R 3(1,2) 2(1)] 2(2) 3(3)
    by (auto simp: sample_row_def reported_def ErrorsIs_def)
qed

section \<open>Recovery: what goes wrong\<close>

text \<open>
  A sandbox in a shared VM does not survive a restart.  \<open>Reconcile\<close> asks the provider for the
  sandbox's own id, though only its VM is known there: the record is marked destroyed, while
  the VM it lives in is running.
\<close>

theorem reconcile_loses_guests:
  assumes "Reconcile E m = (None, m')" and "store_ok (m_store m)" and "m_sandboxes m = []"
    and "row m i = Some r" and "sr_State r \<noteq> StateDestroyed" and "sr_WorkerID r = m_workerID m"
    and "registry_Get (m_registry m) (sr_Provider r) = Inr prov"
    and "\<And>h. re_id E h (PStatus prov i) = Inl (SandboxNotFoundError i)"
    and "\<And>h. re_id E h (PStatus prov (sr_VMID r)) = Inr StateRunning"
  shows "\<exists>r'. row m' i = Some r' \<and> sr_State r' = StateDestroyed"
proof -
  have "sr_ID r = i" using assms(4) by (auto dest: row_by_SomeD)
  then show ?thesis
    using reconciled_record [OF assms(1-5)] assms(6-8) by (auto simp: reported_def ErrorsIs_def)
qed

text \<open>
  A runtime whose sandbox is recorded as destroyed stops the recovery: destroyed records are not
  listed, so it is taken for unknown, its row collides with the old one, and the constraint
  error is not the conflict that \<open>Reconcile\<close> looks for.  (Stated for a table without live
  sandboxes and the first runtime of the only provider.)
\<close>

theorem reconcile_fails_on_leftover:
  assumes "ListSandboxes E (m_store m) = Inr []" and "rg_providers (m_registry m) = [(p, True)]" and "p \<noteq> []"
    and "re_runtimes E (m_calls m) (PListRuntimeSandboxes p) = Inr (rt # rts)"
    and "row m (rs_ID rt) = Some r" and "rs_State rt \<noteq> StateDestroyed"
    and "fst (acquireSandboxLease E (rs_ID rt) (sr_ExpiresAt (adopted_record E rt p m)) m) = Inr l"
    and "db_fail E (OpCreateSandbox (rs_ID rt)) = None"
  shows "\<exists>e. fst (Reconcile E m) = Some e \<and> \<not> ErrorsIs e ErrConflict"
proof -
  let ?m = "snd (call (re_runtimes E) (PListRuntimeSandboxes p) m)"
  have rec: "adopted_record E rt p ?m = adopted_record E rt p m" by (simp add: adopted_record_def Let_def)
  have lease: "fst (acquireSandboxLease E (rs_ID rt) (sr_ExpiresAt (adopted_record E rt p ?m)) ?m) = Inr l"
    using assms(7) by (simp add: rec acquireSandboxLease_def acquireSandboxLeaseFor_on_store)
  obtain m1 where m1: "acquireSandboxLease E (rs_ID rt) (sr_ExpiresAt (adopted_record E rt p ?m)) ?m = (Inr l, m1)"
    using lease by (metis prod.collapse)
  have row: "row m1 (rs_ID rt) = Some r"
    using adoption_lease [of E ?m "rs_ID rt" "sr_ExpiresAt (adopted_record E rt p ?m)"] m1 assms(5)
    by (simp add: adoption_def row_adopted_def) (metis option.distinct(1))
  have "\<exists>e. fst (adopt_runtime E p rt ([], ?m)) = Some e \<and> \<not> ErrorsIs e ErrConflict"
    using assms(6,8) m1 row
    by (auto simp: adopt_runtime_def Let_def case_prod_beta CreateSandbox_def on_store_def unique_violation_def ErrorsIs_def)
  moreover have "registry_Get (m_registry m) p = Inr p" using assms(2,3) by (simp add: registry_Get_def)
  ultimately show ?thesis
    using assms(1,2,4)
    by (auto simp: Reconcile_def reconcileProviderRuntimes_def registry_List_def adopt_provider_def Let_def case_prod_beta
        split: option.split)
qed

end
