(* ===== verification/Provider_Exec.thy ===== *)
theory Provider_Exec
  imports Store_Types
begin

text \<open>
  Pure parts of the providers (\<open>internal/providers/provider.go\<close>, \<open>ringbuf.go\<close>): how an exec
  request becomes the argument vector of a process, and the console buffer that keeps the last
  lines of a runtime's output.
\<close>

section \<open>Argument vectors\<close>

abbreviation squote :: char where "squote \<equiv> CHR 0x27"
abbreviation dquote :: char where "dquote \<equiv> CHR 0x22"
abbreviation blank :: char where "blank \<equiv> CHR 0x20"
abbreviation newline :: char where "newline \<equiv> CHR 0x0A"

record ExecOptions =
  xo_Command :: string
  xo_Args :: "string list"
  xo_Mode :: string
  xo_Env :: metadata
  xo_WorkDir :: string

definition normalizeExecMode :: "string \<Rightarrow> error + string" where
  "normalizeExecMode emode =
     (let t = TrimSpace emode in
      if t = [] \<or> t = ''shell'' then Inr ''shell''
      else if t = ''argv'' then Inr ''argv''
      else Inl (Err ErrOther (''unsupported exec mode '' @ Quote emode)))"

definition shellQuoteArg :: "string \<Rightarrow> string" where
  "shellQuoteArg s =
     squote # concat (map (\<lambda>c. if c = squote then [squote, dquote, squote, dquote, squote] else [c]) s) @ [squote]"

definition buildExecCommand :: "ExecOptions \<Rightarrow> error + string list" where
  "buildExecCommand opts =
     (case normalizeExecMode (xo_Mode opts) of
        Inl e \<Rightarrow> Inl e
      | Inr emode \<Rightarrow>
          if emode = ''argv'' then
            (if TrimSpace (xo_Command opts) = [] then Inl (Err ErrOther ''argv exec mode requires command'')
             else Inr (xo_Command opts # xo_Args opts))
          else Inr [''sh'', ''-c'', foldl (\<lambda>c a. c @ blank # shellQuoteArg a) (xo_Command opts) (xo_Args opts)])"

text \<open>
  How a POSIX shell splits a command line into words, as far as blanks and the two kinds of
  quotes go; other characters that are special to a shell are outside the fragment (\<open>None\<close>).
\<close>

datatype sh_mode = Bare | Single | Double

definition sh_special :: "char \<Rightarrow> bool" where
  "sh_special c \<longleftrightarrow> c \<in> set ''|&;<>()$*?[]#~=%!{}^'' \<or> c \<in> {CHR 0x5C, CHR 0x60, CHR 0x0A, CHR 0x09}"

fun sh_split :: "sh_mode \<Rightarrow> string option \<Rightarrow> string \<Rightarrow> string list option" where
  "sh_split Bare cur [] = Some (case cur of None \<Rightarrow> [] | Some w \<Rightarrow> [w])"
| "sh_split Single cur [] = None"
| "sh_split Double cur [] = None"
| "sh_split Bare cur (c # cs) =
     (if c = blank then map_option (append (case cur of None \<Rightarrow> [] | Some w \<Rightarrow> [w])) (sh_split Bare None cs)
      else if c = squote then sh_split Single (Some (case cur of None \<Rightarrow> [] | Some w \<Rightarrow> w)) cs
      else if c = dquote then sh_split Double (Some (case cur of None \<Rightarrow> [] | Some w \<Rightarrow> w)) cs
      else if sh_special c then None
      else sh_split Bare (Some ((case cur of None \<Rightarrow> [] | Some w \<Rightarrow> w) @ [c])) cs)"
| "sh_split Single cur (c # cs) =
     (if c = squote then sh_split Bare cur cs
      else sh_split Single (Some ((case cur of None \<Rightarrow> [] | Some w \<Rightarrow> w) @ [c])) cs)"
| "sh_split Double cur (c # cs) =
     (if c = dquote then sh_split Bare cur cs
      else if c = CHR ''$'' \<or> c = CHR 0x5C \<or> c = CHR 0x60 then None
      else sh_split Double (Some ((case cur of None \<Rightarrow> [] | Some w \<Rightarrow> w) @ [c])) cs)"

definition sh_words :: "string \<Rightarrow> string list option" where
  "sh_words s = sh_split Bare None s"

lemma sh_split_append:
  "sh_split md cur s = Some ws \<Longrightarrow> sh_split md cur (s @ blank # t) = map_option (append ws) (sh_words t)"
  by (cases "sh_words t"; induction md cur s arbitrary: ws rule: sh_split.induct)
    (auto simp: sh_words_def split: if_splits)

lemma sh_split_quoted:
  "sh_split Single (Some w) (concat (map (\<lambda>c. if c = squote then [squote, dquote, squote, dquote, squote] else [c]) s) @ squote # t)
     = sh_split Bare (Some (w @ s)) t"
  by (induction s arbitrary: w) auto

lemma sh_words_quoted: "sh_words (shellQuoteArg a) = Some [a]"
  using sh_split_quoted [of "[]" a "[]"] by (simp add: sh_words_def shellQuoteArg_def)

lemma sh_words_args:
  "sh_words cmd = Some ws \<Longrightarrow> sh_words (foldl (\<lambda>c a. c @ blank # shellQuoteArg a) cmd args) = Some (ws @ args)"
proof (induction args arbitrary: cmd ws)
  case (Cons a args)
  have "sh_words (cmd @ blank # shellQuoteArg a) = Some (ws @ [a])"
    using sh_split_append [of Bare None cmd ws "shellQuoteArg a"] Cons.prems sh_words_quoted
    by (simp add: sh_words_def)
  from Cons.IH [OF this] show ?case by simp
qed simp

text \<open>
  Arguments reach the command as they were given, in both modes: in argv mode the process
  gets the command and its arguments; in shell mode the command line that the shell is given
  splits into the words of the command and then exactly the arguments, whatever blanks, quotes
  or special characters they hold.  No argument can end its quotes and add words of its own.
\<close>

theorem exec_arguments_intact:
  assumes "sh_words (xo_Command opts) = Some ws"
  shows "(TrimSpace (xo_Mode opts) \<in> {[], ''shell''} \<longrightarrow>
       (\<exists>line. buildExecCommand opts = Inr [''sh'', ''-c'', line] \<and> sh_words line = Some (ws @ xo_Args opts))) \<and>
    (TrimSpace (xo_Mode opts) = ''argv'' \<and> TrimSpace (xo_Command opts) \<noteq> [] \<longrightarrow>
       buildExecCommand opts = Inr (xo_Command opts # xo_Args opts))"
  using sh_words_args [OF assms] by (auto simp: buildExecCommand_def normalizeExecMode_def Let_def)

section \<open>The console buffer\<close>

record RingBuffer =
  rb_lines :: "string list"
  rb_maxLines :: nat
  rb_partial :: string

definition NewRingBuffer :: "int \<Rightarrow> RingBuffer" where
  "NewRingBuffer maxLines = \<lparr>rb_lines = [], rb_maxLines = (if maxLines \<le> 0 then 1000 else nat maxLines), rb_partial = []\<rparr>"

definition addLine :: "string \<Rightarrow> RingBuffer \<Rightarrow> RingBuffer" where
  "addLine l rb =
     (if length (rb_lines rb) \<ge> rb_maxLines rb then rb\<lparr>rb_lines := tl (rb_lines rb) @ [l]\<rparr>
      else rb\<lparr>rb_lines := rb_lines rb @ [l]\<rparr>)"

definition ring_Write :: "string \<Rightarrow> RingBuffer \<Rightarrow> RingBuffer" where
  "ring_Write p rb =
     (let parts = split_on newline (rb_partial rb @ p)
      in fold addLine (butlast parts) (rb\<lparr>rb_partial := last parts\<rparr>))"

definition ring_Lines :: "int \<Rightarrow> RingBuffer \<Rightarrow> string list" where
  "ring_Lines n rb =
     (let hasPartial = (rb_partial rb \<noteq> []);
          total = length (rb_lines rb) + (if hasPartial then 1 else 0);
          n = (if n \<le> 0 \<or> n > int total then total else nat n);
          skip = total - n
      in drop skip (rb_lines rb) @ (if hasPartial \<and> skip < total then [rb_partial rb] else []))"

text \<open>
  What a writer that is fed in chunks owes its readers: the view depends on the text
  written, not on how it was cut.
\<close>

locale text_sink =
  fixes put_chunk :: "string \<Rightarrow> 's \<Rightarrow> 's"
    and view :: "'s \<Rightarrow> 'v"
    and spec :: "string \<Rightarrow> 'v"
    and holds :: "'s \<Rightarrow> string \<Rightarrow> bool"
  assumes holds_write: "holds s t \<Longrightarrow> holds (put_chunk p s) (t @ p)"
    and view_holds: "holds s t \<Longrightarrow> view s = spec t"
begin

lemma holds_writes: "holds s t \<Longrightarrow> holds (fold put_chunk ps s) (t @ concat ps)"
  by (induction ps arbitrary: s t) (simp_all, metis append.assoc holds_write)

lemma view_writes: "holds s [] \<Longrightarrow> view (fold put_chunk ps s) = spec (concat ps)"
  using holds_writes [of s "[]"] view_holds by auto

lemma chunking_irrelevant: "holds s [] \<Longrightarrow> concat ps = concat qs \<Longrightarrow> view (fold put_chunk ps s) = view (fold put_chunk qs s)"
  by (simp add: view_writes)

end

lemma split_on_extend: "split_on c (t @ p) = butlast (split_on c t) @ split_on c (last (split_on c t) @ p)"
proof (induction t)
  case (Cons x t)
  then show ?case
    by (cases "split_on c t") (auto split: list.splits)
qed simp

lemma rb_fields_addLine [simp]: "rb_maxLines (addLine l rb) = rb_maxLines rb" "rb_partial (addLine l rb) = rb_partial rb"
  by (simp_all add: addLine_def)

lemma addLine_last_n:
  assumes "0 < rb_maxLines rb" and "rb_lines rb = last_n (rb_maxLines rb) X"
  shows "rb_lines (addLine l rb) = last_n (rb_maxLines rb) (X @ [l])"
proof (cases "rb_maxLines rb \<le> length X")
  case True
  then show ?thesis using assms by (simp add: addLine_def last_n_snoc_full)
next
  case False
  then show ?thesis using assms by (simp add: addLine_def last_n_all)
qed

lemma fold_addLine:
  assumes "0 < rb_maxLines rb" and "rb_lines rb = last_n (rb_maxLines rb) X"
  shows "rb_lines (fold addLine ls rb) = last_n (rb_maxLines rb) (X @ ls) \<and>
    rb_maxLines (fold addLine ls rb) = rb_maxLines rb \<and> rb_partial (fold addLine ls rb) = rb_partial rb"
  using assms
proof (induction ls arbitrary: rb X)
  case (Cons l ls)
  then show ?case using Cons.IH [of "addLine l rb" "X @ [l]"] addLine_last_n by simp
qed simp

definition ring_holds :: "RingBuffer \<Rightarrow> string \<Rightarrow> bool" where
  "ring_holds rb t \<longleftrightarrow> 0 < rb_maxLines rb \<and> rb_partial rb = last (split_on newline t) \<and>
     rb_lines rb = last_n (rb_maxLines rb) (butlast (split_on newline t))"

text \<open>The reference: the last lines of the text, the unfinished one included.\<close>

definition last_lines :: "nat \<Rightarrow> int \<Rightarrow> string \<Rightarrow> string list" where
  "last_lines k n t =
     (let kept = last_n k (butlast (split_on newline t)) @ (if last (split_on newline t) = [] then [] else [last (split_on newline t)])
      in if n \<le> 0 then kept else last_n (nat n) kept)"

lemma ring_holds_Write: "ring_holds rb t \<Longrightarrow> ring_holds (ring_Write p rb) (t @ p)"
  using fold_addLine [of "rb\<lparr>rb_partial := last (split_on newline (rb_partial rb @ p))\<rparr>" "butlast (split_on newline t)"
      "butlast (split_on newline (rb_partial rb @ p))"]
  by (simp add: ring_holds_def ring_Write_def Let_def split_on_extend [of newline t p] butlast_append)

lemma ring_Lines_holds: "ring_holds rb t \<Longrightarrow> ring_Lines n rb = last_lines (rb_maxLines rb) n t"
  by (auto simp: ring_holds_def ring_Lines_def last_lines_def Let_def last_n_def)

interpretation console: text_sink ring_Write "ring_Lines n" "last_lines k n" "\<lambda>rb t. ring_holds rb t \<and> rb_maxLines rb = k"
  for n k
proof
  fix rb t p
  assume "ring_holds rb t \<and> rb_maxLines rb = k"
  then show "ring_holds (ring_Write p rb) (t @ p) \<and> rb_maxLines (ring_Write p rb) = k"
    using ring_holds_Write [of rb t p]
      fold_addLine [of "rb\<lparr>rb_partial := last (split_on newline (rb_partial rb @ p))\<rparr>" "butlast (split_on newline t)"
        "butlast (split_on newline (rb_partial rb @ p))"]
    by (simp add: ring_Write_def Let_def ring_holds_def)
qed (auto simp: ring_Lines_holds)

text \<open>
  The console buffer shows the last lines of the output however the output was cut into
  writes: after any writes to a new buffer, \<open>Lines\<close> gives what the reference computes from the
  whole text, at most \<open>maxLines\<close> finished lines and the unfinished one, the last \<open>n\<close> of them
  for a positive \<open>n\<close>.
\<close>

theorem console_chunk_invariant:
  "ring_Lines n (fold ring_Write ps (NewRingBuffer maxLines)) =
     last_lines (if maxLines \<le> 0 then 1000 else nat maxLines) n (concat ps)"
  by (rule console.view_writes) (simp add: ring_holds_def NewRingBuffer_def last_n_def)

end
