(* ===== verification/Agent_Frame.thy ===== *)
theory Agent_Frame
  imports Store_Types
begin

text \<open>
  The wire between the host and the agent in a microVM (\<open>internal/agentproto/io.go\<close>,
  \<open>protocol.go\<close>): every message is four bytes of length, big endian, and its JSON.  JSON itself
  is Go's \<open>encoding/json\<close>: a parameter here, a function each way.
\<close>

abbreviation maxMessageSize :: nat where "maxMessageSize \<equiv> 64 * 1024 * 1024"

text \<open>\<open>binary.BigEndian\<close>: the length is converted to \<open>uint32\<close> first, so it wraps.\<close>

definition PutUint32 :: "32 word \<Rightarrow> string" where
  "PutUint32 w = map (\<lambda>k. char_of (drop_bit k (unat w))) [24, 16, 8, 0]"

definition Uint32 :: "string \<Rightarrow> 32 word" where
  "Uint32 b = (case b of [a, b, c, d] \<Rightarrow>
     word_of_nat (of_char a * 2 ^ 24 + of_char b * 2 ^ 16 + of_char c * 2 ^ 8 + of_char d) | _ \<Rightarrow> 0)"

text \<open>The bytes a writer has received; the writer does not fail.\<close>

definition WriteMessage :: "('v \<Rightarrow> error + string) \<Rightarrow> 'v \<Rightarrow> string \<Rightarrow> error option \<times> string" where
  "WriteMessage marshal v w =
     (case marshal v of
        Inl e \<Rightarrow> (Some (wrap_err ''marshal'' e), w)
      | Inr data \<Rightarrow> (None, w @ PutUint32 (word_of_nat (length data)) @ data))"

text \<open>\<open>io.ReadFull\<close>: the bytes, or the error of a stream that ends too early, and the rest.\<close>

definition ReadFull :: "nat \<Rightarrow> string \<Rightarrow> (error + string) \<times> string" where
  "ReadFull n r =
     (if n \<le> length r then (Inr (take n r), drop n r)
      else (Inl (Err ErrOther (if r = [] then ''EOF'' else ''unexpected EOF'')), []))"

definition ReadMessage :: "string \<Rightarrow> (error + string) \<times> string" where
  "ReadMessage r =
     (let (h, r) = ReadFull 4 r in
      case h of
        Inl e \<Rightarrow> (Inl (wrap_err ''read header'' e), r)
      | Inr hdr \<Rightarrow>
          (let size = unat (Uint32 hdr) in
           if size > maxMessageSize then (Inl (Err ErrOther (''message too large: '' @ Itoa (int size) @ '' bytes'')), r)
           else
             (let (p, r) = ReadFull size r in
              case p of Inl e \<Rightarrow> (Inl (wrap_err ''read payload'' e), r) | Inr buf \<Rightarrow> (Inr buf, r))))"

text \<open>\<open>ReadRequest\<close>, \<open>ReadResponse\<close> and \<open>ReadStreamResponse\<close> differ in the type they decode and its name.\<close>

definition ReadTyped :: "string \<Rightarrow> (string \<Rightarrow> error + 'v) \<Rightarrow> string \<Rightarrow> (error + 'v) \<times> string" where
  "ReadTyped what unmarshal r =
     (let (d, r) = ReadMessage r in
      case d of
        Inl e \<Rightarrow> (Inl e, r)
      | Inr data \<Rightarrow> (case unmarshal data of Inl e \<Rightarrow> (Inl (wrap_err (''unmarshal '' @ what) e), r) | Inr v \<Rightarrow> (Inr v, r)))"

section \<open>Round trip\<close>

lemma byte_of_char [simp]: "(of_char (char_of (n :: nat) :: char) :: nat) = n mod 256"
  by simp

lemma length_PutUint32 [simp]: "length (PutUint32 w) = 4"
  by (simp add: PutUint32_def)

lemma bytes_of_nat:
  "(n div 16777216 mod 256) * 16777216 + (n div 65536 mod 256) * 65536 + (n div 256 mod 256) * 256 + n mod 256 = n mod 4294967296"
  for n :: nat
proof -
  have "n mod 4294967296 = 16777216 * (n div 16777216 mod 256) + n mod 16777216"
    using mod_mult2_eq [of n 16777216 256] by simp
  moreover have "n mod 16777216 = 65536 * (n div 65536 mod 256) + n mod 65536"
    using mod_mult2_eq [of n 65536 256] by simp
  moreover have "n mod 65536 = 256 * (n div 256 mod 256) + n mod 256"
    using mod_mult2_eq [of n 256 256] by simp
  ultimately show ?thesis by simp
qed

lemma Uint32_PutUint32: "Uint32 (PutUint32 w) = w"
proof -
  have "unat w < 4294967296" by (rule order_less_le_trans [OF unsigned_less]) simp
  moreover have "Uint32 (PutUint32 w) = word_of_nat ((unat w div 16777216 mod 256) * 16777216 +
      (unat w div 65536 mod 256) * 65536 + (unat w div 256 mod 256) * 256 + unat w mod 256)"
    by (simp add: Uint32_def PutUint32_def drop_bit_eq_div)
  ultimately show ?thesis by (simp only: bytes_of_nat) simp
qed

definition frame_of :: "string \<Rightarrow> string" where
  "frame_of data = PutUint32 (word_of_nat (length data)) @ data"

lemma unat_length: "length data \<le> maxMessageSize \<Longrightarrow> unat (word_of_nat (length data) :: 32 word) = length data"
  by (simp add: unat_of_nat)

lemma ReadMessage_frame:
  assumes "length data \<le> maxMessageSize"
  shows "ReadMessage (frame_of data @ r) = (Inr data, r)"
  using assms unat_length [OF assms]
  by (simp add: ReadMessage_def ReadFull_def frame_of_def Uint32_PutUint32 Let_def)

fun read_all :: "nat \<Rightarrow> (string \<Rightarrow> error + 'v) \<Rightarrow> string \<Rightarrow> (error + 'v list) \<times> string" where
  "read_all 0 unmarshal r = (Inr [], r)"
| "read_all (Suc n) unmarshal r =
     (case ReadTyped ''request'' unmarshal r of
        (Inl e, r) \<Rightarrow> (Inl e, r)
      | (Inr v, r) \<Rightarrow> (case read_all n unmarshal r of (Inl e, r) \<Rightarrow> (Inl e, r) | (Inr vs, r) \<Rightarrow> (Inr (v # vs), r)))"

fun write_all :: "('v \<Rightarrow> error + string) \<Rightarrow> 'v list \<Rightarrow> string \<Rightarrow> string" where
  "write_all marshal [] w = w"
| "write_all marshal (v # vs) w = write_all marshal vs (snd (WriteMessage marshal v w))"

lemma write_all_eq:
  "(\<And>v. v \<in> set vs \<Longrightarrow> marshal v = Inr (enc v)) \<Longrightarrow> write_all marshal vs w = w @ concat (map (frame_of \<circ> enc) vs)"
  by (induction vs arbitrary: w) (simp_all add: WriteMessage_def frame_of_def)

text \<open>
  Messages survive the wire: what one side writes, message after message, the other side
  reads as the same messages in the same order, and the bytes that follow are left alone, as long
  as every message's JSON decodes to it and is at most 64 MB.  A larger message (below 4 GB) is
  refused by the reader, which has then consumed the header only: the stream is out of step.
\<close>

theorem agent_wire_roundtrip:
  assumes "\<And>v. v \<in> set vs \<Longrightarrow> marshal v = Inr (enc v) \<and> unmarshal (enc v) = Inr v \<and> length (enc v) \<le> maxMessageSize"
  shows "read_all (length vs) unmarshal (write_all marshal vs [] @ rest) = (Inr vs, rest) \<and>
    (\<forall>data. maxMessageSize < length data \<and> length data < 2 ^ 32 \<longrightarrow>
       (\<exists>e. ReadMessage (frame_of data @ rest) = (Inl e, data @ rest)))"
proof
  have "read_all (length vs) unmarshal (concat (map (frame_of \<circ> enc) vs) @ rest) = (Inr vs, rest)"
    using assms by (induction vs) (simp_all add: ReadTyped_def ReadMessage_frame)
  then show "read_all (length vs) unmarshal (write_all marshal vs [] @ rest) = (Inr vs, rest)"
    using write_all_eq [of vs marshal enc "[]"] assms by simp
  have "unat (word_of_nat (length data) :: 32 word) = length data" if "length data < 2 ^ 32" for data :: string
    using that by (simp add: unat_of_nat)
  then show "\<forall>data. maxMessageSize < length data \<and> length data < 2 ^ 32 \<longrightarrow>
       (\<exists>e. ReadMessage (frame_of data @ rest) = (Inl e, data @ rest))"
    by (auto simp: ReadMessage_def ReadFull_def frame_of_def Uint32_PutUint32 Let_def)
qed

end
