(* ===== verification/Auth.thy ===== *)
theory Auth
  imports Go_Duration Store_Types
begin

text \<open>
  Who may call what (\<open>internal/api/middleware/auth.go\<close>, \<open>jwt.go\<close> and the order in which
  \<open>internal/api/server.go\<close> chains them): API keys, OIDC tokens, roles and scopes, and the admin routes.

  A middleware is a function from the identity in the request's context to either the identity
  it hands to the next handler or the status it answers itself.  Cryptography, base64 and JSON
  are Go's standard library: the record \<open>oidc_lib\<close> holds what the code takes from them, and
  the fetch of the key set, as functions.
\<close>

section \<open>Roles, scopes, identities\<close>

datatype AuthRole =
    AuthRoleAnonymous | AuthRoleViewer | AuthRoleAPI | AuthRoleOperator | AuthRoleAdmin
  | AuthRoleTenantAdmin | AuthRoleWorker | AuthRoleNone

abbreviation "ScopeAPI \<equiv> ''api:*''"
abbreviation "ScopeAdmin \<equiv> ''admin:*''"
abbreviation "ScopeRead \<equiv> ''read:*''"
abbreviation "ScopeOperator \<equiv> ''operator:*''"
abbreviation "ScopeTenantAdmin \<equiv> ''tenant:admin''"

definition worker_scopes :: "string list" where
  "worker_scopes = [''worker:heartbeat'', ''worker:spawn'', ''worker:destroy'', ''worker:status'', ''worker:exec'',
     ''worker:files'', ''worker:logs'', ''worker:lease'']"

fun scopesForRole :: "AuthRole \<Rightarrow> string list" where
  "scopesForRole AuthRoleAdmin = [ScopeRead, ScopeAPI, ScopeOperator, ScopeAdmin]"
| "scopesForRole AuthRoleTenantAdmin = [ScopeRead, ScopeAPI, ScopeOperator, ScopeTenantAdmin]"
| "scopesForRole AuthRoleOperator = [ScopeRead, ScopeAPI, ScopeOperator]"
| "scopesForRole AuthRoleAPI = [ScopeRead, ScopeAPI]"
| "scopesForRole AuthRoleViewer = [ScopeRead]"
| "scopesForRole AuthRoleWorker = worker_scopes"
| "scopesForRole _ = []"

record AuthIdentity =
  ai_Role :: AuthRole
  ai_Header :: string
  ai_WorkerID :: string
  ai_Scopes :: "string list"
  ai_Subject :: string
  ai_Email :: string
  ai_TenantID :: string
  ai_Groups :: "string list"

definition no_identity :: AuthIdentity where
  "no_identity = \<lparr>ai_Role = AuthRoleNone, ai_Header = [], ai_WorkerID = [], ai_Scopes = [], ai_Subject = [],
     ai_Email = [], ai_TenantID = [], ai_Groups = []\<rparr>"

text \<open>\<open>AuthIdentityFromContext\<close> when nothing put an identity there.\<close>

definition anonymous :: AuthIdentity where
  "anonymous = no_identity\<lparr>ai_Role := AuthRoleAnonymous\<rparr>"

definition HasScope :: "AuthIdentity \<Rightarrow> string \<Rightarrow> bool" where
  "HasScope i scope \<longleftrightarrow> scope \<in> set (ai_Scopes i)"

text \<open>A request, as far as the middleware looks at it: its headers.\<close>

type_synonym headers = "string \<Rightarrow> string"

datatype outcome = Next AuthIdentity | Reject nat

abbreviation "StatusUnauthorized \<equiv> 401"
abbreviation "StatusForbidden \<equiv> 403"

definition RequireScope :: "string \<Rightarrow> AuthIdentity \<Rightarrow> outcome" where
  "RequireScope scope i = (if HasScope i scope then Next i else Reject StatusForbidden)"

section \<open>API keys\<close>

type_synonym authCandidate = "string \<times> AuthRole"

fun match_candidate :: "string \<Rightarrow> authCandidate list \<Rightarrow> AuthRole option" where
  "match_candidate candidate [] = None"
| "match_candidate candidate ((key, role) # cs) =
     (if key = [] then match_candidate candidate cs
      else if candidate = key then Some role
      else match_candidate candidate cs)"

fun try_headers :: "headers \<Rightarrow> authCandidate list \<Rightarrow> string list \<Rightarrow> AuthIdentity option" where
  "try_headers h cs [] = None"
| "try_headers h cs (name # names) =
     (if h name = [] then try_headers h cs names
      else case match_candidate (h name) cs of
        Some role \<Rightarrow> Some (no_identity\<lparr>ai_Role := role, ai_Header := name, ai_Scopes := scopesForRole role,
                        ai_TenantID := TrimSpace (h ''X-Tenant-ID'')\<rparr>)
      | None \<Rightarrow> try_headers h cs names)"

definition authenticateRequest :: "headers \<Rightarrow> authCandidate list \<Rightarrow> AuthIdentity option" where
  "authenticateRequest h cs = try_headers h cs [''X-Admin-API-Key'', ''X-API-Key'']"

definition nonEmptyKeys :: "string list \<Rightarrow> string list" where
  "nonEmptyKeys ks = filter (\<lambda>k. k \<noteq> []) ks"

definition AuthAny :: "string list \<Rightarrow> headers \<Rightarrow> AuthIdentity \<Rightarrow> outcome" where
  "AuthAny keys h i =
     (let candidates = (case keys of [] \<Rightarrow> [] | k # ks \<Rightarrow> (k, AuthRoleAPI) # map (\<lambda>k. (k, AuthRoleAdmin)) ks) in
      if nonEmptyKeys keys = [] then Next i
      else if ai_Header i = ''Authorization'' then Next i
      else case authenticateRequest h candidates of None \<Rightarrow> Reject StatusUnauthorized | Some j \<Rightarrow> Next j)"

definition AdminAuth :: "string \<Rightarrow> string \<Rightarrow> bool \<Rightarrow> headers \<Rightarrow> AuthIdentity \<Rightarrow> outcome" where
  "AdminAuth adminKey fallbackKey fallbackEnabled h i =
     (let key = (if adminKey = [] \<and> fallbackEnabled then fallbackKey else adminKey) in
      if ai_Header i = ''Authorization'' then Next i
      else if key = [] then Next i
      else case authenticateRequest h [(key, AuthRoleAdmin)] of None \<Rightarrow> Reject StatusForbidden | Some j \<Rightarrow> Next j)"

section \<open>OIDC\<close>

datatype 'k publicKey = NoKey | RSAKey 'k | ECKey 'k

record JWTClaims =
  jc_Subject :: string
  jc_Issuer :: string
  jc_Audience :: "string list"
  jc_Expiry :: int
  jc_Email :: string
  jc_Groups :: "string list"
  jc_extra_groups :: "string \<Rightarrow> string list option"
  jc_extra_string :: "string \<Rightarrow> string option"

record 'k oidc_lib =
  ol_b64 :: "string \<Rightarrow> string option"
  ol_header :: "string \<Rightarrow> (string \<times> string) option"
  ol_claims :: "string \<Rightarrow> JWTClaims option"
  ol_verify :: "string \<Rightarrow> 'k \<Rightarrow> string \<Rightarrow> string \<Rightarrow> bool"
  ol_fetch :: "string \<Rightarrow> error + (string \<times> 'k publicKey) list"

record 'k jwksCache =
  jw_keys :: "(string \<times> 'k publicKey) list"
  jw_fetched :: time
  jw_url :: string

abbreviation jwks_ttl :: duration where "jwks_ttl \<equiv> 5 * Minute"

definition newJWKSCache :: "string \<Rightarrow> 'k jwksCache" where
  "newJWKSCache url = \<lparr>jw_keys = [], jw_fetched = 0, jw_url = url\<rparr>"

definition jwks_get :: "'k oidc_lib \<Rightarrow> string \<Rightarrow> time \<Rightarrow> 'k jwksCache \<Rightarrow> (error + 'k publicKey) \<times> 'k jwksCache" where
  "jwks_get L kid now c =
     (let unknown = Err ErrOther (''jwks: unknown kid '' @ Quote kid) in
      if now < jw_fetched c + jwks_ttl then
        (case map_of (jw_keys c) kid of Some k \<Rightarrow> (Inr k, c) | None \<Rightarrow> (Inl unknown, c))
      else case ol_fetch L (jw_url c) of
        Inl e \<Rightarrow> (Inl e, c)
      | Inr keys \<Rightarrow>
          (let c = c\<lparr>jw_keys := keys, jw_fetched := now\<rparr>
           in case map_of keys kid of Some k \<Rightarrow> (Inr k, c) | None \<Rightarrow> (Inl unknown, c)))"

text \<open>The instant of a Unix time, on the scale of Go's zero time.\<close>

definition unix_time :: "int \<Rightarrow> time" where
  "unix_time s = (s + 62135596800) * Second"

definition verify_signature :: "'k oidc_lib \<Rightarrow> string \<Rightarrow> 'k publicKey \<Rightarrow> string \<Rightarrow> string \<Rightarrow> error option" where
  "verify_signature L alg key msg sig =
     (let bad = Some (Err ErrOther ''JWT signature verification failed'') in
      if alg = ''RS256'' then
        (case key of RSAKey k \<Rightarrow> (if ol_verify L alg k msg sig then None else bad)
         | _ \<Rightarrow> Some (Err ErrOther ''algorithm RS256 requires an RSA key, got EC''))
      else if alg = ''ES256'' \<or> alg = ''ES384'' \<or> alg = ''ES512'' then
        (case key of ECKey k \<Rightarrow> (if ol_verify L alg k msg sig then None else bad)
         | _ \<Rightarrow> Some (Err ErrOther (''algorithm '' @ alg @ '' requires an EC key, got RSA'')))
      else Some (Err ErrOther (''unsupported JWT algorithm '' @ Quote alg @ ''; supported: RS256, ES256, ES384, ES512'')))"

definition check_claims :: "string \<Rightarrow> string \<Rightarrow> time \<Rightarrow> JWTClaims \<Rightarrow> error option" where
  "check_claims issuer audience now c =
     (if jc_Expiry c \<le> 0 \<or> \<not> now < unix_time (jc_Expiry c) then Some (Err ErrOther ''JWT is expired'')
      else if issuer \<noteq> [] \<and> jc_Issuer c \<noteq> issuer
      then Some (Err ErrOther (''JWT issuer '' @ Quote (jc_Issuer c) @ '' does not match expected '' @ Quote issuer))
      else if audience \<noteq> [] \<and> audience \<notin> set (jc_Audience c)
      then Some (Err ErrOther (''JWT audience does not contain '' @ Quote audience))
      else None)"

definition verifyJWT ::
  "'k oidc_lib \<Rightarrow> string \<Rightarrow> string \<Rightarrow> string \<Rightarrow> 'k publicKey \<Rightarrow> 'k jwksCache option \<Rightarrow> time
     \<Rightarrow> (error + JWTClaims) \<times> 'k jwksCache option" where
  "verifyJWT L token issuer audience staticKey cache now =
     (case split_on (CHR ''.'') token of
        [p0, p1, p2] \<Rightarrow>
          (case Option.bind (ol_b64 L p0) (ol_header L) of
             None \<Rightarrow> (Inl (Err ErrOther ''malformed JWT header''), cache)
           | Some (alg, kid) \<Rightarrow>
          (case ol_b64 L p2 of
             None \<Rightarrow> (Inl (Err ErrOther ''malformed JWT signature''), cache)
           | Some sig \<Rightarrow>
          (let (key, cache) =
             (if staticKey \<noteq> NoKey then (Inr staticKey, cache)
              else case cache of
                Some c \<Rightarrow> (let (k, c) = jwks_get L kid now c in (k, Some c))
              | None \<Rightarrow> (Inl (Err ErrOther ''no OIDC public key or JWKS URL configured''), None))
           in case key of
                Inl e \<Rightarrow> (Inl e, cache)
              | Inr key \<Rightarrow>
                  (case verify_signature L alg key (p0 @ ''.'' @ p1) sig of
                     Some e \<Rightarrow> (Inl e, cache)
                   | None \<Rightarrow>
                       (case Option.bind (ol_b64 L p1) (ol_claims L) of
                          None \<Rightarrow> (Inl (Err ErrOther ''malformed JWT payload''), cache)
                        | Some claims \<Rightarrow>
                            (case check_claims issuer audience now claims of
                               Some e \<Rightarrow> (Inl e, cache)
                             | None \<Rightarrow> (Inr claims, cache)))))))
      | _ \<Rightarrow> (Inl (Err ErrOther ''malformed JWT''), cache))"

abbreviation workerSignedTokenPrefix :: string where "workerSignedTokenPrefix \<equiv> ''stacyvm-worker-v1''"

definition bearerToken :: "headers \<Rightarrow> string" where
  "bearerToken h =
     (let v = h ''Authorization'' in
      if length v > 7 \<and> EqualFold (take 7 v) ''Bearer '' then
        (let candidate = TrimSpace (drop 7 v)
         in if HasPrefix candidate (workerSignedTokenPrefix @ ''.'') then [] else candidate)
      else [])"

record OIDCConfig =
  oc_Issuer :: string
  oc_Audience :: string
  oc_JWKSUrl :: string
  oc_PublicKeyPEM :: string
  oc_GroupsClaim :: string
  oc_TenantClaim :: string
  oc_AdminGroups :: "string list"
  oc_OperatorGroups :: "string list"
  oc_ViewerGroups :: "string list"

definition groupSet :: "string list \<Rightarrow> string set" where
  "groupSet gs = set (filter (\<lambda>g. g \<noteq> []) (map TrimSpace gs))"

definition oidcRole :: "string list \<Rightarrow> string set \<Rightarrow> string set \<Rightarrow> string set \<Rightarrow> AuthRole" where
  "oidcRole groups adm opr vwr =
     (if list_ex (\<lambda>g. g \<in> adm) groups then AuthRoleAdmin
      else if list_ex (\<lambda>g. g \<in> opr) groups then AuthRoleOperator
      else if list_ex (\<lambda>g. g \<in> vwr) groups then AuthRoleViewer
      else AuthRoleAPI)"

text \<open>The groups and the tenant that the configured claims give.\<close>

definition claim_groups :: "OIDCConfig \<Rightarrow> JWTClaims \<Rightarrow> string list" where
  "claim_groups cfg c =
     (if oc_GroupsClaim cfg \<noteq> [] \<and> oc_GroupsClaim cfg \<noteq> ''groups'' then
        (case jc_extra_groups c (oc_GroupsClaim cfg) of Some gs \<Rightarrow> gs | None \<Rightarrow> jc_Groups c)
      else jc_Groups c)"

definition claim_tenant :: "OIDCConfig \<Rightarrow> JWTClaims \<Rightarrow> string" where
  "claim_tenant cfg c =
     (if oc_TenantClaim cfg \<noteq> [] then (case jc_extra_string c (oc_TenantClaim cfg) of Some t \<Rightarrow> t | None \<Rightarrow> []) else [])"

definition OIDCAuth ::
  "'k oidc_lib \<Rightarrow> OIDCConfig \<Rightarrow> 'k publicKey \<Rightarrow> time \<Rightarrow> headers \<Rightarrow> AuthIdentity \<Rightarrow> 'k jwksCache option
     \<Rightarrow> outcome \<times> 'k jwksCache option" where
  "OIDCAuth L cfg staticKey now h i cache =
     (let token = bearerToken h in
      if token = [] then (Next i, cache)
      else
        (let (r, cache) = verifyJWT L token (oc_Issuer cfg) (oc_Audience cfg) staticKey cache now
         in case r of
              Inl e \<Rightarrow> (Reject StatusUnauthorized, cache)
            | Inr claims \<Rightarrow>
                (let groups = claim_groups cfg claims;
                     role = oidcRole groups (groupSet (oc_AdminGroups cfg)) (groupSet (oc_OperatorGroups cfg))
                              (groupSet (oc_ViewerGroups cfg))
                 in (Next (no_identity\<lparr>ai_Role := role, ai_Header := ''Authorization'', ai_Scopes := scopesForRole role,
                       ai_Subject := jc_Subject claims, ai_Email := jc_Email claims, ai_TenantID := claim_tenant cfg claims,
                       ai_Groups := groups\<rparr>), cache))))"

section \<open>The chains of the server\<close>

record ServerAuth =
  sa_APIKey :: string
  sa_AdminAPIKey :: string
  sa_AdminFallbackDisabled :: bool
  sa_OIDC :: OIDCConfig

definition oidc_configured :: "ServerAuth \<Rightarrow> bool" where
  "oidc_configured cfg \<longleftrightarrow> oc_Issuer (sa_OIDC cfg) \<noteq> [] \<or> oc_JWKSUrl (sa_OIDC cfg) \<noteq> [] \<or> oc_PublicKeyPEM (sa_OIDC cfg) \<noteq> []"

definition authConfigured :: "ServerAuth \<Rightarrow> bool" where
  "authConfigured cfg \<longleftrightarrow> sa_APIKey cfg \<noteq> [] \<or> sa_AdminAPIKey cfg \<noteq> [] \<or> oidc_configured cfg"

fun and_then :: "outcome \<Rightarrow> (AuthIdentity \<Rightarrow> outcome) \<Rightarrow> outcome" where
  "and_then (Next i) f = f i"
| "and_then (Reject n) f = Reject n"

text \<open>What runs before every API route.\<close>

definition api_chain ::
  "'k oidc_lib \<Rightarrow> 'k publicKey \<Rightarrow> ServerAuth \<Rightarrow> time \<Rightarrow> headers \<Rightarrow> 'k jwksCache option \<Rightarrow> outcome \<times> 'k jwksCache option" where
  "api_chain L staticKey cfg now h cache =
     (let (o1, cache) = (if oidc_configured cfg then OIDCAuth L (sa_OIDC cfg) staticKey now h anonymous cache
                         else (Next anonymous, cache))
      in (and_then o1 (\<lambda>i. if sa_APIKey cfg \<noteq> [] \<or> sa_AdminAPIKey cfg \<noteq> []
                           then AuthAny [sa_APIKey cfg, sa_AdminAPIKey cfg] h i else Next i), cache))"

text \<open>And what is added under \<open>/api/v1/admin\<close>, and under a sandbox route with a scope.\<close>

definition admin_chain ::
  "'k oidc_lib \<Rightarrow> 'k publicKey \<Rightarrow> ServerAuth \<Rightarrow> time \<Rightarrow> headers \<Rightarrow> 'k jwksCache option \<Rightarrow> outcome \<times> 'k jwksCache option" where
  "admin_chain L staticKey cfg now h cache =
     (let (o1, cache) = api_chain L staticKey cfg now h cache
      in (and_then (and_then o1 (AdminAuth (sa_AdminAPIKey cfg) (sa_APIKey cfg) (\<not> sa_AdminFallbackDisabled cfg) h))
            (\<lambda>i. if authConfigured cfg then RequireScope ScopeAdmin i else Next i), cache))"

definition scoped_chain ::
  "string \<Rightarrow> 'k oidc_lib \<Rightarrow> 'k publicKey \<Rightarrow> ServerAuth \<Rightarrow> time \<Rightarrow> headers \<Rightarrow> 'k jwksCache option
     \<Rightarrow> outcome \<times> 'k jwksCache option" where
  "scoped_chain scope L staticKey cfg now h cache =
     (let (o1, cache) = api_chain L staticKey cfg now h cache
      in (and_then o1 (\<lambda>i. if authConfigured cfg then RequireScope scope i else Next i), cache))"

end
