(* ===== verification/Auth_Laws.thy ===== *)
theory Auth_Laws
  imports Auth
begin

text \<open>
  What authentication guarantees: an OIDC token is accepted only with a signature of a key that
  was configured, in time and for the right audience; and the admin routes are open only to
  the holder of an admin key or of a verified token with an admin group.
\<close>

section \<open>Tokens\<close>

text \<open>The key that is to have signed: the static one, or what the key set says for the token's key id.\<close>

definition trusted_key :: "'k oidc_lib \<Rightarrow> 'k publicKey \<Rightarrow> 'k jwksCache option \<Rightarrow> string \<Rightarrow> time \<Rightarrow> 'k publicKey \<Rightarrow> bool" where
  "trusted_key L staticKey cache kid now k \<longleftrightarrow>
     (if staticKey \<noteq> NoKey then k = staticKey
      else \<exists>c. cache = Some c \<and> ((now < jw_fetched c + jwks_ttl \<and> map_of (jw_keys c) kid = Some k) \<or>
             (\<exists>keys. ol_fetch L (jw_url c) = Inr keys \<and> map_of keys kid = Some k)))"

lemma jwks_get_trusted:
  "jwks_get L kid now c = (Inr k, c') \<Longrightarrow> trusted_key L NoKey (Some c) kid now k"
  by (auto simp: jwks_get_def trusted_key_def Let_def split: if_splits option.splits sum.splits)

lemma verify_signature_None:
  "verify_signature L alg key msg sig = None \<Longrightarrow>
   \<exists>k. ol_verify L alg k msg sig \<and> (key = RSAKey k \<and> alg = ''RS256'' \<or> key = ECKey k \<and> alg \<in> {''ES256'', ''ES384'', ''ES512''})"
  by (cases key) (auto simp: verify_signature_def Let_def split: if_splits)

lemma check_claims_None:
  "check_claims issuer audience now c = None \<longleftrightarrow>
   0 < jc_Expiry c \<and> now < unix_time (jc_Expiry c) \<and> (issuer = [] \<or> jc_Issuer c = issuer) \<and>
   (audience = [] \<or> audience \<in> set (jc_Audience c))"
  by (auto simp: check_claims_def)

lemma split_three: "split_on c s = [p0, p1, p2] \<Longrightarrow> s = p0 @ c # p1 @ c # p2"
  using join_split [of c s] by simp

text \<open>
  C29. A token that \<open>verifyJWT\<close> accepts has three parts; a trusted key (the static one, or the key
  that the key set has under the token's key id) verified the signature over the first two,
  with an algorithm of that key's kind, never \<open>none\<close> and never an RSA key used for EC or the
  other way round; the claims are those of the second part, they have not expired, and issuer
  and audience are the configured ones.
\<close>

theorem jwt_sound:
  assumes "fst (verifyJWT L token issuer audience staticKey cache now) = Inr claims"
  shows "\<exists>p0 p1 p2 alg kid sig k kk. token = p0 @ ''.'' @ p1 @ ''.'' @ p2 \<and>
    Option.bind (ol_b64 L p0) (ol_header L) = Some (alg, kid) \<and> ol_b64 L p2 = Some sig \<and>
    trusted_key L staticKey cache kid now k \<and> ol_verify L alg kk (p0 @ ''.'' @ p1) sig \<and>
    (k = RSAKey kk \<and> alg = ''RS256'' \<or> k = ECKey kk \<and> alg \<in> {''ES256'', ''ES384'', ''ES512''}) \<and>
    Option.bind (ol_b64 L p1) (ol_claims L) = Some claims \<and>
    0 < jc_Expiry claims \<and> now < unix_time (jc_Expiry claims) \<and>
    (issuer = [] \<or> jc_Issuer claims = issuer) \<and> (audience = [] \<or> audience \<in> set (jc_Audience claims))"
proof -
  obtain p0 p1 p2 where parts: "split_on (CHR ''.'') token = [p0, p1, p2]"
    using assms by (auto simp: verifyJWT_def split: list.splits)
  obtain alg kid where hdr: "Option.bind (ol_b64 L p0) (ol_header L) = Some (alg, kid)"
    using assms by (auto simp: verifyJWT_def parts split: option.splits)
  obtain sig where sig: "ol_b64 L p2 = Some sig"
    using assms by (auto simp: verifyJWT_def parts hdr split: option.splits)
  obtain k c' where key: "(if staticKey \<noteq> NoKey then (Inr staticKey, cache)
      else case cache of
        Some c \<Rightarrow> (let (k, c) = jwks_get L kid now c in (k, Some c))
      | None \<Rightarrow> (Inl (Err ErrOther ''no OIDC public key or JWKS URL configured''), None)) = (k, c')"
    by fastforce
  obtain k0 where k0: "k = Inr k0"
    using assms by (cases k) (simp_all add: verifyJWT_def parts hdr sig key)
  have rest: "verify_signature L alg k0 (p0 @ ''.'' @ p1) sig = None"
      "Option.bind (ol_b64 L p1) (ol_claims L) = Some claims" "check_claims issuer audience now claims = None"
    using assms key unfolding k0
    by (auto simp: verifyJWT_def parts hdr sig simp del: bind_eq_Some_conv split: option.splits)
  have "trusted_key L staticKey cache kid now k0"
  proof (cases "staticKey = NoKey")
    case True
    then obtain c c'' where "cache = Some c" "jwks_get L kid now c = (Inr k0, c'')"
      using key unfolding k0 by (auto split: option.splits prod.splits)
    then show ?thesis using jwks_get_trusted True by blast
  qed (use key k0 in \<open>simp add: trusted_key_def\<close>)
  moreover obtain kk where "ol_verify L alg kk (p0 @ ''.'' @ p1) sig"
      "k0 = RSAKey kk \<and> alg = ''RS256'' \<or> k0 = ECKey kk \<and> alg \<in> {''ES256'', ''ES384'', ''ES512''}"
    using verify_signature_None [OF rest(1)] by blast
  moreover note claims = rest(3) [unfolded check_claims_None]
  moreover have "token = p0 @ ''.'' @ p1 @ ''.'' @ p2" using split_three [OF parts] by simp
  ultimately show ?thesis
    using hdr sig rest(2) by blast
qed

section \<open>The admin routes\<close>

lemma match_candidate_Some: "match_candidate x cs = Some role \<Longrightarrow> \<exists>k. k \<noteq> [] \<and> k = x \<and> (k, role) \<in> set cs"
  by (induction x cs rule: match_candidate.induct) (auto split: if_splits)

lemma try_headers_Some:
  "try_headers h cs names = Some i \<Longrightarrow>
   \<exists>n k role. n \<in> set names \<and> ai_Header i = n \<and> ai_Role i = role \<and> ai_Scopes i = scopesForRole role \<and>
     k \<noteq> [] \<and> h n = k \<and> (k, role) \<in> set cs"
proof (induction h cs names rule: try_headers.induct)
  case (2 h cs name names)
  then show ?case
    by (auto split: if_splits option.splits dest!: match_candidate_Some)
qed simp

lemma authenticateRequest_Some:
  assumes "authenticateRequest h cs = Some i"
  obtains k where "ai_Header i = ''X-Admin-API-Key'' \<or> ai_Header i = ''X-API-Key''" "h (ai_Header i) = k" "k \<noteq> []"
    "(k, ai_Role i) \<in> set cs" "ai_Scopes i = scopesForRole (ai_Role i)"
  using assms try_headers_Some unfolding authenticateRequest_def by fastforce

lemma admin_scope_role: "ScopeAdmin \<in> set (scopesForRole role) \<longleftrightarrow> role = AuthRoleAdmin"
  by (cases role) (simp_all add: worker_scopes_def)

text \<open>An identity of the OIDC middleware, with the token it stands for.\<close>

definition oidc_identity :: "'k oidc_lib \<Rightarrow> 'k publicKey \<Rightarrow> OIDCConfig \<Rightarrow> time \<Rightarrow> headers \<Rightarrow> 'k jwksCache option \<Rightarrow> AuthIdentity \<Rightarrow> bool" where
  "oidc_identity L staticKey cfg now h cache i \<longleftrightarrow>
     (\<exists>claims. fst (verifyJWT L (bearerToken h) (oc_Issuer cfg) (oc_Audience cfg) staticKey cache now) = Inr claims \<and>
        ai_Groups i = claim_groups cfg claims \<and> ai_Subject i = jc_Subject claims \<and>
        ai_Role i = oidcRole (ai_Groups i) (groupSet (oc_AdminGroups cfg)) (groupSet (oc_OperatorGroups cfg)) (groupSet (oc_ViewerGroups cfg)) \<and>
        ai_Scopes i = scopesForRole (ai_Role i))"

lemma OIDCAuth_Next:
  assumes "fst (OIDCAuth L cfg staticKey now h anonymous cache) = Next i"
  shows "i = anonymous \<or> ai_Header i = ''Authorization'' \<and> oidc_identity L staticKey cfg now h cache i"
  using assms
  by (auto simp: OIDCAuth_def oidc_identity_def Let_def case_prod_beta split: if_splits sum.splits)

lemma api_chain_Next:
  assumes "fst (api_chain L staticKey cfg now h cache) = Next i"
  shows "i = anonymous \<and> sa_APIKey cfg = [] \<and> sa_AdminAPIKey cfg = [] \<or>
    ai_Header i = ''Authorization'' \<and> oidc_configured cfg \<and> oidc_identity L staticKey (sa_OIDC cfg) now h cache i \<or>
    authenticateRequest h [(sa_APIKey cfg, AuthRoleAPI), (sa_AdminAPIKey cfg, AuthRoleAdmin)] = Some i"
proof -
  let ?o = "fst (if oidc_configured cfg then OIDCAuth L (sa_OIDC cfg) staticKey now h anonymous cache else (Next anonymous, cache))"
  obtain j where j: "?o = Next j"
    using assms by (cases ?o) (simp_all add: api_chain_def case_prod_beta)
  have j2: "j = anonymous \<or> ai_Header j = ''Authorization'' \<and> oidc_configured cfg \<and> oidc_identity L staticKey (sa_OIDC cfg) now h cache j"
    using j OIDCAuth_Next by (fastforce split: if_splits)
  have "(if sa_APIKey cfg \<noteq> [] \<or> sa_AdminAPIKey cfg \<noteq> [] then AuthAny [sa_APIKey cfg, sa_AdminAPIKey cfg] h j else Next j) = Next i"
    using assms j by (simp add: api_chain_def case_prod_beta)
  then show ?thesis
    using j2 by (auto simp: AuthAny_def nonEmptyKeys_def Let_def anonymous_def no_identity_def split: if_splits option.splits)
qed

text \<open>
  C30. Only an administrator reaches the admin routes of a server with any authentication
  configured: whoever passes the whole chain in front of them either presented, in one of the
  two key headers, the admin key (or the API key, where no admin key is set and the fallback
  is on), or a token that \<open>verifyJWT\<close> accepts and one of whose groups is an admin group.  With
  OIDC alone, a request without a token does not pass.
\<close>

theorem admin_routes_admin_only:
  assumes "authConfigured cfg" and "fst (admin_chain L staticKey cfg now h cache) = Next i"
  shows "(oidc_configured cfg \<and> oidc_identity L staticKey (sa_OIDC cfg) now h cache i \<and>
      (\<exists>g\<in>set (ai_Groups i). g \<in> groupSet (oc_AdminGroups (sa_OIDC cfg)))) \<or>
    (\<exists>k. k \<noteq> [] \<and> (h ''X-Admin-API-Key'' = k \<or> h ''X-API-Key'' = k) \<and>
       (k = sa_AdminAPIKey cfg \<or> sa_AdminAPIKey cfg = [] \<and> \<not> sa_AdminFallbackDisabled cfg \<and> k = sa_APIKey cfg))"
proof -
  let ?o = "fst (api_chain L staticKey cfg now h cache)"
  let ?key = "if sa_AdminAPIKey cfg = [] \<and> \<not> sa_AdminFallbackDisabled cfg then sa_APIKey cfg else sa_AdminAPIKey cfg"
  obtain j where j: "?o = Next j" "AdminAuth (sa_AdminAPIKey cfg) (sa_APIKey cfg) (\<not> sa_AdminFallbackDisabled cfg) h j = Next i"
    "ScopeAdmin \<in> set (ai_Scopes i)"
  proof -
    have a: "and_then (and_then ?o (AdminAuth (sa_AdminAPIKey cfg) (sa_APIKey cfg) (\<not> sa_AdminFallbackDisabled cfg) h))
        (RequireScope ScopeAdmin) = Next i"
      using assms by (simp add: admin_chain_def case_prod_beta cong: if_cong)
    show ?thesis
    proof (cases ?o)
      case (Next j)
      then show ?thesis
        using a that by (cases "AdminAuth (sa_AdminAPIKey cfg) (sa_APIKey cfg) (\<not> sa_AdminFallbackDisabled cfg) h j")
          (auto simp: RequireScope_def HasScope_def split: if_splits)
    qed (use a in simp)
  qed
  consider "j = i" "ai_Header j = ''Authorization'' \<or> ?key = []"
    | "authenticateRequest h [(?key, AuthRoleAdmin)] = Some i" "?key \<noteq> []"
    using j(2) by (auto simp: AdminAuth_def Let_def split: if_splits option.splits)
  then show ?thesis
  proof cases
    case 1
    from api_chain_Next [OF j(1)] show ?thesis
    proof (elim disjE conjE)
      assume "j = anonymous"
      then show ?thesis using 1(1) j(3) by (simp add: anonymous_def no_identity_def)
    next
      assume "oidc_configured cfg" "oidc_identity L staticKey (sa_OIDC cfg) now h cache j"
      then show ?thesis
        using 1(1) j(3) by (auto simp: oidc_identity_def admin_scope_role oidcRole_def list_ex_iff split: if_splits)
    next
      assume "authenticateRequest h [(sa_APIKey cfg, AuthRoleAPI), (sa_AdminAPIKey cfg, AuthRoleAdmin)] = Some j"
      then show ?thesis
        by (rule authenticateRequest_Some) (use 1 j(3) in \<open>auto simp: admin_scope_role split: if_splits\<close>)
    qed
  next
    case 2
    then show ?thesis
      by (elim authenticateRequest_Some) (auto split: if_splits)
  qed
qed

section \<open>Concrete servers\<close>

definition sample_claims :: JWTClaims where
  "sample_claims = \<lparr>jc_Subject = ''ann'', jc_Issuer = ''https://idp'', jc_Audience = [''stacyvm''], jc_Expiry = 4102444800,
     jc_Email = [], jc_Groups = [''ops''], jc_extra_groups = (\<lambda>_. None), jc_extra_string = (\<lambda>_. None)\<rparr>"

definition sample_lib :: "string oidc_lib" where
  "sample_lib = \<lparr>ol_b64 = Some, ol_header = (\<lambda>_. Some (''RS256'', ''k1'')), ol_claims = (\<lambda>_. Some sample_claims),
     ol_verify = (\<lambda>alg k msg sig. sig = k @ msg), ol_fetch = (\<lambda>_. Inr [(''k1'', RSAKey ''key'')])\<rparr>"

definition strict_lib :: "string oidc_lib" where
  "strict_lib = sample_lib\<lparr>ol_verify := (\<lambda>alg k msg sig. k = ''key'' \<and> sig = ''sig'')\<rparr>"

theorem jwt_sound_witness:
  "\<exists>kid. trusted_key strict_lib NoKey (Some (newJWKSCache ''u'')) kid (6 * Minute) (RSAKey ''key'')"
proof -
  have "\<not> isl (fst (verifyJWT strict_lib ''h.c.sig'' ''https://idp'' ''stacyvm'' NoKey (Some (newJWKSCache ''u'')) (6 * Minute)))"
    by code_simp
  then obtain c where c: "fst (verifyJWT strict_lib ''h.c.sig'' ''https://idp'' ''stacyvm'' NoKey (Some (newJWKSCache ''u'')) (6 * Minute)) = Inr c"
    by (metis sum.collapse(2))
  show ?thesis
    using jwt_sound [OF c] by (auto simp: strict_lib_def sample_lib_def)
qed

definition sample_server :: ServerAuth where
  "sample_server = \<lparr>sa_APIKey = ''user'', sa_AdminAPIKey = ''root'', sa_AdminFallbackDisabled = True,
     sa_OIDC = \<lparr>oc_Issuer = [], oc_Audience = [], oc_JWKSUrl = [], oc_PublicKeyPEM = [], oc_GroupsClaim = [], oc_TenantClaim = [],
       oc_AdminGroups = [], oc_OperatorGroups = [], oc_ViewerGroups = []\<rparr>\<rparr>"

definition sample_headers :: headers where
  "sample_headers = (\<lambda>n. if n = ''X-Admin-API-Key'' then ''root'' else [])"

theorem admin_routes_admin_only_witness:
  "\<exists>i. fst (admin_chain sample_lib NoKey sample_server 0 sample_headers None) = Next i \<and>
     (\<exists>k. k \<noteq> [] \<and> (sample_headers ''X-Admin-API-Key'' = k \<or> sample_headers ''X-API-Key'' = k) \<and> k = sa_AdminAPIKey sample_server)"
proof -
  have a: "authConfigured sample_server" "\<not> oidc_configured sample_server"
    by (simp_all add: authConfigured_def oidc_configured_def sample_server_def)
  have "(case fst (admin_chain sample_lib NoKey sample_server 0 sample_headers None) of Next i \<Rightarrow> True | Reject n \<Rightarrow> False)"
    by code_simp
  then obtain i where i: "fst (admin_chain sample_lib NoKey sample_server 0 sample_headers None) = Next i"
    by (auto split: outcome.splits)
  show ?thesis
    using admin_routes_admin_only [OF a(1) i] a(2) i by (auto simp: sample_server_def)
qed

end
