(* ===== verification/Worker_Token.thy ===== *)
theory Worker_Token
  imports Auth
begin

text \<open>
  Worker credentials (the second half of \<open>internal/api/middleware/auth.go\<close>): the shared and the
  per-worker tokens, and tokens signed with HMAC-SHA256, how they are made and checked.

  HMAC, base64url and JSON are the standard library's: \<open>token_lib\<close> has the functions the code
  calls (\<open>tl_hmac\<close> is the base64url form of the MAC).
\<close>

record WorkerTokenClaims =
  wt_WorkerID :: string
  wt_TokenID :: string
  wt_Audience :: string
  wt_Scopes :: "string list"
  wt_ExpiresAt :: int
  wt_IssuedAt :: int
  wt_NotBefore :: int

record token_lib =
  tl_hmac :: "string \<Rightarrow> string \<Rightarrow> string"
  tl_enc :: "string \<Rightarrow> string"
  tl_dec :: "string \<Rightarrow> string option"
  tl_marshal :: "WorkerTokenClaims \<Rightarrow> string"
  tl_unmarshal :: "string \<Rightarrow> WorkerTokenClaims option"

abbreviation "WorkerTokenAudienceControlPlane \<equiv> ''worker:control-plane''"
abbreviation "WorkerTokenAudienceRPC \<equiv> ''worker:rpc''"
abbreviation MaxWorkerTokenTTL :: duration where "MaxWorkerTokenTTL \<equiv> 15 * Minute"
abbreviation WorkerTokenClockSkew :: duration where "WorkerTokenClockSkew \<equiv> 30 * Second"

section \<open>Signed tokens\<close>

definition signWorkerToken :: "token_lib \<Rightarrow> string \<Rightarrow> string \<Rightarrow> string" where
  "signWorkerToken L signingKey signedPart = tl_hmac L signingKey signedPart"

definition SignWorkerToken :: "token_lib \<Rightarrow> string \<Rightarrow> WorkerTokenClaims \<Rightarrow> string option" where
  "SignWorkerToken L signingKey claims =
     (let key = TrimSpace signingKey; claims = claims\<lparr>wt_WorkerID := TrimSpace (wt_WorkerID claims)\<rparr> in
      if key = [] \<or> wt_WorkerID claims = [] \<or> wt_ExpiresAt claims \<le> 0 then None
      else (let signedPart = workerSignedTokenPrefix @ ''.'' @ tl_enc L (tl_marshal L claims)
            in Some (signedPart @ ''.'' @ signWorkerToken L key signedPart)))"

definition clean_claims :: "WorkerTokenClaims \<Rightarrow> WorkerTokenClaims" where
  "clean_claims c = c\<lparr>wt_WorkerID := TrimSpace (wt_WorkerID c), wt_TokenID := TrimSpace (wt_TokenID c),
     wt_Audience := TrimSpace (wt_Audience c)\<rparr>"

definition DecodeWorkerTokenClaims :: "token_lib \<Rightarrow> string \<Rightarrow> WorkerTokenClaims option" where
  "DecodeWorkerTokenClaims L token =
     (case split_on (CHR ''.'') (TrimSpace token) of
        [p0, p1, p2] \<Rightarrow>
          (if p0 \<noteq> workerSignedTokenPrefix then None
           else map_option clean_claims (Option.bind (tl_dec L p1) (tl_unmarshal L)))
      | _ \<Rightarrow> None)"

text \<open>The checks of the decoded claims, for the audience asked for.\<close>

definition claims_current :: "string \<Rightarrow> time \<Rightarrow> WorkerTokenClaims \<Rightarrow> bool" where
  "claims_current audience now c \<longleftrightarrow>
     wt_WorkerID c \<noteq> [] \<and> wt_ExpiresAt c > 0 \<and> now < unix_time (wt_ExpiresAt c) \<and>
     \<not> (wt_NotBefore c > 0 \<and> now + WorkerTokenClockSkew < unix_time (wt_NotBefore c)) \<and>
     \<not> (wt_IssuedAt c > 0 \<and> now + WorkerTokenClockSkew < unix_time (wt_IssuedAt c)) \<and>
     \<not> (wt_IssuedAt c > 0 \<and> unix_time (wt_ExpiresAt c) - unix_time (wt_IssuedAt c) > MaxWorkerTokenTTL) \<and>
     \<not> (TrimSpace audience \<noteq> [] \<and> wt_Audience c \<noteq> [] \<and> wt_Audience c \<noteq> TrimSpace audience)"

definition VerifyWorkerTokenForAudience ::
  "token_lib \<Rightarrow> string \<Rightarrow> string \<Rightarrow> string \<Rightarrow> time \<Rightarrow> WorkerTokenClaims option" where
  "VerifyWorkerTokenForAudience L signingKey token audience now =
     (let key = TrimSpace signingKey; token = TrimSpace token in
      if key = [] \<or> token = [] then None
      else case split_on (CHR ''.'') token of
        [p0, p1, p2] \<Rightarrow>
          (if p0 \<noteq> workerSignedTokenPrefix then None
           else if p2 \<noteq> signWorkerToken L key (p0 @ ''.'' @ p1) then None
           else case DecodeWorkerTokenClaims L token of
             None \<Rightarrow> None
           | Some claims \<Rightarrow> if claims_current audience now claims then Some claims else None)
      | _ \<Rightarrow> None)"

fun verifyWorkerTokenWithAnyKey ::
  "token_lib \<Rightarrow> string list \<Rightarrow> string \<Rightarrow> string \<Rightarrow> time \<Rightarrow> WorkerTokenClaims option" where
  "verifyWorkerTokenWithAnyKey L [] token audience now = None"
| "verifyWorkerTokenWithAnyKey L (k # ks) token audience now =
     (case VerifyWorkerTokenForAudience L k token audience now of
        Some c \<Rightarrow> Some c
      | None \<Rightarrow> verifyWorkerTokenWithAnyKey L ks token audience now)"

section \<open>Credentials of a request\<close>

record WorkerAuthConfig =
  wa_SharedToken :: string
  wa_WorkerTokens :: "(string \<times> string) list"
  wa_SigningKey :: string
  wa_SigningKeys :: "string list"
  wa_RevokedTokenIDs :: "string list"

definition normalizeScopes :: "string list \<Rightarrow> string list" where
  "normalizeScopes scopes = filter (\<lambda>s. s \<in> set (scopesForRole AuthRoleWorker)) (map TrimSpace scopes)"

definition normalizeSigningKeys :: "string \<Rightarrow> string list \<Rightarrow> string list" where
  "normalizeSigningKeys primary additional = rev (remdups (rev (filter (\<lambda>k. k \<noteq> []) (map TrimSpace (primary # additional)))))"

definition normalizeRevokedTokenIDs :: "string list \<Rightarrow> string list" where
  "normalizeRevokedTokenIDs ids = filter (\<lambda>i. i \<noteq> []) (map TrimSpace ids)"

text \<open>
  The configured tokens are a map: the list holds its entries in the order in which the code ranges over them, the
  last one first, so that of two names that only differ in blanks the one written last is found. The
  order is any order.
\<close>

definition normalizeWorkerTokens :: "(string \<times> string) list \<Rightarrow> (string \<times> string) list" where
  "normalizeWorkerTokens ts = filter (\<lambda>(w, t). w \<noteq> [] \<and> t \<noteq> []) (map (\<lambda>(w, t). (TrimSpace w, TrimSpace t)) ts)"

definition isWorkerTokenRevoked :: "WorkerTokenClaims \<Rightarrow> string list \<Rightarrow> bool" where
  "isWorkerTokenRevoked claims revoked \<longleftrightarrow> revoked \<noteq> [] \<and> wt_TokenID claims \<noteq> [] \<and> wt_TokenID claims \<in> set revoked"

definition validWorkerToken :: "string \<Rightarrow> string \<Rightarrow> string \<Rightarrow> (string \<times> string) list \<Rightarrow> bool" where
  "validWorkerToken workerID token shared tokens =
     (if token = [] then False
      else case map_of tokens workerID of
        Some expected \<Rightarrow> token = expected
      | None \<Rightarrow> TrimSpace shared \<noteq> [] \<and> token = TrimSpace shared)"

definition validateWorkerCredentials ::
  "token_lib \<Rightarrow> string \<Rightarrow> string \<Rightarrow> string \<Rightarrow> (string \<times> string) list \<Rightarrow> string list \<Rightarrow> string list \<Rightarrow> time \<Rightarrow> string list option" where
  "validateWorkerCredentials L workerID token shared tokens signingKeys revoked now =
     (if token = [] \<or> workerID = [] then None
      else case verifyWorkerTokenWithAnyKey L signingKeys token WorkerTokenAudienceControlPlane now of
        Some claims \<Rightarrow>
          (if wt_WorkerID claims \<noteq> workerID then None
           else if isWorkerTokenRevoked claims revoked then None
           else (let scopes = normalizeScopes (wt_Scopes claims)
                 in Some (if scopes = [] then scopesForRole AuthRoleWorker else scopes)))
      | None \<Rightarrow>
          (if validWorkerToken workerID token shared tokens then Some (scopesForRole AuthRoleWorker) else None))"

definition workerTokenFromRequest :: "headers \<Rightarrow> string \<times> string" where
  "workerTokenFromRequest h =
     (let t = TrimSpace (h ''X-Worker-Token''); authz = TrimSpace (h ''Authorization'') in
      if t \<noteq> [] then (t, ''X-Worker-Token'')
      else if length authz > 7 \<and> EqualFold (take 7 authz) ''Bearer '' then (TrimSpace (drop 7 authz), ''Authorization'')
      else ([], []))"

definition WorkerAuthWithConfig :: "token_lib \<Rightarrow> WorkerAuthConfig \<Rightarrow> time \<Rightarrow> headers \<Rightarrow> AuthIdentity \<Rightarrow> outcome" where
  "WorkerAuthWithConfig L cfg now h i =
     (let tokens = normalizeWorkerTokens (wa_WorkerTokens cfg);
          shared = TrimSpace (wa_SharedToken cfg);
          keys = normalizeSigningKeys (wa_SigningKey cfg) (wa_SigningKeys cfg);
          revoked = normalizeRevokedTokenIDs (wa_RevokedTokenIDs cfg) in
      if shared = [] \<and> tokens = [] \<and> keys = [] then Reject 503
      else
        (let workerID = TrimSpace (h ''X-Worker-ID''); (token, header) = workerTokenFromRequest h in
         case validateWorkerCredentials L workerID token shared tokens keys revoked now of
           None \<Rightarrow> Reject StatusUnauthorized
         | Some scopes \<Rightarrow>
             if workerID = [] then Reject StatusUnauthorized
             else Next (no_identity\<lparr>ai_Role := AuthRoleWorker, ai_Header := header, ai_WorkerID := workerID, ai_Scopes := scopes\<rparr>)))"

section \<open>Facts\<close>

lemma verifyWorkerToken_Some:
  assumes "VerifyWorkerTokenForAudience L k token audience now = Some c"
  shows "\<exists>p1. TrimSpace token = workerSignedTokenPrefix @ ''.'' @ p1 @ ''.'' @ tl_hmac L (TrimSpace k) (workerSignedTokenPrefix @ ''.'' @ p1) \<and>
     TrimSpace k \<noteq> [] \<and> map_option clean_claims (Option.bind (tl_dec L p1) (tl_unmarshal L)) = Some c \<and> claims_current audience now c"
proof -
  let ?t = "TrimSpace token"
  obtain p0 p1 p2 where p: "split_on (CHR ''.'') ?t = [p0, p1, p2]"
    using assms by (auto simp: VerifyWorkerTokenForAudience_def Let_def split: if_splits list.splits)
  then have t: "?t = p0 @ ''.'' @ p1 @ ''.'' @ p2"
    using join_split [of "CHR ''.''" ?t] by simp
  have d: "DecodeWorkerTokenClaims L ?t =
      (if p0 \<noteq> workerSignedTokenPrefix then None else map_option clean_claims (Option.bind (tl_dec L p1) (tl_unmarshal L)))"
    by (simp add: DecodeWorkerTokenClaims_def p)
  have v: "p0 = workerSignedTokenPrefix \<and> p2 = tl_hmac L (TrimSpace k) (p0 @ ''.'' @ p1) \<and> TrimSpace k \<noteq> [] \<and>
      DecodeWorkerTokenClaims L ?t = Some c \<and> claims_current audience now c"
    using assms unfolding VerifyWorkerTokenForAudience_def Let_def p signWorkerToken_def
    by (simp split: if_splits option.splits)
  show ?thesis
    using t d v by (intro exI [of _ p1]) (simp only: if_False simp_thms)
qed

lemma verifyAnyKey_Some:
  "verifyWorkerTokenWithAnyKey L ks token audience now = Some c \<Longrightarrow>
   \<exists>k\<in>set ks. VerifyWorkerTokenForAudience L k token audience now = Some c"
  by (induction ks) (auto split: option.splits)

text \<open>
  C24. Worker credentials are what they should be: whoever is let in as worker \<open>w\<close> presented
  either a token whose MAC under a configured signing key is right, whose claims name \<open>w\<close>, are
  current, for the control plane (or no audience) and not revoked; or the token configured for
  \<open>w\<close>; or, only if none is configured for \<open>w\<close>, the shared token.  The scopes are worker scopes.
\<close>

theorem worker_credentials_sound:
  assumes "validateWorkerCredentials L w token shared tokens keys revoked now = Some scopes"
  shows "set scopes \<subseteq> set worker_scopes \<and>
    ((\<exists>k\<in>set keys. \<exists>p1 c. TrimSpace token = workerSignedTokenPrefix @ ''.'' @ p1 @ ''.'' @
          tl_hmac L (TrimSpace k) (workerSignedTokenPrefix @ ''.'' @ p1) \<and>
        map_option clean_claims (Option.bind (tl_dec L p1) (tl_unmarshal L)) = Some c \<and> wt_WorkerID c = w \<and>
        claims_current WorkerTokenAudienceControlPlane now c \<and> \<not> isWorkerTokenRevoked c revoked) \<or>
     map_of tokens w = Some token \<or> (map_of tokens w = None \<and> token = TrimSpace shared))"
proof (cases "verifyWorkerTokenWithAnyKey L keys token WorkerTokenAudienceControlPlane now")
  case None
  then show ?thesis
    using assms by (auto simp: validateWorkerCredentials_def validWorkerToken_def split: if_splits option.splits)
next
  case (Some c)
  then obtain k where k: "k \<in> set keys" "VerifyWorkerTokenForAudience L k token WorkerTokenAudienceControlPlane now = Some c"
    using verifyAnyKey_Some by blast
  have c: "wt_WorkerID c = w" "\<not> isWorkerTokenRevoked c revoked" "set scopes \<subseteq> set worker_scopes"
    using assms Some by (auto simp: validateWorkerCredentials_def normalizeScopes_def Let_def split: if_splits)
  show ?thesis
    using verifyWorkerToken_Some [OF k(2)] k(1) c by blast
qed

definition plain_lib :: token_lib where
  "plain_lib = \<lparr>tl_hmac = (\<lambda>k m. k @ ''-'' @ filter (\<lambda>c. graphic c \<and> c \<noteq> CHR ''.'') m), tl_enc = id, tl_dec = Some, tl_marshal = (\<lambda>c. wt_WorkerID c),
     tl_unmarshal = (\<lambda>s. Some \<lparr>wt_WorkerID = s, wt_TokenID = ''t1'', wt_Audience = [], wt_Scopes = [''gpu:use''], wt_ExpiresAt = 100,
       wt_IssuedAt = 0, wt_NotBefore = 0\<rparr>)\<rparr>"

theorem worker_credentials_sound_witness:
  "set (the (validateWorkerCredentials plain_lib ''w1'' ''secret'' ''secret'' [] [''key''] [] 0)) \<subseteq> set worker_scopes"
proof -
  have "validateWorkerCredentials plain_lib ''w1'' ''secret'' ''secret'' [] [''key''] [] 0 \<noteq> None" by code_simp
  then obtain s where s: "validateWorkerCredentials plain_lib ''w1'' ''secret'' ''secret'' [] [''key''] [] 0 = Some s" by blast
  show ?thesis using worker_credentials_sound [OF s] s by simp
qed

section \<open>Round trip\<close>

lemma TrimSpace_token:
  assumes "\<forall>c\<in>set a. graphic c" "\<forall>c\<in>set b. graphic c" "\<forall>c\<in>set d. graphic c"
  shows "TrimSpace (a @ CHR ''.'' # b @ CHR ''.'' # d) = a @ CHR ''.'' # b @ CHR ''.'' # d"
  using assms by (intro TrimSpace_graphic) (auto simp: graphic_def)

text \<open>
  A signed token is accepted by those who have the key: signing claims and verifying the
  token with the same key, at any time the claims are current, for their audience, gives the
  claims back, ids and audience trimmed.  (Of the library: encoding and MAC are base64url text
  without dots, and decoding undoes encoding.)
\<close>

theorem worker_token_roundtrip:
  assumes "SignWorkerToken L key claims = Some token"
    and "claims' = claims\<lparr>wt_WorkerID := TrimSpace (wt_WorkerID claims)\<rparr>"
    and "tl_dec L (tl_enc L (tl_marshal L claims')) = Some (tl_marshal L claims')" "tl_unmarshal L (tl_marshal L claims') = Some claims'"
    and "\<forall>c\<in>set (tl_enc L (tl_marshal L claims')). graphic c \<and> c \<noteq> CHR ''.''"
    and "\<And>m. \<forall>c\<in>set (tl_hmac L (TrimSpace key) m). graphic c \<and> c \<noteq> CHR ''.''"
    and "claims_current audience now (clean_claims claims')"
  shows "VerifyWorkerTokenForAudience L key token audience now = Some (clean_claims claims')"
proof -
  let ?p = "tl_enc L (tl_marshal L claims')"
  let ?s = "tl_hmac L (TrimSpace key) (workerSignedTokenPrefix @ CHR ''.'' # ?p)"
  have tok: "token = workerSignedTokenPrefix @ CHR ''.'' # ?p @ CHR ''.'' # ?s" "TrimSpace key \<noteq> []"
    using assms(1) by (auto simp: SignWorkerToken_def signWorkerToken_def assms(2) Let_def split: if_splits)
  have pre: "\<forall>c\<in>set workerSignedTokenPrefix. graphic c" "CHR ''.'' \<notin> set workerSignedTokenPrefix"
    by (simp_all add: graphic_def)
  have trim: "TrimSpace token = token"
    unfolding tok(1) using pre(1) assms(5,6) by (intro TrimSpace_token) auto
  have np: "CHR ''.'' \<notin> set ?p" and ns: "CHR ''.'' \<notin> set ?s" using assms(5,6) by auto
  have split: "split_on (CHR ''.'') token = [workerSignedTokenPrefix, ?p, ?s]"
    unfolding tok(1) split_on_append split_on_id [OF pre(2)] split_on_id [OF np] split_on_id [OF ns] by simp
  have "token \<noteq> []" by (simp add: tok(1))
  then show ?thesis
    using tok(2) assms(3,4,7)
    by (simp add: VerifyWorkerTokenForAudience_def DecodeWorkerTokenClaims_def trim split signWorkerToken_def Let_def
        del: split_on.simps)
qed

section \<open>Scopes that widen\<close>

text \<open>
  A token that is restricted to scopes none of which is a worker scope is not useless but
  all-powerful: unknown scopes are dropped, and an empty list then means every worker scope.
\<close>

theorem unknown_scopes_widen:
  assumes "verifyWorkerTokenWithAnyKey L keys token WorkerTokenAudienceControlPlane now = Some c" "wt_WorkerID c = w"
    and "\<not> isWorkerTokenRevoked c revoked" "token \<noteq> []" "w \<noteq> []"
    and "\<forall>s\<in>set (wt_Scopes c). TrimSpace s \<notin> set worker_scopes"
  shows "validateWorkerCredentials L w token shared tokens keys revoked now = Some worker_scopes"
  using assms by (simp add: validateWorkerCredentials_def normalizeScopes_def Let_def filter_empty_conv)

end
