(* ===== verification/Worker_RPC.thy ===== *)
theory Worker_RPC
  imports Worker_Token Exec_Files
begin

text \<open>
  The remote side of a worker: the messages of \<open>internal/workerproto/protocol.go\<close> and the RPC
  server of \<open>internal/worker/rpc.go\<close>.

  A request is its method, headers and decoded envelope (no envelope when the body does not
  decode).  The parameters stay raw, as in the code; \<open>rpc_codec\<close> has the JSON functions that
  read and write them.  Providers answer through \<open>env\<close> as for the manager; the server's calls are
  recorded in \<open>w_calls\<close>, the renewals it asks of the control plane in \<open>w_renewals\<close>.
\<close>

section \<open>Messages\<close>

abbreviation "MethodHeartbeat \<equiv> ''worker.heartbeat''"
abbreviation "MethodSpawn \<equiv> ''worker.spawn''"
abbreviation "MethodDestroy \<equiv> ''worker.destroy''"
abbreviation "MethodStatus \<equiv> ''worker.status''"
abbreviation "MethodExec \<equiv> ''worker.exec''"
abbreviation "MethodExecStream \<equiv> ''worker.exec_stream''"
abbreviation "MethodFileWrite \<equiv> ''worker.file_write''"
abbreviation "MethodFileRead \<equiv> ''worker.file_read''"
abbreviation "MethodFileList \<equiv> ''worker.file_list''"
abbreviation "MethodFileDelete \<equiv> ''worker.file_delete''"
abbreviation "MethodFileMove \<equiv> ''worker.file_move''"
abbreviation "MethodFileChmod \<equiv> ''worker.file_chmod''"
abbreviation "MethodFileStat \<equiv> ''worker.file_stat''"
abbreviation "MethodFileGlob \<equiv> ''worker.file_glob''"
abbreviation "MethodLogs \<equiv> ''worker.logs''"
abbreviation "MethodRenewLease \<equiv> ''worker.renew_lease''"
abbreviation "MethodShutdown \<equiv> ''worker.shutdown''"

definition file_methods :: "string list" where
  "file_methods = [MethodFileWrite, MethodFileRead, MethodFileList, MethodFileDelete, MethodFileMove, MethodFileChmod,
     MethodFileStat, MethodFileGlob]"

record Request =
  rr_ID :: string
  rr_Method :: string
  rr_WorkerID :: string
  rr_Lease :: "LeaseToken option"
  rr_Params :: string

record SpawnParams =
  sp_SandboxID :: string
  sp_Image :: string
  sp_Provider :: string
  sp_MemoryMB :: int
  sp_VCPUs :: int
  sp_OwnerID :: string
  sp_TTL :: string
  sp_Metadata :: metadata

text \<open>\<open>DestroyParams\<close> and \<open>StatusParams\<close> have the same fields.\<close>

record RuntimeParams =
  rt_SandboxID :: string
  rt_Provider :: string
  rt_RuntimeID :: string

record ExecParams = RuntimeParams +
  ep_Command :: string
  ep_Args :: "string list"
  ep_Mode :: string
  ep_Env :: metadata
  ep_WorkDir :: string
  ep_Timeout :: string

record FileParams = RuntimeParams +
  fp_Path :: string
  fp_Content :: string
  fp_Mode :: string
  fp_Recursive :: bool
  fp_OldPath :: string
  fp_NewPath :: string
  fp_Pattern :: string

record LogsParams = RuntimeParams +
  lp_Lines :: int

record RenewLeaseParams =
  rn_ResourceID :: string
  rn_TTL :: string

datatype rpc_result =
    NoResult
  | SpawnResult string string string string string metadata
  | StatusResult string string string string
  | ExecResultR string int string string
  | ExecStreamResult string "(string \<times> string) list"
  | StreamChunkR string string
  | FileReadResult string string
  | FileListResult string "FileInfo list"
  | FileStatResult string FileInfo
  | FileGlobResult string "string list"
  | LogsResult string "string list"
  | RenewLeaseResult LeaseToken

record Response =
  rp_ID :: string
  rp_WorkerID :: string
  rp_Error :: string
  rp_Result :: rpc_result

record rpc_codec =
  cd_heartbeat :: "string \<Rightarrow> error + unit"
  cd_spawn :: "string \<Rightarrow> error + SpawnParams"
  cd_runtime :: "string \<Rightarrow> error + RuntimeParams"
  cd_exec :: "string \<Rightarrow> error + ExecParams"
  cd_file :: "string \<Rightarrow> error + FileParams"
  cd_logs :: "string \<Rightarrow> error + LogsParams"
  cd_renew :: "string \<Rightarrow> error + RenewLeaseParams"

section \<open>Validation\<close>

definition invalid_message :: "string \<Rightarrow> error" where
  "invalid_message s = Err ErrOther (''invalid worker message: '' @ s)"

definition validateParams :: "(string \<Rightarrow> error + 'a) \<Rightarrow> string \<Rightarrow> error option" where
  "validateParams dec raw =
     (if raw = [] then Some (invalid_message ''params are required'')
      else case dec raw of
        Inl err \<Rightarrow> Some (invalid_message (''invalid params: '' @ err_msg err))
      | Inr _ \<Rightarrow> None)"

definition ValidateRequest :: "rpc_codec \<Rightarrow> Request \<Rightarrow> error option" where
  "ValidateRequest K req =
     (let meth = rr_Method req; raw = rr_Params req in
      if TrimSpace (rr_ID req) = [] then Some (invalid_message ''id is required'')
      else if TrimSpace (rr_WorkerID req) = [] then Some (invalid_message ''worker_id is required'')
      else if meth = MethodHeartbeat then validateParams (cd_heartbeat K) raw
      else if meth = MethodSpawn then
        (if rr_Lease req = None then Some (invalid_message ''lease is required for spawn'') else validateParams (cd_spawn K) raw)
      else if meth = MethodDestroy then
        (if rr_Lease req = None then Some (invalid_message ''lease is required for destroy'') else validateParams (cd_runtime K) raw)
      else if meth = MethodStatus then validateParams (cd_runtime K) raw
      else if meth = MethodExec \<or> meth = MethodExecStream then validateParams (cd_exec K) raw
      else if meth \<in> set file_methods then validateParams (cd_file K) raw
      else if meth = MethodLogs then validateParams (cd_logs K) raw
      else if meth = MethodRenewLease then
        (if rr_Lease req = None then Some (invalid_message ''lease is required for renew_lease'') else validateParams (cd_renew K) raw)
      else if meth = MethodShutdown then None
      else Some (Err ErrOther (''unknown worker method: '' @ meth)))"

definition validateLeaseToken :: "time \<Rightarrow> LeaseToken option \<Rightarrow> string \<Rightarrow> error option" where
  "validateLeaseToken now token workerID =
     (case token of
        None \<Rightarrow> Some (Err ErrOther ''lease token is required'')
      | Some t \<Rightarrow>
          if lt_HolderID t \<noteq> workerID then Some (Err ErrOther ''lease holder does not match worker'')
          else if TrimSpace (lt_ResourceID t) = [] then Some (Err ErrOther ''lease resource is required'')
          else if lt_ExpiresAt t < now then Some (Err ErrOther ''lease token is expired'')
          else None)"

section \<open>The server\<close>

record RPCServer =
  w_WorkerID :: string
  w_Token :: string
  w_SigningKey :: string
  w_SigningKeys :: "string list"
  w_RevokedTokenIDs :: "string list"
  w_Registry :: "Registry option"
  w_hasRenewer :: bool
  w_draining :: bool
  w_calls :: "ext_call list"
  w_renewals :: "(string \<times> string) list"

record rpc_env = env +
  re_renew :: "(string \<times> string) list \<Rightarrow> string \<Rightarrow> string \<Rightarrow> error + LeaseToken"
  re_ctx :: ctx_end

record rpc_request =
  rh_Method :: string
  rh_Header :: headers
  rh_Body :: "Request option"

datatype rpc_reply =
    HTTPError nat string
  | HTTPReply nat Response
  | HTTPStream "Response list"

fun reply_status :: "rpc_reply \<Rightarrow> nat" where
  "reply_status (HTTPError c _) = c"
| "reply_status (HTTPReply c _) = c"
| "reply_status (HTTPStream _) = 200"

definition rpc_fail :: "RPCServer \<Rightarrow> Request \<Rightarrow> nat \<Rightarrow> string \<Rightarrow> rpc_reply" where
  "rpc_fail s req code msg = HTTPReply code \<lparr>rp_ID = rr_ID req, rp_WorkerID = w_WorkerID s, rp_Error = msg, rp_Result = NoResult\<rparr>"

definition rpc_ok :: "RPCServer \<Rightarrow> Request \<Rightarrow> rpc_result \<Rightarrow> rpc_reply" where
  "rpc_ok s req r = HTTPReply 200 \<lparr>rp_ID = rr_ID req, rp_WorkerID = w_WorkerID s, rp_Error = [], rp_Result = r\<rparr>"

definition w_call :: "(ext_call list \<Rightarrow> ext_call \<Rightarrow> 'a) \<Rightarrow> ext_call \<Rightarrow> RPCServer \<Rightarrow> 'a \<times> RPCServer" where
  "w_call re c s = (re (w_calls s) c, s\<lparr>w_calls := w_calls s @ [c]\<rparr>)"

text \<open>An error of a provider: not found when the provider does not know the runtime.\<close>

definition error_code :: "error \<Rightarrow> nat" where
  "error_code err = (if ErrorsIs err ErrSandboxNotFound then 404 else 500)"

text \<open>
  What every handler that reaches a provider does first: decode the parameters, find the
  provider, and take the sandbox id where no runtime id is given.
\<close>

definition with_provider ::
  "RPCServer \<Rightarrow> Request \<Rightarrow> error + 'p \<Rightarrow> ('p \<Rightarrow> string option) \<Rightarrow> ('p \<Rightarrow> string) \<Rightarrow>
   ('p \<Rightarrow> string \<Rightarrow> RPCServer \<Rightarrow> rpc_reply \<times> RPCServer) \<Rightarrow> rpc_reply \<times> RPCServer" where
  "with_provider s req params refuse prov body =
     (case params of
        Inl err \<Rightarrow> (rpc_fail s req 400 (err_msg err), s)
      | Inr p \<Rightarrow>
      case refuse p of
        Some msg \<Rightarrow> (rpc_fail s req 403 msg, s)
      | None \<Rightarrow>
      case w_Registry s of
        None \<Rightarrow> (rpc_fail s req 503 ''provider registry unavailable'', s)
      | Some reg \<Rightarrow>
      case registry_Get reg (prov p) of
        Inl err \<Rightarrow> (rpc_fail s req 404 (err_msg err), s)
      | Inr name \<Rightarrow> body p name s)"

definition runtime_id :: "('a RuntimeParams_scheme) \<Rightarrow> string" where
  "runtime_id p = (let r = TrimSpace (rt_RuntimeID p) in if r = [] then rt_SandboxID p else r)"

definition handleStatus :: "rpc_codec \<Rightarrow> ('a rpc_env_scheme) \<Rightarrow> RPCServer \<Rightarrow> Request \<Rightarrow> rpc_reply \<times> RPCServer" where
  "handleStatus K E s req = with_provider s req (cd_runtime K (rr_Params req)) (\<lambda>_. None) rt_Provider (\<lambda>p name s.
     let (r, s) = w_call (re_id E) (PStatus name (runtime_id p)) s
     in case r of
       Inl err \<Rightarrow> (rpc_fail s req (error_code err) (err_msg err), s)
     | Inr st \<Rightarrow> (rpc_ok s req (StatusResult (rt_SandboxID p) st name (w_WorkerID s)), s))"

text \<open>The timeout of a command: refused when malformed, ignored when not positive.\<close>

definition rpc_timeout :: "string \<Rightarrow> error + duration" where
  "rpc_timeout t = (if TrimSpace t = [] then Inr 0 else ParseDuration t)"

definition exec_options :: "ExecParams \<Rightarrow> ExecRequest" where
  "exec_options p = \<lparr>xr_Command = ep_Command p, xr_Args = ep_Args p, xr_Mode = ep_Mode p, xr_Env = ep_Env p,
     xr_WorkDir = ep_WorkDir p, xr_Timeout = []\<rparr>"

definition handleExec :: "rpc_codec \<Rightarrow> ('a rpc_env_scheme) \<Rightarrow> RPCServer \<Rightarrow> Request \<Rightarrow> rpc_reply \<times> RPCServer" where
  "handleExec K E s req = with_provider s req (cd_exec K (rr_Params req)) (\<lambda>_. None) rt_Provider (\<lambda>p name s.
     case rpc_timeout (ep_Timeout p) of
       Inl err \<Rightarrow> (rpc_fail s req 400 (err_msg err), s)
     | Inr timeout \<Rightarrow>
     (let (r, s) = w_call (re_exec E) (PExec name (runtime_id p) (exec_options p) (ep_WorkDir p)) s
      in case r of
        Inl err \<Rightarrow> (rpc_fail s req (error_code err) (err_msg err), s)
      | Inr (code, out, errout) \<Rightarrow> (rpc_ok s req (ExecResultR (rt_SandboxID p) code out errout), s)))"

definition ctx_error :: "ctx_end \<Rightarrow> string" where
  "ctx_error c = (case c of CtxRunning \<Rightarrow> [] | CtxDeadlineExceeded \<Rightarrow> ''context deadline exceeded'' | CtxCanceled \<Rightarrow> ''context canceled'')"

definition streamExecChunks :: "RPCServer \<Rightarrow> ctx_end \<Rightarrow> Request \<Rightarrow> (string \<times> string) list \<Rightarrow> rpc_reply" where
  "streamExecChunks s c req chunks =
     HTTPStream (map (\<lambda>(st, d). \<lparr>rp_ID = rr_ID req, rp_WorkerID = w_WorkerID s, rp_Error = [], rp_Result = StreamChunkR st d\<rparr>) chunks @
       (if c \<noteq> CtxRunning then [\<lparr>rp_ID = rr_ID req, rp_WorkerID = w_WorkerID s, rp_Error = ctx_error c, rp_Result = NoResult\<rparr>] else []))"

definition handleExecStream ::
  "rpc_codec \<Rightarrow> ('a rpc_env_scheme) \<Rightarrow> RPCServer \<Rightarrow> headers \<Rightarrow> Request \<Rightarrow> rpc_reply \<times> RPCServer" where
  "handleExecStream K E s h req = with_provider s req (cd_exec K (rr_Params req)) (\<lambda>_. None) rt_Provider (\<lambda>p name s.
     case rpc_timeout (ep_Timeout p) of
       Inl err \<Rightarrow> (rpc_fail s req 400 (err_msg err), s)
     | Inr timeout \<Rightarrow>
     (let (r, s) = w_call (re_stream E) (PExecStream name (runtime_id p) (exec_options p) (ep_WorkDir p)) s
      in case r of
        Inl err \<Rightarrow> (rpc_fail s req (error_code err) (err_msg err), s)
      | Inr chunks \<Rightarrow>
          if EqualFold (h ''X-Worker-Stream'') ''ndjson'' then (streamExecChunks s (re_ctx E) req chunks, s)
          else if re_ctx E \<noteq> CtxRunning then (rpc_fail s req 504 (ctx_error (re_ctx E)), s)
          else (rpc_ok s req (ExecStreamResult (rt_SandboxID p) chunks), s)))"

subsection \<open>Files and logs\<close>

definition w_call_unit :: "('a rpc_env_scheme) \<Rightarrow> ext_call \<Rightarrow> RPCServer \<Rightarrow> (error + rpc_result) \<times> RPCServer" where
  "w_call_unit E c s = (let (r, s) = w_call (re_unit E) c s in (case r of Some e \<Rightarrow> Inl e | None \<Rightarrow> Inr NoResult, s))"

definition w_call_as :: "('x \<Rightarrow> rpc_result) \<Rightarrow> (ext_call list \<Rightarrow> ext_call \<Rightarrow> error + 'x) \<Rightarrow> ext_call \<Rightarrow> RPCServer \<Rightarrow> (error + rpc_result) \<times> RPCServer" where
  "w_call_as f re c s = (let (r, s) = w_call re c s in (case r of Inl e \<Rightarrow> Inl e | Inr x \<Rightarrow> Inr (f x), s))"

definition runFileOperation ::
  "('a rpc_env_scheme) \<Rightarrow> string \<Rightarrow> string \<Rightarrow> string \<Rightarrow> FileParams \<Rightarrow> RPCServer \<Rightarrow> (error + rpc_result) \<times> RPCServer" where
  "runFileOperation E name i meth p s =
     (let sid = rt_SandboxID p in
      if meth = MethodFileWrite then w_call_unit E (PWriteFile name i (fp_Path p) (fp_Content p) (fp_Mode p)) s
      else if meth = MethodFileRead then
        (let c = PReadFile name i (fp_Path p); content = re_content E (w_calls s) c; (r, s) = w_call_unit E c s
         in case r of
           Inl err \<Rightarrow> (Inl err, s)
         | Inr _ \<Rightarrow> (case content of Inl err \<Rightarrow> Inl err | Inr buf \<Rightarrow> Inr (FileReadResult sid buf), s))
      else if meth = MethodFileList then w_call_as (FileListResult sid) (re_files E) (PListFiles name i (fp_Path p)) s
      else if meth = MethodFileDelete then w_call_unit E (PDeleteFile name i (fp_Path p) (fp_Recursive p)) s
      else if meth = MethodFileMove then w_call_unit E (PMoveFile name i (fp_OldPath p) (fp_NewPath p)) s
      else if meth = MethodFileChmod then w_call_unit E (PChmodFile name i (fp_Path p) (fp_Mode p)) s
      else if meth = MethodFileStat then w_call_as (FileStatResult sid) (re_stat E) (PStatFile name i (fp_Path p)) s
      else if meth = MethodFileGlob then w_call_as (FileGlobResult sid) (re_strings E) (PGlobFiles name i (fp_Pattern p)) s
      else (Inl (Err ErrOther ''unknown worker method''), s))"

definition handleFile :: "rpc_codec \<Rightarrow> ('a rpc_env_scheme) \<Rightarrow> RPCServer \<Rightarrow> Request \<Rightarrow> rpc_reply \<times> RPCServer" where
  "handleFile K E s req = with_provider s req (cd_file K (rr_Params req)) (\<lambda>_. None) rt_Provider (\<lambda>p name s.
     let (r, s) = runFileOperation E name (runtime_id p) (rr_Method req) p s
     in case r of
       Inl err \<Rightarrow> (rpc_fail s req (error_code err) (err_msg err), s)
     | Inr result \<Rightarrow> (rpc_ok s req result, s))"

definition handleLogs :: "rpc_codec \<Rightarrow> ('a rpc_env_scheme) \<Rightarrow> RPCServer \<Rightarrow> Request \<Rightarrow> rpc_reply \<times> RPCServer" where
  "handleLogs K E s req = with_provider s req (cd_logs K (rr_Params req)) (\<lambda>_. None) rt_Provider (\<lambda>p name s.
     let (r, s) = w_call (re_strings E) (PConsoleLog name (runtime_id p) (lp_Lines p)) s
     in case r of
       Inl err \<Rightarrow> (rpc_fail s req (error_code err) (err_msg err), s)
     | Inr lns \<Rightarrow> (rpc_ok s req (LogsResult (rt_SandboxID p) lns), s))"

subsection \<open>Lifecycle under a lease\<close>

definition lease_resource :: "Request \<Rightarrow> string" where
  "lease_resource req = (case rr_Lease req of Some t \<Rightarrow> lt_ResourceID t | None \<Rightarrow> [])"

definition handleSpawn :: "rpc_codec \<Rightarrow> ('a rpc_env_scheme) \<Rightarrow> RPCServer \<Rightarrow> Request \<Rightarrow> rpc_reply \<times> RPCServer" where
  "handleSpawn K E s req =
     (case validateLeaseToken (db_now E) (rr_Lease req) (w_WorkerID s) of
        Some err \<Rightarrow> (rpc_fail s req 403 (err_msg err), s)
      | None \<Rightarrow> with_provider s req (cd_spawn K (rr_Params req))
          (\<lambda>p. if sp_SandboxID p \<noteq> lease_resource req then Some ''lease resource does not match spawn request'' else None)
          sp_Provider (\<lambda>p name s.
          let (r, s) = w_call (re_id E) (PSpawn name (sp_Image p) (sp_MemoryMB p) (sp_VCPUs p) (sp_Metadata p)) s
          in case r of
            Inl err \<Rightarrow> (rpc_fail s req 500 (err_msg err), s)
          | Inr i \<Rightarrow> (rpc_ok s req (SpawnResult (sp_SandboxID p) i ''running'' name (w_WorkerID s) (sp_Metadata p)), s)))"

definition handleDestroy :: "rpc_codec \<Rightarrow> ('a rpc_env_scheme) \<Rightarrow> RPCServer \<Rightarrow> Request \<Rightarrow> rpc_reply \<times> RPCServer" where
  "handleDestroy K E s req =
     (case validateLeaseToken (db_now E) (rr_Lease req) (w_WorkerID s) of
        Some err \<Rightarrow> (rpc_fail s req 403 (err_msg err), s)
      | None \<Rightarrow> with_provider s req (cd_runtime K (rr_Params req))
          (\<lambda>p. if rt_SandboxID p \<noteq> lease_resource req then Some ''lease resource does not match destroy request'' else None)
          rt_Provider (\<lambda>p name s.
          let (r, s) = w_call (re_unit E) (PDestroy name (runtime_id p)) s
          in case r of
            Some err \<Rightarrow> (if ErrorsIs err ErrSandboxNotFound then rpc_ok s req NoResult
                         else rpc_fail s req 500 (err_msg err), s)
          | None \<Rightarrow> (rpc_ok s req NoResult, s)))"

definition handleRenewLease :: "rpc_codec \<Rightarrow> ('a rpc_env_scheme) \<Rightarrow> RPCServer \<Rightarrow> Request \<Rightarrow> rpc_reply \<times> RPCServer" where
  "handleRenewLease K E s req =
     (case validateLeaseToken (db_now E) (rr_Lease req) (w_WorkerID s) of
        Some err \<Rightarrow> (rpc_fail s req 403 (err_msg err), s)
      | None \<Rightarrow>
      case cd_renew K (rr_Params req) of
        Inl err \<Rightarrow> (rpc_fail s req 400 (err_msg err), s)
      | Inr p \<Rightarrow>
          if rn_ResourceID p \<noteq> lease_resource req then (rpc_fail s req 403 ''lease resource does not match renewal request'', s)
          else if \<not> w_hasRenewer s then (rpc_fail s req 503 ''lease renewer unavailable'', s)
          else
            (let r = re_renew E (w_renewals s) (rn_ResourceID p) (rn_TTL p);
                 s = s\<lparr>w_renewals := w_renewals s @ [(rn_ResourceID p, rn_TTL p)]\<rparr>
             in case r of
               Inl err \<Rightarrow> (rpc_fail s req 409 (err_msg err), s)
             | Inr lease \<Rightarrow> (rpc_ok s req (RenewLeaseResult lease), s)))"

subsection \<open>The entry\<close>

definition workerTokenRevoked :: "WorkerTokenClaims \<Rightarrow> string list \<Rightarrow> bool" where
  "workerTokenRevoked claims revoked \<longleftrightarrow>
     wt_TokenID claims \<noteq> [] \<and> revoked \<noteq> [] \<and> wt_TokenID claims \<in> set (map TrimSpace revoked)"

definition strip_bearer :: "string \<Rightarrow> string" where
  "strip_bearer v = (if HasPrefix v ''Bearer '' then drop 7 v else v)"

definition rpc_token :: "headers \<Rightarrow> string" where
  "rpc_token h = (if h ''X-Worker-Token'' \<noteq> [] then h ''X-Worker-Token'' else strip_bearer (h ''Authorization''))"

definition authenticate :: "token_lib \<Rightarrow> time \<Rightarrow> RPCServer \<Rightarrow> headers \<Rightarrow> bool" where
  "authenticate L now s h =
     (let workerID = TrimSpace (w_WorkerID s); token = rpc_token h in
      if workerID = [] then False
      else if h ''X-Worker-ID'' \<noteq> workerID then False
      else if token = [] then False
      else if TrimSpace (w_Token s) \<noteq> [] \<and> token = TrimSpace (w_Token s) then True
      else list_ex (\<lambda>key.
        case VerifyWorkerTokenForAudience L key token WorkerTokenAudienceRPC now of
          Some claims \<Rightarrow> wt_WorkerID claims = workerID \<and> \<not> workerTokenRevoked claims (w_RevokedTokenIDs s)
        | None \<Rightarrow> False) (w_SigningKey s # w_SigningKeys s))"

definition dispatch :: "rpc_codec \<Rightarrow> ('a rpc_env_scheme) \<Rightarrow> RPCServer \<Rightarrow> headers \<Rightarrow> Request \<Rightarrow> rpc_reply \<times> RPCServer" where
  "dispatch K E s h req =
     (let meth = rr_Method req in
      if meth = MethodStatus then handleStatus K E s req
      else if meth = MethodExec then handleExec K E s req
      else if meth = MethodExecStream then handleExecStream K E s h req
      else if meth \<in> set file_methods then handleFile K E s req
      else if meth = MethodLogs then handleLogs K E s req
      else if meth = MethodRenewLease then handleRenewLease K E s req
      else if meth = MethodSpawn then
        (if w_draining s then (rpc_fail s req 503 ''worker is draining'', s) else handleSpawn K E s req)
      else if meth = MethodDestroy then handleDestroy K E s req
      else if meth = MethodShutdown then (rpc_ok s req NoResult, s\<lparr>w_draining := True\<rparr>)
      else (rpc_fail s req 501 ''worker RPC method is not implemented by this worker runtime'', s))"

definition handleRPC :: "rpc_codec \<Rightarrow> token_lib \<Rightarrow> ('a rpc_env_scheme) \<Rightarrow> rpc_request \<Rightarrow> RPCServer \<Rightarrow> rpc_reply \<times> RPCServer" where
  "handleRPC K L E r s =
     (if rh_Method r \<noteq> ''POST'' then (HTTPError 405 ''method not allowed'', s)
      else if \<not> authenticate L (db_now E) s (rh_Header r)
      then (HTTPError StatusUnauthorized ''invalid or missing worker RPC credentials'', s)
      else case rh_Body r of
        None \<Rightarrow> (HTTPError 400 ''invalid worker RPC request'', s)
      | Some req \<Rightarrow>
          if rr_WorkerID req \<noteq> w_WorkerID s
          then (HTTPError StatusForbidden ''worker RPC request targets a different worker'', s)
          else case ValidateRequest K req of
            Some err \<Rightarrow> (rpc_fail s req 400 (err_msg err), s)
          | None \<Rightarrow> dispatch K E s (rh_Header r) req)"

end
