(* ===== verification/Worker_Client.thy ===== *)
theory Worker_Client
  imports Worker_RPC
begin

text \<open>
  The control plane's side of the worker RPC (\<open>internal/worker/rpc_client.go\<close>) and what both
  sides together guarantee.

  The connection is a parameter: a transport takes a request and the state of the other side
  and gives the reply, or an error.  Encoding of the parameters is \<open>rpc_encoder\<close>; \<open>rc_size\<close> is
  the length of a reply's JSON text, of which the client reads one mebibyte, and \<open>rc_text\<close> the
  text shown when a reply is no worker response.
\<close>

record rpc_encoder =
  en_spawn :: "SpawnParams \<Rightarrow> string"
  en_runtime :: "RuntimeParams \<Rightarrow> string"
  en_exec :: "ExecParams \<Rightarrow> string"
  en_file :: "FileParams \<Rightarrow> string"
  en_logs :: "LogsParams \<Rightarrow> string"

text \<open>Reading a result into the type the caller expects.\<close>

record rpc_decoder =
  de_spawn :: "rpc_result \<Rightarrow> error + string \<times> string \<times> string \<times> string \<times> string \<times> metadata"
  de_status :: "rpc_result \<Rightarrow> error + string \<times> string \<times> string \<times> string"
  de_exec :: "rpc_result \<Rightarrow> error + int \<times> string \<times> string"
  de_chunks :: "rpc_result \<Rightarrow> error + (string \<times> string) list"
  de_chunk :: "rpc_result \<Rightarrow> error + string \<times> string"
  de_content :: "rpc_result \<Rightarrow> error + string"
  de_files :: "rpc_result \<Rightarrow> error + FileInfo list"
  de_stat :: "rpc_result \<Rightarrow> error + FileInfo"
  de_matches :: "rpc_result \<Rightarrow> error + string list"
  de_lines :: "rpc_result \<Rightarrow> error + string list"

record RPCClient =
  rc_BaseURL :: string
  rc_WorkerID :: string
  rc_Token :: string
  rc_TokenFunc :: "(error + string) option"
  rc_encode :: rpc_encoder
  rc_decode :: rpc_decoder
  rc_size :: "rpc_reply \<Rightarrow> nat"
  rc_text :: "rpc_reply \<Rightarrow> string"

type_synonym 's transport = "rpc_request \<Rightarrow> 's \<Rightarrow> (error + rpc_reply) \<times> 's"

definition authToken :: "RPCClient \<Rightarrow> error + string" where
  "authToken C =
     (case rc_TokenFunc C of
        Some r \<Rightarrow>
          (case r of
             Inl err \<Rightarrow> Inl err
           | Inr token \<Rightarrow> if TrimSpace token = [] then Inl (Err ErrOther ''worker token is required'') else Inr token)
      | None \<Rightarrow>
          if TrimSpace (rc_Token C) = [] then Inl (Err ErrOther ''worker token is required'') else Inr (rc_Token C))"

definition rpc_headers :: "RPCClient \<Rightarrow> string \<Rightarrow> bool \<Rightarrow> headers" where
  "rpc_headers C token live = (\<lambda>_. [])(''Content-Type'' := ''application/json'',
     ''Accept'' := (if live then ''application/x-ndjson'' else []), ''X-Worker-Stream'' := (if live then ''ndjson'' else []),
     ''X-Worker-ID'' := rc_WorkerID C, ''X-Worker-Token'' := token)"

definition http_failed :: "nat \<Rightarrow> string \<Rightarrow> error" where
  "http_failed code text = Err ErrOther (''worker RPC failed: HTTP '' @ Itoa (int code) @ '': '' @ text)"

definition decode_failed :: error where
  "decode_failed = Err ErrOther ''decode worker RPC response''"

definition read_limit :: nat where "read_limit = 2 ^ 20"

text \<open>
  How a reply becomes a response: an API error decodes to an empty response, a truncated text or
  a stream of several documents does not decode.
\<close>

definition read_reply :: "RPCClient \<Rightarrow> rpc_reply \<Rightarrow> error + Response" where
  "read_reply C rep =
     (if read_limit < rc_size C rep then Inl decode_failed
      else case rep of
        HTTPError _ _ \<Rightarrow> Inr \<lparr>rp_ID = [], rp_WorkerID = [], rp_Error = [], rp_Result = NoResult\<rparr>
      | HTTPReply _ r \<Rightarrow> Inr r
      | HTTPStream [r] \<Rightarrow> Inr r
      | HTTPStream _ \<Rightarrow> Inl decode_failed)"

definition client_call :: "'s transport \<Rightarrow> RPCClient \<Rightarrow> Request \<Rightarrow> 's \<Rightarrow> (error + Response) \<times> 's" where
  "client_call T C request s =
     (if TrimSpace (rc_BaseURL C) = [] then (Inl (Err ErrOther ''worker RPC URL is required''), s)
      else if TrimSpace (rc_WorkerID C) = [] then (Inl (Err ErrOther ''worker id is required''), s)
      else case authToken C of
        Inl err \<Rightarrow> (Inl err, s)
      | Inr token \<Rightarrow>
      case T \<lparr>rh_Method = ''POST'', rh_Header = rpc_headers C token False, rh_Body = Some request\<rparr> s of
        (Inl err, s) \<Rightarrow> (Inl err, s)
      | (Inr rep, s) \<Rightarrow>
          (case read_reply C rep of
             Inl err \<Rightarrow> Inl err
           | Inr response \<Rightarrow>
               if reply_status rep \<ge> 300 then
                 Inl (http_failed (reply_status rep) (if rp_Error response \<noteq> [] then rp_Error response else TrimSpace (rc_text C rep)))
               else if rp_Error response \<noteq> [] then Inl (Err ErrOther (''worker RPC failed: '' @ rp_Error response))
               else Inr response, s))"

text \<open>A call whose result is decoded.\<close>

definition typed_call ::
  "'s transport \<Rightarrow> RPCClient \<Rightarrow> (rpc_result \<Rightarrow> error + 'a) \<Rightarrow> string \<Rightarrow> string \<Rightarrow> LeaseToken option \<Rightarrow> string \<Rightarrow> 's \<Rightarrow> (error + 'a) \<times> 's" where
  "typed_call T C dec reqID meth lease params s =
     (case client_call T C \<lparr>rr_ID = reqID, rr_Method = meth, rr_WorkerID = rc_WorkerID C, rr_Lease = lease, rr_Params = params\<rparr> s of
        (Inl err, s) \<Rightarrow> (Inl err, s)
      | (Inr resp, s) \<Rightarrow> (dec (rp_Result resp), s))"

section \<open>The calls\<close>

definition rpc_Spawn where
  "rpc_Spawn T C reqID lease p = typed_call T C (de_spawn (rc_decode C))
     reqID MethodSpawn (Some lease) (en_spawn (rc_encode C) p)"

definition rpc_Status where
  "rpc_Status T C reqID p = typed_call T C (de_status (rc_decode C))
     reqID MethodStatus None (en_runtime (rc_encode C) p)"

definition rpc_Exec where
  "rpc_Exec T C reqID p = typed_call T C (de_exec (rc_decode C))
     reqID MethodExec None (en_exec (rc_encode C) p)"

definition rpc_ExecStream where
  "rpc_ExecStream T C reqID p = typed_call T C (de_chunks (rc_decode C))
     reqID MethodExecStream None (en_exec (rc_encode C) p)"

definition rpc_FileWrite where
  "rpc_FileWrite T C reqID p = typed_call T C (\<lambda>r. Inr ()) reqID MethodFileWrite None (en_file (rc_encode C) p)"

definition rpc_FileRead where
  "rpc_FileRead T C reqID p = typed_call T C (de_content (rc_decode C))
     reqID MethodFileRead None (en_file (rc_encode C) p)"

definition rpc_FileList where
  "rpc_FileList T C reqID p = typed_call T C (de_files (rc_decode C))
     reqID MethodFileList None (en_file (rc_encode C) p)"

definition rpc_FileDelete where
  "rpc_FileDelete T C reqID p = typed_call T C (\<lambda>r. Inr ()) reqID MethodFileDelete None (en_file (rc_encode C) p)"

definition rpc_FileMove where
  "rpc_FileMove T C reqID p = typed_call T C (\<lambda>r. Inr ()) reqID MethodFileMove None (en_file (rc_encode C) p)"

definition rpc_FileChmod where
  "rpc_FileChmod T C reqID p = typed_call T C (\<lambda>r. Inr ()) reqID MethodFileChmod None (en_file (rc_encode C) p)"

definition rpc_FileStat where
  "rpc_FileStat T C reqID p = typed_call T C (de_stat (rc_decode C))
     reqID MethodFileStat None (en_file (rc_encode C) p)"

definition rpc_FileGlob where
  "rpc_FileGlob T C reqID p = typed_call T C (de_matches (rc_decode C))
     reqID MethodFileGlob None (en_file (rc_encode C) p)"

definition rpc_Logs where
  "rpc_Logs T C reqID p = typed_call T C (de_lines (rc_decode C))
     reqID MethodLogs None (en_logs (rc_encode C) p)"

definition rpc_Destroy where
  "rpc_Destroy T C reqID lease p = typed_call T C (\<lambda>r. Inr ()) reqID MethodDestroy (Some lease) (en_runtime (rc_encode C) p)"

definition rpc_Shutdown where
  "rpc_Shutdown T C reqID = typed_call T C (\<lambda>r. Inr ()) reqID MethodShutdown None []"

text \<open>
  The live stream: the documents are read one by one, an error ends it, empty results are
  skipped.  Gives the chunks and the error, if any.
\<close>

fun scan_stream :: "(rpc_result \<Rightarrow> error + string \<times> string) \<Rightarrow> Response list \<Rightarrow> (string \<times> string) list \<times> error option" where
  "scan_stream dec [] = ([], None)"
| "scan_stream dec (r # rs) =
     (if rp_Error r \<noteq> [] then ([], Some (Err ErrOther (''worker RPC stream failed: '' @ rp_Error r)))
      else if rp_Result r = NoResult then scan_stream dec rs
      else case dec (rp_Result r) of
        Inl err \<Rightarrow> ([], Some (wrap_err ''decode worker stream chunk'' err))
      | Inr c \<Rightarrow> (let (cs, e) = scan_stream dec rs in (c # cs, e)))"

definition rpc_ExecStreamLive ::
  "'s transport \<Rightarrow> RPCClient \<Rightarrow> string \<Rightarrow> ExecParams \<Rightarrow> 's \<Rightarrow> (error + (string \<times> string) list \<times> error option) \<times> 's" where
  "rpc_ExecStreamLive T C reqID p s =
     (if TrimSpace (rc_BaseURL C) = [] then (Inl (Err ErrOther ''worker RPC URL is required''), s)
      else if TrimSpace (rc_WorkerID C) = [] then (Inl (Err ErrOther ''worker id is required''), s)
      else case authToken C of
        Inl err \<Rightarrow> (Inl err, s)
      | Inr token \<Rightarrow>
      case T \<lparr>rh_Method = ''POST'', rh_Header = rpc_headers C token True,
              rh_Body = Some \<lparr>rr_ID = reqID, rr_Method = MethodExecStream, rr_WorkerID = rc_WorkerID C, rr_Lease = None,
                              rr_Params = en_exec (rc_encode C) p\<rparr>\<rparr> s of
        (Inl err, s) \<Rightarrow> (Inl err, s)
      | (Inr rep, s) \<Rightarrow>
          (if reply_status rep \<ge> 300 then
             Inl (http_failed (reply_status rep)
               (case rep of HTTPReply _ r \<Rightarrow> if rp_Error r \<noteq> [] then rp_Error r else TrimSpace (rc_text C rep)
                | _ \<Rightarrow> TrimSpace (rc_text C rep)))
           else Inr (scan_stream (de_chunk (rc_decode C)) (case rep of HTTPStream rs \<Rightarrow> rs | HTTPReply _ r \<Rightarrow> [r] | HTTPError _ _ \<Rightarrow> [])), s))"

end
