(* ===== verification/Worker_RPC_Laws.thy ===== *)
theory Worker_RPC_Laws
  imports Worker_Client Sample
begin

text \<open>
  What the worker guarantees whatever it is asked, and what a call of the control plane through
  the RPC amounts to.
\<close>

section \<open>Effects of a request\<close>

text \<open>A request that makes one call and changes nothing else.\<close>

definition one_call :: "ext_call \<Rightarrow> RPCServer \<Rightarrow> RPCServer \<Rightarrow> bool" where
  "one_call c s s' \<longleftrightarrow> s' = s\<lparr>w_calls := w_calls s @ [c]\<rparr>"

lemma one_call_iff [simp]: "one_call c s (s\<lparr>w_calls := w_calls s @ [d]\<rparr>) \<longleftrightarrow> c = d"
  by (auto simp: one_call_def dest: arg_cong [of _ _ w_calls])

lemma with_provider_cases:
  assumes "with_provider s req params refuse prov body = (rep, s')"
  obtains (refused) "s' = s" "reply_status rep \<in> {400, 403, 404, 503}"
  | (reached) p reg name where "params = Inr p" "refuse p = None" "w_Registry s = Some reg"
      "registry_Get reg (prov p) = Inr name" "body p name s = (rep, s')"
  using assms by (auto simp: with_provider_def rpc_fail_def split: sum.splits option.splits)

text \<open>The calls that start or end a runtime.\<close>

fun lifecycle_call :: "ext_call \<Rightarrow> bool" where
  "lifecycle_call (PSpawn _ _ _ _ _) = True"
| "lifecycle_call (PDestroy _ _) = True"
| "lifecycle_call _ = False"

lemma snd_w_call [simp]:
  "snd (w_call re c s) = s\<lparr>w_calls := w_calls s @ [c]\<rparr>" "snd (w_call_unit E c s) = s\<lparr>w_calls := w_calls s @ [c]\<rparr>"
  "snd (w_call_as f re' c s) = s\<lparr>w_calls := w_calls s @ [c]\<rparr>"
  by (simp_all add: w_call_def w_call_unit_def w_call_as_def case_prod_beta)

lemma runFileOperation_call:
  assumes "meth \<in> set file_methods"
  shows "\<exists>c. one_call c s (snd (runFileOperation E name i meth p s)) \<and> \<not> lifecycle_call c"
  using assms unfolding file_methods_def list.set insert_iff
  by (elim disjE) (simp_all add: runFileOperation_def case_prod_beta Let_def split: sum.split)

lemma reader_call:
  assumes "handleStatus K E s req = (rep, s') \<or> handleExec K E s req = (rep, s') \<or> handleExecStream K E s h req = (rep, s') \<or>
     handleFile K E s req = (rep, s') \<and> rr_Method req \<in> set file_methods \<or> handleLogs K E s req = (rep, s')"
  shows "s' = s \<or> (\<exists>c. one_call c s s' \<and> \<not> lifecycle_call c)"
  using assms
proof (elim disjE conjE)
  assume f: "handleFile K E s req = (rep, s')" and m: "rr_Method req \<in> set file_methods"
  from f [unfolded handleFile_def] show ?thesis
  proof (cases rule: with_provider_cases)
    case (reached p reg name)
    then show ?thesis
      using runFileOperation_call [OF m, of s E name "runtime_id p" p] by (auto simp: case_prod_beta split: sum.splits)
  qed simp
qed (auto simp: handleStatus_def handleExec_def handleExecStream_def handleLogs_def w_call_def Let_def
      elim!: with_provider_cases split: sum.splits if_splits)

text \<open>A lease that lets this worker act on a sandbox.\<close>

definition valid_lease :: "time \<Rightarrow> string \<Rightarrow> string \<Rightarrow> LeaseToken option \<Rightarrow> bool" where
  "valid_lease now w sid l \<longleftrightarrow>
     (case l of None \<Rightarrow> False
      | Some t \<Rightarrow> lt_HolderID t = w \<and> lt_ResourceID t = sid \<and> TrimSpace sid \<noteq> [] \<and> now \<le> lt_ExpiresAt t)"

lemma validateLeaseToken_None:
  "validateLeaseToken (db_now E) (rr_Lease req) w = None \<longleftrightarrow> valid_lease (db_now E) w (lease_resource req) (rr_Lease req)"
  by (auto simp: validateLeaseToken_def valid_lease_def lease_resource_def split: option.splits)

lemma handleSpawn_call:
  assumes "handleSpawn K E s req = (rep, s')"
  shows "s' = s \<or> (\<exists>p name. cd_spawn K (rr_Params req) = Inr p \<and>
     valid_lease (db_now E) (w_WorkerID s) (sp_SandboxID p) (rr_Lease req) \<and>
     one_call (PSpawn name (sp_Image p) (sp_MemoryMB p) (sp_VCPUs p) (sp_Metadata p)) s s')"
proof (cases "validateLeaseToken (db_now E) (rr_Lease req) (w_WorkerID s)")
  case None
  note t = None [unfolded validateLeaseToken_None]
  show ?thesis
    using assms t
    by (auto simp: handleSpawn_def None w_call_def Let_def elim!: with_provider_cases split: if_splits sum.splits)
qed (use assms in \<open>simp add: handleSpawn_def\<close>)

lemma handleDestroy_call:
  assumes "handleDestroy K E s req = (rep, s')"
  shows "s' = s \<or> (\<exists>p name. cd_runtime K (rr_Params req) = Inr p \<and>
     valid_lease (db_now E) (w_WorkerID s) (rt_SandboxID p) (rr_Lease req) \<and> one_call (PDestroy name (runtime_id p)) s s')"
proof (cases "validateLeaseToken (db_now E) (rr_Lease req) (w_WorkerID s)")
  case None
  note t = None [unfolded validateLeaseToken_None]
  show ?thesis
    using assms t
    by (auto simp: handleDestroy_def None w_call_def Let_def elim!: with_provider_cases split: if_splits option.splits)
qed (use assms in \<open>simp add: handleDestroy_def\<close>)

lemma handleRenewLease_state:
  "handleRenewLease K E s req = (rep, s') \<Longrightarrow> w_calls s' = w_calls s \<and> w_draining s' = w_draining s"
  by (auto simp: handleRenewLease_def Let_def split: option.splits sum.splits if_splits)

lemma one_call_calls: "one_call c s s' \<Longrightarrow> w_calls s' = w_calls s @ [c]"
  by (simp add: one_call_def)

lemma file_method_not:
  "meth \<in> set file_methods \<Longrightarrow> meth \<noteq> MethodSpawn \<and> meth \<noteq> MethodDestroy \<and> meth \<noteq> MethodShutdown \<and> meth \<noteq> MethodRenewLease"
  by (auto simp: file_methods_def)

lemma dispatch_cases:
  assumes "dispatch K E s h req = (rep, s')"
  obtains (none) "w_calls s' = w_calls s"
  | (reader) c where "one_call c s s'" "\<not> lifecycle_call c"
  | (spawn) p name where "\<not> w_draining s" "cd_spawn K (rr_Params req) = Inr p"
      "valid_lease (db_now E) (w_WorkerID s) (sp_SandboxID p) (rr_Lease req)"
      "one_call (PSpawn name (sp_Image p) (sp_MemoryMB p) (sp_VCPUs p) (sp_Metadata p)) s s'"
  | (destroy) p name where "cd_runtime K (rr_Params req) = Inr p"
      "valid_lease (db_now E) (w_WorkerID s) (rt_SandboxID p) (rr_Lease req)" "one_call (PDestroy name (runtime_id p)) s s'"
proof -
  let ?m = "rr_Method req"
  consider "?m = MethodStatus \<or> ?m = MethodExec \<or> ?m = MethodExecStream \<or> ?m \<in> set file_methods \<or> ?m = MethodLogs"
    | "?m = MethodRenewLease" | "?m = MethodSpawn" | "?m = MethodDestroy"
    | "\<not> (?m = MethodStatus \<or> ?m = MethodExec \<or> ?m = MethodExecStream \<or> ?m \<in> set file_methods \<or> ?m = MethodLogs)"
      "?m \<noteq> MethodRenewLease" "?m \<noteq> MethodSpawn" "?m \<noteq> MethodDestroy"
    by blast
  then show ?thesis
  proof cases
    case 1
    then have "handleStatus K E s req = (rep, s') \<or> handleExec K E s req = (rep, s') \<or> handleExecStream K E s h req = (rep, s') \<or>
        handleFile K E s req = (rep, s') \<and> ?m \<in> set file_methods \<or> handleLogs K E s req = (rep, s')"
      using assms by (auto simp: dispatch_def Let_def file_methods_def)
    from reader_call [OF this] show ?thesis using none reader by auto
  next
    case 2
    then show ?thesis
      using assms none by (auto simp: dispatch_def file_methods_def dest: handleRenewLease_state)
  next
    case 3
    then show ?thesis
      using assms handleSpawn_call [of K E s req rep s'] none spawn by (auto simp: dispatch_def file_methods_def split: if_splits)
  next
    case 4
    then show ?thesis
      using assms handleDestroy_call [of K E s req rep s'] none destroy by (auto simp: dispatch_def file_methods_def)
  next
    case 5
    then show ?thesis
      using assms none by (auto simp: dispatch_def split: if_splits)
  qed
qed

lemma handleRPC_cases:
  assumes "handleRPC K L E r s = (rep, s')"
  obtains (refused) "s' = s" "reply_status rep \<noteq> 200"
  | (served) req where "rh_Method r = ''POST''" "authenticate L (db_now E) s (rh_Header r)" "rh_Body r = Some req"
      "rr_WorkerID req = w_WorkerID s" "ValidateRequest K req = None" "dispatch K E s (rh_Header r) req = (rep, s')"
  using assms by (auto simp: handleRPC_def rpc_fail_def split: if_splits option.splits)

text \<open>
  C27. A worker starts or destroys a runtime only for an authenticated request to it that carries
  a lease of this worker, not expired, for the very sandbox of the request; a draining worker
  starts nothing; and one request makes one such call at most.
\<close>

theorem rpc_lifecycle_leased:
  assumes "handleRPC K L E r s = (rep, s')" "c \<in> set (drop (length (w_calls s)) (w_calls s'))" "lifecycle_call c"
  shows "w_calls s' = w_calls s @ [c] \<and> authenticate L (db_now E) s (rh_Header r) \<and>
    (\<exists>req. rh_Body r = Some req \<and> rr_WorkerID req = w_WorkerID s \<and>
      ((\<exists>p name. cd_spawn K (rr_Params req) = Inr p \<and> \<not> w_draining s \<and>
          c = PSpawn name (sp_Image p) (sp_MemoryMB p) (sp_VCPUs p) (sp_Metadata p) \<and>
          valid_lease (db_now E) (w_WorkerID s) (sp_SandboxID p) (rr_Lease req)) \<or>
       (\<exists>p name. cd_runtime K (rr_Params req) = Inr p \<and> c = PDestroy name (runtime_id p) \<and>
          valid_lease (db_now E) (w_WorkerID s) (rt_SandboxID p) (rr_Lease req))))"
  using assms(1)
proof (cases rule: handleRPC_cases)
  case refused
  then show ?thesis using assms(2) by simp
next
  case (served req)
  from served(6) show ?thesis
  proof (cases rule: dispatch_cases)
    case none
    then show ?thesis using assms(2) by simp
  next
    case (reader d)
    then show ?thesis using assms(2,3) by (auto dest: one_call_calls)
  next
    case (spawn p name)
    then show ?thesis using assms(2) served by (auto dest!: one_call_calls)
  next
    case (destroy p name)
    then show ?thesis using assms(2) served by (auto dest!: one_call_calls)
  qed
qed

text \<open>The handlers' refusals.\<close>

definition refusal :: "nat \<Rightarrow> bool" where
  "refusal c \<longleftrightarrow> c \<in> {400, 401, 403, 405, 501, 503}"

lemma refusal_codes [simp]: "\<not> refusal 200" "\<not> refusal 404" "\<not> refusal 500" "\<not> refusal 409" "\<not> refusal 504"
  "\<not> refusal (error_code e)"
  by (simp_all add: refusal_def error_code_def)

lemma reply_codes [simp]:
  "reply_status (rpc_fail s req c m) = c" "reply_status (rpc_ok s req r) = 200" "reply_status (streamExecChunks s x req cs) = 200"
  by (simp_all add: rpc_fail_def rpc_ok_def streamExecChunks_def)

lemma handler_refusal:
  assumes "handleStatus K E s req = (rep, s') \<or> handleExec K E s req = (rep, s') \<or> handleExecStream K E s h req = (rep, s') \<or>
     handleFile K E s req = (rep, s') \<or> handleLogs K E s req = (rep, s') \<or> handleSpawn K E s req = (rep, s') \<or>
     handleDestroy K E s req = (rep, s') \<or> handleRenewLease K E s req = (rep, s')"
    and "refusal (reply_status rep)"
  shows "s' = s"
  using assms
  by (elim disjE)
    (auto simp: handleStatus_def handleExec_def handleExecStream_def handleFile_def handleLogs_def handleSpawn_def handleDestroy_def
      handleRenewLease_def case_prod_beta Let_def elim!: with_provider_cases split: sum.splits option.splits if_splits)

text \<open>
  A refusal does nothing: when the worker answers 400, 401, 403, 405, 501 or 503, no provider
  was called, nothing renewed and the worker's state is as before.
\<close>

theorem rpc_refusal_inert:
  assumes "handleRPC K L E r s = (rep, s')" "reply_status rep \<in> {400, 401, 403, 405, 501, 503}"
  shows "s' = s"
  using assms(1)
proof (cases rule: handleRPC_cases)
  case (served req)
  have "refusal (reply_status rep)" using assms(2) by (simp add: refusal_def)
  then show ?thesis
    using served(6) handler_refusal [of K E s req rep s' "rh_Header r"]
    by (auto simp: dispatch_def Let_def split: if_splits)
qed

section \<open>Both sides together\<close>

text \<open>The worker as the other side of a transport that delivers.\<close>

definition to_worker :: "rpc_codec \<Rightarrow> token_lib \<Rightarrow> ('a rpc_env_scheme) \<Rightarrow> RPCServer transport" where
  "to_worker K L E r s = (case handleRPC K L E r s of (rep, s') \<Rightarrow> (Inr rep, s'))"

lemma method_is_spawn: "ValidateRequest K req = None" if "rr_Method req = MethodSpawn" "TrimSpace (rr_ID req) \<noteq> []"
  "TrimSpace (rr_WorkerID req) \<noteq> []" "rr_Lease req = Some t" "rr_Params req \<noteq> []" "cd_spawn K (rr_Params req) = Inr p"
  using that by (simp add: ValidateRequest_def validateParams_def Let_def)

text \<open>
  C28. A spawn over the RPC is a spawn on the worker: when the worker accepts the client's
  credentials, is not draining and has the provider, the lease is its own and current for the
  sandbox, and replies fit the client's limit, the client's \<open>Spawn\<close> makes exactly the provider call
  asked for and answers the runtime id the provider gave, or its error.
\<close>

theorem remote_spawn_is_spawn:
  fixes E :: "'a rpc_env_scheme"
  assumes client: "TrimSpace (rc_BaseURL C) \<noteq> []" "authToken C = Inr token" "rc_WorkerID C = w_WorkerID s"
      "TrimSpace (w_WorkerID s) \<noteq> []" "TrimSpace reqID \<noteq> []" "\<And>rep. rc_size C rep \<le> read_limit"
    and codec: "en_spawn (rc_encode C) p \<noteq> []" "cd_spawn K (en_spawn (rc_encode C) p) = Inr p"
      "\<And>a b c d e f. de_spawn (rc_decode C) (SpawnResult a b c d e f) = Inr (a, b, c, d, e, f)"
    and worker: "authenticate L (db_now E) s (rpc_headers C token False)" "\<not> w_draining s" "w_Registry s = Some reg"
      "registry_Get reg (sp_Provider p) = Inr name"
    and lease: "valid_lease (db_now E) (w_WorkerID s) (sp_SandboxID p) (Some t)"
    and call: "c = PSpawn name (sp_Image p) (sp_MemoryMB p) (sp_VCPUs p) (sp_Metadata p)"
    and provider_errors: "\<And>e. re_id E (w_calls s) c = Inl e \<Longrightarrow> err_msg e \<noteq> []"
  shows "rpc_Spawn (to_worker K L E) C reqID t p s =
    (case re_id E (w_calls s) c of
       Inl err \<Rightarrow> Inl (http_failed 500 (err_msg err))
     | Inr i \<Rightarrow> Inr (sp_SandboxID p, i, ''running'', name, w_WorkerID s, sp_Metadata p),
     s\<lparr>w_calls := w_calls s @ [c]\<rparr>)"
proof -
  let ?req = "\<lparr>rr_ID = reqID, rr_Method = MethodSpawn, rr_WorkerID = w_WorkerID s, rr_Lease = Some t,
      rr_Params = en_spawn (rc_encode C) p\<rparr>"
  have valid: "ValidateRequest K ?req = None"
    using client codec by (intro method_is_spawn [of _ t _ p]) simp_all
  have lease': "validateLeaseToken (db_now E) (Some t) (w_WorkerID s) = None" "lease_resource ?req = sp_SandboxID p"
    using lease by (auto simp: validateLeaseToken_def lease_resource_def valid_lease_def)
  have spawn: "handleSpawn K E s ?req =
      (case re_id E (w_calls s) c of Inl err \<Rightarrow> rpc_fail s ?req 500 (err_msg err)
       | Inr i \<Rightarrow> rpc_ok s ?req (SpawnResult (sp_SandboxID p) i ''running'' name (w_WorkerID s) (sp_Metadata p)),
       s\<lparr>w_calls := w_calls s @ [c]\<rparr>)"
    using lease' codec(2) worker
    by (simp add: handleSpawn_def with_provider_def w_call_def call rpc_fail_def rpc_ok_def split: sum.split)
  have served: "handleRPC K L E \<lparr>rh_Method = ''POST'', rh_Header = rpc_headers C token False, rh_Body = Some ?req\<rparr> s = handleSpawn K E s ?req"
    using worker valid by (simp add: handleRPC_def dispatch_def file_methods_def)
  show ?thesis
    using client provider_errors
    by (auto simp: rpc_Spawn_def typed_call_def client_call_def to_worker_def served spawn read_reply_def rpc_fail_def rpc_ok_def
        codec(3) not_less [symmetric] split: sum.split)
qed

section \<open>A concrete worker\<close>

abbreviation no_value :: "'x \<Rightarrow> error + 'y" where "no_value \<equiv> \<lambda>_. Inl (Err ErrOther ''no'')"

definition rpc_sample_env :: rpc_env where
  "rpc_sample_env = env.extend sample_env \<lparr>re_renew = (\<lambda>_ _ _. Inl (Err ErrOther ''no'')), re_ctx = CtxRunning\<rparr>"

definition rpc_sample_server :: RPCServer where
  "rpc_sample_server = \<lparr>w_WorkerID = ''w1'', w_Token = ''secret'', w_SigningKey = [], w_SigningKeys = [], w_RevokedTokenIDs = [],
     w_Registry = Some sample_registry, w_hasRenewer = False, w_draining = False, w_calls = [], w_renewals = []\<rparr>"

definition rpc_sample_params :: SpawnParams where
  "rpc_sample_params = \<lparr>sp_SandboxID = ''sb-1'', sp_Image = ''alpine'', sp_Provider = ''mock'', sp_MemoryMB = 512, sp_VCPUs = 1,
     sp_OwnerID = [], sp_TTL = ''10m'', sp_Metadata = []\<rparr>"

definition rpc_sample_codec :: rpc_codec where
  "rpc_sample_codec = (\<lparr>cd_heartbeat = no_value, cd_spawn = (\<lambda>_. Inr rpc_sample_params), cd_runtime = no_value,
     cd_exec = no_value, cd_file = no_value, cd_logs = no_value, cd_renew = no_value\<rparr>)"

definition rpc_sample_lease :: LeaseToken where
  "rpc_sample_lease = \<lparr>lt_ResourceID = ''sb-1'', lt_HolderID = ''w1'', lt_Generation = 1, lt_ExpiresAt = 2000 * Second\<rparr>"

definition rpc_sample_client :: RPCClient where
  "rpc_sample_client = (\<lparr>rc_BaseURL = ''http://w1:9'', rc_WorkerID = ''w1'', rc_Token = ''secret'', rc_TokenFunc = None,
     rc_encode = \<lparr>en_spawn = (\<lambda>_. ''p''), en_runtime = (\<lambda>_. ''p''), en_exec = (\<lambda>_. ''p''), en_file = (\<lambda>_. ''p''), en_logs = (\<lambda>_. ''p'')\<rparr>,
     rc_decode = \<lparr>de_spawn = (\<lambda>r. case r of SpawnResult a b c d e f \<Rightarrow> Inr (a, b, c, d, e, f) | _ \<Rightarrow> Inl (Err ErrOther ''no'')), de_status = no_value,
       de_exec = no_value, de_chunks = no_value, de_chunk = no_value, de_content = no_value, de_files = no_value,
       de_stat = no_value, de_matches = no_value, de_lines = no_value\<rparr>,
     rc_size = (\<lambda>_. 0), rc_text = (\<lambda>_. [])\<rparr>)"

definition rpc_sample_request :: rpc_request where
  "rpc_sample_request = \<lparr>rh_Method = ''POST'', rh_Header = rpc_headers rpc_sample_client ''secret'' False,
     rh_Body = Some \<lparr>rr_ID = ''spawn-sb-1'', rr_Method = MethodSpawn, rr_WorkerID = ''w1'', rr_Lease = Some rpc_sample_lease, rr_Params = ''p''\<rparr>\<rparr>"

lemma rpc_sample_called:
  "w_calls (snd (handleRPC rpc_sample_codec plain_lib rpc_sample_env rpc_sample_request rpc_sample_server))
     = [PSpawn ''mock'' ''alpine'' 512 1 []]"
  by code_simp

theorem rpc_lifecycle_leased_witness:
  "\<exists>req p name. rh_Body rpc_sample_request = Some req \<and> cd_spawn rpc_sample_codec (rr_Params req) = Inr p \<and>
     PSpawn ''mock'' ''alpine'' 512 1 [] = PSpawn name (sp_Image p) (sp_MemoryMB p) (sp_VCPUs p) (sp_Metadata p) \<and>
     valid_lease (db_now rpc_sample_env) (w_WorkerID rpc_sample_server) (sp_SandboxID p) (rr_Lease req)"
  using rpc_lifecycle_leased [OF surjective_pairing, where c = "PSpawn ''mock'' ''alpine'' 512 1 []" and K = rpc_sample_codec and
      L = plain_lib and E = rpc_sample_env and r = rpc_sample_request and s = rpc_sample_server, unfolded rpc_sample_called]
  by (auto simp: rpc_sample_server_def)

theorem remote_spawn_is_spawn_witness:
  "fst (rpc_Spawn (to_worker rpc_sample_codec plain_lib rpc_sample_env) rpc_sample_client ''spawn-sb-1'' rpc_sample_lease
     rpc_sample_params rpc_sample_server) = Inr (''sb-1'', ''sb-0'', ''running'', ''mock'', ''w1'', [])"
proof -
  have auth: "authenticate plain_lib (db_now rpc_sample_env) rpc_sample_server (rpc_headers rpc_sample_client ''secret'' False)"
    by code_simp
  have trim: "TrimSpace (rc_BaseURL rpc_sample_client) \<noteq> []" "authToken rpc_sample_client = Inr ''secret''"
    "TrimSpace (w_WorkerID rpc_sample_server) \<noteq> []" "TrimSpace ''spawn-sb-1'' \<noteq> []" "registry_Get sample_registry ''mock'' = Inr ''mock''"
    "valid_lease (db_now rpc_sample_env) (w_WorkerID rpc_sample_server) (sp_SandboxID rpc_sample_params) (Some rpc_sample_lease)"
    by code_simp+
  have p: "re_id rpc_sample_env h c = Inr (''sb-'' @ replicate (Suc (length h)) (CHR ''0''))" for h c
    by (simp add: rpc_sample_env_def sample_env_def env.defs)
  show ?thesis
    by (subst remote_spawn_is_spawn [where token = "''secret''" and reg = sample_registry and name = "''mock''", OF trim(1,2) _ trim(3,4) _ _ _ _ auth _ _ _ trim(6) refl])
      (simp_all add: p trim rpc_sample_client_def rpc_sample_server_def rpc_sample_params_def rpc_sample_codec_def Let_def)
qed

end
