(* ===== verification/Store_Admin.thy ===== *)
theory Store_Admin
  imports Store_Laws
begin

text \<open>
  The rest of \<open>internal/store/sqlite.go\<close>: the admin audit, provider configurations, templates,
  environments, registry connections, tenants, members and policies.

  Keyed tables share \<open>find_row\<close>, \<open>insert_row\<close>, \<open>update_rows\<close> and \<open>delete_rows\<close>: the statement with
  what its method makes of no row.  A foreign key is no constraint, as the driver leaves them off.
\<close>

section \<open>Statements\<close>

definition db_read :: "'e dbenv_scheme \<Rightarrow> store_op \<Rightarrow> error + 'a \<Rightarrow> error + 'a" where
  "db_read E op r = (case db_fail E op of Some e \<Rightarrow> Inl e | None \<Rightarrow> r)"

definition db_write :: "'e dbenv_scheme \<Rightarrow> store_op \<Rightarrow> store \<Rightarrow> error option \<times> store \<Rightarrow> error option \<times> store" where
  "db_write E op s r = (case db_fail E op of Some e \<Rightarrow> (Some e, s) | None \<Rightarrow> r)"

definition find_row :: "string \<Rightarrow> ('r \<Rightarrow> string) \<Rightarrow> string \<Rightarrow> 'r list \<Rightarrow> error + 'r" where
  "find_row what key k rs = (case row_by key k rs of None \<Rightarrow> Inl (NotFoundError what k) | Some r \<Rightarrow> Inr r)"

definition insert_row :: "string \<Rightarrow> ('r \<Rightarrow> 'k) \<Rightarrow> 'r \<Rightarrow> 'r list \<Rightarrow> error option \<times> 'r list" where
  "insert_row column key r rs =
     (if row_by key (key r) rs \<noteq> None then (Some (unique_violation column), rs) else (None, rs @ [r]))"

definition update_rows :: "error \<Rightarrow> ('r \<Rightarrow> bool) \<Rightarrow> ('r \<Rightarrow> 'r) \<Rightarrow> 'r list \<Rightarrow> error option \<times> 'r list" where
  "update_rows missing P f rs = (if rows_affected P rs = 0 then (Some missing, rs) else (None, upd_where P f rs))"

definition delete_rows :: "error \<Rightarrow> ('r \<Rightarrow> bool) \<Rightarrow> 'r list \<Rightarrow> error option \<times> 'r list" where
  "delete_rows missing P rs = (if rows_affected P rs = 0 then (Some missing, rs) else (None, del_where P rs))"

text \<open>An upsert replaces some columns of the row with the key, or adds the row.\<close>

definition upsert_row :: "('r \<Rightarrow> 'k) \<Rightarrow> ('r \<Rightarrow> 'r \<Rightarrow> 'r) \<Rightarrow> 'r \<Rightarrow> 'r list \<Rightarrow> 'r list" where
  "upsert_row key merge r rs =
     (if row_by key (key r) rs = None then rs @ [r] else upd_where (\<lambda>x. key x = key r) (\<lambda>x. merge r x) rs)"

text \<open>A constraint error becomes the conflict the method names.\<close>

definition conflict_as :: "string \<Rightarrow> error option \<times> store \<Rightarrow> error option \<times> store" where
  "conflict_as msg r = (if IsConstraintError (fst r) then (Some (ConflictError msg), snd r) else r)"

section \<open>Admin audit\<close>

record AdminAuditQuery =
  aaq_Limit :: int
  aaq_Actor :: string
  aaq_Method :: string
  aaq_Status :: int
  aaq_PathLike :: string
  aaq_TenantID :: string

definition CreateAdminAudit :: "'e dbenv_scheme \<Rightarrow> AdminAuditRecord \<Rightarrow> store \<Rightarrow> error option \<times> store" where
  "CreateAdminAudit E r s =
     (let r = (if aa_CreatedAt r = 0 then r\<lparr>aa_CreatedAt := db_now E\<rparr> else r); n = t_audit_seq s + 1 in
      db_write E OpCreateAdminAudit s (None, s\<lparr>t_admin_audit := t_admin_audit s @ [r\<lparr>aa_ID := n\<rparr>], t_audit_seq := n\<rparr>))"

text \<open>
  \<open>LIKE\<close> with the needle between two percent signs.  SQLite compares ASCII letters without
  case; in the needle \<open>%\<close> stands for any text and \<open>_\<close> for any character.
\<close>

fun sql_like :: "string \<Rightarrow> string \<Rightarrow> bool" where
  "sql_like [] t = (t = [])"
| "sql_like (p # ps) [] = (p = CHR ''%'' \<and> sql_like ps [])"
| "sql_like (p # ps) (c # t) =
     (if p = CHR ''%'' then sql_like ps (c # t) \<or> sql_like (p # ps) t
      else (p = CHR ''_'' \<or> EqualFold [p] [c]) \<and> sql_like ps t)"

definition admin_audit_match :: "AdminAuditQuery \<Rightarrow> AdminAuditRecord \<Rightarrow> bool" where
  "admin_audit_match q r \<longleftrightarrow>
     (aaq_Actor q \<noteq> [] \<longrightarrow> aa_Actor r = aaq_Actor q) \<and>
     (aaq_Method q \<noteq> [] \<longrightarrow> aa_Method r = aaq_Method q) \<and>
     (aaq_Status q > 0 \<longrightarrow> aa_Status r = aaq_Status q) \<and>
     (aaq_PathLike q \<noteq> [] \<longrightarrow> sql_like (''%'' @ aaq_PathLike q @ ''%'') (aa_Path r)) \<and>
     (aaq_TenantID q \<noteq> [] \<longrightarrow> aa_TenantID r = aaq_TenantID q)"

definition ListAdminAudit :: "'e dbenv_scheme \<Rightarrow> AdminAuditQuery \<Rightarrow> store \<Rightarrow> error + AdminAuditRecord list" where
  "ListAdminAudit E q s = db_read E OpListAdminAudit
     (Inr (take (nat (audit_limit (aaq_Limit q)))
        (sort_key (\<lambda>r. - aa_CreatedAt r) (rev (filter (admin_audit_match q) (t_admin_audit s))))))"

definition DeleteAdminAuditBefore :: "'e dbenv_scheme \<Rightarrow> time \<Rightarrow> store \<Rightarrow> (error + nat) \<times> store" where
  "DeleteAdminAuditBefore E before s =
     (case db_fail E OpDeleteAdminAuditBefore of
        Some e \<Rightarrow> (Inl e, s)
      | None \<Rightarrow>
          (Inr (rows_affected (\<lambda>r. aa_CreatedAt r < before) (t_admin_audit s)),
           s\<lparr>t_admin_audit := del_where (\<lambda>r. aa_CreatedAt r < before) (t_admin_audit s)\<rparr>))"

section \<open>Provider configurations\<close>

definition GetProviderConfig :: "'e dbenv_scheme \<Rightarrow> string \<Rightarrow> store \<Rightarrow> error + ProviderConfigRecord" where
  "GetProviderConfig E n s = db_read E (OpGetProviderConfig n) (find_row ''provider config'' pf_Name n (t_provider_configs s))"

definition SaveProviderConfig :: "'e dbenv_scheme \<Rightarrow> ProviderConfigRecord \<Rightarrow> store \<Rightarrow> error option \<times> store" where
  "SaveProviderConfig E c s = db_write E (OpSaveProviderConfig (pf_Name c)) s
     (None, s\<lparr>t_provider_configs := upsert_row pf_Name
        (\<lambda>new old. old\<lparr>pf_Config := pf_Config new, pf_Enabled := pf_Enabled new, pf_UpdatedAt := pf_UpdatedAt new\<rparr>)
        (c\<lparr>pf_UpdatedAt := db_now E\<rparr>) (t_provider_configs s)\<rparr>)"

definition ListProviderConfigs :: "'e dbenv_scheme \<Rightarrow> store \<Rightarrow> error + ProviderConfigRecord list" where
  "ListProviderConfigs E s = db_read E OpListProviderConfigs (Inr (t_provider_configs s))"

section \<open>Templates\<close>

definition CreateTemplate :: "'e dbenv_scheme \<Rightarrow> TemplateRecord \<Rightarrow> store \<Rightarrow> error option \<times> store" where
  "CreateTemplate E t s = conflict_as ''template already exists'' (db_write E (OpCreateTemplate (tr_Name t)) s
     (let (e, rs) = insert_row ''templates.name'' tr_Name t (t_templates s) in (e, s\<lparr>t_templates := rs\<rparr>)))"

definition GetTemplate :: "'e dbenv_scheme \<Rightarrow> string \<Rightarrow> store \<Rightarrow> error + TemplateRecord" where
  "GetTemplate E n s = db_read E (OpGetTemplate n) (find_row ''template'' tr_Name n (t_templates s))"

definition ListTemplates :: "'e dbenv_scheme \<Rightarrow> store \<Rightarrow> error + TemplateRecord list" where
  "ListTemplates E s = db_read E OpListTemplates (Inr (order_by tr_Name (t_templates s)))"

definition UpdateTemplate :: "'e dbenv_scheme \<Rightarrow> TemplateRecord \<Rightarrow> store \<Rightarrow> error option \<times> store" where
  "UpdateTemplate E t s = db_write E (OpUpdateTemplate (tr_Name t)) s
     (let (e, rs) = update_rows (NotFoundError ''template'' (tr_Name t)) (\<lambda>r. tr_Name r = tr_Name t)
            (\<lambda>r. t\<lparr>tr_CreatedAt := tr_CreatedAt r, tr_UpdatedAt := db_now E\<rparr>) (t_templates s)
      in (e, s\<lparr>t_templates := rs\<rparr>))"

definition DeleteTemplate :: "'e dbenv_scheme \<Rightarrow> string \<Rightarrow> store \<Rightarrow> error option \<times> store" where
  "DeleteTemplate E n s = db_write E (OpDeleteTemplate n) s
     (let (e, rs) = delete_rows (NotFoundError ''template'' n) (\<lambda>r. tr_Name r = n) (t_templates s) in (e, s\<lparr>t_templates := rs\<rparr>))"

section \<open>Environments\<close>

text \<open>Two constraints: the id, and the name of an owner's specification.\<close>

definition CreateEnvironmentSpec :: "'e dbenv_scheme \<Rightarrow> EnvironmentSpecRecord \<Rightarrow> store \<Rightarrow> error option \<times> store" where
  "CreateEnvironmentSpec E spec s = conflict_as ''spec name already exists for this owner''
     (db_write E (OpCreateEnvironmentSpec (es_ID spec)) s
       (if row_by es_ID (es_ID spec) (t_specs s) \<noteq> None then (Some (unique_violation ''environment_specs.id''), s)
        else (let (e, rs) = insert_row ''environment_specs.owner_id, environment_specs.name'' (\<lambda>r. (es_OwnerID r, es_Name r)) spec (t_specs s)
              in (e, s\<lparr>t_specs := rs\<rparr>))))"

definition GetEnvironmentSpec :: "'e dbenv_scheme \<Rightarrow> string \<Rightarrow> store \<Rightarrow> error + EnvironmentSpecRecord" where
  "GetEnvironmentSpec E i s = db_read E (OpGetEnvironmentSpec i) (find_row ''environment spec'' es_ID i (t_specs s))"

definition ListEnvironmentSpecs :: "'e dbenv_scheme \<Rightarrow> string \<Rightarrow> store \<Rightarrow> error + EnvironmentSpecRecord list" where
  "ListEnvironmentSpecs E owner s = db_read E (OpListEnvironmentSpecs owner)
     (Inr (sort_key (\<lambda>r. - es_CreatedAt r) (filter (\<lambda>r. es_OwnerID r = owner) (t_specs s))))"

definition UpdateEnvironmentSpec :: "'e dbenv_scheme \<Rightarrow> EnvironmentSpecRecord \<Rightarrow> store \<Rightarrow> error option \<times> store" where
  "UpdateEnvironmentSpec E spec s = db_write E (OpUpdateEnvironmentSpec (es_ID spec)) s
     (if \<exists>r\<in>set (t_specs s). es_ID r \<noteq> es_ID spec \<and> es_Name r = es_Name spec \<and>
           (\<exists>x\<in>set (t_specs s). es_ID x = es_ID spec \<and> es_OwnerID x = es_OwnerID r)
      then (Some (unique_violation ''environment_specs.owner_id, environment_specs.name''), s)
      else (let (e, rs) = update_rows (NotFoundError ''environment spec'' (es_ID spec)) (\<lambda>r. es_ID r = es_ID spec)
              (\<lambda>r. r\<lparr>es_Name := es_Name spec, es_BaseImage := es_BaseImage spec, es_PythonPackages := es_PythonPackages spec,
                     es_AptPackages := es_AptPackages spec, es_PythonVersion := es_PythonVersion spec, es_UpdatedAt := db_now E\<rparr>)
              (t_specs s)
            in (e, s\<lparr>t_specs := rs\<rparr>)))"

definition DeleteEnvironmentSpec :: "'e dbenv_scheme \<Rightarrow> string \<Rightarrow> store \<Rightarrow> error option \<times> store" where
  "DeleteEnvironmentSpec E i s = db_write E (OpDeleteEnvironmentSpec i) s
     (let (e, rs) = delete_rows (NotFoundError ''environment spec'' i) (\<lambda>r. es_ID r = i) (t_specs s) in (e, s\<lparr>t_specs := rs\<rparr>))"

definition CreateEnvironmentBuild :: "'e dbenv_scheme \<Rightarrow> EnvironmentBuildRecord \<Rightarrow> store \<Rightarrow> error option \<times> store" where
  "CreateEnvironmentBuild E b s = db_write E (OpCreateEnvironmentBuild (eb_ID b)) s
     (let (e, rs) = insert_row ''environment_builds.id'' eb_ID b (t_builds s) in (e, s\<lparr>t_builds := rs\<rparr>))"

definition GetEnvironmentBuild :: "'e dbenv_scheme \<Rightarrow> string \<Rightarrow> store \<Rightarrow> error + EnvironmentBuildRecord" where
  "GetEnvironmentBuild E i s = db_read E (OpGetEnvironmentBuild i) (find_row ''environment build'' eb_ID i (t_builds s))"

definition ListEnvironmentBuilds :: "'e dbenv_scheme \<Rightarrow> string \<Rightarrow> store \<Rightarrow> error + EnvironmentBuildRecord list" where
  "ListEnvironmentBuilds E spec s = db_read E (OpListEnvironmentBuilds spec)
     (Inr (sort_key (\<lambda>r. - eb_CreatedAt r) (filter (\<lambda>r. eb_SpecID r = spec) (t_builds s))))"

definition UpdateEnvironmentBuild :: "'e dbenv_scheme \<Rightarrow> EnvironmentBuildRecord \<Rightarrow> store \<Rightarrow> error option \<times> store" where
  "UpdateEnvironmentBuild E b s = db_write E (OpUpdateEnvironmentBuild (eb_ID b)) s
     (let (e, rs) = update_rows (NotFoundError ''environment build'' (eb_ID b)) (\<lambda>r. eb_ID r = eb_ID b)
            (\<lambda>r. b\<lparr>eb_SpecID := eb_SpecID r, eb_CreatedAt := eb_CreatedAt r, eb_UpdatedAt := db_now E\<rparr>) (t_builds s)
      in (e, s\<lparr>t_builds := rs\<rparr>))"

definition SaveEnvironmentArtifact :: "'e dbenv_scheme \<Rightarrow> EnvironmentArtifactRecord \<Rightarrow> store \<Rightarrow> error option \<times> store" where
  "SaveEnvironmentArtifact E a s = db_write E (OpSaveEnvironmentArtifact (ar_BuildID a) (ar_Target a)) s
     (None, s\<lparr>t_artifacts := upsert_row (\<lambda>r. (ar_BuildID r, ar_Target r))
        (\<lambda>new old. new\<lparr>ar_CreatedAt := ar_CreatedAt old\<rparr>)
        (a\<lparr>ar_CreatedAt := db_now E, ar_UpdatedAt := db_now E\<rparr>) (t_artifacts s)\<rparr>)"

definition ListEnvironmentArtifacts :: "'e dbenv_scheme \<Rightarrow> string \<Rightarrow> store \<Rightarrow> error + EnvironmentArtifactRecord list" where
  "ListEnvironmentArtifacts E b s = db_read E (OpListEnvironmentArtifacts b) (Inr (filter (\<lambda>r. ar_BuildID r = b) (t_artifacts s)))"

section \<open>Registry connections\<close>

text \<open>The upsert is by id; another row with the owner, provider and user name is a conflict.\<close>

definition SaveRegistryConnection :: "'e dbenv_scheme \<Rightarrow> RegistryConnectionRecord \<Rightarrow> store \<Rightarrow> error option \<times> store" where
  "SaveRegistryConnection E c s = conflict_as ''registry connection already exists''
     (db_write E (OpSaveRegistryConnection (rg_ID c)) s
       (if \<exists>r\<in>set (t_registries s). rg_ID r \<noteq> rg_ID c \<and> rg_OwnerID r = rg_OwnerID c \<and> rg_Provider r = rg_Provider c \<and>
             rg_Username r = rg_Username c
        then (Some (unique_violation ''registry_connections.owner_id, registry_connections.provider, registry_connections.username''), s)
        else (None, s\<lparr>t_registries := upsert_row rg_ID (\<lambda>new old. new\<lparr>rg_CreatedAt := rg_CreatedAt old\<rparr>)
                (c\<lparr>rg_CreatedAt := db_now E, rg_UpdatedAt := db_now E\<rparr>) (t_registries s)\<rparr>)))"

definition GetRegistryConnection :: "'e dbenv_scheme \<Rightarrow> string \<Rightarrow> store \<Rightarrow> error + RegistryConnectionRecord" where
  "GetRegistryConnection E i s = db_read E (OpGetRegistryConnection i) (find_row ''registry connection'' rg_ID i (t_registries s))"

definition ListRegistryConnections :: "'e dbenv_scheme \<Rightarrow> string \<Rightarrow> store \<Rightarrow> error + RegistryConnectionRecord list" where
  "ListRegistryConnections E owner s = db_read E (OpListRegistryConnections owner)
     (Inr (sort_key (\<lambda>r. - rg_CreatedAt r) (filter (\<lambda>r. rg_OwnerID r = owner) (t_registries s))))"

definition DeleteRegistryConnection :: "'e dbenv_scheme \<Rightarrow> string \<Rightarrow> store \<Rightarrow> error option \<times> store" where
  "DeleteRegistryConnection E i s = db_write E (OpDeleteRegistryConnection i) s
     (let (e, rs) = delete_rows (NotFoundError ''registry connection'' i) (\<lambda>r. rg_ID r = i) (t_registries s)
      in (e, s\<lparr>t_registries := rs\<rparr>))"

section \<open>Tenants, members, policies\<close>

definition CreateTenant :: "'e dbenv_scheme \<Rightarrow> TenantRecord \<Rightarrow> store \<Rightarrow> error option \<times> store" where
  "CreateTenant E t s =
     (let t = (if tn_CreatedAt t = 0 then t\<lparr>tn_CreatedAt := db_now E\<rparr> else t);
          t = t\<lparr>tn_UpdatedAt := db_now E\<rparr>;
          t = (if tn_Settings t = [] then t\<lparr>tn_Settings := ''{}''\<rparr> else t)
      in db_write E (OpCreateTenant (tn_ID t)) s
           (let (e, rs) = insert_row ''tenants.id'' tn_ID t (t_tenants s) in (e, s\<lparr>t_tenants := rs\<rparr>)))"

definition GetTenant :: "'e dbenv_scheme \<Rightarrow> string \<Rightarrow> store \<Rightarrow> error + TenantRecord" where
  "GetTenant E i s = db_read E (OpGetTenant i) (find_row ''tenant'' tn_ID i (t_tenants s))"

definition ListTenants :: "'e dbenv_scheme \<Rightarrow> store \<Rightarrow> error + TenantRecord list" where
  "ListTenants E s = db_read E OpListTenants (Inr (sort_key (\<lambda>r. - tn_CreatedAt r) (t_tenants s)))"

definition UpdateTenant :: "'e dbenv_scheme \<Rightarrow> TenantRecord \<Rightarrow> store \<Rightarrow> error option \<times> store" where
  "UpdateTenant E t s = db_write E (OpUpdateTenant (tn_ID t)) s
     (let (e, rs) = update_rows (NotFoundError ''tenant'' (tn_ID t)) (\<lambda>r. tn_ID r = tn_ID t)
            (\<lambda>r. t\<lparr>tn_CreatedAt := tn_CreatedAt r, tn_UpdatedAt := db_now E\<rparr>) (t_tenants s)
      in (e, s\<lparr>t_tenants := rs\<rparr>))"

definition DeleteTenant :: "'e dbenv_scheme \<Rightarrow> string \<Rightarrow> store \<Rightarrow> error option \<times> store" where
  "DeleteTenant E i s = db_write E (OpDeleteTenant i) s
     (let (e, rs) = delete_rows (NotFoundError ''tenant'' i) (\<lambda>r. tn_ID r = i) (t_tenants s) in (e, s\<lparr>t_tenants := rs\<rparr>))"

definition SaveTenantMember :: "'e dbenv_scheme \<Rightarrow> TenantMemberRecord \<Rightarrow> store \<Rightarrow> error option \<times> store" where
  "SaveTenantMember E m s =
     (let m = (if tm_CreatedAt m = 0 then m\<lparr>tm_CreatedAt := db_now E\<rparr> else m); m = m\<lparr>tm_UpdatedAt := db_now E\<rparr>
      in db_write E (OpSaveTenantMember (tm_TenantID m) (tm_UserID m)) s
           (None, s\<lparr>t_members := upsert_row (\<lambda>r. (tm_TenantID r, tm_UserID r))
              (\<lambda>new old. old\<lparr>tm_Role := tm_Role new, tm_UpdatedAt := tm_UpdatedAt new\<rparr>) m (t_members s)\<rparr>))"

definition GetTenantMember :: "'e dbenv_scheme \<Rightarrow> string \<Rightarrow> string \<Rightarrow> store \<Rightarrow> error + TenantMemberRecord" where
  "GetTenantMember E t u s = db_read E (OpGetTenantMember t u)
     (case row_by (\<lambda>r. (tm_TenantID r, tm_UserID r)) (t, u) (t_members s) of
        None \<Rightarrow> Inl (NotFoundError ''tenant_member'' (t @ ''/'' @ u))
      | Some m \<Rightarrow> Inr m)"

definition ListTenantMembers :: "'e dbenv_scheme \<Rightarrow> string \<Rightarrow> store \<Rightarrow> error + TenantMemberRecord list" where
  "ListTenantMembers E t s = db_read E OpListTenantMembers
     (Inr (sort_key tm_CreatedAt (filter (\<lambda>r. tm_TenantID r = t) (t_members s))))"

definition DeleteTenantMember :: "'e dbenv_scheme \<Rightarrow> string \<Rightarrow> string \<Rightarrow> store \<Rightarrow> error option \<times> store" where
  "DeleteTenantMember E t u s = db_write E (OpDeleteTenantMember t u) s
     (let (e, rs) = delete_rows (NotFoundError ''tenant_member'' (t @ ''/'' @ u)) (\<lambda>r. tm_TenantID r = t \<and> tm_UserID r = u) (t_members s)
      in (e, s\<lparr>t_members := rs\<rparr>))"

definition CreatePolicy :: "'e dbenv_scheme \<Rightarrow> PolicyRecord \<Rightarrow> store \<Rightarrow> error option \<times> store" where
  "CreatePolicy E p s =
     (let p = (if p_CreatedAt p = 0 then p\<lparr>p_CreatedAt := db_now E\<rparr> else p); p = p\<lparr>p_UpdatedAt := db_now E\<rparr>
      in db_write E (OpCreatePolicy (p_ID p)) s
           (let (e, rs) = insert_row ''policies.id'' p_ID p (t_policies s) in (e, s\<lparr>t_policies := rs\<rparr>)))"

definition GetPolicy :: "'e dbenv_scheme \<Rightarrow> string \<Rightarrow> store \<Rightarrow> error + PolicyRecord" where
  "GetPolicy E i s = db_read E (OpGetPolicy i) (find_row ''policy'' p_ID i (t_policies s))"

record PolicyQuery =
  pq_TenantID :: string
  pq_ResourceType :: string

definition policy_in :: "PolicyQuery \<Rightarrow> PolicyRecord \<Rightarrow> bool" where
  "policy_in q p \<longleftrightarrow>
     (if pq_TenantID q \<noteq> [] then p_TenantID p = pq_TenantID q \<or> p_TenantID p = [] else p_TenantID p = []) \<and>
     (pq_ResourceType q \<noteq> [] \<longrightarrow> p_ResourceType p = pq_ResourceType q)"

definition ListPolicies :: "'e dbenv_scheme \<Rightarrow> PolicyQuery \<Rightarrow> store \<Rightarrow> error + PolicyRecord list" where
  "ListPolicies E q s = db_read E OpListPolicies
     (Inr (sort_key p_Priority (sort_key p_CreatedAt (filter (policy_in q) (t_policies s)))))"

definition DeletePolicy :: "'e dbenv_scheme \<Rightarrow> string \<Rightarrow> store \<Rightarrow> error option \<times> store" where
  "DeletePolicy E i s = db_write E (OpDeletePolicy i) s
     (let (e, rs) = delete_rows (NotFoundError ''policy'' i) (\<lambda>r. p_ID r = i) (t_policies s) in (e, s\<lparr>t_policies := rs\<rparr>))"

end
