(* ===== verification/API_Policy.thy ===== *)
theory API_Policy
  imports Store_Admin Auth Manager_State
begin

text \<open>
  Policies on spawn requests (\<open>internal/api/middleware/policy.go\<close>), what a JSON body is to the
  enforcer and to the handler behind it, and \<open>path.Match\<close>.

  A body is its first JSON document, if it starts with one, and whether more text follows.  The
  enforcer reads the whole body into a map (text after the document is an error, keys are
  compared exactly); the handler decodes the first document into a struct (what follows stays
  unread, keys are compared without case).
\<close>

section \<open>JSON bodies\<close>

datatype json = JNull | JBool bool | JNum int | JFraction | JString string | JArray "json list" | JObject "(string \<times> json) list"

record http_body =
  hb_first :: "json option"
  hb_more :: bool

text \<open>\<open>json.Unmarshal\<close> into a map: the last of equal keys counts.\<close>

definition unmarshal_map :: "http_body \<Rightarrow> (string \<times> json) list option" where
  "unmarshal_map b =
     (if hb_more b then None
      else case hb_first b of
        Some (JObject es) \<Rightarrow> Some (rev es)
      | Some JNull \<Rightarrow> Some []
      | _ \<Rightarrow> None)"

definition string_value :: "(string \<times> json) list \<Rightarrow> string \<Rightarrow> string" where
  "string_value es k = (case map_of es k of Some (JString v) \<Rightarrow> v | _ \<Rightarrow> [])"

text \<open>Decoding a spawn request; \<open>None\<close> for a value of the wrong type.\<close>

fun as_string :: "json \<Rightarrow> string \<Rightarrow> string option" where
  "as_string JNull old = Some old"
| "as_string (JString s) old = Some s"
| "as_string _ old = None"

fun as_int :: "json \<Rightarrow> int \<Rightarrow> int option" where
  "as_int JNull old = Some old"
| "as_int (JNum n) old = (if i64 n = n then Some n else None)"
| "as_int _ old = None"

fun add_entries :: "(string \<times> json) list \<Rightarrow> metadata \<Rightarrow> metadata option" where
  "add_entries [] old = Some old"
| "add_entries ((k, v) # es) old =
     (case as_string v [] of None \<Rightarrow> None | Some s \<Rightarrow> add_entries es (al_put k s old))"

fun as_metadata :: "json \<Rightarrow> metadata \<Rightarrow> metadata option" where
  "as_metadata JNull old = Some []"
| "as_metadata (JObject es) old = add_entries es old"
| "as_metadata _ old = None"

definition set_field :: "string \<Rightarrow> json \<Rightarrow> SpawnRequest \<Rightarrow> SpawnRequest option" where
  "set_field k v q =
     (if EqualFold k ''image'' then map_option (\<lambda>x. q\<lparr>rq_Image := x\<rparr>) (as_string v (rq_Image q))
      else if EqualFold k ''provider'' then map_option (\<lambda>x. q\<lparr>rq_Provider := x\<rparr>) (as_string v (rq_Provider q))
      else if EqualFold k ''memory_mb'' then map_option (\<lambda>x. q\<lparr>rq_MemoryMB := x\<rparr>) (as_int v (rq_MemoryMB q))
      else if EqualFold k ''vcpus'' then map_option (\<lambda>x. q\<lparr>rq_VCPUs := x\<rparr>) (as_int v (rq_VCPUs q))
      else if EqualFold k ''ttl'' then map_option (\<lambda>x. q\<lparr>rq_TTL := x\<rparr>) (as_string v (rq_TTL q))
      else if EqualFold k ''template'' then map_option (\<lambda>x. q\<lparr>rq_Template := x\<rparr>) (as_string v (rq_Template q))
      else if EqualFold k ''owner_id'' then map_option (\<lambda>x. q\<lparr>rq_OwnerID := x\<rparr>) (as_string v (rq_OwnerID q))
      else if EqualFold k ''tenant_id'' then map_option (\<lambda>x. q\<lparr>rq_TenantID := x\<rparr>) (as_string v (rq_TenantID q))
      else if EqualFold k ''metadata'' then map_option (\<lambda>x. q\<lparr>rq_Metadata := x\<rparr>) (as_metadata v (rq_Metadata q))
      else Some q)"

definition empty_request :: SpawnRequest where
  "empty_request = \<lparr>rq_Image = [], rq_Provider = [], rq_MemoryMB = 0, rq_VCPUs = 0, rq_TTL = [], rq_Template = [],
     rq_OwnerID = [], rq_TenantID = [], rq_Metadata = []\<rparr>"

fun decode_fields :: "(string \<times> json) list \<Rightarrow> SpawnRequest \<Rightarrow> SpawnRequest option" where
  "decode_fields [] q = Some q"
| "decode_fields ((k, v) # es) q = Option.bind (set_field k v q) (decode_fields es)"

definition decode_spawn :: "http_body \<Rightarrow> SpawnRequest option" where
  "decode_spawn b =
     (case hb_first b of
        Some (JObject es) \<Rightarrow> decode_fields es empty_request
      | Some JNull \<Rightarrow> Some empty_request
      | _ \<Rightarrow> None)"

section \<open>Patterns\<close>

text \<open>
  \<open>filepath.Match\<close> on a system with \<open>/\<close> as separator, for names of single-byte characters; a
  malformed pattern matches nothing.  \<open>match_class\<close> reads the ranges of a bracket up to its end
  and gives the rest of the pattern.
\<close>

fun class_char :: "string \<Rightarrow> (char \<times> string) option" where
  "class_char [] = None"
| "class_char (c # p) =
     (if c = CHR ''-'' \<or> c = CHR '']'' then None
      else if c = CHR 0x5C then (case p of [] \<Rightarrow> None | d # q \<Rightarrow> if q = [] then None else Some (d, q))
      else if p = [] then None else Some (c, p))"

lemma class_char_length: "class_char p = Some (c, q) \<Longrightarrow> length q < length p"
  by (cases p) (auto split: if_splits list.splits)

definition in_range :: "char \<Rightarrow> char \<Rightarrow> char \<Rightarrow> bool" where
  "in_range lo hi c \<longleftrightarrow> (of_char lo :: nat) \<le> of_char c \<and> (of_char c :: nat) \<le> of_char hi"

function match_class :: "char \<Rightarrow> bool \<Rightarrow> bool \<Rightarrow> string \<Rightarrow> (bool \<times> string) option" where
  "match_class r seen hit p =
     (if seen \<and> p \<noteq> [] \<and> hd p = CHR '']'' then Some (hit, tl p)
      else case class_char p of
        None \<Rightarrow> None
      | Some (lo, q) \<Rightarrow>
          if q \<noteq> [] \<and> hd q = CHR ''-'' then
            (case class_char (tl q) of
               None \<Rightarrow> None
             | Some (hi, q') \<Rightarrow> match_class r True (hit \<or> in_range lo hi r) q')
          else match_class r True (hit \<or> in_range lo lo r) q)"
  by pat_completeness auto
termination
proof (relation "measure (\<lambda>(_, _, _, p). length p)")
  fix r seen hit p x lo q y hi q'
  assume "class_char p = Some x" "(lo, q) = x" "q \<noteq> [] \<and> hd q = CHR ''-''" "class_char (tl q) = Some y" "(hi, q') = y"
  then have "length q' < length (tl q)" "length q < length p" by (auto dest: class_char_length)
  then show "((r, True, hit \<or> in_range lo hi r, q'), (r, seen, hit, p)) \<in> measure (\<lambda>(_, _, _, p). length p)" by simp
qed (auto dest: class_char_length)

declare match_class.simps [simp del]

lemma match_class_length: "match_class r seen hit p = Some (b, q) \<Longrightarrow> length q < length p"
proof (induction r seen hit p rule: match_class.induct)
  case (1 r seen hit p)
  show ?case
  proof (cases "seen \<and> p \<noteq> [] \<and> hd p = CHR '']''")
    case True
    then show ?thesis using 1(3) by (cases p) (auto simp: match_class.simps)
  next
    case False
    then obtain lo q1 where c: "class_char p = Some (lo, q1)"
      using 1(3) by (subst (asm) match_class.simps) (auto split: option.splits)
    show ?thesis
    proof (cases "q1 \<noteq> [] \<and> hd q1 = CHR ''-''")
      case True
      then obtain hi q2 where d: "class_char (tl q1) = Some (hi, q2)" "match_class r True (hit \<or> in_range lo hi r) q2 = Some (b, q)"
        using 1(3) False c by (subst (asm) match_class.simps) (auto split: option.splits)
      have "length q < length q2" using 1(1) [OF False c _ True d(1) _ d(2)] by simp
      then show ?thesis using class_char_length [OF c] class_char_length [OF d(1)] by simp
    next
      case nodash: False
      then have "match_class r True (hit \<or> in_range lo lo r) q1 = Some (b, q)"
        using 1(3) False c by (subst (asm) match_class.simps) auto
      then show ?thesis using 1(2) [OF False c _ nodash] class_char_length [OF c] by fastforce
    qed
  qed
qed

text \<open>
  The leading stars and the chunk before the next one (\<open>scanChunk\<close>: a star in a bracket ends no
  chunk), and what a chunk leaves of the name (\<open>matchChunk\<close>).
\<close>

primrec chunk_end :: "bool \<Rightarrow> bool \<Rightarrow> string \<Rightarrow> string \<times> string" where
  "chunk_end escaped inrange [] = ([], [])"
| "chunk_end escaped inrange (c # cs) =
     (if c = CHR ''*'' \<and> \<not> escaped \<and> \<not> inrange then ([], c # cs)
      else apfst ((#) c) (chunk_end (c = CHR 0x5C \<and> \<not> escaped)
             (if escaped then inrange else if c = CHR ''['' then True else if c = CHR '']'' then False else inrange) cs))"

definition scanChunk :: "string \<Rightarrow> bool \<times> string \<times> string" where
  "scanChunk pattern =
     (pattern \<noteq> [] \<and> hd pattern = CHR ''*'', chunk_end False False (dropWhile (\<lambda>c. c = CHR ''*'') pattern))"

function matchChunk :: "string \<Rightarrow> string \<Rightarrow> string option" where
  "matchChunk [] s = Some s"
| "matchChunk (p # ps) s =
     (if s = [] then None
      else if p = CHR ''?'' then (if hd s = slash then None else matchChunk ps (tl s))
      else if p = CHR ''['' then
        (let negated = (ps \<noteq> [] \<and> hd ps = CHR ''^'') in
         case match_class (hd s) False False (if negated then tl ps else ps) of
           None \<Rightarrow> None
         | Some (hit, q) \<Rightarrow> if hit \<noteq> negated then matchChunk q (tl s) else None)
      else if p = CHR 0x5C then (if ps \<noteq> [] \<and> hd ps = hd s then matchChunk (tl ps) (tl s) else None)
      else if p = hd s then matchChunk ps (tl s) else None)"
  by pat_completeness auto
termination
  by (relation "measure (\<lambda>(p, s). length p)") (auto dest!: match_class_length split: if_splits simp: less_Suc_eq_le)

text \<open>
  The first place where a chunk matches: here, or, after a star, further on in the same element of the
  path.  The last chunk has to match to the end.
\<close>

fun seek_chunk :: "bool \<Rightarrow> string \<Rightarrow> bool \<Rightarrow> string \<Rightarrow> string option" where
  "seek_chunk star chunk final [] =
     (case matchChunk chunk [] of Some t \<Rightarrow> if t = [] \<or> \<not> final then Some t else None | None \<Rightarrow> None)"
| "seek_chunk star chunk final (c # cs) =
     (let further = (if star \<and> c \<noteq> slash then seek_chunk star chunk final cs else None) in
      case matchChunk chunk (c # cs) of
        Some t \<Rightarrow> if t = [] \<or> \<not> final then Some t else further
      | None \<Rightarrow> further)"

lemma chunk_end_length: "length (snd (chunk_end x r cs)) \<le> length cs"
  by (induction cs arbitrary: x r) (simp_all add: le_SucI)

lemma chunk_end_shorter: "c \<noteq> CHR ''*'' \<Longrightarrow> length (snd (chunk_end False False (c # cs))) \<le> length cs"
  by (simp add: chunk_end_length)

lemma scanChunk_shorter: "scanChunk p = (star, chunk, rest) \<Longrightarrow> p \<noteq> [] \<Longrightarrow> length rest < length p"
proof -
  assume scan: "scanChunk p = (star, chunk, rest)" and "p \<noteq> []"
  then obtain c cs where p: "p = c # cs" by (cases p) auto
  have rest: "rest = snd (chunk_end False False (dropWhile (\<lambda>c. c = CHR ''*'') p))" using scan by (simp add: scanChunk_def)
  show "length rest < length p"
  proof (cases "c = CHR ''*''")
    case True
    then have "length rest \<le> length (dropWhile (\<lambda>c. c = CHR ''*'') cs)" using rest p chunk_end_length by simp
    then show ?thesis using length_dropWhile_le [of "\<lambda>c. c = CHR ''*''" cs] p by simp
  next
    case False
    then show ?thesis using rest p chunk_end_shorter [OF False, of cs] by simp
  qed
qed

function Match :: "string \<Rightarrow> string \<Rightarrow> bool" where
  "Match pattern name =
     (if pattern = [] then name = []
      else case scanChunk pattern of
        (star, chunk, rest) \<Rightarrow>
          if star \<and> chunk = [] then slash \<notin> set name
          else (case seek_chunk star chunk (rest = []) name of None \<Rightarrow> False | Some t \<Rightarrow> Match rest t))"
  by pat_completeness auto
termination
  by (relation "measure (\<lambda>(p, s). length p)") (auto dest!: scanChunk_shorter [OF sym])

declare Match.simps [simp del]

section \<open>The enforcer\<close>

definition pattern_matches :: "PolicyRecord \<Rightarrow> string \<Rightarrow> bool" where
  "pattern_matches p v \<longleftrightarrow> Match (p_Pattern p) v \<or> p_Pattern p = v \<or> p_Pattern p = ''*''"

fun policyPermits :: "string \<Rightarrow> PolicyRecord list \<Rightarrow> bool" where
  "policyPermits v [] = True"
| "policyPermits v (p # ps) =
     (if pattern_matches p v then
        (if p_Effect p = ''deny'' then False else if p_Effect p = ''allow'' then True else policyPermits v ps)
      else policyPermits v ps)"

definition policy_checks :: "(string \<times> string) list" where
  "policy_checks = [(''image'', ''image''), (''provider'', ''provider''), (''network_mode'', ''network'')]"

definition policy_check :: "'e dbenv_scheme \<Rightarrow> store \<Rightarrow> string \<Rightarrow> (string \<times> json) list \<Rightarrow> string \<times> string \<Rightarrow> bool" where
  "policy_check E st tenant body c =
     (let v = string_value body (fst c) in
      if v = [] then True
      else case ListPolicies E \<lparr>pq_TenantID = tenant, pq_ResourceType = snd c\<rparr> st of
        Inl err \<Rightarrow> True
      | Inr policies \<Rightarrow> policies = [] \<or> policyPermits v policies)"

definition PolicyEnforcer :: "'e dbenv_scheme \<Rightarrow> store \<Rightarrow> http_body \<Rightarrow> AuthIdentity \<Rightarrow> outcome" where
  "PolicyEnforcer E st b i =
     (case unmarshal_map b of
        None \<Rightarrow> Next i
      | Some body \<Rightarrow>
          if list_all (policy_check E st (ai_TenantID i) body) policy_checks then Next i else Reject StatusForbidden)"

section \<open>What policies decide\<close>

definition policy_applies :: "PolicyRecord \<Rightarrow> string \<Rightarrow> string \<Rightarrow> string \<Rightarrow> bool" where
  "policy_applies p tenant kind v \<longleftrightarrow>
     (p_TenantID p = [] \<or> p_TenantID p = tenant) \<and> p_ResourceType p = kind \<and> pattern_matches p v"

definition ranked_before :: "PolicyRecord \<Rightarrow> PolicyRecord \<Rightarrow> bool" where
  "ranked_before p q \<longleftrightarrow> p_Priority p < p_Priority q \<or> p_Priority p = p_Priority q \<and> p_CreatedAt p \<le> p_CreatedAt q"

lemma ranked_sort:
  assumes "sort_key p_Priority (sort_key p_CreatedAt xs) = us @ p # vs" "q \<in> set (p # vs)"
  shows "ranked_before p q"
proof (cases "p_Priority p = p_Priority q")
  case True
  let ?P = "\<lambda>y. p_Priority y = p_Priority p"
  have "filter ?P (us @ p # vs) = filter ?P (sort_key p_CreatedAt xs)"
    by (simp flip: assms(1) add: sort_key_stable)
  then have "sorted (map p_CreatedAt (filter ?P us @ p # filter ?P vs))"
    by (simp add: sorted_filter)
  moreover have "q \<in> set (p # filter ?P vs)" using assms(2) True by auto
  ultimately show ?thesis using True by (auto simp: ranked_before_def sorted_append)
next
  case False
  have "sorted (map p_Priority (us @ p # vs))" by (simp flip: assms(1))
  then show ?thesis using assms(2) False by (fastforce simp: ranked_before_def sorted_append)
qed

lemma policyPermits_split:
  assumes "policyPermits v ps" "q \<in> set ps" "pattern_matches q v" "p_Effect q = ''deny''"
  shows "\<exists>us p vs. ps = us @ p # vs \<and> pattern_matches p v \<and> p_Effect p = ''allow'' \<and> q \<in> set vs"
  using assms
proof (induction ps)
  case (Cons a ps)
  show ?case
  proof (cases "pattern_matches a v \<and> p_Effect a = ''allow''")
    case True
    then show ?thesis using Cons.prems by (intro exI [of _ "[]"]) auto
  next
    case False
    then have "policyPermits v ps" "q \<in> set ps" using Cons.prems by (auto split: if_splits)
    then obtain us p vs where "ps = us @ p # vs \<and> pattern_matches p v \<and> p_Effect p = ''allow'' \<and> q \<in> set vs"
      using Cons by blast
    then show ?thesis by (intro exI [of _ "a # us"]) auto
  qed
qed simp

lemma policyPermits_denied:
  "\<not> policyPermits v ps \<Longrightarrow> \<exists>q\<in>set ps. pattern_matches q v \<and> p_Effect q = ''deny''"
  by (induction ps) (auto split: if_splits)

text \<open>The values a body names that policies are about.\<close>

definition names :: "(string \<times> json) list \<Rightarrow> string \<Rightarrow> string \<Rightarrow> bool" where
  "names body kind v \<longleftrightarrow> (\<exists>key. (key, kind) \<in> set policy_checks \<and> string_value body key = v \<and> v \<noteq> [])"

lemma allow_outranks:
  assumes "policy_check E st tenant body (key, kind)" "kind \<noteq> []" "string_value body key = v" "v \<noteq> []"
    and "db_fail E OpListPolicies = None"
    and "q \<in> set (t_policies st)" "policy_applies q tenant kind v" "p_Effect q = ''deny''"
  shows "\<exists>p\<in>set (t_policies st). policy_applies p tenant kind v \<and> p_Effect p = ''allow'' \<and> ranked_before p q"
proof -
  let ?Q = "\<lparr>pq_TenantID = tenant, pq_ResourceType = kind\<rparr>"
  let ?ps = "sort_key p_Priority (sort_key p_CreatedAt (filter (policy_in ?Q) (t_policies st)))"
  have "q \<in> set ?ps" using assms(2,6,7) by (auto simp: policy_in_def policy_applies_def)
  moreover have "policyPermits v ?ps"
    using assms(1,3-5) calculation
    by (fastforce simp: policy_check_def ListPolicies_def db_read_def split: if_splits)
  ultimately obtain us p vs where p: "?ps = us @ p # vs" "pattern_matches p v" "p_Effect p = ''allow''" "q \<in> set vs"
    using policyPermits_split [of v ?ps q] assms(7,8) by (auto simp: policy_applies_def)
  have "p \<in> set ?ps" by (simp only: p(1)) simp
  then have "p \<in> set (t_policies st)" "policy_in ?Q p" by auto
  then have "policy_applies p tenant kind v"
    using p(2) assms(2) by (auto simp: policy_in_def policy_applies_def split: if_splits)
  then show ?thesis
    using p ranked_sort [OF p(1), of q] \<open>p \<in> set (t_policies st)\<close> by auto
qed

text \<open>
  C35. What the enforcer does with a request whose body is one JSON object, and nothing behind it, and
  whose policies the database lists.  It lets the request through only if every policy for the tenant
  (or for all) that denies the image, provider or network named under exactly the key \<open>image\<close>,
  \<open>provider\<close> or \<open>network_mode\<close> is outranked by a policy of the same kind that allows it:
  by priority, then by age.  It refuses with 403, and only if a policy for the tenant denies what the
  request names.  In the other cases, a body that does not unmarshal or a list that fails, it lets
  everything through.
\<close>

theorem policy_enforced:
  "case unmarshal_map b of
     None \<Rightarrow> PolicyEnforcer E st b i = Next i
   | Some body \<Rightarrow>
       if db_fail E OpListPolicies \<noteq> None then PolicyEnforcer E st b i = Next i
       else case PolicyEnforcer E st b i of
         Next i' \<Rightarrow> i' = i \<and>
           (\<forall>kind v. \<forall>q\<in>set (t_policies st).
              names body kind v \<and> policy_applies q (ai_TenantID i) kind v \<and> p_Effect q = ''deny'' \<longrightarrow>
              (\<exists>p\<in>set (t_policies st). policy_applies p (ai_TenantID i) kind v \<and> p_Effect p = ''allow'' \<and> ranked_before p q))
       | Reject c \<Rightarrow> c = 403 \<and>
           (\<exists>kind v. \<exists>q\<in>set (t_policies st).
              names body kind v \<and> policy_applies q (ai_TenantID i) kind v \<and> p_Effect q = ''deny'')"
proof (cases "unmarshal_map b")
  case None
  then show ?thesis by (simp add: PolicyEnforcer_def)
next
  case (Some body)
  show ?thesis
  proof (cases "db_fail E OpListPolicies")
    case fail: (Some e)
    then show ?thesis
      using Some by (auto simp: PolicyEnforcer_def list_all_iff policy_check_def ListPolicies_def db_read_def)
  next
    case up: None
    show ?thesis
    proof (cases "list_all (policy_check E st (ai_TenantID i) body) policy_checks")
      case True
      have "\<exists>p\<in>set (t_policies st). policy_applies p (ai_TenantID i) kind v \<and> p_Effect p = ''allow'' \<and> ranked_before p q"
        if q: "q \<in> set (t_policies st)" "names body kind v" "policy_applies q (ai_TenantID i) kind v" "p_Effect q = ''deny''"
        for kind v q
      proof -
        obtain key where k: "(key, kind) \<in> set policy_checks" "string_value body key = v" "v \<noteq> []"
          using q(2) by (auto simp: names_def)
        have "kind \<noteq> []" using k(1) by (auto simp: policy_checks_def)
        moreover have "policy_check E st (ai_TenantID i) body (key, kind)" using True k(1) by (auto simp: list_all_iff)
        ultimately show ?thesis using allow_outranks [OF _ _ k(2,3) up q(1,3,4)] by blast
      qed
      then show ?thesis using True Some up by (simp add: PolicyEnforcer_def)
    next
      case False
      then obtain key kind where k: "(key, kind) \<in> set policy_checks" "\<not> policy_check E st (ai_TenantID i) body (key, kind)"
        by (auto simp: list_all_iff)
      then have kind: "kind \<noteq> []" by (auto simp: policy_checks_def)
      let ?Q = "\<lparr>pq_TenantID = ai_TenantID i, pq_ResourceType = kind\<rparr>"
      let ?ps = "sort_key p_Priority (sort_key p_CreatedAt (filter (policy_in ?Q) (t_policies st)))"
      have v: "string_value body key \<noteq> []" "\<not> policyPermits (string_value body key) ?ps"
        using k(2) up by (auto simp: policy_check_def ListPolicies_def db_read_def split: if_splits)
      then obtain q where "q \<in> set ?ps" "pattern_matches q (string_value body key)" "p_Effect q = ''deny''"
        using policyPermits_denied by blast
      then have "q \<in> set (t_policies st)" "policy_applies q (ai_TenantID i) kind (string_value body key)" "p_Effect q = ''deny''"
        using kind by (auto simp: policy_in_def policy_applies_def split: if_splits)
      moreover have "names body kind (string_value body key)" using k(1) v(1) by (auto simp: names_def)
      ultimately show ?thesis using False Some up by (auto simp: PolicyEnforcer_def)
    qed
  qed
qed

definition sample_policy :: "string \<Rightarrow> string \<Rightarrow> int \<Rightarrow> PolicyRecord" where
  "sample_policy effect pattern n = \<lparr>p_ID = pattern, p_TenantID = [], p_ResourceType = ''image'', p_Effect = effect, p_Pattern = pattern,
     p_Priority = n, p_CreatedAt = 1, p_UpdatedAt = 1\<rparr>"

definition sample_policies :: store where
  "sample_policies = empty_store\<lparr>t_policies := [sample_policy ''deny'' ''*'' 20, sample_policy ''allow'' ''alpine:*'' 10]\<rparr>"

theorem policy_enforced_witness:
  "\<exists>p\<in>set (t_policies sample_policies). policy_applies p [] ''image'' ''alpine:3'' \<and> p_Effect p = ''allow'' \<and>
     ranked_before p (sample_policy ''deny'' ''*'' 20)"
proof -
  let ?b = "\<lparr>hb_first = Some (JObject [(''image'', JString ''alpine:3'')]), hb_more = False\<rparr>"
  have 1: "unmarshal_map ?b = Some [(''image'', JString ''alpine:3'')]" "(''image'', ''image'') \<in> set policy_checks"
    "string_value [(''image'', JString ''alpine:3'')] ''image'' = ''alpine:3''" "''alpine:3'' \<noteq> []"
    "db_fail (db_up 5) OpListPolicies = None"
    by (simp_all add: unmarshal_map_def policy_checks_def string_value_def db_up_def)
  have 2: "PolicyEnforcer (db_up 5) sample_policies ?b no_identity = Next no_identity" by code_simp
  have 3: "sample_policy ''deny'' ''*'' 20 \<in> set (t_policies sample_policies)" by (simp add: sample_policies_def)
  have 4: "policy_applies (sample_policy ''deny'' ''*'' 20) (ai_TenantID no_identity) ''image'' ''alpine:3''"
    "p_Effect (sample_policy ''deny'' ''*'' 20) = ''deny''" "ai_TenantID no_identity = []" by code_simp+
  have 5: "names [(''image'', JString ''alpine:3'')] ''image'' ''alpine:3''" using 1(2-4) by (auto simp: names_def)
  show ?thesis using policy_enforced [where b = ?b and E = "db_up 5" and st = sample_policies and i = no_identity] 1(1,5) 2 3 4 5 by auto
qed

text \<open>
  Policies can be walked around: whatever policies there are, a body that names its image under
  a key in other letters, or that is followed by more text, passes the enforcer unchecked, and the
  handler behind it decodes the image just the same.
\<close>

theorem policy_bypass:
  "PolicyEnforcer E st \<lparr>hb_first = Some (JObject [(''Image'', JString img)]), hb_more = False\<rparr> i = Next i \<and>
   decode_spawn \<lparr>hb_first = Some (JObject [(''Image'', JString img)]), hb_more = False\<rparr> = Some (empty_request\<lparr>rq_Image := img\<rparr>) \<and>
   PolicyEnforcer E st \<lparr>hb_first = Some (JObject [(''image'', JString img)]), hb_more = True\<rparr> i = Next i \<and>
   decode_spawn \<lparr>hb_first = Some (JObject [(''image'', JString img)]), hb_more = True\<rparr> = Some (empty_request\<lparr>rq_Image := img\<rparr>)"
proof -
  have fold: "EqualFold ''Image'' ''image''" by code_simp
  show ?thesis
    by (simp add: PolicyEnforcer_def unmarshal_map_def policy_check_def policy_checks_def string_value_def decode_spawn_def set_field_def fold)
qed

end
