(* ===== verification/API_Sandboxes.thy ===== *)
theory API_Sandboxes
  imports API_Policy Exec_Files
begin

text \<open>
  The sandbox routes of the HTTP API (\<open>internal/api/routes/sandboxes.go\<close>, \<open>errors.go\<close>).

  A handler takes the caller's identity, what it reads of the request and the manager, and gives
  the reply with the manager afterwards.  A decoded body is \<open>None\<close> when it does not decode.
\<close>

section \<open>Replies\<close>

datatype reply_body =
    BError string string
  | BSandbox Sandbox
  | BSandboxes "Sandbox list"
  | BDecision SpawnAdmissionDecision
  | BResult ExecResult
  | BChunks "chunk list"
  | BFrames "chunk list" "string"
  | BStatus string
  | BBytes string
  | BFiles "FileInfo list"
  | BFile FileInfo
  | BStrings "string list"
  | BPruned int
  | BPool "VMPoolStatus option"
  | BStats "SandboxStats option"

type_synonym reply = "nat \<times> reply_body"

definition WriteError :: "nat \<Rightarrow> string \<Rightarrow> string \<Rightarrow> reply" where
  "WriteError status code msg = (status, BError code msg)"

definition writeRouteError :: "error \<Rightarrow> reply" where
  "writeRouteError err =
     (let k = err_kind err; msg = err_msg err in
      if k = ErrInvalidInput then WriteError 400 ''BAD_REQUEST'' msg
      else if k = ErrSandboxNotFound \<or> k = ErrSandboxDestroyed \<or> k = ErrProviderNotFound \<or> k = ErrNotFound
      then WriteError 404 ''NOT_FOUND'' msg
      else if k = ErrConflict then WriteError 409 ''CONFLICT'' msg
      else if k = ErrExecTimeout then WriteError 408 ''TIMEOUT'' msg
      else if k = ErrResourceLimit then WriteError 429 ''RESOURCE_LIMIT'' msg
      else if k = ErrProviderUnavailable then WriteError 503 ''UNAVAILABLE'' msg
      else WriteError 500 ''INTERNAL_ERROR'' msg)"

abbreviation bad_body :: reply where "bad_body \<equiv> WriteError 400 ''BAD_REQUEST'' ''invalid request body''"
abbreviation not_yours :: reply where "not_yours \<equiv> WriteError 404 ''NOT_FOUND'' ''sandbox not found''"

text \<open>The reply to a manager operation.\<close>

definition answer :: "nat \<Rightarrow> ('a \<Rightarrow> reply_body) \<Rightarrow> (error + 'a) \<times> mgr \<Rightarrow> reply \<times> mgr" where
  "answer status f r = (case fst r of Inl err \<Rightarrow> writeRouteError err | Inr x \<Rightarrow> (status, f x), snd r)"

section \<open>Collection routes\<close>

text \<open>The owner is the one the header names, or else the subject; the tenant is the caller's.\<close>

definition create_request :: "AuthIdentity \<Rightarrow> headers \<Rightarrow> SpawnRequest \<Rightarrow> SpawnRequest" where
  "create_request i h req =
     (let user = h ''X-User-ID'';
          req = (if user \<noteq> [] then req\<lparr>rq_OwnerID := user\<rparr>
                 else if ai_Subject i \<noteq> [] \<and> rq_OwnerID req = [] then req\<lparr>rq_OwnerID := ai_Subject i\<rparr> else req)
      in req\<lparr>rq_TenantID := ai_TenantID i\<rparr>)"

definition route_Create ::
  "env \<Rightarrow> admission_round list \<Rightarrow> AuthIdentity \<Rightarrow> headers \<Rightarrow> http_body \<Rightarrow> mgr \<Rightarrow> reply option \<times> mgr" where
  "route_Create E rounds i h b m =
     (case decode_spawn b of
        None \<Rightarrow> (Some bad_body, m)
      | Some req \<Rightarrow>
          (case Spawn E rounds (create_request i h req) m of
             (None, m) \<Rightarrow> (None, m)
           | (Some (Inl err), m) \<Rightarrow> (Some (writeRouteError err), m)
           | (Some (Inr sb), m) \<Rightarrow> (Some (201, BSandbox sb), m)))"

definition route_Admission :: "env \<Rightarrow> headers \<Rightarrow> http_body \<Rightarrow> mgr \<Rightarrow> reply \<times> mgr" where
  "route_Admission E h b m =
     (case decode_spawn b of
        None \<Rightarrow> (bad_body, m)
      | Some req \<Rightarrow>
          (let user = h ''X-User-ID''; req = (if user \<noteq> [] then req\<lparr>rq_OwnerID := user\<rparr> else req)
           in answer 200 BDecision (EvaluateSpawnRequestAdmission E req m, m)))"

definition route_List :: "env \<Rightarrow> AuthIdentity \<Rightarrow> mgr \<Rightarrow> reply" where
  "route_List E i m =
     (case Manager_List E m of
        Inl err \<Rightarrow> WriteError 500 ''INTERNAL_ERROR'' (err_msg err)
      | Inr sbs \<Rightarrow> (200, BSandboxes (if ai_TenantID i \<noteq> [] then filter (\<lambda>sb. sb_TenantID sb = ai_TenantID i) sbs else sbs)))"

definition route_Prune :: "env \<Rightarrow> mgr \<Rightarrow> reply \<times> mgr" where
  "route_Prune E m =
     (let (r, m) = Prune E m
      in (case r of Inl err \<Rightarrow> WriteError 500 ''INTERNAL_ERROR'' (err_msg err) | Inr n \<Rightarrow> (200, BPruned n), m))"

definition route_VMPoolStatus :: "mgr \<Rightarrow> reply" where
  "route_VMPoolStatus m = (200, BPool (getVMPoolStatus m))"

section \<open>One sandbox\<close>

definition route_Get :: "env \<Rightarrow> AuthIdentity \<Rightarrow> string \<Rightarrow> mgr \<Rightarrow> reply \<times> mgr" where
  "route_Get E i sid m =
     (case Get E sid m of
        (Inl err, m) \<Rightarrow> (writeRouteError err, m)
      | (Inr sb, m) \<Rightarrow>
          if ai_TenantID i \<noteq> [] \<and> sb_TenantID sb \<noteq> ai_TenantID i then (not_yours, m) else ((200, BSandbox sb), m))"

text \<open>The refusal, if the caller's tenant is not the sandbox's.  It looks the sandbox up.\<close>

definition checkTenantAccess :: "env \<Rightarrow> AuthIdentity \<Rightarrow> string \<Rightarrow> mgr \<Rightarrow> reply option \<times> mgr" where
  "checkTenantAccess E i sid m =
     (if ai_TenantID i = [] then (None, m)
      else case Get E sid m of
        (Inl err, m) \<Rightarrow> (Some (writeRouteError err), m)
      | (Inr sb, m) \<Rightarrow> (if sb_TenantID sb \<noteq> ai_TenantID i then Some not_yours else None, m))"

text \<open>What every route below starts with.\<close>

definition for_tenant :: "env \<Rightarrow> AuthIdentity \<Rightarrow> string \<Rightarrow> (mgr \<Rightarrow> reply \<times> mgr) \<Rightarrow> mgr \<Rightarrow> reply \<times> mgr" where
  "for_tenant E i sid f m =
     (case checkTenantAccess E i sid m of (Some refused, m) \<Rightarrow> (refused, m) | (None, m) \<Rightarrow> f m)"

definition route_Destroy :: "env \<Rightarrow> AuthIdentity \<Rightarrow> string \<Rightarrow> mgr \<Rightarrow> reply \<times> mgr" where
  "route_Destroy E i sid = for_tenant E i sid (\<lambda>m.
     let (r, m) = Destroy E sid m in (case r of Some err \<Rightarrow> writeRouteError err | None \<Rightarrow> (200, BStatus ''destroyed''), m))"

definition route_Extend :: "env \<Rightarrow> AuthIdentity \<Rightarrow> string \<Rightarrow> string option \<Rightarrow> mgr \<Rightarrow> reply \<times> mgr" where
  "route_Extend E i sid body = for_tenant E i sid (\<lambda>m.
     case body of
       None \<Rightarrow> (bad_body, m)
     | Some ttl \<Rightarrow>
         if ttl = [] then (WriteError 400 ''BAD_REQUEST'' ''ttl is required'', m)
         else case ParseDuration ttl of
           Inl err \<Rightarrow> (WriteError 400 ''BAD_REQUEST'' (''invalid ttl format: '' @ err_msg err), m)
         | Inr d \<Rightarrow>
             if d \<le> 0 then (WriteError 400 ''BAD_REQUEST'' ''ttl must be positive'', m)
             else answer 200 BSandbox (ExtendTTL E sid d m))"

definition route_Exec ::
  "env \<Rightarrow> AuthIdentity \<Rightarrow> string \<Rightarrow> (ExecRequest \<times> bool) option \<Rightarrow> stream_schedule \<Rightarrow> mgr \<Rightarrow> reply \<times> mgr" where
  "route_Exec E i sid body S = for_tenant E i sid (\<lambda>m.
     case body of
       None \<Rightarrow> (bad_body, m)
     | Some (req, stream) \<Rightarrow>
         if stream then answer 200 BChunks (ExecStream E sid req S m) else answer 200 BResult (Exec E sid req m))"

text \<open>Over a web socket: the chunks and a last frame, which says done or the error.\<close>

definition route_ExecWebSocket ::
  "env \<Rightarrow> AuthIdentity \<Rightarrow> string \<Rightarrow> ExecRequest option \<Rightarrow> stream_schedule \<Rightarrow> mgr \<Rightarrow> reply \<times> mgr" where
  "route_ExecWebSocket E i sid body S = for_tenant E i sid (\<lambda>m.
     case body of
       None \<Rightarrow> ((101, BFrames [] ''invalid request''), m)
     | Some req \<Rightarrow>
         (let (r, m) = ExecStream E sid req S m
          in ((101, case r of Inl err \<Rightarrow> BFrames [] (err_msg err) | Inr cs \<Rightarrow> BFrames cs ''done''), m)))"

definition route_WriteFile :: "env \<Rightarrow> AuthIdentity \<Rightarrow> string \<Rightarrow> FileWriteRequest option \<Rightarrow> mgr \<Rightarrow> reply \<times> mgr" where
  "route_WriteFile E i sid body = for_tenant E i sid (\<lambda>m.
     case body of None \<Rightarrow> (bad_body, m) | Some req \<Rightarrow> answer 200 (\<lambda>_. BStatus ''written'') (WriteFile E sid req m))"

abbreviation no_param :: "string \<Rightarrow> reply" where
  "no_param p \<equiv> WriteError 400 ''BAD_REQUEST'' (p @ '' query parameter required'')"

definition route_ReadFile :: "env \<Rightarrow> AuthIdentity \<Rightarrow> string \<Rightarrow> (string \<Rightarrow> string) \<Rightarrow> mgr \<Rightarrow> reply \<times> mgr" where
  "route_ReadFile E i sid query = for_tenant E i sid (\<lambda>m.
     if query ''path'' = [] then (no_param ''path'', m) else answer 200 BBytes (ReadFile E sid (query ''path'') m))"

definition route_ListFiles :: "env \<Rightarrow> AuthIdentity \<Rightarrow> string \<Rightarrow> (string \<Rightarrow> string) \<Rightarrow> mgr \<Rightarrow> reply \<times> mgr" where
  "route_ListFiles E i sid query = for_tenant E i sid (\<lambda>m.
     answer 200 BFiles (ListFiles E sid (if query ''path'' = [] then ''/'' else query ''path'') m))"

definition route_DeleteFile :: "env \<Rightarrow> AuthIdentity \<Rightarrow> string \<Rightarrow> (string \<Rightarrow> string) \<Rightarrow> mgr \<Rightarrow> reply \<times> mgr" where
  "route_DeleteFile E i sid query = for_tenant E i sid (\<lambda>m.
     if query ''path'' = [] then (no_param ''path'', m)
     else answer 200 (\<lambda>_. BStatus ''deleted'')
            (DeleteFile E sid \<lparr>fd_Path = query ''path'', fd_Recursive = (query ''recursive'' = ''true'')\<rparr> m))"

definition route_MoveFile :: "env \<Rightarrow> AuthIdentity \<Rightarrow> string \<Rightarrow> FileMoveRequest option \<Rightarrow> mgr \<Rightarrow> reply \<times> mgr" where
  "route_MoveFile E i sid body = for_tenant E i sid (\<lambda>m.
     case body of None \<Rightarrow> (bad_body, m) | Some req \<Rightarrow> answer 200 (\<lambda>_. BStatus ''moved'') (MoveFile E sid req m))"

definition route_ChmodFile :: "env \<Rightarrow> AuthIdentity \<Rightarrow> string \<Rightarrow> FileChmodRequest option \<Rightarrow> mgr \<Rightarrow> reply \<times> mgr" where
  "route_ChmodFile E i sid body = for_tenant E i sid (\<lambda>m.
     case body of None \<Rightarrow> (bad_body, m) | Some req \<Rightarrow> answer 200 (\<lambda>_. BStatus ''chmod applied'') (ChmodFile E sid req m))"

definition route_StatFile :: "env \<Rightarrow> AuthIdentity \<Rightarrow> string \<Rightarrow> (string \<Rightarrow> string) \<Rightarrow> mgr \<Rightarrow> reply \<times> mgr" where
  "route_StatFile E i sid query = for_tenant E i sid (\<lambda>m.
     if query ''path'' = [] then (no_param ''path'', m) else answer 200 BFile (StatFile E sid (query ''path'') m))"

definition route_GlobFiles :: "env \<Rightarrow> AuthIdentity \<Rightarrow> string \<Rightarrow> (string \<Rightarrow> string) \<Rightarrow> mgr \<Rightarrow> reply \<times> mgr" where
  "route_GlobFiles E i sid query = for_tenant E i sid (\<lambda>m.
     if query ''pattern'' = [] then (no_param ''pattern'', m) else answer 200 BStrings (GlobFiles E sid (query ''pattern'') m))"

text \<open>\<open>strconv.Atoi\<close>.\<close>

fun digits_value :: "nat \<Rightarrow> string \<Rightarrow> nat option" where
  "digits_value n [] = Some n"
| "digits_value n (c # cs) =
     (if 48 \<le> (of_char c :: nat) \<and> (of_char c :: nat) \<le> 57 then digits_value (10 * n + (of_char c - 48)) cs else None)"

definition Atoi :: "string \<Rightarrow> int option" where
  "Atoi s =
     (let neg = (s \<noteq> [] \<and> hd s = CHR ''-''); ds = (if s \<noteq> [] \<and> (hd s = CHR ''-'' \<or> hd s = CHR ''+'') then tl s else s) in
      if ds = [] then None
      else case digits_value 0 ds of
        None \<Rightarrow> None
      | Some n \<Rightarrow> (let v = (if neg then - int n else int n) in if i64 v = v then Some v else None))"

definition route_ConsoleLog :: "env \<Rightarrow> AuthIdentity \<Rightarrow> string \<Rightarrow> (string \<Rightarrow> string) \<Rightarrow> mgr \<Rightarrow> reply \<times> mgr" where
  "route_ConsoleLog E i sid query = for_tenant E i sid (\<lambda>m.
     let lines = (case Atoi (query ''lines'') of Some n \<Rightarrow> if n > 0 then n else 100 | None \<Rightarrow> 100)
     in answer 200 BStrings (ConsoleLog E sid lines m))"

text \<open>The reply of a sandbox without statistics says that they are not supported.\<close>

definition route_Stats :: "env \<Rightarrow> AuthIdentity \<Rightarrow> string \<Rightarrow> mgr \<Rightarrow> reply \<times> mgr" where
  "route_Stats E i sid = for_tenant E i sid (\<lambda>m. answer 200 BStats (Manager_Stats E sid m))"

section \<open>The router\<close>

text \<open>A request to one sandbox, and the scope its route asks for.\<close>

datatype sandbox_request =
    SGet | SReadFile "string \<Rightarrow> string" | SListFiles "string \<Rightarrow> string" | SStatFile "string \<Rightarrow> string"
  | SGlobFiles "string \<Rightarrow> string" | SConsoleLog "string \<Rightarrow> string" | SStats
  | SDestroy | SExtend "string option" | SExec "(ExecRequest \<times> bool) option" stream_schedule
  | SExecWebSocket "ExecRequest option" stream_schedule | SWriteFile "FileWriteRequest option"
  | SDeleteFile "string \<Rightarrow> string" | SMoveFile "FileMoveRequest option" | SChmodFile "FileChmodRequest option"

fun route_scope :: "sandbox_request \<Rightarrow> string" where
  "route_scope SGet = ScopeRead"
| "route_scope (SReadFile _) = ScopeRead"
| "route_scope (SListFiles _) = ScopeRead"
| "route_scope (SStatFile _) = ScopeRead"
| "route_scope (SGlobFiles _) = ScopeRead"
| "route_scope (SConsoleLog _) = ScopeRead"
| "route_scope SStats = ScopeRead"
| "route_scope _ = ScopeAPI"

fun sandbox_handler :: "env \<Rightarrow> AuthIdentity \<Rightarrow> string \<Rightarrow> sandbox_request \<Rightarrow> mgr \<Rightarrow> reply \<times> mgr" where
  "sandbox_handler E i sid SGet = route_Get E i sid"
| "sandbox_handler E i sid (SReadFile q) = route_ReadFile E i sid q"
| "sandbox_handler E i sid (SListFiles q) = route_ListFiles E i sid q"
| "sandbox_handler E i sid (SStatFile q) = route_StatFile E i sid q"
| "sandbox_handler E i sid (SGlobFiles q) = route_GlobFiles E i sid q"
| "sandbox_handler E i sid (SConsoleLog q) = route_ConsoleLog E i sid q"
| "sandbox_handler E i sid SStats = route_Stats E i sid"
| "sandbox_handler E i sid SDestroy = route_Destroy E i sid"
| "sandbox_handler E i sid (SExtend b) = route_Extend E i sid b"
| "sandbox_handler E i sid (SExec b S) = route_Exec E i sid b S"
| "sandbox_handler E i sid (SExecWebSocket b S) = route_ExecWebSocket E i sid b S"
| "sandbox_handler E i sid (SWriteFile b) = route_WriteFile E i sid b"
| "sandbox_handler E i sid (SDeleteFile q) = route_DeleteFile E i sid q"
| "sandbox_handler E i sid (SMoveFile b) = route_MoveFile E i sid b"
| "sandbox_handler E i sid (SChmodFile b) = route_ChmodFile E i sid b"

definition optionalScope :: "bool \<Rightarrow> string \<Rightarrow> AuthIdentity \<Rightarrow> outcome" where
  "optionalScope enforce scope i = (if enforce then RequireScope scope i else Next i)"

text \<open>
  \<open>RoutesWithScopeEnforcement\<close>: the routes of one sandbox, and the two collection routes that
  change state.  The text of a middleware's refusal is left out.
\<close>

definition serve_sandbox :: "bool \<Rightarrow> env \<Rightarrow> AuthIdentity \<Rightarrow> string \<Rightarrow> sandbox_request \<Rightarrow> mgr \<Rightarrow> reply \<times> mgr" where
  "serve_sandbox enforce E i sid r m =
     (case optionalScope enforce (route_scope r) i of
        Reject c \<Rightarrow> (WriteError c ''FORBIDDEN'' [], m)
      | Next i \<Rightarrow> sandbox_handler E i sid r m)"

definition serve_create ::
  "bool \<Rightarrow> env \<Rightarrow> admission_round list \<Rightarrow> AuthIdentity \<Rightarrow> headers \<Rightarrow> http_body \<Rightarrow> mgr \<Rightarrow> reply option \<times> mgr" where
  "serve_create enforce E rounds i h b m =
     (case and_then (optionalScope enforce ScopeAPI i) (PolicyEnforcer E (m_store m) b) of
        Reject c \<Rightarrow> (Some (WriteError c ''FORBIDDEN'' []), m)
      | Next i \<Rightarrow> route_Create E rounds i h b m)"

definition serve_prune :: "bool \<Rightarrow> env \<Rightarrow> AuthIdentity \<Rightarrow> mgr \<Rightarrow> reply \<times> mgr" where
  "serve_prune enforce E i m =
     (case optionalScope enforce ScopeAPI i of
        Reject c \<Rightarrow> (WriteError c ''FORBIDDEN'' [], m)
      | Next i \<Rightarrow> route_Prune E m)"

end
