(* ===== verification/API_Laws.thy ===== *)
theory API_Laws
  imports API_Sandboxes Exec_Files_Laws Lifecycle_Laws Sample
begin

text \<open>
  What the sandbox routes guarantee to callers: tenants stay apart, viewers only look, and where
  the stamp of a sandbox's tenant gets lost.
\<close>

section \<open>Tenants\<close>

lemma for_tenant_same:
  "Get E sid m = (Inr sb, m1) \<Longrightarrow> ai_TenantID i \<noteq> [] \<Longrightarrow> sb_TenantID sb = ai_TenantID i \<Longrightarrow> for_tenant E i sid f m = f m1"
  by (simp add: for_tenant_def checkTenantAccess_def)

lemma for_tenant_other:
  "Get E sid m = (Inr sb, m1) \<Longrightarrow> ai_TenantID i \<noteq> [] \<Longrightarrow> sb_TenantID sb \<noteq> ai_TenantID i \<Longrightarrow> for_tenant E i sid f m = (not_yours, m1)"
  by (simp add: for_tenant_def checkTenantAccess_def)

lemma for_tenant_missing:
  "Get E sid m = (Inl err, m1) \<Longrightarrow> ai_TenantID i \<noteq> [] \<Longrightarrow> for_tenant E i sid f m = (writeRouteError err, m1)"
  by (simp add: for_tenant_def checkTenantAccess_def)

lemmas sandbox_routes = route_ReadFile_def route_ListFiles_def route_StatFile_def route_GlobFiles_def route_ConsoleLog_def
  route_Destroy_def route_Extend_def route_Exec_def route_ExecWebSocket_def route_WriteFile_def route_DeleteFile_def
  route_MoveFile_def route_ChmodFile_def route_Stats_def

text \<open>
  C31. Tenants are kept apart: whatever a caller of one tenant asks of a sandbox of another, on any of
  the fifteen routes of one sandbox, the answer is 404 and nothing happens but the lookup, as long as the
  caller has the scope of the route; where scopes are enforced and the caller lacks it, the answer is 403
  without a lookup.  The list of sandboxes has the caller's tenant's only.
\<close>

theorem tenant_isolation:
  assumes "ai_TenantID i \<noteq> []"
  shows "(Get E sid m = (Inr sb, m1) \<longrightarrow> sb_TenantID sb \<noteq> ai_TenantID i \<longrightarrow> optionalScope enforce (route_scope r) i = Next i \<longrightarrow>
      serve_sandbox enforce E i sid r m = ((404, BError ''NOT_FOUND'' ''sandbox not found''), m1)) \<and>
    (optionalScope enforce (route_scope r) i \<noteq> Next i \<longrightarrow>
      serve_sandbox enforce E i sid r m = ((403, BError ''FORBIDDEN'' []), m)) \<and>
    (route_List E i m = (200, BSandboxes sbs) \<longrightarrow> (\<forall>s\<in>set sbs. sb_TenantID s = ai_TenantID i))"
proof (intro conjI impI)
  assume g: "Get E sid m = (Inr sb, m1)" "sb_TenantID sb \<noteq> ai_TenantID i" and s: "optionalScope enforce (route_scope r) i = Next i"
  show "serve_sandbox enforce E i sid r m = ((404, BError ''NOT_FOUND'' ''sandbox not found''), m1)"
    using s assms g for_tenant_other [OF g(1) assms g(2)]
    by (cases r) (simp_all add: serve_sandbox_def route_Get_def sandbox_routes WriteError_def)
next
  assume "optionalScope enforce (route_scope r) i \<noteq> Next i"
  then show "serve_sandbox enforce E i sid r m = ((403, BError ''FORBIDDEN'' []), m)"
    by (simp add: serve_sandbox_def optionalScope_def RequireScope_def WriteError_def split: if_splits)
next
  assume "route_List E i m = (200, BSandboxes sbs)"
  then show "\<forall>s\<in>set sbs. sb_TenantID s = ai_TenantID i"
    using assms by (auto simp: route_List_def WriteError_def split: sum.splits)
qed

definition sample_tenant :: "string \<Rightarrow> AuthIdentity" where
  "sample_tenant t = no_identity\<lparr>ai_Role := AuthRoleAPI, ai_Scopes := scopesForRole AuthRoleAPI, ai_TenantID := t\<rparr>"

definition sample_acme :: mgr where
  "sample_acme = sample_mgr\<lparr>m_store := empty_store\<lparr>t_sandboxes := [(sample_row ''sb-a'' ''bob'')\<lparr>sr_TenantID := ''acme''\<rparr>]\<rparr>\<rparr>"

theorem tenant_isolation_witness:
  "fst (serve_sandbox True sample_env (sample_tenant ''evil'') ''sb-a'' SDestroy sample_acme)
     = (404, BError ''NOT_FOUND'' ''sandbox not found'')"
proof -
  let ?g = "Get sample_env ''sb-a'' sample_acme"
  have "\<not> isl (fst ?g)" and t: "sb_TenantID (projr (fst ?g)) \<noteq> ai_TenantID (sample_tenant ''evil'')"
    and s: "optionalScope True (route_scope SDestroy) (sample_tenant ''evil'') = Next (sample_tenant ''evil'')" by code_simp+
  then have g: "?g = (Inr (projr (fst ?g)), snd ?g)" by (simp add: prod_eq_iff)
  have "ai_TenantID (sample_tenant ''evil'') \<noteq> []" by code_simp
  from tenant_isolation [OF this, THEN conjunct1, rule_format, OF g t s] show ?thesis by simp
qed

section \<open>Viewers\<close>

text \<open>The calls that change nothing in a sandbox.\<close>

fun reading_call :: "ext_call \<Rightarrow> bool" where
  "reading_call (PStatus _ _) = True"
| "reading_call (PReadFile _ _ _) = True"
| "reading_call (PListFiles _ _ _) = True"
| "reading_call (PStatFile _ _ _) = True"
| "reading_call (PGlobFiles _ _ _) = True"
| "reading_call (PConsoleLog _ _ _) = True"
| "reading_call (PStats _ _) = True"
| "reading_call (RStatus _ _ _ _ _) = True"
| "reading_call (RFileRead _ _ _ _ _ _) = True"
| "reading_call (RFileList _ _ _ _ _ _) = True"
| "reading_call (RFileStat _ _ _ _ _ _) = True"
| "reading_call (RFileGlob _ _ _ _ _ _) = True"
| "reading_call (RLogs _ _ _ _ _ _) = True"
| "reading_call _ = False"

text \<open>Nothing was done but reading: the rows differ at most in the state a worker reported.\<close>

definition unstated :: "SandboxRecord \<Rightarrow> SandboxRecord" where
  "unstated r = r\<lparr>sr_State := [], sr_UpdatedAt := 0\<rparr>"

definition only_read :: "mgr \<Rightarrow> mgr \<Rightarrow> bool" where
  "only_read m m' \<longleftrightarrow> (\<exists>cs. m_calls m' = m_calls m @ cs \<and> list_all reading_call cs) \<and>
     map unstated (t_sandboxes (m_store m')) = map unstated (t_sandboxes (m_store m)) \<and>
     t_leases (m_store m') = t_leases (m_store m)"

lemma only_read_refl [simp, intro]: "only_read m m"
  by (simp add: only_read_def)

lemma only_read_trans: "only_read m m1 \<Longrightarrow> only_read m1 m2 \<Longrightarrow> only_read m m2"
  by (auto simp: only_read_def)

lemma only_read_same:
  assumes "m_calls m' = m_calls m @ cs" "list_all reading_call cs"
    and "t_sandboxes (m_store m') = t_sandboxes (m_store m)" "t_leases (m_store m') = t_leases (m_store m)"
  shows "only_read m m'"
  using assms by (auto simp: only_read_def)

lemma unstated_update:
  "map unstated (t_sandboxes (snd (UpdateSandboxState E i st s))) = map unstated (t_sandboxes s)"
  "t_leases (snd (UpdateSandboxState E i st s)) = t_leases s"
  by (auto simp: UpdateSandboxState_def upd_where_def unstated_def split: option.splits)

lemma refresh_reads: "only_read m (snd (refreshRemoteSandboxStatus E sb m))"
proof -
  have call: "only_read m (snd (call (re_id E) (RStatus a b c d e) m))" for a b c d e
    by (rule only_read_same [where cs = "[RStatus a b c d e]"]) simp_all
  show ?thesis
    by (auto simp: refreshRemoteSandboxStatus_def Let_def case_prod_beta only_read_def unstated_update split: sum.split option.split)
qed

lemma Get_reads: "only_read m (snd (Get E i m))"
proof -
  have "only_read m (snd (refreshRemoteSandboxStatus E sb (cache_put i sb m)))" for sb
    using refresh_reads [of "cache_put i sb m" E sb] by (simp add: only_read_def)
  then show ?thesis
    using refresh_reads [of m E] by (auto simp: Get_def Let_def case_prod_beta split: option.split sum.split)
qed

lemma tables_file_failed [simp]:
  "t_leases (m_store (file_failed E oper a sb i r e m)) = t_leases (m_store m)"
  by (simp add: file_failed_def)

lemma reading_ops:
  "only_read m (snd (ReadFile E i p m))" "only_read m (snd (ListFiles E i p m))"
  "only_read m (snd (StatFile E i p m))" "only_read m (snd (GlobFiles E i p m))" "only_read m (snd (ConsoleLog E i n m))"
  "only_read m (snd (Manager_Stats E i m))"
  by (auto simp: only_read_def ReadFile_def ListFiles_def StatFile_def GlobFiles_def ConsoleLog_def Manager_Stats_def on_sandbox_def Let_def
      case_prod_beta remote_files remote_call_def split: sum.split option.split)

lemma answer_snd [simp]: "snd (answer c f r) = snd r"
  by (simp add: answer_def)

lemma for_tenant_reads:
  assumes "\<And>m. only_read m (snd (f m))"
  shows "only_read m (snd (for_tenant E i sid f m))"
proof (cases "ai_TenantID i = []")
  case True
  then show ?thesis using assms by (simp add: for_tenant_def checkTenantAccess_def)
next
  case False
  obtain r m1 where g: "Get E sid m = (r, m1)" by (cases "Get E sid m")
  then have "only_read m m1" using Get_reads [of m E sid] by simp
  then show ?thesis
    using only_read_trans [OF _ assms, of m m1] False g
    by (cases r) (auto simp: for_tenant_missing for_tenant_def checkTenantAccess_def)
qed

lemma handler_reads:
  assumes "route_scope r = ScopeRead"
  shows "only_read m (snd (sandbox_handler E i sid r m))"
proof (cases r)
  case SGet
  obtain g m1 where "Get E sid m = (g, m1)" by (cases "Get E sid m")
  then show ?thesis using Get_reads [of m E sid] SGet by (cases g) (simp_all add: route_Get_def)
next
  case (SReadFile q)
  then show ?thesis by (simp add: route_ReadFile_def) (rule for_tenant_reads, simp add: reading_ops)
next
  case (SListFiles q)
  then show ?thesis
    unfolding SListFiles sandbox_handler.simps route_ListFiles_def by (intro for_tenant_reads) (simp add: reading_ops)
next
  case (SStatFile q)
  then show ?thesis by (simp add: route_StatFile_def) (rule for_tenant_reads, simp add: reading_ops)
next
  case (SGlobFiles q)
  then show ?thesis by (simp add: route_GlobFiles_def) (rule for_tenant_reads, simp add: reading_ops)
next
  case (SConsoleLog q)
  then show ?thesis by (simp add: route_ConsoleLog_def Let_def) (rule for_tenant_reads, simp add: reading_ops)
next
  case SStats
  then show ?thesis by (simp add: route_Stats_def) (rule for_tenant_reads, simp add: reading_ops)
qed (use assms in simp_all)

text \<open>
  C32. A caller without the API scope changes nothing, where scopes are enforced: spawning and pruning
  are refused with 403 and the manager as it was; a request to a sandbox leads at most to calls
  that read, keeps every lease and every row but for the state a worker reports of it.
\<close>

theorem viewer_only_reads:
  assumes "\<not> HasScope i ScopeAPI"
  shows "only_read m (snd (serve_sandbox True E i sid r m)) \<and>
    serve_create True E rounds i h b m = (Some (403, BError ''FORBIDDEN'' []), m) \<and>
    serve_prune True E i m = ((403, BError ''FORBIDDEN'' []), m)"
proof -
  have api: "optionalScope True ScopeAPI i = Reject StatusForbidden"
    using assms by (simp add: optionalScope_def RequireScope_def)
  have "only_read m (snd (serve_sandbox True E i sid r m))"
  proof (cases "route_scope r = ScopeRead")
    case True
    then show ?thesis using handler_reads [OF True]
      by (auto simp: serve_sandbox_def optionalScope_def RequireScope_def split: outcome.split)
  next
    case False
    then have "route_scope r = ScopeAPI" by (cases r) simp_all
    then show ?thesis using api by (simp add: serve_sandbox_def)
  qed
  then show ?thesis using api by (simp add: serve_create_def serve_prune_def WriteError_def)
qed

definition sample_viewer :: AuthIdentity where
  "sample_viewer = no_identity\<lparr>ai_Role := AuthRoleViewer, ai_Scopes := scopesForRole AuthRoleViewer\<rparr>"

theorem viewer_only_reads_witness:
  "serve_prune True sample_env sample_viewer sample_full = ((403, BError ''FORBIDDEN'' []), sample_full)"
proof -
  have "\<not> HasScope sample_viewer ScopeAPI" by code_simp
  then show ?thesis by (rule viewer_only_reads [THEN conjunct2, THEN conjunct2])
qed

section \<open>The stamp of a tenant\<close>

lemma Get_cached:
  assumes "cached m i = Some sb"
  shows "\<exists>sb' m1. Get E i m = (Inr sb', m1) \<and> sb_TenantID sb' = sb_TenantID sb"
proof -
  have "sb_TenantID s = sb_TenantID x" if "fst (refreshRemoteSandboxStatus E x m0) = Inr s" for s x m0
    using that by (auto simp: refreshRemoteSandboxStatus_def applyPreviewDomain_def Let_def case_prod_beta split: sum.splits if_splits option.splits)
  then show ?thesis
    using assms by (auto simp: Get_def Let_def case_prod_beta applyPreviewDomain_def split: sum.split)
qed

lemma spawn_admitted_tenant:
  assumes "spawn_admitted E prov req img memMB vcpus ttl m = (Inr sb, me, m')"
  shows "if m_vmPool m' = None \<and> sb_WorkerID sb = m_workerID m' then sb_TenantID sb = rq_TenantID req else sb_TenantID sb = []"
proof -
  have cfg: "m_workerID m' = m_workerID m"
    using spawn_admitted_cfg [of E prov req img memMB vcpus ttl m] assms by simp
  consider (pool) p where "m_vmPool m = Some p" "spawnPooled E p prov req img memMB vcpus ttl m = (Inr sb, m')"
    | (remote) w where "m_vmPool m = None" "w \<noteq> m_workerID m" "spawnRemote E w req prov img memMB vcpus ttl m = (Inr sb, m')"
    | (loc) "m_vmPool m = None" "spawnLocal E prov req img memMB vcpus ttl m = (Inr sb, me, m')"
    using assms by (auto simp: spawn_admitted_def Let_def split: option.splits prod.splits sum.splits if_splits)
  then show ?thesis
  proof cases
    case pool
    then show ?thesis using spawn_admitted_pool [OF assms] spawnPooled_Inr(3) by auto
  next
    case remote
    then show ?thesis using spawnRemote_Inr(2,3) [OF remote(3)] cfg by simp
  next
    case loc
    then show ?thesis
      using spawnLocal_Inr(3,4) [OF loc(2)] spawnLocal_frame(3) [of E prov req img memMB vcpus ttl m] cfg by simp
  qed
qed

lemma writeRouteError_body [simp]: "writeRouteError err \<noteq> (c, BSandbox sb)"
  by (simp add: writeRouteError_def WriteError_def Let_def)

lemma Spawn_tenant:
  assumes "Spawn E rounds req m = (Some (Inr sb), m')"
  shows "if m_vmPool m' = None \<and> sb_WorkerID sb = m_workerID m' then sb_TenantID sb = rq_TenantID req else sb_TenantID sb = []"
    "cached m' (sb_ID sb) = Some sb"
proof -
  obtain prov ownerID ttl img memMB vcpus m1 m2 where
    sp: "spawn_admitted E prov (req\<lparr>rq_OwnerID := ownerID\<rparr>) img memMB vcpus ttl m1 = (Inr sb, None, m2)"
    and m': "m' = recordOperation E OperationSpawn prov None m2"
    by (rule Spawn_Inr [OF assms])
  show "if m_vmPool m' = None \<and> sb_WorkerID sb = m_workerID m' then sb_TenantID sb = rq_TenantID req else sb_TenantID sb = []"
    using spawn_admitted_tenant [OF sp] by (simp add: m')
  show "cached m' (sb_ID sb) = Some sb"
    using spawn_admitted_Inr(2) [OF sp] by (simp add: spawned_def m')
qed

text \<open>
  The tenant's stamp survives on one way of spawning only.  A sandbox created for a caller of a
  tenant, by a provider of this server and outside the VM pool, belongs to that tenant, and the
  caller can get it.  One created in the pool or on another worker belongs to no tenant: its own
  creator is told it does not exist.
\<close>

theorem tenant_stamp:
  assumes "route_Create E rounds i h b m = (Some (201, BSandbox sb), m')" "ai_TenantID i \<noteq> []"
  shows "if m_vmPool m' = None \<and> sb_WorkerID sb = m_workerID m'
    then sb_TenantID sb = ai_TenantID i \<and> (\<exists>s. fst (route_Get E' i (sb_ID sb) m') = (200, BSandbox s))
    else sb_TenantID sb = [] \<and> fst (route_Get E' i (sb_ID sb) m') = (404, BError ''NOT_FOUND'' ''sandbox not found'')"
proof -
  obtain req where sp: "Spawn E rounds req m = (Some (Inr sb), m')" and t: "rq_TenantID req = ai_TenantID i"
  proof -
    obtain req0 where d: "decode_spawn b = Some req0"
      using assms(1) by (auto simp: route_Create_def WriteError_def split: option.splits)
    then have "Spawn E rounds (create_request i h req0) m = (Some (Inr sb), m')"
      using assms(1) by (auto simp: route_Create_def split: prod.splits option.splits sum.splits)
    then show thesis using that [of "create_request i h req0"] by (simp add: create_request_def Let_def)
  qed
  obtain sb' m1 where g: "Get E' (sb_ID sb) m' = (Inr sb', m1)" "sb_TenantID sb' = sb_TenantID sb"
    using Get_cached [OF Spawn_tenant(2) [OF sp]] by blast
  show ?thesis using Spawn_tenant(1) [OF sp] g t assms(2) by (auto simp: route_Get_def WriteError_def)
qed

end
