(* ===== verification/Rate_Limit.thy ===== *)
theory Rate_Limit
  imports Auth
begin

text \<open>
  The rate limiter of the API (\<open>internal/api/middleware/ratelimit.go\<close>): token buckets per
  caller, refilled as time passes and evicted when idle.

  Tokens are counted in units of a sixty-billionth, so that a nanosecond refills exactly
  \<open>requestsPerMinute\<close> units: the rounding of the code's \<open>float64\<close> is left out.  At ordinary rates and
  bursts it moves the number of tokens by less than what a nanosecond refills; that is enough to refuse a
  key that asks at the very end of the wait it was told, and nothing is claimed about that wait.  The time of a request is a
  parameter; the code reads the clock before it takes the limiter's lock, so that two requests may be served in
  the other order than their times.  The digest that hides the caller's name in the key is a parameter.
\<close>

section \<open>The limiter\<close>

record RateLimitConfig =
  rc_Enabled :: bool
  rc_RequestsPerMinute :: int
  rc_Burst :: int
  rc_KeyBy :: string
  rc_BucketTTL :: duration
  rc_CleanupInterval :: duration

record rateBucket =
  rb_tokens :: int
  rb_lastRefill :: time
  rb_lastSeen :: time

record RateLimiter =
  rl_buckets :: "(string \<times> rateBucket) list"
  rl_requestsPerMinute :: int
  rl_burst :: int
  rl_keyBy :: string
  rl_disabled :: bool
  rl_allowedTotal :: u64
  rl_limitedTotal :: u64
  rl_evictedTotal :: u64
  rl_bucketTTL :: duration
  rl_cleanupInterval :: duration
  rl_lastCleanup :: time

abbreviation one_token :: int where "one_token \<equiv> Minute"

definition NewRateLimiter :: "RateLimitConfig \<Rightarrow> RateLimiter" where
  "NewRateLimiter c =
     (let rpm = (if rc_RequestsPerMinute c < 0 then 0 else rc_RequestsPerMinute c);
          keyBy = TrimSpace (ToLower (rc_KeyBy c)) in
      \<lparr>rl_buckets = [], rl_requestsPerMinute = rpm,
       rl_burst = (if rc_Burst c \<le> 0 then rpm else rc_Burst c),
       rl_keyBy = (if keyBy = [] then ''owner'' else keyBy),
       rl_disabled = (\<not> rc_Enabled c \<or> rpm = 0),
       rl_allowedTotal = 0, rl_limitedTotal = 0, rl_evictedTotal = 0,
       rl_bucketTTL = (if rc_BucketTTL c = 0 then 15 * Minute else rc_BucketTTL c),
       rl_cleanupInterval = (if rc_CleanupInterval c = 0 then Minute else rc_CleanupInterval c),
       rl_lastCleanup = 0\<rparr>)"

definition cleanupExpired :: "time \<Rightarrow> RateLimiter \<Rightarrow> RateLimiter" where
  "cleanupExpired now rl =
     (if rl_bucketTTL rl \<le> 0 \<or> rl_cleanupInterval rl \<le> 0 then rl
      else if rl_lastCleanup rl \<noteq> 0 \<and> now - rl_lastCleanup rl < rl_cleanupInterval rl then rl
      else
        (let idle = (\<lambda>p. now - rb_lastSeen (snd p) > rl_bucketTTL rl) in
         rl\<lparr>rl_lastCleanup := now, rl_buckets := del_where idle (rl_buckets rl),
            rl_evictedTotal := rl_evictedTotal rl + word_of_nat (rows_affected idle (rl_buckets rl))\<rparr>))"

definition refill :: "RateLimiter \<Rightarrow> time \<Rightarrow> rateBucket \<Rightarrow> rateBucket" where
  "refill rl now b =
     (let elapsed = now - rb_lastRefill b;
          b = (if elapsed > 0
               then b\<lparr>rb_tokens := min (rl_burst rl * one_token) (rb_tokens b + elapsed * rl_requestsPerMinute rl), rb_lastRefill := now\<rparr>
               else b)
      in b\<lparr>rb_lastSeen := now\<rparr>)"

text \<open>A key without a bucket gets a full one.\<close>

definition full_bucket :: "RateLimiter \<Rightarrow> time \<Rightarrow> rateBucket" where
  "full_bucket rl now = \<lparr>rb_tokens = rl_burst rl * one_token, rb_lastRefill = now, rb_lastSeen = 0\<rparr>"

definition current :: "time \<Rightarrow> string \<Rightarrow> RateLimiter \<Rightarrow> rateBucket" where
  "current now k rl = refill rl now (case map_of (rl_buckets rl) k of Some b \<Rightarrow> b | None \<Rightarrow> full_bucket rl now)"

text \<open>How many seconds it will take to have a token.\<close>

definition retry_after :: "RateLimiter \<Rightarrow> rateBucket \<Rightarrow> duration" where
  "retry_after rl b =
     (let per_second = rl_requestsPerMinute rl * Second; needed = one_token - rb_tokens b
      in (needed + per_second - 1) div per_second * Second)"

text \<open>A token is taken if there is one.\<close>

definition allow :: "time \<Rightarrow> string \<Rightarrow> RateLimiter \<Rightarrow> (bool \<times> int \<times> duration) \<times> RateLimiter" where
  "allow now key rl =
     (let rl = cleanupExpired now rl;
          b = current now key rl in
      if rb_tokens b \<ge> one_token then
        (let b = b\<lparr>rb_tokens := rb_tokens b - one_token\<rparr> in
         ((True, rb_tokens b div one_token, 0),
          rl\<lparr>rl_buckets := al_put key b (rl_buckets rl), rl_allowedTotal := rl_allowedTotal rl + 1\<rparr>))
      else
        ((False, 0, retry_after rl b),
         rl\<lparr>rl_buckets := al_put key b (rl_buckets rl), rl_limitedTotal := rl_limitedTotal rl + 1\<rparr>))"

section \<open>Who is limited\<close>

text \<open>\<open>net.SplitHostPort\<close>: the host, if the address is well formed.\<close>

definition split_host :: "string \<Rightarrow> string option" where
  "split_host s =
     (case last_index_of (CHR '':'') s of
        None \<Rightarrow> None
      | Some i \<Rightarrow>
          if hd s = CHR ''['' then
            (case index_of (CHR '']'') s of
               None \<Rightarrow> None
             | Some e \<Rightarrow>
                 if e + 1 = i \<and> CHR ''['' \<notin> set (drop 1 s) \<and> CHR '']'' \<notin> set (drop (e + 1) s)
                 then Some (take (e - 1) (drop 1 s)) else None)
          else if CHR '':'' \<in> set (take i s) \<or> CHR ''['' \<in> set s \<or> CHR '']'' \<in> set s then None
          else Some (take i s))"

definition clientIP :: "headers \<Rightarrow> string \<Rightarrow> string" where
  "clientIP h remote =
     (let forwarded = TrimSpace (h ''X-Forwarded-For''); real = TrimSpace (h ''X-Real-IP'') in
      if forwarded \<noteq> [] then TrimSpace (hd (split_on (CHR '','') forwarded))
      else if real \<noteq> [] then real
      else case split_host remote of Some host \<Rightarrow> host | None \<Rightarrow> remote)"

definition bucketKey :: "(string \<Rightarrow> string) \<Rightarrow> string \<Rightarrow> string \<Rightarrow> string" where
  "bucketKey digest kind value = kind @ '':'' @ digest (kind @ '':'' @ value)"

definition rate_key :: "(string \<Rightarrow> string) \<Rightarrow> headers \<Rightarrow> string \<Rightarrow> RateLimiter \<Rightarrow> string" where
  "rate_key digest h remote rl =
     (let apiKey = TrimSpace (h ''X-API-Key''); ownerID = TrimSpace (h ''X-User-ID''); ip = bucketKey digest ''ip'' (clientIP h remote) in
      if rl_keyBy rl = ''api_key'' then (if apiKey \<noteq> [] then bucketKey digest ''api_key'' apiKey else ip)
      else if rl_keyBy rl = ''ip'' then ip
      else if ownerID \<noteq> [] then bucketKey digest ''owner'' ownerID
      else if apiKey \<noteq> [] then bucketKey digest ''api_key'' apiKey
      else ip)"

section \<open>The middleware\<close>

text \<open>
  A request passes (with its \<open>X-RateLimit\<close> headers, if the limiter is on) or is answered 429
  with the seconds to wait.
\<close>

datatype rate_reply = Pass "(int \<times> int) option" | TooMany int int

definition RateLimit :: "(string \<Rightarrow> string) \<Rightarrow> time \<Rightarrow> headers \<Rightarrow> string \<Rightarrow> RateLimiter \<Rightarrow> rate_reply \<times> RateLimiter" where
  "RateLimit digest now h remote rl =
     (if rl_disabled rl then (Pass None, rl)
      else
        (let ((allowed, remaining, retry), rl') = allow now (rate_key digest h remote rl) rl in
         if allowed then (Pass (Some (rl_burst rl, remaining)), rl')
         else (TooMany (rl_burst rl) (max 1 ((retry + Second - 1) div Second)), rl')))"

record RateLimitStats =
  rs_Enabled :: bool
  rs_RequestsPerMinute :: int
  rs_Burst :: int
  rs_KeyBy :: string
  rs_ActiveBuckets :: nat
  rs_AllowedTotal :: u64
  rs_LimitedTotal :: u64
  rs_EvictedTotal :: u64
  rs_BucketTTL :: duration
  rs_CleanupInterval :: duration

definition rate_Stats :: "RateLimiter \<Rightarrow> RateLimitStats" where
  "rate_Stats rl =
     \<lparr>rs_Enabled = (\<not> rl_disabled rl), rs_RequestsPerMinute = rl_requestsPerMinute rl, rs_Burst = rl_burst rl,
      rs_KeyBy = rl_keyBy rl, rs_ActiveBuckets = length (rl_buckets rl), rs_AllowedTotal = rl_allowedTotal rl,
      rs_LimitedTotal = rl_limitedTotal rl, rs_EvictedTotal = rl_evictedTotal rl, rs_BucketTTL = rl_bucketTTL rl,
      rs_CleanupInterval = rl_cleanupInterval rl\<rparr>"

section \<open>Meters\<close>

text \<open>
  What a meter promises: each key has a credit that grows with time up to a cap; a request is
  granted exactly if the credit covers its cost, which it then pays; keys do not touch each other.
\<close>

fun serve :: "(time \<Rightarrow> 'k \<Rightarrow> 's \<Rightarrow> bool \<times> 's) \<Rightarrow> (time \<times> 'k) list \<Rightarrow> 's \<Rightarrow> bool list \<times> 's" where
  "serve step [] s = ([], s)"
| "serve step ((t, k) # qs) s = (let (a, s) = step t k s; (as, s) = serve step qs s in (a # as, s))"

fun granted :: "'k \<Rightarrow> (time \<times> 'k) list \<Rightarrow> bool list \<Rightarrow> nat" where
  "granted k ((t, k') # qs) (a # as) = (if k' = k \<and> a then 1 else 0) + granted k qs as"
| "granted k _ _ = 0"

lemma min_plus: "0 \<le> r \<Longrightarrow> min c (min c x + r) = min c (x + r :: int)"
  by auto

locale metered =
  fixes step :: "time \<Rightarrow> 'k \<Rightarrow> 's \<Rightarrow> bool \<times> 's"
    and inv :: "time \<Rightarrow> 's \<Rightarrow> bool"
    and credit :: "time \<Rightarrow> 'k \<Rightarrow> 's \<Rightarrow> int"
    and cap rate cost :: int
  assumes inv_step: "inv t s \<Longrightarrow> t \<le> t' \<Longrightarrow> inv t' (snd (step t' k s))"
    and credit_step: "inv t s \<Longrightarrow> t \<le> t' \<Longrightarrow>
      credit t' k (snd (step t' k' s)) = credit t' k s - (if k' = k \<and> fst (step t' k' s) then cost else 0)"
    and credit_later: "inv t s \<Longrightarrow> t \<le> t' \<Longrightarrow> credit t' k s = min cap (credit t k s + rate * (t' - t))"
    and credit_bounds: "inv t s \<Longrightarrow> 0 \<le> credit t k s \<and> credit t k s \<le> cap"
    and grant_iff: "inv t s \<Longrightarrow> t \<le> t' \<Longrightarrow> fst (step t' k s) \<longleftrightarrow> cost \<le> credit t' k s"
    and rate_nonneg: "inv t s \<Longrightarrow> 0 \<le> rate"
begin

lemma inv_serve:
  "inv t s \<Longrightarrow> sorted (t # map fst qs) \<Longrightarrow> inv (last (t # map fst qs)) (snd (serve step qs s))"
proof (induction qs arbitrary: t s)
  case (Cons q qs)
  then show ?case
    using inv_step [OF Cons.prems(1), of "fst q" "snd q"] by (cases q) (auto simp: Let_def case_prod_beta)
qed simp

lemma spent:
  assumes "inv t s" "sorted (t # map fst qs)" "\<forall>q\<in>set qs. fst q \<le> e" "t \<le> e"
  shows "int (granted k qs (fst (serve step qs s))) * cost \<le> credit t k s + rate * (e - t)"
  using assms
proof (induction qs arbitrary: t s)
  case Nil
  then show ?case using credit_bounds [OF Nil(1), of k] rate_nonneg [OF Nil(1)] by simp
next
  case (Cons q qs)
  obtain t' k' where q: "q = (t', k')" by (cases q)
  have le: "t \<le> t'" "t' \<le> e" using Cons.prems q by auto
  let ?s = "snd (step t' k' s)" and ?paid = "if k' = k \<and> fst (step t' k' s) then cost else 0"
  have "int (granted k qs (fst (serve step qs ?s))) * cost \<le> credit t' k ?s + rate * (e - t')"
    using Cons.IH [OF inv_step [OF Cons.prems(1) le(1)]] Cons.prems q by simp
  also have "\<dots> \<le> credit t k s + rate * (t' - t) - ?paid + rate * (e - t')"
    using credit_step [OF Cons.prems(1) le(1), of k k'] credit_later [OF Cons.prems(1) le(1), of k] by linarith
  also have "\<dots> = credit t k s + rate * (e - t) - ?paid" by (simp add: algebra_simps)
  finally show ?case
    by (cases "k' = k \<and> fst (step t' k' s)") (auto simp: q Let_def case_prod_beta algebra_simps)
qed

lemma window_bound:
  assumes "inv t s" "sorted (t # map fst (qs @ ws))" "\<forall>w\<in>set ws. t0 \<le> fst w \<and> fst w \<le> t0 + d" "0 \<le> d"
  shows "int (granted k ws (fst (serve step ws (snd (serve step qs s))))) * cost \<le> cap + rate * d"
proof (cases ws)
  case Nil
  then show ?thesis using credit_bounds [OF assms(1), of k] rate_nonneg [OF assms(1)] assms(4) by simp
next
  case (Cons w ws')
  let ?l = "last (t # map fst qs)" and ?s = "snd (serve step qs s)"
  have i: "inv ?l ?s" using inv_serve [OF assms(1), of qs] assms(2) by (auto simp: sorted_append)
  have sl: "sorted (?l # map fst ws)" using assms(2) by (cases qs rule: rev_cases) (auto simp: sorted_append)
  then have le: "?l \<le> fst w" using Cons by simp
  obtain t' k' where w: "w = (t', k')" by (cases w)
  let ?s' = "snd (step t' k' ?s)" and ?paid = "if k' = k \<and> fst (step t' k' ?s) then cost else 0"
  have "int (granted k ws' (fst (serve step ws' ?s'))) * cost \<le> credit t' k ?s' + rate * (t0 + d - t')"
    using sl assms(3) Cons w by (intro spent [where t = t'] inv_step [OF i]) auto
  moreover have "credit t' k ?s' \<le> cap - ?paid"
    using credit_step [OF i, of t' k k'] credit_later [OF i, of t' k] le w by auto
  moreover have "rate * (t0 + d - t') \<le> rate * d"
    using rate_nonneg [OF i] assms(3) Cons w by (intro mult_left_mono) auto
  ultimately show ?thesis
    by (cases "k' = k \<and> fst (step t' k' ?s)") (auto simp: Cons w Let_def case_prod_beta algebra_simps)
qed

end

section \<open>The limiter is a meter\<close>

definition admit :: "time \<Rightarrow> string \<Rightarrow> RateLimiter \<Rightarrow> bool \<times> RateLimiter" where
  "admit now key rl = (let (r, rl) = allow now key rl in (fst r, rl))"

text \<open>What a key could spend at an instant: its bucket refilled, or a full one.\<close>

definition credit :: "time \<Rightarrow> string \<Rightarrow> RateLimiter \<Rightarrow> int" where
  "credit t k rl =
     (case map_of (rl_buckets rl) k of
        None \<Rightarrow> rl_burst rl * one_token
      | Some b \<Rightarrow> min (rl_burst rl * one_token) (rb_tokens b + (t - rb_lastRefill b) * rl_requestsPerMinute rl))"

text \<open>An evicted bucket would have been full: idle for the TTL, it has refilled the burst.\<close>

definition evicts_full :: "RateLimiter \<Rightarrow> bool" where
  "evicts_full rl \<longleftrightarrow> rl_bucketTTL rl \<le> 0 \<or> rl_cleanupInterval rl \<le> 0 \<or>
     rl_burst rl * one_token \<le> rl_bucketTTL rl * rl_requestsPerMinute rl"

definition bucket_ok :: "time \<Rightarrow> RateLimiter \<Rightarrow> rateBucket \<Rightarrow> bool" where
  "bucket_ok t rl b \<longleftrightarrow> 0 \<le> rb_tokens b \<and> rb_tokens b \<le> rl_burst rl * one_token \<and>
     rb_lastSeen b = rb_lastRefill b \<and> rb_lastRefill b \<le> t"

definition limiter_ok :: "int \<Rightarrow> int \<Rightarrow> time \<Rightarrow> RateLimiter \<Rightarrow> bool" where
  "limiter_ok rpm burst t rl \<longleftrightarrow> rl_requestsPerMinute rl = rpm \<and> rl_burst rl = burst \<and> 0 \<le> rpm \<and> 0 \<le> burst \<and> evicts_full rl \<and>
     al_ok (rl_buckets rl) \<and> (\<forall>p\<in>set (rl_buckets rl). bucket_ok t rl (snd p))"

lemma map_of_del_where:
  "al_ok m \<Longrightarrow> map_of (del_where P m) k = (case map_of m k of Some v \<Rightarrow> if P (k, v) then None else Some v | None \<Rightarrow> None)"
proof (induction m)
  case (Cons p m)
  have "k \<notin> fst ` set (del_where P m)" if "k \<notin> fst ` set m" using that by (auto simp: set_del_where)
  with Cons show ?case by (cases p) (auto simp: del_where_def split: option.split simp flip: map_of_eq_None_iff)
qed (simp add: del_where_def)

lemma cleanup_same [simp]:
  "rl_burst (cleanupExpired now rl) = rl_burst rl"
  "rl_requestsPerMinute (cleanupExpired now rl) = rl_requestsPerMinute rl"
  "evicts_full (cleanupExpired now rl) = evicts_full rl"
  by (simp_all add: cleanupExpired_def evicts_full_def Let_def)

lemma cleanup_buckets:
  "rl_buckets (cleanupExpired now rl) = rl_buckets rl \<or>
   rl_buckets (cleanupExpired now rl) = del_where (\<lambda>p. now - rb_lastSeen (snd p) > rl_bucketTTL rl) (rl_buckets rl) \<and>
     0 < rl_bucketTTL rl \<and> 0 < rl_cleanupInterval rl"
  by (auto simp: cleanupExpired_def Let_def)

lemma cleanup_ok:
  assumes "limiter_ok rpm burst t rl"
  shows "limiter_ok rpm burst t (cleanupExpired now rl)"
  using assms cleanup_buckets [of now rl]
  by (auto simp: limiter_ok_def bucket_ok_def set_del_where del_where_def distinct_map_filter)

lemma limiter_bucket: "limiter_ok rpm burst t rl \<Longrightarrow> map_of (rl_buckets rl) k = Some b \<Longrightarrow> bucket_ok t rl b"
  by (auto simp: limiter_ok_def dest!: map_of_SomeD)

lemma cleanup_credit:
  assumes "limiter_ok rpm burst t rl" "t \<le> now"
  shows "credit now k (cleanupExpired now rl) = credit now k rl"
proof (cases "rl_buckets (cleanupExpired now rl) = rl_buckets rl")
  case False
  then have d: "rl_buckets (cleanupExpired now rl) = del_where (\<lambda>p. now - rb_lastSeen (snd p) > rl_bucketTTL rl) (rl_buckets rl)"
    and ttl: "0 < rl_bucketTTL rl" "0 < rl_cleanupInterval rl"
    using cleanup_buckets [of now rl] by auto
  have ok: "al_ok (rl_buckets rl)" "0 \<le> rl_requestsPerMinute rl"
    "rl_burst rl * one_token \<le> rl_bucketTTL rl * rl_requestsPerMinute rl"
    using assms(1) ttl by (auto simp: limiter_ok_def evicts_full_def)
  have full: "rl_burst rl * one_token \<le> rb_tokens b + (now - rb_lastRefill b) * rl_requestsPerMinute rl"
    if "map_of (rl_buckets rl) k = Some b" "now - rb_lastSeen b > rl_bucketTTL rl" for b
  proof -
    have "rl_bucketTTL rl * rl_requestsPerMinute rl \<le> (now - rb_lastRefill b) * rl_requestsPerMinute rl"
      using limiter_bucket [OF assms(1) that(1)] that(2) ok(2) by (intro mult_right_mono) (auto simp: bucket_ok_def)
    then show ?thesis using ok(3) limiter_bucket [OF assms(1) that(1)] by (simp add: bucket_ok_def)
  qed
  show ?thesis using full by (auto simp: credit_def d map_of_del_where [OF ok(1)] split: option.split)
qed (simp add: credit_def split: option.split)

text \<open>One request: the refilled bucket holds the credit, and pays for a grant.\<close>

lemma refill_tokens:
  assumes "bucket_ok t rl b" "t \<le> now"
  shows "rb_tokens (refill rl now b) = min (rl_burst rl * one_token) (rb_tokens b + (now - rb_lastRefill b) * rl_requestsPerMinute rl)"
    "rb_lastRefill (refill rl now b) = now" "rb_lastSeen (refill rl now b) = now"
proof -
  show "rb_tokens (refill rl now b) = min (rl_burst rl * one_token) (rb_tokens b + (now - rb_lastRefill b) * rl_requestsPerMinute rl)"
    using assms by (cases "now = rb_lastRefill b") (auto simp: refill_def bucket_ok_def Let_def)
qed (use assms in \<open>auto simp: refill_def bucket_ok_def Let_def\<close>)

lemma refill_new:
  "rb_tokens (refill rl now (full_bucket rl now)) = rl_burst rl * one_token"
  "rb_lastRefill (refill rl now (full_bucket rl now)) = now" "rb_lastSeen (refill rl now (full_bucket rl now)) = now"
  by (simp_all add: refill_def full_bucket_def Let_def)

lemma current_credit:
  assumes "limiter_ok rpm burst t rl" "t \<le> now"
  shows "rb_tokens (current now k rl) = credit now k rl" "rb_lastRefill (current now k rl) = now" "rb_lastSeen (current now k rl) = now"
  using refill_tokens [OF limiter_bucket [OF assms(1)] assms(2)]
  by (auto simp: current_def credit_def refill_new split: option.split)

lemma credit_range:
  assumes "limiter_ok rpm burst t rl" "t \<le> now"
  shows "0 \<le> credit now k rl \<and> credit now k rl \<le> burst * one_token"
proof (cases "map_of (rl_buckets rl) k")
  case (Some b)
  then have "0 \<le> rb_tokens b" "0 \<le> (now - rb_lastRefill b) * rl_requestsPerMinute rl"
    using limiter_bucket [OF assms(1) Some] assms by (auto simp: bucket_ok_def limiter_ok_def)
  then show ?thesis using Some assms(1) by (simp add: credit_def limiter_ok_def)
qed (use assms(1) in \<open>simp add: credit_def limiter_ok_def\<close>)

lemma admit_shape:
  fixes now k rl
  defines "c \<equiv> cleanupExpired now rl"
  defines "b \<equiv> current now k c"
  shows "fst (admit now k rl) \<longleftrightarrow> one_token \<le> rb_tokens b"
    "rl_buckets (snd (admit now k rl)) =
       al_put k (if one_token \<le> rb_tokens b then b\<lparr>rb_tokens := rb_tokens b - one_token\<rparr> else b) (rl_buckets c)"
    "rl_burst (snd (admit now k rl)) = rl_burst rl" "rl_requestsPerMinute (snd (admit now k rl)) = rl_requestsPerMinute rl"
    "evicts_full (snd (admit now k rl)) = evicts_full rl"
  by (simp_all add: admit_def allow_def Let_def b_def c_def)
    (simp_all add: evicts_full_def cleanupExpired_def Let_def)

lemma admit_ok:
  assumes "limiter_ok rpm burst t rl" "t \<le> now"
  shows "limiter_ok rpm burst now (snd (admit now k rl))"
proof -
  let ?c = "cleanupExpired now rl"
  note c = cleanup_ok [OF assms(1), of now]
  have same: "bucket_ok now (snd (admit now k rl)) = bucket_ok now ?c" by (simp add: fun_eq_iff bucket_ok_def admit_shape)
  have old: "bucket_ok now ?c (snd p)" if "p \<in> set (rl_buckets ?c)" for p
    using c that assms(2) by (fastforce simp: limiter_ok_def bucket_ok_def)
  show ?thesis
    using assms(1) c credit_range [OF c assms(2), of k] old current_credit [OF c assms(2), of k]
      set_al_put_subset [of k _ "rl_buckets ?c"]
    by (fastforce simp: limiter_ok_def admit_shape same bucket_ok_def)
qed

lemma admit_credit:
  assumes "limiter_ok rpm burst t rl" "t \<le> now"
  shows "credit now k (snd (admit now k' rl)) = credit now k rl - (if k' = k \<and> fst (admit now k' rl) then one_token else 0)"
proof -
  let ?c = "cleanupExpired now rl"
  note c = cleanup_ok [OF assms(1), of now] and cur = current_credit [OF cleanup_ok [OF assms(1), of now] assms(2), of k]
  have r: "credit now k ?c \<le> rl_burst rl * one_token"
    using credit_range [OF c assms(2), of k] assms(1) by (simp add: limiter_ok_def)
  show ?thesis
  proof (cases "k' = k")
    case True
    then show ?thesis
      using r cur by (simp add: credit_def [of now k "snd _"] admit_shape) (auto simp: cleanup_credit [OF assms])
  next
    case False
    have "credit now k (snd (admit now k' rl)) = credit now k ?c"
      using False by (simp add: credit_def admit_shape split: option.split)
    then show ?thesis using False by (simp add: cleanup_credit [OF assms])
  qed
qed

lemma credit_grows:
  assumes "limiter_ok rpm burst t rl" "t \<le> now"
  shows "credit now k rl = min (burst * one_token) (credit t k rl + rpm * (now - t))"
proof (cases "map_of (rl_buckets rl) k")
  case (Some b)
  have "0 \<le> rpm * (now - t)" using assms by (simp add: limiter_ok_def)
  then show ?thesis
    using min_plus [of "rpm * (now - t)" "burst * one_token" "rb_tokens b + (t - rb_lastRefill b) * rpm"] Some assms(1)
    by (simp add: credit_def limiter_ok_def algebra_simps)
next
  case None
  have "0 \<le> rpm * (now - t)" using assms by (simp add: limiter_ok_def)
  then show ?thesis using None assms(1) by (simp add: credit_def limiter_ok_def)
qed

interpretation meter: metered admit "limiter_ok rpm burst" credit "burst * one_token" rpm one_token for rpm burst
proof (unfold_locales, goal_cases)
  case (5 t s t' k)
  then show ?case
    using current_credit(1) [OF cleanup_ok [OF 5(1), of t'] 5(2), of k] cleanup_credit [OF 5] by (simp add: admit_shape)
next
  case (1 t s t' k)
  then show ?case by (rule admit_ok)
next
  case (2 t s t' k k')
  then show ?case by (rule admit_credit)
next
  case (3 t s t' k)
  then show ?case by (rule credit_grows)
next
  case (4 t s k)
  then show ?case by (rule credit_range) simp
next
  case (6 t s)
  then show ?case by (simp add: limiter_ok_def)
qed

section \<open>What the limiter grants\<close>

lemma new_limiter_ok:
  assumes "evicts_full (NewRateLimiter cfg)"
  shows "limiter_ok (rl_requestsPerMinute (NewRateLimiter cfg)) (rl_burst (NewRateLimiter cfg)) t (NewRateLimiter cfg)"
proof -
  have "rl_buckets (NewRateLimiter cfg) = []" "0 \<le> rl_requestsPerMinute (NewRateLimiter cfg)" "0 \<le> rl_burst (NewRateLimiter cfg)"
    by (simp_all add: NewRateLimiter_def Let_def)
  then show ?thesis using assms by (simp add: limiter_ok_def)
qed

lemma sorted_from: "sorted (map fst qs) \<Longrightarrow> sorted ((if qs = [] then t else fst (hd qs)) # map fst qs)"
  by (cases qs) auto

text \<open>
  C39. The limit holds in every window of time: whatever was asked before, by whomever, in any \<open>d\<close>
  nanoseconds one key is granted no more requests than the burst and what the rate adds in that
  time; as long as a bucket is not evicted before it would have been full again.
\<close>

theorem rate_limit_bound:
  assumes "evicts_full (NewRateLimiter cfg)" "sorted (map fst (before @ window))"
    and "\<forall>q\<in>set window. t0 \<le> fst q \<and> fst q \<le> t0 + d" "0 \<le> d"
  shows "int (granted k window (fst (serve admit window (snd (serve admit before (NewRateLimiter cfg)))))) * one_token
    \<le> rl_burst (NewRateLimiter cfg) * one_token + rl_requestsPerMinute (NewRateLimiter cfg) * d"
  by (rule meter.window_bound [OF new_limiter_ok [OF assms(1)] sorted_from [OF assms(2), of 0] assms(3,4)])

definition sample_limit :: RateLimitConfig where
  "sample_limit = \<lparr>rc_Enabled = True, rc_RequestsPerMinute = 60, rc_Burst = 2, rc_KeyBy = ''Owner '', rc_BucketTTL = 0, rc_CleanupInterval = 0\<rparr>"

definition sample_window :: "(time \<times> string) list" where
  "sample_window = [(10 * Second, ''a''), (10 * Second, ''a''), (10 * Second, ''a''), (11 * Second, ''b''), (11 * Second, ''a'')]"

theorem rate_limit_bound_witness:
  "int (granted ''a'' sample_window (fst (serve admit sample_window (snd (serve admit [(9 * Second, ''a'')] (NewRateLimiter sample_limit))))))
     * one_token \<le> 2 * one_token + 60 * Second \<and>
   fst (serve admit sample_window (snd (serve admit [(9 * Second, ''a'')] (NewRateLimiter sample_limit))))
     = [True, True, False, True, True]"
proof
  have e: "evicts_full (NewRateLimiter sample_limit)" by code_simp
  have s: "sorted (map fst ([(9 * Second, ''a'')] @ sample_window))"
    "\<forall>q\<in>set sample_window. 10 * Second \<le> fst q \<and> fst q \<le> 10 * Second + Second" "0 \<le> Second" by code_simp+
  have v: "rl_burst (NewRateLimiter sample_limit) = 2" "rl_requestsPerMinute (NewRateLimiter sample_limit) = 60" by code_simp+
  show "int (granted ''a'' sample_window (fst (serve admit sample_window (snd (serve admit [(9 * Second, ''a'')] (NewRateLimiter sample_limit))))))
     * one_token \<le> 2 * one_token + 60 * Second"
    using rate_limit_bound [OF e s, of "''a''"] by (simp add: v)
qed code_simp

end
