(* ===== verification/Environments.thy ===== *)
theory Environments
  imports Store_Admin Go_Path
begin

text \<open>
  Building environment images (\<open>internal/environments/manager.go\<close>): the bounded queue of builds
  and what a worker of the manager does with one build, from the specification to the images.

  The commands it runs (\<open>docker\<close>) and the temporary files are external: a reply is a function of
  the calls made so far.  A build takes minutes, so every such call also gives the other parts of
  the server time to change the store; what they do is a function too.
\<close>

section \<open>State and external calls\<close>

datatype env_call =
    MkdirTemp | WriteDockerfile string string | RemoveAll string
  | Run (run_stdin: string) (run_name: string) (run_args: "string list")

record build_env = dbenv +
  be_reply :: "env_call list \<Rightarrow> env_call \<Rightarrow> error + string"
  be_meanwhile :: "env_call list \<Rightarrow> env_call \<Rightarrow> store \<Rightarrow> store"

record env_manager =
  em_store :: store
  em_jobs :: "string list"
  em_stopped :: bool
  em_calls :: "env_call list"

definition env_do :: "('e build_env_scheme) \<Rightarrow> env_call \<Rightarrow> env_manager \<Rightarrow> (error + string) \<times> env_manager" where
  "env_do E c s =
     (be_reply E (em_calls s) c,
      s\<lparr>em_calls := em_calls s @ [c], em_store := be_meanwhile E (em_calls s) c (em_store s)\<rparr>)"

definition NewEnvManager :: "store \<Rightarrow> env_manager" where
  "NewEnvManager st = \<lparr>em_store = st, em_jobs = [], em_stopped = False, em_calls = []\<rparr>"

text \<open>
  When the manager has been stopped and the queue could serve as well, Go's \<open>select\<close> takes either case:
  \<open>quit\<close> tells which.
\<close>

definition Enqueue :: "bool \<Rightarrow> string \<Rightarrow> env_manager \<Rightarrow> error option \<times> env_manager" where
  "Enqueue quit buildID s =
     (if em_stopped s \<and> (quit \<or> length (em_jobs s) \<ge> 128)
      then (Some (Err ErrOther ''environment build manager is stopped''), s)
      else if length (em_jobs s) < 128 then (None, s\<lparr>em_jobs := em_jobs s @ [buildID]\<rparr>)
      else (Some (Err ErrOther ''environment build queue is full''), s))"

definition env_Stop :: "env_manager \<Rightarrow> env_manager" where
  "env_Stop s = s\<lparr>em_stopped := True\<rparr>"

section \<open>Packages and the Dockerfile\<close>

text \<open>\<open>safePkgPattern\<close>: one or more of these characters.\<close>

definition safe_char :: "char \<Rightarrow> bool" where
  "safe_char c \<longleftrightarrow> (let n = of_char c :: nat in
     97 \<le> n \<and> n \<le> 122 \<or> 65 \<le> n \<and> n \<le> 90 \<or> 48 \<le> n \<and> n \<le> 57) \<or> c \<in> set ''._+-<>=!~[],:@/''"

fun validatePackages :: "string list \<Rightarrow> error option" where
  "validatePackages [] = None"
| "validatePackages (p # ps) =
     (let p = TrimSpace p in
      if p = [] then validatePackages ps
      else if list_all safe_char p then validatePackages ps
      else Some (Err ErrOther (''package '' @ Quote p @ '' has unsupported characters'')))"

abbreviation newline :: char where "newline \<equiv> CHR 0x0A"

fun join_words :: "string list \<Rightarrow> string" where
  "join_words [] = []"
| "join_words [p] = p"
| "join_words (p # ps) = p @ CHR '' '' # join_words ps"

definition apt_line :: "string list \<Rightarrow> string" where
  "apt_line pkgs = ''RUN apt-get update && apt-get install -y --no-install-recommends '' @ join_words pkgs @ '' && rm -rf /var/lib/apt/lists/*''"

definition pip_line :: "string list \<Rightarrow> string" where
  "pip_line pkgs = ''RUN pip install --no-cache-dir '' @ join_words pkgs"

definition mkdir_line :: string where "mkdir_line = ''RUN mkdir -p /workspace /output /data''"
definition workdir_line :: string where "workdir_line = ''WORKDIR /workspace''"

definition generateDockerfile :: "string \<Rightarrow> string list \<Rightarrow> string list \<Rightarrow> string" where
  "generateDockerfile baseImage aptPkgs pyPkgs =
     ''FROM '' @ baseImage @ [newline] @
     (if aptPkgs \<noteq> [] then apt_line aptPkgs @ [newline] else []) @
     (if pyPkgs \<noteq> [] then pip_line pyPkgs @ [newline] else []) @
     mkdir_line @ [newline] @ workdir_line @ [newline]"

definition localBuildRef :: "string \<Rightarrow> string" where
  "localBuildRef buildID = ''local/stacyvm-env:'' @ take 8 buildID"

definition buildLocalImage ::
  "('e build_env_scheme) \<Rightarrow> string \<Rightarrow> string list \<Rightarrow> string list \<Rightarrow> string \<Rightarrow> env_manager \<Rightarrow> error option \<times> env_manager" where
  "buildLocalImage E baseImage aptPkgs pyPkgs tag s =
     (let (d, s) = env_do E MkdirTemp s in
      case d of
        Inl e \<Rightarrow> (Some (wrap_err ''create build temp dir'' e), s)
      | Inr tmpDir \<Rightarrow>
          (let df = generateDockerfile baseImage aptPkgs pyPkgs;
               (w, s) = env_do E (WriteDockerfile (tmpDir @ ''/Dockerfile'') df) s;
               (r, s) = (case w of
                   Inl e \<Rightarrow> (Some (wrap_err ''write Dockerfile'' e), s)
                 | Inr _ \<Rightarrow>
                     (let (b, s) = env_do E (Run [] ''docker'' [''build'', ''-t'', tag, tmpDir]) s
                      in (case b of Inl e \<Rightarrow> Some (wrap_err ''docker build failed'' e) | Inr _ \<Rightarrow> None, s)))
           in (r, snd (env_do E (RemoveAll tmpDir) s))))"

definition inspectImageID :: "('e build_env_scheme) \<Rightarrow> string \<Rightarrow> env_manager \<Rightarrow> (error + string) \<times> env_manager" where
  "inspectImageID E ref s =
     (let (r, s) = env_do E (Run [] ''docker'' [''image'', ''inspect'', ''--format'', ''{{.Id}}'', ref]) s in
      (case r of
         Inl e \<Rightarrow> Inl e
       | Inr out \<Rightarrow> (if TrimSpace out = [] then Inl (Err ErrOther (''empty image id for '' @ ref)) else Inr (TrimSpace out)), s))"

section \<open>Publishing\<close>

definition resolveRegistryConnection ::
  "'e dbenv_scheme \<Rightarrow> string \<Rightarrow> string \<Rightarrow> store \<Rightarrow> error + RegistryConnectionRecord" where
  "resolveRegistryConnection E ownerID target st =
     (case ListRegistryConnections E ownerID st of
        Inl e \<Rightarrow> Inl (wrap_err ''list registry connections'' e)
      | Inr conns \<Rightarrow>
          (let mine = filter (\<lambda>c. rg_Provider c = target) conns in
           case List.find rg_IsDefault mine of
             Some c \<Rightarrow> Inr c
           | None \<Rightarrow>
               (case mine of
                  c # _ \<Rightarrow> Inr c
                | [] \<Rightarrow> Inl (Err ErrOther (''no registry connection configured for owner='' @ Quote ownerID @ '' provider='' @ Quote target)))))"

definition registryHostForTarget :: "string \<Rightarrow> string" where
  "registryHostForTarget target =
     (if target = ''ghcr'' then ''ghcr.io'' else if target = ''dockerhub'' then ''docker.io'' else [])"

definition extractTag :: "string \<Rightarrow> string" where
  "extractTag ref =
     (let ref = TrimSpace ref in
      case last_index_of (CHR '':'') ref of
        None \<Rightarrow> ''latest''
      | Some c \<Rightarrow>
          if (case last_index_of slash ref of None \<Rightarrow> True | Some k \<Rightarrow> k < c) \<and> c + 1 < length ref
          then TrimSpace (drop (c + 1) ref) else ''latest'')"

definition buildRegistryImageRef :: "string \<Rightarrow> string \<Rightarrow> string \<Rightarrow> string" where
  "buildRegistryImageRef target username requestedRef =
     (let host = registryHostForTarget target; ns = ToLower (TrimSpace username) in
      if host = [] then [] else if ns = [] then []
      else host @ ''/'' @ ns @ ''/stacyvm-env:'' @ extractTag requestedRef)"

definition login_args :: "string \<Rightarrow> string \<Rightarrow> string list" where
  "login_args target user =
     [''login'', ''-u'', user, ''--password-stdin''] @ (if target = ''ghcr'' then [registryHostForTarget target] else [])"

text \<open>The reference of the published image, as far as it was computed, and the error.\<close>

definition publishToTarget ::
  "('e build_env_scheme) \<Rightarrow> string \<Rightarrow> string \<Rightarrow> string \<Rightarrow> string \<Rightarrow> env_manager \<Rightarrow> string \<times> error option \<times> env_manager" where
  "publishToTarget E ownerID target sourceTag requestedRef s =
     (case resolveRegistryConnection E ownerID target (em_store s) of
        Inl e \<Rightarrow> ([], Some e, s)
      | Inr conn \<Rightarrow>
          if registryHostForTarget target = [] then ([], Some (Err ErrOther (''unsupported publish target '' @ Quote target)), s)
          else
            (let targetRef = buildRegistryImageRef target (rg_Username conn) requestedRef in
             if targetRef = [] then ([], Some (Err ErrOther (''could not compute target image ref for '' @ Quote target)), s)
             else
               (let (l, s) = env_do E (Run (rg_SecretRef conn) ''docker'' (login_args target (rg_Username conn))) s in
                case l of
                  Inl e \<Rightarrow> (targetRef, Some (wrap_err (''docker login '' @ target @ '' failed'') e), s)
                | Inr _ \<Rightarrow>
                    (let (t, s) = env_do E (Run [] ''docker'' [''tag'', sourceTag, targetRef]) s in
                     case t of
                       Inl e \<Rightarrow> (targetRef, Some (wrap_err ''docker tag failed'' e), s)
                     | Inr _ \<Rightarrow>
                         (let (p, s) = env_do E (Run [] ''docker'' [''push'', targetRef]) s in
                          (targetRef, (case p of Inl e \<Rightarrow> Some (wrap_err ''docker push failed'' e) | Inr _ \<Rightarrow> None), s))))))"

section \<open>One build\<close>

abbreviation BuildStatusQueued :: string where "BuildStatusQueued \<equiv> ''queued''"
abbreviation BuildStatusBuilding :: string where "BuildStatusBuilding \<equiv> ''building''"
abbreviation BuildStatusReady :: string where "BuildStatusReady \<equiv> ''ready''"
abbreviation BuildStatusFailed :: string where "BuildStatusFailed \<equiv> ''failed''"
abbreviation BuildStatusCanceled :: string where "BuildStatusCanceled \<equiv> ''canceled''"

text \<open>The record in hand is changed first, then written as a whole.\<close>

definition updateBuild ::
  "'e dbenv_scheme \<Rightarrow> string \<Rightarrow> string \<Rightarrow> string \<Rightarrow> string \<Rightarrow> EnvironmentBuildRecord \<Rightarrow> env_manager
     \<Rightarrow> error option \<times> EnvironmentBuildRecord \<times> env_manager" where
  "updateBuild E status step logLine errLine b s =
     (let b = b\<lparr>eb_Status := status, eb_CurrentStep := step,
            eb_LogBlob := (if logLine = [] then eb_LogBlob b
                           else if eb_LogBlob b = [] then logLine else eb_LogBlob b @ newline # logLine),
            eb_Error := (if errLine \<noteq> [] then errLine else eb_Error b), eb_UpdatedAt := db_now E\<rparr>;
          (r, st) = UpdateEnvironmentBuild E b (em_store s)
      in (r, b, s\<lparr>em_store := st\<rparr>))"

definition failBuild ::
  "'e dbenv_scheme \<Rightarrow> string \<Rightarrow> string \<Rightarrow> EnvironmentBuildRecord \<Rightarrow> env_manager \<Rightarrow> error option \<times> env_manager" where
  "failBuild E step msg b s =
     (let (r, b, s) = updateBuild E BuildStatusFailed step msg msg (b\<lparr>eb_FinishedAt := Some (db_now E)\<rparr>) s in (r, s))"

text \<open>Going on after an update that succeeded.\<close>

definition and_build ::
  "error option \<times> EnvironmentBuildRecord \<times> env_manager
     \<Rightarrow> (EnvironmentBuildRecord \<Rightarrow> env_manager \<Rightarrow> error option \<times> env_manager) \<Rightarrow> error option \<times> env_manager" where
  "and_build r f = (case r of (Some e, b, s) \<Rightarrow> (Some e, s) | (None, b, s) \<Rightarrow> f b s)"

text \<open>One target: whether its image is ready, and what is recorded of it.\<close>

definition build_target ::
  "('e build_env_scheme) \<Rightarrow> string \<Rightarrow> string \<Rightarrow> EnvironmentArtifactRecord \<Rightarrow> EnvironmentBuildRecord \<Rightarrow> env_manager
     \<Rightarrow> bool \<times> EnvironmentArtifactRecord \<times> EnvironmentBuildRecord \<times> env_manager" where
  "build_target E ownerID localRef a b s =
     (if ar_Target a = ''local'' then
        (let (r, s) = inspectImageID E localRef s in
         case r of
           Inl e \<Rightarrow> (False, a\<lparr>ar_Status := ''failed'', ar_Error := ''inspect local image: '' @ err_msg e\<rparr>, b, s)
         | Inr i \<Rightarrow> (True, a\<lparr>ar_Status := ''ready'', ar_Error := [], ar_Digest := i\<rparr>, b\<lparr>eb_DigestLocal := i\<rparr>, s))
      else if ar_Target a = ''ghcr'' \<or> ar_Target a = ''dockerhub'' then
        (let (finalRef, err, s) = publishToTarget E ownerID (ar_Target a) localRef (ar_ImageRef a) s;
             a = (if finalRef \<noteq> [] then a\<lparr>ar_ImageRef := finalRef\<rparr> else a) in
         case err of
           Some e \<Rightarrow> (False, a\<lparr>ar_Status := ''failed'', ar_Error := err_msg e\<rparr>, b, s)
         | None \<Rightarrow>
             (let a = a\<lparr>ar_Status := ''ready'', ar_Error := []\<rparr>;
                  (r, s) = inspectImageID E (ar_ImageRef a) s
              in (True, (case r of Inl _ \<Rightarrow> a | Inr i \<Rightarrow> a\<lparr>ar_Digest := i\<rparr>), b, s)))
      else (False, a\<lparr>ar_Status := ''failed'', ar_Error := ''unsupported target''\<rparr>, b, s))"

fun build_targets ::
  "('e build_env_scheme) \<Rightarrow> string \<Rightarrow> string \<Rightarrow> EnvironmentArtifactRecord list \<Rightarrow> bool \<Rightarrow> EnvironmentBuildRecord \<Rightarrow> env_manager
     \<Rightarrow> error option \<times> env_manager" where
  "build_targets E ownerID localRef [] allReady b s =
     (let b = b\<lparr>eb_ImageSizeBytes := 0, eb_FinishedAt := Some (db_now E)\<rparr>;
          (r, b, s) =
            (if allReady then updateBuild E BuildStatusReady ''finalize'' ''build completed'' [] b s
             else updateBuild E BuildStatusFailed ''finalize'' ''build completed with target failures''
                    ''one or more publish targets failed'' b s)
      in (r, s))"
| "build_targets E ownerID localRef (a # as) allReady b s =
     (let (ok, a, b, s) = build_target E ownerID localRef a b s;
          (r, st) = SaveEnvironmentArtifact E a (em_store s); s = s\<lparr>em_store := st\<rparr> in
      case r of
        Some e \<Rightarrow> failBuild E ''tag_and_push_targets'' (''save artifact '' @ ar_Target a @ '': '' @ err_msg e) b s
      | None \<Rightarrow> build_targets E ownerID localRef as (allReady \<and> ok) b s)"

definition local_ref :: "string \<Rightarrow> EnvironmentArtifactRecord list \<Rightarrow> string" where
  "local_ref buildID as = (case List.find (\<lambda>a. ar_Target a = ''local'') as of Some a \<Rightarrow> ar_ImageRef a | None \<Rightarrow> localBuildRef buildID)"

definition build_image ::
  "('e build_env_scheme) \<Rightarrow> EnvironmentSpecRecord \<Rightarrow> EnvironmentArtifactRecord list \<Rightarrow> EnvironmentBuildRecord \<Rightarrow> env_manager
     \<Rightarrow> error option \<times> env_manager" where
  "build_image E spec as b s =
     (let ref = local_ref (eb_ID b) as in
      and_build (updateBuild E BuildStatusBuilding ''docker_build'' ''docker build started'' [] b s) (\<lambda>b s.
        let (r, s) = buildLocalImage E (es_BaseImage spec) (es_AptPackages spec) (es_PythonPackages spec) ref s in
        case r of
          Some e \<Rightarrow> failBuild E ''docker_build'' (err_msg e) b s
        | None \<Rightarrow>
            and_build (updateBuild E BuildStatusBuilding ''docker_build'' ''docker build completed'' [] b s) (\<lambda>b s.
              let (i, s) = inspectImageID E ref s;
                  b = (case i of Inl _ \<Rightarrow> b | Inr d \<Rightarrow> b\<lparr>eb_DigestLocal := d\<rparr>)
              in build_targets E (es_OwnerID spec) ref as True b s)))"

definition build_spec ::
  "('e build_env_scheme) \<Rightarrow> EnvironmentSpecRecord \<Rightarrow> EnvironmentBuildRecord \<Rightarrow> env_manager \<Rightarrow> error option \<times> env_manager" where
  "build_spec E spec b s =
     (if TrimSpace (es_BaseImage spec) = [] then failBuild E ''validate_spec'' ''base_image is empty'' b s
      else case validatePackages (es_PythonPackages spec) of
        Some e \<Rightarrow> failBuild E ''validate_spec'' (''invalid python package list: '' @ err_msg e) b s
      | None \<Rightarrow>
      (case validatePackages (es_AptPackages spec) of
        Some e \<Rightarrow> failBuild E ''validate_spec'' (''invalid apt package list: '' @ err_msg e) b s
      | None \<Rightarrow>
      and_build (updateBuild E BuildStatusBuilding ''validate_spec''
          (''validated packages: pip='' @ Itoa (int (length (es_PythonPackages spec))) @ '' apt='' @ Itoa (int (length (es_AptPackages spec)))) [] b s)
        (\<lambda>b s. and_build (updateBuild E BuildStatusBuilding ''generate_dockerfile'' ''dockerfile generated'' [] b s)
          (\<lambda>b s.
            case ListEnvironmentArtifacts E (eb_ID b) (em_store s) of
              Inl e \<Rightarrow> failBuild E ''tag_and_push_targets'' (''list artifacts: '' @ err_msg e) b s
            | Inr as \<Rightarrow>
                if as = [] then failBuild E ''tag_and_push_targets'' ''no artifacts requested'' b s
                else build_image E spec as b s))))"

definition finalized :: "string \<Rightarrow> bool" where
  "finalized st \<longleftrightarrow> st = BuildStatusCanceled \<or> st = BuildStatusReady \<or> st = BuildStatusFailed"

definition processBuild :: "('e build_env_scheme) \<Rightarrow> string \<Rightarrow> env_manager \<Rightarrow> error option \<times> env_manager" where
  "processBuild E buildID s =
     (case GetEnvironmentBuild E buildID (em_store s) of
        Inl e \<Rightarrow> (Some e, s)
      | Inr b \<Rightarrow>
          if finalized (eb_Status b) then (None, s)
          else
            and_build (updateBuild E BuildStatusBuilding ''validate_spec'' ''build started'' [] b s) (\<lambda>b s.
              case GetEnvironmentSpec E (eb_SpecID b) (em_store s) of
                Inl e \<Rightarrow> failBuild E ''validate_spec'' (''load spec: '' @ err_msg e) b s
              | Inr spec \<Rightarrow> build_spec E spec b s))"

text \<open>
  A turn of a worker: the oldest job; a worker of a stopped manager may end instead (\<open>quit\<close>), and does when
  there is none.
\<close>

definition worker_turn :: "bool \<Rightarrow> ('e build_env_scheme) \<Rightarrow> env_manager \<Rightarrow> env_manager" where
  "worker_turn quit E s =
     (if em_stopped s \<and> quit then s
      else case em_jobs s of [] \<Rightarrow> s | j # js \<Rightarrow> snd (processBuild E j (s\<lparr>em_jobs := js\<rparr>)))"

end
