(* ===== verification/API_Environments.thy ===== *)
theory API_Environments
  imports Environments API_Sandboxes
begin

text \<open>
  The routes of environments (\<open>internal/api/routes/environments.go\<close>): specifications, builds and
  registry connections.  A route answers an error reply or a status with its data; a body is the
  decoded request, \<open>None\<close> when it does not decode.  Fresh ids (\<open>uuid\<close>) are arguments.
\<close>

type_synonym 'a answered = "reply + nat \<times> 'a"

abbreviation bad_request :: "string \<Rightarrow> reply" where "bad_request msg \<equiv> WriteError 400 ''BAD_REQUEST'' msg"
abbreviation internal :: "error \<Rightarrow> reply" where "internal e \<equiv> WriteError 500 ''INTERNAL_ERROR'' (err_msg e)"

definition on_env_store :: "(store \<Rightarrow> 'a \<times> store) \<Rightarrow> env_manager \<Rightarrow> 'a \<times> env_manager" where
  "on_env_store f s = (let (r, st) = f (em_store s) in (r, s\<lparr>em_store := st\<rparr>))"

section \<open>Specifications\<close>

fun clean_list :: "string list \<Rightarrow> string list \<Rightarrow> string list" where
  "clean_list seen [] = []"
| "clean_list seen (x # xs) =
     (let v = TrimSpace x in
      if v = [] \<or> v \<in> set seen then clean_list seen xs else v # clean_list (v # seen) xs)"

definition cleanStringList :: "string list \<Rightarrow> string list" where
  "cleanStringList xs = clean_list [] xs"

record createSpecRequest =
  cs_OwnerID :: string
  cs_Name :: string
  cs_BaseImage :: string
  cs_PythonPackages :: "string list"
  cs_AptPackages :: "string list"
  cs_PythonVersion :: string

definition CreateSpec ::
  "'e dbenv_scheme \<Rightarrow> string \<Rightarrow> createSpecRequest option \<Rightarrow> env_manager \<Rightarrow> EnvironmentSpecRecord answered \<times> env_manager" where
  "CreateSpec E uuid body s =
     (case body of
        None \<Rightarrow> (Inl (bad_request ''invalid request body''), s)
      | Some req \<Rightarrow>
          (let owner = TrimSpace (cs_OwnerID req); name = TrimSpace (cs_Name req); base = TrimSpace (cs_BaseImage req) in
           if owner = [] \<or> name = [] \<or> base = []
           then (Inl (bad_request ''owner_id, name, and base_image are required''), s)
           else
             (let rec = \<lparr>es_ID = uuid, es_OwnerID = owner, es_Name = name, es_BaseImage = base,
                    es_PythonPackages = cleanStringList (cs_PythonPackages req),
                    es_AptPackages = cleanStringList (cs_AptPackages req),
                    es_PythonVersion = TrimSpace (cs_PythonVersion req), es_CreatedAt = db_now E, es_UpdatedAt = db_now E\<rparr>;
                  (r, s) = on_env_store (CreateEnvironmentSpec E rec) s
              in (case r of Some e \<Rightarrow> Inl (writeRouteError e) | None \<Rightarrow> Inr (201, rec), s))))"

definition ListSpecs :: "'e dbenv_scheme \<Rightarrow> string \<Rightarrow> env_manager \<Rightarrow> EnvironmentSpecRecord list answered" where
  "ListSpecs E owner_id s =
     (let owner = TrimSpace owner_id in
      if owner = [] then Inl (bad_request ''owner_id query parameter required'')
      else case ListEnvironmentSpecs E owner (em_store s) of Inl e \<Rightarrow> Inl (internal e) | Inr specs \<Rightarrow> Inr (200, specs))"

definition GetSpec :: "'e dbenv_scheme \<Rightarrow> string \<Rightarrow> env_manager \<Rightarrow> EnvironmentSpecRecord answered" where
  "GetSpec E i s = (case GetEnvironmentSpec E i (em_store s) of Inl e \<Rightarrow> Inl (writeRouteError e) | Inr r \<Rightarrow> Inr (200, r))"

definition Suggestions :: "'e dbenv_scheme \<Rightarrow> string \<Rightarrow> env_manager \<Rightarrow> string list answered" where
  "Suggestions E i s =
     (case GetEnvironmentSpec E i (em_store s) of
        Inl e \<Rightarrow> Inl (writeRouteError e)
      | Inr r \<Rightarrow> Inr (200, [''pytest'', ''requests'', ''python-dotenv'']
          @ (if contains ''python'' (ToLower (es_BaseImage r)) then [''pandas'', ''numpy''] else [])))"

section \<open>Builds\<close>

fun distinct_targets :: "string list \<Rightarrow> string list \<Rightarrow> error + string list" where
  "distinct_targets seen [] = Inr []"
| "distinct_targets seen (t # ts) =
     (let t = ToLower (TrimSpace t) in
      if t \<notin> {''local'', ''ghcr'', ''dockerhub''}
      then Inl (Err ErrOther (''invalid target '' @ Quote t @ '' (allowed: local, ghcr, dockerhub)''))
      else if t \<in> set seen then distinct_targets seen ts
      else case distinct_targets (t # seen) ts of Inl e \<Rightarrow> Inl e | Inr us \<Rightarrow> Inr (t # us))"

definition normalizeTargets :: "string list \<Rightarrow> error + string list" where
  "normalizeTargets input = (if input = [] then Inr [''local''] else distinct_targets [] input)"

definition tag_char :: "char \<Rightarrow> bool" where
  "tag_char c \<longleftrightarrow> (let n = of_char c :: nat in 97 \<le> n \<and> n \<le> 122 \<or> 48 \<le> n \<and> n \<le> 57) \<or> c \<in> set ''._-''"

text \<open>\<open>tagSanitizer\<close>: a run of other characters becomes one dash.\<close>

fun sanitize :: "bool \<Rightarrow> string \<Rightarrow> string" where
  "sanitize run [] = []"
| "sanitize run (c # s) =
     (if tag_char c then c # sanitize False s else if run then sanitize True s else CHR ''-'' # sanitize True s)"

definition trim_dashes :: "string \<Rightarrow> string" where
  "trim_dashes s = rev (dropWhile (\<lambda>c. c = CHR ''-'') (rev (dropWhile (\<lambda>c. c = CHR ''-'') s)))"

definition buildTag :: "string \<Rightarrow> string \<Rightarrow> string" where
  "buildTag name buildID =
     (let n = ToLower (TrimSpace name);
          n = map (\<lambda>c. if c = CHR '' '' then CHR ''-'' else c) n;
          n = trim_dashes (sanitize False n);
          n = (if n = [] then ''env'' else n)
      in take 24 n @ ''-'' @ take 8 buildID)"

definition plannedImageRef :: "EnvironmentSpecRecord \<Rightarrow> string \<Rightarrow> string \<Rightarrow> string" where
  "plannedImageRef spec buildID target =
     (if target = ''ghcr'' then ''ghcr.io/registry-user/stacyvm-env:'' @ buildTag (es_Name spec) buildID
      else if target = ''dockerhub'' then ''docker.io/registry-user/stacyvm-env:'' @ buildTag (es_Name spec) buildID
      else ''local/stacyvm-env:'' @ buildTag (es_Name spec) buildID)"

type_synonym build_response = "EnvironmentBuildRecord \<times> EnvironmentArtifactRecord list"

definition getBuildResponse :: "'e dbenv_scheme \<Rightarrow> string \<Rightarrow> store \<Rightarrow> error + build_response" where
  "getBuildResponse E i st =
     (case GetEnvironmentBuild E i st of
        Inl e \<Rightarrow> Inl e
      | Inr b \<Rightarrow> (case ListEnvironmentArtifacts E i st of Inl e \<Rightarrow> Inl e | Inr as \<Rightarrow> Inr (b, as)))"

fun save_artifacts :: "'e dbenv_scheme \<Rightarrow> EnvironmentArtifactRecord list \<Rightarrow> store \<Rightarrow> error option \<times> store" where
  "save_artifacts E [] st = (None, st)"
| "save_artifacts E (a # as) st =
     (let (r, st) = SaveEnvironmentArtifact E a st in case r of Some e \<Rightarrow> (Some e, st) | None \<Rightarrow> save_artifacts E as st)"

definition StartBuild ::
  "bool \<Rightarrow> 'e dbenv_scheme \<Rightarrow> string \<Rightarrow> (string \<times> string list) option \<Rightarrow> env_manager \<Rightarrow> build_response answered \<times> env_manager" where
  "StartBuild quit E uuid body s =
     (case body of
        None \<Rightarrow> (Inl (bad_request ''invalid request body''), s)
      | Some (spec_id, targets) \<Rightarrow>
          (let specID = TrimSpace spec_id in
           if specID = [] then (Inl (bad_request ''spec_id is required''), s)
           else case GetEnvironmentSpec E specID (em_store s) of
             Inl e \<Rightarrow> (Inl (writeRouteError e), s)
           | Inr spec \<Rightarrow>
          (case normalizeTargets targets of
             Inl e \<Rightarrow> (Inl (bad_request (err_msg e)), s)
           | Inr targets \<Rightarrow>
          (let now = db_now E;
               b = \<lparr>eb_ID = uuid, eb_SpecID = specID, eb_Status = BuildStatusQueued, eb_CurrentStep = ''queued'',
                    eb_LogBlob = ''build queued'', eb_ImageSizeBytes = 0, eb_DigestLocal = [], eb_Error = [],
                    eb_CreatedAt = now, eb_FinishedAt = None, eb_UpdatedAt = now\<rparr>;
               (r, s) = on_env_store (CreateEnvironmentBuild E b) s in
           case r of
             Some e \<Rightarrow> (Inl (internal e), s)
           | None \<Rightarrow>
               (let artifact = (\<lambda>t. \<lparr>ar_BuildID = uuid, ar_Target = t, ar_ImageRef = plannedImageRef spec uuid t, ar_Digest = [],
                      ar_Status = ''pending'', ar_Error = [], ar_CreatedAt = now, ar_UpdatedAt = now\<rparr>);
                    (r, s) = on_env_store (save_artifacts E (map artifact targets)) s in
                case r of
                  Some e \<Rightarrow> (Inl (internal e), s)
                | None \<Rightarrow>
                    (case getBuildResponse E uuid (em_store s) of
                       Inl e \<Rightarrow> (Inl (internal e), s)
                     | Inr (b, as) \<Rightarrow>
                         (let (q, s) = Enqueue quit uuid s;
                              b = (case q of None \<Rightarrow> b
                                   | Some e \<Rightarrow> b\<lparr>eb_Error := ''build queued but worker enqueue failed: '' @ err_msg e\<rparr>)
                          in (Inr (201, (b, as)), s))))))))"

definition GetBuild :: "'e dbenv_scheme \<Rightarrow> string \<Rightarrow> env_manager \<Rightarrow> build_response answered" where
  "GetBuild E i s = (case getBuildResponse E i (em_store s) of Inl e \<Rightarrow> Inl (writeRouteError e) | Inr r \<Rightarrow> Inr (200, r))"

fun build_responses :: "'e dbenv_scheme \<Rightarrow> EnvironmentBuildRecord list \<Rightarrow> store \<Rightarrow> error + build_response list" where
  "build_responses E [] st = Inr []"
| "build_responses E (b # bs) st =
     (case getBuildResponse E (eb_ID b) st of
        Inl e \<Rightarrow> Inl e
      | Inr r \<Rightarrow> (case build_responses E bs st of Inl e \<Rightarrow> Inl e | Inr rs \<Rightarrow> Inr (r # rs)))"

fun build_items :: "'e dbenv_scheme \<Rightarrow> EnvironmentSpecRecord list \<Rightarrow> store \<Rightarrow> error + (build_response \<times> EnvironmentSpecRecord) list" where
  "build_items E [] st = Inr []"
| "build_items E (spec # specs) st =
     (case ListEnvironmentBuilds E (es_ID spec) st of
        Inl e \<Rightarrow> Inl e
      | Inr bs \<Rightarrow>
          (case build_responses E bs st of
             Inl e \<Rightarrow> Inl e
           | Inr rs \<Rightarrow>
               (case build_items E specs st of Inl e \<Rightarrow> Inl e | Inr items \<Rightarrow> Inr (map (\<lambda>r. (r, spec)) rs @ items))))"

definition ListBuilds ::
  "'e dbenv_scheme \<Rightarrow> string \<Rightarrow> string \<Rightarrow> env_manager \<Rightarrow> (build_response \<times> EnvironmentSpecRecord) list answered" where
  "ListBuilds E owner_id limit s =
     (let owner = TrimSpace owner_id; raw = TrimSpace limit in
      if owner = [] then Inl (bad_request ''owner_id query parameter required'')
      else case (if raw = [] then Some 30 else case Atoi raw of Some n \<Rightarrow> if n \<le> 0 \<or> n > 200 then None else Some n | None \<Rightarrow> None) of
        None \<Rightarrow> Inl (bad_request ''limit must be between 1 and 200'')
      | Some n \<Rightarrow>
          (case ListEnvironmentSpecs E owner (em_store s) of
             Inl e \<Rightarrow> Inl (internal e)
           | Inr specs \<Rightarrow>
               (case build_items E specs (em_store s) of
                  Inl e \<Rightarrow> Inl (internal e)
                | Inr items \<Rightarrow> Inr (200, take (nat n) (sort_key (\<lambda>i. - eb_CreatedAt (fst (fst i))) items)))))"

definition CancelBuild :: "'e dbenv_scheme \<Rightarrow> string \<Rightarrow> env_manager \<Rightarrow> build_response answered \<times> env_manager" where
  "CancelBuild E buildID s =
     (case GetEnvironmentBuild E buildID (em_store s) of
        Inl e \<Rightarrow> (Inl (writeRouteError e), s)
      | Inr b \<Rightarrow>
          if finalized (eb_Status b) then (Inl (WriteError 409 ''CONFLICT'' ''build already finalized''), s)
          else
            (let b = b\<lparr>eb_Status := BuildStatusCanceled, eb_CurrentStep := ''canceled'', eb_Error := ''build canceled by user'',
                   eb_FinishedAt := Some (db_now E), eb_UpdatedAt := db_now E\<rparr>;
                 (r, s) = on_env_store (UpdateEnvironmentBuild E b) s in
             case r of
               Some e \<Rightarrow> (Inl (internal e), s)
             | None \<Rightarrow> (case getBuildResponse E (eb_ID b) (em_store s) of Inl e \<Rightarrow> Inl (internal e) | Inr r \<Rightarrow> Inr (200, r), s)))"

section \<open>The image to spawn\<close>

definition targetOrder :: "string \<Rightarrow> int" where
  "targetOrder t = (if t = ''local'' then 0 else if t = ''ghcr'' then 1 else if t = ''dockerhub'' then 2 else 99)"

record spawn_config =
  sc_BuildStatus :: string
  sc_Ready :: bool
  sc_Artifact :: EnvironmentArtifactRecord

definition SpawnConfig :: "'e dbenv_scheme \<Rightarrow> string \<Rightarrow> env_manager \<Rightarrow> spawn_config answered" where
  "SpawnConfig E buildID s =
     (case GetEnvironmentBuild E buildID (em_store s) of
        Inl e \<Rightarrow> Inl (writeRouteError e)
      | Inr b \<Rightarrow>
          (case ListEnvironmentArtifacts E buildID (em_store s) of
             Inl e \<Rightarrow> Inl (internal e)
           | Inr [] \<Rightarrow> Inl (WriteError 404 ''NOT_FOUND'' ''no artifacts found for build'')
           | Inr (a # as) \<Rightarrow>
               (let sorted = sort_key (\<lambda>a. targetOrder (ar_Target a)) (a # as);
                    selected = (case List.find (\<lambda>a. ar_Status a = ''ready'') sorted of Some r \<Rightarrow> r | None \<Rightarrow> hd sorted)
                in Inr (200, \<lparr>sc_BuildStatus = eb_Status b,
                     sc_Ready = (eb_Status b = BuildStatusReady \<or> ar_Status selected = ''ready''), sc_Artifact = selected\<rparr>))))"

section \<open>Registry connections\<close>

record saveRegistryConnectionRequest =
  sg_ID :: string
  sg_OwnerID :: string
  sg_Provider :: string
  sg_Username :: string
  sg_SecretRef :: string
  sg_IsDefault :: bool

text \<open>The replies leave the secret out: a connection is answered without it.\<close>

definition toRegistryConnectionResponse :: "RegistryConnectionRecord \<Rightarrow> RegistryConnectionRecord" where
  "toRegistryConnectionResponse c = c\<lparr>rg_SecretRef := []\<rparr>"

definition route_SaveRegistryConnection ::
  "'e dbenv_scheme \<Rightarrow> string \<Rightarrow> saveRegistryConnectionRequest option \<Rightarrow> env_manager \<Rightarrow> RegistryConnectionRecord answered \<times> env_manager" where
  "route_SaveRegistryConnection E uuid body s =
     (case body of
        None \<Rightarrow> (Inl (bad_request ''invalid request body''), s)
      | Some req \<Rightarrow>
          (let owner = TrimSpace (sg_OwnerID req); prov = ToLower (TrimSpace (sg_Provider req));
               user = TrimSpace (sg_Username req); secret = TrimSpace (sg_SecretRef req) in
           if owner = [] \<or> prov = [] \<or> user = [] \<or> secret = []
           then (Inl (bad_request ''owner_id, provider, username, and secret_ref are required''), s)
           else if prov \<noteq> ''ghcr'' \<and> prov \<noteq> ''dockerhub''
           then (Inl (bad_request ''provider must be one of: ghcr, dockerhub''), s)
           else
             (let rec = \<lparr>rg_ID = (if TrimSpace (sg_ID req) = [] then uuid else sg_ID req), rg_OwnerID = owner, rg_Provider = prov,
                    rg_Username = user, rg_SecretRef = secret, rg_IsDefault = sg_IsDefault req,
                    rg_CreatedAt = db_now E, rg_UpdatedAt = db_now E\<rparr>;
                  (r, s) = on_env_store (SaveRegistryConnection E rec) s
              in (case r of Some e \<Rightarrow> Inl (writeRouteError e) | None \<Rightarrow> Inr (201, toRegistryConnectionResponse rec), s))))"

definition route_ListRegistryConnections :: "'e dbenv_scheme \<Rightarrow> string \<Rightarrow> env_manager \<Rightarrow> RegistryConnectionRecord list answered" where
  "route_ListRegistryConnections E owner_id s =
     (let owner = TrimSpace owner_id in
      if owner = [] then Inl (bad_request ''owner_id query parameter required'')
      else case ListRegistryConnections E owner (em_store s) of
        Inl e \<Rightarrow> Inl (internal e)
      | Inr cs \<Rightarrow> Inr (200, map toRegistryConnectionResponse cs))"

definition route_DeleteRegistryConnection :: "'e dbenv_scheme \<Rightarrow> string \<Rightarrow> env_manager \<Rightarrow> string answered \<times> env_manager" where
  "route_DeleteRegistryConnection E i s =
     (let (r, s) = on_env_store (DeleteRegistryConnection E i) s
      in (case r of Some e \<Rightarrow> Inl (writeRouteError e) | None \<Rightarrow> Inr (200, ''deleted''), s))"

end
