(* ===== verification/Environments_Laws.thy ===== *)
theory Environments_Laws
  imports API_Environments
begin

text \<open>
  What a build guarantees: the Dockerfile it writes, the commands it runs, what a finished build
  says of its images, and what becomes of a cancellation.
\<close>

section \<open>The Dockerfile\<close>

lemma clean_list_trimmed: "v \<in> set (clean_list seen xs) \<Longrightarrow> TrimSpace v = v \<and> v \<noteq> []"
  by (induction seen xs rule: clean_list.induct) (auto simp: Let_def split: if_splits)

lemma clean_list_distinct: "distinct (clean_list seen xs) \<and> set (clean_list seen xs) \<inter> set seen = {}"
  by (induction seen xs rule: clean_list.induct) (auto simp: Let_def)

lemma validatePackages_None: "validatePackages ps = None \<Longrightarrow> p \<in> set ps \<Longrightarrow> TrimSpace p \<noteq> [] \<Longrightarrow> list_all safe_char (TrimSpace p)"
  by (induction ps rule: validatePackages.induct) (auto simp: Let_def split: if_splits)

lemma safe_char_blank [simp]: "\<not> safe_char newline" "\<not> safe_char (CHR '' '')"
  by (simp_all add: safe_char_def Let_def)

lemma newline_join_words: "newline \<notin> set (join_words ps) \<longleftrightarrow> (\<forall>p\<in>set ps. newline \<notin> set p)"
  by (induction ps rule: join_words.induct) auto

lemma split_line: "newline \<notin> set l \<Longrightarrow> split_on newline (l @ newline # r) = l # split_on newline r"
  by (simp add: split_on_append split_on_id)

definition dockerfile_lines :: "string list \<Rightarrow> string list \<Rightarrow> string list" where
  "dockerfile_lines apt py =
     (if apt = [] then [] else [apt_line apt]) @ (if py = [] then [] else [pip_line py]) @ [mkdir_line, workdir_line]"

lemma split_lines: "\<forall>l\<in>set ls. newline \<notin> set l \<Longrightarrow> split_on newline (concat (map (\<lambda>l. l @ [newline]) ls)) = ls @ [[]]"
  by (induction ls) (simp_all add: split_line)

lemma generateDockerfile_text:
  "generateDockerfile base apt py = (''FROM '' @ base) @ newline # concat (map (\<lambda>l. l @ [newline]) (dockerfile_lines apt py))"
  by (simp add: generateDockerfile_def dockerfile_lines_def)

lemma Dockerfile_lines:
  assumes "\<forall>p\<in>set apt \<union> set py. newline \<notin> set p"
  shows "split_on newline (generateDockerfile base apt py) = split_on newline (''FROM '' @ base) @ dockerfile_lines apt py @ [[]]"
proof -
  have "\<forall>l\<in>set (dockerfile_lines apt py). newline \<notin> set l"
    using assms by (simp add: dockerfile_lines_def apt_line_def pip_line_def mkdir_line_def workdir_line_def newline_join_words)
  then show ?thesis by (simp only: generateDockerfile_text split_on_append split_lines)
qed

text \<open>
  C33. The packages of a specification cannot reach beyond their lines of the Dockerfile: whatever
  lists of packages a request names, if the specification it creates passes the validation of a
  build, every package is one word of safe characters, and the Dockerfile is the base image's
  text followed by one line per package manager (if it has packages) and the two fixed lines.
  The base image itself is taken as it is: its line breaks are line breaks of the file.
\<close>

theorem dockerfile_exact:
  assumes "CreateSpec E uuid (Some req) s = (Inr (201, spec), s')"
    and "validatePackages (es_PythonPackages spec) = None" "validatePackages (es_AptPackages spec) = None"
  shows "(\<forall>p\<in>set (es_PythonPackages spec) \<union> set (es_AptPackages spec). p \<noteq> [] \<and> list_all safe_char p) \<and>
    split_on newline (generateDockerfile (es_BaseImage spec) (es_AptPackages spec) (es_PythonPackages spec)) =
      split_on newline (''FROM '' @ es_BaseImage spec) @ dockerfile_lines (es_AptPackages spec) (es_PythonPackages spec) @ [[]]"
proof -
  have "es_PythonPackages spec = cleanStringList (cs_PythonPackages req)" "es_AptPackages spec = cleanStringList (cs_AptPackages req)"
    using assms(1) by (auto simp: CreateSpec_def Let_def on_env_store_def case_prod_beta split: if_splits option.splits)
  then have safe: "p \<noteq> [] \<and> list_all safe_char p" if "p \<in> set (es_PythonPackages spec) \<union> set (es_AptPackages spec)" for p
    using that validatePackages_None [OF assms(2), of p] validatePackages_None [OF assms(3), of p] clean_list_trimmed [of p "[]"]
    by (auto simp: cleanStringList_def)
  then have "\<forall>p\<in>set (es_AptPackages spec) \<union> set (es_PythonPackages spec). newline \<notin> set p"
    using safe_char_blank(1) by (fastforce simp: list_all_iff)
  then show ?thesis using safe Dockerfile_lines by blast
qed

definition sample_spec_request :: createSpecRequest where
  "sample_spec_request = \<lparr>cs_OwnerID = ''bob'', cs_Name = ''ml'', cs_BaseImage = '' python:3.12 '',
     cs_PythonPackages = ['' numpy==2.0'', ''numpy==2.0'', ''pandas'' @ [newline]], cs_AptPackages = [], cs_PythonVersion = []\<rparr>"

theorem dockerfile_exact_witness:
  "split_on newline (generateDockerfile ''python:3.12'' [] [''numpy==2.0'', ''pandas'']) =
     [''FROM python:3.12'', ''RUN pip install --no-cache-dir numpy==2.0 pandas'', ''RUN mkdir -p /workspace /output /data'',
      ''WORKDIR /workspace'', []]"
proof -
  let ?r = "CreateSpec (db_up 5) ''u1'' (Some sample_spec_request) (NewEnvManager empty_store)"
  let ?spec = "snd (projr (fst ?r))"
  have "\<not> isl (fst ?r)" "fst (projr (fst ?r)) = 201" by code_simp+
  then have r: "?r = (Inr (201, ?spec), snd ?r)" by (metis prod.collapse sum.collapse(2))
  have v: "validatePackages (es_PythonPackages ?spec) = None" "validatePackages (es_AptPackages ?spec) = None" by code_simp+
  have f: "es_BaseImage ?spec = ''python:3.12''" "es_AptPackages ?spec = []" "es_PythonPackages ?spec = [''numpy==2.0'', ''pandas'']" by code_simp+
  have l: "split_on newline (''FROM '' @ ''python:3.12'') @ dockerfile_lines [] [''numpy==2.0'', ''pandas''] @ [[]] =
     [''FROM python:3.12'', ''RUN pip install --no-cache-dir numpy==2.0 pandas'', ''RUN mkdir -p /workspace /output /data'',
      ''WORKDIR /workspace'', []]" by code_simp
  show ?thesis using dockerfile_exact [OF r v] by (simp only: f l)
qed

section \<open>The end of a build\<close>

lemma row_by_upd_key:
  assumes "\<And>r. key r = k \<Longrightarrow> key (f r) = k"
  shows "row_by key k (upd_where (\<lambda>r. key r = k) f t) = map_option f (row_by key k t)"
  using assms by (induction t) (auto simp: upd_where_def)

lemma updateBuild_None:
  assumes "updateBuild E status step log err b s = (None, b', s')"
  shows "eb_ID b' = eb_ID b" "em_calls s' = em_calls s" "t_artifacts (em_store s') = t_artifacts (em_store s)"
    "t_registries (em_store s') = t_registries (em_store s)" "t_specs (em_store s') = t_specs (em_store s)"
    "eb_SpecID b' = eb_SpecID b"
    "\<exists>r. row_by eb_ID (eb_ID b) (t_builds (em_store s')) = Some r \<and> eb_Status r = status \<and> eb_FinishedAt r = eb_FinishedAt b"
  using assms
  by (auto simp: updateBuild_def UpdateEnvironmentBuild_def db_write_def update_rows_def Let_def case_prod_beta row_by_upd_key
      rows_affected_key_0 split: option.splits if_splits)

lemma and_build_None:
  assumes "and_build x f = (None, s')"
  obtains b s1 where "x = (None, b, s1)" "f b s1 = (None, s')"
  using assms by (auto simp: and_build_def split: prod.splits option.splits)

text \<open>The row of a build that has ended at this instant in a status.\<close>

definition ended :: "'e dbenv_scheme \<Rightarrow> string \<Rightarrow> string \<Rightarrow> env_manager \<Rightarrow> bool" where
  "ended E i status s \<longleftrightarrow>
     (\<exists>r. row_by eb_ID i (t_builds (em_store s)) = Some r \<and> eb_Status r = status \<and> eb_FinishedAt r = Some (db_now E))"

lemma ended_unique: "ended E i st s \<Longrightarrow> ended E i st' s \<Longrightarrow> st = st'"
  by (auto simp: ended_def)

lemma updateBuild_ended:
  "updateBuild E status step log err b s = (None, b', s') \<Longrightarrow> eb_FinishedAt b = Some (db_now E) \<Longrightarrow> ended E (eb_ID b) status s'"
  using updateBuild_None(7) by (fastforce simp: ended_def)

lemma failBuild_ended:
  assumes "failBuild E step msg b s = (None, s')"
  shows "ended E (eb_ID b) BuildStatusFailed s'"
proof -
  obtain b' where "updateBuild E BuildStatusFailed step msg msg (b\<lparr>eb_FinishedAt := Some (db_now E)\<rparr>) s = (None, b', s')"
    using assms by (auto simp: failBuild_def split: prod.splits)
  from updateBuild_ended [OF this] show ?thesis by simp
qed

text \<open>Nobody else touches the artifacts while the build runs; what a call does to the store then.\<close>

definition quiet :: "('e build_env_scheme) \<Rightarrow> bool" where
  "quiet E \<longleftrightarrow> (\<forall>h c st. t_artifacts (be_meanwhile E h c st) = t_artifacts st)"

abbreviation artifacts :: "env_manager \<Rightarrow> EnvironmentArtifactRecord list" where
  "artifacts s \<equiv> t_artifacts (em_store s)"

lemma quiet_env_do [simp]: "quiet E \<Longrightarrow> artifacts (snd (env_do E c s)) = artifacts s"
  by (simp add: env_do_def quiet_def)

lemma quiet_docker [simp]:
  assumes "quiet E"
  shows "artifacts (snd (inspectImageID E ref s)) = artifacts s"
    "artifacts (snd (buildLocalImage E base apt py tag s)) = artifacts s"
    "artifacts (snd (snd (publishToTarget E owner target src ref s))) = artifacts s"
  using assms
  by (simp_all add: inspectImageID_def buildLocalImage_def publishToTarget_def Let_def case_prod_beta split: sum.split)

definition artifact_key :: "EnvironmentArtifactRecord \<Rightarrow> string \<times> string" where
  "artifact_key a = (ar_BuildID a, ar_Target a)"

lemma SaveEnvironmentArtifact_key:
  "SaveEnvironmentArtifact E a s = db_write E (OpSaveEnvironmentArtifact (ar_BuildID a) (ar_Target a)) s
     (None, s\<lparr>t_artifacts := upsert_row artifact_key (\<lambda>new old. new\<lparr>ar_CreatedAt := ar_CreatedAt old\<rparr>)
        (a\<lparr>ar_CreatedAt := db_now E, ar_UpdatedAt := db_now E\<rparr>) (t_artifacts s)\<rparr>)"
  by (simp add: SaveEnvironmentArtifact_def artifact_key_def [abs_def])

lemma artifact_key_update [simp]:
  "artifact_key (a\<lparr>ar_CreatedAt := t\<rparr>) = artifact_key a" "artifact_key (a\<lparr>ar_UpdatedAt := t\<rparr>) = artifact_key a"
  by (simp_all add: artifact_key_def)

lemma build_target_facts:
  shows "artifact_key (fst (snd (build_target E owner ref a b s))) = artifact_key a"
    "eb_ID (fst (snd (snd (build_target E owner ref a b s)))) = eb_ID b"
    "fst (build_target E owner ref a b s) \<longrightarrow> ar_Status (fst (snd (build_target E owner ref a b s))) = ''ready''"
    "quiet E \<Longrightarrow> artifacts (snd (snd (snd (build_target E owner ref a b s)))) = artifacts s"
  by (simp_all add: build_target_def artifact_key_def Let_def case_prod_beta split: sum.split option.split)

definition ready_keys :: "env_manager \<Rightarrow> (string \<times> string) set \<Rightarrow> bool" where
  "ready_keys s K \<longleftrightarrow> (\<forall>a\<in>set (artifacts s). artifact_key a \<in> K \<longrightarrow> ar_Status a = ''ready'')"

lemma SaveEnvironmentArtifact_None:
  assumes "SaveEnvironmentArtifact E a st = (None, st')" "x \<in> set (t_artifacts st')"
  shows "artifact_key x = artifact_key a \<and> ar_Status x = ar_Status a \<or> x \<in> set (t_artifacts st) \<and> artifact_key x \<noteq> artifact_key a"
proof (cases "row_by artifact_key (artifact_key a) (t_artifacts st) = None")
  case True
  then have "\<forall>r\<in>set (t_artifacts st). artifact_key r \<noteq> artifact_key a" unfolding row_by_None_iff by (metis (mono_tags, lifting) image_eqI)
  then show ?thesis
    using assms True by (auto simp: SaveEnvironmentArtifact_key db_write_def upsert_row_def split: option.splits)
next
  case False
  then show ?thesis
    using assms by (auto simp: SaveEnvironmentArtifact_key db_write_def upsert_row_def set_upd_where split: option.splits if_splits)
qed

lemma save_ready:
  assumes "SaveEnvironmentArtifact E a st = (None, st')" "ar_Status a = ''ready''" "ready_keys s K" "em_store s = st"
  shows "ready_keys (s\<lparr>em_store := st'\<rparr>) (insert (artifact_key a) K)"
    "artifact_key ` set (t_artifacts st') \<subseteq> insert (artifact_key a) (artifact_key ` set (t_artifacts st))"
  using SaveEnvironmentArtifact_None [OF assms(1)] assms(2-4) by (fastforce simp: ready_keys_def)+

text \<open>If the last update says ready, every target was, and stays as it was saved.\<close>

lemma final_update:
  assumes "build_targets E owner ref [] allReady b s = (None, s')"
  shows "ended E (eb_ID b) (if allReady then BuildStatusReady else BuildStatusFailed) s'" "artifacts s' = artifacts s"
proof -
  let ?b = "b\<lparr>eb_ImageSizeBytes := 0, eb_FinishedAt := Some (db_now E)\<rparr>"
  obtain log err b' where u: "updateBuild E (if allReady then BuildStatusReady else BuildStatusFailed) ''finalize'' log err ?b s = (None, b', s')"
    using assms by (cases allReady) (auto simp: Let_def split: prod.splits)
  show "ended E (eb_ID b) (if allReady then BuildStatusReady else BuildStatusFailed) s'" "artifacts s' = artifacts s"
    using updateBuild_ended [OF u] updateBuild_None(3) [OF u] by simp_all
qed

lemma build_targets_Cons:
  assumes "build_targets E owner ref (a # as) allReady b s = (None, s')"
  obtains (save_failed) "ended E (eb_ID b) BuildStatusFailed s'"
    | (saved) ok a' b1 s1 st where "build_target E owner ref a b s = (ok, a', b1, s1)" "SaveEnvironmentArtifact E a' (em_store s1) = (None, st)"
        "build_targets E owner ref as (allReady \<and> ok) b1 (s1\<lparr>em_store := st\<rparr>) = (None, s')"
proof -
  obtain ok a' b1 s1 where t: "build_target E owner ref a b s = (ok, a', b1, s1)" by (metis prod_cases4)
  obtain r st where sv: "SaveEnvironmentArtifact E a' (em_store s1) = (r, st)" by (cases "SaveEnvironmentArtifact E a' (em_store s1)")
  have id: "eb_ID b1 = eb_ID b" using build_target_facts(2) [of E owner ref a b s] t by simp
  show thesis
  proof (cases r)
    case None
    then show thesis using assms t sv saved by simp
  next
    case (Some e)
    then obtain msg where "failBuild E ''tag_and_push_targets'' msg b1 (s1\<lparr>em_store := st\<rparr>) = (None, s')"
      using assms t sv by simp
    from failBuild_ended [OF this] show thesis using id save_failed by simp
  qed
qed

lemma build_targets_ended:
  "build_targets E owner ref as allReady b s = (None, s') \<Longrightarrow>
    ended E (eb_ID b) BuildStatusReady s' \<or> ended E (eb_ID b) BuildStatusFailed s'"
proof (induction as arbitrary: allReady b s)
  case Nil
  then show ?case using final_update(1) [OF Nil] by (cases allReady) auto
next
  case (Cons a as)
  from Cons.prems show ?case
  proof (cases rule: build_targets_Cons)
    case (saved ok a' b1 s1 st)
    then show ?thesis using Cons.IH [OF saved(3)] build_target_facts(2) [of E owner ref a b s] by simp
  qed simp
qed

lemma cover_insert: "B \<subseteq> insert k S \<Longrightarrow> A \<subseteq> B \<union> C \<Longrightarrow> A \<subseteq> S \<union> insert k C"
  by blast

lemma build_targets_ready:
  assumes "quiet E"
  shows "build_targets E owner ref as allReady b s = (None, s') \<Longrightarrow> ended E (eb_ID b) BuildStatusReady s' \<Longrightarrow> ready_keys s K \<Longrightarrow>
    allReady \<and> ready_keys s' (K \<union> artifact_key ` set as) \<and>
    artifact_key ` set (artifacts s') \<subseteq> artifact_key ` set (artifacts s) \<union> artifact_key ` set as"
proof (induction as arbitrary: allReady b s K)
  case Nil
  note f = final_update [OF Nil(1)]
  have allReady using ended_unique [OF f(1) Nil(2)] by (auto split: if_splits)
  then show ?case using Nil(3) f(2) by (simp add: ready_keys_def)
next
  case (Cons a as)
  from Cons.prems(1) show ?case
  proof (cases rule: build_targets_Cons)
    case save_failed
    then show ?thesis using ended_unique [OF _ Cons.prems(2)] by fastforce
  next
    case (saved ok a' b1 s1 st)
    note f = build_target_facts [of _ owner ref a b s, where E = E, unfolded saved(1) fst_conv snd_conv]
    have ids: "ended E (eb_ID b1) BuildStatusReady s'" using Cons.prems(2) f(2) by simp
    have ready: "ok" "allReady" using Cons.IH [OF saved(3) ids, of "{}"] by (simp_all add: ready_keys_def)
    have k1: "ready_keys s1 K" using Cons.prems(3) f(4) [OF assms] by (simp add: ready_keys_def)
    note sr = save_ready [OF saved(2) f(3) [rule_format, OF ready(1)] k1 refl]
    note IH = Cons.IH [OF saved(3) ids sr(1)]
    have "artifact_key ` set (t_artifacts st) \<subseteq> insert (artifact_key a) (artifact_key ` set (artifacts s))"
      using sr(2) f(1) f(4) [OF assms] by simp
    moreover have "artifact_key ` set (artifacts s') \<subseteq> artifact_key ` set (t_artifacts st) \<union> artifact_key ` set as"
      using IH by simp
    ultimately have "artifact_key ` set (artifacts s') \<subseteq> artifact_key ` set (artifacts s) \<union> artifact_key ` set (a # as)"
      by (simp only: list.set image_insert cover_insert)
    then show ?thesis using ready IH f(1) by simp
  qed
qed

text \<open>The stages before: each ends the build, or hands it on.\<close>

definition outcome :: "('e build_env_scheme) \<Rightarrow> string \<Rightarrow> env_manager \<Rightarrow> bool" where
  "outcome E i s \<longleftrightarrow> ended E i BuildStatusFailed s \<or>
     ended E i BuildStatusReady s \<and> (quiet E \<longrightarrow> (\<forall>a\<in>set (artifacts s). ar_BuildID a = i \<longrightarrow> ar_Status a = ''ready''))"

lemma failBuild_outcome: "failBuild E step msg b s = (None, s') \<Longrightarrow> outcome E (eb_ID b) s'"
  using failBuild_ended [of E step msg b s s'] by (simp add: outcome_def)

definition all_listed :: "string \<Rightarrow> EnvironmentArtifactRecord list \<Rightarrow> env_manager \<Rightarrow> bool" where
  "all_listed i as s \<longleftrightarrow> (\<forall>a\<in>set (artifacts s). ar_BuildID a = i \<longrightarrow> a \<in> set as)"

lemma build_targets_outcome:
  assumes "build_targets E owner ref as True b s = (None, s')" "quiet E \<Longrightarrow> all_listed (eb_ID b) as s"
  shows "outcome E (eb_ID b) s'"
proof (cases "ended E (eb_ID b) BuildStatusReady s' \<and> quiet E")
  case True
  then have q: "quiet E" and e: "ended E (eb_ID b) BuildStatusReady s'" by simp_all
  have "ready_keys s {}" by (simp add: ready_keys_def)
  from build_targets_ready [OF q assms(1) e this]
  have r: "ready_keys s' (artifact_key ` set as)" and c: "artifact_key ` set (artifacts s') \<subseteq> artifact_key ` set (artifacts s) \<union> artifact_key ` set as"
    by simp_all
  have "ar_Status a = ''ready''" if a: "a \<in> set (artifacts s')" "ar_BuildID a = eb_ID b" for a
  proof -
    from c a(1) consider (old) a' where "a' \<in> set (artifacts s)" "artifact_key a' = artifact_key a" | "artifact_key a \<in> artifact_key ` set as"
      by fastforce
    then have "artifact_key a \<in> artifact_key ` set as"
    proof cases
      case (old a')
      then have "ar_BuildID a' = eb_ID b" using a(2) by (simp add: artifact_key_def)
      then have "a' \<in> set as" using assms(2) [OF q] old(1) by (simp add: all_listed_def)
      then show ?thesis using old(2) by (metis imageI)
    qed
    then show ?thesis using r a(1) unfolding ready_keys_def by blast
  qed
  then show ?thesis using e by (simp add: outcome_def)
next
  case False
  then show ?thesis using build_targets_ended [OF assms(1)] by (auto simp: outcome_def)
qed

lemma build_image_outcome:
  assumes "build_image E spec as b s = (None, s')" "quiet E \<Longrightarrow> all_listed (eb_ID b) as s"
  shows "outcome E (eb_ID b) s'"
proof -
  let ?ref = "local_ref (eb_ID b) as"
  obtain b1 s1 where A: "updateBuild E BuildStatusBuilding ''docker_build'' ''docker build started'' [] b s = (None, b1, s1)"
      "(let (r, s2) = buildLocalImage E (es_BaseImage spec) (es_AptPackages spec) (es_PythonPackages spec) ?ref s1 in case r of Some e \<Rightarrow> failBuild E ''docker_build'' (err_msg e) b1 s2
        | None \<Rightarrow> and_build (updateBuild E BuildStatusBuilding ''docker_build'' ''docker build completed'' [] b1 s2) (\<lambda>b s.
              let (i, s) = inspectImageID E ?ref s; b = (case i of Inl _ \<Rightarrow> b | Inr d \<Rightarrow> b\<lparr>eb_DigestLocal := d\<rparr>)
              in build_targets E (es_OwnerID spec) ?ref as True b s)) = (None, s')"
    using assms(1) by (auto simp: build_image_def Let_def elim!: and_build_None)
  obtain r s2 where L: "buildLocalImage E (es_BaseImage spec) (es_AptPackages spec) (es_PythonPackages spec) ?ref s1 = (r, s2)"
    by (cases "buildLocalImage E (es_BaseImage spec) (es_AptPackages spec) (es_PythonPackages spec) ?ref s1")
  note 1 = A(1) L A(2) [unfolded L Let_def prod.case]
  note u1 = updateBuild_None [OF 1(1)]
  show ?thesis
  proof (cases r)
    case (Some e)
    then show ?thesis using 1(3) failBuild_outcome [of E _ _ b1] u1(1) by auto
  next
    case None
    then obtain b2 s3 where 2: "updateBuild E BuildStatusBuilding ''docker_build'' ''docker build completed'' [] b1 s2 = (None, b2, s3)"
        "(let (i, s) = inspectImageID E ?ref s3; b = (case i of Inl _ \<Rightarrow> b2 | Inr d \<Rightarrow> b2\<lparr>eb_DigestLocal := d\<rparr>)
              in build_targets E (es_OwnerID spec) ?ref as True b s) = (None, s')"
      using 1(3) by (auto elim!: and_build_None)
    note u2 = updateBuild_None [OF 2(1)]
    obtain b3 where 3: "build_targets E (es_OwnerID spec) ?ref as True b3 (snd (inspectImageID E ?ref s3)) = (None, s')" "eb_ID b3 = eb_ID b"
      using 2(2) u1(1) u2(1) by (auto simp: Let_def case_prod_beta split: sum.splits)
    have "all_listed (eb_ID b3) as (snd (inspectImageID E ?ref s3))" if q: "quiet E"
      using assms(2) [OF q] u1(3) u2(3) 3(2) quiet_docker(1) [OF q, of ?ref s3] quiet_docker(2) [OF q] 1(2)
      by (metis all_listed_def snd_conv)
    from build_targets_outcome [OF 3(1) this] show ?thesis using 3(2) by simp
  qed
qed

lemma build_spec_outcome:
  assumes "build_spec E spec b s = (None, s')"
  shows "outcome E (eb_ID b) s'"
proof -
  have listed: "all_listed i as s0" if "ListEnvironmentArtifacts E i (em_store s0) = Inr as" for i as s0
    using that by (auto simp: all_listed_def ListEnvironmentArtifacts_def db_read_def split: option.splits)
  have "outcome E (eb_ID b) s'"
    if "and_build (updateBuild E st1 sp1 lg1 er1 b s) (\<lambda>b s. and_build (updateBuild E st2 sp2 lg2 er2 b s) (\<lambda>b s.
        case ListEnvironmentArtifacts E (eb_ID b) (em_store s) of
          Inl e \<Rightarrow> failBuild E stp (msg e) b s
        | Inr as \<Rightarrow> if as = [] then failBuild E stp' msg' b s else build_image E spec as b s)) = (None, s')"
    for st1 sp1 lg1 er1 st2 sp2 lg2 er2 stp msg stp' msg'
  proof -
    obtain b1 s1 b2 s2 where u: "updateBuild E st1 sp1 lg1 er1 b s = (None, b1, s1)" "updateBuild E st2 sp2 lg2 er2 b1 s1 = (None, b2, s2)"
      and r: "(case ListEnvironmentArtifacts E (eb_ID b2) (em_store s2) of
          Inl e \<Rightarrow> failBuild E stp (msg e) b2 s2
        | Inr as \<Rightarrow> if as = [] then failBuild E stp' msg' b2 s2 else build_image E spec as b2 s2) = (None, s')"
      using \<open>and_build _ _ = _\<close> by (elim and_build_None) blast
    have id: "eb_ID b2 = eb_ID b" using updateBuild_None(1) [OF u(1)] updateBuild_None(1) [OF u(2)] by simp
    show ?thesis
      using r id failBuild_outcome [of E _ _ b2 s2 s'] build_image_outcome [of E spec _ b2 s2 s'] listed [of "eb_ID b2" s2]
      by (auto split: sum.splits if_splits)
  qed
  then show ?thesis
    using assms failBuild_outcome [of E _ _ b s s'] by (auto simp: build_spec_def split: if_splits option.splits)
qed

text \<open>
  C34. A build that has been worked off has ended: if \<open>processBuild\<close> answers no error for a build that
  was not finalized, its row is failed or ready and has its time of finishing, whatever others did
  to the store meanwhile (a cancellation in between is overwritten); and if nobody else touched
  the artifacts, then ready means that every artifact of the build is ready.
\<close>

theorem build_outcome:
  assumes "processBuild E buildID s = (None, s')"
    and "GetEnvironmentBuild E buildID (em_store s) = Inr b" "\<not> finalized (eb_Status b)"
  shows "\<exists>r. row_by eb_ID buildID (t_builds (em_store s')) = Some r \<and> eb_FinishedAt r = Some (db_now E) \<and>
    (eb_Status r = BuildStatusFailed \<or> eb_Status r = BuildStatusReady \<and>
      (quiet E \<longrightarrow> (\<forall>a\<in>set (t_artifacts (em_store s')). ar_BuildID a = buildID \<longrightarrow> ar_Status a = ''ready'')))"
proof -
  have id: "eb_ID b = buildID"
    using assms(2) by (auto simp: GetEnvironmentBuild_def db_read_def find_row_def dest: row_by_SomeD split: option.splits)
  obtain b1 s1 where u: "updateBuild E BuildStatusBuilding ''validate_spec'' ''build started'' [] b s = (None, b1, s1)"
    and r: "(case GetEnvironmentSpec E (eb_SpecID b1) (em_store s1) of
        Inl e \<Rightarrow> failBuild E ''validate_spec'' (''load spec: '' @ err_msg e) b1 s1
      | Inr spec \<Rightarrow> build_spec E spec b1 s1) = (None, s')"
    using assms by (auto simp: processBuild_def elim!: and_build_None)
  have "outcome E (eb_ID b1) s'"
    using r failBuild_outcome [of E _ _ b1 s1 s'] build_spec_outcome [of E _ b1 s1 s'] by (auto split: sum.splits)
  then have "outcome E buildID s'" using updateBuild_None(1) [OF u] id by simp
  then show ?thesis by (auto simp: outcome_def ended_def)
qed

text \<open>A user cancels while docker builds; the build is ready in the end.\<close>

definition cancelling_env :: build_env where
  "cancelling_env = \<lparr>db_now = 5, db_fail = (\<lambda>_. None), be_reply = (\<lambda>h c. Inr ''sha256:1''),
     be_meanwhile = (\<lambda>h c st. case c of Run _ _ (a # _) \<Rightarrow>
         if a = ''build'' then em_store (snd (CancelBuild (db_up 5) ''b1'' (NewEnvManager st))) else st | _ \<Rightarrow> st)\<rparr>"

definition sample_build :: env_manager where
  "sample_build = snd (StartBuild False (db_up 4) ''b1'' (Some (''u1'', []))
     (snd (CreateSpec (db_up 3) ''u1'' (Some sample_spec_request) (NewEnvManager empty_store))))"

theorem build_outcome_witness:
  "(\<exists>r. row_by eb_ID ''b1'' (t_builds (em_store (snd (processBuild cancelling_env ''b1'' sample_build)))) = Some r \<and>
     (eb_Status r = BuildStatusFailed \<or> eb_Status r = BuildStatusReady)) \<and>
   map eb_Status (t_builds (em_store (snd (processBuild cancelling_env ''b1'' sample_build)))) = [BuildStatusReady]"
proof
  let ?p = "processBuild cancelling_env ''b1'' sample_build"
  let ?g = "GetEnvironmentBuild cancelling_env ''b1'' (em_store sample_build)"
  have "fst ?p = None" by code_simp
  then have p: "?p = (None, snd ?p)" by (simp add: prod_eq_iff)
  have "\<not> isl ?g" and f: "\<not> finalized (eb_Status (projr ?g))" by code_simp+
  then have g: "?g = Inr (projr ?g)" by simp
  show "\<exists>r. row_by eb_ID ''b1'' (t_builds (em_store (snd ?p))) = Some r \<and> (eb_Status r = BuildStatusFailed \<or> eb_Status r = BuildStatusReady)"
    using build_outcome [OF p g f] by blast
qed code_simp

section \<open>The commands of a build\<close>

text \<open>The registries stay as they are while the build runs.\<close>

definition steady :: "('e build_env_scheme) \<Rightarrow> bool" where
  "steady E \<longleftrightarrow> (\<forall>h c st. t_registries (be_meanwhile E h c st) = t_registries st)"

text \<open>What a build may do: its own Dockerfile, docker, and a secret only to log in with its user.\<close>

definition build_call :: "EnvironmentSpecRecord \<Rightarrow> RegistryConnectionRecord list \<Rightarrow> env_call \<Rightarrow> bool" where
  "build_call spec regs c = (case c of
       MkdirTemp \<Rightarrow> True
     | RemoveAll _ \<Rightarrow> True
     | WriteDockerfile _ text \<Rightarrow> text = generateDockerfile (es_BaseImage spec) (es_AptPackages spec) (es_PythonPackages spec)
     | Run stdin name args \<Rightarrow> name = ''docker'' \<and> args \<noteq> [] \<and>
         (hd args \<in> {''build'', ''image'', ''tag'', ''push''} \<and> stdin = [] \<or>
          (\<exists>r\<in>set regs. rg_OwnerID r = es_OwnerID spec \<and> stdin = rg_SecretRef r \<and>
             take 4 args = [''login'', ''-u'', rg_Username r, ''--password-stdin''] \<and>
             (rg_Provider r = ''ghcr'' \<and> drop 4 args = [''ghcr.io''] \<or> rg_Provider r = ''dockerhub'' \<and> drop 4 args = []))))"

definition runs :: "EnvironmentSpecRecord \<Rightarrow> RegistryConnectionRecord list \<Rightarrow> env_manager \<Rightarrow> env_manager \<Rightarrow> bool" where
  "runs spec regs s s' \<longleftrightarrow> (t_registries (em_store s) = regs \<longrightarrow>
     t_registries (em_store s') = regs \<and> (\<exists>cs. em_calls s' = em_calls s @ cs \<and> list_all (build_call spec regs) cs))"

lemma runs_refl [simp]: "runs spec regs s s"
  by (simp add: runs_def)

lemma runs_trans: "runs spec regs s s1 \<Longrightarrow> runs spec regs s1 s2 \<Longrightarrow> runs spec regs s s2"
  by (auto simp: runs_def)

lemma runs_store:
  "em_calls s' = em_calls s \<Longrightarrow> t_registries (em_store s') = t_registries (em_store s) \<Longrightarrow> runs spec regs s s'"
  by (simp add: runs_def)

lemma runs_env_do: "steady E \<Longrightarrow> build_call spec regs c \<Longrightarrow> runs spec regs s (snd (env_do E c s))"
  by (simp add: runs_def env_do_def steady_def)

lemma runs_updateBuild: "runs spec regs s (snd (snd (updateBuild E st sp lg er b s)))"
  by (rule runs_store)
    (simp_all add: updateBuild_def UpdateEnvironmentBuild_def db_write_def update_rows_def Let_def case_prod_beta split: option.split)

lemma runs_failBuild: "runs spec regs s (snd (failBuild E sp msg b s))"
  using runs_updateBuild [of spec regs s E BuildStatusFailed sp msg msg "b\<lparr>eb_FinishedAt := Some (db_now E)\<rparr>"]
  by (simp add: failBuild_def case_prod_beta)

lemma runs_and_build:
  assumes "runs spec regs s (snd (snd x))" "\<And>b s1. runs spec regs s1 (snd (f b s1))"
  shows "runs spec regs s (snd (and_build x f))"
  using assms(1) runs_trans [OF assms(1) assms(2)] by (auto simp: and_build_def split: prod.split option.split)

lemma runs_inspect: "steady E \<Longrightarrow> runs spec regs s (snd (inspectImageID E ref s))"
  using runs_env_do [of E spec regs "Run [] ''docker'' [''image'', ''inspect'', ''--format'', ''{{.Id}}'', ref]" s]
  by (simp add: inspectImageID_def build_call_def case_prod_beta Let_def)

lemma runs_buildLocalImage:
  assumes "steady E"
  shows "runs spec regs s (snd (buildLocalImage E (es_BaseImage spec) (es_AptPackages spec) (es_PythonPackages spec) tag s))"
proof -
  note r = runs_env_do [OF assms, of spec regs]
  show ?thesis
    unfolding buildLocalImage_def Let_def case_prod_beta
    by (auto split: sum.split simp: build_call_def intro!: r runs_trans [OF r r] runs_trans [OF runs_trans [OF r r] r]
        runs_trans [OF runs_trans [OF runs_trans [OF r r] r] r])
qed

lemma find_in_set: "List.find P xs = Some x \<Longrightarrow> x \<in> set xs"
  by (induction xs) (auto split: if_splits)

lemma resolved_connection:
  assumes "resolveRegistryConnection E owner target st = Inr c"
  shows "c \<in> set (t_registries st) \<and> rg_OwnerID c = owner \<and> rg_Provider c = target"
proof -
  obtain conns where conns: "ListRegistryConnections E owner st = Inr conns"
    using assms by (auto simp: resolveRegistryConnection_def split: sum.splits)
  have "c \<in> set (filter (\<lambda>c. rg_Provider c = target) conns)"
    using assms conns
    by (auto simp: resolveRegistryConnection_def Let_def simp del: set_filter dest: find_in_set split: option.splits list.splits)
  then show ?thesis
    using conns by (auto simp: ListRegistryConnections_def db_read_def split: option.splits)
qed

lemma runs_publish:
  assumes "steady E"
  shows "runs spec regs s (snd (snd (publishToTarget E (es_OwnerID spec) target src ref s)))"
proof (cases "resolveRegistryConnection E (es_OwnerID spec) target (em_store s)")
  case (Inl e)
  then show ?thesis by (simp add: publishToTarget_def)
next
  case (Inr c)
  show ?thesis
  proof (cases "t_registries (em_store s) = regs \<and> registryHostForTarget target \<noteq> []")
    case False
    then show ?thesis using Inr by (auto simp: publishToTarget_def runs_def)
  next
    case True
    then have reg: "c \<in> set regs" "rg_OwnerID c = es_OwnerID spec" "rg_Provider c = target"
      using resolved_connection [OF Inr] by auto
    have host: "target = ''ghcr'' \<or> target = ''dockerhub''"
      using True by (auto simp: registryHostForTarget_def split: if_splits)
    then have login: "build_call spec regs (Run (rg_SecretRef c) ''docker'' (login_args target (rg_Username c)))"
      using reg by (auto simp: build_call_def login_args_def registryHostForTarget_def)
    have other: "build_call spec regs (Run [] ''docker'' [''tag'', x, y])" "build_call spec regs (Run [] ''docker'' [''push'', y])" for x y
      by (simp_all add: build_call_def)
    note l = runs_env_do [OF assms login] and t = runs_env_do [OF assms other(1)] and p = runs_env_do [OF assms other(2)]
    show ?thesis
      using Inr True [THEN conjunct2]
      by (auto simp: publishToTarget_def Let_def case_prod_beta split: sum.split
          intro!: l runs_trans [OF l t] runs_trans [OF runs_trans [OF l t] p])
  qed
qed

lemma runs_build_target:
  assumes "steady E"
  shows "runs spec regs s (snd (snd (snd (build_target E (es_OwnerID spec) ref a b s))))"
proof -
  have i: "runs spec regs s1 (snd (inspectImageID E r s1))" for r s1 by (rule runs_inspect [OF assms])
  have p: "runs spec regs s1 (snd (snd (publishToTarget E (es_OwnerID spec) t x y s1)))" for t x y s1 by (rule runs_publish [OF assms])
  show ?thesis
    by (auto simp: build_target_def Let_def case_prod_beta i p intro: runs_trans [OF p i] split: sum.split option.split)
qed

lemma runs_build_targets:
  assumes "steady E"
  shows "runs spec regs s (snd (build_targets E (es_OwnerID spec) ref as ok b s))"
proof (induction as arbitrary: ok b s)
  case Nil
  show ?case using runs_updateBuild [of spec regs s E] by (simp add: Let_def case_prod_beta)
next
  case (Cons a as)
  obtain k a' b1 s1 where t: "build_target E (es_OwnerID spec) ref a b s = (k, a', b1, s1)" by (metis prod_cases4)
  obtain r st where sv: "SaveEnvironmentArtifact E a' (em_store s1) = (r, st)" by (cases "SaveEnvironmentArtifact E a' (em_store s1)")
  have "runs spec regs s s1" using runs_build_target [OF assms, of spec regs s ref a b] t by simp
  moreover have "runs spec regs s1 (s1\<lparr>em_store := st\<rparr>)"
    using sv by (intro runs_store) (auto simp: SaveEnvironmentArtifact_def db_write_def split: option.splits)
  ultimately have "runs spec regs s (s1\<lparr>em_store := st\<rparr>)" by (rule runs_trans)
  then have "runs spec regs s (snd (failBuild E sp msg b1 (s1\<lparr>em_store := st\<rparr>)))"
    "runs spec regs s (snd (build_targets E (es_OwnerID spec) ref as k' b1 (s1\<lparr>em_store := st\<rparr>)))" for sp msg k'
    using runs_failBuild Cons.IH runs_trans by blast+
  then show ?case using t sv by (cases r) (simp_all add: Let_def)
qed

lemma runs_build_image:
  assumes "steady E"
  shows "runs spec regs s (snd (build_image E spec as b s))"
proof -
  have "runs spec regs s1 (snd (let (i, s) = inspectImageID E ref s1; b = (case i of Inl _ \<Rightarrow> b1 | Inr d \<Rightarrow> b1\<lparr>eb_DigestLocal := d\<rparr>)
              in build_targets E (es_OwnerID spec) ref as True b s))" for b1 s1 ref
    using runs_trans [OF runs_inspect [OF assms] runs_build_targets [OF assms]] by (simp add: Let_def case_prod_beta)
  note rest = runs_and_build [OF runs_updateBuild this]
  let ?ref = "local_ref (eb_ID b) as"
  have "runs spec regs s1 (snd (let (r, s) = buildLocalImage E (es_BaseImage spec) (es_AptPackages spec) (es_PythonPackages spec) ?ref s1 in
        case r of
          Some e \<Rightarrow> failBuild E ''docker_build'' (err_msg e) b1 s
        | None \<Rightarrow>
            and_build (updateBuild E BuildStatusBuilding ''docker_build'' ''docker build completed'' [] b1 s) (\<lambda>b s.
              let (i, s) = inspectImageID E ?ref s;
                  b = (case i of Inl _ \<Rightarrow> b | Inr d \<Rightarrow> b\<lparr>eb_DigestLocal := d\<rparr>)
              in build_targets E (es_OwnerID spec) ?ref as True b s)))" for b1 s1
  proof -
    obtain r s2 where l: "buildLocalImage E (es_BaseImage spec) (es_AptPackages spec) (es_PythonPackages spec) ?ref s1 = (r, s2)"
      by (cases "buildLocalImage E (es_BaseImage spec) (es_AptPackages spec) (es_PythonPackages spec) ?ref s1")
    have "runs spec regs s1 s2" using runs_buildLocalImage [OF assms, of spec regs s1 ?ref] l by simp
    from runs_trans [OF this] show ?thesis
      unfolding l Let_def prod.case by (cases r) (simp_all only: option.case runs_failBuild rest [unfolded Let_def])
  qed
  then show ?thesis unfolding build_image_def Let_def by (intro runs_and_build runs_updateBuild)
qed

text \<open>
  A build runs docker and nothing else, on the Dockerfile of its specification; and the secret of
  a registry connection leaves the server only on the standard input of a login with the
  connection's user name, at the registry the connection is for, and only if the connection is
  of the specification's owner.  Packages that do not pass the validation lead to no call at all.
\<close>

theorem build_commands_confined:
  assumes "steady E" "GetEnvironmentBuild E buildID (em_store s) = Inr b" "GetEnvironmentSpec E (eb_SpecID b) (em_store s) = Inr spec"
  shows "\<exists>cs. em_calls (snd (processBuild E buildID s)) = em_calls s @ cs \<and>
    list_all (build_call spec (t_registries (em_store s))) cs \<and>
    (validatePackages (es_PythonPackages spec) \<noteq> None \<or> validatePackages (es_AptPackages spec) \<noteq> None \<longrightarrow> cs = [])"
proof -
  let ?regs = "t_registries (em_store s)"
  have build: "runs spec regs s1 (snd (build_spec E spec b1 s1))" for regs b1 s1
    unfolding build_spec_def
    by (auto split: option.split sum.split intro!: runs_failBuild runs_and_build runs_updateBuild runs_build_image [OF assms(1)])
  have quiet: "em_calls (snd (failBuild E sp msg b1 s1)) = em_calls s1" for sp msg b1 s1
    by (simp add: failBuild_def updateBuild_def Let_def case_prod_beta)
  show ?thesis
  proof (cases "finalized (eb_Status b)")
    case True
    then show ?thesis using assms(2) by (simp add: processBuild_def)
  next
    case False
    obtain r b1 s1 where u: "updateBuild E BuildStatusBuilding ''validate_spec'' ''build started'' [] b s = (r, b1, s1)"
      by (metis prod_cases3)
    have same: "em_calls s1 = em_calls s" "t_registries (em_store s1) = ?regs" "t_specs (em_store s1) = t_specs (em_store s)" "eb_SpecID b1 = eb_SpecID b"
      using u by (auto simp: updateBuild_def UpdateEnvironmentBuild_def db_write_def update_rows_def Let_def case_prod_beta split: option.splits if_splits)
    have spec: "GetEnvironmentSpec E (eb_SpecID b1) (em_store s1) = Inr spec"
      using assms(3) same by (simp add: GetEnvironmentSpec_def)
    have p: "snd (processBuild E buildID s) = (if r = None then snd (build_spec E spec b1 s1) else s1)"
      using assms(2) False u spec by (auto simp: processBuild_def and_build_def split: option.split)
    show ?thesis
    proof (cases "r = None \<and> validatePackages (es_PythonPackages spec) = None \<and> validatePackages (es_AptPackages spec) = None")
      case True
      then show ?thesis using build [of ?regs s1 b1] same(1,2) by (simp add: p runs_def)
    next
      case False
      then have "em_calls (snd (processBuild E buildID s)) = em_calls s"
        using same(1) quiet by (auto simp: p build_spec_def split: option.splits)
      then show ?thesis by simp
    qed
  qed
qed

end
