(* ===== verification/Host_OS.thy ===== *)
theory Host_OS
  imports Manager_State Provider_Exec Go_Path
begin

text \<open>
  What the providers that run on the host, and the agent in a guest, ask of the operating system:
  the calls of Go's \<open>os\<close>, \<open>os/exec\<close> and \<open>filepath.Glob\<close>.  What the system answers is a parameter
  (\<open>osenv\<close>), a function of the calls made so far and of the call; every call is logged, so that
  theorems can say which files and programs an operation touched.
\<close>

section \<open>Calls\<close>

text \<open>Bodies of HTTP requests, before they are encoded.\<close>

datatype json = JsonStr string | JsonInt int | JsonBool bool | JsonStrs "string list" | JsonObj "(string \<times> json) list"

datatype os_call =
    OsMkdirAll string
  | OsMkdirTemp string
  | OsWriteFile string string nat
  | OsOpen string
  | OsReadDir string
  | OsStat string
  | OsRemove string
  | OsRemoveAll string
  | OsRename string string
  | OsChmod string nat
  | OsGlob string
  | OsRun "string list" "string list" string
  | OsStart "string list" "string list" string
  | OsPowerOff
  | OsLookPath string
  | OsStartProc "string list" string
  | OsKill nat
  | OsWaitSocket string
  | OsDialAgent string
  | OsHTTP string string string "(string \<times> json) list"

text \<open>How a program ended: with its exit code and output, killed at the deadline, or not started at all.\<close>

datatype run_result = Exited int string string | Killed string string | RunFailed error

text \<open>What \<open>Stat\<close> tells of a file: size, mode as a number and as \<open>ls\<close> prints it, kind, time.\<close>

record file_stat =
  fs_Size :: int
  fs_Mode :: nat
  fs_ModeString :: string
  fs_IsDir :: bool
  fs_ModTime :: string

text \<open>How a stream of chunks ended: by itself, or at the deadline, whose notice the reader saw or not.\<close>

datatype stream_end = Finished | TimedOut bool

record osenv =
  os_unit :: "os_call list \<Rightarrow> os_call \<Rightarrow> error option"
  os_name :: "os_call list \<Rightarrow> os_call \<Rightarrow> error + string"
  os_content :: "os_call list \<Rightarrow> os_call \<Rightarrow> error + string"
  os_entries :: "os_call list \<Rightarrow> os_call \<Rightarrow> error + (string \<times> file_stat option) list"
  os_stat :: "os_call list \<Rightarrow> os_call \<Rightarrow> error + file_stat"
  os_matches :: "os_call list \<Rightarrow> os_call \<Rightarrow> error + string list"
  os_run :: "os_call list \<Rightarrow> os_call \<Rightarrow> run_result"
  os_stream :: "os_call list \<Rightarrow> os_call \<Rightarrow> error + (string \<times> string) list \<times> stream_end"
  os_environ :: "string list"
  os_path :: string
  os_cwd :: string

text \<open>What a provider on the host has in common: the log of its calls.\<close>

record host =
  ho_calls :: "os_call list"

definition ask :: "(os_call list \<Rightarrow> os_call \<Rightarrow> 'a) \<Rightarrow> os_call \<Rightarrow> 's host_scheme \<Rightarrow> 'a \<times> 's host_scheme" where
  "ask reply c s = (reply (ho_calls s) c, s\<lparr>ho_calls := ho_calls s @ [c]\<rparr>)"

text \<open>A program run for its output: an exit code other than 0 is an error.\<close>

definition run_out :: "run_result \<Rightarrow> error + string \<times> string" where
  "run_out r =
     (case r of
        Exited code out err \<Rightarrow> (if code = 0 then Inr (out, err) else Inl (Err ErrOther (''exit status '' @ Itoa code)))
      | Killed out err \<Rightarrow> Inl (Err ErrOther ''signal: killed'')
      | RunFailed e \<Rightarrow> Inl e)"

section \<open>Modes and names\<close>

text \<open>\<open>strconv.ParseUint(s, 8, 32)\<close> and the verb \<open>%o\<close>.\<close>

fun octal_value :: "nat \<Rightarrow> string \<Rightarrow> nat option" where
  "octal_value n [] = Some n"
| "octal_value n (c # cs) =
     (let d = of_char c :: nat in if 48 \<le> d \<and> d \<le> 55 then octal_value (8 * n + (d - 48)) cs else None)"

definition parse_octal :: "string \<Rightarrow> nat option" where
  "parse_octal s =
     (if s = [] then None
      else case octal_value 0 s of None \<Rightarrow> None | Some n \<Rightarrow> if n < 2 ^ 32 then Some n else None)"

definition parse_mode_error :: "string \<Rightarrow> error" where
  "parse_mode_error s =
     (let why = (if s \<noteq> [] \<and> octal_value 0 s \<noteq> None then ''value out of range'' else ''invalid syntax'')
      in Err ErrOther (''parse mode: strconv.ParseUint: parsing '' @ Quote s @ '': '' @ why))"

fun octal :: "nat \<Rightarrow> string" where
  "octal n = (if n < 8 then [digit_char n] else octal (n div 8) @ [digit_char (n mod 8)])"

declare octal.simps [simp del]

lemma octal_value_append:
  "octal_value n (s @ t) = Option.bind (octal_value n s) (\<lambda>m. octal_value m t)"
  by (induction n s rule: octal_value.induct) (simp_all add: Let_def)

lemma octal_value_digit: "d < 8 \<Longrightarrow> octal_value n [digit_char d] = Some (8 * n + d)"
  by (simp add: digit_char_def)

text \<open>A mode that was printed parses to itself.\<close>

lemma octal_value_octal: "octal_value 0 (octal n) = Some n"
proof (induction n rule: octal.induct)
  case (1 n)
  show ?case
  proof (cases "n < 8")
    case True
    then show ?thesis by (simp add: octal.simps octal_value_digit del: octal_value.simps)
  next
    case False
    with 1 have "octal_value 0 (octal (n div 8)) = Some (n div 8)" by simp
    with False show ?thesis
      by (simp add: octal.simps [of n] octal_value_append octal_value_digit del: octal_value.simps)
  qed
qed

lemma octal_nonempty [simp]: "octal n \<noteq> []"
  by (simp add: octal.simps)

lemma parse_octal_octal: "n < 2 ^ 32 \<Longrightarrow> parse_octal (octal n) = Some n"
  by (simp add: parse_octal_def octal_value_octal)

text \<open>\<open>filepath.Dir\<close>: everything up to the last slash, cleaned.\<close>

definition Dir :: "string \<Rightarrow> string" where
  "Dir p = Clean (rev (dropWhile (\<lambda>c. c \<noteq> slash) (rev p)))"

text \<open>\<open>filepath.Base\<close>: the last component, after trailing slashes are gone.\<close>

definition Base :: "string \<Rightarrow> string" where
  "Base p =
     (if p = [] then dot
      else (let q = dropWhile (\<lambda>c. c = slash) (rev p); r = rev (takeWhile (\<lambda>c. c \<noteq> slash) q)
            in if r = [] then [slash] else r))"

text \<open>A map of environment variables as the \<open>KEY=value\<close> strings of a process.\<close>

definition env_strings :: "metadata \<Rightarrow> string list" where
  "env_strings m = map (\<lambda>(k, v). k @ ''='' @ v) m"

text \<open>\<open>strings.TrimPrefix\<close>.\<close>

definition TrimPrefix :: "string \<Rightarrow> string \<Rightarrow> string" where
  "TrimPrefix s p = (if HasPrefix s p then drop (length p) s else s)"

text \<open>The entries of a directory as a listing shows them; entries that vanished are left out.\<close>

definition listing :: "(string \<Rightarrow> file_stat \<Rightarrow> FileInfo) \<Rightarrow> (string \<times> file_stat option) list \<Rightarrow> FileInfo list" where
  "listing show es = concat (map (\<lambda>(n, i). case i of None \<Rightarrow> [] | Some st \<Rightarrow> [show n st]) es)"

text \<open>\<open>filepath.Abs\<close>.\<close>

definition IsAbs :: "string \<Rightarrow> bool" where
  "IsAbs p \<longleftrightarrow> HasPrefix p [slash]"

definition Abs :: "string \<Rightarrow> string \<Rightarrow> string" where
  "Abs cwd p = (if IsAbs p then Clean p else Join2 cwd p)"

section \<open>Paths an operation names\<close>

primrec os_paths :: "os_call \<Rightarrow> string list" where
  "os_paths (OsMkdirAll p) = [p]"
| "os_paths (OsMkdirTemp p) = []"
| "os_paths (OsWriteFile p d m) = [p]"
| "os_paths (OsOpen p) = [p]"
| "os_paths (OsReadDir p) = [p]"
| "os_paths (OsStat p) = [p]"
| "os_paths (OsRemove p) = [p]"
| "os_paths (OsRemoveAll p) = [p]"
| "os_paths (OsRename p q) = [p, q]"
| "os_paths (OsChmod p m) = [p]"
| "os_paths (OsGlob p) = [p]"
| "os_paths (OsRun a e d) = []"
| "os_paths (OsStart a e d) = []"
| "os_paths OsPowerOff = []"
| "os_paths (OsLookPath p) = []"
| "os_paths (OsStartProc a d) = []"
| "os_paths (OsKill n) = []"
| "os_paths (OsWaitSocket p) = [p]"
| "os_paths (OsDialAgent p) = [p]"
| "os_paths (OsHTTP mt s p b) = []"

end
