(* ===== verification/Provider_Contract.thy ===== *)
theory Provider_Contract
  imports Host_OS
begin

text \<open>
  What the orchestrator relies on in every provider (\<open>internal/providers/provider.go\<close>,
  \<open>docs/provider-contract.md\<close>): a sandbox that was spawned serves its operations until it is
  destroyed, and then every operation on it fails with an error that says so.  The contract is a
  locale; each provider's theory interprets it on the provider's own operations.
\<close>

record SpawnOptions =
  so_Image :: string
  so_MemoryMB :: int
  so_VCPUs :: int
  so_DiskSizeMB :: int
  so_Metadata :: metadata

record SandboxStatus =
  st_ID :: string
  st_State :: string

text \<open>The operations inside a sandbox.\<close>

datatype guest_op =
    GExec ExecOptions
  | GExecStream ExecOptions
  | GWriteFile string "error + string" string
  | GReadFile string
  | GListFiles string
  | GDeleteFile string bool
  | GMoveFile string string
  | GChmodFile string string
  | GStatFile string
  | GGlobFiles string
  | GConsoleLog int

text \<open>The error of a result, if it is one, with the state.\<close>

definition failure :: "(error + 'a) \<times> 's \<Rightarrow> error option \<times> 's" where
  "failure r = (case fst r of Inl e \<Rightarrow> Some e | Inr x \<Rightarrow> None, snd r)"

lemma failure_simps [simp]: "failure (Inl e, s) = (Some e, s)" "failure (Inr x, s) = (None, s)"
  "snd (failure r) = snd r"
  by (simp_all add: failure_def)

abbreviation lifecycle_error :: "error \<Rightarrow> bool" where
  "lifecycle_error e \<equiv> err_kind e = ErrSandboxNotFound \<or> err_kind e = ErrSandboxDestroyed"

datatype 'i provider_req = Req_Spawn 'i | Req_Destroy 'i string | Req_Guest 'i guest_op string

locale sandbox_provider =
  fixes spawn :: "'i \<Rightarrow> 's \<Rightarrow> (error + string) \<times> 's"
    and destroy :: "'i \<Rightarrow> string \<Rightarrow> 's \<Rightarrow> error option \<times> 's"
    and guest :: "'i \<Rightarrow> guest_op \<Rightarrow> string \<Rightarrow> 's \<Rightarrow> error option \<times> 's"
    and running :: "'s \<Rightarrow> string set"
  assumes spawn_running: "spawn i s = (Inr sid, s') \<Longrightarrow> running s' = insert sid (running s)"
    and spawn_failed: "spawn i s = (Inl e, s') \<Longrightarrow> running s' = running s"
    and destroy_running: "running (snd (destroy i sid s)) = running s - {sid}"
    and guest_running: "running (snd (guest i g sid s)) = running s"
    and guest_gone: "sid \<notin> running s \<Longrightarrow> \<exists>e. guest i g sid s = (Some e, s) \<and> lifecycle_error e"
begin

fun serve :: "'i provider_req \<Rightarrow> 's \<Rightarrow> string option \<times> 's" where
  "serve (Req_Spawn i) s = (case spawn i s of (Inr sid, s') \<Rightarrow> (Some sid, s') | (Inl e, s') \<Rightarrow> (None, s'))"
| "serve (Req_Destroy i sid) s = (None, snd (destroy i sid s))"
| "serve (Req_Guest i g sid) s = (None, snd (guest i g sid s))"

text \<open>The state after some requests, and what is up according to their outcomes.\<close>

fun after :: "'i provider_req list \<Rightarrow> 's \<Rightarrow> 's" where
  "after [] s = s"
| "after (q # qs) s = after qs (snd (serve q s))"

fun up_after :: "'i provider_req list \<Rightarrow> 's \<Rightarrow> string set \<Rightarrow> string set" where
  "up_after [] s up = up"
| "up_after (q # qs) s up =
     up_after qs (snd (serve q s))
       (case q of Req_Spawn i \<Rightarrow> (case fst (serve q s) of None \<Rightarrow> up | Some sid \<Rightarrow> insert sid up)
        | Req_Destroy i sid \<Rightarrow> up - {sid} | Req_Guest i g sid \<Rightarrow> up)"

lemma running_serve:
  "running (snd (serve q s)) =
     (case q of Req_Spawn i \<Rightarrow> (case fst (serve q s) of None \<Rightarrow> running s | Some sid \<Rightarrow> insert sid (running s))
      | Req_Destroy i sid \<Rightarrow> running s - {sid} | Req_Guest i g sid \<Rightarrow> running s)"
proof (cases q)
  case (Req_Spawn i)
  then show ?thesis
    using spawn_running [of i s] spawn_failed [of i s] by (cases "spawn i s") (auto split: sum.split)
qed (simp_all add: destroy_running guest_running)

lemma running_after: "running (after qs s) = up_after qs s (running s)"
  by (induction qs arbitrary: s) (simp_all add: running_serve split: provider_req.split)

lemma after_invariant: "(\<And>q s. I s \<Longrightarrow> I (snd (serve q s))) \<Longrightarrow> I s \<Longrightarrow> I (after qs s)"
  by (induction qs arbitrary: s) simp_all

lemma serve_invariant:
  assumes "\<And>i. I s \<Longrightarrow> I (snd (spawn i s))" and "\<And>i sid. I s \<Longrightarrow> I (snd (destroy i sid s))"
    and "\<And>i g sid. I s \<Longrightarrow> I (snd (guest i g sid s))" and "I s"
  shows "I (snd (serve q s))"
proof (cases q)
  case (Req_Spawn i)
  then show ?thesis using assms(1,4) by (auto split: prod.split sum.split) (metis snd_conv)+
qed (use assms in simp_all)

text \<open>Once destroyed, a sandbox stays gone until a spawn answers its id again.\<close>

definition respawns :: "string \<Rightarrow> 'i provider_req list \<Rightarrow> 's \<Rightarrow> bool" where
  "respawns sid qs s \<longleftrightarrow> (\<exists>q us vs. qs = us @ q # vs \<and> fst (serve q (after us s)) = Some sid)"

lemma not_respawns_Cons:
  "\<not> respawns sid (q # qs) s \<Longrightarrow> fst (serve q s) \<noteq> Some sid \<and> \<not> respawns sid qs (snd (serve q s))"
  unfolding respawns_def
  by (metis after.simps append_Cons append_Nil)

lemma stays_gone: "sid \<notin> running s \<Longrightarrow> \<not> respawns sid qs s \<Longrightarrow> sid \<notin> running (after qs s)"
proof (induction qs arbitrary: s)
  case (Cons q qs)
  then have "sid \<notin> running (snd (serve q s))"
    using not_respawns_Cons [of sid q qs s]
    by (auto simp: running_serve split: provider_req.splits option.splits)
  with Cons show ?case using not_respawns_Cons [of sid q qs s] by simp
qed simp

lemma destroyed_refuses:
  assumes "\<not> respawns sid qs (snd (destroy i sid s))"
  shows "\<exists>e. guest j g sid (after qs (snd (destroy i sid s))) = (Some e, after qs (snd (destroy i sid s))) \<and> lifecycle_error e"
  using guest_gone [OF stays_gone [OF _ assms]] by (simp add: destroy_running)

end

end
