(* ===== verification/Provider_Mock.thy ===== *)
theory Provider_Mock
  imports Provider_Contract
begin

text \<open>
  The provider of the tests and of development servers (\<open>internal/providers/mock.go\<close>): a
  temporary directory per sandbox, commands run on the host in it.  It keeps the contract, but it
  does not confine paths: a path is joined to the directory and may climb out of it.
\<close>

section \<open>Definitions\<close>

record mockSandbox =
  mx_id :: string
  mx_root :: string
  mx_state :: string
  mx_opts :: SpawnOptions

record MockProvider = host +
  mk_sandboxes :: "(string \<times> mockSandbox) list"

definition NewMockProvider :: MockProvider where
  "NewMockProvider = \<lparr>ho_calls = [], mk_sandboxes = []\<rparr>"

text \<open>\<open>sb-\<close> and the hex digits of four random bytes.\<close>

definition mock_sandbox_id :: "string \<Rightarrow> string" where
  "mock_sandbox_id b = ''sb-'' @ hex_bytes b"

definition mock_Spawn :: "osenv \<Rightarrow> string \<Rightarrow> SpawnOptions \<Rightarrow> MockProvider \<Rightarrow> (error + string) \<times> MockProvider" where
  "mock_Spawn E b opts m =
     (let sid = mock_sandbox_id b; (r, m) = ask (os_name E) (OsMkdirTemp (''stacyvm-'' @ sid @ ''-'')) m in
      case r of
        Inl e \<Rightarrow> (Inl (wrap_err ''creating sandbox dir'' e), m)
      | Inr root \<Rightarrow>
          (let (r, m) = ask (os_unit E) (OsMkdirAll (Join2 root ''workspace'')) m in
           case r of
             Some e \<Rightarrow> (Inl (wrap_err ''creating workspace dir'' e), snd (ask (os_unit E) (OsRemoveAll root) m))
           | None \<Rightarrow>
               (let sb = \<lparr>mx_id = sid, mx_root = root, mx_state = ''running'', mx_opts = opts\<rparr>
                in (Inr sid, m\<lparr>mk_sandboxes := al_put sid sb (mk_sandboxes m)\<rparr>))))"

definition mock_getSandbox :: "string \<Rightarrow> MockProvider \<Rightarrow> error + mockSandbox" where
  "mock_getSandbox sid m =
     (case map_of (mk_sandboxes m) sid of
        None \<Rightarrow> Inl (SandboxNotFoundError sid)
      | Some sb \<Rightarrow> if mx_state sb = ''destroyed'' then Inl (SandboxDestroyedError sid) else Inr sb)"

text \<open>The directory and the environment a command is run with.\<close>

definition mock_dir :: "mockSandbox \<Rightarrow> ExecOptions \<Rightarrow> string" where
  "mock_dir sb opts = (if xo_WorkDir opts \<noteq> [] then Join2 (mx_root sb) (xo_WorkDir opts) else Join2 (mx_root sb) ''workspace'')"

definition mock_env :: "osenv \<Rightarrow> mockSandbox \<Rightarrow> ExecOptions \<Rightarrow> string list" where
  "mock_env E sb opts =
     os_environ E @ [''HOME='' @ mx_root sb, ''WORKSPACE='' @ Join2 (mx_root sb) ''workspace'',
       ''SANDBOX_ROOT='' @ mx_root sb, ''PATH='' @ os_path E] @ env_strings (xo_Env opts)"

definition mock_Exec ::
  "osenv \<Rightarrow> string \<Rightarrow> ExecOptions \<Rightarrow> MockProvider \<Rightarrow> (error + int \<times> string \<times> string) \<times> MockProvider" where
  "mock_Exec E sid opts m =
     (case mock_getSandbox sid m of
        Inl e \<Rightarrow> (Inl e, m)
      | Inr sb \<Rightarrow>
     (case buildExecCommand opts of
        Inl e \<Rightarrow> (Inl e, m)
      | Inr args \<Rightarrow>
          (let (r, m) = ask (os_run E) (OsRun args (mock_env E sb opts) (mock_dir sb opts)) m in
           case r of
             Killed out err \<Rightarrow> (Inl (ExecTimeoutError sid), m)
           | RunFailed e \<Rightarrow> (Inl (wrap_err ''exec'' e), m)
           | Exited code out err \<Rightarrow> (Inr (code, out, err), m))))"

definition mock_ExecStream ::
  "osenv \<Rightarrow> string \<Rightarrow> ExecOptions \<Rightarrow> MockProvider \<Rightarrow> (error + (string \<times> string) list) \<times> MockProvider" where
  "mock_ExecStream E sid opts m =
     (case mock_getSandbox sid m of
        Inl e \<Rightarrow> (Inl e, m)
      | Inr sb \<Rightarrow>
     (case buildExecCommand opts of
        Inl e \<Rightarrow> (Inl e, m)
      | Inr args \<Rightarrow>
          (let (r, m) = ask (os_stream E) (OsStart args (mock_env E sb opts) (mock_dir sb opts)) m in
           case r of Inl e \<Rightarrow> (Inl (wrap_err ''start'' e), m) | Inr (chunks, _) \<Rightarrow> (Inr chunks, m))))"

definition mock_path :: "mockSandbox \<Rightarrow> string \<Rightarrow> string" where
  "mock_path sb p = Join2 (mx_root sb) (Clean p)"

text \<open>The permissions of a written file.\<close>

definition write_perm :: "string \<Rightarrow> nat" where
  "write_perm md = (if md = ''0755'' \<or> md = ''executable'' then 493 else 420)"

definition mock_WriteFile ::
  "osenv \<Rightarrow> string \<Rightarrow> string \<Rightarrow> error + string \<Rightarrow> string \<Rightarrow> MockProvider \<Rightarrow> error option \<times> MockProvider" where
  "mock_WriteFile E sid path content md m =
     (case mock_getSandbox sid m of
        Inl e \<Rightarrow> (Some e, m)
      | Inr sb \<Rightarrow>
          (let full = mock_path sb path; (r, m) = ask (os_unit E) (OsMkdirAll (Dir full)) m in
           case r of
             Some e \<Rightarrow> (Some (wrap_err ''creating dirs'' e), m)
           | None \<Rightarrow>
               (case content of
                  Inl e \<Rightarrow> (Some (wrap_err ''reading content'' e), m)
                | Inr data \<Rightarrow> ask (os_unit E) (OsWriteFile full data (write_perm md)) m)))"

definition mock_ReadFile :: "osenv \<Rightarrow> string \<Rightarrow> string \<Rightarrow> MockProvider \<Rightarrow> (error + string) \<times> MockProvider" where
  "mock_ReadFile E sid path m =
     (case mock_getSandbox sid m of
        Inl e \<Rightarrow> (Inl e, m)
      | Inr sb \<Rightarrow>
          (let (r, m) = ask (os_content E) (OsOpen (mock_path sb path)) m
           in (case r of Inl e \<Rightarrow> Inl (wrap_err ''opening file'' e) | Inr c \<Rightarrow> Inr c, m)))"

text \<open>An entry of a listing, named by the path asked for and without the leading slash.\<close>

definition listed :: "string \<Rightarrow> string \<Rightarrow> file_stat \<Rightarrow> FileInfo" where
  "listed path n st =
     \<lparr>fi_Path = TrimPrefix (Join2 path n) ''/'', fi_Size = fs_Size st, fi_Mode = fs_ModeString st,
      fi_IsDir = fs_IsDir st, fi_ModTime = fs_ModTime st\<rparr>"

definition mock_ListFiles :: "osenv \<Rightarrow> string \<Rightarrow> string \<Rightarrow> MockProvider \<Rightarrow> (error + FileInfo list) \<times> MockProvider" where
  "mock_ListFiles E sid path m =
     (case mock_getSandbox sid m of
        Inl e \<Rightarrow> (Inl e, m)
      | Inr sb \<Rightarrow>
          (let (r, m) = ask (os_entries E) (OsReadDir (mock_path sb path)) m
           in (case r of Inl e \<Rightarrow> Inl (wrap_err ''reading dir'' e) | Inr es \<Rightarrow> Inr (listing (listed path) es), m)))"

definition mock_DeleteFile :: "osenv \<Rightarrow> string \<Rightarrow> string \<Rightarrow> bool \<Rightarrow> MockProvider \<Rightarrow> error option \<times> MockProvider" where
  "mock_DeleteFile E sid path recursive m =
     (case mock_getSandbox sid m of
        Inl e \<Rightarrow> (Some e, m)
      | Inr sb \<Rightarrow> ask (os_unit E) (if recursive then OsRemoveAll (mock_path sb path) else OsRemove (mock_path sb path)) m)"

definition mock_MoveFile :: "osenv \<Rightarrow> string \<Rightarrow> string \<Rightarrow> string \<Rightarrow> MockProvider \<Rightarrow> error option \<times> MockProvider" where
  "mock_MoveFile E sid oldPath newPath m =
     (case mock_getSandbox sid m of
        Inl e \<Rightarrow> (Some e, m)
      | Inr sb \<Rightarrow>
          (let (r, m) = ask (os_unit E) (OsMkdirAll (Dir (mock_path sb newPath))) m in
           case r of
             Some e \<Rightarrow> (Some (wrap_err ''creating dirs'' e), m)
           | None \<Rightarrow> ask (os_unit E) (OsRename (mock_path sb oldPath) (mock_path sb newPath)) m))"

definition mock_ChmodFile :: "osenv \<Rightarrow> string \<Rightarrow> string \<Rightarrow> string \<Rightarrow> MockProvider \<Rightarrow> error option \<times> MockProvider" where
  "mock_ChmodFile E sid path md m =
     (case mock_getSandbox sid m of
        Inl e \<Rightarrow> (Some e, m)
      | Inr sb \<Rightarrow>
          (case parse_octal md of
             None \<Rightarrow> (Some (parse_mode_error md), m)
           | Some n \<Rightarrow> ask (os_unit E) (OsChmod (mock_path sb path) n) m))"

definition mock_StatFile :: "osenv \<Rightarrow> string \<Rightarrow> string \<Rightarrow> MockProvider \<Rightarrow> (error + FileInfo) \<times> MockProvider" where
  "mock_StatFile E sid path m =
     (case mock_getSandbox sid m of
        Inl e \<Rightarrow> (Inl e, m)
      | Inr sb \<Rightarrow>
          (let (r, m) = ask (os_stat E) (OsStat (mock_path sb path)) m
           in (case r of
                 Inl e \<Rightarrow> Inl (wrap_err ''stat'' e)
               | Inr st \<Rightarrow> Inr \<lparr>fi_Path = path, fi_Size = fs_Size st, fi_Mode = octal (fs_Mode st), fi_IsDir = fs_IsDir st,
                                fi_ModTime = fs_ModTime st\<rparr>, m)))"

text \<open>\<open>filepath.Rel\<close> of a match of the pattern to the directory is library code: \<open>rel\<close>.\<close>

definition mock_GlobFiles ::
  "osenv \<Rightarrow> (string \<Rightarrow> string \<Rightarrow> string) \<Rightarrow> string \<Rightarrow> string \<Rightarrow> MockProvider \<Rightarrow> (error + string list) \<times> MockProvider" where
  "mock_GlobFiles E rel sid pattern m =
     (case mock_getSandbox sid m of
        Inl e \<Rightarrow> (Inl e, m)
      | Inr sb \<Rightarrow>
          (let (r, m) = ask (os_matches E) (OsGlob (mock_path sb pattern)) m
           in (case r of Inl e \<Rightarrow> Inl (wrap_err ''glob'' e) | Inr ps \<Rightarrow> Inr (map (\<lambda>p. ''/'' @ rel (mx_root sb) p) ps), m)))"

definition mock_Status :: "string \<Rightarrow> MockProvider \<Rightarrow> error + SandboxStatus" where
  "mock_Status sid m =
     (case map_of (mk_sandboxes m) sid of
        None \<Rightarrow> Inl (SandboxNotFoundError sid)
      | Some sb \<Rightarrow> Inr \<lparr>st_ID = mx_id sb, st_State = mx_state sb\<rparr>)"

definition mock_Destroy :: "osenv \<Rightarrow> string \<Rightarrow> MockProvider \<Rightarrow> error option \<times> MockProvider" where
  "mock_Destroy E sid m =
     (case map_of (mk_sandboxes m) sid of
        None \<Rightarrow> (Some (SandboxNotFoundError sid), m)
      | Some sb \<Rightarrow>
          ask (os_unit E) (OsRemoveAll (mx_root sb))
            (m\<lparr>mk_sandboxes := al_put sid (sb\<lparr>mx_state := ''destroyed''\<rparr>) (mk_sandboxes m)\<rparr>))"

text \<open>The last lines of a log that is always the same.\<close>

definition last_log :: "int \<Rightarrow> string list \<Rightarrow> string list" where
  "last_log n ls = (if n > 0 \<and> n < int (length ls) then drop (length ls - nat n) ls else ls)"

definition mock_ConsoleLog :: "string \<Rightarrow> int \<Rightarrow> MockProvider \<Rightarrow> error + string list" where
  "mock_ConsoleLog sid n m =
     (case mock_getSandbox sid m of
        Inl e \<Rightarrow> Inl e
      | Inr sb \<Rightarrow> Inr (last_log n [''[INFO] mock sandbox '' @ sid @ '' started'',
                    ''[INFO] workspace initialized at /workspace'', ''[INFO] sandbox ready'']))"

section \<open>The contract\<close>

definition mock_running :: "MockProvider \<Rightarrow> string set" where
  "mock_running m = {sid. \<exists>sb. map_of (mk_sandboxes m) sid = Some sb \<and> mx_state sb \<noteq> ''destroyed''}"

type_synonym mock_world = "osenv \<times> (string \<Rightarrow> string \<Rightarrow> string) \<times> string \<times> SpawnOptions"

fun mock_guest :: "mock_world \<Rightarrow> guest_op \<Rightarrow> string \<Rightarrow> MockProvider \<Rightarrow> error option \<times> MockProvider" where
  "mock_guest (E, rel, b, so) (GExec opts) sid m = failure (mock_Exec E sid opts m)"
| "mock_guest (E, rel, b, so) (GExecStream opts) sid m = failure (mock_ExecStream E sid opts m)"
| "mock_guest (E, rel, b, so) (GWriteFile p c md) sid m = mock_WriteFile E sid p c md m"
| "mock_guest (E, rel, b, so) (GReadFile p) sid m = failure (mock_ReadFile E sid p m)"
| "mock_guest (E, rel, b, so) (GListFiles p) sid m = failure (mock_ListFiles E sid p m)"
| "mock_guest (E, rel, b, so) (GDeleteFile p rc) sid m = mock_DeleteFile E sid p rc m"
| "mock_guest (E, rel, b, so) (GMoveFile p q) sid m = mock_MoveFile E sid p q m"
| "mock_guest (E, rel, b, so) (GChmodFile p md) sid m = mock_ChmodFile E sid p md m"
| "mock_guest (E, rel, b, so) (GStatFile p) sid m = failure (mock_StatFile E sid p m)"
| "mock_guest (E, rel, b, so) (GGlobFiles p) sid m = failure (mock_GlobFiles E rel sid p m)"
| "mock_guest (E, rel, b, so) (GConsoleLog n) sid m = failure (mock_ConsoleLog sid n m, m)"

lemmas mock_guest_defs = mock_Exec_def mock_ExecStream_def mock_WriteFile_def mock_ReadFile_def mock_ListFiles_def
  mock_DeleteFile_def mock_MoveFile_def mock_ChmodFile_def mock_StatFile_def mock_GlobFiles_def mock_ConsoleLog_def

lemma mock_running_ask [simp]: "mock_running (snd (ask f c m)) = mock_running m"
  by (simp add: ask_def mock_running_def)

lemma mock_guest_sandboxes: "mk_sandboxes (snd (mock_guest i g sid m)) = mk_sandboxes m"
  by (cases i; cases g) (simp_all add: mock_guest_defs ask_def Let_def failure_def split: sum.split option.split run_result.split)

lemma mock_getSandbox_gone: "sid \<notin> mock_running m \<Longrightarrow> \<exists>e. mock_getSandbox sid m = Inl e \<and> lifecycle_error e"
  by (auto simp: mock_running_def mock_getSandbox_def split: option.split)

lemma mock_guest_gone: "sid \<notin> mock_running m \<Longrightarrow> \<exists>e. mock_guest i g sid m = (Some e, m) \<and> lifecycle_error e"
  using mock_getSandbox_gone [of sid m] by (cases i; cases g) (auto simp: mock_guest_defs)

lemma mock_Spawn_running:
  "mock_running (snd (mock_Spawn E b opts m)) =
     (case fst (mock_Spawn E b opts m) of Inl e \<Rightarrow> mock_running m | Inr sid \<Rightarrow> insert sid (mock_running m))"
  by (auto simp: mock_Spawn_def ask_def mock_running_def Let_def split: sum.split option.split)

lemma mock_Destroy_running: "mock_running (snd (mock_Destroy E sid m)) = mock_running m - {sid}"
  by (auto simp: mock_Destroy_def ask_def mock_running_def split: option.split if_splits)

fun mock_spawn :: "mock_world \<Rightarrow> MockProvider \<Rightarrow> (error + string) \<times> MockProvider" where
  "mock_spawn (E, rel, b, so) p = mock_Spawn E b so p"

fun mock_destroy :: "mock_world \<Rightarrow> string \<Rightarrow> MockProvider \<Rightarrow> error option \<times> MockProvider" where
  "mock_destroy (E, w) sid p = mock_Destroy E sid p"

lemma mock_spawn_running:
  "mock_running (snd (mock_spawn w p)) =
     (case fst (mock_spawn w p) of Inl e \<Rightarrow> mock_running p | Inr sid \<Rightarrow> insert sid (mock_running p))"
  by (cases w) (simp add: mock_Spawn_running)

lemma mock_destroy_running: "mock_running (snd (mock_destroy w sid p)) = mock_running p - {sid}"
  by (cases w) (simp add: mock_Destroy_running)

lemma mock_guest_running: "mock_running (snd (mock_guest w g sid p)) = mock_running p"
  by (simp add: mock_running_def mock_guest_sandboxes)

interpretation mock: sandbox_provider mock_spawn mock_destroy mock_guest mock_running
proof
  show "mock_spawn w p = (Inr sid, p') \<Longrightarrow> mock_running p' = insert sid (mock_running p)"
    "mock_spawn w p = (Inl e, p') \<Longrightarrow> mock_running p' = mock_running p" for w p sid p' e
    using mock_spawn_running [of w p] by simp_all
qed (simp_all add: mock_destroy_running mock_guest_running mock_guest_gone)

end
