(* ===== verification/Provider_PRoot.thy ===== *)
theory Provider_PRoot
  imports Provider_Mock
begin

text \<open>
  The PRoot provider (\<open>internal/providers/proot.go\<close>): a directory per sandbox, commands run by
  the \<open>proot\<close> program with the directory bound to \<open>/workspace\<close>.  Files are handled on the host, so
  \<open>safePath\<close> has to keep every path inside the directory; it does so by the text of the path, and
  the model says nothing of symbolic links.
\<close>

section \<open>Definitions\<close>

record PRootProviderConfig =
  px_RootfsPath :: string
  px_PRootBinary :: string
  px_WorkspaceBase :: string
  px_DefaultTimeout :: duration
  px_MaxSandboxes :: int

record prootSandbox =
  ps_id :: string
  ps_workspace :: string
  ps_state :: string
  ps_opts :: SpawnOptions
  ps_createdAt :: time

record PRootProvider = host +
  pp_sandboxes :: "(string \<times> prootSandbox) list"
  pp_config :: PRootProviderConfig

definition NewPRootProvider :: "PRootProviderConfig \<Rightarrow> PRootProvider" where
  "NewPRootProvider cfg =
     (let cfg = (if px_PRootBinary cfg = [] then cfg\<lparr>px_PRootBinary := ''proot''\<rparr> else cfg);
          cfg = (if px_DefaultTimeout cfg = 0 then cfg\<lparr>px_DefaultTimeout := 60 * Second\<rparr> else cfg);
          cfg = (if px_MaxSandboxes cfg = 0 then cfg\<lparr>px_MaxSandboxes := 10\<rparr> else cfg)
      in \<lparr>ho_calls = [], pp_sandboxes = [], pp_config = cfg\<rparr>)"

definition proot_Healthy :: "osenv \<Rightarrow> PRootProvider \<Rightarrow> bool \<times> PRootProvider" where
  "proot_Healthy E p =
     (let binary = px_PRootBinary (pp_config p); rootfs = px_RootfsPath (pp_config p);
          (found, p) = (if \<not> IsAbs binary
                        then (let (r, p) = ask (os_name E) (OsLookPath binary) p in (case r of Inl _ \<Rightarrow> False | Inr _ \<Rightarrow> True, p))
                        else (let (r, p) = ask (os_stat E) (OsStat binary) p in (case r of Inl _ \<Rightarrow> False | Inr _ \<Rightarrow> True, p)))
      in if \<not> found then (False, p)
         else if rootfs = [] then (True, p)
         else (let (r, p) = ask (os_stat E) (OsStat rootfs) p in (case r of Inl _ \<Rightarrow> False | Inr st \<Rightarrow> fs_IsDir st, p)))"

definition proot_active :: "PRootProvider \<Rightarrow> nat" where
  "proot_active p = length (filter (\<lambda>(i, sb). ps_state sb \<noteq> ''destroyed'') (pp_sandboxes p))"

definition proot_Spawn ::
  "osenv \<Rightarrow> string \<Rightarrow> time \<Rightarrow> SpawnOptions \<Rightarrow> PRootProvider \<Rightarrow> (error + string) \<times> PRootProvider" where
  "proot_Spawn E b now opts p =
     (if int (proot_active p) \<ge> px_MaxSandboxes (pp_config p)
      then (Inl (ResourceLimitError (''max sandboxes reached ('' @ Itoa (px_MaxSandboxes (pp_config p)) @ '')'')), p)
      else
        (let sid = ''sb-'' @ hex_bytes b; workspace = Join2 (px_WorkspaceBase (pp_config p)) sid;
             (r, p) = ask (os_unit E) (OsMkdirAll (Join2 workspace ''workspace'')) p in
         case r of
           Some e \<Rightarrow> (Inl (wrap_err ''creating workspace dir'' e), p)
         | None \<Rightarrow>
             (let sb = \<lparr>ps_id = sid, ps_workspace = workspace, ps_state = ''running'', ps_opts = opts, ps_createdAt = now\<rparr>
              in (Inr sid, p\<lparr>pp_sandboxes := al_put sid sb (pp_sandboxes p)\<rparr>))))"

definition proot_getSandbox :: "string \<Rightarrow> PRootProvider \<Rightarrow> error + prootSandbox" where
  "proot_getSandbox sid p =
     (case map_of (pp_sandboxes p) sid of
        None \<Rightarrow> Inl (SandboxNotFoundError sid)
      | Some sb \<Rightarrow> if ps_state sb = ''destroyed'' then Inl (SandboxDestroyedError sid) else Inr sb)"

definition safePath :: "osenv \<Rightarrow> prootSandbox \<Rightarrow> string \<Rightarrow> error + string" where
  "safePath E sb path =
     (let full = Join2 (ps_workspace sb) (Clean path); abs = Abs (os_cwd E) full; wsAbs = Abs (os_cwd E) (ps_workspace sb) in
      if \<not> HasPrefix abs (wsAbs @ [slash]) \<and> abs \<noteq> wsAbs
      then Inl (Err ErrOther (''path '' @ Quote path @ '' escapes sandbox workspace''))
      else Inr full)"

definition BuildCommand :: "prootSandbox \<Rightarrow> ExecOptions \<Rightarrow> PRootProvider \<Rightarrow> error + string list \<times> string list" where
  "BuildCommand sb opts p =
     (let workdir = (if xo_WorkDir opts \<noteq> [] then xo_WorkDir opts else ''/workspace'');
          args = [''-0'', ''-r'', px_RootfsPath (pp_config p), ''-b'', Join2 (ps_workspace sb) ''workspace'' @ '':/workspace'',
                  ''-b'', ''/dev/null:/dev/null'', ''-b'', ''/dev/urandom:/dev/urandom'', ''-w'', workdir] in
      case buildExecCommand opts of
        Inl e \<Rightarrow> Inl e
      | Inr execArgs \<Rightarrow>
          (let execArgs = (if normalizeExecMode (xo_Mode opts) = Inr ''shell'' then ''/bin/sh'' # tl execArgs else execArgs)
           in Inr (px_PRootBinary (pp_config p) # args @ execArgs,
                   [''HOME=/root'', ''PATH=/usr/local/sbin:/usr/local/bin:/usr/sbin:/usr/bin:/sbin:/bin'', ''LANG=C.UTF-8'',
                    ''TERM=xterm-256color''] @ env_strings (xo_Env opts))))"

definition proot_Exec ::
  "osenv \<Rightarrow> string \<Rightarrow> ExecOptions \<Rightarrow> PRootProvider \<Rightarrow> (error + int \<times> string \<times> string) \<times> PRootProvider" where
  "proot_Exec E sid opts p =
     (case proot_getSandbox sid p of
        Inl e \<Rightarrow> (Inl e, p)
      | Inr sb \<Rightarrow>
     (case BuildCommand sb opts p of
        Inl e \<Rightarrow> (Inl e, p)
      | Inr (argv, env) \<Rightarrow>
          (let (r, p) = ask (os_run E) (OsRun argv env []) p in
           case r of
             Killed out err \<Rightarrow> (Inl (ExecTimeoutError sid), p)
           | RunFailed e \<Rightarrow> (Inl (wrap_err ''proot exec'' e), p)
           | Exited code out err \<Rightarrow> (Inr (code, out, err), p))))"

text \<open>After the chunks that were delivered comes, at the deadline, the notice of it.\<close>

definition proot_ExecStream ::
  "osenv \<Rightarrow> string \<Rightarrow> ExecOptions \<Rightarrow> PRootProvider \<Rightarrow> (error + (string \<times> string) list) \<times> PRootProvider" where
  "proot_ExecStream E sid opts p =
     (case proot_getSandbox sid p of
        Inl e \<Rightarrow> (Inl e, p)
      | Inr sb \<Rightarrow>
     (case BuildCommand sb opts p of
        Inl e \<Rightarrow> (Inl e, p)
      | Inr (argv, env) \<Rightarrow>
          (let (r, p) = ask (os_stream E) (OsStart argv env []) p in
           case r of
             Inl e \<Rightarrow> (Inl (wrap_err ''start'' e), p)
           | Inr (chunks, Finished) \<Rightarrow> (Inr chunks, p)
           | Inr (chunks, TimedOut seen) \<Rightarrow>
               (Inr (chunks @ (if seen then [(''stderr'', err_msg (ExecTimeoutError sid))] else [])), p))))"

text \<open>What every file operation starts with.\<close>

definition proot_file ::
  "osenv \<Rightarrow> string \<Rightarrow> string \<Rightarrow> PRootProvider \<Rightarrow> error + string" where
  "proot_file E sid path p =
     (case proot_getSandbox sid p of Inl e \<Rightarrow> Inl e | Inr sb \<Rightarrow> safePath E sb path)"

definition proot_WriteFile ::
  "osenv \<Rightarrow> string \<Rightarrow> string \<Rightarrow> error + string \<Rightarrow> string \<Rightarrow> PRootProvider \<Rightarrow> error option \<times> PRootProvider" where
  "proot_WriteFile E sid path content md p =
     (case proot_file E sid path p of
        Inl e \<Rightarrow> (Some e, p)
      | Inr full \<Rightarrow>
          (let (r, p) = ask (os_unit E) (OsMkdirAll (Dir full)) p in
           case r of
             Some e \<Rightarrow> (Some (wrap_err ''creating dirs'' e), p)
           | None \<Rightarrow>
               (case content of
                  Inl e \<Rightarrow> (Some (wrap_err ''reading content'' e), p)
                | Inr data \<Rightarrow> ask (os_unit E) (OsWriteFile full data (write_perm md)) p)))"

definition proot_ReadFile :: "osenv \<Rightarrow> string \<Rightarrow> string \<Rightarrow> PRootProvider \<Rightarrow> (error + string) \<times> PRootProvider" where
  "proot_ReadFile E sid path p =
     (case proot_file E sid path p of
        Inl e \<Rightarrow> (Inl e, p)
      | Inr full \<Rightarrow>
          (let (r, p) = ask (os_content E) (OsOpen full) p
           in (case r of Inl e \<Rightarrow> Inl (wrap_err ''opening file'' e) | Inr c \<Rightarrow> Inr c, p)))"

definition proot_ListFiles :: "osenv \<Rightarrow> string \<Rightarrow> string \<Rightarrow> PRootProvider \<Rightarrow> (error + FileInfo list) \<times> PRootProvider" where
  "proot_ListFiles E sid path p =
     (case proot_file E sid path p of
        Inl e \<Rightarrow> (Inl e, p)
      | Inr full \<Rightarrow>
          (let (r, p) = ask (os_entries E) (OsReadDir full) p
           in (case r of Inl e \<Rightarrow> Inl (wrap_err ''reading dir'' e) | Inr es \<Rightarrow> Inr (listing (listed path) es), p)))"

definition proot_DeleteFile :: "osenv \<Rightarrow> string \<Rightarrow> string \<Rightarrow> bool \<Rightarrow> PRootProvider \<Rightarrow> error option \<times> PRootProvider" where
  "proot_DeleteFile E sid path recursive p =
     (case proot_file E sid path p of
        Inl e \<Rightarrow> (Some e, p)
      | Inr full \<Rightarrow> ask (os_unit E) (if recursive then OsRemoveAll full else OsRemove full) p)"

definition proot_MoveFile :: "osenv \<Rightarrow> string \<Rightarrow> string \<Rightarrow> string \<Rightarrow> PRootProvider \<Rightarrow> error option \<times> PRootProvider" where
  "proot_MoveFile E sid oldPath newPath p =
     (case proot_file E sid oldPath p of
        Inl e \<Rightarrow> (Some e, p)
      | Inr fullOld \<Rightarrow>
     (case proot_file E sid newPath p of
        Inl e \<Rightarrow> (Some e, p)
      | Inr fullNew \<Rightarrow>
          (let (r, p) = ask (os_unit E) (OsMkdirAll (Dir fullNew)) p in
           case r of
             Some e \<Rightarrow> (Some (wrap_err ''creating dirs'' e), p)
           | None \<Rightarrow> ask (os_unit E) (OsRename fullOld fullNew) p)))"

definition proot_ChmodFile :: "osenv \<Rightarrow> string \<Rightarrow> string \<Rightarrow> string \<Rightarrow> PRootProvider \<Rightarrow> error option \<times> PRootProvider" where
  "proot_ChmodFile E sid path md p =
     (case proot_file E sid path p of
        Inl e \<Rightarrow> (Some e, p)
      | Inr full \<Rightarrow>
          (case parse_octal md of
             None \<Rightarrow> (Some (parse_mode_error md), p)
           | Some n \<Rightarrow> ask (os_unit E) (OsChmod full n) p))"

definition proot_StatFile :: "osenv \<Rightarrow> string \<Rightarrow> string \<Rightarrow> PRootProvider \<Rightarrow> (error + FileInfo) \<times> PRootProvider" where
  "proot_StatFile E sid path p =
     (case proot_file E sid path p of
        Inl e \<Rightarrow> (Inl e, p)
      | Inr full \<Rightarrow>
          (let (r, p) = ask (os_stat E) (OsStat full) p
           in (case r of
                 Inl e \<Rightarrow> Inl (wrap_err ''stat'' e)
               | Inr st \<Rightarrow> Inr \<lparr>fi_Path = path, fi_Size = fs_Size st, fi_Mode = octal (fs_Mode st), fi_IsDir = fs_IsDir st,
                                fi_ModTime = fs_ModTime st\<rparr>, p)))"

text \<open>The pattern is not checked; matches outside the directory are left out of the answer.\<close>

definition proot_GlobFiles ::
  "osenv \<Rightarrow> (string \<Rightarrow> string \<Rightarrow> string) \<Rightarrow> string \<Rightarrow> string \<Rightarrow> PRootProvider \<Rightarrow> (error + string list) \<times> PRootProvider" where
  "proot_GlobFiles E rel sid pattern p =
     (case proot_getSandbox sid p of
        Inl e \<Rightarrow> (Inl e, p)
      | Inr sb \<Rightarrow>
          (let (r, p) = ask (os_matches E) (OsGlob (Join2 (ps_workspace sb) (Clean pattern))) p;
               ws = Abs (os_cwd E) (ps_workspace sb)
           in (case r of
                 Inl e \<Rightarrow> Inl (wrap_err ''glob'' e)
               | Inr ms \<Rightarrow> Inr (map (\<lambda>f. ''/'' @ rel (ps_workspace sb) f) (filter (\<lambda>f. HasPrefix (Abs (os_cwd E) f) ws) ms)), p)))"

definition proot_Status :: "string \<Rightarrow> PRootProvider \<Rightarrow> error + SandboxStatus" where
  "proot_Status sid p =
     (case map_of (pp_sandboxes p) sid of
        None \<Rightarrow> Inl (SandboxNotFoundError sid)
      | Some sb \<Rightarrow> Inr \<lparr>st_ID = ps_id sb, st_State = ps_state sb\<rparr>)"

text \<open>A failure to remove the directory is only logged.\<close>

definition proot_Destroy :: "osenv \<Rightarrow> string \<Rightarrow> PRootProvider \<Rightarrow> error option \<times> PRootProvider" where
  "proot_Destroy E sid p =
     (case map_of (pp_sandboxes p) sid of
        None \<Rightarrow> (Some (SandboxNotFoundError sid), p)
      | Some sb \<Rightarrow>
          (None, snd (ask (os_unit E) (OsRemoveAll (ps_workspace sb)) (p\<lparr>pp_sandboxes := al_del sid (pp_sandboxes p)\<rparr>))))"

definition proot_ConsoleLog :: "string \<Rightarrow> int \<Rightarrow> PRootProvider \<Rightarrow> error + string list" where
  "proot_ConsoleLog sid n p =
     (case proot_getSandbox sid p of
        Inl e \<Rightarrow> Inl e
      | Inr sb \<Rightarrow> Inr (last_log n [''[INFO] proot sandbox '' @ ps_id sb @ '' started'', ''[INFO] rootfs: '' @ px_RootfsPath (pp_config p),
                    ''[INFO] workspace initialized at /workspace'', ''[INFO] sandbox ready'']))"

section \<open>The contract\<close>

definition proot_running :: "PRootProvider \<Rightarrow> string set" where
  "proot_running p = {sid. \<exists>sb. map_of (pp_sandboxes p) sid = Some sb \<and> ps_state sb \<noteq> ''destroyed''}"

type_synonym proot_world = "osenv \<times> (string \<Rightarrow> string \<Rightarrow> string) \<times> string \<times> time \<times> SpawnOptions"

fun proot_guest :: "proot_world \<Rightarrow> guest_op \<Rightarrow> string \<Rightarrow> PRootProvider \<Rightarrow> error option \<times> PRootProvider" where
  "proot_guest (E, rel, w) (GExec opts) sid p = failure (proot_Exec E sid opts p)"
| "proot_guest (E, rel, w) (GExecStream opts) sid p = failure (proot_ExecStream E sid opts p)"
| "proot_guest (E, rel, w) (GWriteFile f c md) sid p = proot_WriteFile E sid f c md p"
| "proot_guest (E, rel, w) (GReadFile f) sid p = failure (proot_ReadFile E sid f p)"
| "proot_guest (E, rel, w) (GListFiles f) sid p = failure (proot_ListFiles E sid f p)"
| "proot_guest (E, rel, w) (GDeleteFile f rc) sid p = proot_DeleteFile E sid f rc p"
| "proot_guest (E, rel, w) (GMoveFile f g) sid p = proot_MoveFile E sid f g p"
| "proot_guest (E, rel, w) (GChmodFile f md) sid p = proot_ChmodFile E sid f md p"
| "proot_guest (E, rel, w) (GStatFile f) sid p = failure (proot_StatFile E sid f p)"
| "proot_guest (E, rel, w) (GGlobFiles f) sid p = failure (proot_GlobFiles E rel sid f p)"
| "proot_guest (E, rel, w) (GConsoleLog n) sid p = failure (proot_ConsoleLog sid n p, p)"

lemmas proot_guest_defs = proot_Exec_def proot_ExecStream_def proot_WriteFile_def proot_ReadFile_def proot_ListFiles_def
  proot_DeleteFile_def proot_MoveFile_def proot_ChmodFile_def proot_StatFile_def proot_GlobFiles_def proot_ConsoleLog_def

lemma proot_guest_sandboxes: "pp_sandboxes (snd (proot_guest i g sid p)) = pp_sandboxes p"
  by (cases i; cases g) (simp_all add: proot_guest_defs ask_def Let_def failure_def
      split: sum.split option.split run_result.split prod.split stream_end.split)

lemma proot_getSandbox_gone: "sid \<notin> proot_running p \<Longrightarrow> \<exists>e. proot_getSandbox sid p = Inl e \<and> lifecycle_error e"
  by (auto simp: proot_running_def proot_getSandbox_def split: option.split)

lemma proot_guest_gone: "sid \<notin> proot_running p \<Longrightarrow> \<exists>e. proot_guest i g sid p = (Some e, p) \<and> lifecycle_error e"
  using proot_getSandbox_gone [of sid p] by (cases i; cases g) (auto simp: proot_guest_defs proot_file_def)

lemma proot_Spawn_running:
  "proot_running (snd (proot_Spawn E b now opts p)) =
     (case fst (proot_Spawn E b now opts p) of Inl e \<Rightarrow> proot_running p | Inr sid \<Rightarrow> insert sid (proot_running p))"
  by (auto simp: proot_Spawn_def ask_def proot_running_def Let_def split: option.split)

lemma proot_Destroy_running: "proot_running (snd (proot_Destroy E sid p)) = proot_running p - {sid}"
  by (auto simp: proot_Destroy_def ask_def proot_running_def split: option.split if_splits)

fun proot_spawn :: "proot_world \<Rightarrow> PRootProvider \<Rightarrow> (error + string) \<times> PRootProvider" where
  "proot_spawn (E, rel, b, now, so) p = proot_Spawn E b now so p"

fun proot_destroy :: "proot_world \<Rightarrow> string \<Rightarrow> PRootProvider \<Rightarrow> error option \<times> PRootProvider" where
  "proot_destroy (E, w) sid p = proot_Destroy E sid p"

lemma proot_spawn_running:
  "proot_running (snd (proot_spawn w p)) =
     (case fst (proot_spawn w p) of Inl e \<Rightarrow> proot_running p | Inr sid \<Rightarrow> insert sid (proot_running p))"
  by (cases w) (simp add: proot_Spawn_running)

lemma proot_destroy_running: "proot_running (snd (proot_destroy w sid p)) = proot_running p - {sid}"
  by (cases w) (simp add: proot_Destroy_running)

lemma proot_guest_running: "proot_running (snd (proot_guest w g sid p)) = proot_running p"
  by (simp add: proot_running_def proot_guest_sandboxes)

interpretation proot: sandbox_provider proot_spawn proot_destroy proot_guest proot_running
proof
  show "proot_spawn w p = (Inr sid, p') \<Longrightarrow> proot_running p' = insert sid (proot_running p)"
    "proot_spawn w p = (Inl e, p') \<Longrightarrow> proot_running p' = proot_running p" for w p sid p' e
    using proot_spawn_running [of w p] by simp_all
qed (simp_all add: proot_destroy_running proot_guest_running proot_guest_gone)

end
