(* ===== verification/Provider_PRoot_Laws.thy ===== *)
theory Provider_PRoot_Laws
  imports Provider_PRoot
begin

text \<open>
  What the PRoot provider guarantees: its file operations stay in the directory of the sandbox,
  it runs at most \<open>MaxSandboxes\<close> at a time, and what was destroyed stays gone.
\<close>

section \<open>Paths inside a directory\<close>

text \<open>A clean path that is the directory or below it.  A clean rooted path has no \<open>..\<close> in it.\<close>

definition within :: "string \<Rightarrow> string \<Rightarrow> bool" where
  "within ws f \<longleftrightarrow> Clean f = f \<and> (f = ws \<or> HasPrefix f (ws @ [slash]))"

lemma rooted_path_IsAbs [simp]: "IsAbs (rooted_path cs)"
  by (simp add: IsAbs_def HasPrefix_def rooted_path_def)

lemma IsAbs_comps:
  assumes "IsAbs p"
  obtains cs where "Clean p = rooted_path cs" and "\<And>c. c \<in> set cs \<Longrightarrow> plain c"
proof -
  from assms obtain r where "p = slash # r" by (auto simp: IsAbs_def HasPrefix_iff)
  then show thesis using that Clean_rooted_comps by metis
qed

lemma Join2_rooted:
  obtains es where "Join2 (rooted_path cs) x = rooted_path es" and "\<And>c. c \<in> set es \<Longrightarrow> plain c"
proof -
  have "Join2 (rooted_path cs) x = Clean (slash # (join_with slash cs @ slash # x))"
    by (simp add: Join2_def rooted_path_def)
  then show thesis using that Clean_rooted_comps by metis
qed

lemma join_with_append:
  "cs \<noteq> [] \<Longrightarrow> ds \<noteq> [] \<Longrightarrow> join_with slash (cs @ ds) = join_with slash cs @ slash # join_with slash ds"
proof (induction cs)
  case (Cons c cs)
  then show ?case by (cases cs; cases ds) auto
qed simp

lemma rooted_path_below:
  assumes "\<And>c. c \<in> set cs \<Longrightarrow> plain c" and "\<And>c. c \<in> set es \<Longrightarrow> plain c" and "cs \<noteq> []"
    and "HasPrefix (rooted_path es) (rooted_path cs @ [slash])"
  shows "\<exists>ds. ds \<noteq> [] \<and> es = cs @ ds"
proof -
  from assms(4) obtain r where r: "join_with slash es = join_with slash cs @ slash # r"
    by (auto simp: HasPrefix_iff rooted_path_def)
  have "split_on slash (join_with slash es) = cs @ split_on slash r"
    unfolding r using assms(1,3) by (simp add: split_on_append split_on_join_plain)
  then have "es = cs @ split_on slash r"
    using assms(2,3) by (cases cs) (auto simp: split_on_join_plain split: if_splits)
  then show ?thesis by (intro exI [of _ "split_on slash r"]) simp
qed

lemma rooted_path_append:
  "cs \<noteq> [] \<Longrightarrow> ds \<noteq> [] \<Longrightarrow> HasPrefix (rooted_path (cs @ ds)) (rooted_path cs @ [slash])"
  by (simp add: HasPrefix_iff rooted_path_def join_with_append)

lemma within_rooted:
  assumes "\<And>c. c \<in> set cs \<Longrightarrow> plain c" and "cs \<noteq> []" and "\<And>c. c \<in> set ds \<Longrightarrow> plain c"
  shows "within (rooted_path cs) (rooted_path (cs @ ds))"
proof -
  have "Clean (rooted_path (cs @ ds)) = rooted_path (cs @ ds)"
    using assms(1,3) by (intro Clean_rooted_plain) auto
  then show ?thesis
    using rooted_path_append [OF assms(2), of ds] by (cases "ds = []") (auto simp: within_def)
qed

text \<open>The directory of a clean path: its components without the last.\<close>

lemma Dir_rooted:
  assumes "\<And>c. c \<in> set cs \<Longrightarrow> plain c"
  shows "Dir (rooted_path cs) = rooted_path (butlast cs)"
proof (cases "cs = []")
  case True
  then show ?thesis by (simp add: Dir_def rooted_path_def Clean_def)
next
  case False
  let ?c = "last cs"
  have c: "cs = butlast cs @ [?c]" using False by simp
  have nos: "slash \<notin> set ?c" using assms [of ?c] False by (simp add: plain_def)
  have drop: "dropWhile (\<lambda>c. c \<noteq> slash) (rev ?c @ slash # x) = slash # x" for x
    using nos by (simp add: dropWhile_append)
  show ?thesis
  proof (cases "butlast cs = []")
    case True
    then have "rooted_path cs = slash # ?c" by (subst c) (simp add: rooted_path_def)
    then show ?thesis using True drop [of "[]"] by (simp add: Dir_def rooted_path_def Clean_def)
  next
    case False
    have "rooted_path cs = rooted_path (butlast cs) @ slash # ?c"
      by (subst c) (simp add: rooted_path_def join_with_append False)
    then have "Dir (rooted_path cs) = Clean (rooted_path (butlast cs) @ [slash])"
      using drop by (simp add: Dir_def)
    also have "\<dots> = rooted_path (butlast cs)"
    proof -
      have "split_on slash (join_with slash (butlast cs) @ slash # []) = butlast cs @ [[]]"
        using False assms by (simp add: split_on_append split_on_join_plain in_set_butlastD)
      moreover have "clean_loop True [] (butlast cs @ [[]]) = butlast cs"
        using assms by (subst clean_loop_plain_prefix) (auto dest: in_set_butlastD)
      ultimately show ?thesis by (simp add: rooted_path_def Clean_rooted)
    qed
    finally show ?thesis .
  qed
qed

lemma safePath_inside:
  assumes "ps_workspace sb = rooted_path cs" and "\<And>c. c \<in> set cs \<Longrightarrow> plain c" and "cs \<noteq> []"
    and "safePath E sb path = Inr full"
  obtains ds where "full = rooted_path (cs @ ds)" and "\<And>c. c \<in> set ds \<Longrightarrow> plain c"
proof -
  obtain es where es: "Join2 (rooted_path cs) (Clean path) = rooted_path es" "\<And>c. c \<in> set es \<Longrightarrow> plain c"
    using Join2_rooted by blast
  have clean: "Clean (rooted_path cs) = rooted_path cs" "Clean (rooted_path es) = rooted_path es"
    using Clean_rooted_plain assms(2) es(2) by simp_all
  have full: "full = rooted_path es" and
    or: "HasPrefix (rooted_path es) (rooted_path cs @ [slash]) \<or> rooted_path es = rooted_path cs"
    using assms(4) by (auto simp: safePath_def Let_def assms(1) es(1) Abs_def clean split: if_splits)
  from or have "\<exists>ds. es = cs @ ds"
    using rooted_path_below [OF assms(2) es(2) assms(3)] rooted_path_inj [OF _ es(2) assms(2)] by fastforce
  with full es(2) that show thesis by auto
qed

section \<open>The directories of the sandboxes\<close>

lemma clean_loop_append: "clean_loop r st (xs @ ys) = clean_loop r (rev (clean_loop r st xs)) ys"
  by (induction r st xs rule: clean_loop.induct) (auto split: list.splits)

lemma Join2_child:
  assumes "IsAbs base" and "plain c"
  obtains bs where "Clean base = rooted_path bs" and "Join2 base c = rooted_path (bs @ [c])" and "\<And>c. c \<in> set bs \<Longrightarrow> plain c"
proof -
  from assms(1) obtain r where base: "base = slash # r" by (auto simp: IsAbs_def HasPrefix_iff)
  let ?bs = "clean_loop True [] (split_on slash r)"
  have "c \<in> set ?bs \<Longrightarrow> plain c" for c
    by (rule clean_loop_plain) (auto dest: split_on_no_sep)
  moreover have "split_on slash c = [c]" using assms(2) by (simp add: split_on_id plain_def)
  then have "Join2 base c = rooted_path (?bs @ [c])"
    using assms(2) by (simp add: Join2_def base Clean_rooted split_on_append clean_loop_append plain_def)
  ultimately show thesis using that [of ?bs] by (simp add: base Clean_rooted)
qed

lemma hex_digit_not_slash: "d < 16 \<Longrightarrow> hex_digit d \<noteq> slash"
proof
  assume "d < 16" and "hex_digit d = slash"
  then have "(of_char (hex_digit d) :: nat) = 47" by simp
  with \<open>d < 16\<close> show False by (simp add: hex_digit_def digit_char_def split: if_splits)
qed

lemma plain_sandbox_id: "plain (''sb-'' @ hex_bytes b)"
proof -
  have "hex_digit (of_char c div 16) \<noteq> slash \<and> hex_digit (of_char c mod 16) \<noteq> slash" for c :: char
  proof -
    have "(of_char c :: nat) < 16 * 16" by simp
    then show ?thesis by (intro conjI hex_digit_not_slash less_mult_imp_div_less) simp_all
  qed
  then have "slash \<notin> set (hex_bytes b)"
    by (auto simp: hex_bytes_def dest: sym)
  then show ?thesis by (simp add: plain_def)
qed

definition proot_ok :: "PRootProvider \<Rightarrow> bool" where
  "proot_ok p \<longleftrightarrow> al_ok (pp_sandboxes p) \<and>
     (\<forall>(sid, sb) \<in> set (pp_sandboxes p). plain sid \<and> ps_workspace sb = Join2 (px_WorkspaceBase (pp_config p)) sid) \<and>
     int (proot_active p) \<le> max 0 (px_MaxSandboxes (pp_config p))"

lemma proot_ok_New: "proot_ok (NewPRootProvider cfg)"
  by (simp add: proot_ok_def NewPRootProvider_def proot_active_def Let_def)

lemma proot_ok_same:
  "pp_sandboxes p' = pp_sandboxes p \<Longrightarrow> pp_config p' = pp_config p \<Longrightarrow> proot_ok p' = proot_ok p"
  by (simp add: proot_ok_def proot_active_def)

lemma ask_fields [simp]:
  "pp_sandboxes (snd (ask f c p)) = pp_sandboxes p" "pp_config (snd (ask f c p)) = pp_config p"
  by (simp_all add: ask_def)

lemma proot_guest_config: "pp_config (snd (proot_guest w g sid p)) = pp_config p"
  by (cases w; cases g) (simp_all add: proot_guest_defs ask_def Let_def failure_def
      split: sum.split option.split run_result.split prod.split stream_end.split)

lemma active_put: "proot_active (p\<lparr>pp_sandboxes := al_put k sb (pp_sandboxes p)\<rparr>) \<le> Suc (proot_active p)"
proof -
  have "length (filter P (al_put k sb xs)) \<le> Suc (length (filter P xs))" for P and xs :: "(string \<times> prootSandbox) list"
    by (induction k sb xs rule: al_put.induct) auto
  then show ?thesis by (simp add: proot_active_def)
qed

lemma active_del: "proot_active (p\<lparr>pp_sandboxes := al_del k (pp_sandboxes p)\<rparr>) \<le> proot_active p"
  by (simp add: proot_active_def al_del_def) (rule length_filter_mono, simp_all)

text \<open>The state after a spawn: refused, failed, or with one more sandbox under the limit.\<close>

lemma proot_Spawn_state:
  fixes p :: PRootProvider and b :: string and E :: osenv
  defines "sid \<equiv> ''sb-'' @ hex_bytes b"
  defines "ws \<equiv> Join2 (px_WorkspaceBase (pp_config p)) sid"
  defines "q \<equiv> snd (ask (os_unit E) (OsMkdirAll (Join2 ws ''workspace'')) p)"
  shows "snd (proot_Spawn E b now so p) = p \<or> snd (proot_Spawn E b now so p) = q \<or>
    int (proot_active p) < px_MaxSandboxes (pp_config p) \<and>
    snd (proot_Spawn E b now so p) = q\<lparr>pp_sandboxes := al_put sid
      \<lparr>ps_id = sid, ps_workspace = ws, ps_state = ''running'', ps_opts = so, ps_createdAt = now\<rparr> (pp_sandboxes q)\<rparr>"
  by (cases "os_unit E (ho_calls p) (OsMkdirAll (Join2 ws ''workspace''))")
    (auto simp: proot_Spawn_def ask_def Let_def q_def ws_def sid_def)

lemma proot_ok_Spawn:
  assumes ok: "proot_ok p"
  shows "proot_ok (snd (proot_Spawn E b now so p))"
  using proot_Spawn_state [of E b now so p]
proof (elim disjE conjE)
  let ?sid = "''sb-'' @ hex_bytes b"
  let ?ws = "Join2 (px_WorkspaceBase (pp_config p)) ?sid"
  let ?q = "snd (ask (os_unit E) (OsMkdirAll (Join2 ?ws ''workspace'')) p)"
  let ?sb = "\<lparr>ps_id = ?sid, ps_workspace = ?ws, ps_state = ''running'', ps_opts = so, ps_createdAt = now\<rparr>"
  let ?p = "?q\<lparr>pp_sandboxes := al_put ?sid ?sb (pp_sandboxes ?q)\<rparr>"
  assume lt: "int (proot_active p) < px_MaxSandboxes (pp_config p)" and eq: "snd (proot_Spawn E b now so p) = ?p"
  have "int (proot_active ?p) \<le> px_MaxSandboxes (pp_config p)"
    using active_put [of ?sid ?sb ?q] lt by (simp add: proot_active_def)
  then have "proot_ok ?p"
    using ok set_al_put_subset [of ?sid ?sb "pp_sandboxes p"] plain_sandbox_id [of b] by (auto simp: proot_ok_def)
  with eq show ?thesis by simp
next
  let ?q = "snd (ask (os_unit E) (OsMkdirAll (Join2 (Join2 (px_WorkspaceBase (pp_config p)) (''sb-'' @ hex_bytes b)) ''workspace'')) p)"
  assume "snd (proot_Spawn E b now so p) = ?q"
  moreover have "proot_ok ?q = proot_ok p" by (rule proot_ok_same) simp_all
  ultimately show ?thesis using ok by simp
qed (simp add: ok)

lemma proot_ok_destroy: "proot_ok p \<Longrightarrow> proot_ok (snd (proot_destroy w sid p))"
proof (cases w)
  case (fields E rel b now so)
  assume ok: "proot_ok p"
  then have "proot_ok (p\<lparr>pp_sandboxes := al_del sid (pp_sandboxes p)\<rparr>)"
    using active_del [of sid p] by (auto simp: proot_ok_def set_al_del)
  with ok show ?thesis
    by (auto simp: fields proot_Destroy_def ask_def proot_ok_def proot_active_def split: option.split)
qed

lemma proot_ok_after:
  assumes "proot_ok p"
  shows "proot_ok (proot.after qs p)"
proof (rule proot.after_invariant [where I = proot_ok])
  show "proot_ok (snd (proot.serve q s))" if "proot_ok s" for q s
  proof (rule proot.serve_invariant [where I = proot_ok])
    show "proot_ok s \<Longrightarrow> proot_ok (snd (proot_spawn w s))" for w by (cases w) (simp add: proot_ok_Spawn)
    show "proot_ok s \<Longrightarrow> proot_ok (snd (proot_guest w g sid s))" for w g sid
      using proot_ok_same [OF proot_guest_sandboxes proot_guest_config] by simp
  qed (simp_all add: proot_ok_destroy that)
qed (rule assms)

lemma proot_config_after: "pp_config (proot.after qs p) = pp_config p"
proof (rule proot.after_invariant [where I = "\<lambda>q. pp_config q = pp_config p"])
  show "pp_config (snd (proot.serve q s)) = pp_config p" if I: "pp_config s = pp_config p" for q s
  proof (rule proot.serve_invariant [where I = "\<lambda>q. pp_config q = pp_config p", OF _ _ _ I])
    show "pp_config (snd (proot_spawn w s)) = pp_config p" for w
    proof (cases w)
      case (fields E rel b now so)
      then show ?thesis using proot_Spawn_state [of E b now so s] I by auto
    qed
    show "pp_config (snd (proot_destroy w sid s)) = pp_config p" for w sid
      by (cases w) (auto simp: I proot_Destroy_def ask_def split: option.split)
  qed (simp_all add: I proot_guest_config)
qed simp

section \<open>Confinement\<close>

text \<open>The operations on named files, and the paths they are asked for.\<close>

fun file_paths :: "guest_op \<Rightarrow> string list" where
  "file_paths (GWriteFile f c md) = [f]"
| "file_paths (GReadFile f) = [f]"
| "file_paths (GListFiles f) = [f]"
| "file_paths (GDeleteFile f rc) = [f]"
| "file_paths (GMoveFile f g) = [f, g]"
| "file_paths (GChmodFile f md) = [f]"
| "file_paths (GStatFile f) = [f]"
| "file_paths _ = []"

lemma proot_file_inside:
  assumes "proot_ok p" and "IsAbs (px_WorkspaceBase (pp_config p))" and "proot_file E sid path p = Inr full"
  defines "ws \<equiv> Join2 (px_WorkspaceBase (pp_config p)) sid"
  shows "full = Join2 ws (Clean path) \<and> within ws full \<and> (within ws (Dir full) \<or> Dir full = Dir ws)"
proof -
  obtain sb where sb: "(sid, sb) \<in> set (pp_sandboxes p)" and safe: "safePath E sb path = Inr full"
    using assms(3) by (auto simp: proot_file_def proot_getSandbox_def dest: map_of_SomeD split: sum.splits option.splits if_splits)
  have psid: "plain sid" and wsb: "ps_workspace sb = ws"
    using assms(1) sb by (auto simp: proot_ok_def ws_def)
  obtain bs where bs: "ws = rooted_path (bs @ [sid])" and pb: "\<And>c. c \<in> set bs \<Longrightarrow> plain c"
    unfolding ws_def by (rule Join2_child [OF assms(2) psid]) auto
  have pcs: "c \<in> set (bs @ [sid]) \<Longrightarrow> plain c" for c using pb psid by auto
  obtain ds where ds: "full = rooted_path ((bs @ [sid]) @ ds)" and pd: "\<And>c. c \<in> set ds \<Longrightarrow> plain c"
    by (rule safePath_inside [OF _ pcs _ safe]) (auto simp: wsb bs)
  have all: "c \<in> set ((bs @ [sid]) @ ds) \<Longrightarrow> plain c" for c using pcs pd by auto
  have "within ws full" unfolding bs ds by (rule within_rooted) (use pcs pd in auto)
  moreover have "within ws (Dir full) \<or> Dir full = Dir ws"
  proof (cases "ds = []")
    case False
    have "Dir full = rooted_path ((bs @ [sid]) @ butlast ds)"
      unfolding ds by (subst Dir_rooted) (use all False in \<open>auto simp: butlast_append\<close>)
    then have "within ws (Dir full)"
      unfolding bs by (simp only:) (rule within_rooted, use pcs pd in \<open>auto dest: in_set_butlastD\<close>)
    then show ?thesis ..
  qed (simp add: ds bs)
  moreover have "full = Join2 ws (Clean path)"
    using safe by (simp add: safePath_def Let_def wsb split: if_splits)
  ultimately show ?thesis by blast
qed

text \<open>
  C21. The seven operations of the PRoot provider that take the path of a file (write, read, list, delete,
  move, chmod, stat) stay in the directory of the sandbox: whatever happened since the provider was
  made, every path in a call that such an operation makes is a clean path in that directory, but for
  one: when the path asked for is the directory itself, a write or a move first makes its
  parent, the workspace base, with \<open>MkdirAll\<close>.  An operation asked for a path that leads out of the directory
  fails without any call.  This is about the paths as written (links are not followed), and not about
  \<open>GlobFiles\<close>: the code evaluates a pattern without this check, in and out of the directory.
\<close>

theorem proot_files_confined:
  fixes qs :: "proot_world provider_req list" and sid :: string and cfg :: PRootProviderConfig
  assumes "IsAbs (px_WorkspaceBase cfg)" and "file_paths g \<noteq> []"
  defines "p \<equiv> proot.after qs (NewPRootProvider cfg)" and "ws \<equiv> Join2 (px_WorkspaceBase cfg) sid"
  shows "(\<exists>new. ho_calls (snd (proot_guest w g sid p)) = ho_calls p @ new \<and>
       (\<forall>c\<in>set new. \<forall>f\<in>set (os_paths c). within ws f \<or> c = OsMkdirAll (Dir ws))) \<and>
    ((\<exists>f\<in>set (file_paths g). \<not> within ws (Join2 ws (Clean f))) \<longrightarrow>
       (\<exists>e. proot_guest w g sid p = (Some e, p)))"
proof -
  have ok: "proot_ok p" unfolding p_def by (intro proot_ok_after proot_ok_New)
  have base: "px_WorkspaceBase (pp_config p) = px_WorkspaceBase cfg"
    by (simp add: p_def proot_config_after) (simp add: NewPRootProvider_def Let_def)
  have inside: "within ws full \<and> full = Join2 ws (Clean f) \<and> (within ws (Dir full) \<or> Dir full = Dir ws)"
    if "proot_file E sid f p = Inr full" for E f full
    using proot_file_inside [OF ok _ that] assms(1) unfolding base ws_def by blast
  obtain E rel v where w: "w = (E, rel, v)" by (cases w) auto
  show ?thesis
  proof (cases g)
    case (GMoveFile f h)
    then show ?thesis using inside [of E f] inside [of E h]
      by (fastforce simp: w proot_MoveFile_def ask_def Let_def split: sum.split option.split)
  qed (use assms(2) inside in \<open>fastforce simp: w proot_guest_defs failure_def ask_def Let_def split: sum.split option.split\<close>)+
qed

definition sample_os :: osenv where
  "sample_os = \<lparr>os_unit = (\<lambda>h c. None), os_name = (\<lambda>h c. Inr ''/tmp/stacyvm-1''), os_content = (\<lambda>h c. Inr ''data''),
     os_entries = (\<lambda>h c. Inr []),
     os_stat = (\<lambda>h c. Inr \<lparr>fs_Size = 4, fs_Mode = 420, fs_ModeString = ''-rw-r--r--'', fs_IsDir = False, fs_ModTime = []\<rparr>),
     os_matches = (\<lambda>h c. Inr []), os_run = (\<lambda>h c. Exited 0 ''out'' []), os_stream = (\<lambda>h c. Inr ([], Finished)),
     os_environ = [], os_path = ''/bin'', os_cwd = ''/''\<rparr>"

definition sample_proot_config :: PRootProviderConfig where
  "sample_proot_config = \<lparr>px_RootfsPath = ''/srv/rootfs'', px_PRootBinary = [], px_WorkspaceBase = ''/srv/ws'', px_DefaultTimeout = 0,
     px_MaxSandboxes = 1\<rparr>"

definition sample_proot_world :: proot_world where
  "sample_proot_world = (sample_os, (\<lambda>a b. b), ''abcd'', 1, \<lparr>so_Image = [], so_MemoryMB = 0, so_VCPUs = 0, so_DiskSizeMB = 0, so_Metadata = []\<rparr>)"

abbreviation sample_proot :: PRootProvider where
  "sample_proot \<equiv> proot.after [Req_Spawn sample_proot_world] (NewPRootProvider sample_proot_config)"

text \<open>In the sample a file is written under the directory, and a path with \<open>..\<close> is refused.\<close>

theorem proot_files_confined_witness:
  "(\<exists>new. ho_calls (snd (proot_guest sample_proot_world (GReadFile ''/etc/motd'') ''sb-61626364'' sample_proot)) = ho_calls sample_proot @ new \<and>
      (\<forall>c\<in>set new. \<forall>f\<in>set (os_paths c). within ''/srv/ws/sb-61626364'' f \<or> c = OsMkdirAll (Dir ''/srv/ws/sb-61626364''))) \<and>
   (\<exists>e. proot_guest sample_proot_world (GReadFile ''../../../etc/passwd'') ''sb-61626364'' sample_proot = (Some e, sample_proot))"
proof -
  have base: "px_WorkspaceBase sample_proot_config = ''/srv/ws''" "IsAbs (px_WorkspaceBase sample_proot_config)"
    by (simp_all add: sample_proot_config_def IsAbs_def HasPrefix_def)
  have ws: "Join2 ''/srv/ws'' ''sb-61626364'' = ''/srv/ws/sb-61626364''" by code_simp
  have out: "\<not> within ''/srv/ws/sb-61626364'' (Join2 ''/srv/ws/sb-61626364'' (Clean ''../../../etc/passwd''))" by code_simp
  show ?thesis
    using proot_files_confined [OF base(2), of "GReadFile ''/etc/motd''" sample_proot_world "''sb-61626364''" "[Req_Spawn sample_proot_world]"]
      proot_files_confined [OF base(2), of "GReadFile ''../../../etc/passwd''" sample_proot_world "''sb-61626364''" "[Req_Spawn sample_proot_world]"] out
    by (simp add: base(1) ws)
qed

text \<open>
  C22. The PRoot provider keeps the provider contract: what was destroyed stays gone. Whatever
  requests follow the destruction of a sandbox, as long as none of them is a spawn that answers
  the same id, every operation on it fails with an error that says it does not exist, and calls
  nothing. What runs is exactly what was spawned and not destroyed, and never more than
  \<open>MaxSandboxes\<close> (10 by default).
\<close>

theorem proot_contract:
  fixes p :: PRootProvider
  assumes "\<not> proot.respawns sid qs (snd (proot_Destroy E sid p))"
  shows "(\<exists>e. proot_guest w g sid (proot.after qs (snd (proot_Destroy E sid p))) =
       (Some e, proot.after qs (snd (proot_Destroy E sid p))) \<and> lifecycle_error e) \<and>
    proot_running (proot.after rs (NewPRootProvider cfg)) = proot.up_after rs (NewPRootProvider cfg) {} \<and>
    (0 < px_MaxSandboxes cfg \<longrightarrow> int (card (proot_running (proot.after rs (NewPRootProvider cfg)))) \<le> px_MaxSandboxes cfg)"
proof (intro conjI impI)
  obtain w' :: proot_world where w': "proot_destroy w' sid = proot_Destroy E sid"
    by (rule that [of "(E, \<lambda>a b. b, [], 0, undefined)"]) (simp add: fun_eq_iff)
  show "\<exists>e. proot_guest w g sid (proot.after qs (snd (proot_Destroy E sid p))) =
       (Some e, proot.after qs (snd (proot_Destroy E sid p))) \<and> lifecycle_error e"
    using proot.destroyed_refuses [of sid qs w' p w g] assms by (simp add: w')
  have none: "proot_running (NewPRootProvider cfg) = {}"
    by (simp add: proot_running_def NewPRootProvider_def Let_def)
  show "proot_running (proot.after rs (NewPRootProvider cfg)) = proot.up_after rs (NewPRootProvider cfg) {}"
    by (simp add: proot.running_after none)
  let ?p = "proot.after rs (NewPRootProvider cfg)"
  assume "0 < px_MaxSandboxes cfg"
  moreover have "proot_ok ?p" by (intro proot_ok_after proot_ok_New)
  moreover have "px_MaxSandboxes (pp_config ?p) = (if px_MaxSandboxes cfg = 0 then 10 else px_MaxSandboxes cfg)"
    by (simp add: proot_config_after) (simp add: NewPRootProvider_def Let_def)
  moreover have "card (proot_running ?p) \<le> proot_active ?p"
  proof -
    have "proot_running ?p \<subseteq> set (map fst (filter (\<lambda>(i, sb). ps_state sb \<noteq> ''destroyed'') (pp_sandboxes ?p)))"
      by (force simp: proot_running_def dest: map_of_SomeD)
    then have "card (proot_running ?p) \<le> length (map fst (filter (\<lambda>(i, sb). ps_state sb \<noteq> ''destroyed'') (pp_sandboxes ?p)))"
      by (meson List.finite_set card_length card_mono order_trans)
    then show ?thesis by (simp add: proot_active_def)
  qed
  ultimately show "int (card (proot_running ?p)) \<le> px_MaxSandboxes cfg"
    by (simp add: proot_ok_def)
qed

theorem proot_contract_witness:
  "\<exists>e. proot_guest sample_proot_world (GReadFile ''a'') ''sb-61626364'' (snd (proot_Destroy sample_os ''sb-61626364'' sample_proot)) =
     (Some e, snd (proot_Destroy sample_os ''sb-61626364'' sample_proot)) \<and> lifecycle_error e"
  using proot_contract [of "''sb-61626364''" "[]" sample_os sample_proot sample_proot_world "GReadFile ''a''" "[]" sample_proot_config]
  by (simp add: proot.respawns_def)

end
