(* ===== verification/Agent_Server.thy ===== *)
theory Agent_Server
  imports Agent_Frame Provider_Contract
begin

text \<open>
  The agent in a microVM (\<open>cmd/stacyvm-agent/main.go\<close>): it reads requests from the connection one
  after the other, does what they ask of the guest's operating system and writes a reply, or
  for a stream one message per chunk and a last one.

  JSON is a parameter (\<open>agent_codec\<close>): a function per type and direction.  The two goroutines that
  write the chunks of a stream to one writer without a lock, in two writes per message, take turns in
  any order (\<open>stream_run\<close>); one such write is a step, which in the code the writer's buffer does not
  guarantee.
\<close>

section \<open>Messages\<close>

record AgentRequest =
  gq_ID :: string
  gq_Method :: string
  gq_Params :: string

record AgentResponse =
  gr_ID :: string
  gr_Error :: string
  gr_Result :: string

record StreamResponse =
  gs_ID :: string
  gs_Stream :: string
  gs_Data :: string
  gs_Error :: string
  gs_Done :: bool
  gs_ExitCode :: int

text \<open>What the methods take and give.\<close>

datatype agent_params =
    AP_None
  | AP_Exec ExecOptions
  | AP_WriteFile string string string
  | AP_Path string
  | AP_DeleteFile string bool
  | AP_MoveFile string string
  | AP_ChmodFile string string
  | AP_GlobFiles string

datatype agent_result =
    AR_Ping
  | AR_Ok
  | AR_Exec int string string
  | AR_Content string
  | AR_Files "FileInfo list"
  | AR_File FileInfo
  | AR_Matches "string list"

record agent_codec =
  ac_request :: "AgentRequest \<Rightarrow> error + string"
  ac_un_request :: "string \<Rightarrow> error + AgentRequest"
  ac_response :: "AgentResponse \<Rightarrow> error + string"
  ac_un_response :: "string \<Rightarrow> error + AgentResponse"
  ac_stream :: "StreamResponse \<Rightarrow> error + string"
  ac_un_stream :: "string \<Rightarrow> error + StreamResponse"
  ac_params :: "agent_params \<Rightarrow> string"
  ac_result :: "agent_result \<Rightarrow> string"
  ac_un_exec :: "string \<Rightarrow> error + ExecOptions"
  ac_un_write :: "string \<Rightarrow> error + string \<times> string \<times> string"
  ac_un_path :: "string \<Rightarrow> error + string"
  ac_un_delete :: "string \<Rightarrow> error + string \<times> bool"
  ac_un_move :: "string \<Rightarrow> error + string \<times> string"
  ac_un_chmod :: "string \<Rightarrow> error + string \<times> string"
  ac_un_glob :: "string \<Rightarrow> error + string"
  ac_un_exec_result :: "string \<Rightarrow> error + int \<times> string \<times> string"
  ac_un_content :: "string \<Rightarrow> error + string"
  ac_un_files :: "string \<Rightarrow> error + FileInfo list"
  ac_un_file :: "string \<Rightarrow> error + FileInfo"
  ac_un_matches :: "string \<Rightarrow> error + string list"

section \<open>The agent\<close>

text \<open>The calls of the guest, what was written to the connection, and whether the guest is off.\<close>

record agent = host +
  ag_out :: string
  ag_off :: bool

definition SendResponse :: "agent_codec \<Rightarrow> AgentResponse \<Rightarrow> agent \<Rightarrow> agent" where
  "SendResponse C r g = g\<lparr>ag_out := snd (WriteMessage (ac_response C) r (ag_out g))\<rparr>"

definition SendStreamResponse :: "agent_codec \<Rightarrow> StreamResponse \<Rightarrow> agent \<Rightarrow> agent" where
  "SendStreamResponse C r g = g\<lparr>ag_out := snd (WriteMessage (ac_stream C) r (ag_out g))\<rparr>"

definition sendError :: "agent_codec \<Rightarrow> string \<Rightarrow> string \<Rightarrow> agent \<Rightarrow> agent" where
  "sendError C i msg g = SendResponse C \<lparr>gr_ID = i, gr_Error = msg, gr_Result = []\<rparr> g"

definition sendResult :: "agent_codec \<Rightarrow> string \<Rightarrow> agent_result \<Rightarrow> agent \<Rightarrow> agent" where
  "sendResult C i r g = SendResponse C \<lparr>gr_ID = i, gr_Error = [], gr_Result = ac_result C r\<rparr> g"

definition bad_params :: "error \<Rightarrow> string" where
  "bad_params e = ''bad params: '' @ err_msg e"

definition handlePing :: "agent_codec \<Rightarrow> AgentRequest \<Rightarrow> agent \<Rightarrow> agent" where
  "handlePing C req g = sendResult C (gq_ID req) AR_Ping g"

definition agent_shellQuote :: "string \<Rightarrow> string" where
  "agent_shellQuote s =
     squote # concat (map (\<lambda>c. if c = squote then [squote, dquote, squote, dquote, squote] else [c]) s) @ [squote]"

definition agent_buildExecCommand :: "ExecOptions \<Rightarrow> error + string list" where
  "agent_buildExecCommand params =
     (let t = TrimSpace (xo_Mode params) in
      if t = [] \<or> t = ''shell''
      then Inr [''/bin/sh'', ''-c'', foldl (\<lambda>c a. c @ blank # agent_shellQuote a) (xo_Command params) (xo_Args params)]
      else if t = ''argv'' then
        (if TrimSpace (xo_Command params) = [] then Inl (Err ErrOther ''argv exec mode requires command'')
         else Inr (xo_Command params # xo_Args params))
      else Inl (Err ErrOther (''unsupported exec mode '' @ Quote (xo_Mode params))))"

text \<open>A program killed at the agent's deadline of five minutes has exit code -1.\<close>

definition agent_handleExec :: "agent_codec \<Rightarrow> osenv \<Rightarrow> AgentRequest \<Rightarrow> agent \<Rightarrow> agent" where
  "agent_handleExec C E req g =
     (case ac_un_exec C (gq_Params req) of
        Inl e \<Rightarrow> sendError C (gq_ID req) (bad_params e) g
      | Inr params \<Rightarrow>
     (case agent_buildExecCommand params of
        Inl e \<Rightarrow> sendError C (gq_ID req) (err_msg e) g
      | Inr args \<Rightarrow>
          (let (r, g) = ask (os_run E) (OsRun args (os_environ E @ env_strings (xo_Env params)) (xo_WorkDir params)) g in
           case r of
             RunFailed e \<Rightarrow> sendError C (gq_ID req) (''exec: '' @ err_msg e) g
           | Exited code out err \<Rightarrow> sendResult C (gq_ID req) (AR_Exec code out err) g
           | Killed out err \<Rightarrow> sendResult C (gq_ID req) (AR_Exec (-1) out err) g)))"

definition stream_error :: "string \<Rightarrow> string \<Rightarrow> StreamResponse" where
  "stream_error i msg = \<lparr>gs_ID = i, gs_Stream = [], gs_Data = [], gs_Error = msg, gs_Done = True, gs_ExitCode = 0\<rparr>"

definition stream_chunk :: "string \<Rightarrow> string \<times> string \<Rightarrow> StreamResponse" where
  "stream_chunk i c = \<lparr>gs_ID = i, gs_Stream = fst c, gs_Data = snd c, gs_Error = [], gs_Done = False, gs_ExitCode = 0\<rparr>"

definition stream_done :: "string \<Rightarrow> int \<Rightarrow> StreamResponse" where
  "stream_done i code = \<lparr>gs_ID = i, gs_Stream = [], gs_Data = [], gs_Error = [], gs_Done = True, gs_ExitCode = code\<rparr>"

text \<open>
  How a stream runs: the exit code that \<open>Wait\<close> gives (0 when it gives another error), and which of
  the two goroutines makes the next write, that of \<open>stdout\<close> where the list says so.
\<close>

record stream_run =
  sx_exit :: int
  sx_order :: "bool list"

fun interleave :: "bool list \<Rightarrow> 'a list \<Rightarrow> 'a list \<Rightarrow> 'a list" where
  "interleave (b # bs) (x # xs) (y # ys) = (if b then x # interleave bs xs (y # ys) else y # interleave bs (x # xs) ys)"
| "interleave bs xs ys = xs @ ys"

text \<open>The writes of \<open>WriteMessage\<close>: the header and the payload; none when the message is not encoded.\<close>

definition message_writes :: "agent_codec \<Rightarrow> StreamResponse \<Rightarrow> string list" where
  "message_writes C m = (case ac_stream C m of Inl e \<Rightarrow> [] | Inr d \<Rightarrow> [PutUint32 (word_of_nat (length d)), d])"

definition pipe_writes :: "agent_codec \<Rightarrow> string \<Rightarrow> (string \<times> string) list \<Rightarrow> string list" where
  "pipe_writes C i chunks = concat (map (\<lambda>c. message_writes C (stream_chunk i c)) chunks)"

definition agent_handleExecStream :: "agent_codec \<Rightarrow> osenv \<Rightarrow> stream_run \<Rightarrow> AgentRequest \<Rightarrow> agent \<Rightarrow> agent" where
  "agent_handleExecStream C E run req g =
     (case ac_un_exec C (gq_Params req) of
        Inl e \<Rightarrow> sendError C (gq_ID req) (bad_params e) g
      | Inr params \<Rightarrow>
     (case agent_buildExecCommand params of
        Inl e \<Rightarrow> SendStreamResponse C (stream_error (gq_ID req) (err_msg e)) g
      | Inr args \<Rightarrow>
          (let (r, g) = ask (os_stream E) (OsStart args (os_environ E @ env_strings (xo_Env params)) (xo_WorkDir params)) g in
           case r of
             Inl e \<Rightarrow> SendStreamResponse C (stream_error (gq_ID req) (''start: '' @ err_msg e)) g
           | Inr (chunks, _) \<Rightarrow>
               (let (out, err) = partition (\<lambda>c. fst c = ''stdout'') chunks;
                    g = g\<lparr>ag_out := ag_out g @ concat (interleave (sx_order run)
                          (pipe_writes C (gq_ID req) out) (pipe_writes C (gq_ID req) err))\<rparr>
                in SendStreamResponse C (stream_done (gq_ID req) (sx_exit run)) g))))"

definition handleWriteFile :: "agent_codec \<Rightarrow> osenv \<Rightarrow> AgentRequest \<Rightarrow> agent \<Rightarrow> agent" where
  "handleWriteFile C E req g =
     (case ac_un_write C (gq_Params req) of
        Inl e \<Rightarrow> sendError C (gq_ID req) (bad_params e) g
      | Inr (path, content, md) \<Rightarrow>
          (let (r, g) = ask (os_unit E) (OsMkdirAll (Dir path)) g in
           case r of
             Some e \<Rightarrow> sendError C (gq_ID req) (''mkdir: '' @ err_msg e) g
           | None \<Rightarrow>
               (let mode = (case parse_octal md of None \<Rightarrow> 420 | Some n \<Rightarrow> n);
                    (r, g) = ask (os_unit E) (OsWriteFile path content mode) g
                in case r of
                     Some e \<Rightarrow> sendError C (gq_ID req) (''write: '' @ err_msg e) g
                   | None \<Rightarrow> sendResult C (gq_ID req) AR_Ok g)))"

definition handleReadFile :: "agent_codec \<Rightarrow> osenv \<Rightarrow> AgentRequest \<Rightarrow> agent \<Rightarrow> agent" where
  "handleReadFile C E req g =
     (case ac_un_path C (gq_Params req) of
        Inl e \<Rightarrow> sendError C (gq_ID req) (bad_params e) g
      | Inr path \<Rightarrow>
          (let (r, g) = ask (os_content E) (OsOpen path) g in
           case r of
             Inl e \<Rightarrow> sendError C (gq_ID req) (''read: '' @ err_msg e) g
           | Inr data \<Rightarrow> sendResult C (gq_ID req) (AR_Content data) g))"

definition agent_info :: "string \<Rightarrow> file_stat \<Rightarrow> FileInfo" where
  "agent_info path st =
     \<lparr>fi_Path = path, fi_Size = fs_Size st, fi_Mode = octal (fs_Mode st), fi_IsDir = fs_IsDir st, fi_ModTime = fs_ModTime st\<rparr>"

definition handleListFiles :: "agent_codec \<Rightarrow> osenv \<Rightarrow> AgentRequest \<Rightarrow> agent \<Rightarrow> agent" where
  "handleListFiles C E req g =
     (case ac_un_path C (gq_Params req) of
        Inl e \<Rightarrow> sendError C (gq_ID req) (bad_params e) g
      | Inr path \<Rightarrow>
          (let (r, g) = ask (os_entries E) (OsReadDir path) g in
           case r of
             Inl e \<Rightarrow> sendError C (gq_ID req) (''readdir: '' @ err_msg e) g
           | Inr es \<Rightarrow> sendResult C (gq_ID req) (AR_Files (listing (\<lambda>n. agent_info (Join2 path n)) es)) g))"

definition handleDeleteFile :: "agent_codec \<Rightarrow> osenv \<Rightarrow> AgentRequest \<Rightarrow> agent \<Rightarrow> agent" where
  "handleDeleteFile C E req g =
     (case ac_un_delete C (gq_Params req) of
        Inl e \<Rightarrow> sendError C (gq_ID req) (bad_params e) g
      | Inr (path, recursive) \<Rightarrow>
          (let (r, g) = ask (os_unit E) (if recursive then OsRemoveAll path else OsRemove path) g in
           case r of
             Some e \<Rightarrow> sendError C (gq_ID req) (''delete: '' @ err_msg e) g
           | None \<Rightarrow> sendResult C (gq_ID req) AR_Ok g))"

definition handleMoveFile :: "agent_codec \<Rightarrow> osenv \<Rightarrow> AgentRequest \<Rightarrow> agent \<Rightarrow> agent" where
  "handleMoveFile C E req g =
     (case ac_un_move C (gq_Params req) of
        Inl e \<Rightarrow> sendError C (gq_ID req) (bad_params e) g
      | Inr (old, new) \<Rightarrow>
          (let (r, g) = ask (os_unit E) (OsMkdirAll (Dir new)) g in
           case r of
             Some e \<Rightarrow> sendError C (gq_ID req) (''mkdir: '' @ err_msg e) g
           | None \<Rightarrow>
               (let (r, g) = ask (os_unit E) (OsRename old new) g in
                case r of
                  Some e \<Rightarrow> sendError C (gq_ID req) (''rename: '' @ err_msg e) g
                | None \<Rightarrow> sendResult C (gq_ID req) AR_Ok g)))"

definition handleChmodFile :: "agent_codec \<Rightarrow> osenv \<Rightarrow> AgentRequest \<Rightarrow> agent \<Rightarrow> agent" where
  "handleChmodFile C E req g =
     (case ac_un_chmod C (gq_Params req) of
        Inl e \<Rightarrow> sendError C (gq_ID req) (bad_params e) g
      | Inr (path, md) \<Rightarrow>
          (case parse_octal md of
             None \<Rightarrow> sendError C (gq_ID req) (err_msg (parse_mode_error md)) g
           | Some n \<Rightarrow>
               (let (r, g) = ask (os_unit E) (OsChmod path n) g in
                case r of
                  Some e \<Rightarrow> sendError C (gq_ID req) (''chmod: '' @ err_msg e) g
                | None \<Rightarrow> sendResult C (gq_ID req) AR_Ok g)))"

definition handleStatFile :: "agent_codec \<Rightarrow> osenv \<Rightarrow> AgentRequest \<Rightarrow> agent \<Rightarrow> agent" where
  "handleStatFile C E req g =
     (case ac_un_path C (gq_Params req) of
        Inl e \<Rightarrow> sendError C (gq_ID req) (bad_params e) g
      | Inr path \<Rightarrow>
          (let (r, g) = ask (os_stat E) (OsStat path) g in
           case r of
             Inl e \<Rightarrow> sendError C (gq_ID req) (''stat: '' @ err_msg e) g
           | Inr st \<Rightarrow> sendResult C (gq_ID req) (AR_File (agent_info path st)) g))"

definition handleGlobFiles :: "agent_codec \<Rightarrow> osenv \<Rightarrow> AgentRequest \<Rightarrow> agent \<Rightarrow> agent" where
  "handleGlobFiles C E req g =
     (case ac_un_glob C (gq_Params req) of
        Inl e \<Rightarrow> sendError C (gq_ID req) (bad_params e) g
      | Inr pattern \<Rightarrow>
          (let (r, g) = ask (os_matches E) (OsGlob pattern) g in
           case r of
             Inl e \<Rightarrow> sendError C (gq_ID req) (''glob: '' @ err_msg e) g
           | Inr ms \<Rightarrow> sendResult C (gq_ID req) (AR_Matches ms) g))"

text \<open>The error of \<open>Reboot\<close> is not looked at: the agent goes on when the guest stays up.\<close>

definition handleShutdown :: "agent_codec \<Rightarrow> osenv \<Rightarrow> AgentRequest \<Rightarrow> agent \<Rightarrow> agent" where
  "handleShutdown C E req g =
     (let g = sendResult C (gq_ID req) AR_Ok g;
          (r, g) = ask (os_unit E) OsPowerOff g
      in case r of Some e \<Rightarrow> g | None \<Rightarrow> g\<lparr>ag_off := True\<rparr>)"

text \<open>One request of the loop.\<close>

definition handle_request :: "agent_codec \<Rightarrow> osenv \<Rightarrow> stream_run \<Rightarrow> AgentRequest \<Rightarrow> agent \<Rightarrow> agent" where
  "handle_request C E run req g =
     (let me = gq_Method req in
      if me = ''ping'' then handlePing C req g
      else if me = ''exec'' then agent_handleExec C E req g
      else if me = ''exec_stream'' then agent_handleExecStream C E run req g
      else if me = ''write_file'' then handleWriteFile C E req g
      else if me = ''read_file'' then handleReadFile C E req g
      else if me = ''list_files'' then handleListFiles C E req g
      else if me = ''delete_file'' then handleDeleteFile C E req g
      else if me = ''move_file'' then handleMoveFile C E req g
      else if me = ''chmod_file'' then handleChmodFile C E req g
      else if me = ''stat_file'' then handleStatFile C E req g
      else if me = ''glob_files'' then handleGlobFiles C E req g
      else if me = ''shutdown'' then handleShutdown C E req g
      else sendError C (gq_ID req) (''unknown method: '' @ me) g)"

text \<open>
  The loop over the bytes of a connection: until a request cannot be read (at the end, or because
  it does not decode), or the guest is off.  Each request is at least its four bytes of header.
\<close>

lemma ReadFull_shorter: "ReadFull n r = (d, r') \<Longrightarrow> length r' \<le> length r"
  by (auto simp: ReadFull_def split: if_splits)

lemma ReadTyped_shorter: "ReadTyped what un r = (Inr v, r') \<Longrightarrow> length r' + 4 \<le> length r"
proof -
  assume a: "ReadTyped what un r = (Inr v, r')"
  then obtain d where "ReadMessage r = (Inr d, r')"
    by (auto simp: ReadTyped_def split: prod.splits sum.splits)
  then show ?thesis
    by (auto simp: ReadMessage_def ReadFull_def Let_def split: if_splits sum.splits prod.splits)
qed

function handleConn :: "agent_codec \<Rightarrow> osenv \<Rightarrow> stream_run \<Rightarrow> string \<Rightarrow> agent \<Rightarrow> string \<times> agent" where
  "handleConn C E run r g =
     (if ag_off g then (r, g)
      else case ReadTyped ''request'' (ac_un_request C) r of
        (Inl e, r') \<Rightarrow> (r', g)
      | (Inr req, r') \<Rightarrow> handleConn C E run r' (handle_request C E run req g))"
  by pat_completeness auto
termination
  by (relation "measure (\<lambda>(C, E, run, r, g). length r)") (auto dest!: ReadTyped_shorter [OF sym])

declare handleConn.simps [simp del]

end
