(* ===== verification/Firecracker.thy ===== *)
theory Firecracker
  imports Agent_Server
begin

text \<open>
  The Firecracker provider (\<open>internal/providers/firecracker.go\<close>, \<open>firecracker_api.go\<close>) and its cache of
  root file systems (\<open>rootfs_builder.go\<close>): microVMs booted cold or restored from a snapshot, and
  commands and files handled by the agent inside, over one connection per VM.

  A connection is the bytes that have arrived and were not read, with the guest at its other end;
  \<open>fe_deliver\<close> is what sending bytes to a guest makes arrive.  A read that would wait for bytes that
  never come fails.  The tries of \<open>waitForAgent\<close> within its time are a list.
\<close>

section \<open>Environment\<close>

record snapshotMeta =
  sm_Image :: string
  sm_CreatedAt :: time

record 'g fcenv = osenv +
  fe_pid :: "os_call list \<Rightarrow> os_call \<Rightarrow> error + nat"
  fe_http :: "os_call list \<Rightarrow> os_call \<Rightarrow> error + nat \<times> string"
  fe_dials :: "os_call list \<Rightarrow> os_call \<Rightarrow> (error + 'g \<times> (error + string)) list"
  fe_deliver :: "string \<Rightarrow> 'g \<Rightarrow> (error + string) \<times> 'g"
  fe_sha256 :: "string \<Rightarrow> string"
  fe_codec :: agent_codec
  fe_unmeta :: "string \<Rightarrow> snapshotMeta option"
  fe_meta :: "snapshotMeta \<Rightarrow> string"
  fe_rand :: "os_call list \<Rightarrow> nat \<Rightarrow> string"
  fe_now :: time

record 'g vmInstance =
  vm_sandboxID :: string
  vm_dir :: string
  vm_apiSockPath :: string
  vm_vsockUDSPath :: string
  vm_rootfsPath :: string
  vm_cid :: "32 word"
  vm_process :: nat
  vm_in :: string
  vm_peer :: 'g
  vm_console :: RingBuffer

record FirecrackerProviderConfig =
  fx_FirecrackerPath :: string
  fx_KernelPath :: string
  fx_DefaultRootfs :: string
  fx_AgentPath :: string
  fx_DataDir :: string
  fx_DefaultMemoryMB :: int

record ImageCache =
  ic_cacheDir :: string
  ic_agentPath :: string
  ic_diskMB :: int

record 'g FirecrackerProvider = host +
  fc_vms :: "(string \<times> 'g vmInstance) list"
  fc_config :: FirecrackerProviderConfig
  fc_nextCID :: "32 word"
  fc_imageCache :: ImageCache
  fc_building :: "string list"

definition NewImageCache :: "string \<Rightarrow> string \<Rightarrow> int \<Rightarrow> ImageCache" where
  "NewImageCache cacheDir agentPath diskMB =
     \<lparr>ic_cacheDir = cacheDir, ic_agentPath = agentPath, ic_diskMB = (if diskMB \<le> 0 then 1024 else diskMB)\<rparr>"

definition NewFirecrackerProvider :: "FirecrackerProviderConfig \<Rightarrow> 'g FirecrackerProvider" where
  "NewFirecrackerProvider cfg =
     \<lparr>ho_calls = [], fc_vms = [], fc_config = cfg, fc_nextCID = 3,
      fc_imageCache = NewImageCache (Join2 (fx_DataDir cfg) ''images'') (fx_AgentPath cfg) 0, fc_building = []\<rparr>"

section \<open>Root file systems\<close>

definition replace_char :: "char \<Rightarrow> string" where
  "replace_char c = (if c = CHR ''/'' then ''_'' else if c = CHR '':'' then ''-'' else if c = CHR ''@'' then ''_at_'' else [c])"

definition sanitizeImageName :: "string \<Rightarrow> string" where
  "sanitizeImageName img = take 60 (concat (map replace_char img))"

text \<open>The first four bytes of the hash in hex are eight digits.\<close>

definition pathFor :: "(string \<Rightarrow> string) \<Rightarrow> ImageCache \<Rightarrow> string \<Rightarrow> string" where
  "pathFor sha ic img = Join2 (ic_cacheDir ic) (sanitizeImageName img @ ''-'' @ take 8 (sha img) @ ''.ext4'')"

definition runCmd :: "('g, 'z) fcenv_scheme \<Rightarrow> string list \<Rightarrow> 's host_scheme \<Rightarrow> (error + string \<times> string) \<times> 's host_scheme" where
  "runCmd E argv p = (let (r, p) = ask (os_run E) (OsRun argv [] []) p in (run_out r, p))"

text \<open>\<open>os.Stat\<close> used as a test.\<close>

definition path_exists :: "('g, 'z) fcenv_scheme \<Rightarrow> string \<Rightarrow> 's host_scheme \<Rightarrow> bool \<times> 's host_scheme" where
  "path_exists E f p = (let (r, p) = ask (os_stat E) (OsStat f) p in (case r of Inl e \<Rightarrow> False | Inr st \<Rightarrow> True, p))"

definition copyFile :: "('g, 'z) fcenv_scheme \<Rightarrow> string \<Rightarrow> string \<Rightarrow> 's host_scheme \<Rightarrow> error option \<times> 's host_scheme" where
  "copyFile E src dst p =
     (let (r, p) = runCmd E [''cp'', ''--reflink=auto'', ''--sparse=always'', src, dst] p
      in (case r of Inl e \<Rightarrow> Some (wrap_err ''cp: '' e) | Inr x \<Rightarrow> None, p))"

text \<open>
  The build: pull unless present, export the file system of a container, fill an image in a
  privileged container (\<open>script\<close> is its shell script), move it to the cache.  Whatever happens
  after the temporary directory was made, it and the container are removed.
\<close>

definition build_script :: "int \<Rightarrow> string" where
  "build_script diskMB = join_with newline
     [''set -e'',
      ''apk add --no-cache e2fsprogs e2fsprogs-extra >/dev/null 2>&1'',
      ''dd if=/dev/zero of=/work/rootfs.ext4 bs=1M count='' @ Itoa diskMB @ '' status=none'',
      ''mkfs.ext4 -F /work/rootfs.ext4 >/dev/null 2>&1'',
      ''mkdir -p /mnt/rootfs'',
      ''mount -o loop /work/rootfs.ext4 /mnt/rootfs'',
      ''tar xf /work/rootfs.tar -C /mnt/rootfs 2>/dev/null || true'',
      ''mkdir -p /mnt/rootfs/usr/local/bin'',
      ''cp /work/agent /mnt/rootfs/usr/local/bin/stacyvm-agent'',
      ''chmod 755 /mnt/rootfs/usr/local/bin/stacyvm-agent'',
      ''mkdir -p /mnt/rootfs/sbin'',
      ''rm -f /mnt/rootfs/sbin/init'',
      ''cat > /mnt/rootfs/sbin/init <<'' @ [squote] @ ''INITEOF'' @ [squote],
      ''#!/bin/sh'',
      ''mount -t proc proc /proc'',
      ''mount -t sysfs sysfs /sys'',
      ''mount -t devtmpfs devtmpfs /dev'',
      ''exec /usr/local/bin/stacyvm-agent'',
      ''INITEOF'',
      ''chmod 755 /mnt/rootfs/sbin/init'',
      ''umount /mnt/rootfs'',
      ''e2fsck -fy /work/rootfs.ext4 >/dev/null 2>&1 || true'',
      ''resize2fs -M /work/rootfs.ext4 >/dev/null 2>&1'',
      ''echo DONE'']"

definition image_fill ::
  "('g, 'z) fcenv_scheme \<Rightarrow> ImageCache \<Rightarrow> string \<Rightarrow> string \<Rightarrow> string \<Rightarrow> string \<Rightarrow> 's host_scheme \<Rightarrow> (error + string) \<times> 's host_scheme" where
  "image_fill E ic agentAbs tmpDir cid outputPath p =
     (let (r, p) = runCmd E [''docker'', ''export'', cid, ''-o'', Join2 tmpDir ''rootfs.tar''] p in
      case r of
        Inl e \<Rightarrow> (Inl (wrap_err ''docker export'' e), p)
      | Inr x \<Rightarrow>
     (let (r, p) = runCmd E [''docker'', ''run'', ''--privileged'', ''--rm'', ''-v'', tmpDir @ '':/work'',
                ''-v'', agentAbs @ '':/work/agent:ro'', ''alpine:latest'', ''sh'', ''-c'', build_script (ic_diskMB ic)] p in
      case r of
        Inl e \<Rightarrow> (Inl (wrap_err ''build rootfs in container'' e), p)
      | Inr x \<Rightarrow>
     (let ext4 = Join2 tmpDir ''rootfs.ext4''; (found, p) = path_exists E ext4 p in
      if \<not> found then (Inl (Err ErrOther ''rootfs.ext4 not created''), p)
      else
     (let (r, p) = ask (os_unit E) (OsRename ext4 outputPath) p in
      case r of
        None \<Rightarrow> (Inr outputPath, p)
      | Some e \<Rightarrow>
          (let (r, p) = copyFile E ext4 outputPath p in
           case r of Some e \<Rightarrow> (Inl (wrap_err ''move to cache'' e), p) | None \<Rightarrow> (Inr outputPath, p))))))"

definition image_export ::
  "('g, 'z) fcenv_scheme \<Rightarrow> ImageCache \<Rightarrow> string \<Rightarrow> string \<Rightarrow> string \<Rightarrow> string \<Rightarrow> 's host_scheme \<Rightarrow> (error + string) \<times> 's host_scheme" where
  "image_export E ic img agentAbs tmpDir outputPath p =
     (let (found, p) = runCmd E [''docker'', ''image'', ''inspect'', img] p;
          (pulled, p) = (case found of Inr x \<Rightarrow> (Inr x, p) | Inl e \<Rightarrow> runCmd E [''docker'', ''pull'', img] p) in
      case pulled of
        Inl e \<Rightarrow> (Inl (wrap_err (''docker pull '' @ img) e), p)
      | Inr x \<Rightarrow>
          (let (r, p) = runCmd E [''docker'', ''create'', img] p in
           case r of
             Inl e \<Rightarrow> (Inl (wrap_err (''docker create '' @ img) e), p)
           | Inr (out, err) \<Rightarrow>
               (let cid = TrimSpace out; (r, p) = image_fill E ic agentAbs tmpDir cid outputPath p;
                    (x, p) = runCmd E [''docker'', ''rm'', cid] p
                in (r, p))))"

definition image_build ::
  "('g, 'z) fcenv_scheme \<Rightarrow> ImageCache \<Rightarrow> string \<Rightarrow> string \<Rightarrow> 's host_scheme \<Rightarrow> (error + string) \<times> 's host_scheme" where
  "image_build E ic img outputPath p =
     (let (r, p) = ask (os_unit E) (OsMkdirAll (ic_cacheDir ic)) p in
      case r of
        Some e \<Rightarrow> (Inl (wrap_err ''create cache dir'' e), p)
      | None \<Rightarrow>
     (let agentAbs = Abs (os_cwd E) (ic_agentPath ic); (found, p) = path_exists E agentAbs p in
      if \<not> found then (Inl (Err ErrOther (''agent binary not found at '' @ agentAbs)), p)
      else
     (let (r, p) = ask (os_name E) (OsLookPath ''docker'') p in
      case r of
        Inl e \<Rightarrow> (Inl (wrap_err ''docker not found in PATH (required for building images)'' e), p)
      | Inr x \<Rightarrow>
     (let (r, p) = ask (os_name E) (OsMkdirTemp ''stacyvm-rootfs-*'') p in
      case r of
        Inl e \<Rightarrow> (Inl (wrap_err ''create temp dir'' e), p)
      | Inr tmpDir \<Rightarrow>
          (let (r, p) = image_export E ic img agentAbs tmpDir outputPath p;
               (x, p) = ask (os_unit E) (OsRemoveAll tmpDir) p
           in (r, p))))))"

text \<open>Callers that ask for an image being built get the result of that build: one call here.\<close>

definition image_Get ::
  "('g, 'z) fcenv_scheme \<Rightarrow> ImageCache \<Rightarrow> string \<Rightarrow> 's host_scheme \<Rightarrow> (error + string) \<times> 's host_scheme" where
  "image_Get E ic img p =
     (if img = [] then (Inr [], p)
      else
        (let cachedPath = pathFor (fe_sha256 E) ic img; (found, p) = path_exists E cachedPath p in
         if found then (Inr cachedPath, p)
         else
           (let (found, p) = path_exists E cachedPath p in
            if found then (Inr cachedPath, p) else image_build E ic img cachedPath p)))"

end
