(* ===== verification/Firecracker_VM.thy ===== *)
theory Firecracker_VM
  imports Firecracker
begin

text \<open>
  The life of a microVM (\<open>internal/providers/firecracker.go\<close>, \<open>firecracker_api.go\<close>): the process and
  its REST API, the handshake with the agent, cold boot, base snapshots and their restore, and the
  end.  Every failure after the process was started kills it and removes its directory.
\<close>

section \<open>The API of the process\<close>

text \<open>A status of 300 or more is an error; transport errors are the reply's.\<close>

definition api_request ::
  "('g, 'z) fcenv_scheme \<Rightarrow> string \<Rightarrow> string \<Rightarrow> string \<Rightarrow> (string \<times> json) list \<Rightarrow> 's host_scheme \<Rightarrow> error option \<times> 's host_scheme" where
  "api_request E verb sock path body p =
     (let (r, p) = ask (fe_http E) (OsHTTP verb sock path body) p
      in (case r of
            Inl e \<Rightarrow> Some (wrap_err ''do request'' e)
          | Inr (status, text) \<Rightarrow>
              if status \<ge> 300
              then Some (Err ErrOther (''firecracker API '' @ path @ '' returned '' @ Itoa (int status) @ '': '' @ text))
              else None, p))"

abbreviation api_put :: "('g, 'z) fcenv_scheme \<Rightarrow> string \<Rightarrow> string \<Rightarrow> (string \<times> json) list \<Rightarrow> 's host_scheme \<Rightarrow> error option \<times> 's host_scheme" where
  "api_put E \<equiv> api_request E ''PUT''"

abbreviation api_patch :: "('g, 'z) fcenv_scheme \<Rightarrow> string \<Rightarrow> string \<Rightarrow> (string \<times> json) list \<Rightarrow> 's host_scheme \<Rightarrow> error option \<times> 's host_scheme" where
  "api_patch E \<equiv> api_request E ''PATCH''"

definition api_get :: "('g, 'z) fcenv_scheme \<Rightarrow> string \<Rightarrow> string \<Rightarrow> 's host_scheme \<Rightarrow> (error + string) \<times> 's host_scheme" where
  "api_get E sock path p =
     (let (r, p) = ask (fe_http E) (OsHTTP ''GET'' sock path []) p
      in (case r of
            Inl e \<Rightarrow> Inl (wrap_err ''do request'' e)
          | Inr (status, text) \<Rightarrow>
              if status \<ge> 300
              then Inl (Err ErrOther (''firecracker API '' @ path @ '' returned '' @ Itoa (int status) @ '': '' @ text))
              else Inr text, p))"

text \<open>PUTs one after the other until one fails; each has the words its error is wrapped in.\<close>

type_synonym api_step = "string \<times> string \<times> (string \<times> json) list"

fun api_puts :: "('g, 'z) fcenv_scheme \<Rightarrow> string \<Rightarrow> api_step list \<Rightarrow> 's host_scheme \<Rightarrow> error option \<times> 's host_scheme" where
  "api_puts E sock [] p = (None, p)"
| "api_puts E sock ((what, path, body) # steps) p =
     (let (r, p) = api_put E sock path body p in
      case r of Some e \<Rightarrow> (Some (wrap_err what e), p) | None \<Rightarrow> api_puts E sock steps p)"

section \<open>The handshake with the agent\<close>

definition fc_request :: "string \<Rightarrow> string \<Rightarrow> agent_codec \<Rightarrow> agent_params \<Rightarrow> AgentRequest" where
  "fc_request i meth C params = \<lparr>gq_ID = i, gq_Method = meth, gq_Params = ac_params C params\<rparr>"

text \<open>A request over a connection: its bytes go to the guest, then one response is read.\<close>

definition conn_request ::
  "('g, 'z) fcenv_scheme \<Rightarrow> AgentRequest \<Rightarrow> string \<Rightarrow> 'g \<Rightarrow> (error + AgentResponse) \<times> string \<times> 'g" where
  "conn_request E req r g =
     (case WriteMessage (ac_request (fe_codec E)) req [] of
        (Some e, w) \<Rightarrow> (Inl e, r, g)
      | (None, w) \<Rightarrow>
          (case fe_deliver E w g of
             (Inl e, g) \<Rightarrow> (Inl (wrap_err ''write header'' e), r, g)
           | (Inr b, g) \<Rightarrow>
               (let (a, r) = ReadTyped ''response'' (ac_un_response (fe_codec E)) (r @ b) in (a, r, g))))"

fun agent_tries ::
  "('g, 'z) fcenv_scheme \<Rightarrow> (nat \<Rightarrow> string) \<Rightarrow> string \<Rightarrow> (error + 'g \<times> (error + string)) list \<Rightarrow> string + string \<times> 'g" where
  "agent_tries E rand why [] = Inl why"
| "agent_tries E rand why (Inl e # ts) = agent_tries E (rand \<circ> Suc) (err_msg e) ts"
| "agent_tries E rand why (Inr (g, Inl e) # ts) = agent_tries E (rand \<circ> Suc) ''vsock CONNECT: no response'' ts"
| "agent_tries E rand why (Inr (g, Inr resp) # ts) =
     (if resp = [] then agent_tries E (rand \<circ> Suc) ''vsock CONNECT: no response'' ts
      else if \<not> HasPrefix resp ''OK'' then agent_tries E (rand \<circ> Suc) (''vsock CONNECT failed: '' @ resp) ts
      else
        (let (a, r, g) = conn_request E (fc_request (rand 0) ''ping'' (fe_codec E) AP_None) [] g in
         case a of
           Inl e \<Rightarrow> agent_tries E (rand \<circ> Suc) (err_msg e) ts
         | Inr ping \<Rightarrow>
             if gr_Error ping \<noteq> [] then agent_tries E (rand \<circ> Suc) (''ping error: '' @ gr_Error ping) ts
             else Inr (r, g)))"

definition waitForAgent ::
  "('g, 'z) fcenv_scheme \<Rightarrow> string \<Rightarrow> string \<Rightarrow> 's host_scheme \<Rightarrow> (error + string \<times> 'g) \<times> 's host_scheme" where
  "waitForAgent E uds timeout p =
     (let rand = fe_rand E (ho_calls p); (tries, p) = ask (fe_dials E) (OsDialAgent uds) p
      in (case agent_tries E rand ''%!w(<nil>)'' tries of
            Inl why \<Rightarrow> Inl (Err ErrOther (''agent not ready after '' @ timeout @ '': '' @ why))
          | Inr c \<Rightarrow> Inr c, p))"

definition waitForSocket ::
  "('g, 'z) fcenv_scheme \<Rightarrow> string \<Rightarrow> 's host_scheme \<Rightarrow> error option \<times> 's host_scheme" where
  "waitForSocket E sock p =
     (let (r, p) = ask (os_unit E) (OsWaitSocket sock) p
      in (map_option (\<lambda>_. Err ErrOther (''socket '' @ sock @ '' did not appear within 2s'')) r, p))"

section \<open>Booting\<close>

text \<open>Kill the process, wait for its end, remove the directory.\<close>

definition vm_cleanup :: "('g, 'z) fcenv_scheme \<Rightarrow> nat \<Rightarrow> string \<Rightarrow> 's host_scheme \<Rightarrow> 's host_scheme" where
  "vm_cleanup E pid dir p =
     (let (x, p) = ask (os_unit E) (OsKill pid) p; (x, p) = ask (os_unit E) (OsRemoveAll dir) p in p)"

text \<open>
  What the three ways of starting a VM share, with the words of their errors: start the process in
  the directory, wait for its socket, configure it, wait for the agent.
\<close>

record boot_words =
  bw_start :: string
  bw_socket :: string
  bw_agent :: string
  bw_timeout :: string

definition boot_vm ::
  "('g, 'z) fcenv_scheme \<Rightarrow> string \<Rightarrow> boot_words \<Rightarrow> string \<Rightarrow> api_step list \<Rightarrow> 's host_scheme \<Rightarrow>
     (error + nat \<times> string \<times> 'g) \<times> 's host_scheme" where
  "boot_vm E fcpath ws dir steps p =
     (let sock = Join2 dir ''api.sock''; (r, p) = ask (fe_pid E) (OsStartProc [fcpath, ''--api-sock'', sock] dir) p in
      case r of
        Inl e \<Rightarrow> (Inl (wrap_err (bw_start ws) e), snd (ask (os_unit E) (OsRemoveAll dir) p))
      | Inr pid \<Rightarrow>
     (let (r, p) = waitForSocket E sock p in
      case r of
        Some e \<Rightarrow> (Inl (wrap_err (bw_socket ws) e), vm_cleanup E pid dir p)
      | None \<Rightarrow>
     (let (r, p) = api_puts E sock steps p in
      case r of
        Some e \<Rightarrow> (Inl e, vm_cleanup E pid dir p)
      | None \<Rightarrow>
     (let (r, p) = waitForAgent E (Join2 dir ''v.sock'') (bw_timeout ws) p in
      case r of
        Inl e \<Rightarrow> (Inl (wrap_err (bw_agent ws) e), vm_cleanup E pid dir p)
      | Inr (rest, g) \<Rightarrow> (Inr (pid, rest, g), p)))))"

definition boot_args :: string where
  "boot_args = ''console=ttyS0 reboot=k panic=1 pci=off init=/usr/local/bin/stacyvm-agent''"

text \<open>The configuration of a VM: \<open>w\<close> prefixes the words of its errors.\<close>

definition vm_steps :: "string \<Rightarrow> int \<Rightarrow> int \<Rightarrow> string \<Rightarrow> string \<Rightarrow> 32 word \<Rightarrow> string \<Rightarrow> api_step list" where
  "vm_steps w vcpus memMB kern rootfs cid uds =
     [(w @ ''set machine config'', ''/machine-config'', [(''vcpu_count'', JsonInt vcpus), (''mem_size_mib'', JsonInt memMB)]),
      (w @ ''set boot source'', ''/boot-source'', [(''kernel_image_path'', JsonStr kern), (''boot_args'', JsonStr boot_args)]),
      (w @ ''set root drive'', ''/drives/rootfs'',
        [(''drive_id'', JsonStr ''rootfs''), (''path_on_host'', JsonStr rootfs), (''is_root_device'', JsonBool True),
         (''is_read_only'', JsonBool False)]),
      (w @ ''set vsock'', ''/vsock'', [(''guest_cid'', JsonInt (uint cid)), (''uds_path'', JsonStr uds)]),
      (w @ ''start instance'', ''/actions'', [(''action_type'', JsonStr ''InstanceStart'')])]"

text \<open>\<open>nextCID.Add(1) - 1\<close>: the counter wraps.\<close>

definition take_cid :: "'g FirecrackerProvider \<Rightarrow> 32 word \<times> 'g FirecrackerProvider" where
  "take_cid p = (fc_nextCID p, p\<lparr>fc_nextCID := fc_nextCID p + 1\<rparr>)"

definition make_vm :: "string \<Rightarrow> string \<Rightarrow> 32 word \<Rightarrow> nat \<Rightarrow> string \<Rightarrow> 'g \<Rightarrow> 'g vmInstance" where
  "make_vm sid dir cid pid rest g =
     \<lparr>vm_sandboxID = sid, vm_dir = dir, vm_apiSockPath = Join2 dir ''api.sock'', vm_vsockUDSPath = Join2 dir ''v.sock'',
      vm_rootfsPath = Join2 dir ''rootfs.ext4'', vm_cid = cid, vm_process = pid, vm_in = rest, vm_peer = g,
      vm_console = NewRingBuffer 1000\<rparr>"

text \<open>The directory of a sandbox, and the copy of a root file system in it.\<close>

definition prepare_dir ::
  "('g, 'z) fcenv_scheme \<Rightarrow> string \<Rightarrow> string \<Rightarrow> string \<Rightarrow> 's host_scheme \<Rightarrow> error option \<times> 's host_scheme" where
  "prepare_dir E w dir src p =
     (let (r, p) = ask (os_unit E) (OsMkdirAll dir) p in
      case r of
        Some e \<Rightarrow> (Some (wrap_err ''create dir'' e), p)
      | None \<Rightarrow>
     (let (r, p) = copyFile E src (Join2 dir ''rootfs.ext4'') p in
      case r of
        Some e \<Rightarrow> (Some (wrap_err w e), snd (ask (os_unit E) (OsRemoveAll dir) p))
      | None \<Rightarrow> (None, p)))"

section \<open>Snapshots\<close>

text \<open>The first eight bytes of the hash in hex are 16 digits.\<close>

definition snapshotDir :: "('g, 'z) fcenv_scheme \<Rightarrow> string \<Rightarrow> 'g FirecrackerProvider \<Rightarrow> string" where
  "snapshotDir E rootfsSrc p = Join2 (Join2 (fx_DataDir (fc_config p)) ''snapshots'') (take 16 (fe_sha256 E rootfsSrc))"

text \<open>Whether all three files of a snapshot are there; the search ends at the first that is not.\<close>

fun all_exist :: "('g, 'z) fcenv_scheme \<Rightarrow> string list \<Rightarrow> 's host_scheme \<Rightarrow> bool \<times> 's host_scheme" where
  "all_exist E [] p = (True, p)"
| "all_exist E (f # fs) p = (let (found, p) = path_exists E f p in if found then all_exist E fs p else (False, p))"

definition snapshot_files :: "string \<Rightarrow> string list" where
  "snapshot_files dir = [Join2 dir ''vmstate.bin'', Join2 dir ''memory.bin'', Join2 dir ''rootfs.ext4'']"

definition getSnapshot ::
  "('g, 'z) fcenv_scheme \<Rightarrow> string \<Rightarrow> 'g FirecrackerProvider \<Rightarrow> string option \<times> 'g FirecrackerProvider" where
  "getSnapshot E rootfsSrc p =
     (let dir = snapshotDir E rootfsSrc p; (found, p) = all_exist E (snapshot_files dir) p
      in (if found then Some dir else None, p))"

text \<open>
  A build by the goroutine that entered itself in \<open>snapBuilding\<close>; one that finds another's entry
  waits for its end and looks for the files.
\<close>

definition snapshot_begin :: "string \<Rightarrow> 'g FirecrackerProvider \<Rightarrow> bool \<times> 'g FirecrackerProvider" where
  "snapshot_begin rootfsSrc p =
     (if rootfsSrc \<in> set (fc_building p) then (False, p) else (True, p\<lparr>fc_building := rootfsSrc # fc_building p\<rparr>))"

definition snapshot_end :: "string \<Rightarrow> 'g FirecrackerProvider \<Rightarrow> 'g FirecrackerProvider" where
  "snapshot_end rootfsSrc p = p\<lparr>fc_building := remove1 rootfsSrc (fc_building p)\<rparr>"

definition snapshot_waited ::
  "('g, 'z) fcenv_scheme \<Rightarrow> string \<Rightarrow> 'g FirecrackerProvider \<Rightarrow> error option \<times> 'g FirecrackerProvider" where
  "snapshot_waited E rootfsSrc p =
     (let (s, p) = getSnapshot E rootfsSrc p
      in (if s \<noteq> None then None else Some (Err ErrOther ''concurrent snapshot build failed''), p))"

definition snapshot_words :: boot_words where
  "snapshot_words = \<lparr>bw_start = ''start firecracker for snapshot'', bw_socket = ''snapshot: wait for api socket'',
     bw_agent = ''snapshot: wait for agent'', bw_timeout = ''10s''\<rparr>"

text \<open>Pausing and writing the snapshot; then the VM goes, and its sockets.\<close>

definition snapshot_take ::
  "('g, 'z) fcenv_scheme \<Rightarrow> string \<Rightarrow> string \<Rightarrow> nat \<Rightarrow> 'g FirecrackerProvider \<Rightarrow> error option \<times> 'g FirecrackerProvider" where
  "snapshot_take E img snapDir pid p =
     (let sock = Join2 snapDir ''api.sock''; (r, p) = api_patch E sock ''/vm'' [(''state'', JsonStr ''Paused'')] p in
      case r of
        Some e \<Rightarrow> (Some (wrap_err ''snapshot: pause VM'' e), vm_cleanup E pid snapDir p)
      | None \<Rightarrow>
     (let (r, p) = api_put E sock ''/snapshot/create''
            [(''snapshot_type'', JsonStr ''Full''), (''snapshot_path'', JsonStr (Join2 snapDir ''vmstate.bin'')),
             (''mem_file_path'', JsonStr (Join2 snapDir ''memory.bin''))] p in
      case r of
        Some e \<Rightarrow> (Some (wrap_err ''snapshot: create snapshot'' e), vm_cleanup E pid snapDir p)
      | None \<Rightarrow>
          (let (x, p) = ask (os_unit E) (OsKill pid) p;
               (x, p) = ask (os_unit E) (OsRemove sock) p;
               (x, p) = ask (os_unit E) (OsRemove (Join2 snapDir ''v.sock'')) p;
               (x, p) = ask (os_unit E) (OsRemove (Join2 snapDir ''v.sock_1024'')) p;
               (x, p) = ask (os_unit E) (OsWriteFile (Join2 snapDir ''meta.json'')
                          (fe_meta E \<lparr>sm_Image = img, sm_CreatedAt = fe_now E\<rparr>) 420) p
           in (None, p))))"

definition snapshot_build ::
  "('g, 'z) fcenv_scheme \<Rightarrow> string \<Rightarrow> string \<Rightarrow> 'g FirecrackerProvider \<Rightarrow> error option \<times> 'g FirecrackerProvider" where
  "snapshot_build E rootfsSrc img p =
     (let snapDir = snapshotDir E rootfsSrc p; (r, p) = ask (os_unit E) (OsMkdirAll snapDir) p in
      case r of
        Some e \<Rightarrow> (Some (wrap_err ''create snapshot dir'' e), p)
      | None \<Rightarrow>
     (let (r, p) = copyFile E rootfsSrc (Join2 snapDir ''rootfs.ext4'') p in
      case r of
        Some e \<Rightarrow> (Some (wrap_err ''copy rootfs to snapshot dir'' e), snd (ask (os_unit E) (OsRemoveAll snapDir) p))
      | None \<Rightarrow>
     (let (cid, p) = take_cid p; mem = fx_DefaultMemoryMB (fc_config p); mem = (if mem = 0 then 1024 else mem);
          (r, p) = boot_vm E (fx_FirecrackerPath (fc_config p)) snapshot_words snapDir
            (vm_steps ''snapshot: '' 1 mem (fx_KernelPath (fc_config p)) ''rootfs.ext4'' cid ''v.sock'') p in
      case r of
        Inl e \<Rightarrow> (Some e, p)
      | Inr (pid, rest, g) \<Rightarrow> snapshot_take E img snapDir pid p)))"

definition createBaseSnapshot ::
  "('g, 'z) fcenv_scheme \<Rightarrow> string \<Rightarrow> string \<Rightarrow> 'g FirecrackerProvider \<Rightarrow> error option \<times> 'g FirecrackerProvider" where
  "createBaseSnapshot E rootfsSrc img p =
     (let (mine, p) = snapshot_begin rootfsSrc p in
      if \<not> mine then snapshot_waited E rootfsSrc p
      else (let (r, p) = snapshot_build E rootfsSrc img p in (r, snapshot_end rootfsSrc p)))"

definition restore_words :: boot_words where
  "restore_words = \<lparr>bw_start = ''restore: start firecracker'', bw_socket = ''restore: wait for api socket'',
     bw_agent = ''restore: agent reconnect'', bw_timeout = ''5s''\<rparr>"

definition load_step :: "string \<Rightarrow> api_step" where
  "load_step snap =
     (''restore: load snapshot'', ''/snapshot/load'',
      [(''snapshot_path'', JsonStr (Join2 snap ''vmstate.bin'')),
       (''mem_backend'', JsonObj [(''backend_type'', JsonStr ''File''), (''backend_path'', JsonStr (Join2 snap ''memory.bin''))]),
       (''resume_vm'', JsonBool True)])"

definition add_vm :: "string \<Rightarrow> string \<Rightarrow> 32 word \<Rightarrow> nat \<times> string \<times> 'g \<Rightarrow> 'g FirecrackerProvider \<Rightarrow> 'g FirecrackerProvider" where
  "add_vm sid dir cid c p = (case c of (pid, rest, g) \<Rightarrow> p\<lparr>fc_vms := al_put sid (make_vm sid dir cid pid rest g) (fc_vms p)\<rparr>)"

definition restoreFromSnapshot ::
  "('g, 'z) fcenv_scheme \<Rightarrow> string \<Rightarrow> string \<Rightarrow> 'g FirecrackerProvider \<Rightarrow> (error + string) \<times> 'g FirecrackerProvider" where
  "restoreFromSnapshot E sid snap p =
     (let (cid, p) = take_cid p; dir = Join2 (fx_DataDir (fc_config p)) sid;
          (r, p) = prepare_dir E ''restore: copy rootfs'' dir (Join2 snap ''rootfs.ext4'') p in
      case r of
        Some e \<Rightarrow> (Inl e, p)
      | None \<Rightarrow>
     (let (r, p) = boot_vm E (fx_FirecrackerPath (fc_config p)) restore_words dir [load_step snap] p in
      case r of Inl e \<Rightarrow> (Inl e, p) | Inr c \<Rightarrow> (Inr sid, add_vm sid dir cid c p)))"

section \<open>Spawn and destroy\<close>

definition cold_words :: boot_words where
  "cold_words = \<lparr>bw_start = ''start firecracker'', bw_socket = ''wait for api socket'', bw_agent = ''wait for agent'', bw_timeout = ''10s''\<rparr>"

text \<open>Zero stands for the default; \<open>vcpus\<close> of 0 is 1.\<close>

definition vm_vcpus :: "SpawnOptions \<Rightarrow> int" where
  "vm_vcpus opts = (if so_VCPUs opts = 0 then 1 else so_VCPUs opts)"

definition vm_memory :: "FirecrackerProviderConfig \<Rightarrow> SpawnOptions \<Rightarrow> int" where
  "vm_memory cfg opts =
     (if so_MemoryMB opts \<noteq> 0 then so_MemoryMB opts else if fx_DefaultMemoryMB cfg = 0 then 1024 else fx_DefaultMemoryMB cfg)"

definition coldBoot ::
  "('g, 'z) fcenv_scheme \<Rightarrow> string \<Rightarrow> SpawnOptions \<Rightarrow> string \<Rightarrow> 'g FirecrackerProvider \<Rightarrow> (error + string) \<times> 'g FirecrackerProvider" where
  "coldBoot E sid opts rootfsSrc p =
     (let (cid, p) = take_cid p; dir = Join2 (fx_DataDir (fc_config p)) sid;
          (r, p) = prepare_dir E ''copy rootfs'' dir rootfsSrc p in
      case r of
        Some e \<Rightarrow> (Inl e, p)
      | None \<Rightarrow>
     (let (r, p) = boot_vm E (fx_FirecrackerPath (fc_config p)) cold_words dir
            (vm_steps [] (vm_vcpus opts) (vm_memory (fc_config p) opts) (fx_KernelPath (fc_config p))
               (Join2 dir ''rootfs.ext4'') cid (Join2 dir ''v.sock'')) p in
      case r of Inl e \<Rightarrow> (Inl e, p) | Inr c \<Rightarrow> (Inr sid, add_vm sid dir cid c p)))"

definition resolve_rootfs ::
  "('g, 'z) fcenv_scheme \<Rightarrow> SpawnOptions \<Rightarrow> 'g FirecrackerProvider \<Rightarrow> (error + string) \<times> 'g FirecrackerProvider" where
  "resolve_rootfs E opts p =
     (let base = fx_DefaultRootfs (fc_config p);
          (r, p) = (if so_Image opts \<noteq> [] then image_Get E (fc_imageCache p) (so_Image opts) p else (Inr [], p)) in
      case r of
        Inl e \<Rightarrow> (Inl (Err (err_kind e) (''image '' @ Quote (so_Image opts) @ '': '' @ err_msg e @
                    '' (pre-build with: stacyvm build-image '' @ so_Image opts @ '')'')), p)
      | Inr hit \<Rightarrow>
          (let src = (if hit \<noteq> [] then hit else base)
           in (if src = [] then Inl (Err ErrOther ''no rootfs configured (set default_rootfs in config)'') else Inr src, p)))"

text \<open>
  The fast path is a snapshot of the same root file system; when its restore fails, cold boot.
  The answer has the root file system and image to build a snapshot of in the background.
\<close>

definition fc_Spawn ::
  "('g, 'z) fcenv_scheme \<Rightarrow> SpawnOptions \<Rightarrow> 'g FirecrackerProvider \<Rightarrow>
     (error + string \<times> (string \<times> string) option) \<times> 'g FirecrackerProvider" where
  "fc_Spawn E opts p =
     (let (r, p) = resolve_rootfs E opts p in
      case r of
        Inl e \<Rightarrow> (Inl e, p)
      | Inr rootfsSrc \<Rightarrow>
     (let (snap, p) = getSnapshot E rootfsSrc p;
          (r, p) = (case snap of
                      None \<Rightarrow> (Inl (Err ErrOther []), p)
                    | Some s \<Rightarrow> restoreFromSnapshot E (''sb-'' @ hex_bytes (fe_rand E (ho_calls p) 0)) s p) in
      case r of
        Inr sid \<Rightarrow> (Inr (sid, None), p)
      | Inl e \<Rightarrow>
     (let (r, p) = coldBoot E (''sb-'' @ hex_bytes (fe_rand E (ho_calls p) 0)) opts rootfsSrc p;
          img = (if so_Image opts = [] then ''alpine:latest'' else so_Image opts)
      in (case r of Inl e \<Rightarrow> Inl e | Inr sid \<Rightarrow> Inr (sid, Some (rootfsSrc, img)), p))))"

definition fc_BuildImage ::
  "('g, 'z) fcenv_scheme \<Rightarrow> string \<Rightarrow> 'g FirecrackerProvider \<Rightarrow> (error + string) \<times> 'g FirecrackerProvider" where
  "fc_BuildImage E img p = image_Get E (fc_imageCache p) img p"

definition fc_Healthy :: "('g, 'z) fcenv_scheme \<Rightarrow> 'g FirecrackerProvider \<Rightarrow> bool \<times> 'g FirecrackerProvider" where
  "fc_Healthy E p =
     (let bin = fx_FirecrackerPath (fc_config p); (r, p) = ask (os_name E) (OsLookPath bin) p;
          (found, p) = (case r of Inr x \<Rightarrow> (True, p) | Inl e \<Rightarrow> path_exists E bin p) in
      if \<not> found then (False, p) else path_exists E (fx_KernelPath (fc_config p)) p)"

record SnapshotSummary =
  su_Image :: string
  su_Provider :: string
  su_CreatedAt :: time

definition snapshot_summary ::
  "('g, 'z) fcenv_scheme \<Rightarrow> string \<Rightarrow> 's host_scheme \<Rightarrow> SnapshotSummary option \<times> 's host_scheme" where
  "snapshot_summary E dir p =
     (let (found, p) = all_exist E (snapshot_files dir) p in
      if \<not> found then (None, p)
      else
        (let (r, p) = ask (os_content E) (OsOpen (Join2 dir ''meta.json'')) p
         in (case r of
               Inl e \<Rightarrow> None
             | Inr data \<Rightarrow> map_option (\<lambda>m. \<lparr>su_Image = sm_Image m, su_Provider = ''firecracker'', su_CreatedAt = sm_CreatedAt m\<rparr>)
                             (fe_unmeta E data), p)))"

fun snapshot_list ::
  "('g, 'z) fcenv_scheme \<Rightarrow> string \<Rightarrow> (string \<times> file_stat option) list \<Rightarrow> 's host_scheme \<Rightarrow> SnapshotSummary list \<times> 's host_scheme" where
  "snapshot_list E root [] p = ([], p)"
| "snapshot_list E root ((n, i) # es) p =
     (if (case i of None \<Rightarrow> True | Some st \<Rightarrow> \<not> fs_IsDir st) then snapshot_list E root es p
      else (let (s, p) = snapshot_summary E (Join2 root n) p; (ss, p) = snapshot_list E root es p
            in ((case s of None \<Rightarrow> ss | Some s \<Rightarrow> s # ss), p)))"

definition fc_ListSnapshots ::
  "('g, 'z) fcenv_scheme \<Rightarrow> 'g FirecrackerProvider \<Rightarrow> SnapshotSummary list \<times> 'g FirecrackerProvider" where
  "fc_ListSnapshots E p =
     (let root = Join2 (fx_DataDir (fc_config p)) ''snapshots''; (r, p) = ask (os_entries E) (OsReadDir root) p in
      case r of Inl e \<Rightarrow> ([], p) | Inr es \<Rightarrow> snapshot_list E root es p)"

end
