(* ===== verification/Firecracker_Ops.thy ===== *)
theory Firecracker_Ops
  imports Firecracker_VM
begin

text \<open>
  What a microVM does for its users (\<open>internal/providers/firecracker.go\<close>): commands and files over
  the connection to the agent, state, end and console.  A connection is used by one operation at a
  time (\<open>connMu\<close>), a stream until its last chunk was read; here each is one step.
\<close>

section \<open>Requests\<close>

definition getVM :: "string \<Rightarrow> 'g FirecrackerProvider \<Rightarrow> error + 'g vmInstance" where
  "getVM sid p = (case map_of (fc_vms p) sid of None \<Rightarrow> Inl (SandboxNotFoundError sid) | Some vm \<Rightarrow> Inr vm)"

definition put_vm :: "string \<Rightarrow> 'g vmInstance \<Rightarrow> 'g FirecrackerProvider \<Rightarrow> 'g FirecrackerProvider" where
  "put_vm sid vm p = p\<lparr>fc_vms := al_put sid vm (fc_vms p)\<rparr>"

definition sendRequest ::
  "('g, 'z) fcenv_scheme \<Rightarrow> AgentRequest \<Rightarrow> 'g vmInstance \<Rightarrow> (error + AgentResponse) \<times> 'g vmInstance" where
  "sendRequest E req vm =
     (let (a, r, g) = conn_request E req (vm_in vm) (vm_peer vm) in (a, vm\<lparr>vm_in := r, vm_peer := g\<rparr>))"

text \<open>
  The round of one operation: look the VM up, send the request, take a transport error or the
  agent's error, or the result.  \<open>m\<close> names the method in the request and in the errors.
\<close>

definition agent_call ::
  "('g, 'z) fcenv_scheme \<Rightarrow> string \<Rightarrow> agent_params \<Rightarrow> string \<Rightarrow> 'g FirecrackerProvider \<Rightarrow> (error + string) \<times> 'g FirecrackerProvider" where
  "agent_call E m params sid p =
     (case getVM sid p of
        Inl e \<Rightarrow> (Inl e, p)
      | Inr vm \<Rightarrow>
          (let (a, vm) = sendRequest E (fc_request (fe_rand E (ho_calls p) 0) m (fe_codec E) params) vm; p = put_vm sid vm p
           in (case a of
                 Inl e \<Rightarrow> Inl (wrap_err (''agent '' @ m) e)
               | Inr resp \<Rightarrow>
                   if gr_Error resp \<noteq> [] then Inl (Err ErrOther (''agent '' @ m @ '': '' @ gr_Error resp))
                   else Inr (gr_Result resp), p)))"

text \<open>The result decoded; the errors of decoding say of what.\<close>

definition agent_decode :: "string \<Rightarrow> (string \<Rightarrow> error + 'a) \<Rightarrow> (error + string) \<times> 's \<Rightarrow> (error + 'a) \<times> 's" where
  "agent_decode m un r =
     (case fst r of
        Inl e \<Rightarrow> Inl e
      | Inr raw \<Rightarrow> (case un raw of Inl e \<Rightarrow> Inl (wrap_err (''unmarshal '' @ m @ '' result'') e) | Inr v \<Rightarrow> Inr v), snd r)"

definition fc_Exec ::
  "('g, 'z) fcenv_scheme \<Rightarrow> string \<Rightarrow> ExecOptions \<Rightarrow> 'g FirecrackerProvider \<Rightarrow> (error + int \<times> string \<times> string) \<times> 'g FirecrackerProvider" where
  "fc_Exec E sid opts p = agent_decode ''exec'' (ac_un_exec_result (fe_codec E)) (agent_call E ''exec'' (AP_Exec opts) sid p)"

section \<open>Streams\<close>

text \<open>
  When the caller's context ends a stream: never; at a read, after so many messages and with so many
  bytes of the next one read, which are lost (and whether the notice of the deadline still found room);
  or while the chunk of a message was to be handed over.
\<close>

datatype give_up = NoDeadline | AtRead nat nat bool | AtSend nat bool

fun sooner :: "give_up \<Rightarrow> give_up" where
  "sooner NoDeadline = NoDeadline"
| "sooner (AtRead n k b) = AtRead (n - 1) k b"
| "sooner (AtSend n b) = AtSend (n - 1) b"

definition timeout_notice :: "string \<Rightarrow> bool \<Rightarrow> (string \<times> string) list" where
  "timeout_notice sid seen = (if seen then [(''stderr'', err_msg (ExecTimeoutError sid))] else [])"

fun gives_up_read :: "give_up \<Rightarrow> (nat \<times> bool) option" where
  "gives_up_read (AtRead 0 k seen) = Some (k, seen)"
| "gives_up_read stop = None"

fun gives_up_send :: "give_up \<Rightarrow> bool option" where
  "gives_up_send (AtSend 0 seen) = Some seen"
| "gives_up_send stop = None"

function stream_chunks ::
  "agent_codec \<Rightarrow> string \<Rightarrow> give_up \<Rightarrow> string \<Rightarrow> (string \<times> string) list \<times> string" where
  "stream_chunks C sid stop r =
     (case gives_up_read stop of
        Some (k, seen) \<Rightarrow> (timeout_notice sid seen, drop k r)
      | None \<Rightarrow>
          (case ReadTyped ''stream response'' (ac_un_stream C) r of
             (Inl e, r) \<Rightarrow> ([], r)
           | (Inr m, r) \<Rightarrow>
               if gs_Data m \<noteq> [] \<and> gives_up_send stop \<noteq> None then (timeout_notice sid (the (gives_up_send stop)), r)
               else
                 (let c = (if gs_Data m \<noteq> [] then [(gs_Stream m, gs_Data m)] else []) in
                  if gs_Done m then (c, r)
                  else (let (cs, r) = stream_chunks C sid (sooner stop) r in (c @ cs, r)))))"
  by pat_completeness auto
termination
  by (relation "measure (\<lambda>(C, sid, stop, r). length r)") (auto dest!: ReadTyped_shorter [OF sym])

declare stream_chunks.simps [simp del]

definition fc_ExecStream ::
  "('g, 'z) fcenv_scheme \<Rightarrow> give_up \<Rightarrow> string \<Rightarrow> ExecOptions \<Rightarrow> 'g FirecrackerProvider \<Rightarrow>
     (error + (string \<times> string) list) \<times> 'g FirecrackerProvider" where
  "fc_ExecStream E stop sid opts p =
     (case getVM sid p of
        Inl e \<Rightarrow> (Inl e, p)
      | Inr vm \<Rightarrow>
     (let req = fc_request (fe_rand E (ho_calls p) 0) ''exec_stream'' (fe_codec E) (AP_Exec opts) in
      case WriteMessage (ac_request (fe_codec E)) req [] of
        (Some e, w) \<Rightarrow> (Inl (wrap_err ''send exec_stream'' e), p)
      | (None, w) \<Rightarrow>
          (case fe_deliver E w (vm_peer vm) of
             (Inl e, g) \<Rightarrow> (Inl (wrap_err ''send exec_stream'' (wrap_err ''write header'' e)), put_vm sid (vm\<lparr>vm_peer := g\<rparr>) p)
           | (Inr b, g) \<Rightarrow>
               (let (cs, r) = stream_chunks (fe_codec E) sid stop (vm_in vm @ b)
                in (Inr cs, put_vm sid (vm\<lparr>vm_in := r, vm_peer := g\<rparr>) p)))))"

section \<open>Files\<close>

definition fc_unit :: "(error + string) \<times> 's \<Rightarrow> error option \<times> 's" where
  "fc_unit r = (case fst r of Inl e \<Rightarrow> Some e | Inr x \<Rightarrow> None, snd r)"

definition fc_WriteFile ::
  "('g, 'z) fcenv_scheme \<Rightarrow> string \<Rightarrow> string \<Rightarrow> error + string \<Rightarrow> string \<Rightarrow> 'g FirecrackerProvider \<Rightarrow> error option \<times> 'g FirecrackerProvider" where
  "fc_WriteFile E sid path content md p =
     (case getVM sid p of
        Inl e \<Rightarrow> (Some e, p)
      | Inr vm \<Rightarrow>
          (case content of
             Inl e \<Rightarrow> (Some (wrap_err ''read content'' e), p)
           | Inr data \<Rightarrow>
               fc_unit (agent_call E ''write_file'' (AP_WriteFile path data (if md = [] then ''644'' else md)) sid p)))"

definition fc_ReadFile ::
  "('g, 'z) fcenv_scheme \<Rightarrow> string \<Rightarrow> string \<Rightarrow> 'g FirecrackerProvider \<Rightarrow> (error + string) \<times> 'g FirecrackerProvider" where
  "fc_ReadFile E sid path p =
     agent_decode ''read_file'' (ac_un_content (fe_codec E)) (agent_call E ''read_file'' (AP_Path path) sid p)"

definition fc_ListFiles ::
  "('g, 'z) fcenv_scheme \<Rightarrow> string \<Rightarrow> string \<Rightarrow> 'g FirecrackerProvider \<Rightarrow> (error + FileInfo list) \<times> 'g FirecrackerProvider" where
  "fc_ListFiles E sid path p =
     agent_decode ''list_files'' (ac_un_files (fe_codec E)) (agent_call E ''list_files'' (AP_Path path) sid p)"

definition fc_DeleteFile ::
  "('g, 'z) fcenv_scheme \<Rightarrow> string \<Rightarrow> string \<Rightarrow> bool \<Rightarrow> 'g FirecrackerProvider \<Rightarrow> error option \<times> 'g FirecrackerProvider" where
  "fc_DeleteFile E sid path recursive p = fc_unit (agent_call E ''delete_file'' (AP_DeleteFile path recursive) sid p)"

definition fc_MoveFile ::
  "('g, 'z) fcenv_scheme \<Rightarrow> string \<Rightarrow> string \<Rightarrow> string \<Rightarrow> 'g FirecrackerProvider \<Rightarrow> error option \<times> 'g FirecrackerProvider" where
  "fc_MoveFile E sid oldPath newPath p = fc_unit (agent_call E ''move_file'' (AP_MoveFile oldPath newPath) sid p)"

definition fc_ChmodFile ::
  "('g, 'z) fcenv_scheme \<Rightarrow> string \<Rightarrow> string \<Rightarrow> string \<Rightarrow> 'g FirecrackerProvider \<Rightarrow> error option \<times> 'g FirecrackerProvider" where
  "fc_ChmodFile E sid path md p = fc_unit (agent_call E ''chmod_file'' (AP_ChmodFile path md) sid p)"

definition fc_StatFile ::
  "('g, 'z) fcenv_scheme \<Rightarrow> string \<Rightarrow> string \<Rightarrow> 'g FirecrackerProvider \<Rightarrow> (error + FileInfo) \<times> 'g FirecrackerProvider" where
  "fc_StatFile E sid path p =
     agent_decode ''stat_file'' (ac_un_file (fe_codec E)) (agent_call E ''stat_file'' (AP_Path path) sid p)"

definition fc_GlobFiles ::
  "('g, 'z) fcenv_scheme \<Rightarrow> string \<Rightarrow> string \<Rightarrow> 'g FirecrackerProvider \<Rightarrow> (error + string list) \<times> 'g FirecrackerProvider" where
  "fc_GlobFiles E sid pattern p =
     agent_decode ''glob_files'' (ac_un_matches (fe_codec E)) (agent_call E ''glob_files'' (AP_GlobFiles pattern) sid p)"

section \<open>State, end, console\<close>

text \<open>
  \<open>signalZero\<close> is not a \<open>syscall.Signal\<close>, the only signals that \<open>os.Process.Signal\<close> sends on Unix:
  the call always gives an error, whatever the process does.
\<close>

definition fc_Status :: "string \<Rightarrow> 'g FirecrackerProvider \<Rightarrow> error + SandboxStatus" where
  "fc_Status sid p =
     (case getVM sid p of
        Inl e \<Rightarrow> Inl e
      | Inr vm \<Rightarrow> Inr \<lparr>st_ID = sid, st_State = ''stopped''\<rparr>)"

definition fc_Destroy ::
  "('g, 'z) fcenv_scheme \<Rightarrow> string \<Rightarrow> 'g FirecrackerProvider \<Rightarrow> error option \<times> 'g FirecrackerProvider" where
  "fc_Destroy E sid p =
     (case map_of (fc_vms p) sid of
        None \<Rightarrow> (Some (SandboxNotFoundError sid), p)
      | Some vm \<Rightarrow>
          (let p = p\<lparr>fc_vms := al_del sid (fc_vms p)\<rparr>;
               (a, vm) = sendRequest E (fc_request (fe_rand E (ho_calls p) 0) ''shutdown'' (fe_codec E) AP_None) vm
           in (None, vm_cleanup E (vm_process vm) (vm_dir vm) p)))"

definition fc_ConsoleLog :: "string \<Rightarrow> int \<Rightarrow> 'g FirecrackerProvider \<Rightarrow> error + string list" where
  "fc_ConsoleLog sid n p =
     (case map_of (fc_vms p) sid of
        None \<Rightarrow> Inl (SandboxNotFoundError sid)
      | Some vm \<Rightarrow> Inr (ring_Lines n (vm_console vm)))"

text \<open>What the process prints goes to the console of its VM.\<close>

definition fc_console :: "string \<Rightarrow> string \<Rightarrow> 'g FirecrackerProvider \<Rightarrow> 'g FirecrackerProvider" where
  "fc_console sid t p =
     (case map_of (fc_vms p) sid of
        None \<Rightarrow> p
      | Some vm \<Rightarrow> put_vm sid (vm\<lparr>vm_console := ring_Write t (vm_console vm)\<rparr>) p)"

section \<open>The contract\<close>

definition fc_running :: "'g FirecrackerProvider \<Rightarrow> string set" where
  "fc_running p = {sid. map_of (fc_vms p) sid \<noteq> None}"

text \<open>A world: what the system and the guests answer, and the caller's context.\<close>

type_synonym 'g fc_world = "'g fcenv \<times> SpawnOptions \<times> give_up"

fun fc_spawn :: "'g fc_world \<Rightarrow> 'g FirecrackerProvider \<Rightarrow> (error + string) \<times> 'g FirecrackerProvider" where
  "fc_spawn (E, opts, stop) p = (let (r, p) = fc_Spawn E opts p in (map_sum id fst r, p))"

fun fc_destroy :: "'g fc_world \<Rightarrow> string \<Rightarrow> 'g FirecrackerProvider \<Rightarrow> error option \<times> 'g FirecrackerProvider" where
  "fc_destroy (E, w) sid p = fc_Destroy E sid p"

fun fc_guest :: "'g fc_world \<Rightarrow> guest_op \<Rightarrow> string \<Rightarrow> 'g FirecrackerProvider \<Rightarrow> error option \<times> 'g FirecrackerProvider" where
  "fc_guest (E, so, stop) (GExec opts) sid p = failure (fc_Exec E sid opts p)"
| "fc_guest (E, so, stop) (GExecStream opts) sid p = failure (fc_ExecStream E stop sid opts p)"
| "fc_guest (E, so, stop) (GWriteFile f c md) sid p = fc_WriteFile E sid f c md p"
| "fc_guest (E, so, stop) (GReadFile f) sid p = failure (fc_ReadFile E sid f p)"
| "fc_guest (E, so, stop) (GListFiles f) sid p = failure (fc_ListFiles E sid f p)"
| "fc_guest (E, so, stop) (GDeleteFile f rc) sid p = fc_DeleteFile E sid f rc p"
| "fc_guest (E, so, stop) (GMoveFile f g) sid p = fc_MoveFile E sid f g p"
| "fc_guest (E, so, stop) (GChmodFile f md) sid p = fc_ChmodFile E sid f md p"
| "fc_guest (E, so, stop) (GStatFile f) sid p = failure (fc_StatFile E sid f p)"
| "fc_guest (E, so, stop) (GGlobFiles f) sid p = failure (fc_GlobFiles E sid f p)"
| "fc_guest (E, so, stop) (GConsoleLog n) sid p = failure (fc_ConsoleLog sid n p, p)"

lemmas fc_call_defs = fc_Exec_def fc_WriteFile_def fc_ReadFile_def fc_ListFiles_def fc_DeleteFile_def fc_MoveFile_def
  fc_ChmodFile_def fc_StatFile_def fc_GlobFiles_def fc_unit_def agent_decode_def

lemma put_vm_running: "getVM sid p = Inr vm \<Longrightarrow> fc_running (put_vm sid vm' p) = fc_running p"
  by (auto simp: put_vm_def fc_running_def getVM_def split: option.splits)

lemma agent_call_running [simp]: "fc_running (snd (agent_call E m params sid p)) = fc_running p"
  by (auto simp: agent_call_def put_vm_running split: sum.split prod.split)

lemma fc_ExecStream_running: "fc_running (snd (fc_ExecStream E stop sid opts p)) = fc_running p"
  by (auto simp: fc_ExecStream_def Let_def put_vm_running split: sum.split prod.split option.split)

lemma fc_guest_running: "fc_running (snd (fc_guest w g sid p)) = fc_running p"
  by (cases w; cases g) (simp_all add: fc_call_defs fc_ExecStream_running split: sum.split)

lemma getVM_gone: "sid \<notin> fc_running p \<Longrightarrow> getVM sid p = Inl (SandboxNotFoundError sid)"
  by (auto simp: fc_running_def getVM_def split: option.split)

lemma agent_call_gone: "sid \<notin> fc_running p \<Longrightarrow> agent_call E m params sid p = (Inl (SandboxNotFoundError sid), p)"
  by (simp add: agent_call_def getVM_gone)

lemma fc_guest_gone: "sid \<notin> fc_running p \<Longrightarrow> fc_guest w g sid p = (Some (SandboxNotFoundError sid), p)"
  by (cases w; cases g)
    (simp_all add: fc_call_defs agent_call_gone getVM_gone fc_ExecStream_def fc_ConsoleLog_def fc_running_def)

end
