(* ===== verification/Firecracker_Laws.thy ===== *)
theory Firecracker_Laws
  imports Firecracker_Ops "HOL-Library.Multiset"
begin

text \<open>
  Laws of the Firecracker provider: it keeps the providers' contract; it leaves no process behind,
  on whatever path a spawn or a snapshot fails; and over a healthy connection an operation is the
  agent's own.
\<close>

section \<open>What operations of the host leave alone\<close>

text \<open>They append to the log of calls; the rest of the state is theirs to read only.\<close>

lemma more_ask [simp]: "host.more (snd (ask r c p)) = host.more p"
  by (simp add: ask_def)

lemma more_api_request [simp]: "host.more (snd (api_request E v s f b p)) = host.more p"
  by (simp add: api_request_def split_def Let_def)

lemma more_api_puts [simp]: "host.more (snd (api_puts E s st p)) = host.more p"
  by (induction st arbitrary: p) (auto simp: split_def Let_def split: option.split)

lemma more_path_exists [simp]: "host.more (snd (path_exists E f p)) = host.more p"
  by (simp add: path_exists_def split_def Let_def)

lemma more_runCmd [simp]: "host.more (snd (runCmd E a p)) = host.more p"
  by (simp add: runCmd_def split_def Let_def)

lemma more_copyFile [simp]: "host.more (snd (copyFile E a b p)) = host.more p"
  by (simp add: copyFile_def split_def Let_def)

lemma more_image_fill [simp]: "host.more (snd (image_fill E ic a t c o1 p)) = host.more p"
  by (simp add: image_fill_def split_def Let_def split: sum.split option.split)

lemma more_image_export [simp]: "host.more (snd (image_export E ic img a t o1 p)) = host.more p"
  by (simp add: image_export_def split_def Let_def split: sum.split)

lemma more_image_Get [simp]: "host.more (snd (image_Get E ic img p)) = host.more p"
  by (simp add: image_Get_def image_build_def split_def Let_def split: sum.split option.split)

lemma more_all_exist [simp]: "host.more (snd (all_exist E fs p)) = host.more p"
  by (induction fs arbitrary: p) (simp_all add: split_def Let_def)

lemma more_getSnapshot [simp]: "host.more (snd (getSnapshot E r p)) = host.more p"
  by (simp add: getSnapshot_def split_def Let_def)

lemma more_waitForAgent [simp]: "host.more (snd (waitForAgent E u t p)) = host.more p"
  by (simp add: waitForAgent_def split_def Let_def)

lemma more_waitForSocket [simp]: "host.more (snd (waitForSocket E u p)) = host.more p"
  by (simp add: waitForSocket_def split_def Let_def)

lemma more_vm_cleanup [simp]: "host.more (vm_cleanup E pid d p) = host.more p"
  by (simp add: vm_cleanup_def split_def Let_def)

lemma more_boot_vm [simp]: "host.more (snd (boot_vm E f w d st p)) = host.more p"
  by (simp add: boot_vm_def split_def Let_def split: sum.split option.split)

lemma more_prepare_dir [simp]: "host.more (snd (prepare_dir E w d s p)) = host.more p"
  by (simp add: prepare_dir_def split_def Let_def split: option.split)

lemma more_resolve [simp]: "host.more (snd (resolve_rootfs E opts p)) = host.more p"
  by (simp add: resolve_rootfs_def split_def Let_def split: sum.split)

lemma fc_vms_more: "host.more q = host.more p \<Longrightarrow> fc_vms q = fc_vms p"
  by (cases p; cases q) simp

lemma fc_config_more: "host.more q = host.more p \<Longrightarrow> fc_config q = fc_config p"
  by (cases p; cases q) simp

section \<open>Processes\<close>

text \<open>The processes that were started and not killed yet, read off the log of calls.\<close>

definition alive_call :: "(os_call list \<Rightarrow> os_call \<Rightarrow> error + nat) \<Rightarrow> os_call list \<Rightarrow> os_call \<Rightarrow> nat multiset \<Rightarrow> nat multiset" where
  "alive_call pids pre c m =
     (case c of
        OsStartProc argv dir \<Rightarrow> (case pids pre c of Inl e \<Rightarrow> m | Inr pid \<Rightarrow> add_mset pid m)
      | OsKill pid \<Rightarrow> m - {#pid#}
      | _ \<Rightarrow> m)"

fun alive_from :: "(os_call list \<Rightarrow> os_call \<Rightarrow> error + nat) \<Rightarrow> os_call list \<Rightarrow> os_call list \<Rightarrow> nat multiset \<Rightarrow> nat multiset" where
  "alive_from pids pre [] m = m"
| "alive_from pids pre (c # cs) m = alive_from pids (pre @ [c]) cs (alive_call pids pre c m)"

definition alive :: "(os_call list \<Rightarrow> os_call \<Rightarrow> error + nat) \<Rightarrow> 's host_scheme \<Rightarrow> nat multiset" where
  "alive pids p = alive_from pids [] (ho_calls p) {#}"

lemma alive_from_snoc: "alive_from pids pre (cs @ [c]) m = alive_call pids (pre @ cs) c (alive_from pids pre cs m)"
  by (induction cs arbitrary: pre m) simp_all

lemma alive_ask: "alive pids (snd (ask r c p)) = alive_call pids (ho_calls p) c (alive pids p)"
  by (simp add: ask_def alive_def alive_from_snoc)

text \<open>Calls that neither start nor kill.\<close>

definition plain :: "os_call \<Rightarrow> bool" where
  "plain c \<longleftrightarrow> (case c of OsStartProc a d \<Rightarrow> False | OsKill n \<Rightarrow> False | _ \<Rightarrow> True)"

lemma plain_simps [simp]:
  "plain (OsMkdirAll d)" "plain (OsMkdirTemp d)" "plain (OsWriteFile f c m)" "plain (OsOpen f)" "plain (OsReadDir f)"
  "plain (OsStat f)" "plain (OsRemove f)" "plain (OsRemoveAll f)" "plain (OsRename f g)" "plain (OsRun a e d)"
  "plain (OsLookPath f)" "plain (OsWaitSocket f)" "plain (OsDialAgent f)" "plain (OsHTTP v sk f b)"
  by (simp_all add: plain_def)

lemma alive_plain [simp]: "plain c \<Longrightarrow> alive pids (snd (ask r c p)) = alive pids p"
  by (simp add: alive_ask alive_call_def plain_def split: os_call.splits)

lemma alive_kill [simp]: "alive pids (snd (ask r (OsKill pid) p)) = alive pids p - {#pid#}"
  by (simp add: alive_ask alive_call_def)

lemma alive_api_request [simp]: "alive pids (snd (api_request E v s f b p)) = alive pids p"
  by (simp add: api_request_def split_def Let_def)

lemma alive_api_puts [simp]: "alive pids (snd (api_puts E s st p)) = alive pids p"
  by (induction st arbitrary: p) (auto simp: split_def Let_def split: option.split)

lemma alive_path_exists [simp]: "alive pids (snd (path_exists E f p)) = alive pids p"
  by (simp add: path_exists_def split_def Let_def)

lemma alive_runCmd [simp]: "alive pids (snd (runCmd E a p)) = alive pids p"
  by (simp add: runCmd_def split_def Let_def)

lemma alive_copyFile [simp]: "alive pids (snd (copyFile E a b p)) = alive pids p"
  by (simp add: copyFile_def split_def Let_def)

lemma alive_image_fill [simp]: "alive pids (snd (image_fill E ic a t c o1 p)) = alive pids p"
  by (simp add: image_fill_def split_def Let_def split: sum.split option.split)

lemma alive_image_export [simp]: "alive pids (snd (image_export E ic img a t o1 p)) = alive pids p"
  by (simp add: image_export_def split_def Let_def split: sum.split)

lemma alive_image_Get [simp]: "alive pids (snd (image_Get E ic img p)) = alive pids p"
  by (simp add: image_Get_def image_build_def split_def Let_def split: sum.split option.split)

lemma alive_all_exist [simp]: "alive pids (snd (all_exist E fs p)) = alive pids p"
  by (induction fs arbitrary: p) (simp_all add: split_def Let_def)

lemma alive_getSnapshot [simp]: "alive pids (snd (getSnapshot E r p)) = alive pids p"
  by (simp add: getSnapshot_def split_def Let_def)

lemma alive_waitForAgent [simp]: "alive pids (snd (waitForAgent E u t p)) = alive pids p"
  by (simp add: waitForAgent_def split_def Let_def)

lemma alive_waitForSocket [simp]: "alive pids (snd (waitForSocket E u p)) = alive pids p"
  by (simp add: waitForSocket_def split_def Let_def)

lemma alive_vm_cleanup [simp]: "alive pids (vm_cleanup E pid d p) = alive pids p - {#pid#}"
  by (simp add: vm_cleanup_def split_def Let_def)

lemma alive_prepare_dir [simp]: "alive pids (snd (prepare_dir E w d s p)) = alive pids p"
  by (simp add: prepare_dir_def split_def Let_def split: option.split)

lemma alive_resolve [simp]: "alive pids (snd (resolve_rootfs E opts p)) = alive pids p"
  by (simp add: resolve_rootfs_def split_def Let_def split: sum.split)

text \<open>A boot leaves its process exactly when it succeeds.\<close>

lemma alive_boot_vm [simp]:
  "alive (fe_pid E) (snd (boot_vm E f w d st p)) =
     (case fst (boot_vm E f w d st p) of Inl e \<Rightarrow> alive (fe_pid E) p | Inr (pid, c) \<Rightarrow> add_mset pid (alive (fe_pid E) p))"
proof -
  let ?c = "OsStartProc [f, ''--api-sock'', Join2 d ''api.sock''] d"
  have s: "alive (fe_pid E) (snd (ask (fe_pid E) ?c p)) =
      (case fst (ask (fe_pid E) ?c p) of Inl e \<Rightarrow> alive (fe_pid E) p | Inr pid \<Rightarrow> add_mset pid (alive (fe_pid E) p))"
    by (simp add: alive_ask alive_call_def) (simp add: ask_def)
  show ?thesis by (simp add: boot_vm_def split_def Let_def s split: sum.split option.split)
qed

definition procs :: "(string \<times> 'g vmInstance) list \<Rightarrow> nat multiset" where
  "procs vms = mset (map (vm_process \<circ> snd) vms)"

lemma procs_put_new: "map_of m k = None \<Longrightarrow> procs (al_put k vm m) = add_mset (vm_process vm) (procs m)"
  by (induction k vm m rule: al_put.induct) (auto simp: procs_def split: if_splits)

lemma procs_put_same: "map_of m k = Some vm \<Longrightarrow> vm_process vm' = vm_process vm \<Longrightarrow> procs (al_put k vm' m) = procs m"
  by (induction k vm' m rule: al_put.induct) (auto simp: procs_def split: if_splits)

lemma al_del_fresh: "k \<notin> fst ` set m \<Longrightarrow> al_del k m = m"
  unfolding al_del_def by (rule filter_True) (metis image_eqI)

lemma procs_del: "al_ok m \<Longrightarrow> map_of m k = Some vm \<Longrightarrow> procs (al_del k m) = procs m - {#vm_process vm#}"
proof (induction m)
  case (Cons a m)
  show ?case
  proof (cases "fst a = k")
    case True
    with Cons.prems have "al_del k (a # m) = m" using al_del_fresh [of k m] by (auto simp: al_del_def)
    with True Cons.prems show ?thesis by (auto simp: procs_def)
  next
    case False
    with Cons have "procs (al_del k m) = procs m - {#vm_process vm#}" by (auto split: if_splits)
    moreover have "vm_process vm \<in># procs m"
      using Cons.prems False by (force simp: procs_def dest: map_of_SomeD split: if_splits)
    ultimately show ?thesis using False by (simp add: procs_def al_del_def)
  qed
qed simp

section \<open>Starting and ending a VM\<close>

lemma fc_vms_boot [simp]: "fc_vms (snd (boot_vm E f w d st p)) = fc_vms p"
  and fc_vms_prepare [simp]: "fc_vms (snd (prepare_dir E wd d src p)) = fc_vms p"
  and fc_vms_snapshot [simp]: "fc_vms (snd (getSnapshot E r p)) = fc_vms p"
  and fc_vms_resolve [simp]: "fc_vms (snd (resolve_rootfs E opts p)) = fc_vms p"
  and fc_vms_ask [simp]: "fc_vms (snd (ask rep c p)) = fc_vms p"
  and fc_vms_cleanup [simp]: "fc_vms (vm_cleanup E pid d p) = fc_vms p"
  and fc_vms_copy [simp]: "fc_vms (snd (copyFile E a b p)) = fc_vms p"
  and fc_vms_api [simp]: "fc_vms (snd (api_request E v sk q bd p)) = fc_vms p"
  for p :: "'g FirecrackerProvider"
  by (rule fc_vms_more, simp)+

lemma take_cid_simps [simp]: "fc_vms (snd (take_cid p)) = fc_vms p" "alive pids (snd (take_cid p)) = alive pids p"
  "fc_config (snd (take_cid p)) = fc_config p"
  by (simp_all add: take_cid_def alive_def)

lemma alive_vms [simp]: "alive pids (p\<lparr>fc_vms := x\<rparr>) = alive pids p" "alive pids (p\<lparr>fc_building := y\<rparr>) = alive pids p"
  "alive pids (put_vm sid vm p) = alive pids p"
  by (simp_all add: alive_def put_vm_def)

text \<open>What an operation that adds a VM under a given id does, with the process of the VM.\<close>

definition adds_vm :: "(os_call list \<Rightarrow> os_call \<Rightarrow> error + nat) \<Rightarrow> string \<Rightarrow> 'g FirecrackerProvider \<Rightarrow> (error + string) \<times> 'g FirecrackerProvider \<Rightarrow> bool" where
  "adds_vm pids sid p r \<longleftrightarrow>
     (case fst r of
        Inl e \<Rightarrow> fc_vms (snd r) = fc_vms p \<and> alive pids (snd r) = alive pids p
      | Inr i \<Rightarrow> i = sid \<and> (\<exists>vm. fc_vms (snd r) = al_put sid vm (fc_vms p) \<and> alive pids (snd r) = add_mset (vm_process vm) (alive pids p)))"

lemma add_vm_simps:
  "fc_vms (add_vm sid dir cid c p) = al_put sid (make_vm sid dir cid (fst c) (fst (snd c)) (snd (snd c))) (fc_vms p)"
  "alive pids (add_vm sid dir cid c p) = alive pids p"
  by (simp_all add: add_vm_def split: prod.split)

lemma make_vm_process [simp]: "vm_process (make_vm sid dir cid pid r g) = pid"
  by (simp add: make_vm_def)

lemma restore_adds: "adds_vm (fe_pid E) sid p (restoreFromSnapshot E sid snap p)"
  by (auto simp: adds_vm_def restoreFromSnapshot_def split_def Let_def add_vm_simps split: sum.split option.split)

lemma cold_adds: "adds_vm (fe_pid E) sid p (coldBoot E sid opts src p)"
  by (auto simp: adds_vm_def coldBoot_def split_def Let_def add_vm_simps split: sum.split option.split)

text \<open>A spawn adds a VM under an id it drew, or leaves things as they were.\<close>

lemma fc_Spawn_adds:
  "case fst (fc_Spawn E opts p) of
     Inl e \<Rightarrow> fc_vms (snd (fc_Spawn E opts p)) = fc_vms p \<and> alive (fe_pid E) (snd (fc_Spawn E opts p)) = alive (fe_pid E) p
   | Inr (sid, bg) \<Rightarrow> \<exists>cs vm. sid = ''sb-'' @ hex_bytes (fe_rand E cs 0) \<and> fc_vms (snd (fc_Spawn E opts p)) = al_put sid vm (fc_vms p) \<and>
       alive (fe_pid E) (snd (fc_Spawn E opts p)) = add_mset (vm_process vm) (alive (fe_pid E) p)"
proof (cases "resolve_rootfs E opts p")
  case (Pair r q)
  then have q: "fc_vms q = fc_vms p" "alive (fe_pid E) q = alive (fe_pid E) p"
    using fc_vms_resolve [of E opts p] alive_resolve [of "fe_pid E" E opts p] by simp_all
  show ?thesis
  proof (cases r)
    case (Inl e)
    with Pair q show ?thesis by (simp add: fc_Spawn_def)
  next
    case (Inr src)
    obtain snap q1 where s: "getSnapshot E src q = (snap, q1)" by fastforce
    then have q1: "fc_vms q1 = fc_vms p" "alive (fe_pid E) q1 = alive (fe_pid E) p"
      using q fc_vms_snapshot [of E src q] alive_getSnapshot [of "fe_pid E" E src q] by simp_all
    let ?sid = "\<lambda>q. ''sb-'' @ hex_bytes (fe_rand E (ho_calls q) 0)"
    obtain rr q2 where r2: "(case snap of None \<Rightarrow> (Inl (Err ErrOther []), q1) | Some s \<Rightarrow> restoreFromSnapshot E (?sid q1) s q1) = (rr, q2)"
      by fastforce
    have ok: "adds_vm (fe_pid E) (?sid q1) q1 (rr, q2)"
    proof (cases snap)
      case None
      with r2 show ?thesis by (auto simp: adds_vm_def)
    next
      case (Some sn)
      with r2 restore_adds [of E "?sid q1" q1 sn] show ?thesis by simp
    qed
    show ?thesis
    proof (cases rr)
      case (Inr sid)
      with ok q1 show ?thesis
        by (auto simp: fc_Spawn_def Pair \<open>r = Inr src\<close> s r2 adds_vm_def)
    next
      case (Inl e)
      have q2: "fc_vms q2 = fc_vms p" "alive (fe_pid E) q2 = alive (fe_pid E) p" using ok q1 Inl by (simp_all add: adds_vm_def)
      obtain r3 q3 where c: "coldBoot E (?sid q2) opts src q2 = (r3, q3)" by fastforce
      have "adds_vm (fe_pid E) (?sid q2) q2 (r3, q3)" using cold_adds [of E "?sid q2" q2 opts src] c by simp
      with q2 c Inl show ?thesis
        by (cases r3) (auto simp: fc_Spawn_def Pair \<open>r = Inr src\<close> s r2 adds_vm_def)
    qed
  qed
qed

lemma snapshot_take_alive:
  "alive pids (snd (snapshot_take E img d pid p)) = alive pids p - {#pid#} \<and> fc_vms (snd (snapshot_take E img d pid p)) = fc_vms p"
  by (simp add: snapshot_take_def split_def Let_def split: option.split)

lemma snapshot_build_alive:
  "alive (fe_pid E) (snd (snapshot_build E src img p)) = alive (fe_pid E) p \<and> fc_vms (snd (snapshot_build E src img p)) = fc_vms p"
  by (auto simp: snapshot_build_def split_def Let_def snapshot_take_alive split: option.split sum.split)

lemma createBaseSnapshot_alive:
  "alive (fe_pid E) (snd (createBaseSnapshot E src img p)) = alive (fe_pid E) p \<and>
   fc_vms (snd (createBaseSnapshot E src img p)) = fc_vms p"
  using snapshot_build_alive [of E src img]
  by (simp add: createBaseSnapshot_def snapshot_begin_def snapshot_end_def snapshot_waited_def split_def Let_def)

lemma fc_Destroy_alive:
  "alive pids (snd (fc_Destroy E sid p)) =
     (case map_of (fc_vms p) sid of None \<Rightarrow> alive pids p | Some vm \<Rightarrow> alive pids p - {#vm_process vm#}) \<and>
   fc_vms (snd (fc_Destroy E sid p)) = al_del sid (fc_vms p)"
proof (cases "map_of (fc_vms p) sid")
  case None
  then have "al_del sid (fc_vms p) = fc_vms p" by (auto simp: map_of_eq_None_iff intro: al_del_fresh)
  with None show ?thesis by (simp add: fc_Destroy_def)
next
  case (Some vm)
  then show ?thesis
    by (simp add: fc_Destroy_def split_def Let_def sendRequest_def)
qed

section \<open>The contract\<close>

lemma fc_spawn_running:
  "fc_running (snd (fc_spawn w p)) = (case fst (fc_spawn w p) of Inl e \<Rightarrow> fc_running p | Inr sid \<Rightarrow> insert sid (fc_running p))"
proof (cases w)
  case (fields E opts stop)
  then show ?thesis
    using fc_Spawn_adds [of E opts p]
    by (cases "fc_Spawn E opts p"; cases "fst (fc_Spawn E opts p)") (auto simp: fc_running_def)
qed

lemma fc_destroy_running: "fc_running (snd (fc_destroy w sid p)) = fc_running p - {sid}"
  using fc_Destroy_alive [of "\<lambda>cs c. Inr 0" "fst w" sid p] by (cases w) (auto simp: fc_running_def)

interpretation fc: sandbox_provider fc_spawn fc_destroy fc_guest fc_running
proof
  show "fc_spawn w p = (Inr sid, p') \<Longrightarrow> fc_running p' = insert sid (fc_running p)"
    "fc_spawn w p = (Inl e, p') \<Longrightarrow> fc_running p' = fc_running p"
    for w :: "'g fc_world" and p p' :: "'g FirecrackerProvider" and sid e
    using fc_spawn_running [of w p] by simp_all
  show "sid \<notin> fc_running p \<Longrightarrow> \<exists>e. fc_guest w g sid p = (Some e, p) \<and> lifecycle_error e"
    for w :: "'g fc_world" and p :: "'g FirecrackerProvider" and sid g
    using fc_guest_gone [of sid p w g] by (simp add: SandboxNotFoundError_def)
qed (simp_all add: fc_destroy_running fc_guest_running)

section \<open>No process is left behind\<close>

text \<open>The processes alive are those of the VMs in the table.\<close>

definition fc_tidy :: "(os_call list \<Rightarrow> os_call \<Rightarrow> error + nat) \<Rightarrow> 'g FirecrackerProvider \<Rightarrow> bool" where
  "fc_tidy pids p \<longleftrightarrow> al_ok (fc_vms p) \<and> alive pids p = procs (fc_vms p)"

text \<open>The ids that a spawn may draw are not in use.\<close>

definition fresh_ids :: "('g, 'z) fcenv_scheme \<Rightarrow> 'g FirecrackerProvider \<Rightarrow> bool" where
  "fresh_ids E p \<longleftrightarrow> (\<forall>cs. ''sb-'' @ hex_bytes (fe_rand E cs 0) \<notin> fc_running p)"

lemma tidy_vms:
  "fc_tidy pids p \<Longrightarrow> fc_vms q = fc_vms p \<Longrightarrow> alive pids q = alive pids p \<Longrightarrow> fc_tidy pids q"
  by (simp add: fc_tidy_def)

lemma tidy_put_vm:
  "fc_tidy pids p \<Longrightarrow> map_of (fc_vms p) sid = Some vm \<Longrightarrow> vm_process vm' = vm_process vm \<Longrightarrow> fc_tidy pids (put_vm sid vm' p)"
  by (simp add: fc_tidy_def put_vm_def procs_put_same)

lemma tidy_agent_call: "fc_tidy pids p \<Longrightarrow> fc_tidy pids (snd (agent_call E m params sid p))"
  by (auto simp: agent_call_def getVM_def sendRequest_def Let_def split_def tidy_put_vm split: sum.split option.splits)

lemma tidy_stream: "fc_tidy pids p \<Longrightarrow> fc_tidy pids (snd (fc_ExecStream E stop sid opts p))"
  by (auto simp: fc_ExecStream_def getVM_def Let_def split_def tidy_put_vm split: sum.split option.splits prod.split)

lemma tidy_guest: "fc_tidy pids p \<Longrightarrow> fc_tidy pids (snd (fc_guest w g sid p))"
  by (cases w; cases g) (simp_all add: fc_call_defs tidy_agent_call tidy_stream split: sum.split)

lemma tidy_spawn:
  assumes "fc_tidy (fe_pid E) p" and "fresh_ids E p"
  shows "fc_tidy (fe_pid E) (snd (fc_Spawn E opts p))"
proof (cases "fst (fc_Spawn E opts p)")
  case (Inl e)
  with fc_Spawn_adds [of E opts p] assms(1) show ?thesis by (simp add: fc_tidy_def)
next
  case (Inr a)
  with fc_Spawn_adds [of E opts p] obtain cs vm
    where v: "fc_vms (snd (fc_Spawn E opts p)) = al_put (''sb-'' @ hex_bytes (fe_rand E cs 0)) vm (fc_vms p)"
      and l: "alive (fe_pid E) (snd (fc_Spawn E opts p)) = add_mset (vm_process vm) (alive (fe_pid E) p)"
    by (auto simp: split_def)
  have "map_of (fc_vms p) (''sb-'' @ hex_bytes (fe_rand E cs 0)) = None"
    using assms(2) by (simp only: fresh_ids_def fc_running_def mem_Collect_eq not_not)
  with v l assms(1) show ?thesis by (simp only: fc_tidy_def procs_put_new al_ok_put)
qed

lemma tidy_destroy: "fc_tidy pids p \<Longrightarrow> fc_tidy pids (snd (fc_Destroy E sid p))"
  using fc_Destroy_alive [of pids E sid p]
  by (cases "map_of (fc_vms p) sid") (auto simp: fc_tidy_def procs_del al_del_fresh map_of_eq_None_iff)

text \<open>The states of the provider: every operation, with whatever the system and the guests answer.\<close>

inductive fc_reach :: "(os_call list \<Rightarrow> os_call \<Rightarrow> error + nat) \<Rightarrow> FirecrackerProviderConfig \<Rightarrow> 'g FirecrackerProvider \<Rightarrow> bool"
  for pids cfg where
  start: "fc_reach pids cfg (NewFirecrackerProvider cfg)"
| spawn: "fc_reach pids cfg p \<Longrightarrow> fe_pid E = pids \<Longrightarrow> fresh_ids E p \<Longrightarrow> fc_reach pids cfg (snd (fc_Spawn (E :: 'g fcenv) opts p))"
| snapshot: "fc_reach pids cfg p \<Longrightarrow> fe_pid E = pids \<Longrightarrow> fc_reach pids cfg (snd (createBaseSnapshot (E :: 'g fcenv) src img p))"
| guest: "fc_reach pids cfg p \<Longrightarrow> fc_reach pids cfg (snd (fc_guest w g sid p))"
| destroy: "fc_reach pids cfg p \<Longrightarrow> fc_reach pids cfg (snd (fc_Destroy (E :: 'g fcenv) sid p))"
| console: "fc_reach pids cfg p \<Longrightarrow> fc_reach pids cfg (fc_console sid t p)"
| build: "fc_reach pids cfg p \<Longrightarrow> fc_reach pids cfg (snd (fc_BuildImage (E :: 'g fcenv) img p))"

lemma fc_reach_tidy: "fc_reach pids cfg p \<Longrightarrow> fc_tidy pids p"
proof (induction rule: fc_reach.induct)
  case start
  show ?case by (simp add: fc_tidy_def NewFirecrackerProvider_def alive_def procs_def)
next
  case (spawn p E opts)
  then show ?case using tidy_spawn [of E p opts] by simp
next
  case (snapshot p E src img)
  then show ?case using createBaseSnapshot_alive [of E src img p] by (auto intro: tidy_vms)
next
  case (guest p w g sid)
  then show ?case by (simp add: tidy_guest)
next
  case (destroy p E sid)
  then show ?case by (simp add: tidy_destroy)
next
  case (console p sid t)
  then show ?case by (auto simp: fc_console_def tidy_put_vm split: option.split)
next
  case (build p E img)
  then show ?case by (auto simp: fc_BuildImage_def intro: tidy_vms [OF _ fc_vms_more])
qed

end
