(* ===== verification/Agent_Laws.thy ===== *)
theory Agent_Laws
  imports Agent_Server
begin

text \<open>
  Laws of the agent: what a request asks is done directly on the guest's system (\<open>in_guest\<close>, free of
  messages and JSON) and answered by one message; the loop over a connection serves the requests it is
  sent, in order.
\<close>

section \<open>The operations without the wire\<close>

text \<open>The answer is the agent's error message or what the method gives.\<close>

fun in_guest :: "osenv \<Rightarrow> guest_op \<Rightarrow> agent \<Rightarrow> (string + agent_result) \<times> agent" where
  "in_guest E (GExec opts) g =
     (case agent_buildExecCommand opts of
        Inl e \<Rightarrow> (Inl (err_msg e), g)
      | Inr args \<Rightarrow>
          (let (r, g) = ask (os_run E) (OsRun args (os_environ E @ env_strings (xo_Env opts)) (xo_WorkDir opts)) g
           in (case r of
                 RunFailed e \<Rightarrow> Inl (''exec: '' @ err_msg e)
               | Exited code out err \<Rightarrow> Inr (AR_Exec code out err)
               | Killed out err \<Rightarrow> Inr (AR_Exec (-1) out err), g)))"
| "in_guest E (GWriteFile path content md) g =
     (let (r, g) = ask (os_unit E) (OsMkdirAll (Dir path)) g in
      case r of
        Some e \<Rightarrow> (Inl (''mkdir: '' @ err_msg e), g)
      | None \<Rightarrow>
          (let (r, g) = ask (os_unit E) (OsWriteFile path (case content of Inl e \<Rightarrow> [] | Inr d \<Rightarrow> d)
                          (case parse_octal md of None \<Rightarrow> 420 | Some n \<Rightarrow> n)) g
           in (case r of Some e \<Rightarrow> Inl (''write: '' @ err_msg e) | None \<Rightarrow> Inr AR_Ok, g)))"
| "in_guest E (GReadFile path) g =
     (let (r, g) = ask (os_content E) (OsOpen path) g
      in (case r of Inl e \<Rightarrow> Inl (''read: '' @ err_msg e) | Inr d \<Rightarrow> Inr (AR_Content d), g))"
| "in_guest E (GListFiles path) g =
     (let (r, g) = ask (os_entries E) (OsReadDir path) g
      in (case r of Inl e \<Rightarrow> Inl (''readdir: '' @ err_msg e)
                  | Inr es \<Rightarrow> Inr (AR_Files (listing (\<lambda>n. agent_info (Join2 path n)) es)), g))"
| "in_guest E (GDeleteFile path recursive) g =
     (let (r, g) = ask (os_unit E) (if recursive then OsRemoveAll path else OsRemove path) g
      in (case r of Some e \<Rightarrow> Inl (''delete: '' @ err_msg e) | None \<Rightarrow> Inr AR_Ok, g))"
| "in_guest E (GMoveFile old new) g =
     (let (r, g) = ask (os_unit E) (OsMkdirAll (Dir new)) g in
      case r of
        Some e \<Rightarrow> (Inl (''mkdir: '' @ err_msg e), g)
      | None \<Rightarrow>
          (let (r, g) = ask (os_unit E) (OsRename old new) g
           in (case r of Some e \<Rightarrow> Inl (''rename: '' @ err_msg e) | None \<Rightarrow> Inr AR_Ok, g)))"
| "in_guest E (GChmodFile path md) g =
     (case parse_octal md of
        None \<Rightarrow> (Inl (err_msg (parse_mode_error md)), g)
      | Some n \<Rightarrow>
          (let (r, g) = ask (os_unit E) (OsChmod path n) g
           in (case r of Some e \<Rightarrow> Inl (''chmod: '' @ err_msg e) | None \<Rightarrow> Inr AR_Ok, g)))"
| "in_guest E (GStatFile path) g =
     (let (r, g) = ask (os_stat E) (OsStat path) g
      in (case r of Inl e \<Rightarrow> Inl (''stat: '' @ err_msg e) | Inr st \<Rightarrow> Inr (AR_File (agent_info path st)), g))"
| "in_guest E (GGlobFiles pattern) g =
     (let (r, g) = ask (os_matches E) (OsGlob pattern) g
      in (case r of Inl e \<Rightarrow> Inl (''glob: '' @ err_msg e) | Inr ms \<Rightarrow> Inr (AR_Matches ms), g))"
| "in_guest E (GExecStream opts) g = (Inl ''stream'', g)"
| "in_guest E (GConsoleLog n) g = (Inl ''console'', g)"

text \<open>The method and the parameters of an operation, and whether the parameters arrive as they left.\<close>

fun op_method :: "guest_op \<Rightarrow> string" where
  "op_method (GExec opts) = ''exec''"
| "op_method (GExecStream opts) = ''exec_stream''"
| "op_method (GWriteFile f c m) = ''write_file''"
| "op_method (GReadFile f) = ''read_file''"
| "op_method (GListFiles f) = ''list_files''"
| "op_method (GDeleteFile f r) = ''delete_file''"
| "op_method (GMoveFile f g) = ''move_file''"
| "op_method (GChmodFile f m) = ''chmod_file''"
| "op_method (GStatFile f) = ''stat_file''"
| "op_method (GGlobFiles f) = ''glob_files''"
| "op_method (GConsoleLog n) = []"

fun op_params :: "guest_op \<Rightarrow> agent_params" where
  "op_params (GExec opts) = AP_Exec opts"
| "op_params (GExecStream opts) = AP_Exec opts"
| "op_params (GWriteFile f c m) = AP_WriteFile f (case c of Inl e \<Rightarrow> [] | Inr d \<Rightarrow> d) m"
| "op_params (GReadFile f) = AP_Path f"
| "op_params (GListFiles f) = AP_Path f"
| "op_params (GDeleteFile f r) = AP_DeleteFile f r"
| "op_params (GMoveFile f g) = AP_MoveFile f g"
| "op_params (GChmodFile f m) = AP_ChmodFile f m"
| "op_params (GStatFile f) = AP_Path f"
| "op_params (GGlobFiles f) = AP_GlobFiles f"
| "op_params (GConsoleLog n) = AP_None"

fun params_arrive :: "agent_codec \<Rightarrow> guest_op \<Rightarrow> bool" where
  "params_arrive C (GExec opts) = (ac_un_exec C (ac_params C (AP_Exec opts)) = Inr opts)"
| "params_arrive C (GExecStream opts) = (ac_un_exec C (ac_params C (AP_Exec opts)) = Inr opts)"
| "params_arrive C (GWriteFile f c m) =
     (case c of Inl e \<Rightarrow> False | Inr d \<Rightarrow> ac_un_write C (ac_params C (AP_WriteFile f d m)) = Inr (f, d, m))"
| "params_arrive C (GReadFile f) = (ac_un_path C (ac_params C (AP_Path f)) = Inr f)"
| "params_arrive C (GListFiles f) = (ac_un_path C (ac_params C (AP_Path f)) = Inr f)"
| "params_arrive C (GDeleteFile f r) = (ac_un_delete C (ac_params C (AP_DeleteFile f r)) = Inr (f, r))"
| "params_arrive C (GMoveFile f g) = (ac_un_move C (ac_params C (AP_MoveFile f g)) = Inr (f, g))"
| "params_arrive C (GChmodFile f m) = (ac_un_chmod C (ac_params C (AP_ChmodFile f m)) = Inr (f, m))"
| "params_arrive C (GStatFile f) = (ac_un_path C (ac_params C (AP_Path f)) = Inr f)"
| "params_arrive C (GGlobFiles f) = (ac_un_glob C (ac_params C (AP_GlobFiles f)) = Inr f)"
| "params_arrive C (GConsoleLog n) = False"

fun plain_op :: "guest_op \<Rightarrow> bool" where
  "plain_op (GExecStream opts) = False"
| "plain_op (GConsoleLog n) = False"
| "plain_op op = True"

text \<open>The response to a request, and the state after it.\<close>

definition reply_of :: "agent_codec \<Rightarrow> string \<Rightarrow> string + agent_result \<Rightarrow> AgentResponse" where
  "reply_of C i r =
     (case r of Inl msg \<Rightarrow> \<lparr>gr_ID = i, gr_Error = msg, gr_Result = []\<rparr>
              | Inr a \<Rightarrow> \<lparr>gr_ID = i, gr_Error = [], gr_Result = ac_result C a\<rparr>)"

lemma reply_error [simp]: "sendError C i msg g = SendResponse C (reply_of C i (Inl msg)) g"
  by (simp add: sendError_def reply_of_def)

lemma reply_result [simp]: "sendResult C i a g = SendResponse C (reply_of C i (Inr a)) g"
  by (simp add: sendResult_def reply_of_def)

definition op_request :: "agent_codec \<Rightarrow> string \<Rightarrow> guest_op \<Rightarrow> AgentRequest" where
  "op_request C i op = \<lparr>gq_ID = i, gq_Method = op_method op, gq_Params = ac_params C (op_params op)\<rparr>"

lemma in_guest_exec: "ac_un_exec C (gq_Params q) = Inr opts \<Longrightarrow>
    agent_handleExec C E q g = (case in_guest E (GExec opts) g of (r, g') \<Rightarrow> SendResponse C (reply_of C (gq_ID q) r) g')"
  by (simp add: agent_handleExec_def split_def Let_def split: sum.split run_result.split)

lemma in_guest_write: "ac_un_write C (gq_Params q) = Inr (f, d, m) \<Longrightarrow>
    handleWriteFile C E q g = (case in_guest E (GWriteFile f (Inr d) m) g of (r, g') \<Rightarrow> SendResponse C (reply_of C (gq_ID q) r) g')"
  by (simp add: handleWriteFile_def split_def Let_def split: option.split)

lemma in_guest_path:
  assumes "ac_un_path C (gq_Params q) = Inr f"
  shows "handleReadFile C E q g = (case in_guest E (GReadFile f) g of (r, g') \<Rightarrow> SendResponse C (reply_of C (gq_ID q) r) g')"
    and "handleListFiles C E q g = (case in_guest E (GListFiles f) g of (r, g') \<Rightarrow> SendResponse C (reply_of C (gq_ID q) r) g')"
    and "handleStatFile C E q g = (case in_guest E (GStatFile f) g of (r, g') \<Rightarrow> SendResponse C (reply_of C (gq_ID q) r) g')"
  using assms by (simp_all add: handleReadFile_def handleListFiles_def handleStatFile_def split_def Let_def split: sum.split)

lemma in_guest_delete: "ac_un_delete C (gq_Params q) = Inr (f, rc) \<Longrightarrow>
    handleDeleteFile C E q g = (case in_guest E (GDeleteFile f rc) g of (r, g') \<Rightarrow> SendResponse C (reply_of C (gq_ID q) r) g')"
  by (simp add: handleDeleteFile_def split_def Let_def split: option.split)

lemma in_guest_move: "ac_un_move C (gq_Params q) = Inr (f, t) \<Longrightarrow>
    handleMoveFile C E q g = (case in_guest E (GMoveFile f t) g of (r, g') \<Rightarrow> SendResponse C (reply_of C (gq_ID q) r) g')"
  by (simp add: handleMoveFile_def split_def Let_def split: option.split)

lemma in_guest_chmod: "ac_un_chmod C (gq_Params q) = Inr (f, m) \<Longrightarrow>
    handleChmodFile C E q g = (case in_guest E (GChmodFile f m) g of (r, g') \<Rightarrow> SendResponse C (reply_of C (gq_ID q) r) g')"
  by (simp add: handleChmodFile_def split_def Let_def split: option.split)

lemma in_guest_glob: "ac_un_glob C (gq_Params q) = Inr f \<Longrightarrow>
    handleGlobFiles C E q g = (case in_guest E (GGlobFiles f) g of (r, g') \<Rightarrow> SendResponse C (reply_of C (gq_ID q) r) g')"
  by (simp add: handleGlobFiles_def split_def Let_def split: sum.split)

lemma handle_request_in_guest:
  assumes "plain_op op" and "params_arrive C op"
  shows "handle_request C E run (op_request C i op) g =
    (case in_guest E op g of (r, g') \<Rightarrow> SendResponse C (reply_of C i r) g')"
  using assms
proof (cases op)
  case (GWriteFile f c m)
  with assms(2) obtain d where "c = Inr d" by (cases c) auto
  with GWriteFile assms(2) show ?thesis
    by (simp add: handle_request_def op_request_def in_guest_write [of C _ f d m] del: in_guest.simps)
qed (simp_all add: handle_request_def op_request_def in_guest_exec in_guest_path in_guest_delete in_guest_move
    in_guest_chmod in_guest_glob del: in_guest.simps)

lemma in_guest_rest: "ag_out (snd (in_guest E op g)) = ag_out g \<and> ag_off (snd (in_guest E op g)) = ag_off g"
  by (cases op) (auto simp: Let_def split_def ask_def split: sum.split option.split run_result.split)

lemma in_guest_out: "in_guest E op (g\<lparr>ag_out := w\<rparr>) = (fst (in_guest E op g), (snd (in_guest E op g))\<lparr>ag_out := w\<rparr>)"
  by (cases op) (auto simp: Let_def split_def ask_def split: sum.split option.split run_result.split)

lemma build_error_nonempty: "agent_buildExecCommand opts = Inl e \<Longrightarrow> err_msg e \<noteq> []"
  by (auto simp: agent_buildExecCommand_def Let_def split: if_splits)

lemma in_guest_error_nonempty: "fst (in_guest E op g) = Inl msg \<Longrightarrow> msg \<noteq> []"
  by (cases op) (auto simp: Let_def split_def parse_mode_error_def dest: build_error_nonempty
      split: sum.splits option.splits run_result.splits)

text \<open>Every method has its kind of result.\<close>

fun result_kind :: "guest_op \<Rightarrow> agent_result \<Rightarrow> bool" where
  "result_kind (GExec opts) a = (\<exists>c out err. a = AR_Exec c out err)"
| "result_kind (GReadFile f) a = (\<exists>d. a = AR_Content d)"
| "result_kind (GListFiles f) a = (\<exists>fs. a = AR_Files fs)"
| "result_kind (GStatFile f) a = (\<exists>i. a = AR_File i)"
| "result_kind (GGlobFiles f) a = (\<exists>ms. a = AR_Matches ms)"
| "result_kind op a = (a = AR_Ok)"

lemma in_guest_kind: "fst (in_guest E op g) = Inr a \<Longrightarrow> result_kind op a"
  by (cases op) (auto simp: Let_def split_def split: sum.splits option.splits run_result.splits)

section \<open>The loop\<close>

text \<open>One request that arrives whole.\<close>

lemma handleConn_frame:
  assumes "ac_un_request C d = Inr req" and "length d \<le> maxMessageSize" and "\<not> ag_off g"
  shows "handleConn C E run (frame_of d @ r) g = handleConn C E run r (handle_request C E run req g)"
  using assms by (subst handleConn.simps) (simp add: ReadTyped_def ReadMessage_frame Let_def)

lemma handleConn_empty: "handleConn C E run [] g = ([], g)"
  by (subst handleConn.simps) (simp add: ReadTyped_def ReadMessage_def ReadFull_def Let_def)

text \<open>What the reader takes for a message is one.\<close>

lemma bytes_of_word:
  fixes a b c d :: nat
  assumes "a < 256" "b < 256" "c < 256" "d < 256"
  defines "n \<equiv> a * 2 ^ 24 + b * 2 ^ 16 + c * 2 ^ 8 + d"
  shows "unat (word_of_nat n :: 32 word) = n"
    and "n div 2 ^ 24 mod 256 = a" "n div 2 ^ 16 mod 256 = b" "n div 2 ^ 8 mod 256 = c" "n mod 256 = d"
proof -
  have n: "n = ((a * 256 + b) * 256 + c) * 256 + d" by (simp add: n_def)
  then have n1: "n div 2 ^ 8 = (a * 256 + b) * 256 + c" using assms(4) by simp
  have n0: "n mod 256 = d" unfolding n using assms(4) by (simp only: mod_mult_self3 mod_less)
  have n2: "n div 2 ^ 16 = a * 256 + b"
    using assms(3) div_mult2_eq [of n "2 ^ 8" "2 ^ 8"] unfolding n1 by simp
  have n3: "n div 2 ^ 24 = a"
    using assms(2) div_mult2_eq [of n "2 ^ 16" "2 ^ 8"] unfolding n2 by simp
  show "n div 2 ^ 24 mod 256 = a" "n div 2 ^ 16 mod 256 = b" "n div 2 ^ 8 mod 256 = c" "n mod 256 = d"
    unfolding n0 n1 n2 n3 using assms(1-3) by (simp_all only: mod_mult_self3 mod_less)
  have "n < 2 ^ 32" using assms(1-4) by (simp add: n_def)
  then show "unat (word_of_nat n :: 32 word) = n" by (simp add: unat_of_nat)
qed

lemma char_byte [simp]: "char_of (of_char c mod 256 :: nat) = c" "of_char c < (256 :: nat)"
proof -
  show "of_char c < (256 :: nat)" using of_char_mod_256 [of c, where 'a = nat] by (metis mod_less_divisor zero_less_numeral)
  show "char_of (of_char c mod 256 :: nat) = c" by simp
qed

lemma PutUint32_Uint32:
  assumes "length h = 4"
  shows "PutUint32 (Uint32 h) = h"
proof -
  obtain a b c d where h: "h = [a, b, c, d]" using assms by (auto simp: numeral_eq_Suc length_Suc_conv)
  note w = bytes_of_word [of "of_char a" "of_char b" "of_char c" "of_char d"]
  note byte = char_byte(2) [of a] char_byte(2) [of b] char_byte(2) [of c] char_byte(2) [of d]
  have m: "(char_of n :: char) = char_of (n mod 256)" for n :: nat by simp
  show ?thesis
    unfolding PutUint32_def Uint32_def h list.case list.map w(1) [OF byte] drop_bit_eq_div
    using w(2-5) [OF byte] m by (metis char_byte(1) div_by_1 power_0 mod_mod_trivial)
qed

lemma ReadFull_Inr: "ReadFull n r = (Inr d, r') \<longleftrightarrow> n \<le> length r \<and> d = take n r \<and> r' = drop n r"
  by (auto simp: ReadFull_def)

lemma ReadMessage_Inr:
  assumes "ReadMessage r = (Inr d, r')"
  shows "r = frame_of d @ r' \<and> length d \<le> maxMessageSize"
proof -
  obtain h r1 where h: "ReadFull 4 r = (Inr h, r1)" "\<not> maxMessageSize < unat (Uint32 h)"
      "ReadFull (unat (Uint32 h)) r1 = (Inr d, r')"
    using assms by (auto simp: ReadMessage_def Let_def split: prod.splits sum.splits if_splits)
  then have r: "length h = 4" "r = h @ r1" "length d = unat (Uint32 h)" "r1 = d @ r'"
    unfolding ReadFull_Inr by (simp_all del: drop_drop)
  then have "PutUint32 (word_of_nat (length d)) = h" by (simp add: PutUint32_Uint32)
  with r h(2) show ?thesis by (simp add: frame_of_def)
qed

text \<open>Bytes that start with no request: no whole message, one that is too long, or one that does not decode.\<close>

definition no_request :: "agent_codec \<Rightarrow> string \<Rightarrow> bool" where
  "no_request C r \<longleftrightarrow> (\<forall>d r'. r = frame_of d @ r' \<and> length d \<le> maxMessageSize \<longrightarrow> isl (ac_un_request C d))"

lemma ReadTyped_no_request: "no_request C r \<longleftrightarrow> isl (fst (ReadTyped what (ac_un_request C) r))"
proof
  assume "no_request C r"
  then show "isl (fst (ReadTyped what (ac_un_request C) r))"
    using ReadMessage_Inr [of r] by (auto simp: ReadTyped_def no_request_def split: sum.split prod.split) (metis isl_def sum.disc(2))
next
  assume l: "isl (fst (ReadTyped what (ac_un_request C) r))"
  show "no_request C r"
    unfolding no_request_def
  proof (intro allI impI)
    fix d r' assume "r = frame_of d @ r' \<and> length d \<le> maxMessageSize"
    then show "isl (ac_un_request C d)"
      using l by (auto simp: ReadTyped_def ReadMessage_frame isl_def split: sum.splits)
  qed
qed

lemma handleConn_stops: "ag_off g \<Longrightarrow> handleConn C E run r g = (r, g)"
  "no_request C r \<Longrightarrow> snd (handleConn C E run r g) = g"
proof -
  show "ag_off g \<Longrightarrow> handleConn C E run r g = (r, g)" by (simp add: handleConn.simps)
  assume "no_request C r"
  then show "snd (handleConn C E run r g) = g"
    using ReadTyped_no_request [of C r "''request''"] by (subst handleConn.simps) (auto simp: isl_def split: prod.split)
qed

text \<open>Whatever arrives is a number of requests, and then something that starts with none.\<close>

definition arrives :: "agent_codec \<Rightarrow> string list \<Rightarrow> AgentRequest list \<Rightarrow> string \<Rightarrow> string \<Rightarrow> bool" where
  "arrives C ds reqs tail r \<longleftrightarrow> r = concat (map frame_of ds) @ tail \<and> map (ac_un_request C) ds = map Inr reqs \<and>
     (\<forall>d\<in>set ds. length d \<le> maxMessageSize) \<and> no_request C tail"

lemma arrives_exists: "\<exists>ds reqs tail. arrives C ds reqs tail r"
proof (induction r rule: length_induct)
  case (1 r)
  show ?case
  proof (cases "no_request C r")
    case True
    then have "arrives C [] [] r r" by (simp add: arrives_def)
    then show ?thesis by blast
  next
    case False
    then obtain d r' req where d: "r = frame_of d @ r'" "length d \<le> maxMessageSize" "ac_un_request C d = Inr req"
      by (auto simp: no_request_def) (metis sum.collapse(2))
    then have "length r' < length r" by (simp add: frame_of_def)
    with 1 obtain ds reqs tail where "arrives C ds reqs tail r'" by blast
    then have "arrives C (d # ds) (req # reqs) tail r" using d by (simp add: arrives_def)
    then show ?thesis by blast
  qed
qed

text \<open>
  C23. The agent serves exactly the requests it is sent, in order.  Whatever bytes arrive, those of a
  broken or hostile host included, are a sequence of framed requests and then something that starts
  with no request; the loop has then called the handlers for a prefix of exactly these requests, in
  their order, none of them with the guest switched off.  The prefix is the whole sequence, or it ends with
  the guest switched off, and then the requests behind it are still unread.
\<close>

theorem agent_serves_in_order:
  "(\<exists>ds reqs tail. arrives C ds reqs tail r) \<and>
   (\<forall>ds reqs tail. arrives C ds reqs tail r \<longrightarrow>
     (\<exists>n \<le> length reqs. snd (handleConn C E run r g) = fold (handle_request C E run) (take n reqs) g \<and>
        (\<forall>k < n. \<not> ag_off (fold (handle_request C E run) (take k reqs) g)) \<and>
        (n < length reqs \<longrightarrow> ag_off (snd (handleConn C E run r g)) \<and>
           fst (handleConn C E run r g) = concat (map frame_of (drop n ds)) @ tail)))"
proof (intro conjI allI impI)
  show "\<exists>ds reqs tail. arrives C ds reqs tail r" by (rule arrives_exists)
  fix ds reqs tail
  assume "arrives C ds reqs tail r"
  then show "\<exists>n \<le> length reqs. snd (handleConn C E run r g) = fold (handle_request C E run) (take n reqs) g \<and>
        (\<forall>k < n. \<not> ag_off (fold (handle_request C E run) (take k reqs) g)) \<and>
        (n < length reqs \<longrightarrow> ag_off (snd (handleConn C E run r g)) \<and>
           fst (handleConn C E run r g) = concat (map frame_of (drop n ds)) @ tail)"
  proof (induction ds arbitrary: reqs r g)
    case Nil
    then show ?case by (intro exI [of _ 0]) (simp add: arrives_def handleConn_stops)
  next
    case (Cons d ds)
    then obtain q qs where q: "reqs = q # qs" "ac_un_request C d = Inr q" "length d \<le> maxMessageSize"
      by (auto simp: arrives_def Cons_eq_map_conv)
    define r' where "r' = concat (map frame_of ds) @ tail"
    have r: "r = frame_of d @ r'" and rest: "arrives C ds qs tail r'"
      using Cons.prems q by (simp_all add: arrives_def r'_def)
    show ?case
    proof (cases "ag_off g")
      case True
      then show ?thesis using r by (intro exI [of _ 0]) (simp add: handleConn_stops q(1) r'_def)
    next
      case on: False
      let ?g = "handle_request C E run q g"
      have step: "handleConn C E run r g = handleConn C E run r' ?g"
        unfolding r by (rule handleConn_frame [OF q(2,3) on])
      obtain n where "n \<le> length qs" "snd (handleConn C E run r' ?g) = fold (handle_request C E run) (take n qs) ?g"
        "\<forall>k < n. \<not> ag_off (fold (handle_request C E run) (take k qs) ?g)"
        "n < length qs \<longrightarrow> ag_off (snd (handleConn C E run r' ?g)) \<and>
           fst (handleConn C E run r' ?g) = concat (map frame_of (drop n ds)) @ tail"
        using Cons.IH [OF rest, of ?g] by blast
      then show ?thesis
        using on by (intro exI [of _ "Suc n"]) (auto simp: step q(1) less_Suc_eq_0_disj)
    qed
  qed
qed

text \<open>
  Two goroutines writing to one connection can tear each other's messages apart: two chunks of one
  byte each whose headers are written before their payloads are read as other messages.
\<close>

lemma stream_messages_tear:
  "ReadMessage (concat (interleave [True, False, True] [PutUint32 1, ''a''] [PutUint32 1, ''b''])) =
     (Inr [char_of (0 :: nat)], [char_of (0 :: nat), char_of (0 :: nat), char_of (1 :: nat)] @ ''ab'')"
  by (simp add: PutUint32_def Uint32_def ReadMessage_def ReadFull_def Let_def drop_bit_eq_div)

section \<open>Sample data\<close>

text \<open>
  A codec for reads and streams with the request id \<open>ab\<close>: the bytes of a request are a letter and its
  path or command, those of a response or of a chunk its content.
\<close>

definition sample_codec :: agent_codec where
  "sample_codec =
     \<lparr>ac_request = \<lambda>q. Inr ((if gq_Method q = ''read_file'' then CHR ''r'' else CHR ''s'') # gq_Params q),
      ac_un_request = \<lambda>d. (case d of
          [] \<Rightarrow> Inl (Err ErrOther ''empty'')
        | c # d \<Rightarrow> Inr \<lparr>gq_ID = ''ab'', gq_Method = (if c = CHR ''r'' then ''read_file'' else ''exec_stream''), gq_Params = d\<rparr>),
      ac_response = \<lambda>r. Inr (gr_Result r), ac_un_response = \<lambda>d. Inr \<lparr>gr_ID = ''ab'', gr_Error = [], gr_Result = d\<rparr>,
      ac_stream = \<lambda>m. Inr (gs_Data m),
      ac_un_stream = \<lambda>d. Inr (if d = [] then stream_done ''ab'' 0 else stream_chunk ''ab'' (''stdout'', d)),
      ac_params = \<lambda>a. (case a of AP_Path f \<Rightarrow> f | AP_Exec opts \<Rightarrow> xo_Command opts | _ \<Rightarrow> []),
      ac_result = \<lambda>a. (case a of AR_Content d \<Rightarrow> d | _ \<Rightarrow> []),
      ac_un_exec = \<lambda>d. Inr \<lparr>xo_Command = d, xo_Args = [], xo_Mode = [], xo_Env = [], xo_WorkDir = []\<rparr>,
      ac_un_write = \<lambda>d. Inl (Err ErrOther ''write''), ac_un_path = Inr,
      ac_un_delete = \<lambda>d. Inl (Err ErrOther ''delete''), ac_un_move = \<lambda>d. Inl (Err ErrOther ''move''),
      ac_un_chmod = \<lambda>d. Inl (Err ErrOther ''chmod''), ac_un_glob = \<lambda>d. Inl (Err ErrOther ''glob''),
      ac_un_exec_result = \<lambda>d. Inr (0, d, []), ac_un_content = Inr,
      ac_un_files = \<lambda>d. Inl (Err ErrOther ''files''), ac_un_file = \<lambda>d. Inl (Err ErrOther ''file''),
      ac_un_matches = \<lambda>d. Inl (Err ErrOther ''matches'')\<rparr>"

definition sample_guest_os :: osenv where
  "sample_guest_os =
     \<lparr>os_unit = \<lambda>cs c. None, os_name = \<lambda>cs c. Inr ''x'', os_content = \<lambda>cs c. Inr (os_paths c ! 0 @ '' content''),
      os_entries = \<lambda>cs c. Inr [], os_stat = \<lambda>cs c. Inl (Err ErrOther ''no such file''), os_matches = \<lambda>cs c. Inr [],
      os_run = \<lambda>cs c. Exited 0 ''out'' [],
      os_stream = \<lambda>cs c. Inr ([(''stdout'', ''one''), (''stdout'', ''two'')], Finished),
      os_environ = [], os_path = [], os_cwd = ''/''\<rparr>"

definition sample_agent :: agent where
  "sample_agent = \<lparr>ho_calls = [], ag_out = [], ag_off = False\<rparr>"

definition sample_stream_run :: stream_run where
  "sample_stream_run = \<lparr>sx_exit = 0, sx_order = []\<rparr>"

theorem agent_serves_in_order_witness:
  "\<exists>n \<le> 1. snd (handleConn sample_codec sample_guest_os sample_stream_run (frame_of ''r/etc/hostname'' @ ''xyz'') sample_agent) =
     fold (handle_request sample_codec sample_guest_os sample_stream_run)
       (take n [\<lparr>gq_ID = ''ab'', gq_Method = ''read_file'', gq_Params = ''/etc/hostname''\<rparr>]) sample_agent"
proof -
  have "no_request sample_codec ''xyz''" by (auto simp: no_request_def frame_of_def dest: arg_cong [where f = length])
  then have "arrives sample_codec [''r/etc/hostname''] [\<lparr>gq_ID = ''ab'', gq_Method = ''read_file'', gq_Params = ''/etc/hostname''\<rparr>]
      ''xyz'' (frame_of ''r/etc/hostname'' @ ''xyz'')"
    by (simp add: arrives_def sample_codec_def)
  from agent_serves_in_order [of sample_codec "frame_of ''r/etc/hostname'' @ ''xyz''" sample_guest_os sample_stream_run sample_agent,
      THEN conjunct2, rule_format, OF this]
  show ?thesis by auto
qed

end
