(* ===== verification/Firecracker_Agent.thy ===== *)
theory Firecracker_Agent
  imports Firecracker_Laws Agent_Laws
begin

text \<open>
  Host and guest together: the provider's operations over a connection whose other end is the agent
  of \<open>Agent_Server\<close>.
\<close>

section \<open>The agent as the other end\<close>

definition agent_deliver :: "agent_codec \<Rightarrow> osenv \<Rightarrow> stream_run \<Rightarrow> string \<Rightarrow> agent \<Rightarrow> (error + string) \<times> agent" where
  "agent_deliver C G run b g =
     (let (r, g) = handleConn C G run b (g\<lparr>ag_out := []\<rparr>) in (Inr (ag_out g), g\<lparr>ag_out := []\<rparr>))"

text \<open>A message the wire carries: it is encoded, fits and decodes to itself.\<close>

definition carries :: "('m \<Rightarrow> error + string) \<Rightarrow> (string \<Rightarrow> error + 'm) \<Rightarrow> 'm \<Rightarrow> bool" where
  "carries enc un m \<longleftrightarrow> (case enc m of Inl e \<Rightarrow> False | Inr d \<Rightarrow> un d = Inr m \<and> length d \<le> maxMessageSize)"

lemma carriesD: "carries enc un m \<Longrightarrow> \<exists>d. enc m = Inr d \<and> un d = Inr m \<and> length d \<le> maxMessageSize"
  by (auto simp: carries_def split: sum.splits)

definition up :: "agent_codec \<Rightarrow> osenv \<Rightarrow> stream_run \<Rightarrow> agent fcenv \<Rightarrow> bool" where
  "up C G run E \<longleftrightarrow> fe_codec E = C \<and> fe_deliver E = agent_deliver C G run"

text \<open>A request and its response over a connection with nothing unread.\<close>

lemma conn_request_served:
  assumes "up C G run E" and "\<not> ag_off g" and "ag_out g = []" and "plain_op op" and "params_arrive C op"
    and "carries (ac_request C) (ac_un_request C) (op_request C i op)"
    and "carries (ac_response C) (ac_un_response C) (reply_of C i (fst (in_guest G op g)))"
  shows "conn_request E (op_request C i op) [] g = (Inr (reply_of C i (fst (in_guest G op g))), [], snd (in_guest G op g))"
proof -
  obtain d where d: "ac_request C (op_request C i op) = Inr d" "ac_un_request C d = Inr (op_request C i op)"
    "length d \<le> maxMessageSize" using carriesD [OF assms(6)] by blast
  obtain a where a: "ac_response C (reply_of C i (fst (in_guest G op g))) = Inr a"
    "ac_un_response C a = Inr (reply_of C i (fst (in_guest G op g)))" "length a \<le> maxMessageSize"
    using carriesD [OF assms(7)] by blast
  have w: "WriteMessage (ac_request C) (op_request C i op) [] = (None, frame_of d)"
    using d by (simp add: WriteMessage_def frame_of_def)
  have g: "g\<lparr>ag_out := []\<rparr> = g" using assms(3) by simp
  have out: "ag_out (snd (in_guest G op g)) = []" using in_guest_rest [of G op g] assms(3) by simp
  have "handleConn C G run (frame_of d) g = handleConn C G run [] (handle_request C G run (op_request C i op) g)"
    using handleConn_frame [of C d "op_request C i op" g G run "[]"] d assms(2) by simp
  then have "agent_deliver C G run (frame_of d) g = (Inr (frame_of a), snd (in_guest G op g))"
    using a out by (simp add: agent_deliver_def g handleConn_empty handle_request_in_guest [OF assms(4,5)] split_def
        SendResponse_def WriteMessage_def frame_of_def)
  then show ?thesis
    using assms(1) w a ReadMessage_frame [of a "[]"]
    by (simp add: up_def conn_request_def ReadTyped_def)
qed

section \<open>Remote is local\<close>

text \<open>The operations of the provider with their results as the agent's.\<close>

fun fc_result :: "'g fcenv \<Rightarrow> string \<Rightarrow> guest_op \<Rightarrow> 'g FirecrackerProvider \<Rightarrow> (error + agent_result) \<times> 'g FirecrackerProvider" where
  "fc_result E sid (GExec opts) p = apfst (map_sum id (\<lambda>(c, out, err). AR_Exec c out err)) (fc_Exec E sid opts p)"
| "fc_result E sid (GWriteFile f c md) p =
     apfst (\<lambda>r. case r of Some e \<Rightarrow> Inl e | None \<Rightarrow> Inr AR_Ok) (fc_WriteFile E sid f c md p)"
| "fc_result E sid (GReadFile f) p = apfst (map_sum id AR_Content) (fc_ReadFile E sid f p)"
| "fc_result E sid (GListFiles f) p = apfst (map_sum id AR_Files) (fc_ListFiles E sid f p)"
| "fc_result E sid (GDeleteFile f rc) p = apfst (\<lambda>r. case r of Some e \<Rightarrow> Inl e | None \<Rightarrow> Inr AR_Ok) (fc_DeleteFile E sid f rc p)"
| "fc_result E sid (GMoveFile f t) p = apfst (\<lambda>r. case r of Some e \<Rightarrow> Inl e | None \<Rightarrow> Inr AR_Ok) (fc_MoveFile E sid f t p)"
| "fc_result E sid (GChmodFile f md) p = apfst (\<lambda>r. case r of Some e \<Rightarrow> Inl e | None \<Rightarrow> Inr AR_Ok) (fc_ChmodFile E sid f md p)"
| "fc_result E sid (GStatFile f) p = apfst (map_sum id AR_File) (fc_StatFile E sid f p)"
| "fc_result E sid (GGlobFiles f) p = apfst (map_sum id AR_Matches) (fc_GlobFiles E sid f p)"
| "fc_result E sid op p = (Inl (Err ErrOther []), p)"

text \<open>A result that decodes to itself.\<close>

fun result_arrives :: "agent_codec \<Rightarrow> string + agent_result \<Rightarrow> bool" where
  "result_arrives C (Inl msg) = True"
| "result_arrives C (Inr (AR_Exec c out err)) = (ac_un_exec_result C (ac_result C (AR_Exec c out err)) = Inr (c, out, err))"
| "result_arrives C (Inr (AR_Content d)) = (ac_un_content C (ac_result C (AR_Content d)) = Inr d)"
| "result_arrives C (Inr (AR_Files fs)) = (ac_un_files C (ac_result C (AR_Files fs)) = Inr fs)"
| "result_arrives C (Inr (AR_File f)) = (ac_un_file C (ac_result C (AR_File f)) = Inr f)"
| "result_arrives C (Inr (AR_Matches ms)) = (ac_un_matches C (ac_result C (AR_Matches ms)) = Inr ms)"
| "result_arrives C (Inr AR_Ok) = True"
| "result_arrives C (Inr AR_Ping) = True"

text \<open>The mode of a write that names none.\<close>

fun with_mode :: "guest_op \<Rightarrow> guest_op" where
  "with_mode (GWriteFile f c md) = GWriteFile f c (if md = [] then ''644'' else md)"
| "with_mode op = op"

lemma with_mode_simps [simp]: "op_method (with_mode op) = op_method op" "plain_op (with_mode op) = plain_op op"
  by (cases op; simp)+

lemma agent_call_served:
  assumes "up C G run E" and "getVM sid p = Inr vm" and "vm_in vm = []" and "vm_peer vm = g"
    and "\<not> ag_off g" and "ag_out g = []" and "plain_op op" and "params_arrive C op" and "i = fe_rand E (ho_calls p) 0"
    and "carries (ac_request C) (ac_un_request C) (op_request C i op)"
    and "carries (ac_response C) (ac_un_response C) (reply_of C i (fst (in_guest G op g)))"
  shows "agent_call E (op_method op) (op_params op) sid p =
    ((case fst (in_guest G op g) of
        Inl msg \<Rightarrow> Inl (Err ErrOther (''agent '' @ op_method op @ '': '' @ msg))
      | Inr a \<Rightarrow> Inr (ac_result C a)),
     put_vm sid (vm\<lparr>vm_peer := snd (in_guest G op g)\<rparr>) p)"
proof -
  have "sendRequest E (op_request C i op) vm =
      (Inr (reply_of C i (fst (in_guest G op g))), vm\<lparr>vm_peer := snd (in_guest G op g)\<rparr>)"
    using conn_request_served [OF assms(1,5-8,10,11)] assms(3,4) by (simp add: sendRequest_def)
  moreover have "fc_request i (op_method op) C (op_params op) = op_request C i op"
    by (simp add: fc_request_def op_request_def)
  ultimately show ?thesis
    using assms(1,2,9) in_guest_error_nonempty [of G op g]
    by (auto simp: agent_call_def up_def reply_of_def split: sum.split)
qed

text \<open>
  C17. An operation on a microVM is the operation on the guest's own system: over a connection with
  nothing unread to an agent that is running, executing a command and every file operation give
  what the agent's system gives when asked directly, with the error's text after the method's
  name; the guest's state is that of the direct operation, the connection has nothing unread
  again, and no other VM is touched.  It needs the messages of the operation to fit the wire and
  their JSON to decode to them.
\<close>

theorem firecracker_remote_is_local:
  fixes p :: "agent FirecrackerProvider"
  assumes "up C G run E" and "getVM sid p = Inr vm" and "vm_in vm = []"
    and "\<not> ag_off (vm_peer vm)" and "ag_out (vm_peer vm) = []"
    and "plain_op op" and "params_arrive C (with_mode op)"
    and "carries (ac_request C) (ac_un_request C) (op_request C (fe_rand E (ho_calls p) 0) (with_mode op))"
    and "in_guest G (with_mode op) (vm_peer vm) = (r, g)"
    and "carries (ac_response C) (ac_un_response C) (reply_of C (fe_rand E (ho_calls p) 0) r)"
    and "result_arrives C r"
  shows "fc_result E sid op p =
    ((case r of Inl msg \<Rightarrow> Inl (Err ErrOther (''agent '' @ op_method op @ '': '' @ msg)) | Inr a \<Rightarrow> Inr a),
     put_vm sid (vm\<lparr>vm_peer := g\<rparr>) p)"
proof -
  let ?op = "with_mode op"
  have call: "agent_call E (op_method ?op) (op_params ?op) sid p =
    ((case r of Inl msg \<Rightarrow> Inl (Err ErrOther (''agent '' @ op_method ?op @ '': '' @ msg)) | Inr a \<Rightarrow> Inr (ac_result C a)),
     put_vm sid (vm\<lparr>vm_peer := g\<rparr>) p)"
    using agent_call_served [OF assms(1,2,3) refl assms(4,5), of ?op] assms(6-10) by simp
  have kind: "r = Inr a \<Longrightarrow> result_kind ?op a" for a
    using in_guest_kind [of G ?op "vm_peer vm" a] assms(9) by simp
  show ?thesis
  proof (cases r)
    case (Inl msg)
    with call assms(2,6,7) show ?thesis
      by (cases op) (auto simp: fc_call_defs split: sum.splits if_splits)
  next
    case (Inr a)
    with kind have "result_kind ?op a" by simp
    with call Inr assms(1,2,6,7,11) show ?thesis
      by (cases op) (auto simp: fc_call_defs up_def split: sum.splits if_splits)
  qed
qed

section \<open>Streams\<close>

definition stream_msgs :: "string \<Rightarrow> (string \<times> string) list \<Rightarrow> int \<Rightarrow> StreamResponse list" where
  "stream_msgs i chunks exit = map (stream_chunk i) chunks @ [stream_done i exit]"

text \<open>The bytes of a message that can be encoded.\<close>

definition stream_bytes :: "agent_codec \<Rightarrow> StreamResponse \<Rightarrow> string" where
  "stream_bytes C m = (case ac_stream C m of Inl e \<Rightarrow> [] | Inr d \<Rightarrow> d)"

abbreviation stream_carried :: "agent_codec \<Rightarrow> StreamResponse \<Rightarrow> bool" where
  "stream_carried C \<equiv> carries (ac_stream C) (ac_un_stream C)"

primrec frames :: "agent_codec \<Rightarrow> StreamResponse list \<Rightarrow> string" where
  "frames C [] = []"
| "frames C (m # ms) = frame_of (stream_bytes C m) @ frames C ms"

lemma stream_msgs_simps [simp]:
  "stream_msgs i [] exit = [stream_done i exit]" "stream_msgs i (c # cs) exit = stream_chunk i c # stream_msgs i cs exit"
  by (simp_all add: stream_msgs_def)

lemma stream_carriedD:
  "stream_carried C m \<Longrightarrow> ac_stream C m = Inr (stream_bytes C m) \<and> ac_un_stream C (stream_bytes C m) = Inr m \<and>
     length (stream_bytes C m) \<le> maxMessageSize"
  by (auto simp: carries_def stream_bytes_def split: sum.splits)

lemma SendStreamResponse_carried:
  "stream_carried C m \<Longrightarrow> SendStreamResponse C m g = g\<lparr>ag_out := ag_out g @ frame_of (stream_bytes C m)\<rparr>"
  by (simp add: SendStreamResponse_def WriteMessage_def frame_of_def stream_carriedD)

lemma read_stream_frame:
  "stream_carried C m \<Longrightarrow>
     ReadTyped ''stream response'' (ac_un_stream C) (frame_of (stream_bytes C m) @ r) = (Inr m, r)"
  using stream_carriedD [of C m] by (simp add: ReadTyped_def ReadMessage_frame)

lemma stream_chunks_step:
  "stream_carried C (stream_chunk i c) \<Longrightarrow> gives_up_read stop = None \<Longrightarrow> gives_up_send stop = None \<Longrightarrow>
     stream_chunks C sid stop (frame_of (stream_bytes C (stream_chunk i c)) @ r) =
       apfst (append (filter (\<lambda>c. snd c \<noteq> []) [c])) (stream_chunks C sid (sooner stop) r)"
  by (subst stream_chunks.simps) (simp add: read_stream_frame stream_chunk_def split_def apfst_def map_prod_def Let_def)

lemma stream_chunks_end:
  "stream_carried C (stream_done i exit) \<Longrightarrow> gives_up_read stop = None \<Longrightarrow>
     stream_chunks C sid stop (frame_of (stream_bytes C (stream_done i exit)) @ r) = ([], r)"
  by (subst stream_chunks.simps) (simp add: read_stream_frame stream_done_def)

lemma chunks_NoDeadline:
  "list_all (stream_carried C) (stream_msgs i chunks exit) \<Longrightarrow>
     stream_chunks C sid NoDeadline (frames C (stream_msgs i chunks exit) @ rest) = (filter (\<lambda>c. snd c \<noteq> []) chunks, rest)"
  by (induction chunks) (simp_all add: stream_chunks_step stream_chunks_end)

lemma chunks_AtRead:
  "list_all (stream_carried C) (stream_msgs i chunks exit) \<Longrightarrow> n \<le> length chunks \<Longrightarrow>
     stream_chunks C sid (AtRead n 0 seen) (frames C (stream_msgs i chunks exit) @ rest) =
       (filter (\<lambda>c. snd c \<noteq> []) (take n chunks) @ timeout_notice sid seen, frames C (drop n (stream_msgs i chunks exit)) @ rest)"
proof (induction chunks arbitrary: n)
  case Nil
  then show ?case by (simp add: stream_chunks.simps)
next
  case (Cons c chunks)
  then show ?case by (cases n) (simp_all add: stream_chunks_step, simp add: stream_chunks.simps)
qed

lemma pipe_writes_carried:
  "list_all (stream_carried C) (map (stream_chunk i) chunks) \<Longrightarrow>
     concat (pipe_writes C i chunks) = frames C (map (stream_chunk i) chunks)"
  by (induction chunks) (simp_all add: pipe_writes_def message_writes_def frame_of_def stream_carriedD)

lemma frames_append [simp]: "frames C (ms @ ms') = frames C ms @ frames C ms'"
  by (induction ms) simp_all

lemma interleave_Nil [simp]: "interleave bs xs [] = xs" "interleave bs [] ys = ys"
  by (cases bs; cases xs; simp)+

text \<open>The output of one pipe is written in order, whoever's turn it is.\<close>

lemma one_pipe:
  assumes "\<forall>c\<in>set chunks. fst c = pipe"
  shows "concat (interleave bs (pipe_writes C i (fst (partition (\<lambda>c. fst c = ''stdout'') chunks)))
           (pipe_writes C i (snd (partition (\<lambda>c. fst c = ''stdout'') chunks)))) = concat (pipe_writes C i chunks)"
proof (cases "pipe = ''stdout''")
  case True
  then have "filter (\<lambda>c. fst c = ''stdout'') chunks = chunks" "filter (\<lambda>c. fst c \<noteq> ''stdout'') chunks = []"
    using assms by (auto simp: filter_id_conv filter_empty_conv)
  then show ?thesis by (simp add: comp_def pipe_writes_def)
next
  case False
  then have "filter (\<lambda>c. fst c = ''stdout'') chunks = []" "filter (\<lambda>c. fst c \<noteq> ''stdout'') chunks = chunks"
    using assms by (auto simp: filter_id_conv filter_empty_conv)
  then show ?thesis by (simp add: comp_def pipe_writes_def)
qed

lemma agent_stream:
  assumes "up C G run E" and "\<not> ag_off g" and "ag_out g = []" and "params_arrive C (GExecStream opts)"
    and "carries (ac_request C) (ac_un_request C) (op_request C i (GExecStream opts))"
    and "agent_buildExecCommand opts = Inr args"
    and "os_stream G (ho_calls g) (OsStart args (os_environ G @ env_strings (xo_Env opts)) (xo_WorkDir opts)) = Inr (chunks, fin)"
    and "list_all (stream_carried C) (stream_msgs i chunks (sx_exit run))" and "\<forall>c\<in>set chunks. fst c = pipe"
  shows "\<exists>d g'. WriteMessage (ac_request C) (op_request C i (GExecStream opts)) [] = (None, d) \<and>
    fe_deliver E d g = (Inr (frames C (stream_msgs i chunks (sx_exit run))), g')"
proof -
  let ?q = "op_request C i (GExecStream opts)"
  obtain d where d: "ac_request C ?q = Inr d" "ac_un_request C d = Inr ?q" "length d \<le> maxMessageSize"
    using carriesD [OF assms(5)] by blast
  have w: "WriteMessage (ac_request C) ?q [] = (None, frame_of d)"
    using d by (simp add: WriteMessage_def frame_of_def)
  have g: "g\<lparr>ag_out := []\<rparr> = g" using assms(3) by simp
  have all: "list_all (stream_carried C) (map (stream_chunk i) chunks @ [stream_done i (sx_exit run)])"
    using assms(8) by (simp add: stream_msgs_def)
  have conn: "handleConn C G run (frame_of d) g = handleConn C G run [] (handle_request C G run ?q g)"
    using handleConn_frame [of C d ?q g G run "[]"] d assms(2) by simp
  have "ag_out (handle_request C G run ?q g) = frames C (stream_msgs i chunks (sx_exit run))"
    using assms(3,4,6,7) one_pipe [OF assms(9), of "sx_order run" C i] pipe_writes_carried [of C i chunks] all
    by (simp add: handle_request_def op_request_def agent_handleExecStream_def ask_def stream_msgs_def SendStreamResponse_carried)
  then have "\<exists>g'. agent_deliver C G run (frame_of d) g = (Inr (frames C (stream_msgs i chunks (sx_exit run))), g')"
    using conn by (simp add: agent_deliver_def g handleConn_empty)
  with w assms(1) show ?thesis by (simp add: up_def)
qed

text \<open>
  C18. A stream of a command whose output is all on one of its two pipes delivers every chunk of it that is
  not empty, in order, and leaves the connection with nothing unread, whatever turns the agent's
  two goroutines take.  Such a stream whose caller gave up at a deadline, after \<open>n\<close> messages and before any
  byte of the next, delivers the chunks of those, but the rest of its messages stays in the
  connection: whatever request is sent next on it, by any operation, is answered with the stream's
  next message, decoded as a response, and not with what the agent answers (response ids are never
  compared).  With output on both pipes messages can be torn (\<open>stream_messages_tear\<close>).
\<close>

theorem firecracker_stream:
  fixes p :: "agent FirecrackerProvider"
  assumes "up C G run E" and "getVM sid p = Inr vm" and "vm_in vm = []"
    and "\<not> ag_off (vm_peer vm)" and "ag_out (vm_peer vm) = []" and "params_arrive C (GExecStream opts)"
    and "i = fe_rand E (ho_calls p) 0" and "carries (ac_request C) (ac_un_request C) (op_request C i (GExecStream opts))"
    and "agent_buildExecCommand opts = Inr args"
    and "os_stream G (ho_calls (vm_peer vm)) (OsStart args (os_environ G @ env_strings (xo_Env opts)) (xo_WorkDir opts)) = Inr (chunks, fin)"
    and "list_all (stream_carried C) (stream_msgs i chunks (sx_exit run))" and "n \<le> length chunks"
    and "\<forall>c\<in>set chunks. fst c = pipe"
  shows "(\<exists>g. fc_ExecStream E NoDeadline sid opts p = (Inr (filter (\<lambda>c. snd c \<noteq> []) chunks), put_vm sid (vm\<lparr>vm_peer := g\<rparr>) p)) \<and>
    (\<exists>vm'. fc_ExecStream E (AtRead n 0 seen) sid opts p =
        (Inr (filter (\<lambda>c. snd c \<noteq> []) (take n chunks) @ timeout_notice sid seen), put_vm sid vm' p) \<and>
      (\<forall>req. fst (WriteMessage (ac_request C) req []) = None \<longrightarrow>
         fst (sendRequest E req vm') =
           (case ac_un_response C (stream_bytes C (stream_msgs i chunks (sx_exit run) ! n)) of
              Inl e \<Rightarrow> Inl (wrap_err ''unmarshal response'' e) | Inr a \<Rightarrow> Inr a)))"
proof -
  let ?ms = "stream_msgs i chunks (sx_exit run)"
  obtain d g' where d: "WriteMessage (ac_request C) (op_request C i (GExecStream opts)) [] = (None, d)"
    "fe_deliver E d (vm_peer vm) = (Inr (frames C ?ms), g')"
    using agent_stream [OF assms(1,4,5,6,8,9,10,11,13)] by blast
  have q: "fc_request i ''exec_stream'' C (AP_Exec opts) = op_request C i (GExecStream opts)"
    by (simp add: fc_request_def op_request_def)
  have C: "fe_codec E = C" using assms(1) by (simp add: up_def)
  have run: "fc_ExecStream E stop sid opts p =
      (case stream_chunks C sid stop (frames C ?ms) of (cs, r) \<Rightarrow> (Inr cs, put_vm sid (vm\<lparr>vm_in := r, vm_peer := g'\<rparr>) p))" for stop
    using assms(2,3,7) d q by (simp add: fc_ExecStream_def C)
  have clean: "vm\<lparr>vm_in := [], vm_peer := g'\<rparr> = vm\<lparr>vm_peer := g'\<rparr>" using assms(3) by (cases vm) simp
  have "fc_ExecStream E NoDeadline sid opts p = (Inr (filter (\<lambda>c. snd c \<noteq> []) chunks), put_vm sid (vm\<lparr>vm_peer := g'\<rparr>) p)"
    using run [of NoDeadline] chunks_NoDeadline [OF assms(11), of sid "[]"] clean by simp
  moreover define vm' where "vm' = vm\<lparr>vm_in := frames C (drop n ?ms), vm_peer := g'\<rparr>"
  moreover have "fc_ExecStream E (AtRead n 0 seen) sid opts p =
      (Inr (filter (\<lambda>c. snd c \<noteq> []) (take n chunks) @ timeout_notice sid seen), put_vm sid vm' p)"
    using run [of "AtRead n 0 seen"] chunks_AtRead [OF assms(11,12), of sid seen "[]"] by (simp add: vm'_def)
  moreover have "fst (sendRequest E req vm') =
      (case ac_un_response C (stream_bytes C (?ms ! n)) of Inl e \<Rightarrow> Inl (wrap_err ''unmarshal response'' e) | Inr a \<Rightarrow> Inr a)"
    if sent: "fst (WriteMessage (ac_request C) req []) = None" for req
  proof -
    have n: "n < length ?ms" using assms(12) by (simp add: stream_msgs_def)
    then have "drop n ?ms = ?ms ! n # drop (Suc n) ?ms" by (simp add: Cons_nth_drop_Suc)
    moreover have "length (stream_bytes C (?ms ! n)) \<le> maxMessageSize"
      using n assms(11) stream_carriedD by (metis list_all_length)
    moreover obtain w where "WriteMessage (ac_request C) req [] = (None, w)" using sent by (metis prod.collapse)
    moreover obtain b g'' where "fe_deliver E w g' = (Inr b, g'')"
      using assms(1) by (simp add: up_def agent_deliver_def split_def Let_def)
    ultimately show ?thesis
      by (simp add: sendRequest_def conn_request_def C vm'_def ReadTyped_def ReadMessage_frame split_def split: sum.split)
  qed
  ultimately show ?thesis by blast
qed

section \<open>Sample data\<close>

definition sample_fc_config :: FirecrackerProviderConfig where
  "sample_fc_config =
     \<lparr>fx_FirecrackerPath = ''/usr/bin/firecracker'', fx_KernelPath = ''/var/vmlinux'', fx_DefaultRootfs = ''/var/rootfs.ext4'',
      fx_AgentPath = ''/opt/agent'', fx_DataDir = ''/data'', fx_DefaultMemoryMB = 512\<rparr>"

definition sample_fcenv :: "agent fcenv" where
  "sample_fcenv = osenv.extend sample_guest_os
     \<lparr>fe_pid = \<lambda>cs c. Inr 4242, fe_http = \<lambda>cs c. Inr (204, []), fe_dials = \<lambda>cs c. [Inr (sample_agent, Inr ''OK 5'')],
      fe_deliver = agent_deliver sample_codec sample_guest_os sample_stream_run, fe_sha256 = \<lambda>s. s, fe_codec = sample_codec,
      fe_unmeta = \<lambda>s. None, fe_meta = \<lambda>m. [], fe_rand = \<lambda>cs k. ''ab'', fe_now = 0\<rparr>"

definition sample_vm :: "agent vmInstance" where
  "sample_vm = make_vm ''sb-1'' ''/data/sb-1'' 3 4242 [] sample_agent"

definition sample_fc :: "agent FirecrackerProvider" where
  "sample_fc = put_vm ''sb-1'' sample_vm (NewFirecrackerProvider sample_fc_config)"

lemma sample_fc_simps:
  "up sample_codec sample_guest_os sample_stream_run sample_fcenv" "getVM ''sb-1'' sample_fc = Inr sample_vm" "vm_in sample_vm = []"
  "vm_peer sample_vm = sample_agent" "fe_rand sample_fcenv cs k = ''ab''" "\<not> ag_off sample_agent" "ag_out sample_agent = []"
  "ho_calls sample_agent = []"
  by (simp_all add: up_def sample_fcenv_def osenv.defs getVM_def sample_fc_def put_vm_def sample_vm_def make_vm_def
      NewFirecrackerProvider_def sample_agent_def)

theorem firecracker_remote_is_local_witness:
  "fst (fc_result sample_fcenv ''sb-1'' (GReadFile ''/etc/hostname'') sample_fc) = Inr (AR_Content ''/etc/hostname content'')"
proof -
  let ?op = "GReadFile ''/etc/hostname''" and ?g = "sample_agent\<lparr>ho_calls := [OsOpen ''/etc/hostname'']\<rparr>"
  have "fc_result sample_fcenv ''sb-1'' ?op sample_fc =
    ((case Inr (AR_Content ''/etc/hostname content'') of
        Inl msg \<Rightarrow> Inl (Err ErrOther (''agent '' @ op_method ?op @ '': '' @ msg)) | Inr a \<Rightarrow> Inr a),
     put_vm ''sb-1'' (sample_vm\<lparr>vm_peer := ?g\<rparr>) sample_fc)"
  proof (rule firecracker_remote_is_local [where C = sample_codec and G = sample_guest_os and run = sample_stream_run])
    show "params_arrive sample_codec (with_mode ?op)" by (simp add: sample_codec_def)
    show "carries (ac_request sample_codec) (ac_un_request sample_codec)
        (op_request sample_codec (fe_rand sample_fcenv (ho_calls sample_fc) 0) (with_mode ?op))"
      by (simp add: sample_fc_simps carries_def sample_codec_def op_request_def)
    show "in_guest sample_guest_os (with_mode ?op) (vm_peer sample_vm) = (Inr (AR_Content ''/etc/hostname content''), ?g)"
      by (simp add: sample_fc_simps sample_guest_os_def ask_def)
    show "carries (ac_response sample_codec) (ac_un_response sample_codec)
        (reply_of sample_codec (fe_rand sample_fcenv (ho_calls sample_fc) 0) (Inr (AR_Content ''/etc/hostname content'')))"
      by (simp add: sample_fc_simps carries_def sample_codec_def reply_of_def)
    show "result_arrives sample_codec (Inr (AR_Content ''/etc/hostname content''))" by (simp add: sample_codec_def)
  qed (simp_all add: sample_fc_simps)
  then show ?thesis by simp
qed

theorem firecracker_stream_witness:
  "\<exists>vm'. fc_ExecStream sample_fcenv (AtRead 1 0 True) ''sb-1''
        \<lparr>xo_Command = ''make'', xo_Args = [], xo_Mode = [], xo_Env = [], xo_WorkDir = []\<rparr> sample_fc =
      (Inr [(''stdout'', ''one''), (''stderr'', err_msg (ExecTimeoutError ''sb-1''))], put_vm ''sb-1'' vm' sample_fc) \<and>
    fst (sendRequest sample_fcenv (op_request sample_codec ''cd'' (GReadFile ''/etc/hostname'')) vm') =
      Inr \<lparr>gr_ID = ''ab'', gr_Error = [], gr_Result = ''two''\<rparr>"
proof -
  let ?o = "\<lparr>xo_Command = ''make'', xo_Args = [], xo_Mode = [], xo_Env = [], xo_WorkDir = []\<rparr>"
  let ?chunks = "[(''stdout'', ''one''), (''stdout'', ''two'')]" and ?args = "[''/bin/sh'', ''-c'', ''make'']"
  have "params_arrive sample_codec (GExecStream ?o)" by (simp add: sample_codec_def)
  moreover have "carries (ac_request sample_codec) (ac_un_request sample_codec) (op_request sample_codec ''ab'' (GExecStream ?o))"
    by (simp add: carries_def sample_codec_def op_request_def)
  moreover have "agent_buildExecCommand ?o = Inr ?args" by (simp add: agent_buildExecCommand_def TrimSpace_Nil)
  moreover have "os_stream sample_guest_os (ho_calls (vm_peer sample_vm))
      (OsStart ?args (os_environ sample_guest_os @ env_strings (xo_Env ?o)) (xo_WorkDir ?o)) = Inr (?chunks, Finished)"
    by (simp add: sample_guest_os_def)
  moreover have "list_all (stream_carried sample_codec) (stream_msgs ''ab'' ?chunks (sx_exit sample_stream_run))"
    by (simp add: carries_def sample_codec_def stream_chunk_def stream_done_def sample_stream_run_def)
  ultimately have "\<exists>vm'. fc_ExecStream sample_fcenv (AtRead 1 0 True) ''sb-1'' ?o sample_fc =
        (Inr (filter (\<lambda>c. snd c \<noteq> []) (take 1 ?chunks) @ timeout_notice ''sb-1'' True), put_vm ''sb-1'' vm' sample_fc) \<and>
      (\<forall>req. fst (WriteMessage (ac_request sample_codec) req []) = None \<longrightarrow>
         fst (sendRequest sample_fcenv req vm') =
           (case ac_un_response sample_codec (stream_bytes sample_codec (stream_msgs ''ab'' ?chunks (sx_exit sample_stream_run) ! 1)) of
              Inl e \<Rightarrow> Inl (wrap_err ''unmarshal response'' e) | Inr a \<Rightarrow> Inr a))"
    by (intro firecracker_stream [where C = sample_codec and G = sample_guest_os and run = sample_stream_run and vm = sample_vm
          and args = ?args and fin = Finished and pipe = "''stdout''", THEN conjunct2])
      (simp_all add: sample_fc_simps)
  moreover have "fst (WriteMessage (ac_request sample_codec) req []) = None" for req
    by (simp add: WriteMessage_def sample_codec_def)
  moreover have "ac_un_response sample_codec (stream_bytes sample_codec (stream_msgs ''ab'' ?chunks (sx_exit sample_stream_run) ! 1)) =
      Inr \<lparr>gr_ID = ''ab'', gr_Error = [], gr_Result = ''two''\<rparr>"
    by (simp add: sample_codec_def stream_bytes_def stream_chunk_def)
  ultimately show ?thesis by (auto simp: timeout_notice_def)
qed

section \<open>No process is left behind\<close>

text \<open>
  C16. No firecracker process is ever left behind or lost: in every state that spawns (cold or from a
  snapshot, with whatever step failing), background snapshots, destroys and operations lead to, the
  processes started and not killed are exactly those of the VMs in the provider's table, each
  once.  The ids a spawn draws must not be in use.
\<close>

theorem firecracker_no_orphans:
  assumes "fc_reach pids cfg p"
  shows "alive pids p = mset (map (vm_process \<circ> snd) (fc_vms p)) \<and> distinct (map fst (fc_vms p))"
  using fc_reach_tidy [OF assms] by (simp add: fc_tidy_def procs_def)

definition sample_spawned :: "agent FirecrackerProvider" where
  "sample_spawned =
     snd (fc_Spawn (sample_fcenv\<lparr>fe_deliver := \<lambda>b g. (Inr (frame_of []), g)\<rparr>)
            \<lparr>so_Image = [], so_MemoryMB = 0, so_VCPUs = 2, so_DiskSizeMB = 0, so_Metadata = []\<rparr>
            (NewFirecrackerProvider sample_fc_config))"

lemma sample_reach: "fc_reach (\<lambda>cs c. Inr 4242) sample_fc_config sample_spawned"
  unfolding sample_spawned_def
  by (rule fc_reach.spawn [OF fc_reach.start])
    (simp_all add: sample_fcenv_def osenv.defs fresh_ids_def fc_running_def NewFirecrackerProvider_def)

lemma sample_spawned_vms: "map (vm_process \<circ> snd) (fc_vms sample_spawned) = [4242]"
  using ReadMessage_frame [of "[]" "[]"]
  by (simp add: sample_spawned_def fc_Spawn_def resolve_rootfs_def NewFirecrackerProvider_def sample_fc_config_def
      sample_fcenv_def osenv.defs getSnapshot_def snapshot_files_def path_exists_def ask_def sample_guest_os_def coldBoot_def
      take_cid_def prepare_dir_def copyFile_def runCmd_def run_out_def boot_vm_def waitForSocket_def vm_steps_def api_request_def
      waitForAgent_def HasPrefix_def conn_request_def fc_request_def WriteMessage_def sample_codec_def ReadTyped_def
      add_vm_def Let_def)

theorem firecracker_no_orphans_witness:
  "fc_reach (\<lambda>cs c. Inr 4242) sample_fc_config sample_spawned \<and> alive (\<lambda>cs c. Inr 4242) sample_spawned = {#4242#}"
  using firecracker_no_orphans [OF sample_reach] sample_reach sample_spawned_vms by simp

end
