(* ===== verification/Go_Numbers.thy ===== *)
theory Go_Numbers
  imports Go_Strings Metrics
begin

text \<open>
  The parsers and formatters of Go's \<open>strconv\<close> and \<open>strings\<close> that several components share:
  \<open>ParseInt\<close>, \<open>SplitN\<close>, \<open>ToUpper\<close> and the first field of a text.
\<close>

section \<open>Integers\<close>

definition split_sign :: "string \<Rightarrow> bool \<times> string" where
  "split_sign s = (if HasPrefix s ''-'' then (True, tl s) else if HasPrefix s ''+'' then (False, tl s) else (False, s))"

text \<open>
  \<open>strconv.ParseInt\<close> for a number of \<open>w\<close> bits, where \<open>digits\<close> reads the digits of the base: the value
  and whether there is no error.  A number that does not fit gives the nearest one that does.
\<close>

definition ParseInt :: "(string \<Rightarrow> nat option) \<Rightarrow> nat \<Rightarrow> string \<Rightarrow> int \<times> bool" where
  "ParseInt digits w s =
     (let (neg, ds) = split_sign s in
      case digits ds of
        None \<Rightarrow> (0, False)
      | Some k \<Rightarrow>
          (let n = (if neg then - int k else int k); lo = - (2 ^ (w - 1)); hi = 2 ^ (w - 1) - 1
           in (if n < lo then (lo, False) else if n > hi then (hi, False) else (n, True))))"

definition decimal :: "string \<Rightarrow> nat option" where
  "decimal ds = (if ds = [] \<or> \<not> list_all is_digit ds then None else Some (val_of_digits ds))"

definition parse_int64 :: "string \<Rightarrow> int option" where
  "parse_int64 s = (case ParseInt decimal 64 s of (n, ok) \<Rightarrow> if ok then Some n else None)"

lemma decimal_dec_nat [simp]: "decimal (dec_nat n) = Some n"
  using dec_nat_digits [of n] by (simp add: decimal_def list_all_iff)

lemma is_digit_not_sign: "is_digit c \<Longrightarrow> c \<noteq> CHR ''-'' \<and> c \<noteq> CHR ''+''"
  by (auto simp: is_digit_def)

lemma split_sign_digits: "\<forall>c\<in>set s. is_digit c \<Longrightarrow> split_sign s = (False, s)"
  using is_digit_not_sign by (cases s) (auto simp: split_sign_def HasPrefix_iff)

lemma parse_int64_Itoa: "- (2 ^ 63) \<le> n \<Longrightarrow> n < 2 ^ 63 \<Longrightarrow> parse_int64 (Itoa n) = Some n"
proof (cases "n < 0")
  case True
  assume "- (2 ^ 63) \<le> n" "n < 2 ^ 63"
  with True show ?thesis
    by (simp add: parse_int64_def ParseInt_def Itoa_def split_sign_def HasPrefix_iff)
next
  case False
  assume "- (2 ^ 63) \<le> n" "n < 2 ^ 63"
  moreover have "split_sign (dec_nat (nat n)) = (False, dec_nat (nat n))"
    by (rule split_sign_digits [OF dec_nat_digits])
  ultimately show ?thesis
    using False by (simp add: parse_int64_def ParseInt_def Itoa_def)
qed

section \<open>Texts\<close>

text \<open>\<open>strings.SplitN\<close> with a separator of one character.\<close>

fun split_n :: "nat \<Rightarrow> char \<Rightarrow> string \<Rightarrow> string list" where
  "split_n 0 c s = []"
| "split_n (Suc 0) c s = [s]"
| "split_n (Suc (Suc n)) c s =
     (case index_of c s of None \<Rightarrow> [s] | Some k \<Rightarrow> take k s # split_n (Suc n) c (drop (Suc k) s))"

text \<open>The text up to its first white space: the first of \<open>strings.Fields\<close> when it starts with none.\<close>

fun first_field :: "string \<Rightarrow> string" where
  "first_field [] = []"
| "first_field (c # s) = (if prefix_len go_spaces (c # s) > 0 then [] else c # first_field s)"

text \<open>\<open>strings.ToUpper\<close> on ASCII texts.\<close>

definition ToUpper :: "string \<Rightarrow> string" where
  "ToUpper s = map (\<lambda>c. if (of_char c :: nat) \<in> {97..122} then char_of (of_char c - 32 :: nat) else c) s"

lemma index_of_append: "c \<notin> set u \<Longrightarrow> index_of c (u @ c # v) = Some (length u)"
  by (induction u) auto

lemma split_n_append: "c \<notin> set u \<Longrightarrow> split_n (Suc (Suc n)) c (u @ c # v) = u # split_n (Suc n) c v"
  by (simp add: index_of_append)

end
