(* ===== verification/Provider_Docker.thy ===== *)
theory Provider_Docker
  imports Provider_Mock Go_Numbers
begin

text \<open>
  The docker provider (\<open>internal/providers/docker.go\<close>): a container per sandbox, driven through the
  API of the docker daemon.  The daemon and its client library are parameters (\<open>dkenv\<close>): functions of
  the calls made so far and of the call, which is logged.  The client's log of a command is its
  demultiplexed output; \<open>dk_late\<close> says whether the caller's deadline had passed after some calls.
\<close>

section \<open>The daemon\<close>

record DockerProviderConfig =
  dx_Runtime :: string
  dx_DefaultImage :: string
  dx_NetworkMode :: string
  dx_SeccompProfile :: string
  dx_ReadOnlyRootfs :: bool
  dx_Memory :: string
  dx_CPUs :: string
  dx_PidsLimit :: int
  dx_User :: string
  dx_DroppedCaps :: "string list"
  dx_AddedCaps :: "string list"
  dx_Tmpfs :: metadata
  dx_PreviewDomain :: string

text \<open>What a container is created with: the fields of \<open>container.Config\<close> and \<open>HostConfig\<close> that are set.\<close>

record container_config =
  cc_Image :: string
  cc_Cmd :: "string list"
  cc_WorkingDir :: string
  cc_Labels :: metadata
  cc_User :: string
  cc_Runtime :: string
  cc_NetworkMode :: string
  cc_ReadonlyRootfs :: bool
  cc_Memory :: int
  cc_NanoCPUs :: int
  cc_PidsLimit :: int
  cc_SecurityOpt :: "string list"
  cc_CapDrop :: "string list"
  cc_CapAdd :: "string list"
  cc_Tmpfs :: metadata

record exec_config =
  ec_Cmd :: "string list"
  ec_WorkingDir :: string
  ec_Env :: "string list"

datatype docker_call =
    DkPing
  | DkImageList
  | DkImagePull string
  | DkCreate container_config string
  | DkStart string
  | DkRemove string
  | DkStop string int
  | DkExecCreate string exec_config
  | DkExecAttach string
  | DkExecInspect string
  | DkCopyTo string string "(string \<times> int \<times> string) list"
  | DkCopyFrom string string
  | DkStatPath string string
  | DkInspect string
  | DkLogs string string
  | DkList
  | DkStats string

record stats_reply =
  sr_Usage :: u64
  sr_Limit :: u64
  sr_Stats :: "(string \<times> u64) list"

record inspect_reply =
  ir_Labels :: metadata
  ir_Image :: string
  ir_Status :: "string option"
  ir_Running :: bool
  ir_Paused :: bool
  ir_Restarting :: bool

record container_summary =
  cs_ID :: string
  cs_Names :: "string list"
  cs_Labels :: metadata
  cs_Image :: string
  cs_State :: string
  cs_Created :: int

record container_path_stat =
  pst_Size :: int
  pst_IsDir :: bool
  pst_ModTime :: string

text \<open>
  A reply is an error or what the call gives.  The output of a command is its two streams and whether
  reading them failed.
\<close>

record dkenv =
  dk_unit :: "docker_call list \<Rightarrow> docker_call \<Rightarrow> error option"
  dk_id :: "docker_call list \<Rightarrow> docker_call \<Rightarrow> error + string"
  dk_tags :: "docker_call list \<Rightarrow> docker_call \<Rightarrow> error + string list list"
  dk_output :: "docker_call list \<Rightarrow> docker_call \<Rightarrow> error + string \<times> string \<times> bool"
  dk_chunks :: "docker_call list \<Rightarrow> docker_call \<Rightarrow> error + (string \<times> string) list \<times> bool"
  dk_code :: "docker_call list \<Rightarrow> docker_call \<Rightarrow> error + int"
  dk_archive :: "docker_call list \<Rightarrow> docker_call \<Rightarrow> error + (error + string)"
  dk_pathstat :: "docker_call list \<Rightarrow> docker_call \<Rightarrow> error + container_path_stat"
  dk_inspect :: "docker_call list \<Rightarrow> docker_call \<Rightarrow> error + inspect_reply"
  dk_list :: "docker_call list \<Rightarrow> docker_call \<Rightarrow> error + container_summary list"
  dk_stats :: "docker_call list \<Rightarrow> docker_call \<Rightarrow> error + stats_reply"
  dk_late :: "docker_call list \<Rightarrow> bool"
  dk_notfound :: "error \<Rightarrow> bool"
  dk_metadata :: "metadata \<Rightarrow> string"
  dk_unmetadata :: "string \<Rightarrow> metadata"
  dk_cpus :: "string \<Rightarrow> int option"
  dk_tar :: "string \<Rightarrow> int \<Rightarrow> error option"
  dk_time :: "int \<Rightarrow> string"
  dk_random :: "docker_call list \<Rightarrow> string"

record dockerSandbox =
  ds_id :: string
  ds_image :: string
  ds_state :: string

record DockerProvider =
  dp_sandboxes :: "(string \<times> dockerSandbox) list"
  dp_config :: DockerProviderConfig
  dp_calls :: "docker_call list"

definition NewDockerProvider :: "DockerProviderConfig \<Rightarrow> DockerProvider" where
  "NewDockerProvider cfg = \<lparr>dp_sandboxes = [], dp_config = cfg, dp_calls = []\<rparr>"

definition dk :: "(docker_call list \<Rightarrow> docker_call \<Rightarrow> 'a) \<Rightarrow> docker_call \<Rightarrow> DockerProvider \<Rightarrow> 'a \<times> DockerProvider" where
  "dk reply c d = (reply (dp_calls d) c, d\<lparr>dp_calls := dp_calls d @ [c]\<rparr>)"

section \<open>Numbers and paths\<close>

text \<open>The order in which the suffixes are tried does not matter: a string has at most one.\<close>

definition memory_unit :: "char \<Rightarrow> int option" where
  "memory_unit c =
     (if c = CHR ''k'' then Some 1024 else if c = CHR ''m'' then Some (1024 * 1024)
      else if c = CHR ''g'' then Some (1024 * 1024 * 1024) else None)"

definition parseMemoryBytes :: "string \<Rightarrow> int" where
  "parseMemoryBytes s =
     (if s = [] then 0
      else
        (let s = TrimSpace (ToLower s) in
         if s = ''0'' then 0
         else
           (case (if s = [] then None else memory_unit (last s)) of
              Some mult \<Rightarrow> (case parse_int64 (butlast s) of None \<Rightarrow> 0 | Some n \<Rightarrow> i64 (n * mult))
            | None \<Rightarrow> (case parse_int64 s of None \<Rightarrow> 0 | Some n \<Rightarrow> n))))"

text \<open>\<open>dk_cpus\<close> is \<open>ParseFloat\<close> and the conversion of a billion times its value.\<close>

definition parseCPUs :: "dkenv \<Rightarrow> string \<Rightarrow> int" where
  "parseCPUs E s = (if s = [] \<or> s = ''0'' then 0 else case dk_cpus E s of None \<Rightarrow> 0 | Some n \<Rightarrow> n)"

definition cleanContainerPath :: "string \<Rightarrow> string" where
  "cleanContainerPath p = Clean (if \<not> HasPrefix p [slash] then slash # p else p)"

definition scopedWorkspacePath :: "string \<Rightarrow> string \<Rightarrow> string" where
  "scopedWorkspacePath sid p =
     (let base = ''/workspace/'' @ sid; clean = Clean (slash # p)
      in if HasPrefix clean (base @ [slash]) \<or> clean = base then clean else base @ [slash] @ Base clean)"

definition buildSecurityOpts :: "DockerProviderConfig \<Rightarrow> string list" where
  "buildSecurityOpts cfg =
     (if dx_SeccompProfile cfg = [] \<or> dx_SeccompProfile cfg = ''default'' then [] else [''seccomp='' @ dx_SeccompProfile cfg])"

definition dockerContainerState :: "string \<Rightarrow> string" where
  "dockerContainerState st =
     (if st \<in> {''running'', ''paused'', ''restarting''} then st
      else if st = ''created'' then ''creating''
      else if st \<in> {''exited'', ''dead'', ''removing''} then ''stopped''
      else if st = [] then ''unknown'' else st)"

text \<open>A line of \<open>stat\<close>: name, size, mode, kind, time, separated by bars.\<close>

definition stat_line :: "dkenv \<Rightarrow> string \<Rightarrow> FileInfo list" where
  "stat_line E line =
     (let line = TrimSpace line in
      if line = [] then []
      else (case split_n 5 (CHR ''|'') line of
              [n, sz, md, ty, ep] \<Rightarrow>
                [\<lparr>fi_Path = n, fi_Size = fst (ParseInt decimal 64 sz), fi_Mode = md,
                  fi_IsDir = contains ''directory'' ty,
                  fi_ModTime = dk_time E (fst (ParseInt decimal 64 ep))\<rparr>]
            | _ \<Rightarrow> []))"

definition parseStatOutput :: "dkenv \<Rightarrow> string \<Rightarrow> FileInfo list" where
  "parseStatOutput E out = concat (map (stat_line E) (split_on newline (TrimSpace out)))"

section \<open>Commands in a container\<close>

definition sh_exec :: "string \<Rightarrow> exec_config" where
  "sh_exec cmd = \<lparr>ec_Cmd = [''sh'', ''-c'', cmd], ec_WorkingDir = [], ec_Env = []\<rparr>"

definition containerExec :: "dkenv \<Rightarrow> string \<Rightarrow> string \<Rightarrow> DockerProvider \<Rightarrow> (error + int \<times> string \<times> string) \<times> DockerProvider" where
  "containerExec E sid cmd d =
     (let (r, d) = dk (dk_id E) (DkExecCreate sid (sh_exec cmd)) d in
      case r of
        Inl e \<Rightarrow> (Inl e, d)
      | Inr x \<Rightarrow>
     (let (r, d) = dk (dk_output E) (DkExecAttach x) d in
      case r of
        Inl e \<Rightarrow> (Inl e, d)
      | Inr (out, err, broken) \<Rightarrow>
          (let (r, d) = dk (dk_code E) (DkExecInspect x) d
           in (case r of Inl e \<Rightarrow> Inl e | Inr code \<Rightarrow> Inr (code, out, err), d))))"

definition rememberSandbox :: "string \<Rightarrow> string \<Rightarrow> string \<Rightarrow> DockerProvider \<Rightarrow> DockerProvider" where
  "rememberSandbox sid img st d =
     d\<lparr>dp_sandboxes := al_put sid \<lparr>ds_id = sid, ds_image = img, ds_state = (if st = [] then ''running'' else st)\<rparr> (dp_sandboxes d)\<rparr>"

text \<open>A sandbox that is not in the table is looked up in the daemon.\<close>

definition docker_getSandbox :: "dkenv \<Rightarrow> string \<Rightarrow> DockerProvider \<Rightarrow> error option \<times> DockerProvider" where
  "docker_getSandbox E sid d =
     (case map_of (dp_sandboxes d) sid of
        Some sb \<Rightarrow> (None, d)
      | None \<Rightarrow>
          (let (r, d) = dk (dk_inspect E) (DkInspect sid) d in
           case r of
             Inl e \<Rightarrow>
               (Some (if dk_notfound E e then SandboxNotFoundError sid
                      else wrap_err (''inspect container '' @ Quote sid) e), d)
           | Inr i \<Rightarrow>
               if map_of (ir_Labels i) ''stacyvm'' \<noteq> Some ''true'' then (Some (SandboxNotFoundError sid), d)
               else
                 (let l = (case map_of (ir_Labels i) ''stacyvm.image'' of None \<Rightarrow> [] | Some x \<Rightarrow> x);
                      img = (if l = [] then ir_Image i else l);
                      st = (case ir_Status i of None \<Rightarrow> ''unknown'' | Some x \<Rightarrow> dockerContainerState x)
                  in (None, rememberSandbox sid img st d))))"

section \<open>Spawn\<close>

definition ensureImage :: "dkenv \<Rightarrow> string \<Rightarrow> DockerProvider \<Rightarrow> error option \<times> DockerProvider" where
  "ensureImage E img d =
     (let searchName = (if CHR '':'' \<in> set img then img else img @ '':latest'');
          (r, d) = dk (dk_tags E) DkImageList d;
          found = (case r of Inl e \<Rightarrow> False | Inr is \<Rightarrow> list_ex (list_ex (\<lambda>t. t = img \<or> t = searchName)) is) in
      if found then (None, d)
      else
        (let (r, d) = dk (dk_output E) (DkImagePull img) d
         in (case r of
               Inl e \<Rightarrow> Some (wrap_err ''pulling image'' e)
             | Inr (out, err, broken) \<Rightarrow>
                 if broken then Some (Err ErrOther ''consuming pull stream (partial pull)'') else None, d)))"

definition preview_labels :: "string \<Rightarrow> string \<Rightarrow> metadata" where
  "preview_labels sid domain =
     (if domain = [] then []
      else [(''traefik.enable'', ''true''),
            (''traefik.http.routers.'' @ sid @ ''-3000.rule'', ''Host(`3000-'' @ sid @ ''.'' @ domain @ ''`)''),
            (''traefik.http.services.'' @ sid @ ''-3000.loadbalancer.server.port'', ''3000'')])"

definition container_of :: "dkenv \<Rightarrow> DockerProviderConfig \<Rightarrow> SpawnOptions \<Rightarrow> string \<Rightarrow> string \<Rightarrow> container_config" where
  "container_of E cfg opts img sid =
     \<lparr>cc_Image = img, cc_Cmd = [''sh'', ''-c'', ''sleep infinity 2>/dev/null || tail -f /dev/null''],
      cc_WorkingDir = ''/workspace'',
      cc_Labels = [(''stacyvm'', ''true''), (''stacyvm.provider'', ''docker''), (''stacyvm.sandbox'', sid), (''stacyvm.image'', img)] @
        (if so_Metadata opts \<noteq> [] then [(''stacyvm.metadata'', dk_metadata E (so_Metadata opts))] else []) @
        preview_labels sid (dx_PreviewDomain cfg),
      cc_User = dx_User cfg, cc_Runtime = dx_Runtime cfg,
      cc_NetworkMode = (if dx_NetworkMode cfg = [] then ''none'' else dx_NetworkMode cfg),
      cc_ReadonlyRootfs = dx_ReadOnlyRootfs cfg,
      cc_Memory = (if so_MemoryMB opts > 0 then i64 (so_MemoryMB opts * 1024 * 1024) else parseMemoryBytes (dx_Memory cfg)),
      cc_NanoCPUs = (if so_VCPUs opts > 0 then i64 (so_VCPUs opts * 1000000000) else parseCPUs E (dx_CPUs cfg)),
      cc_PidsLimit = (if dx_PidsLimit cfg \<le> 0 then 256 else dx_PidsLimit cfg),
      cc_SecurityOpt = buildSecurityOpts cfg, cc_CapDrop = dx_DroppedCaps cfg, cc_CapAdd = dx_AddedCaps cfg,
      cc_Tmpfs = dx_Tmpfs cfg\<rparr>"

definition spawn_image :: "DockerProviderConfig \<Rightarrow> SpawnOptions \<Rightarrow> string" where
  "spawn_image cfg opts =
     (let img = (if so_Image opts = [] then dx_DefaultImage cfg else so_Image opts)
      in if img = [] then ''alpine:latest'' else img)"

definition docker_id :: "string \<Rightarrow> string" where
  "docker_id bytes = ''sb-'' @ hex_bytes bytes"

definition docker_Spawn :: "dkenv \<Rightarrow> SpawnOptions \<Rightarrow> DockerProvider \<Rightarrow> (error + string) \<times> DockerProvider" where
  "docker_Spawn E opts d =
     (let img = spawn_image (dp_config d) opts; (r, d) = ensureImage E img d in
      case r of
        Some e \<Rightarrow> (Inl (wrap_err (''ensure image '' @ Quote img) e), d)
      | None \<Rightarrow>
     (let sid = docker_id (dk_random E (dp_calls d));
          (r, d) = dk (dk_id E) (DkCreate (container_of E (dp_config d) opts img sid) sid) d in
      case r of
        Inl e \<Rightarrow> (Inl (wrap_err ''creating container'' e), d)
      | Inr cid \<Rightarrow>
     (let (r, d) = dk (dk_unit E) (DkStart cid) d in
      case r of
        Some e \<Rightarrow> (Inl (wrap_err ''starting container'' e), snd (dk (dk_unit E) (DkRemove cid) d))
      | None \<Rightarrow>
          (let (x, d) = containerExec E sid ''mkdir -p /workspace'' d
           in (Inr sid, d\<lparr>dp_sandboxes := al_put sid \<lparr>ds_id = sid, ds_image = img, ds_state = ''running''\<rparr> (dp_sandboxes d)\<rparr>)))))"

section \<open>Commands and files\<close>

definition mapToEnvSlice :: "metadata \<Rightarrow> string list" where
  "mapToEnvSlice env = map (\<lambda>(k, v). k @ ''='' @ v) env"

definition docker_exec_config :: "ExecOptions \<Rightarrow> string list \<Rightarrow> exec_config" where
  "docker_exec_config opts cmd =
     \<lparr>ec_Cmd = cmd, ec_WorkingDir = (if xo_WorkDir opts = [] then ''/workspace'' else xo_WorkDir opts), ec_Env = mapToEnvSlice (xo_Env opts)\<rparr>"

text \<open>An error after the deadline is the timeout.\<close>

definition or_timeout :: "dkenv \<Rightarrow> string \<Rightarrow> string \<Rightarrow> error \<Rightarrow> DockerProvider \<Rightarrow> error" where
  "or_timeout E sid what e d = (if dk_late E (dp_calls d) then ExecTimeoutError sid else wrap_err what e)"

definition docker_Exec ::
  "dkenv \<Rightarrow> string \<Rightarrow> ExecOptions \<Rightarrow> DockerProvider \<Rightarrow> (error + int \<times> string \<times> string) \<times> DockerProvider" where
  "docker_Exec E sid opts d =
     (let (r, d) = docker_getSandbox E sid d in
      case r of
        Some e \<Rightarrow> (Inl e, d)
      | None \<Rightarrow>
     (case buildExecCommand opts of
        Inl e \<Rightarrow> (Inl e, d)
      | Inr cmd \<Rightarrow>
     (let (r, d) = dk (dk_id E) (DkExecCreate sid (docker_exec_config opts cmd)) d in
      case r of
        Inl e \<Rightarrow> (Inl (or_timeout E sid ''exec create'' e d), d)
      | Inr x \<Rightarrow>
     (let (r, d) = dk (dk_output E) (DkExecAttach x) d in
      case r of
        Inl e \<Rightarrow> (Inl (or_timeout E sid ''exec attach'' e d), d)
      | Inr (out, err, broken) \<Rightarrow>
          if broken \<and> dk_late E (dp_calls d) then (Inl (ExecTimeoutError sid), d)
          else
            (let (r, d) = dk (dk_code E) (DkExecInspect x) d
             in (case r of Inl e \<Rightarrow> Inl (or_timeout E sid ''exec inspect'' e d) | Inr code \<Rightarrow> Inr (code, out, err), d))))))"

definition docker_ExecStream ::
  "dkenv \<Rightarrow> string \<Rightarrow> ExecOptions \<Rightarrow> DockerProvider \<Rightarrow> (error + (string \<times> string) list) \<times> DockerProvider" where
  "docker_ExecStream E sid opts d =
     (let (r, d) = docker_getSandbox E sid d in
      case r of
        Some e \<Rightarrow> (Inl e, d)
      | None \<Rightarrow>
     (case buildExecCommand opts of
        Inl e \<Rightarrow> (Inl e, d)
      | Inr cmd \<Rightarrow>
     (let (r, d) = dk (dk_id E) (DkExecCreate sid (docker_exec_config opts cmd)) d in
      case r of
        Inl e \<Rightarrow> (Inl (wrap_err ''exec create'' e), d)
      | Inr x \<Rightarrow>
     (let (r, d) = dk (dk_chunks E) (DkExecAttach x) d in
      case r of
        Inl e \<Rightarrow> (Inl (wrap_err ''exec attach'' e), d)
      | Inr (chunks, room) \<Rightarrow>
          (Inr (chunks @ (if dk_late E (dp_calls d) \<and> room then [(''stderr'', err_msg (ExecTimeoutError sid))] else [])), d)))))"

text \<open>The archive holds one file: its name, mode and content.  The mode is parsed with 32 bits.\<close>

definition write_mode :: "string \<Rightarrow> int" where
  "write_mode md = (case ParseInt (\<lambda>ds. if ds = [] then None else octal_value 0 ds) 32 md of (n, ok) \<Rightarrow> if ok then n else 420)"

definition docker_WriteFile ::
  "dkenv \<Rightarrow> string \<Rightarrow> string \<Rightarrow> error + string \<Rightarrow> string \<Rightarrow> DockerProvider \<Rightarrow> error option \<times> DockerProvider" where
  "docker_WriteFile E sid path content md d =
     (let (r, d) = docker_getSandbox E sid d in
      case r of
        Some e \<Rightarrow> (Some e, d)
      | None \<Rightarrow>
     (let path = cleanContainerPath path; dir = Dir path in
      case content of
        Inl e \<Rightarrow> (Some (wrap_err ''reading content'' e), d)
      | Inr data \<Rightarrow>
          (let (x, d) = containerExec E sid (''mkdir -p '' @ shellQuoteArg dir) d
           in (case dk_tar E (Base path) (write_mode md) of
                 Some e \<Rightarrow> (Some (wrap_err ''tar header'' e), d)
               | None \<Rightarrow> dk (dk_unit E) (DkCopyTo sid dir [(Base path, write_mode md, data)]) d))))"

definition docker_ReadFile :: "dkenv \<Rightarrow> string \<Rightarrow> string \<Rightarrow> DockerProvider \<Rightarrow> (error + string) \<times> DockerProvider" where
  "docker_ReadFile E sid path d =
     (let (r, d) = docker_getSandbox E sid d in
      case r of
        Some e \<Rightarrow> (Inl e, d)
      | None \<Rightarrow>
     (let (r, d) = dk (dk_archive E) (DkCopyFrom sid (cleanContainerPath path)) d
      in (case r of
            Inl e \<Rightarrow> Inl (wrap_err ''copy from container'' e)
          | Inr (Inl e) \<Rightarrow> Inl (wrap_err ''reading tar entry'' e)
          | Inr (Inr data) \<Rightarrow> Inr data, d)))"

definition list_command :: "string \<Rightarrow> string" where
  "list_command path =
     ''find '' @ shellQuoteArg path @
     '' -maxdepth 1 -mindepth 1 2>/dev/null | while IFS= read -r f; do stat -c '' @ shellQuoteArg ''%n|%s|%a|%F|%Y'' @
     '' '' @ [dquote] @ ''$f'' @ [dquote] @ '' 2>/dev/null; done''"

definition docker_ListFiles :: "dkenv \<Rightarrow> string \<Rightarrow> string \<Rightarrow> DockerProvider \<Rightarrow> (error + FileInfo list) \<times> DockerProvider" where
  "docker_ListFiles E sid path d =
     (let (r, d) = docker_getSandbox E sid d in
      case r of
        Some e \<Rightarrow> (Inl e, d)
      | None \<Rightarrow>
     (let (r, d) = containerExec E sid (list_command (cleanContainerPath path)) d
      in (case r of Inl e \<Rightarrow> Inl (wrap_err ''listing directory'' e) | Inr (code, out, err) \<Rightarrow> Inr (parseStatOutput E out), d)))"

text \<open>A command of which only the success matters.\<close>

definition docker_command ::
  "dkenv \<Rightarrow> string \<Rightarrow> string \<Rightarrow> string \<Rightarrow> string \<Rightarrow> DockerProvider \<Rightarrow> error option \<times> DockerProvider" where
  "docker_command E sid what prog cmd d =
     (let (r, d) = docker_getSandbox E sid d in
      case r of
        Some e \<Rightarrow> (Some e, d)
      | None \<Rightarrow>
     (let (r, d) = containerExec E sid cmd d
      in (case r of
            Inl e \<Rightarrow> Some (wrap_err what e)
          | Inr (code, out, err) \<Rightarrow>
              if code \<noteq> 0 then Some (Err ErrOther (prog @ '' failed (exit '' @ Itoa code @ ''): '' @ err)) else None, d)))"

definition delete_command :: "bool \<Rightarrow> string \<Rightarrow> string" where
  "delete_command recursive path = ''rm '' @ (if recursive then ''-rf'' else ''-f'') @ '' '' @ shellQuoteArg path"

definition docker_DeleteFile :: "dkenv \<Rightarrow> string \<Rightarrow> string \<Rightarrow> bool \<Rightarrow> DockerProvider \<Rightarrow> error option \<times> DockerProvider" where
  "docker_DeleteFile E sid path recursive d =
     docker_command E sid ''delete file'' ''rm'' (delete_command recursive (cleanContainerPath path)) d"

definition move_command :: "string \<Rightarrow> string \<Rightarrow> string" where
  "move_command old new =
     ''mkdir -p '' @ shellQuoteArg (Dir new) @ '' && mv '' @ shellQuoteArg old @ '' '' @ shellQuoteArg new"

definition docker_MoveFile :: "dkenv \<Rightarrow> string \<Rightarrow> string \<Rightarrow> string \<Rightarrow> DockerProvider \<Rightarrow> error option \<times> DockerProvider" where
  "docker_MoveFile E sid old new d =
     docker_command E sid ''move file'' ''mv'' (move_command (cleanContainerPath old) (cleanContainerPath new)) d"

definition chmod_command :: "string \<Rightarrow> string \<Rightarrow> string" where
  "chmod_command md path = ''chmod '' @ shellQuoteArg md @ '' '' @ shellQuoteArg path"

definition docker_ChmodFile :: "dkenv \<Rightarrow> string \<Rightarrow> string \<Rightarrow> string \<Rightarrow> DockerProvider \<Rightarrow> error option \<times> DockerProvider" where
  "docker_ChmodFile E sid path md d =
     docker_command E sid ''chmod file'' ''chmod'' (chmod_command md (cleanContainerPath path)) d"

definition stat_command :: "string \<Rightarrow> string" where
  "stat_command path = ''stat -c '' @ shellQuoteArg ''%a %F %Y'' @ '' '' @ shellQuoteArg path"

text \<open>The first word of the output, if the command succeeded.\<close>

definition stat_mode :: "error + int \<times> string \<times> string \<Rightarrow> string" where
  "stat_mode r =
     (case r of
        Inl e \<Rightarrow> []
      | Inr (code, out, err) \<Rightarrow> if code = 0 then first_field (TrimSpace out) else [])"

definition docker_StatFile :: "dkenv \<Rightarrow> string \<Rightarrow> string \<Rightarrow> DockerProvider \<Rightarrow> (error + FileInfo) \<times> DockerProvider" where
  "docker_StatFile E sid path d =
     (let (r, d) = docker_getSandbox E sid d in
      case r of
        Some e \<Rightarrow> (Inl e, d)
      | None \<Rightarrow>
     (let path = cleanContainerPath path; (r, d) = dk (dk_pathstat E) (DkStatPath sid path) d in
      case r of
        Inl e \<Rightarrow> (Inl (wrap_err ''stat path'' e), d)
      | Inr st \<Rightarrow>
          (let (r, d) = containerExec E sid (stat_command path) d
           in (Inr \<lparr>fi_Path = path, fi_Size = pst_Size st, fi_Mode = stat_mode r, fi_IsDir = pst_IsDir st,
                    fi_ModTime = pst_ModTime st\<rparr>, d))))"

definition glob_command :: string where
  "glob_command =
     ''sh -c '' @ shellQuoteArg (''for f in $GLOB_PATTERN; do [ -e '' @ [dquote] @ ''$f'' @ [dquote] @ '' ] && echo '' @
        [dquote] @ ''$f'' @ [dquote] @ ''; done 2>/dev/null'')"

definition docker_GlobFiles :: "dkenv \<Rightarrow> string \<Rightarrow> string \<Rightarrow> DockerProvider \<Rightarrow> (error + string list) \<times> DockerProvider" where
  "docker_GlobFiles E sid pattern d =
     (let (r, d) = docker_getSandbox E sid d in
      case r of
        Some e \<Rightarrow> (Inl e, d)
      | None \<Rightarrow>
     (let (r, d) = dk (dk_id E) (DkExecCreate sid \<lparr>ec_Cmd = [''sh'', ''-c'', glob_command], ec_WorkingDir = [],
                     ec_Env = [''GLOB_PATTERN='' @ pattern]\<rparr>) d in
      case r of
        Inl e \<Rightarrow> (Inl (wrap_err ''glob exec create'' e), d)
      | Inr x \<Rightarrow>
          (let (r, d) = dk (dk_output E) (DkExecAttach x) d
           in (case r of
                 Inl e \<Rightarrow> Inl (wrap_err ''glob exec attach'' e)
               | Inr (out, err, broken) \<Rightarrow>
                   Inr (filter (\<lambda>l. l \<noteq> []) (map TrimSpace (split_on newline (TrimSpace out)))), d))))"

section \<open>State, end, console\<close>

definition docker_Healthy :: "dkenv \<Rightarrow> DockerProvider \<Rightarrow> bool \<times> DockerProvider" where
  "docker_Healthy E d = (let (r, d) = dk (dk_unit E) DkPing d in (r = None, d))"

definition docker_Status :: "dkenv \<Rightarrow> string \<Rightarrow> DockerProvider \<Rightarrow> (error + SandboxStatus) \<times> DockerProvider" where
  "docker_Status E sid d =
     (let (r, d) = dk (dk_inspect E) (DkInspect sid) d
      in (case r of
            Inl e \<Rightarrow> Inl (if dk_notfound E e then SandboxNotFoundError sid else wrap_err (''inspect container '' @ Quote sid) e)
          | Inr i \<Rightarrow>
              Inr \<lparr>st_ID = sid,
                   st_State = (if ir_Status i = None then ''unknown'' else if ir_Running i then ''running''
                               else if ir_Paused i then ''paused'' else if ir_Restarting i then ''restarting'' else ''stopped'')\<rparr>, d))"

definition docker_Destroy :: "dkenv \<Rightarrow> string \<Rightarrow> DockerProvider \<Rightarrow> error option \<times> DockerProvider" where
  "docker_Destroy E sid d =
     (let d = d\<lparr>dp_sandboxes := al_del sid (dp_sandboxes d)\<rparr>;
          (x, d) = dk (dk_unit E) (DkStop sid 5) d;
          (r, d) = dk (dk_unit E) (DkRemove sid) d
      in (case r of
            None \<Rightarrow> None
          | Some e \<Rightarrow> Some (if dk_notfound E e then SandboxNotFoundError sid else wrap_err (''removing container '' @ Quote sid) e), d))"

text \<open>The memory a container uses, less its page cache, and its limit; the processor share is left out.\<close>

definition memory_usage :: "stats_reply \<Rightarrow> u64" where
  "memory_usage r =
     (let less = (\<lambda>k. case map_of (sr_Stats r) k of None \<Rightarrow> None
                     | Some c \<Rightarrow> if c \<le> sr_Usage r then Some (sr_Usage r - c) else None) in
      case less ''cache'' of
        Some n \<Rightarrow> n
      | None \<Rightarrow> (case less ''file'' of Some n \<Rightarrow> n | None \<Rightarrow> sr_Usage r))"

definition docker_Stats :: "dkenv \<Rightarrow> string \<Rightarrow> DockerProvider \<Rightarrow> (error + u64 \<times> u64) \<times> DockerProvider" where
  "docker_Stats E sid d =
     (let (r, d) = docker_getSandbox E sid d in
      case r of
        Some e \<Rightarrow> (Inl e, d)
      | None \<Rightarrow>
     (let (r, d) = dk (dk_stats E) (DkStats sid) d
      in (case r of Inl e \<Rightarrow> Inl e | Inr v \<Rightarrow> Inr (memory_usage v, sr_Limit v), d)))"

definition docker_ConsoleLog :: "dkenv \<Rightarrow> string \<Rightarrow> int \<Rightarrow> DockerProvider \<Rightarrow> (error + string list) \<times> DockerProvider" where
  "docker_ConsoleLog E sid n d =
     (let (r, d) = docker_getSandbox E sid d in
      case r of
        Some e \<Rightarrow> (Inl e, d)
      | None \<Rightarrow>
     (let (r, d) = dk (dk_output E) (DkLogs sid (if n > 0 then Itoa n else ''all'')) d
      in (case r of
            Inl e \<Rightarrow> Inl (wrap_err ''container logs'' e)
          | Inr (out, err, broken) \<Rightarrow> Inr (filter (\<lambda>l. l \<noteq> []) (split_on newline (out @ err))), d)))"

definition label_of :: "string \<Rightarrow> metadata \<Rightarrow> string" where
  "label_of k m = (case map_of m k of None \<Rightarrow> [] | Some v \<Rightarrow> v)"

definition runtime_sandbox :: "dkenv \<Rightarrow> container_summary \<Rightarrow> RuntimeSandbox" where
  "runtime_sandbox E c =
     (let l = label_of ''stacyvm.sandbox'' (cs_Labels c);
          sid = (if l = [] \<and> cs_Names c \<noteq> [] then TrimPrefix (hd (cs_Names c)) [slash] else l);
          sid = (if sid = [] then cs_ID c else sid);
          img = (if label_of ''stacyvm.image'' (cs_Labels c) = [] then cs_Image c else label_of ''stacyvm.image'' (cs_Labels c));
          md = label_of ''stacyvm.metadata'' (cs_Labels c)
      in \<lparr>rs_ID = sid, rs_State = dockerContainerState (cs_State c), rs_Provider = ''docker'', rs_Image = img,
          rs_CreatedAt = cs_Created c, rs_Metadata = (if md = [] then [] else dk_unmetadata E md)\<rparr>)"

definition ListRuntimeSandboxes :: "dkenv \<Rightarrow> DockerProvider \<Rightarrow> (error + RuntimeSandbox list) \<times> DockerProvider" where
  "ListRuntimeSandboxes E d =
     (let (r, d) = dk (dk_list E) DkList d in
      case r of
        Inl e \<Rightarrow> (Inl (wrap_err ''list stacyvm containers'' e), d)
      | Inr cs \<Rightarrow>
          (let rs = map (runtime_sandbox E) cs
           in (Inr rs, fold (\<lambda>r. rememberSandbox (rs_ID r) (rs_Image r) (rs_State r)) rs d)))"

end
