(* ===== verification/Provider_Docker_Laws.thy ===== *)
theory Provider_Docker_Laws
  imports Provider_Docker
begin

text \<open>
  What the docker provider asks of the daemon: commands whose words are the ones meant, on the
  container of the sandbox alone; and how its table of sandboxes relates to the containers the
  daemon has, before and after a restart of the process.
\<close>

section \<open>The operations of a sandbox\<close>

fun docker_guest :: "dkenv \<Rightarrow> guest_op \<Rightarrow> string \<Rightarrow> DockerProvider \<Rightarrow> error option \<times> DockerProvider" where
  "docker_guest E (GExec opts) sid d = failure (docker_Exec E sid opts d)"
| "docker_guest E (GExecStream opts) sid d = failure (docker_ExecStream E sid opts d)"
| "docker_guest E (GWriteFile p c md) sid d = docker_WriteFile E sid p c md d"
| "docker_guest E (GReadFile p) sid d = failure (docker_ReadFile E sid p d)"
| "docker_guest E (GListFiles p) sid d = failure (docker_ListFiles E sid p d)"
| "docker_guest E (GDeleteFile p rc) sid d = docker_DeleteFile E sid p rc d"
| "docker_guest E (GMoveFile p q) sid d = docker_MoveFile E sid p q d"
| "docker_guest E (GChmodFile p md) sid d = docker_ChmodFile E sid p md d"
| "docker_guest E (GStatFile p) sid d = failure (docker_StatFile E sid p d)"
| "docker_guest E (GGlobFiles p) sid d = failure (docker_GlobFiles E sid p d)"
| "docker_guest E (GConsoleLog n) sid d = failure (docker_ConsoleLog E sid n d)"

lemmas docker_guest_defs = docker_Exec_def docker_ExecStream_def docker_WriteFile_def docker_ReadFile_def
  docker_ListFiles_def docker_command_def docker_DeleteFile_def docker_MoveFile_def docker_ChmodFile_def
  docker_StatFile_def docker_GlobFiles_def docker_ConsoleLog_def

text \<open>Calls that were added to the log all satisfy a predicate.\<close>

definition extends :: "(docker_call \<Rightarrow> bool) \<Rightarrow> DockerProvider \<Rightarrow> DockerProvider \<Rightarrow> bool" where
  "extends P d d' \<longleftrightarrow> (\<exists>cs. dp_calls d' = dp_calls d @ cs \<and> list_all P cs) \<and> dp_config d' = dp_config d"

lemma extends_refl [simp]: "extends P d d"
  by (simp add: extends_def)

lemma extends_trans: "extends P d d' \<Longrightarrow> extends P d' d'' \<Longrightarrow> extends P d d''"
  by (auto simp: extends_def)

lemma extends_mono: "extends P d d' \<Longrightarrow> (\<And>c. P c \<Longrightarrow> Q c) \<Longrightarrow> extends Q d d'"
  by (auto simp: extends_def list_all_iff)

lemma extends_dk: "P c \<Longrightarrow> extends P d (snd (dk f c d))"
  by (simp add: extends_def dk_def)

lemma dk_fields [simp]: "dp_sandboxes (snd (dk f c d)) = dp_sandboxes d" "dp_config (snd (dk f c d)) = dp_config d"
  "dp_calls (snd (dk f c d)) = dp_calls d @ [c]" "fst (dk f c d) = f (dp_calls d) c"
  by (simp_all add: dk_def)

lemma rememberSandbox_fields [simp]:
  "dp_calls (rememberSandbox sid img st d) = dp_calls d" "dp_config (rememberSandbox sid img st d) = dp_config d"
  by (simp_all add: rememberSandbox_def)

lemma extends_remember [simp]: "extends P d0 (rememberSandbox sid img st d) = extends P d0 d"
  by (simp add: extends_def)

lemma extends_getSandbox: "P (DkInspect sid) \<Longrightarrow> extends P d (snd (docker_getSandbox E sid d))"
  by (auto simp: docker_getSandbox_def dk_def extends_def Let_def split: option.split sum.split)

lemma extends_containerExec:
  assumes "P (DkExecCreate sid (sh_exec cmd))" and "\<And>x. P (DkExecAttach x)" and "\<And>x. P (DkExecInspect x)"
  shows "extends P d (snd (containerExec E sid cmd d))"
  using assms by (auto simp: containerExec_def dk_def extends_def Let_def split: sum.split)

text \<open>Rules that walk through an operation call by call.\<close>

lemma extends_bind:
  assumes "extends P d (snd (f d))" and "\<And>r d'. extends P d' (snd (rest r d'))"
  shows "extends P d (snd (let (r, d) = f d in rest r d))"
  using assms extends_trans by (auto split: prod.split)

lemma extends_lookup:
  assumes "P (DkInspect sid)" and "\<And>d'. extends P d' (snd (rest d'))"
  shows "extends P d (snd (let (r, d) = docker_getSandbox E sid d in case r of Some e \<Rightarrow> (err e, d) | None \<Rightarrow> rest d))"
  by (rule extends_bind) (use assms extends_getSandbox in \<open>auto split: option.split\<close>)

lemma extends_let: "extends P d (snd (rest v)) \<Longrightarrow> extends P d (snd (let x = v in rest x))"
  by simp

lemmas extends_case = extends_bind [unfolded Let_def]

lemmas extends_steps = extends_lookup extends_bind extends_dk extends_containerExec

section \<open>Commands\<close>

text \<open>
  The command lines that the two shells of a list \<open>a && b\<close> get: \<open>&&\<close> separates them outside quotes.
\<close>

fun and_parts :: "sh_mode \<Rightarrow> string \<Rightarrow> string \<Rightarrow> string list" where
  "and_parts md acc [] = [acc]"
| "and_parts Single acc (c # cs) = and_parts (if c = squote then Bare else Single) (acc @ [c]) cs"
| "and_parts Double acc (c # cs) = and_parts (if c = dquote then Bare else Double) (acc @ [c]) cs"
| "and_parts Bare acc (c # cs) =
     (if c = CHR ''&'' \<and> take 1 cs = ''&'' then acc # and_parts Bare [] (drop 1 cs)
      else and_parts (if c = squote then Single else if c = dquote then Double else Bare) (acc @ [c]) cs)"

definition sh_list :: "string \<Rightarrow> string list option list" where
  "sh_list line = map sh_words (and_parts Bare [] line)"

lemma and_parts_single:
  "and_parts Single acc (concat (map (\<lambda>c. if c = squote then [squote, dquote, squote, dquote, squote] else [c]) s) @ squote # t)
     = and_parts Bare (acc @ concat (map (\<lambda>c. if c = squote then [squote, dquote, squote, dquote, squote] else [c]) s) @ [squote]) t"
  by (induction s arbitrary: acc) auto

lemma and_parts_quoted: "and_parts Bare acc (shellQuoteArg a @ t) = and_parts Bare (acc @ shellQuoteArg a) t"
  using and_parts_single [of "acc @ [squote]" a t] by (simp add: shellQuoteArg_def)

lemma and_parts_last: "and_parts Bare acc (shellQuoteArg a) = [acc @ shellQuoteArg a]"
  using and_parts_quoted [of acc a "[]"] by simp

lemma sh_words_arg: "sh_words cmd = Some ws \<Longrightarrow> sh_words (cmd @ blank # shellQuoteArg a) = Some (ws @ [a])"
  using sh_words_args [of cmd ws "[a]"] by simp


lemma sh_words_consts:
  "sh_words ''rm -rf'' = Some [''rm'', ''-rf'']" "sh_words ''rm -f'' = Some [''rm'', ''-f'']"
  "sh_words ''chmod'' = Some [''chmod'']" "sh_words ''mkdir -p'' = Some [''mkdir'', ''-p'']"
  "sh_words ''mv'' = Some [''mv'']" "sh_words ''stat -c'' = Some [''stat'', ''-c'']"
  by code_simp+

lemma mkdir_words: "sh_list (''mkdir -p '' @ shellQuoteArg p) = [Some [''mkdir'', ''-p'', p]]"
  using sh_words_arg [OF sh_words_consts(4), of p] by (simp add: sh_list_def and_parts_last)

lemma delete_words: "sh_list (delete_command rc p) = [Some [''rm'', if rc then ''-rf'' else ''-f'', p]]"
  using sh_words_arg [OF sh_words_consts(1), of p] sh_words_arg [OF sh_words_consts(2), of p]
  by (simp add: sh_list_def delete_command_def and_parts_last)

lemma chmod_words: "sh_list (chmod_command md p) = [Some [''chmod'', md, p]]"
  using sh_words_arg [OF sh_words_arg [OF sh_words_consts(3)], of md p]
  by (simp add: sh_list_def chmod_command_def and_parts_quoted and_parts_last)

lemma stat_words: "sh_list (stat_command p) = [Some [''stat'', ''-c'', ''%a %F %Y'', p]]"
  using sh_words_arg [OF sh_words_arg [OF sh_words_consts(6)], of "''%a %F %Y''" p]
  by (simp add: sh_list_def stat_command_def and_parts_quoted and_parts_last)

lemma sh_words_trailing: "sh_words s = Some ws \<Longrightarrow> sh_words (s @ [blank]) = Some ws"
  using sh_split_append [of Bare None s ws "[]"] by (simp add: sh_words_def)

lemma sh_words_leading: "sh_words (blank # s) = sh_words s"
  by (simp add: sh_words_def option.map_ident cong: option.map_cong_simp)

lemma move_words: "sh_list (move_command old new) = [Some [''mkdir'', ''-p'', Dir new], Some [''mv'', old, new]]"
proof -
  have "sh_words (''mkdir -p '' @ shellQuoteArg (Dir new) @ [blank]) = Some [''mkdir'', ''-p'', Dir new]"
    using sh_words_trailing [OF sh_words_arg [OF sh_words_consts(4)], of "Dir new"] by simp
  moreover have "sh_words ('' mv '' @ shellQuoteArg old @ blank # shellQuoteArg new) = Some [''mv'', old, new]"
    using sh_words_leading sh_words_arg [OF sh_words_arg [OF sh_words_consts(5)], of old new] by simp
  ultimately show ?thesis
    by (simp add: sh_list_def move_command_def and_parts_quoted and_parts_last)
qed

text \<open>The commands of a pipe, cut at bars outside quotes.\<close>

fun pipe_parts :: "sh_mode \<Rightarrow> string \<Rightarrow> string \<Rightarrow> string list" where
  "pipe_parts md acc [] = [acc]"
| "pipe_parts Single acc (c # cs) = pipe_parts (if c = squote then Bare else Single) (acc @ [c]) cs"
| "pipe_parts Double acc (c # cs) = pipe_parts (if c = dquote then Bare else Double) (acc @ [c]) cs"
| "pipe_parts Bare acc (c # cs) =
     (if c = CHR ''|'' then acc # pipe_parts Bare [] cs
      else pipe_parts (if c = squote then Single else if c = dquote then Double else Bare) (acc @ [c]) cs)"

lemma pipe_parts_single:
  "pipe_parts Single acc (concat (map (\<lambda>c. if c = squote then [squote, dquote, squote, dquote, squote] else [c]) s) @ squote # t)
     = pipe_parts Bare (acc @ concat (map (\<lambda>c. if c = squote then [squote, dquote, squote, dquote, squote] else [c]) s) @ [squote]) t"
  by (induction s arbitrary: acc) auto

lemma pipe_parts_quoted: "pipe_parts Bare acc (shellQuoteArg a @ t) = pipe_parts Bare (acc @ shellQuoteArg a) t"
  using pipe_parts_single [of "acc @ [squote]" a t] by (simp add: shellQuoteArg_def)

text \<open>
  The fixed texts: the loop that a list pipes its names to, and the script that expands the pattern
  of a glob, which reaches it in a variable.
\<close>

definition list_loop :: string where
  "list_loop = '' while IFS= read -r f; do stat -c '' @ [squote] @ ''%n|%s|%a|%F|%Y'' @ [squote] @ '' '' @ [dquote] @ ''$f'' @ [dquote] @
     '' 2>/dev/null; done''"

definition glob_script :: string where
  "glob_script = ''for f in $GLOB_PATTERN; do [ -e '' @ [dquote] @ ''$f'' @ [dquote] @ '' ] && echo '' @
     [dquote] @ ''$f'' @ [dquote] @ ''; done 2>/dev/null''"

lemma list_parts:
  "pipe_parts Bare [] (list_command p) =
     [''find '' @ shellQuoteArg p @ '' -maxdepth 1 -mindepth 1 2>/dev/null '', list_loop]"
proof -
  have "pipe_parts Bare [] (list_command p) = pipe_parts Bare (''find '' @ shellQuoteArg p)
      ('' -maxdepth 1 -mindepth 1 2>/dev/null |'' @ list_loop)"
    by (simp add: list_command_def list_loop_def pipe_parts_quoted shellQuoteArg_def [of "''%n|%s|%a|%F|%Y''"])
  then show ?thesis by (simp add: list_loop_def)
qed

lemma find_words:
  "sh_words (''find '' @ shellQuoteArg p @ '' -maxdepth 1 -mindepth 1'') =
     Some [''find'', p, ''-maxdepth'', ''1'', ''-mindepth'', ''1'']"
proof -
  have "sh_words ''find'' = Some [''find'']" "sh_words ''-maxdepth 1 -mindepth 1'' = Some [''-maxdepth'', ''1'', ''-mindepth'', ''1'']"
    by code_simp+
  with sh_split_append [of Bare None "''find '' @ shellQuoteArg p" "[''find'', p]" "''-maxdepth 1 -mindepth 1''"]
    sh_words_arg [of "''find''" "[''find'']" p]
  show ?thesis by (simp add: sh_words_def)
qed

lemma glob_words: "sh_words glob_command = Some [''sh'', ''-c'', glob_script]"
proof -
  have "sh_words ''sh -c'' = Some [''sh'', ''-c'']" by code_simp
  from sh_words_arg [OF this, of glob_script] show ?thesis by (simp add: glob_command_def glob_script_def)
qed

text \<open>The commands an operation on files is meant to run, and how it may call the daemon.\<close>

fun meant :: "guest_op \<Rightarrow> string list list" where
  "meant (GWriteFile p c md) = [[''mkdir'', ''-p'', Dir (cleanContainerPath p)]]"
| "meant (GDeleteFile p rc) = [[''rm'', if rc then ''-rf'' else ''-f'', cleanContainerPath p]]"
| "meant (GMoveFile p q) =
     [[''mkdir'', ''-p'', Dir (cleanContainerPath q)], [''mv'', cleanContainerPath p, cleanContainerPath q]]"
| "meant (GChmodFile p md) = [[''chmod'', md, cleanContainerPath p]]"
| "meant (GStatFile p) = [[''stat'', ''-c'', ''%a %F %Y'', cleanContainerPath p]]"
| "meant g = []"

definition exec_meant :: "guest_op \<Rightarrow> exec_config \<Rightarrow> bool" where
  "exec_meant g cfg \<longleftrightarrow>
     (case g of
        GExec opts \<Rightarrow> (\<exists>cmd. buildExecCommand opts = Inr cmd \<and> cfg = docker_exec_config opts cmd)
      | GExecStream opts \<Rightarrow> (\<exists>cmd. buildExecCommand opts = Inr cmd \<and> cfg = docker_exec_config opts cmd)
      | GListFiles p \<Rightarrow>
          (\<exists>line find. cfg = sh_exec line \<and> pipe_parts Bare [] line = [find @ '' 2>/dev/null '', list_loop] \<and>
             sh_words find = Some [''find'', cleanContainerPath p, ''-maxdepth'', ''1'', ''-mindepth'', ''1''])
      | GGlobFiles pattern \<Rightarrow>
          (\<exists>line. cfg = \<lparr>ec_Cmd = [''sh'', ''-c'', line], ec_WorkingDir = [], ec_Env = [''GLOB_PATTERN='' @ pattern]\<rparr> \<and>
             sh_words line = Some [''sh'', ''-c'', glob_script])
      | _ \<Rightarrow> \<exists>line. cfg = sh_exec line \<and> sh_list line = map Some (meant g) \<and> meant g \<noteq> [])"

lemma exec_meantI: "sh_list line = map Some (meant g) \<Longrightarrow> meant g \<noteq> [] \<Longrightarrow> exec_meant g (sh_exec line)"
  by (cases g) (auto simp: exec_meant_def)

lemma exec_meant_list: "exec_meant (GListFiles p) (sh_exec (list_command (cleanContainerPath p)))"
  unfolding exec_meant_def guest_op.case
  by (rule exI [of _ "list_command (cleanContainerPath p)"],
      rule exI [of _ "''find '' @ shellQuoteArg (cleanContainerPath p) @ '' -maxdepth 1 -mindepth 1''"])
    (simp add: list_parts find_words [simplified])

fun call_meant :: "guest_op \<Rightarrow> string \<Rightarrow> docker_call \<Rightarrow> bool" where
  "call_meant g sid (DkExecCreate x cfg) \<longleftrightarrow> x = sid \<and> exec_meant g cfg"
| "call_meant g sid (DkExecAttach x) \<longleftrightarrow> True"
| "call_meant g sid (DkExecInspect x) \<longleftrightarrow> True"
| "call_meant g sid (DkInspect x) \<longleftrightarrow> x = sid"
| "call_meant g sid (DkLogs x n) \<longleftrightarrow> x = sid"
| "call_meant g sid (DkCopyTo x dir fs) \<longleftrightarrow>
     x = sid \<and> (\<exists>p md data. g = GWriteFile p (Inr data) md \<and> dir = Dir (cleanContainerPath p) \<and>
       fs = [(Base (cleanContainerPath p), write_mode md, data)])"
| "call_meant g sid (DkCopyFrom x p) \<longleftrightarrow> x = sid \<and> (\<exists>q. g = GReadFile q \<and> p = cleanContainerPath q)"
| "call_meant g sid (DkStatPath x p) \<longleftrightarrow> x = sid \<and> (\<exists>q. g = GStatFile q \<and> p = cleanContainerPath q)"
| "call_meant g sid c \<longleftrightarrow> False"

lemma docker_command_meant:
  assumes "exec_meant g (sh_exec cmd)"
  shows "extends (call_meant g sid) d (snd (docker_command E sid what prog cmd d))"
  unfolding docker_command_def
  by (rule extends_lookup extends_bind extends_containerExec | use assms in \<open>force split: sum.split\<close>)+

lemma docker_guest_meant: "extends (call_meant g sid) d (snd (docker_guest E g sid d))"
proof (cases g)
  case (GExec opts)
  show ?thesis
    unfolding GExec docker_guest.simps failure_simps docker_Exec_def
    by (rule extends_lookup) (auto simp: exec_meant_def dk_def extends_def Let_def split: sum.split)
next
  case (GExecStream opts)
  show ?thesis
    unfolding GExecStream docker_guest.simps failure_simps docker_ExecStream_def
    by (rule extends_lookup) (auto simp: exec_meant_def dk_def extends_def Let_def split: sum.split)
next
  case (GWriteFile p c md)
  show ?thesis
    unfolding GWriteFile docker_guest.simps docker_WriteFile_def
  proof (rule extends_lookup)
    fix d'
    have "exec_meant (GWriteFile p c md) (sh_exec (''mkdir -p '' @ shellQuoteArg (Dir (cleanContainerPath p))))"
      using mkdir_words [of "Dir (cleanContainerPath p)"] by (auto simp: exec_meant_def)
    then show "extends (call_meant (GWriteFile p c md) sid) d' (snd (let path = cleanContainerPath p; dir = Dir path in
        case c of Inl e \<Rightarrow> (Some (wrap_err ''reading content'' e), d') | Inr data \<Rightarrow>
          (let (x, d) = containerExec E sid (''mkdir -p '' @ shellQuoteArg dir) d'
           in (case dk_tar E (Base path) (write_mode md) of Some e \<Rightarrow> (Some (wrap_err ''tar header'' e), d)
               | None \<Rightarrow> dk (dk_unit E) (DkCopyTo sid dir [(Base path, write_mode md, data)]) d))))"
      unfolding Let_def
      by (cases c) (auto intro!: extends_case extends_containerExec extends_dk split: option.split)
  qed simp
next
  case (GReadFile p)
  show ?thesis
    unfolding GReadFile docker_guest.simps failure_simps docker_ReadFile_def
    by (rule extends_lookup) (auto simp: dk_def extends_def Let_def split: sum.split)
next
  case (GListFiles p)
  show ?thesis
    unfolding GListFiles docker_guest.simps failure_simps docker_ListFiles_def
    by (rule extends_lookup, simp, rule extends_bind, rule extends_containerExec) (simp_all add: exec_meant_list)
next
  case (GDeleteFile p rc)
  then show ?thesis
    by (simp add: docker_DeleteFile_def) (rule docker_command_meant, rule exec_meantI, simp_all add: delete_words)
next
  case (GMoveFile p q)
  then show ?thesis
    by (simp add: docker_MoveFile_def) (rule docker_command_meant, rule exec_meantI, simp_all add: move_words)
next
  case (GChmodFile p md)
  then show ?thesis
    by (simp add: docker_ChmodFile_def) (rule docker_command_meant, rule exec_meantI, simp_all add: chmod_words)
next
  case (GStatFile p)
  show ?thesis
    unfolding GStatFile docker_guest.simps failure_simps docker_StatFile_def
    apply (rule extends_lookup, simp, rule extends_let, rule extends_bind, rule extends_dk, simp)
    subgoal for d' r d''
      using stat_words [of "cleanContainerPath p"]
      by (cases r) (auto simp: exec_meant_def intro!: extends_case extends_containerExec)
    done
next
  case (GGlobFiles p)
  show ?thesis
    unfolding GGlobFiles docker_guest.simps failure_simps docker_GlobFiles_def
    by (rule extends_lookup) (auto simp: exec_meant_def glob_words dk_def extends_def Let_def split: sum.split)
next
  case (GConsoleLog n)
  show ?thesis
    unfolding GConsoleLog docker_guest.simps failure_simps docker_ConsoleLog_def
    by (rule extends_lookup) (auto simp: dk_def extends_def Let_def split: sum.split)
qed


lemma cleanContainerPath_comps:
  obtains cs where "cleanContainerPath p = rooted_path cs" and "list_all plain cs"
proof -
  have "\<exists>rest. cleanContainerPath p = Clean (slash # rest)"
    by (cases p) (auto simp: cleanContainerPath_def HasPrefix_def split: if_splits)
  then show ?thesis
    using Clean_rooted_comps that by (metis list_all_iff)
qed

text \<open>
  C20. Whatever paths, modes and contents an operation on a docker sandbox is given, every call it makes
  to the daemon is on the container of that sandbox, and every command line it runs there to work on
  files is read by a shell as the words meant, the cleaned path being one word of them: \<open>mkdir\<close>,
  \<open>rm\<close>, \<open>mv\<close>, \<open>chmod\<close> and \<open>stat\<close> with exactly their arguments, and for a list the \<open>find\<close>
  of the path, piped to a fixed loop.  The pattern of a glob is part of no command line: it is the value of
  a variable of a fixed script.  A cleaned path is absolute and free of \<open>..\<close>, so it is taken neither
  for an option nor for a second command.
\<close>

theorem docker_commands_intact:
  "(\<exists>cs. dp_calls (snd (docker_guest E g sid d)) = dp_calls d @ cs \<and> list_all (call_meant g sid) cs) \<and>
   (\<exists>cs. cleanContainerPath p = rooted_path cs \<and> list_all plain cs)"
  using docker_guest_meant [of g sid d E] cleanContainerPath_comps [of p] by (auto simp: extends_def)

section \<open>The containers of the daemon\<close>

text \<open>
  The containers there are, by name, as the log of calls and the daemon's answers tell: created, not
  removed.  A container is named by its name or its id; abbreviated ids are not used.  The calls of this process, before and after restarts, are the only ones on them.
\<close>

type_synonym containers = "(string \<times> string \<times> container_config) list"

fun effect :: "dkenv \<Rightarrow> docker_call list \<Rightarrow> docker_call \<Rightarrow> containers \<Rightarrow> containers" where
  "effect E log (DkCreate cfg name) cs =
     (case dk_id E log (DkCreate cfg name) of Inl e \<Rightarrow> cs | Inr cid \<Rightarrow> al_put name (cid, cfg) cs)"
| "effect E log (DkRemove x) cs =
     (case dk_unit E log (DkRemove x) of Some e \<Rightarrow> cs | None \<Rightarrow> filter (\<lambda>(name, cid, cfg). name \<noteq> x \<and> cid \<noteq> x) cs)"
| "effect E log c cs = cs"

primrec containers_rev :: "dkenv \<Rightarrow> docker_call list \<Rightarrow> containers" where
  "containers_rev E [] = []"
| "containers_rev E (c # cs) = effect E (rev cs) c (containers_rev E cs)"

definition containers :: "dkenv \<Rightarrow> docker_call list \<Rightarrow> containers" where
  "containers E log = containers_rev E (rev log)"

lemma containers_Nil [simp]: "containers E [] = []"
  by (simp add: containers_def)

lemma containers_snoc [simp]: "containers E (log @ [c]) = effect E log c (containers E log)"
  by (simp add: containers_def)

text \<open>
  What the documentation of the daemon promises: a name that is in use is refused, the id of a container
  is hexadecimal and new, removing what exists fails or removes it, what is reported of a container
  are the labels it was created with, and a list by label has all the containers with that label.  Any call may fail, with an error that does not say \<open>not found\<close>.
\<close>

definition is_hex :: "string \<Rightarrow> bool" where
  "is_hex s \<longleftrightarrow> list_all (\<lambda>c. c \<in> set ''0123456789abcdef'') s"

definition daemon_ok :: "dkenv \<Rightarrow> bool" where
  "daemon_ok E \<longleftrightarrow>
     (\<forall>log cfg name cid. dk_id E log (DkCreate cfg name) = Inr cid \<longrightarrow>
        is_hex cid \<and> name \<notin> fst ` set (containers E log) \<and> cid \<notin> (fst \<circ> snd) ` set (containers E log)) \<and>
     (\<forall>log x e. dk_inspect E log (DkInspect x) = Inl e \<longrightarrow> dk_notfound E e \<longrightarrow> x \<notin> fst ` set (containers E log)) \<and>
     (\<forall>log x i. dk_inspect E log (DkInspect x) = Inr i \<longrightarrow>
        (\<exists>name cid cfg. (name, cid, cfg) \<in> set (containers E log) \<and> (x = name \<or> HasPrefix cid x) \<and> ir_Labels i = cc_Labels cfg)) \<and>
     (\<forall>log cs. dk_list E log DkList = Inr cs \<longrightarrow>
        (\<forall>c\<in>set cs. \<exists>name cid cfg. (name, cid, cfg) \<in> set (containers E log) \<and> cs_Labels c = cc_Labels cfg) \<and>
        (\<forall>name cid cfg. (name, cid, cfg) \<in> set (containers E log) \<longrightarrow> map_of (cc_Labels cfg) ''stacyvm'' = Some ''true'' \<longrightarrow>
           (\<exists>c\<in>set cs. cs_Labels c = cc_Labels cfg)))"

lemma daemon_okD:
  assumes "daemon_ok E"
  shows "dk_id E log (DkCreate cfg name) = Inr cid \<Longrightarrow>
       is_hex cid \<and> name \<notin> fst ` set (containers E log) \<and> cid \<notin> (fst \<circ> snd) ` set (containers E log)"
    and "dk_inspect E log (DkInspect x) = Inl e \<Longrightarrow> dk_notfound E e \<Longrightarrow> x \<notin> fst ` set (containers E log)"
    and "dk_inspect E log (DkInspect x) = Inr i \<Longrightarrow>
       \<exists>name cid cfg. (name, cid, cfg) \<in> set (containers E log) \<and> (x = name \<or> HasPrefix cid x) \<and> ir_Labels i = cc_Labels cfg"
    and "dk_list E log DkList = Inr cs \<Longrightarrow> c \<in> set cs \<Longrightarrow>
       \<exists>name cid cfg. (name, cid, cfg) \<in> set (containers E log) \<and> cs_Labels c = cc_Labels cfg"
    and "dk_list E log DkList = Inr cs \<Longrightarrow> (name, cid, cfg) \<in> set (containers E log) \<Longrightarrow>
       map_of (cc_Labels cfg) ''stacyvm'' = Some ''true'' \<Longrightarrow> \<exists>c\<in>set cs. cs_Labels c = cc_Labels cfg"
  using assms unfolding daemon_ok_def by blast+

text \<open>Calls that create and remove nothing.\<close>

fun inert :: "docker_call \<Rightarrow> bool" where
  "inert (DkCreate cfg name) \<longleftrightarrow> False"
| "inert (DkRemove x) \<longleftrightarrow> False"
| "inert c \<longleftrightarrow> True"

lemma effect_inert: "inert c \<Longrightarrow> effect E log c cs = cs"
  by (cases c) simp_all

lemma containers_inert: "list_all inert cs \<Longrightarrow> containers E (log @ cs) = containers E log"
proof (induction cs rule: rev_induct)
  case (snoc c cs)
  then show ?case
    using containers_snoc [of E "log @ cs" c] by (simp add: effect_inert)
qed simp

lemma extends_containers: "extends inert d d' \<Longrightarrow> containers E (dp_calls d') = containers E (dp_calls d)"
  by (auto simp: extends_def containers_inert)

lemma call_meant_inert: "call_meant g sid c \<Longrightarrow> inert c"
  by (cases c) simp_all


section \<open>The table and the containers\<close>

text \<open>What a container of the provider looks like.\<close>

definition ours :: "string \<times> string \<times> container_config \<Rightarrow> bool" where
  "ours c \<longleftrightarrow>
     (case c of (name, cid, cfg) \<Rightarrow>
        HasPrefix name ''sb-'' \<and> is_hex cid \<and> map_of (cc_Labels cfg) ''stacyvm'' = Some ''true'' \<and>
        map_of (cc_Labels cfg) ''stacyvm.sandbox'' = Some name \<and> label_of ''stacyvm.image'' (cc_Labels cfg) \<noteq> [])"

definition containers_ok :: "containers \<Rightarrow> bool" where
  "containers_ok cs \<longleftrightarrow> al_ok cs \<and> distinct (map (fst \<circ> snd) cs) \<and> list_all ours cs"

definition table_ok :: "containers \<Rightarrow> (string \<times> dockerSandbox) list \<Rightarrow> bool" where
  "table_ok cs t \<longleftrightarrow>
     (\<forall>sid sb. map_of t sid = Some sb \<longrightarrow>
        (\<exists>cid cfg. (sid, cid, cfg) \<in> set cs \<and> label_of ''stacyvm.image'' (cc_Labels cfg) = ds_image sb))"

definition docker_ok :: "dkenv \<Rightarrow> DockerProvider \<Rightarrow> bool" where
  "docker_ok E d \<longleftrightarrow>
     containers_ok (containers E (dp_calls d)) \<and> table_ok (containers E (dp_calls d)) (dp_sandboxes d)"

definition docker_up :: "dkenv \<Rightarrow> DockerProvider \<Rightarrow> string set" where
  "docker_up E d = fst ` set (containers E (dp_calls d))"

lemma not_hex: "HasPrefix s ''sb-'' \<Longrightarrow> \<not> is_hex s"
  by (auto simp: HasPrefix_iff is_hex_def)

lemma hex_prefix: "is_hex s \<Longrightarrow> HasPrefix s x \<Longrightarrow> is_hex x"
  by (auto simp: HasPrefix_iff is_hex_def)

lemma docker_ok_ours: "docker_ok E d \<Longrightarrow> c \<in> set (containers E (dp_calls d)) \<Longrightarrow> ours c"
  by (simp add: docker_ok_def containers_ok_def list_all_iff)

lemma ours_id: "ours (name, cid, cfg) \<Longrightarrow> HasPrefix name ''sb-'' \<and> is_hex cid"
  by (simp add: ours_def)

lemma table_in_up: "docker_ok E d \<Longrightarrow> map_of (dp_sandboxes d) sid = Some sb \<Longrightarrow> sid \<in> docker_up E d"
  by (force simp: docker_ok_def table_ok_def docker_up_def)

lemma docker_ok_new: "docker_ok E (NewDockerProvider cfg)"
  by (simp add: docker_ok_def NewDockerProvider_def containers_ok_def table_ok_def)

lemma docker_ok_restart: "docker_ok E d \<Longrightarrow> docker_ok E (d\<lparr>dp_sandboxes := []\<rparr>)"
  by (simp add: docker_ok_def table_ok_def)

lemma docker_ok_inert: "docker_ok E d \<Longrightarrow> extends inert d d' \<Longrightarrow> dp_sandboxes d' = dp_sandboxes d \<Longrightarrow> docker_ok E d'"
  by (simp add: docker_ok_def extends_containers)

lemma docker_up_inert: "extends inert d d' \<Longrightarrow> docker_up E d' = docker_up E d"
  by (simp add: docker_up_def extends_containers)

lemma docker_ok_dk: "docker_ok E d \<Longrightarrow> inert c \<Longrightarrow> docker_ok E (snd (dk f c d))"
  by (rule docker_ok_inert) (auto intro: extends_dk)

lemma docker_up_dk: "inert c \<Longrightarrow> docker_up E (snd (dk f c d)) = docker_up E d"
  by (rule docker_up_inert) (auto intro: extends_dk)

text \<open>A container that the daemon finds under the name of a sandbox is remembered with its own image.\<close>

lemma remember_ok:
  assumes "docker_ok E d" and "(sid, cid, cfg) \<in> set (containers E (dp_calls d))"
  shows "docker_ok E (rememberSandbox sid (label_of ''stacyvm.image'' (cc_Labels cfg)) st d)"
  using assms by (auto simp: docker_ok_def table_ok_def rememberSandbox_def)

lemma inspected:
  assumes "daemon_ok E" and "docker_ok E d" and "HasPrefix sid ''sb-''"
    and "dk_inspect E (dp_calls d) (DkInspect sid) = Inr i"
  obtains cid cfg where "(sid, cid, cfg) \<in> set (containers E (dp_calls d))" and "ir_Labels i = cc_Labels cfg"
    and "ours (sid, cid, cfg)"
proof -
  obtain name cid cfg where c: "(name, cid, cfg) \<in> set (containers E (dp_calls d))"
    "sid = name \<or> HasPrefix cid sid" "ir_Labels i = cc_Labels cfg"
    using daemon_okD(3) [OF assms(1,4)] by blast
  have "ours (name, cid, cfg)"
    using docker_ok_ours [OF assms(2) c(1)] .
  moreover have "\<not> HasPrefix cid sid"
    using calculation hex_prefix not_hex [OF assms(3)] by (auto simp: ours_def)
  ultimately show thesis
    using c that by auto
qed

lemma getSandbox_extends: "extends inert d (snd (docker_getSandbox E sid d))"
  by (rule extends_getSandbox) simp

lemma getSandbox_spec:
  assumes "daemon_ok E" and "docker_ok E d" and "HasPrefix sid ''sb-''"
  shows "docker_ok E (snd (docker_getSandbox E sid d))"
    and "fst (docker_getSandbox E sid d) = None \<Longrightarrow> sid \<in> docker_up E d"
    and "fst (docker_getSandbox E sid d) = Some e \<Longrightarrow>
       (sid \<notin> docker_up E d \<and> e = SandboxNotFoundError sid) \<or>
       (\<exists>e'. dk_inspect E (dp_calls d) (DkInspect sid) = Inl e' \<and> \<not> dk_notfound E e')"
proof -
  have "docker_ok E (snd (docker_getSandbox E sid d)) \<and>
    (case fst (docker_getSandbox E sid d) of
       None \<Rightarrow> sid \<in> docker_up E d
     | Some e \<Rightarrow> (sid \<notin> docker_up E d \<and> e = SandboxNotFoundError sid) \<or>
         (\<exists>e'. dk_inspect E (dp_calls d) (DkInspect sid) = Inl e' \<and> \<not> dk_notfound E e'))"
  proof (cases "map_of (dp_sandboxes d) sid")
    case (Some sb)
    then have "sid \<in> docker_up E d"
      by (rule table_in_up [OF assms(2)])
    with Some assms(2) show ?thesis by (simp add: docker_getSandbox_def)
  next
    case None
    define d1 where "d1 = snd (dk (dk_inspect E) (DkInspect sid) d)"
    have d1: "docker_ok E d1" "containers E (dp_calls d1) = containers E (dp_calls d)"
      using docker_ok_dk [OF assms(2), of "DkInspect sid"] by (simp_all add: d1_def)
    have step: "dk (dk_inspect E) (DkInspect sid) d = (dk_inspect E (dp_calls d) (DkInspect sid), d1)"
      by (simp add: d1_def prod_eq_iff)
    show ?thesis
    proof (cases "dk_inspect E (dp_calls d) (DkInspect sid)")
      case (Inl e)
      then show ?thesis
        using None d1(1) daemon_okD(2) [OF assms(1) Inl] by (simp add: docker_getSandbox_def step docker_up_def)
    next
      case (Inr i)
      then obtain cid cfg where c: "(sid, cid, cfg) \<in> set (containers E (dp_calls d))" "ir_Labels i = cc_Labels cfg"
        "ours (sid, cid, cfg)"
        using inspected [OF assms Inr] by blast
      have "(sid, cid, cfg) \<in> set (containers E (dp_calls d1))"
        using c(1) d1(2) by simp
      note r = remember_ok [OF d1(1) this]
      moreover have "map_of (ir_Labels i) ''stacyvm'' = Some ''true''" "label_of ''stacyvm.image'' (ir_Labels i) \<noteq> []"
        using c by (simp_all add: ours_def)
      moreover have "sid \<in> docker_up E d"
        using c(1) by (force simp: docker_up_def)
      ultimately show ?thesis
        using None Inr r c(2) by (simp add: docker_getSandbox_def step label_of_def Let_def)
    qed
  qed
  then show "docker_ok E (snd (docker_getSandbox E sid d))"
    and "fst (docker_getSandbox E sid d) = None \<Longrightarrow> sid \<in> docker_up E d"
    and "fst (docker_getSandbox E sid d) = Some e \<Longrightarrow>
       (sid \<notin> docker_up E d \<and> e = SandboxNotFoundError sid) \<or>
       (\<exists>e'. dk_inspect E (dp_calls d) (DkInspect sid) = Inl e' \<and> \<not> dk_notfound E e')"
    by (simp_all split: option.splits)
qed


lemma docker_ok_cong:
  "docker_ok E d \<Longrightarrow> containers E (dp_calls d') = containers E (dp_calls d) \<Longrightarrow> dp_sandboxes d' = dp_sandboxes d \<Longrightarrow> docker_ok E d'"
  by (simp add: docker_ok_def)

lemma containerExec_table [simp]: "dp_sandboxes (snd (containerExec E sid cmd d)) = dp_sandboxes d"
  by (simp add: containerExec_def dk_def Let_def split: sum.split)

text \<open>The table changes only in the lookup.\<close>

definition keeps_table :: "(DockerProvider \<Rightarrow> 'a \<times> DockerProvider) \<Rightarrow> bool" where
  "keeps_table f \<longleftrightarrow> (\<forall>d. dp_sandboxes (snd (f d)) = dp_sandboxes d)"

lemma lookup_table:
  assumes "\<And>d'. dp_sandboxes (snd (rest d')) = dp_sandboxes d'"
  shows "dp_sandboxes (snd (let (r, d) = docker_getSandbox E sid d in case r of Some e \<Rightarrow> (err e, d) | None \<Rightarrow> rest d)) =
     dp_sandboxes (snd (docker_getSandbox E sid d))"
  using assms by (auto split: prod.split option.split)

lemma guest_table: "dp_sandboxes (snd (docker_guest E g sid d)) = dp_sandboxes (snd (docker_getSandbox E sid d))"
  by (cases g; simp only: docker_guest.simps failure_simps docker_guest_defs; rule lookup_table)
    (auto simp: dk_def containerExec_def Let_def split: sum.split option.split)

lemma guest_extends: "extends inert d (snd (docker_guest E g sid d))"
  using docker_guest_meant by (rule extends_mono) (rule call_meant_inert)

lemma guest_up: "docker_up E (snd (docker_guest E g sid d)) = docker_up E d"
  by (rule docker_up_inert [OF guest_extends])

lemma guest_ok:
  assumes "daemon_ok E" and "docker_ok E d" and "HasPrefix sid ''sb-''"
  shows "docker_ok E (snd (docker_guest E g sid d))"
  by (rule docker_ok_cong [OF getSandbox_spec(1) [OF assms]])
    (simp_all add: guest_table extends_containers [OF guest_extends] extends_containers [OF getSandbox_extends])

section \<open>Creation and removal\<close>

lemma al_put_new: "k \<notin> fst ` set m \<Longrightarrow> al_put k v m = m @ [(k, v)]"
  by (induction k v m rule: al_put.induct) auto

lemma table_ok_more: "table_ok cs t \<Longrightarrow> set cs \<subseteq> set cs' \<Longrightarrow> table_ok cs' t"
  unfolding table_ok_def by blast

lemma created_ok:
  assumes "daemon_ok E" and "docker_ok E d" and "dk_id E (dp_calls d) (DkCreate cfg name) = Inr cid"
    and "ours (name, cid, cfg)"
  shows "docker_ok E (snd (dk f (DkCreate cfg name) d))"
    and "containers E (dp_calls d @ [DkCreate cfg name]) = containers E (dp_calls d) @ [(name, cid, cfg)]"
proof -
  note new = daemon_okD(1) [OF assms(1,3)]
  then show put: "containers E (dp_calls d @ [DkCreate cfg name]) = containers E (dp_calls d) @ [(name, cid, cfg)]"
    by (simp add: assms(3) al_put_new)
  show "docker_ok E (snd (dk f (DkCreate cfg name) d))"
    using assms(2,4) new table_ok_more [of "containers E (dp_calls d)" "dp_sandboxes d" "containers E (dp_calls d) @ [(name, cid, cfg)]"]
    unfolding docker_ok_def dk_fields put by (auto simp: containers_ok_def)
qed

text \<open>Removing a container leaves the table right unless it has the container.\<close>

lemma removed_ok:
  assumes "docker_ok E d" and "\<And>name cid cfg. (name, cid, cfg) \<in> set (containers E (dp_calls d)) \<Longrightarrow> name = x \<or> cid = x \<Longrightarrow>
      map_of (dp_sandboxes d) name = None"
  shows "docker_ok E (snd (dk f (DkRemove x) d))"
proof (cases "dk_unit E (dp_calls d) (DkRemove x)")
  case None
  let ?cs = "filter (\<lambda>(name, cid, cfg). name \<noteq> x \<and> cid \<noteq> x) (containers E (dp_calls d))"
  have "containers_ok ?cs"
    using assms(1) by (auto simp: docker_ok_def containers_ok_def distinct_map_filter list_all_iff)
  moreover have "table_ok ?cs (dp_sandboxes d)"
    using assms by (fastforce simp: docker_ok_def table_ok_def)
  ultimately show ?thesis
    using None by (simp add: docker_ok_def)
qed (use assms in \<open>simp add: docker_ok_def\<close>)

lemma remove_up:
  assumes "docker_ok E d" and "HasPrefix sid ''sb-''" and "dk_unit E (dp_calls d) (DkRemove sid) = None"
  shows "docker_up E (snd (dk f (DkRemove sid) d)) = docker_up E d - {sid}"
proof -
  have "cid \<noteq> sid" if "(name, cid, cfg) \<in> set (containers E (dp_calls d))" for name cid cfg
    using docker_ok_ours [OF assms(1) that] not_hex [OF assms(2)] by (auto simp: ours_def)
  then show ?thesis
    using assms(3) by (force simp: docker_up_def)
qed

lemma docker_Destroy_spec:
  assumes "docker_ok E d" and "HasPrefix sid ''sb-''"
  shows "docker_ok E (snd (docker_Destroy E sid d))"
    and "docker_up E (snd (docker_Destroy E sid d)) =
      (if fst (docker_Destroy E sid d) = None then docker_up E d - {sid} else docker_up E d)"
proof -
  define d1 where "d1 = snd (dk (dk_unit E) (DkStop sid 5) (d\<lparr>dp_sandboxes := al_del sid (dp_sandboxes d)\<rparr>))"
  have d1: "docker_ok E d1" "docker_up E d1 = docker_up E d" "map_of (dp_sandboxes d1) sid = None"
    using assms(1) containers_inert [of "[DkStop sid 5]" E "dp_calls d"]
    by (auto simp: d1_def docker_ok_def table_ok_def docker_up_def)
  have D: "docker_Destroy E sid d =
     (let (r, d2) = dk (dk_unit E) (DkRemove sid) d1
      in (case r of None \<Rightarrow> None
          | Some e \<Rightarrow> Some (if dk_notfound E e then SandboxNotFoundError sid else wrap_err (''removing container '' @ Quote sid) e), d2))"
    by (simp add: docker_Destroy_def d1_def Let_def split: prod.split)
  have only: "name = sid" if "(name, cid, cfg) \<in> set (containers E (dp_calls d1))" "name = sid \<or> cid = sid" for name cid cfg
    using docker_ok_ours [OF d1(1) that(1)] that(2) not_hex [OF assms(2)] by (auto simp: ours_def)
  show "docker_ok E (snd (docker_Destroy E sid d))"
  proof -
    have "docker_ok E (snd (dk (dk_unit E) (DkRemove sid) d1))"
      by (rule removed_ok [OF d1(1)]) (use only d1(3) in blast)
    then show ?thesis
      by (simp add: D Let_def case_prod_beta)
  qed
  show "docker_up E (snd (docker_Destroy E sid d)) =
      (if fst (docker_Destroy E sid d) = None then docker_up E d - {sid} else docker_up E d)"
    using remove_up [OF d1(1) assms(2), of "dk_unit E"] d1(2)
    by (cases "dk_unit E (dp_calls d1) (DkRemove sid)") (simp_all add: D dk_def docker_up_def)
qed


section \<open>Spawn\<close>

lemma ensureImage_extends: "extends inert d (snd (ensureImage E img d))"
  by (auto simp: ensureImage_def dk_def extends_def Let_def split: sum.split)

lemma ensureImage_table: "dp_sandboxes (snd (ensureImage E img d)) = dp_sandboxes d"
  by (auto simp: ensureImage_def dk_def Let_def split: sum.split)

lemma spawned_ours:
  assumes "is_hex cid"
  shows "ours (docker_id r, cid, container_of E cfg opts (spawn_image cfg' opts) (docker_id r))"
  using assms by (simp add: docker_id_def ours_def container_of_def label_of_def HasPrefix_iff spawn_image_def Let_def)

text \<open>
  The container that a failing spawn leaves: the last call of the spawn was to remove it, by the id the
  daemon gave it in that spawn, and the daemon refused.
\<close>

definition left_behind :: "dkenv \<Rightarrow> DockerProvider \<Rightarrow> DockerProvider \<Rightarrow> bool" where
  "left_behind E d d' \<longleftrightarrow>
     (\<exists>log cid sid cfg. dp_calls d' = log @ [DkRemove cid] \<and> dk_unit E log (DkRemove cid) \<noteq> None \<and>
        sid \<notin> docker_up E d \<and> (sid, cid, cfg) \<in> set (containers E (dp_calls d')) \<and> docker_up E d' = insert sid (docker_up E d))"

lemma docker_Spawn_spec:
  assumes "daemon_ok E" and "docker_ok E d"
  shows "docker_ok E (snd (docker_Spawn E opts d)) \<and>
    (case fst (docker_Spawn E opts d) of
       Inr sid \<Rightarrow> HasPrefix sid ''sb-'' \<and> sid \<notin> docker_up E d \<and> docker_up E (snd (docker_Spawn E opts d)) = insert sid (docker_up E d)
     | Inl e \<Rightarrow> docker_up E (snd (docker_Spawn E opts d)) = docker_up E d \<or> left_behind E d (snd (docker_Spawn E opts d)))"
proof -
  define img where "img = spawn_image (dp_config d) opts"
  define d1 where "d1 = snd (ensureImage E img d)"
  have d1: "docker_ok E d1" "docker_up E d1 = docker_up E d"
    using docker_ok_inert [OF assms(2) ensureImage_extends ensureImage_table] docker_up_inert [OF ensureImage_extends]
    by (simp_all add: d1_def)
  show ?thesis
  proof (cases "fst (ensureImage E img d)")
    case (Some e)
    then have "ensureImage E img d = (Some e, d1)"
      by (simp add: d1_def prod_eq_iff)
    with d1 show ?thesis
      by (simp add: docker_Spawn_def img_def [symmetric])
  next
    case None
    define sid where "sid = docker_id (dk_random E (dp_calls d1))"
    define cfg where "cfg = container_of E (dp_config d1) opts img sid"
    define d2 where "d2 = snd (dk (dk_id E) (DkCreate cfg sid) d1)"
    have S: "docker_Spawn E opts d =
      (case dk_id E (dp_calls d1) (DkCreate cfg sid) of
         Inl e \<Rightarrow> (Inl (wrap_err ''creating container'' e), d2)
       | Inr cid \<Rightarrow>
      (let (r, d) = dk (dk_unit E) (DkStart cid) d2 in
       case r of
         Some e \<Rightarrow> (Inl (wrap_err ''starting container'' e), snd (dk (dk_unit E) (DkRemove cid) d))
       | None \<Rightarrow>
           (let (x, d) = containerExec E sid ''mkdir -p /workspace'' d
            in (Inr sid, d\<lparr>dp_sandboxes := al_put sid \<lparr>ds_id = sid, ds_image = img, ds_state = ''running''\<rparr> (dp_sandboxes d)\<rparr>))))"
    proof -
      have "ensureImage E img d = (None, d1)"
        using None by (simp add: d1_def prod_eq_iff)
      moreover have "dk (dk_id E) (DkCreate cfg sid) d1 = (dk_id E (dp_calls d1) (DkCreate cfg sid), d2)"
        by (simp add: d2_def prod_eq_iff)
      ultimately show ?thesis
        by (simp add: docker_Spawn_def img_def [symmetric] sid_def [symmetric] cfg_def [symmetric] Let_def split: sum.split prod.split option.split)
    qed
    show ?thesis
    proof (cases "dk_id E (dp_calls d1) (DkCreate cfg sid)")
      case (Inl e)
      then have "containers E (dp_calls d2) = containers E (dp_calls d1)" "dp_sandboxes d2 = dp_sandboxes d1"
        by (simp_all add: d2_def)
      then show ?thesis
        using Inl d1 docker_ok_cong [OF d1(1), of d2] by (simp add: S docker_up_def)
    next
      case (Inr cid)
      note new = daemon_okD(1) [OF assms(1) Inr]
      have our: "ours (sid, cid, cfg)"
        using new by (simp add: sid_def cfg_def img_def spawned_ours)
      have d2: "docker_ok E d2" "containers E (dp_calls d2) = containers E (dp_calls d1) @ [(sid, cid, cfg)]"
        "dp_sandboxes d2 = dp_sandboxes d1"
        using created_ok [OF assms(1) d1(1) Inr our] by (simp_all add: d2_def)
      have sid: "HasPrefix sid ''sb-''" "sid \<notin> docker_up E d" "label_of ''stacyvm.image'' (cc_Labels cfg) = img"
        using our new d1(2) by (simp_all add: ours_def docker_up_def cfg_def container_of_def label_of_def)
      have up: "docker_up E d2 = insert sid (docker_up E d)"
        using d1(2) d2(2) by (simp add: docker_up_def)
      define d3 where "d3 = snd (dk (dk_unit E) (DkStart cid) d2)"
      have d3: "docker_ok E d3" "containers E (dp_calls d3) = containers E (dp_calls d2)" "docker_up E d3 = docker_up E d2"
        using docker_ok_dk [OF d2(1), of "DkStart cid" "dk_unit E"] by (simp_all add: d3_def docker_up_def)
      show ?thesis
      proof (cases "dk_unit E (dp_calls d2) (DkStart cid)")
        case (Some e)
        have only: "map_of (dp_sandboxes d3) name = None"
          if "(name, c, g) \<in> set (containers E (dp_calls d3))" "name = cid \<or> c = cid" for name c g
        proof -
          have "ours (name, c, g)"
            using docker_ok_ours [OF d3(1) that(1)] .
          then have "c = cid" using that(2) new not_hex [of name] ours_id by blast
          then have "(name, c, g) \<notin> set (containers E (dp_calls d1))" using new by force
          then have "name = sid" using that(1) d3(2) d2(2) by auto
          moreover have "map_of (dp_sandboxes d1) sid = None"
            using d1 sid(2) table_in_up [OF d1(1), of sid] by (cases "map_of (dp_sandboxes d1) sid") auto
          ultimately show ?thesis
            by (simp add: d3_def d2(3))
        qed
        have "docker_ok E (snd (dk (dk_unit E) (DkRemove cid) d3))"
          by (rule removed_ok [OF d3(1)], rule only, assumption, assumption)
        moreover have "docker_up E (snd (dk (dk_unit E) (DkRemove cid) d3)) = docker_up E d"
          if "dk_unit E (dp_calls d3) (DkRemove cid) = None"
        proof -
          have "(\<lambda>(name, c, g). name \<noteq> cid \<and> c \<noteq> cid) x" if "x \<in> set (containers E (dp_calls d1))" for x
          proof -
            obtain name c g where x: "x = (name, c, g)" by (cases x)
            then have "HasPrefix name ''sb-''"
              using docker_ok_ours [OF d1(1) that] ours_id by blast
            moreover have "c \<noteq> cid"
              using new that x by force
            ultimately show ?thesis
              using new not_hex [of name] x by auto
          qed
          then have "filter (\<lambda>(name, c, g). name \<noteq> cid \<and> c \<noteq> cid) (containers E (dp_calls d1)) = containers E (dp_calls d1)"
            by (rule filter_True [OF ballI])
          then show ?thesis
            using that d1(2) d2(2) d3(2) by (simp add: docker_up_def)
        qed
        moreover have "left_behind E d (snd (dk (dk_unit E) (DkRemove cid) d3))"
          if "dk_unit E (dp_calls d3) (DkRemove cid) \<noteq> None"
        proof -
          have c: "containers E (dp_calls d3 @ [DkRemove cid]) = containers E (dp_calls d3)"
            using that by auto
          then have "(sid, cid, cfg) \<in> set (containers E (dp_calls d3 @ [DkRemove cid]))" using d3(2) d2(2) by simp
          moreover have "fst ` set (containers E (dp_calls d3 @ [DkRemove cid])) = insert sid (docker_up E d)"
            unfolding c using d3(3) up by (simp add: docker_up_def)
          ultimately show ?thesis
            using that sid(2) unfolding left_behind_def docker_up_def by (auto simp: dk_def)
        qed
        moreover have "dk (dk_unit E) (DkStart cid) d2 = (Some e, d3)"
          by (simp add: d3_def Some prod_eq_iff)
        then have "docker_Spawn E opts d = (Inl (wrap_err ''starting container'' e), snd (dk (dk_unit E) (DkRemove cid) d3))"
          by (simp add: S Inr Let_def)
        ultimately show ?thesis by auto
      next
        case None
        define d4 where "d4 = snd (containerExec E sid ''mkdir -p /workspace'' d3)"
        have ex: "extends inert d3 d4"
          unfolding d4_def by (rule extends_containerExec) simp_all
        have d4: "docker_ok E d4" "docker_up E d4 = insert sid (docker_up E d)"
            "(sid, cid, cfg) \<in> set (containers E (dp_calls d4))"
          using docker_ok_inert [OF d3(1) ex] docker_up_inert [OF ex] extends_containers [OF ex, of E] d3 up d2(2)
          by (simp_all add: d4_def)
        then have "docker_ok E (d4\<lparr>dp_sandboxes := al_put sid \<lparr>ds_id = sid, ds_image = img, ds_state = ''running''\<rparr> (dp_sandboxes d4)\<rparr>)"
          using sid(3) by (auto simp: docker_ok_def table_ok_def)
        moreover have "dk (dk_unit E) (DkStart cid) d2 = (None, d3)"
          by (simp add: d3_def None prod_eq_iff)
        then have "docker_Spawn E opts d =
            (Inr sid, d4\<lparr>dp_sandboxes := al_put sid \<lparr>ds_id = sid, ds_image = img, ds_state = ''running''\<rparr> (dp_sandboxes d4)\<rparr>)"
          by (simp add: S Inr d4_def Let_def case_prod_beta)
        ultimately show ?thesis
          using sid d4(2) by (simp add: docker_up_def)
      qed
    qed
  qed
qed


section \<open>The contract\<close>

text \<open>What the process does with the provider; \<open>DO_Restart\<close> is a new process on the same daemon.\<close>

datatype docker_op =
    DO_Spawn SpawnOptions
  | DO_Destroy string
  | DO_Guest guest_op string
  | DO_Status string
  | DO_Stats string
  | DO_Healthy
  | DO_List
  | DO_Restart

fun docker_step :: "dkenv \<Rightarrow> docker_op \<Rightarrow> DockerProvider \<Rightarrow> DockerProvider" where
  "docker_step E (DO_Spawn opts) d = snd (docker_Spawn E opts d)"
| "docker_step E (DO_Destroy sid) d = snd (docker_Destroy E sid d)"
| "docker_step E (DO_Guest g sid) d = snd (docker_guest E g sid d)"
| "docker_step E (DO_Status sid) d = snd (docker_Status E sid d)"
| "docker_step E (DO_Stats sid) d = snd (docker_Stats E sid d)"
| "docker_step E DO_Healthy d = snd (docker_Healthy E d)"
| "docker_step E DO_List d = snd (ListRuntimeSandboxes E d)"
| "docker_step E DO_Restart d = d\<lparr>dp_sandboxes := []\<rparr>"

text \<open>Sandboxes are named as \<open>Spawn\<close> names them.\<close>

fun op_names :: "docker_op \<Rightarrow> bool" where
  "op_names (DO_Destroy sid) \<longleftrightarrow> HasPrefix sid ''sb-''"
| "op_names (DO_Guest g sid) \<longleftrightarrow> HasPrefix sid ''sb-''"
| "op_names (DO_Stats sid) \<longleftrightarrow> HasPrefix sid ''sb-''"
| "op_names p \<longleftrightarrow> True"

lemma Stats_fields:
  "dp_sandboxes (snd (docker_Stats E sid d)) = dp_sandboxes (snd (docker_getSandbox E sid d))"
  "extends inert d (snd (docker_Stats E sid d))"
  unfolding docker_Stats_def
  by (rule lookup_table, simp add: dk_def Let_def) (rule extends_lookup, simp, simp add: dk_def extends_def Let_def)

lemma Status_fields:
  "dp_sandboxes (snd (docker_Status E sid d)) = dp_sandboxes d" "extends inert d (snd (docker_Status E sid d))"
  by (simp_all add: docker_Status_def dk_def extends_def Let_def)

lemma Healthy_fields:
  "dp_sandboxes (snd (docker_Healthy E d)) = dp_sandboxes d" "extends inert d (snd (docker_Healthy E d))"
  by (simp_all add: docker_Healthy_def dk_def extends_def Let_def)

lemma remember_all_ok:
  assumes "docker_ok E d" and "\<And>r. r \<in> set rs \<Longrightarrow> \<exists>cid cfg. (rs_ID r, cid, cfg) \<in> set (containers E (dp_calls d)) \<and>
      rs_Image r = label_of ''stacyvm.image'' (cc_Labels cfg)"
  shows "docker_ok E (fold (\<lambda>r. rememberSandbox (rs_ID r) (rs_Image r) (rs_State r)) rs d)"
  using assms
proof (induction rs arbitrary: d)
  case (Cons r rs)
  then obtain cid cfg where "(rs_ID r, cid, cfg) \<in> set (containers E (dp_calls d))"
    "rs_Image r = label_of ''stacyvm.image'' (cc_Labels cfg)"
    by (meson list.set_intros(1))
  then have "docker_ok E (rememberSandbox (rs_ID r) (rs_Image r) (rs_State r) d)"
    using remember_ok [OF Cons.prems(1)] by simp
  then show ?case
    using Cons.IH Cons.prems(2) by simp
qed simp

lemma remember_all_calls:
  "dp_calls (fold (\<lambda>r. rememberSandbox (rs_ID r) (rs_Image r) (rs_State r)) rs d) = dp_calls d"
  by (induction rs arbitrary: d) simp_all

lemma listed_ours:
  assumes "ours (name, cid, cfg)" and "cs_Labels c = cc_Labels cfg"
  shows "rs_ID (runtime_sandbox E c) = name" "rs_Image (runtime_sandbox E c) = label_of ''stacyvm.image'' (cc_Labels cfg)"
proof -
  have "name \<noteq> []" using assms(1) by (auto simp: ours_def HasPrefix_def)
  then show "rs_ID (runtime_sandbox E c) = name" "rs_Image (runtime_sandbox E c) = label_of ''stacyvm.image'' (cc_Labels cfg)"
    using assms by (simp_all add: ours_def runtime_sandbox_def label_of_def Let_def)
qed

text \<open>A list has the sandboxes that are up, all of them and no others.\<close>

lemma List_names:
  assumes "daemon_ok E" and "docker_ok E d" and "fst (ListRuntimeSandboxes E d) = Inr rs"
  shows "rs_ID ` set rs = docker_up E d"
proof -
  obtain cs where cs: "dk_list E (dp_calls d) DkList = Inr cs" "rs = map (runtime_sandbox E) cs"
    using assms(3) by (auto simp: ListRuntimeSandboxes_def dk_def Let_def split: sum.splits)
  have "rs_ID (runtime_sandbox E c) \<in> docker_up E d" if "c \<in> set cs" for c
    using daemon_okD(4) [OF assms(1) cs(1) that] docker_ok_ours [OF assms(2)] listed_ours(1)
    unfolding docker_up_def by force
  moreover have "sid \<in> rs_ID ` set rs" if up: "sid \<in> docker_up E d" for sid
  proof -
    obtain cid cfg where c: "(sid, cid, cfg) \<in> set (containers E (dp_calls d))" using up by (auto simp: docker_up_def)
    then have our: "ours (sid, cid, cfg)" using docker_ok_ours [OF assms(2)] by blast
    then obtain k where "k \<in> set cs" "cs_Labels k = cc_Labels cfg"
      using daemon_okD(5) [OF assms(1) cs(1) c] by (auto simp: ours_def)
    then show ?thesis using listed_ours(1) [OF our, of k E] cs(2) by force
  qed
  ultimately show ?thesis using cs(2) by auto
qed

lemma List_spec:
  assumes "daemon_ok E" and "docker_ok E d"
  shows "docker_ok E (snd (ListRuntimeSandboxes E d))" and "docker_up E (snd (ListRuntimeSandboxes E d)) = docker_up E d"
proof -
  define d1 where "d1 = snd (dk (dk_list E) DkList d)"
  have d1: "docker_ok E d1" "containers E (dp_calls d1) = containers E (dp_calls d)"
    using docker_ok_dk [OF assms(2), of DkList "dk_list E"] by (simp_all add: d1_def)
  have step: "dk (dk_list E) DkList d = (dk_list E (dp_calls d) DkList, d1)"
    by (simp add: d1_def prod_eq_iff)
  have "docker_ok E (snd (ListRuntimeSandboxes E d)) \<and> docker_up E (snd (ListRuntimeSandboxes E d)) = docker_up E d"
  proof (cases "dk_list E (dp_calls d) DkList")
    case (Inl e)
    with d1 show ?thesis by (simp add: ListRuntimeSandboxes_def step docker_up_def)
  next
    case (Inr cs)
    have "\<exists>cid cfg. (rs_ID r, cid, cfg) \<in> set (containers E (dp_calls d1)) \<and>
        rs_Image r = label_of ''stacyvm.image'' (cc_Labels cfg)" if r: "r \<in> set (map (runtime_sandbox E) cs)" for r
    proof -
      obtain c name cid cfg where c: "r = runtime_sandbox E c" "(name, cid, cfg) \<in> set (containers E (dp_calls d))"
        "cs_Labels c = cc_Labels cfg"
        using r daemon_okD(4) [OF assms(1) Inr] by auto blast
      then have "ours (name, cid, cfg)" using docker_ok_ours [OF assms(2)] by blast
      from listed_ours [OF this c(3)] show ?thesis using c d1(2) by auto
    qed
    then have "docker_ok E (fold (\<lambda>r. rememberSandbox (rs_ID r) (rs_Image r) (rs_State r)) (map (runtime_sandbox E) cs) d1)"
      by (rule remember_all_ok [OF d1(1)])
    then show ?thesis
    using d1(2) by (simp add: ListRuntimeSandboxes_def step Inr Let_def docker_up_def remember_all_calls)
  qed
  then show "docker_ok E (snd (ListRuntimeSandboxes E d))" and "docker_up E (snd (ListRuntimeSandboxes E d)) = docker_up E d"
    by simp_all
qed

lemma docker_step_ok:
  assumes "daemon_ok E" and "docker_ok E d" and "op_names p"
  shows "docker_ok E (docker_step E p d)"
proof (cases p)
  case (DO_Stats sid)
  then show ?thesis
    using assms docker_ok_cong [OF getSandbox_spec(1) [OF assms(1,2)], of sid "snd (docker_Stats E sid d)"] Stats_fields(1) [of E sid d]
    by (simp add: extends_containers [OF Stats_fields(2)] extends_containers [OF getSandbox_extends])
next
  case (DO_Status sid)
  then show ?thesis
    using docker_ok_inert [OF assms(2) Status_fields(2) Status_fields(1)] by simp
next
  case DO_Healthy
  then show ?thesis
    using docker_ok_inert [OF assms(2) Healthy_fields(2) Healthy_fields(1)] by simp
qed (use assms in \<open>simp_all add: docker_Spawn_spec docker_Destroy_spec guest_ok List_spec docker_ok_restart\<close>)

lemma docker_run_ok:
  assumes "daemon_ok E" and "list_all op_names ps"
  shows "docker_ok E (fold (docker_step E) ps (NewDockerProvider cfg))"
proof -
  have "docker_ok E (fold (docker_step E) ps d)" if "docker_ok E d" for d
    using assms(2) that by (induction ps arbitrary: d) (simp_all add: docker_step_ok [OF assms(1)])
  then show ?thesis by (simp add: docker_ok_new)
qed

text \<open>
  C19. Against a daemon that keeps its documented promises, the docker provider refines the set of
  sandboxes that are up, through any operations and restarts of the process: a spawn adds a new
  sandbox, or changes nothing if it fails, unless the daemon, asked by that spawn to remove the container
  that would not start, refuses (then that container is up); a destroy removes its sandbox exactly when it
  succeeds; the operations in a sandbox leave the set alone; a list that succeeds has exactly the
  sandboxes of the set; and whether an operation finds its sandbox depends on that set only, not on
  what the process remembers, save for faults of the daemon.
\<close>

theorem docker_refines_up:
  assumes "daemon_ok E" and "list_all op_names ps" and "HasPrefix sid ''sb-''"
    and "d = fold (docker_step E) ps (NewDockerProvider cfg)"
  shows "(case docker_Spawn E opts d of
        (Inr s, d') \<Rightarrow> s \<notin> docker_up E d \<and> docker_up E d' = insert s (docker_up E d)
      | (Inl e, d') \<Rightarrow> docker_up E d' = docker_up E d \<or> left_behind E d d') \<and>
    (case docker_Destroy E sid d of
        (None, d') \<Rightarrow> docker_up E d' = docker_up E d - {sid}
      | (Some e, d') \<Rightarrow> docker_up E d' = docker_up E d) \<and>
    docker_up E (snd (docker_guest E g sid d)) = docker_up E d \<and>
    (case ListRuntimeSandboxes E d of
        (r, d') \<Rightarrow> docker_up E d' = docker_up E d \<and> (\<forall>rs. r = Inr rs \<longrightarrow> rs_ID ` set rs = docker_up E d)) \<and>
    (case fst (docker_getSandbox E sid d) of
        None \<Rightarrow> sid \<in> docker_up E d
      | Some e \<Rightarrow> (sid \<notin> docker_up E d \<and> e = SandboxNotFoundError sid) \<or>
          (\<exists>e'. dk_inspect E (dp_calls d) (DkInspect sid) = Inl e' \<and> \<not> dk_notfound E e'))"
    (is "?spawn \<and> ?destroy \<and> ?guest \<and> ?list \<and> ?found")
proof -
  have ok: "docker_ok E d"
    using docker_run_ok [OF assms(1,2), of cfg] assms(4) by simp
  have ?spawn
    using docker_Spawn_spec [OF assms(1) ok, of opts]
    by (cases "docker_Spawn E opts d"; cases "fst (docker_Spawn E opts d)") simp_all
  moreover have ?destroy
    using docker_Destroy_spec(2) [OF ok assms(3)] by (auto split: prod.split option.splits)
  moreover have ?guest
    by (rule guest_up)
  moreover have ?list
    using List_spec(2) [OF assms(1) ok] List_names [OF assms(1) ok] by (cases "ListRuntimeSandboxes E d") simp
  moreover have ?found
    using getSandbox_spec(2,3) [OF assms(1) ok assms(3)] by (auto split: option.split)
  ultimately show ?thesis by (intro conjI)
qed

section \<open>A daemon that keeps its promises\<close>

primrec sample_containers :: "docker_call list \<Rightarrow> containers" where
  "sample_containers [] = []"
| "sample_containers (c # cs) =
     (case c of
        DkCreate cfg name \<Rightarrow>
          (if name \<in> fst ` set (sample_containers cs) then sample_containers cs
           else sample_containers cs @ [(name, replicate (Suc (length cs)) (CHR ''a''), cfg)])
      | DkRemove x \<Rightarrow> filter (\<lambda>(name, cid, cfg). name \<noteq> x \<and> cid \<noteq> x) (sample_containers cs)
      | _ \<Rightarrow> sample_containers cs)"

definition sample_docker :: dkenv where
  "sample_docker =
     \<lparr>dk_unit = (\<lambda>log c. None),
      dk_id = (\<lambda>log c. case c of
        DkCreate cfg name \<Rightarrow>
          if name \<in> fst ` set (sample_containers (rev log)) then Inl (Err ErrOther ''Conflict'')
          else Inr (replicate (Suc (length log)) (CHR ''a''))
      | _ \<Rightarrow> Inr ''exec''),
      dk_tags = (\<lambda>log c. Inr [[''alpine:latest'']]), dk_output = (\<lambda>log c. Inr ([], [], False)),
      dk_chunks = (\<lambda>log c. Inr ([], True)), dk_code = (\<lambda>log c. Inr 0), dk_archive = (\<lambda>log c. Inr (Inr [])),
      dk_pathstat = (\<lambda>log c. Inl (Err ErrOther ''no such file'')),
      dk_inspect = (\<lambda>log c. case c of
        DkInspect x \<Rightarrow>
          (case map_of (sample_containers (rev log)) x of
             None \<Rightarrow> Inl (Err ErrOther ''No such container'')
           | Some (cid, cfg) \<Rightarrow>
               Inr \<lparr>ir_Labels = cc_Labels cfg, ir_Image = cc_Image cfg, ir_Status = Some ''running'', ir_Running = True,
                    ir_Paused = False, ir_Restarting = False\<rparr>)
      | _ \<Rightarrow> Inl (Err ErrOther [])),
      dk_list = (\<lambda>log c. Inr (map (\<lambda>(name, cid, cfg).
        \<lparr>cs_ID = cid, cs_Names = [slash # name], cs_Labels = cc_Labels cfg, cs_Image = cc_Image cfg, cs_State = ''running'',
         cs_Created = 0\<rparr>) (sample_containers (rev log)))),
      dk_stats = (\<lambda>log c. Inl (Err ErrOther [])), dk_late = (\<lambda>log. False), dk_notfound = (\<lambda>e. err_msg e = ''No such container''),
      dk_metadata = (\<lambda>m. []), dk_unmetadata = (\<lambda>t. []), dk_cpus = (\<lambda>t. None), dk_tar = (\<lambda>n m. None),
      dk_time = (\<lambda>n. []), dk_random = (\<lambda>log. [char_of (length log)])\<rparr>"

lemma is_hex_as: "is_hex (replicate n (CHR ''a''))"
  by (simp add: is_hex_def list_all_iff)

lemma sample_ids_short: "(name, cid, cfg) \<in> set (sample_containers cs) \<Longrightarrow> length cid \<le> length cs \<and> is_hex cid"
proof (induction cs)
  case (Cons c cs)
  have new: "is_hex (CHR ''a'' # replicate (length cs) (CHR ''a''))"
    using is_hex_as [of "Suc (length cs)"] by simp
  from Cons show ?case
    by (cases c) (auto simp: new dest: le_SucI split: if_splits)
qed simp

lemma sample_containers_are: "containers sample_docker log = sample_containers (rev log)"
proof (induction log rule: rev_induct)
  case (snoc c log)
  then show ?case
    by (cases c) (simp_all add: sample_docker_def al_put_new)
qed simp

lemma sample_daemon_ok: "daemon_ok sample_docker"
  unfolding daemon_ok_def sample_containers_are
proof (intro conjI allI impI ballI)
  fix log cfg name cid
  assume "dk_id sample_docker log (DkCreate cfg name) = Inr cid"
  then have c: "cid = replicate (Suc (length log)) (CHR ''a'')" "name \<notin> fst ` set (sample_containers (rev log))"
    by (simp_all add: sample_docker_def split: if_splits)
  then show "is_hex cid" "name \<notin> fst ` set (sample_containers (rev log))"
    by (simp_all add: is_hex_def list_all_iff)
  show "cid \<notin> (fst \<circ> snd) ` set (sample_containers (rev log))"
    using sample_ids_short [of _ cid _ "rev log"] c(1) by fastforce
next
  fix log x e
  assume "dk_inspect sample_docker log (DkInspect x) = Inl e"
  then show "x \<notin> fst ` set (sample_containers (rev log))"
    by (simp add: sample_docker_def map_of_eq_None_iff split: option.splits prod.splits)
next
  fix log x i
  assume "dk_inspect sample_docker log (DkInspect x) = Inr i"
  then show "\<exists>name cid cfg. (name, cid, cfg) \<in> set (sample_containers (rev log)) \<and> (x = name \<or> HasPrefix cid x) \<and> ir_Labels i = cc_Labels cfg"
    by (auto simp: sample_docker_def split: option.splits) (metis map_of_SomeD)
next
  fix log cs c
  assume "dk_list sample_docker log DkList = Inr cs" "c \<in> set cs"
  then show "\<exists>name cid cfg. (name, cid, cfg) \<in> set (sample_containers (rev log)) \<and> cs_Labels c = cc_Labels cfg"
    by (auto simp: sample_docker_def) blast
next
  fix log cs name cid cfg
  assume "dk_list sample_docker log DkList = Inr cs" "(name, cid, cfg) \<in> set (sample_containers (rev log))"
  then show "\<exists>c\<in>set cs. cs_Labels c = cc_Labels cfg"
    by (force simp: sample_docker_def)
qed

definition sample_docker_config :: DockerProviderConfig where
  "sample_docker_config =
     \<lparr>dx_Runtime = [], dx_DefaultImage = [], dx_NetworkMode = [], dx_SeccompProfile = [], dx_ReadOnlyRootfs = False, dx_Memory = ''512m'',
      dx_CPUs = [], dx_PidsLimit = 0, dx_User = [], dx_DroppedCaps = [''ALL''], dx_AddedCaps = [], dx_Tmpfs = [],
      dx_PreviewDomain = []\<rparr>"

definition sample_spawn_options :: SpawnOptions where
  "sample_spawn_options = \<lparr>so_Image = [], so_MemoryMB = 0, so_VCPUs = 0, so_DiskSizeMB = 0, so_Metadata = []\<rparr>"

text \<open>A sandbox is spawned, the process restarts, and the sandbox is found.\<close>

theorem docker_refines_up_witness:
  "\<exists>d. d = fold (docker_step sample_docker) [DO_Spawn sample_spawn_options, DO_Restart] (NewDockerProvider sample_docker_config) \<and>
     dp_sandboxes d = [] \<and>
     (case fst (docker_getSandbox sample_docker ''sb-01'' d) of None \<Rightarrow> ''sb-01'' \<in> docker_up sample_docker d | Some e \<Rightarrow> False)"
proof -
  let ?d = "fold (docker_step sample_docker) [DO_Spawn sample_spawn_options, DO_Restart] (NewDockerProvider sample_docker_config)"
  have "fst (docker_getSandbox sample_docker ''sb-01'' ?d) = None" "dp_sandboxes ?d = []"
    by code_simp+
  then show ?thesis
    using docker_refines_up [OF sample_daemon_ok, of "[DO_Spawn sample_spawn_options, DO_Restart]" "''sb-01''" ?d sample_docker_config
        sample_spawn_options "GListFiles []"]
    by (simp add: HasPrefix_def)
qed

end
