(* ===== verification/API_Admin.thy ===== *)
theory API_Admin
  imports API_Environments Worker_Token Rate_Limit Go_Numbers
begin

text \<open>
  The routes for workers and administrators (\<open>internal/api/routes/workers.go\<close>, \<open>token_issuer.go\<close>,
  \<open>tenants.go\<close>, \<open>quotas.go\<close>, \<open>admin_audit.go\<close>) and the audit of the admin routes
  (\<open>internal/api/middleware/admin_audit.go\<close>).  A body is the decoded request, \<open>None\<close> when it does not
  decode; path parameters are arguments; \<open>settings\<close> of a tenant is the text \<open>json.Marshal\<close> gives.
\<close>

section \<open>Workers\<close>

record WorkerHeartbeatRequest =
  hb_Hostname :: string
  hb_Status :: string
  hb_Providers :: "string list option"
  hb_Capabilities :: "string list option"
  hb_Capacity :: workerCapacity

text \<open>A response is the record and whether its last heartbeat is older than two minutes.\<close>

definition workerResponse :: "WorkerRecord \<Rightarrow> time \<Rightarrow> WorkerRecord \<times> bool" where
  "workerResponse r now = (r, now - w_LastHeartbeat r > 2 * Minute)"

definition workers_List :: "'e dbenv_scheme \<Rightarrow> store \<Rightarrow> (WorkerRecord \<times> bool) list answered" where
  "workers_List E s =
     (case ListWorkers E s of
        Inl e \<Rightarrow> Inl (writeRouteError e)
      | Inr rs \<Rightarrow> Inr (200, map (\<lambda>r. workerResponse r (db_now E)) rs))"

definition workers_Get :: "'e dbenv_scheme \<Rightarrow> string \<Rightarrow> store \<Rightarrow> (WorkerRecord \<times> bool) answered" where
  "workers_Get E wid s =
     (case GetWorker E wid s of
        Inl e \<Rightarrow> Inl (writeRouteError e)
      | Inr r \<Rightarrow> Inr (200, workerResponse r (db_now E)))"

abbreviation wrong_worker :: reply where
  "wrong_worker \<equiv> WriteError 403 ''UNAUTHORIZED'' ''worker credential does not match requested worker''"

text \<open>The worker a request acts for, and whether its credential is another worker's.\<close>

definition other_worker :: "AuthIdentity \<Rightarrow> string \<Rightarrow> bool" where
  "other_worker i wid \<longleftrightarrow> ai_Role i = AuthRoleWorker \<and> ai_WorkerID i \<noteq> wid"

definition heartbeat_record :: "time \<Rightarrow> string \<Rightarrow> WorkerHeartbeatRequest \<Rightarrow> WorkerRecord" where
  "heartbeat_record now wid req =
     \<lparr>w_ID = wid, w_Hostname = TrimSpace (hb_Hostname req),
      w_Status = (if TrimSpace (hb_Status req) = [] then ''online'' else TrimSpace (hb_Status req)),
      w_Providers = hb_Providers req, w_Capabilities = hb_Capabilities req, w_Capacity = hb_Capacity req,
      w_LastHeartbeat = now, w_CreatedAt = 0, w_UpdatedAt = 0\<rparr>"

definition Heartbeat ::
  "'e dbenv_scheme \<Rightarrow> AuthIdentity \<Rightarrow> string \<Rightarrow> WorkerHeartbeatRequest option \<Rightarrow> store \<Rightarrow> (WorkerRecord \<times> bool) answered \<times> store" where
  "Heartbeat E i param body s =
     (let workerID = TrimSpace param in
      if workerID = [] then (Inl (bad_request ''worker id is required''), s)
      else if other_worker i workerID then (Inl wrong_worker, s)
      else case body of
        None \<Rightarrow> (Inl bad_body, s)
      | Some req \<Rightarrow>
          (let rec = heartbeat_record (db_now E) workerID req in
           case GetWorker E workerID s of
             Inl e \<Rightarrow>
               (if ErrorsIs e ErrNotFound then
                  (let (r, s) = SaveWorker E rec s
                   in (case r of Some e \<Rightarrow> Inl (writeRouteError e) | None \<Rightarrow> Inr (200, workerResponse rec (db_now E)), s))
                else (Inl (writeRouteError e), s))
           | Inr old \<Rightarrow>
               (let rec = rec\<lparr>w_CreatedAt := w_CreatedAt old\<rparr>; (r, s) = SaveWorker E rec s
                in (case r of Some e \<Rightarrow> Inl (writeRouteError e) | None \<Rightarrow> Inr (200, workerResponse rec (db_now E)), s))))"

definition workers_Delete :: "'e dbenv_scheme \<Rightarrow> string \<Rightarrow> store \<Rightarrow> string answered \<times> store" where
  "workers_Delete E wid s =
     (let (r, s) = DeleteWorker E wid s
      in (case r of Some e \<Rightarrow> Inl (writeRouteError e) | None \<Rightarrow> Inr (200, ''deleted''), s))"

definition route_RenewLease ::
  "'e dbenv_scheme \<Rightarrow> AuthIdentity \<Rightarrow> string \<Rightarrow> string \<Rightarrow> string option \<Rightarrow> store \<Rightarrow> LeaseRecord answered \<times> store" where
  "route_RenewLease E i param res body s =
     (let workerID = TrimSpace param; resourceID = TrimSpace res in
      if workerID = [] \<or> resourceID = [] then (Inl (bad_request ''worker id and resource id are required''), s)
      else if other_worker i workerID then (Inl wrong_worker, s)
      else case body of
        None \<Rightarrow> (Inl bad_body, s)
      | Some ttl \<Rightarrow>
          (case ParseDuration ttl of
             Inl e \<Rightarrow> (Inl (bad_request ''ttl must be a positive duration''), s)
           | Inr d \<Rightarrow>
               if d \<le> 0 then (Inl (bad_request ''ttl must be a positive duration''), s)
               else
                 (let (r, s) = RenewLease E resourceID workerID d s
                  in (case r of Inl e \<Rightarrow> Inl (writeRouteError e) | Inr l \<Rightarrow> Inr (200, l), s))))"

text \<open>
  What a worker may ask of \<open>/api/v1/worker\<close>, behind \<open>WorkerAuthWithConfig\<close> and the scope of the
  route (\<open>internal/api/server.go\<close>).  The reply is only its status here.
\<close>

datatype worker_request =
    WR_Heartbeat string "WorkerHeartbeatRequest option"
  | WR_Renew string string "string option"

definition answered_status :: "'a answered \<Rightarrow> nat" where
  "answered_status r = (case r of Inl (st, b) \<Rightarrow> st | Inr (st, x) \<Rightarrow> st)"

fun worker_scope :: "worker_request \<Rightarrow> string" where
  "worker_scope (WR_Heartbeat p b) = ''worker:heartbeat''"
| "worker_scope (WR_Renew p r b) = ''worker:lease''"

fun worker_handler :: "'e dbenv_scheme \<Rightarrow> worker_request \<Rightarrow> AuthIdentity \<Rightarrow> store \<Rightarrow> nat \<times> store" where
  "worker_handler E (WR_Heartbeat p b) i s = apfst answered_status (Heartbeat E i p b s)"
| "worker_handler E (WR_Renew p r b) i s = apfst answered_status (route_RenewLease E i p r b s)"

definition worker_routes ::
  "token_lib \<Rightarrow> WorkerAuthConfig \<Rightarrow> 'e dbenv_scheme \<Rightarrow> headers \<Rightarrow> worker_request \<Rightarrow> store \<Rightarrow> nat \<times> store" where
  "worker_routes L cfg E h q s =
     (case and_then (WorkerAuthWithConfig L cfg (db_now E) h anonymous) (RequireScope (worker_scope q)) of
        Reject st \<Rightarrow> (st, s)
      | Next i \<Rightarrow> worker_handler E q i s)"

section \<open>Tokens for workers\<close>

record IssueWorkerTokenRequest =
  it_WorkerID :: string
  it_TTL :: string
  it_Scopes :: "string list"
  it_Audience :: string

definition issue_audience :: "string \<Rightarrow> string" where
  "issue_audience a = (if TrimSpace a = [] then WorkerTokenAudienceControlPlane else TrimSpace a)"

definition issue_ttl :: "string \<Rightarrow> duration option" where
  "issue_ttl t =
     (case ParseDuration (if TrimSpace t = [] then ''5m'' else TrimSpace t) of
        Inl e \<Rightarrow> None
      | Inr d \<Rightarrow> if d \<le> 0 then None else Some d)"

definition issued_claims :: "string \<Rightarrow> time \<Rightarrow> duration \<Rightarrow> IssueWorkerTokenRequest \<Rightarrow> WorkerTokenClaims" where
  "issued_claims i now ttl b =
     \<lparr>wt_WorkerID = TrimSpace (it_WorkerID b), wt_TokenID = i, wt_Audience = issue_audience (it_Audience b), wt_Scopes = it_Scopes b,
      wt_ExpiresAt = Unix (now + ttl), wt_IssuedAt = Unix now, wt_NotBefore = 0\<rparr>"

text \<open>\<open>tokenID\<close> is what the random source gives, \<open>None\<close> if it fails.\<close>

definition IssueToken ::
  "token_lib \<Rightarrow> string \<Rightarrow> string option \<Rightarrow> time \<Rightarrow> IssueWorkerTokenRequest option \<Rightarrow> (string \<times> string \<times> time) answered" where
  "IssueToken L signingKey tokenID now body =
     (if signingKey = [] then
        Inl (WriteError 503 ''UNAVAILABLE''
          ''worker signing key is not configured; set auth.worker_signing_key to enable centralized token issuance'')
      else case body of
        None \<Rightarrow> Inl bad_body
      | Some b \<Rightarrow>
     (let workerID = TrimSpace (it_WorkerID b) in
      if workerID = [] then Inl (bad_request ''worker_id is required'')
      else case issue_ttl (it_TTL b) of
        None \<Rightarrow> Inl (bad_request ''invalid ttl; use a Go duration like 5m or 15m'')
      | Some ttl \<Rightarrow>
          if ttl > MaxWorkerTokenTTL then Inl (bad_request ''ttl exceeds maximum allowed worker token lifetime of 15m'')
          else
            (let audience = issue_audience (it_Audience b) in
             if audience \<noteq> WorkerTokenAudienceControlPlane \<and> audience \<noteq> WorkerTokenAudienceRPC
             then Inl (bad_request ''audience must be worker:control-plane or worker:rpc'')
             else
               (case find (\<lambda>sc. \<not> HasPrefix (TrimSpace sc) ''worker:'') (it_Scopes b) of
                  Some sc \<Rightarrow>
                    Inl (bad_request (''only worker:* scopes may be issued; scope '' @ Quote sc @ '' is not permitted''))
                | None \<Rightarrow>
                    (case tokenID of
                       None \<Rightarrow> Inl (WriteError 500 ''INTERNAL_ERROR'' ''failed to generate token ID'')
                     | Some i \<Rightarrow>
                         (case SignWorkerToken L signingKey (issued_claims i now ttl b) of
                            None \<Rightarrow> Inl (WriteError 500 ''INTERNAL_ERROR'' ''failed to sign worker token'')
                          | Some token \<Rightarrow> Inr (200, token, workerID, now + ttl)))))))"

section \<open>Tenants\<close>

record CreateTenantRequest =
  ct_ID :: string
  ct_Name :: string
  ct_OwnerID :: string
  ct_Settings :: "string option"

abbreviation no_such :: "string \<Rightarrow> reply" where
  "no_such what \<equiv> WriteError 404 ''NOT_FOUND'' (what @ '' not found'')"

text \<open>A missing row is a 404 that names its kind, every other error a 500.\<close>

definition tenant_error :: "string \<Rightarrow> error \<Rightarrow> reply" where
  "tenant_error what e = (if ErrorsIs e ErrNotFound then no_such what else internal e)"

definition tenants_List :: "'e dbenv_scheme \<Rightarrow> store \<Rightarrow> TenantRecord list answered" where
  "tenants_List E s = (case ListTenants E s of Inl e \<Rightarrow> Inl (internal e) | Inr ts \<Rightarrow> Inr (200, ts))"

definition tenants_Create ::
  "'e dbenv_scheme \<Rightarrow> string \<Rightarrow> CreateTenantRequest option \<Rightarrow> store \<Rightarrow> TenantRecord answered \<times> store" where
  "tenants_Create E uuid body s =
     (case body of
        None \<Rightarrow> (Inl bad_body, s)
      | Some req \<Rightarrow>
          if TrimSpace (ct_Name req) = [] then (Inl (bad_request ''name is required''), s)
          else
            (let tid = (if TrimSpace (ct_ID req) = [] then ''tenant-'' @ take 8 uuid else TrimSpace (ct_ID req));
                 t = \<lparr>tn_ID = tid, tn_Name = ct_Name req, tn_OwnerID = TrimSpace (ct_OwnerID req),
                      tn_Settings = (case ct_Settings req of None \<Rightarrow> ''{}'' | Some j \<Rightarrow> j), tn_CreatedAt = 0, tn_UpdatedAt = 0\<rparr>;
                 (r, s) = CreateTenant E t s
             in (case r of Some e \<Rightarrow> Inl (internal e) | None \<Rightarrow> Inr (201, t), s)))"

definition tenants_Get :: "'e dbenv_scheme \<Rightarrow> string \<Rightarrow> store \<Rightarrow> TenantRecord answered" where
  "tenants_Get E tid s = (case GetTenant E tid s of Inl e \<Rightarrow> Inl (tenant_error ''tenant'' e) | Inr t \<Rightarrow> Inr (200, t))"

definition tenants_Update ::
  "'e dbenv_scheme \<Rightarrow> string \<Rightarrow> CreateTenantRequest option \<Rightarrow> store \<Rightarrow> TenantRecord answered \<times> store" where
  "tenants_Update E tid body s =
     (case GetTenant E tid s of
        Inl e \<Rightarrow> (Inl (tenant_error ''tenant'' e), s)
      | Inr t \<Rightarrow>
          (case body of
             None \<Rightarrow> (Inl bad_body, s)
           | Some req \<Rightarrow>
               (let t = (if ct_Name req \<noteq> [] then t\<lparr>tn_Name := ct_Name req\<rparr> else t);
                    t = (if ct_OwnerID req \<noteq> [] then t\<lparr>tn_OwnerID := ct_OwnerID req\<rparr> else t);
                    t = (case ct_Settings req of None \<Rightarrow> t | Some j \<Rightarrow> t\<lparr>tn_Settings := j\<rparr>);
                    (r, s) = UpdateTenant E t s
                in (case r of Some e \<Rightarrow> Inl (internal e) | None \<Rightarrow> Inr (200, t), s))))"

text \<open>A deletion answers 204.\<close>

definition deletion :: "string \<Rightarrow> error option \<times> store \<Rightarrow> unit answered \<times> store" where
  "deletion what r = (case fst r of Some e \<Rightarrow> Inl (tenant_error what e) | None \<Rightarrow> Inr (204, ()), snd r)"

definition tenants_Delete :: "'e dbenv_scheme \<Rightarrow> string \<Rightarrow> store \<Rightarrow> unit answered \<times> store" where
  "tenants_Delete E tid s = deletion ''tenant'' (DeleteTenant E tid s)"

definition ListMembers :: "'e dbenv_scheme \<Rightarrow> string \<Rightarrow> store \<Rightarrow> TenantMemberRecord list answered" where
  "ListMembers E tid s = (case ListTenantMembers E tid s of Inl e \<Rightarrow> Inl (internal e) | Inr ms \<Rightarrow> Inr (200, ms))"

definition isValidMemberRole :: "string \<Rightarrow> bool" where
  "isValidMemberRole role \<longleftrightarrow> role \<in> {''viewer'', ''operator'', ''admin''}"

definition UpsertMember ::
  "'e dbenv_scheme \<Rightarrow> string \<Rightarrow> string \<Rightarrow> string option \<Rightarrow> store \<Rightarrow> TenantMemberRecord answered \<times> store" where
  "UpsertMember E tid uid body s =
     (case body of
        None \<Rightarrow> (Inl bad_body, s)
      | Some rl \<Rightarrow>
          (let role = TrimSpace rl in
           if \<not> isValidMemberRole role then (Inl (bad_request ''role must be viewer, operator, or admin''), s)
           else
             (let m = \<lparr>tm_TenantID = tid, tm_UserID = uid, tm_Role = role, tm_CreatedAt = 0, tm_UpdatedAt = 0\<rparr>;
                  (r, s) = SaveTenantMember E m s
              in (case r of Some e \<Rightarrow> Inl (internal e) | None \<Rightarrow> Inr (200, m), s))))"

definition DeleteMember :: "'e dbenv_scheme \<Rightarrow> string \<Rightarrow> string \<Rightarrow> store \<Rightarrow> unit answered \<times> store" where
  "DeleteMember E tid uid s = deletion ''member'' (DeleteTenantMember E tid uid s)"

definition AuditExport ::
  "'e dbenv_scheme \<Rightarrow> string \<Rightarrow> string \<Rightarrow> store \<Rightarrow> (AdminAuditRecord list \<times> OperationAuditRecord list) answered" where
  "AuditExport E tid since s =
     (case ListAdminAudit E \<lparr>aaq_Limit = 200, aaq_Actor = [], aaq_Method = [], aaq_Status = 0, aaq_PathLike = since, aaq_TenantID = tid\<rparr> s of
        Inl e \<Rightarrow> Inl (internal e)
      | Inr admin \<Rightarrow>
          (case ListOperationAudit E \<lparr>aq_Limit = 200, aq_Actor = [], aq_Action = [], aq_SandboxID = [], aq_Resource = [], aq_Status = [], aq_TenantID = tid\<rparr> s of
             Inl e \<Rightarrow> Inl (internal e)
           | Inr ops \<Rightarrow> Inr (200, admin, ops)))"

record CreatePolicyRequest =
  cp_ResourceType :: string
  cp_Effect :: string
  cp_Pattern :: string
  cp_Priority :: int

definition isValidPolicyResourceType :: "string \<Rightarrow> bool" where
  "isValidPolicyResourceType rt \<longleftrightarrow> rt \<in> {''image'', ''provider'', ''network''}"

definition isValidPolicyEffect :: "string \<Rightarrow> bool" where
  "isValidPolicyEffect effect \<longleftrightarrow> effect = ''allow'' \<or> effect = ''deny''"

definition route_ListPolicies :: "'e dbenv_scheme \<Rightarrow> string \<Rightarrow> store \<Rightarrow> PolicyRecord list answered" where
  "route_ListPolicies E tid s =
     (case ListPolicies E \<lparr>pq_TenantID = tid, pq_ResourceType = []\<rparr> s of Inl e \<Rightarrow> Inl (internal e) | Inr ps \<Rightarrow> Inr (200, ps))"

definition route_CreatePolicy ::
  "'e dbenv_scheme \<Rightarrow> string \<Rightarrow> string \<Rightarrow> CreatePolicyRequest option \<Rightarrow> store \<Rightarrow> PolicyRecord answered \<times> store" where
  "route_CreatePolicy E uuid tid body s =
     (case body of
        None \<Rightarrow> (Inl bad_body, s)
      | Some req \<Rightarrow>
          if \<not> isValidPolicyResourceType (cp_ResourceType req)
          then (Inl (bad_request ''resource_type must be image, provider, or network''), s)
          else if \<not> isValidPolicyEffect (cp_Effect req) then (Inl (bad_request ''effect must be allow or deny''), s)
          else if TrimSpace (cp_Pattern req) = [] then (Inl (bad_request ''pattern is required''), s)
          else
            (let p = \<lparr>p_ID = ''pol-'' @ take 8 uuid, p_TenantID = tid, p_ResourceType = cp_ResourceType req, p_Effect = cp_Effect req,
                      p_Pattern = cp_Pattern req, p_Priority = (if cp_Priority req = 0 then 10 else cp_Priority req),
                      p_CreatedAt = 0, p_UpdatedAt = 0\<rparr>;
                 (r, s) = CreatePolicy E p s
             in (case r of Some e \<Rightarrow> Inl (internal e) | None \<Rightarrow> Inr (201, p), s)))"

definition route_DeletePolicy :: "'e dbenv_scheme \<Rightarrow> string \<Rightarrow> store \<Rightarrow> unit answered \<times> store" where
  "route_DeletePolicy E pid s = deletion ''policy'' (DeletePolicy E pid s)"

section \<open>Quotas\<close>

definition quotas_List :: "env \<Rightarrow> mgr \<Rightarrow> OwnerQuota list answered" where
  "quotas_List E m = (case ListOwnerQuotas E m of Inl e \<Rightarrow> Inl (writeRouteError e) | Inr qs \<Rightarrow> Inr (200, qs))"

definition quotas_Summary :: "env \<Rightarrow> mgr \<Rightarrow> QuotaSummary answered" where
  "quotas_Summary E m = (case getQuotaSummary E m of Inl e \<Rightarrow> Inl (writeRouteError e) | Inr q \<Rightarrow> Inr (200, q))"

definition quotas_Get :: "env \<Rightarrow> string \<Rightarrow> mgr \<Rightarrow> OwnerQuota answered" where
  "quotas_Get E owner m = (case GetOwnerQuota E owner m of Inl e \<Rightarrow> Inl (writeRouteError e) | Inr q \<Rightarrow> Inr (200, q))"

definition quotas_Save :: "env \<Rightarrow> string \<Rightarrow> OwnerQuota option \<Rightarrow> mgr \<Rightarrow> OwnerQuota answered \<times> mgr" where
  "quotas_Save E owner body m =
     (case body of
        None \<Rightarrow> (Inl bad_body, m)
      | Some q \<Rightarrow>
          (let (r, m) = Manager_SaveOwnerQuota E (q\<lparr>oq_OwnerID := owner\<rparr>) m
           in (case r of Inl e \<Rightarrow> Inl (writeRouteError e) | Inr q \<Rightarrow> Inr (200, q), m)))"

definition quotas_Delete :: "env \<Rightarrow> string \<Rightarrow> mgr \<Rightarrow> string answered \<times> mgr" where
  "quotas_Delete E owner m =
     (let (r, m) = DeleteOwnerQuota E owner m
      in (case r of Some e \<Rightarrow> Inl (writeRouteError e) | None \<Rightarrow> Inr (200, ''deleted''), m))"

definition quotas_Usage :: "env \<Rightarrow> string \<Rightarrow> mgr \<Rightarrow> OwnerUsage answered" where
  "quotas_Usage E owner m = (case getOwnerUsage E owner m of Inl e \<Rightarrow> Inl (writeRouteError e) | Inr u \<Rightarrow> Inr (200, u))"

section \<open>The audit of the admin routes\<close>

fun role_name :: "AuthRole \<Rightarrow> string" where
  "role_name AuthRoleAnonymous = ''anonymous''"
| "role_name AuthRoleViewer = ''viewer''"
| "role_name AuthRoleAPI = ''api''"
| "role_name AuthRoleOperator = ''operator''"
| "role_name AuthRoleAdmin = ''admin''"
| "role_name AuthRoleTenantAdmin = ''tenant_admin''"
| "role_name AuthRoleWorker = ''worker''"
| "role_name AuthRoleNone = []"

definition actorFromRequest :: "headers \<Rightarrow> AuthIdentity \<Rightarrow> string" where
  "actorFromRequest h i =
     (let actor = TrimSpace (h ''X-User-ID'') in
      if actor \<noteq> [] then actor
      else if ai_Email i \<noteq> [] then ai_Email i
      else if ai_Subject i \<noteq> [] then ai_Subject i
      else if ai_Role i \<noteq> AuthRoleAnonymous \<and> ai_Header i \<noteq> [] then role_name (ai_Role i) @ '':'' @ ai_Header i
      else if ai_Role i \<noteq> AuthRoleAnonymous then role_name (ai_Role i)
      else ''admin'')"

definition clientAddr :: "headers \<Rightarrow> string \<Rightarrow> string" where
  "clientAddr h remote =
     (if h ''X-Forwarded-For'' \<noteq> [] then TrimSpace (hd (split_on (CHR '','') (h ''X-Forwarded-For'')))
      else if TrimSpace (h ''X-Real-IP'') \<noteq> [] then TrimSpace (h ''X-Real-IP'')
      else case split_host remote of Some host \<Rightarrow> host | None \<Rightarrow> remote)"

record admin_request =
  ar_Method :: string
  ar_Path :: string
  ar_Headers :: headers
  ar_RemoteAddr :: string
  ar_RequestID :: string
  ar_UserAgent :: string

definition audit_record :: "admin_request \<Rightarrow> AuthIdentity \<Rightarrow> nat \<Rightarrow> int \<Rightarrow> time \<Rightarrow> AdminAuditRecord" where
  "audit_record q i status ms now =
     \<lparr>aa_ID = 0, aa_Actor = actorFromRequest (ar_Headers q) i, aa_Method = ar_Method q, aa_Path = ar_Path q,
      aa_Status = int status, aa_DurationMS = ms, aa_RequestID = ar_RequestID q,
      aa_RemoteAddr = clientAddr (ar_Headers q) (ar_RemoteAddr q), aa_UserAgent = ar_UserAgent q,
      aa_TenantID = ai_TenantID i, aa_CreatedAt = now\<rparr>"

text \<open>The handler runs first; what it answered is recorded, then old records are pruned.\<close>

definition AdminAudit ::
  "'e dbenv_scheme \<Rightarrow> duration \<Rightarrow> int \<Rightarrow> admin_request \<Rightarrow> AuthIdentity \<Rightarrow> (AuthIdentity \<Rightarrow> store \<Rightarrow> nat \<times> store) \<Rightarrow> store \<Rightarrow> nat \<times> store" where
  "AdminAudit E retention ms q i next s =
     (let (status, s) = next i s;
          (r, s) = CreateAdminAudit E (audit_record q i status ms (db_now E)) s in
      case r of
        Some e \<Rightarrow> (status, s)
      | None \<Rightarrow>
          (if retention > 0 then (status, snd (DeleteAdminAuditBefore E (db_now E - retention) s)) else (status, s)))"

text \<open>A handler of an admin route behind the whole chain of \<open>internal/api/server.go\<close>.\<close>

definition admin_routes ::
  "'k oidc_lib \<Rightarrow> 'k publicKey \<Rightarrow> ServerAuth \<Rightarrow> 'e dbenv_scheme \<Rightarrow> 'k jwksCache option \<Rightarrow> duration \<Rightarrow> int \<Rightarrow> admin_request \<Rightarrow>
     (AuthIdentity \<Rightarrow> store \<Rightarrow> nat \<times> store) \<Rightarrow> store \<Rightarrow> nat \<times> store" where
  "admin_routes L staticKey sa E jw retention ms q handler s =
     (case fst (admin_chain L staticKey sa (db_now E) (ar_Headers q) jw) of
        Reject st \<Rightarrow> (st, s)
      | Next i \<Rightarrow> AdminAudit E retention ms q i handler s)"

text \<open>A query parameter that must be a positive number when it is given.\<close>

definition positive_param :: "string \<Rightarrow> int \<Rightarrow> int option" where
  "positive_param raw dflt =
     (if raw = [] then Some dflt
      else case parse_int64 raw of None \<Rightarrow> None | Some n \<Rightarrow> if n < 1 then None else Some n)"

text \<open>The records, and whether they are sent as CSV.\<close>

definition admin_audit_List :: "'e dbenv_scheme \<Rightarrow> (string \<Rightarrow> string) \<Rightarrow> store \<Rightarrow> (AdminAuditRecord list \<times> bool) answered" where
  "admin_audit_List E query s =
     (case positive_param (query ''limit'') 100 of
        None \<Rightarrow> Inl (bad_request ''limit must be a positive integer'')
      | Some limit \<Rightarrow>
     (case positive_param (query ''status'') 0 of
        None \<Rightarrow> Inl (bad_request ''status must be a positive integer'')
      | Some status \<Rightarrow>
          (case ListAdminAudit E \<lparr>aaq_Limit = limit, aaq_Actor = TrimSpace (query ''actor''),
                  aaq_Method = ToUpper (TrimSpace (query ''method'')), aaq_Status = status,
                  aaq_PathLike = TrimSpace (query ''path''), aaq_TenantID = []\<rparr> s of
             Inl e \<Rightarrow> Inl (writeRouteError e)
           | Inr rs \<Rightarrow> Inr (200, rs, EqualFold (query ''format'') ''csv''))))"

text \<open>The rows of the CSV file; \<open>fmt\<close> prints a time.\<close>

definition admin_audit_csv :: "(time \<Rightarrow> string) \<Rightarrow> AdminAuditRecord list \<Rightarrow> string list list" where
  "admin_audit_csv fmt rs =
     [''id'', ''created_at'', ''actor'', ''method'', ''path'', ''status'', ''duration_ms'', ''request_id'', ''remote_addr'', ''user_agent''] #
     map (\<lambda>r. [Itoa (aa_ID r), fmt (aa_CreatedAt r), aa_Actor r, aa_Method r, aa_Path r, Itoa (aa_Status r), Itoa (aa_DurationMS r),
       aa_RequestID r, aa_RemoteAddr r, aa_UserAgent r]) rs"

end
