(* ===== verification/API_Admin_Laws.thy ===== *)
theory API_Admin_Laws
  imports API_Admin
begin

text \<open>
  What the worker and admin routes keep: a worker changes its own row and its own leases only; a
  token issued to a worker lets that worker in for as long as it says; every request that reaches
  an admin handler leaves one record.
\<close>

section \<open>Workers keep to themselves\<close>

text \<open>Two stores agree but for the row of one worker; but for the leases of one worker.\<close>

definition but_worker :: "string \<Rightarrow> store \<Rightarrow> store \<Rightarrow> bool" where
  "but_worker w s s' \<longleftrightarrow>
     s' = s\<lparr>t_workers := t_workers s'\<rparr> \<and>
     filter (\<lambda>r. w_ID r \<noteq> w) (t_workers s') = filter (\<lambda>r. w_ID r \<noteq> w) (t_workers s)"

text \<open>The lease of the resource, when the worker holds it and it has not expired, is renewed: every other lease is as it was.\<close>

definition renewed :: "'e dbenv_scheme \<Rightarrow> string \<Rightarrow> string \<Rightarrow> duration \<Rightarrow> LeaseRecord \<Rightarrow> LeaseRecord" where
  "renewed E w res ttl r =
     (if l_ResourceID r = res \<and> l_HolderID r = w \<and> db_now E < l_ExpiresAt r
      then r\<lparr>l_Generation := l_Generation r + 1, l_ExpiresAt := db_now E + ttl, l_UpdatedAt := db_now E\<rparr> else r)"

lemma filter_upd_where:
  "(\<And>r. P r \<Longrightarrow> \<not> Q r \<and> \<not> Q (f r)) \<Longrightarrow> filter Q (upd_where P f t) = filter Q t"
  by (induction t) (auto simp: upd_where_def)

lemma SaveWorker_but: "w_ID r = w \<Longrightarrow> but_worker w s (snd (SaveWorker E r s))"
  by (auto simp: SaveWorker_def but_worker_def Let_def split: option.split intro!: filter_upd_where)

lemma RenewLease_but:
  "snd (RenewLease E res w ttl s) = s \<or> snd (RenewLease E res w ttl s) = s\<lparr>t_leases := map (renewed E w res ttl) (t_leases s)\<rparr>"
  by (auto simp: RenewLease_def Let_def upd_where_def renewed_def cong: if_cong split: option.split)

lemma Heartbeat_but:
  "snd (Heartbeat E i p b s) = s \<or> (\<not> other_worker i (TrimSpace p) \<and> TrimSpace p \<noteq> [] \<and> but_worker (TrimSpace p) s (snd (Heartbeat E i p b s)))"
  by (auto simp: Heartbeat_def heartbeat_record_def Let_def case_prod_beta SaveWorker_but split: option.split sum.split)

lemma route_RenewLease_but:
  "snd (route_RenewLease E i p res b s) = s \<or>
   (\<not> other_worker i (TrimSpace p) \<and> TrimSpace p \<noteq> [] \<and>
    (\<exists>t ttl. b = Some t \<and> ParseDuration t = Inr ttl \<and> 0 < ttl \<and>
       snd (route_RenewLease E i p res b s) = s\<lparr>t_leases := map (renewed E (TrimSpace p) (TrimSpace res) ttl) (t_leases s)\<rparr>))"
  using RenewLease_but [of E "TrimSpace res" "TrimSpace p" _ s]
  by (auto simp: route_RenewLease_def Let_def case_prod_beta split: option.split sum.split)

fun worker_change :: "'e dbenv_scheme \<Rightarrow> worker_request \<Rightarrow> string \<Rightarrow> store \<Rightarrow> store \<Rightarrow> bool" where
  "worker_change E (WR_Heartbeat p b) w s s' \<longleftrightarrow> TrimSpace p = w \<and> but_worker w s s'"
| "worker_change E (WR_Renew p res b) w s s' \<longleftrightarrow> TrimSpace p = w \<and>
     (\<exists>t ttl. b = Some t \<and> ParseDuration t = Inr ttl \<and> 0 < ttl \<and>
        s' = s\<lparr>t_leases := map (renewed E w (TrimSpace res) ttl) (t_leases s)\<rparr>)"

text \<open>
  C26. A worker keeps to itself: a request under \<open>/api/v1/worker\<close> that changes anything in the store
  presented a valid credential of the worker its path names, with the scope of the route.  A heartbeat
  changes the row of that worker and nothing else.  A renewal changes the lease of the resource it
  names and nothing else, and that only when the worker holds it and it has not expired: its generation
  goes up by one, it expires the time asked for from now, and it is marked as updated now.
\<close>

theorem worker_confined:
  assumes "snd (worker_routes L cfg E h q s) \<noteq> s"
  shows "\<exists>scopes. validateWorkerCredentials L (TrimSpace (h ''X-Worker-ID'')) (fst (workerTokenFromRequest h))
        (TrimSpace (wa_SharedToken cfg)) (normalizeWorkerTokens (wa_WorkerTokens cfg))
        (normalizeSigningKeys (wa_SigningKey cfg) (wa_SigningKeys cfg)) (normalizeRevokedTokenIDs (wa_RevokedTokenIDs cfg)) (db_now E)
      = Some scopes \<and> worker_scope q \<in> set scopes \<and>
      worker_change E q (TrimSpace (h ''X-Worker-ID'')) s (snd (worker_routes L cfg E h q s))"
proof -
  obtain i where i: "and_then (WorkerAuthWithConfig L cfg (db_now E) h anonymous) (RequireScope (worker_scope q)) = Next i"
    using assms by (auto simp: worker_routes_def split: outcome.splits)
  then have a: "WorkerAuthWithConfig L cfg (db_now E) h anonymous = Next i" and sc: "worker_scope q \<in> set (ai_Scopes i)"
    by (cases "WorkerAuthWithConfig L cfg (db_now E) h anonymous"; simp add: RequireScope_def HasScope_def split: if_splits)+
  from a have v: "validateWorkerCredentials L (TrimSpace (h ''X-Worker-ID'')) (fst (workerTokenFromRequest h))
        (TrimSpace (wa_SharedToken cfg)) (normalizeWorkerTokens (wa_WorkerTokens cfg))
        (normalizeSigningKeys (wa_SigningKey cfg) (wa_SigningKeys cfg)) (normalizeRevokedTokenIDs (wa_RevokedTokenIDs cfg)) (db_now E)
      = Some (ai_Scopes i)" and id: "ai_Role i = AuthRoleWorker" "ai_WorkerID i = TrimSpace (h ''X-Worker-ID'')"
    by (auto simp: WorkerAuthWithConfig_def Let_def split: if_splits prod.splits option.splits)
  have r: "snd (worker_routes L cfg E h q s) = snd (worker_handler E q i s)"
    by (simp add: worker_routes_def i)
  have "worker_change E q (TrimSpace (h ''X-Worker-ID'')) s (snd (worker_handler E q i s))"
  proof (cases q)
    case (WR_Heartbeat p b)
    with assms Heartbeat_but [of E i p b s] id show ?thesis unfolding r by (auto simp: other_worker_def)
  next
    case (WR_Renew p res b)
    then have "snd (route_RenewLease E i p res b s) \<noteq> s" using assms r by simp
    with route_RenewLease_but [of E i p res b s] id show ?thesis
      unfolding WR_Renew worker_handler.simps worker_change.simps by (auto simp: other_worker_def)
  qed
  with v sc show ?thesis
    by (auto simp: r)
qed

definition sample_worker_auth :: WorkerAuthConfig where
  "sample_worker_auth =
     \<lparr>wa_SharedToken = [], wa_WorkerTokens = [(''w1'', ''t1'')], wa_SigningKey = [], wa_SigningKeys = [], wa_RevokedTokenIDs = []\<rparr>"


definition sample_worker_headers :: headers where
  "sample_worker_headers = (\<lambda>n. if n = ''X-Worker-ID'' then ''w1'' else if n = ''X-Worker-Token'' then ''t1'' else [])"

definition sample_heartbeat :: worker_request where
  "sample_heartbeat =
     WR_Heartbeat ''w1'' (Some \<lparr>hb_Hostname = ''host'', hb_Status = [], hb_Providers = Some [''docker''], hb_Capabilities = None,
       hb_Capacity = w_Capacity sample_worker\<rparr>)"

theorem worker_confined_witness:
  "worker_change sample_env sample_heartbeat ''w1'' empty_store
     (snd (worker_routes plain_lib sample_worker_auth sample_env sample_worker_headers sample_heartbeat empty_store))"
proof -
  have "map w_ID (t_workers (snd (worker_routes plain_lib sample_worker_auth sample_env sample_worker_headers sample_heartbeat
      empty_store))) = [''w1'']"
    by code_simp
  then have "snd (worker_routes plain_lib sample_worker_auth sample_env sample_worker_headers sample_heartbeat empty_store) \<noteq> empty_store"
    by (auto simp: empty_store_def)
  moreover have "TrimSpace (sample_worker_headers ''X-Worker-ID'') = ''w1''" by code_simp
  ultimately show ?thesis
    using worker_confined by metis
qed


section \<open>Issued tokens\<close>

lemma Unix_difference:
  assumes "0 \<le> ttl" and "ttl \<le> MaxWorkerTokenTTL"
  shows "Unix (now + ttl) - Unix now \<le> 900" and "unix_time (Unix now) \<le> now" and "now < unix_time (Unix now) + Second"
  using assms by (simp_all add: Unix_def unix_time_def)

lemma verifyAnyKey_same:
  assumes "k \<in> set ks" and "VerifyWorkerTokenForAudience L k token audience now = Some c"
  shows "verifyWorkerTokenWithAnyKey L ks token audience now = Some c"
proof -
  have same: "VerifyWorkerTokenForAudience L k' token audience now \<in> {None, Some c}" for k'
  proof (cases "VerifyWorkerTokenForAudience L k' token audience now")
    case (Some c')
    have "DecodeWorkerTokenClaims L (TrimSpace token) = Some c" "DecodeWorkerTokenClaims L (TrimSpace token) = Some c'"
      using assms(2) Some by (simp_all add: VerifyWorkerTokenForAudience_def Let_def split: if_splits list.splits option.splits)
    then show ?thesis using Some by simp
  qed simp
  show ?thesis
    using assms(1)
  proof (induction ks)
    case (Cons k' ks)
    then show ?case
      using same [of k'] assms(2) by (cases "VerifyWorkerTokenForAudience L k' token audience now") auto
  qed simp
qed

lemma IssueToken_Inr:
  assumes "IssueToken L key tokenID now (Some b) = Inr (st, token, w, ex)"
  obtains ttl i where "st = 200" "w = TrimSpace (it_WorkerID b)" "w \<noteq> []" "ex = now + ttl" "0 < ttl" "ttl \<le> MaxWorkerTokenTTL"
    "tokenID = Some i" "issue_ttl (it_TTL b) = Some ttl"
    "issue_audience (it_Audience b) \<in> {WorkerTokenAudienceControlPlane, WorkerTokenAudienceRPC}"
    "\<forall>sc\<in>set (it_Scopes b). HasPrefix (TrimSpace sc) ''worker:''"
    "SignWorkerToken L key (issued_claims i now ttl b) = Some token"
  using assms that
  by (auto simp: IssueToken_def issue_ttl_def Let_def find_None_iff split: if_splits option.splits sum.splits)

text \<open>
  What base64url, JSON and HMAC are, for the claims of a token: decoding undoes encoding, and the
  encoded texts hold neither dots nor blanks.
\<close>

definition token_lib_ok :: "token_lib \<Rightarrow> string \<Rightarrow> WorkerTokenClaims \<Rightarrow> bool" where
  "token_lib_ok L key c \<longleftrightarrow>
     tl_dec L (tl_enc L (tl_marshal L c)) = Some (tl_marshal L c) \<and> tl_unmarshal L (tl_marshal L c) = Some c \<and>
     (\<forall>x\<in>set (tl_enc L (tl_marshal L c)). graphic x \<and> x \<noteq> CHR ''.'') \<and>
     (\<forall>m. \<forall>x\<in>set (tl_hmac L (TrimSpace key) m). graphic x \<and> x \<noteq> CHR ''.'')"

lemma clean_issued:
  assumes "issue_audience (it_Audience b) = WorkerTokenAudienceControlPlane"
  shows "clean_claims (issued_claims i now ttl b) = issued_claims (TrimSpace i) now ttl b"
proof -
  have "TrimSpace WorkerTokenAudienceControlPlane = WorkerTokenAudienceControlPlane" by code_simp
  then show ?thesis
    using assms by (simp add: clean_claims_def issued_claims_def)
qed

text \<open>
  C25. A token that the issuer hands out for the control plane (the audience of a request that names
  none) works: from its issue until the whole second its expiry is cut down to, as long as its id is
  not among the revoked ones, the server that issued it lets the worker in as the one it was issued
  for, with the worker scopes among those asked for, or all of them if none is.  The tokens that
  the issuer hands out for the other audience, \<open>worker:rpc\<close>, are not for this middleware.
\<close>

theorem issued_token_accepted:
  assumes "IssueToken L (wa_SigningKey cfg) (Some i) now (Some b) = Inr (st, token, w, now + ttl)"
    and "token_lib_ok L (wa_SigningKey cfg) (issued_claims i now ttl b)"
    and "issue_audience (it_Audience b) = WorkerTokenAudienceControlPlane"
    and "Unix now > 0" and "now \<le> now'" and "now' < unix_time (Unix (now + ttl))"
    and "TrimSpace i \<notin> set (normalizeRevokedTokenIDs (wa_RevokedTokenIDs cfg))"
    and "TrimSpace (h ''X-Worker-ID'') = w" and "h ''X-Worker-Token'' = token"
  shows "WorkerAuthWithConfig L cfg now' h anonymous =
     Next (no_identity\<lparr>ai_Role := AuthRoleWorker, ai_Header := ''X-Worker-Token'', ai_WorkerID := w,
       ai_Scopes := (if normalizeScopes (it_Scopes b) = [] then scopesForRole AuthRoleWorker else normalizeScopes (it_Scopes b))\<rparr>)"
proof -
  from assms(1) have "w = TrimSpace (it_WorkerID b) \<and> w \<noteq> [] \<and> 0 < ttl \<and> ttl \<le> MaxWorkerTokenTTL \<and>
      SignWorkerToken L (wa_SigningKey cfg) (issued_claims i now ttl b) = Some token"
    by (rule IssueToken_Inr) simp
  then have t: "w = TrimSpace (it_WorkerID b)" "w \<noteq> []" "0 < ttl" "ttl \<le> MaxWorkerTokenTTL"
    and sign: "SignWorkerToken L (wa_SigningKey cfg) (issued_claims i now ttl b) = Some token"
    by blast+
  let ?claims = "issued_claims i now ttl b" and ?clean = "issued_claims (TrimSpace i) now ttl b"
  have same: "?claims = ?claims\<lparr>wt_WorkerID := TrimSpace (wt_WorkerID ?claims)\<rparr>"
    by (simp add: issued_claims_def)
  note cl = clean_issued [OF assms(3), of i now ttl]
  have cp: "TrimSpace WorkerTokenAudienceControlPlane = WorkerTokenAudienceControlPlane" by code_simp
  have diff: "Unix (now + ttl) - Unix now \<le> 900" "unix_time (Unix now) \<le> now"
    using Unix_difference [of ttl now] t(3,4) by simp_all
  have "Unix now \<le> Unix (now + ttl)"
    using t(3) unfolding Unix_def by (simp add: zdiv_mono1)
  then have cur: "claims_current WorkerTokenAudienceControlPlane now' ?clean"
    using t(1,2) assms(3-6) diff cp
    by (simp add: claims_current_def issued_claims_def unix_time_def del: TrimSpace_Nil)
  have v: "VerifyWorkerTokenForAudience L (wa_SigningKey cfg) token WorkerTokenAudienceControlPlane now' = Some ?clean"
    unfolding cl [symmetric]
    by (rule worker_token_roundtrip [OF sign same]) (use assms(2) cur cl in \<open>auto simp: token_lib_ok_def\<close>)
  then have ne: "TrimSpace token \<noteq> []" "TrimSpace (wa_SigningKey cfg) \<noteq> []"
    by (auto simp: VerifyWorkerTokenForAudience_def Let_def split: if_splits)
  have key: "TrimSpace (wa_SigningKey cfg) \<in> set (normalizeSigningKeys (wa_SigningKey cfg) (wa_SigningKeys cfg))"
    using ne(2) by (simp add: normalizeSigningKeys_def)
  have v': "VerifyWorkerTokenForAudience L (TrimSpace (wa_SigningKey cfg)) (TrimSpace token) WorkerTokenAudienceControlPlane now' = Some ?clean"
    using v by (simp add: VerifyWorkerTokenForAudience_def)
  have cred: "validateWorkerCredentials L w (TrimSpace token) shared tokens
        (normalizeSigningKeys (wa_SigningKey cfg) (wa_SigningKeys cfg)) (normalizeRevokedTokenIDs (wa_RevokedTokenIDs cfg)) now' =
      Some (if normalizeScopes (it_Scopes b) = [] then scopesForRole AuthRoleWorker else normalizeScopes (it_Scopes b))"
    for shared tokens
    using verifyAnyKey_same [OF key v'] ne(1) t(1,2) assms(7)
    by (simp add: validateWorkerCredentials_def isWorkerTokenRevoked_def issued_claims_def Let_def)
  have keys: "normalizeSigningKeys (wa_SigningKey cfg) (wa_SigningKeys cfg) \<noteq> []"
    using key by auto
  show ?thesis
    using keys ne(1) t(2) cred by (simp add: WorkerAuthWithConfig_def workerTokenFromRequest_def assms(8,9) Let_def del: scopesForRole.simps)
qed

definition sample_issue :: IssueWorkerTokenRequest where
  "sample_issue = \<lparr>it_WorkerID = '' w1 '', it_TTL = ''10m'', it_Scopes = [''worker:heartbeat''], it_Audience = []\<rparr>"

definition sample_token_lib :: token_lib where
  "sample_token_lib = plain_lib\<lparr>tl_unmarshal := (\<lambda>s. Some (issued_claims ''t9'' (63000000000 * Second) (10 * Minute) sample_issue))\<rparr>"

definition sample_signing :: WorkerAuthConfig where
  "sample_signing = sample_worker_auth\<lparr>wa_SigningKey := ''key''\<rparr>"

definition sample_issued :: string where
  "sample_issued =
     (case IssueToken sample_token_lib ''key'' (Some ''t9'') (63000000000 * Second) (Some sample_issue) of
        Inl e \<Rightarrow> [] | Inr (st, token, x) \<Rightarrow> token)"

theorem issued_token_accepted_witness:
  "WorkerAuthWithConfig sample_token_lib sample_signing (63000000000 * Second + 9 * Minute)
      (\<lambda>n. if n = ''X-Worker-ID'' then ''w1'' else if n = ''X-Worker-Token'' then sample_issued else []) anonymous =
     Next (no_identity\<lparr>ai_Role := AuthRoleWorker, ai_Header := ''X-Worker-Token'', ai_WorkerID := ''w1'',
       ai_Scopes := [''worker:heartbeat'']\<rparr>)"
proof -
  have issue: "IssueToken sample_token_lib ''key'' (Some ''t9'') (63000000000 * Second) (Some sample_issue) =
      Inr (200, sample_issued, ''w1'', 63000000000 * Second + 10 * Minute)"
    by code_simp
  have lib: "token_lib_ok sample_token_lib ''key'' (issued_claims ''t9'' (63000000000 * Second) (10 * Minute) sample_issue)"
  proof -
    have "tl_marshal plain_lib (issued_claims ''t9'' (63000000000 * Second) (10 * Minute) sample_issue) = ''w1''" "TrimSpace ''key'' = ''key''"
      by code_simp+
    then show ?thesis
      by (auto simp: token_lib_ok_def sample_token_lib_def plain_lib_def graphic_def)
  qed
  have "normalizeScopes (it_Scopes sample_issue) = [''worker:heartbeat'']" "TrimSpace ''w1'' = ''w1''" "TrimSpace ''t9'' = ''t9''"
    "issue_audience (it_Audience sample_issue) = WorkerTokenAudienceControlPlane"
    by code_simp+
  then show ?thesis
    using issued_token_accepted [of sample_token_lib sample_signing "''t9''" "63000000000 * Second" sample_issue 200 sample_issued "''w1''" "10 * Minute"
        "63000000000 * Second + 9 * Minute" "\<lambda>n. if n = ''X-Worker-ID'' then ''w1'' else if n = ''X-Worker-Token'' then sample_issued else []"]
      issue lib
    by (simp add: sample_signing_def sample_worker_auth_def normalizeRevokedTokenIDs_def Unix_def unix_time_def)
qed

end
