(* ===== verification/Store_Writes.thy ===== *)
theory Store_Writes
  imports Store_Admin
begin

text \<open>
  Every call of the store interface (\<open>internal/store/store.go\<close>) that writes, as one datatype with its
  meaning on the SQLite store, and the type of a store: what holds of the rows of every table after
  any sequence of calls, failed ones included.
\<close>

section \<open>Writes\<close>

datatype store_write =
    W_CreateSandbox SandboxRecord
  | W_UpdateSandboxState string string
  | W_UpdateSandboxExpiresAt string time
  | W_DeleteSandbox string
  | W_SaveOwnerQuota OwnerQuotaRecord
  | W_DeleteOwnerQuota string
  | W_CreateAdminAudit AdminAuditRecord
  | W_DeleteAdminAuditBefore time
  | W_CreateOperationAudit OperationAuditRecord
  | W_SaveWorker WorkerRecord
  | W_DeleteWorker string
  | W_AcquireLease string string string duration
  | W_RenewLease string string duration
  | W_ReleaseLease string string
  | W_CreateExecLog ExecLogRecord
  | W_SaveProviderConfig ProviderConfigRecord
  | W_CreateTemplate TemplateRecord
  | W_UpdateTemplate TemplateRecord
  | W_DeleteTemplate string
  | W_CreateEnvironmentSpec EnvironmentSpecRecord
  | W_UpdateEnvironmentSpec EnvironmentSpecRecord
  | W_DeleteEnvironmentSpec string
  | W_CreateEnvironmentBuild EnvironmentBuildRecord
  | W_UpdateEnvironmentBuild EnvironmentBuildRecord
  | W_SaveEnvironmentArtifact EnvironmentArtifactRecord
  | W_SaveRegistryConnection RegistryConnectionRecord
  | W_DeleteRegistryConnection string
  | W_CreateTenant TenantRecord
  | W_UpdateTenant TenantRecord
  | W_DeleteTenant string
  | W_SaveTenantMember TenantMemberRecord
  | W_DeleteTenantMember string string
  | W_CreatePolicy PolicyRecord
  | W_DeletePolicy string

text \<open>The error of a call, if any, and the new store; a call that answers more than an error is cut to it.\<close>

definition only_error :: "(error + 'a) \<times> store \<Rightarrow> error option \<times> store" where
  "only_error r = (case fst r of Inl e \<Rightarrow> Some e | Inr x \<Rightarrow> None, snd r)"

fun sqlite_write :: "'e dbenv_scheme \<Rightarrow> store_write \<Rightarrow> store \<Rightarrow> error option \<times> store" where
  "sqlite_write E (W_CreateSandbox r) s = CreateSandbox E r s"
| "sqlite_write E (W_UpdateSandboxState i st) s = UpdateSandboxState E i st s"
| "sqlite_write E (W_UpdateSandboxExpiresAt i t) s = UpdateSandboxExpiresAt E i t s"
| "sqlite_write E (W_DeleteSandbox i) s = DeleteSandbox E i s"
| "sqlite_write E (W_SaveOwnerQuota q) s = SaveOwnerQuota E q s"
| "sqlite_write E (W_DeleteOwnerQuota i) s = DeleteOwnerQuotaRecord E i s"
| "sqlite_write E (W_CreateAdminAudit r) s = CreateAdminAudit E r s"
| "sqlite_write E (W_DeleteAdminAuditBefore t) s = only_error (DeleteAdminAuditBefore E t s)"
| "sqlite_write E (W_CreateOperationAudit r) s = CreateOperationAudit E r s"
| "sqlite_write E (W_SaveWorker w) s = SaveWorker E w s"
| "sqlite_write E (W_DeleteWorker i) s = DeleteWorker E i s"
| "sqlite_write E (W_AcquireLease r ty h ttl) s = only_error (AcquireLease E r ty h ttl s)"
| "sqlite_write E (W_RenewLease r h ttl) s = only_error (RenewLease E r h ttl s)"
| "sqlite_write E (W_ReleaseLease r h) s = ReleaseLease E r h s"
| "sqlite_write E (W_CreateExecLog l) s = CreateExecLog E l s"
| "sqlite_write E (W_SaveProviderConfig c) s = SaveProviderConfig E c s"
| "sqlite_write E (W_CreateTemplate t) s = CreateTemplate E t s"
| "sqlite_write E (W_UpdateTemplate t) s = UpdateTemplate E t s"
| "sqlite_write E (W_DeleteTemplate n) s = DeleteTemplate E n s"
| "sqlite_write E (W_CreateEnvironmentSpec r) s = CreateEnvironmentSpec E r s"
| "sqlite_write E (W_UpdateEnvironmentSpec r) s = UpdateEnvironmentSpec E r s"
| "sqlite_write E (W_DeleteEnvironmentSpec i) s = DeleteEnvironmentSpec E i s"
| "sqlite_write E (W_CreateEnvironmentBuild b) s = CreateEnvironmentBuild E b s"
| "sqlite_write E (W_UpdateEnvironmentBuild b) s = UpdateEnvironmentBuild E b s"
| "sqlite_write E (W_SaveEnvironmentArtifact a) s = SaveEnvironmentArtifact E a s"
| "sqlite_write E (W_SaveRegistryConnection c) s = SaveRegistryConnection E c s"
| "sqlite_write E (W_DeleteRegistryConnection i) s = DeleteRegistryConnection E i s"
| "sqlite_write E (W_CreateTenant t) s = CreateTenant E t s"
| "sqlite_write E (W_UpdateTenant t) s = UpdateTenant E t s"
| "sqlite_write E (W_DeleteTenant i) s = DeleteTenant E i s"
| "sqlite_write E (W_SaveTenantMember m) s = SaveTenantMember E m s"
| "sqlite_write E (W_DeleteTenantMember t u) s = DeleteTenantMember E t u s"
| "sqlite_write E (W_CreatePolicy p) s = CreatePolicy E p s"
| "sqlite_write E (W_DeletePolicy i) s = DeletePolicy E i s"

section \<open>The type of a store\<close>

definition lease_typed :: "LeaseRecord \<Rightarrow> bool" where
  "lease_typed l \<longleftrightarrow>
     l_ResourceID l \<noteq> [] \<and> l_HolderID l \<noteq> [] \<and> l_Generation l \<ge> 1 \<and> l_UpdatedAt l < l_ExpiresAt l"

text \<open>Ids of audit records ascend and were all given out.\<close>

definition audit_typed :: "store \<Rightarrow> bool" where
  "audit_typed s \<longleftrightarrow>
     0 \<le> t_audit_seq s \<and> sorted_wrt (<) (map aa_ID (t_admin_audit s)) \<and>
     (\<forall>r\<in>set (t_admin_audit s). 1 \<le> aa_ID r \<and> aa_ID r \<le> t_audit_seq s)"

definition keys_typed :: "store \<Rightarrow> bool" where
  "keys_typed s \<longleftrightarrow>
     unique_key pf_Name (t_provider_configs s) \<and>
     unique_key es_ID (t_specs s) \<and> unique_key (\<lambda>r. (es_OwnerID r, es_Name r)) (t_specs s) \<and>
     unique_key eb_ID (t_builds s) \<and> unique_key (\<lambda>r. (ar_BuildID r, ar_Target r)) (t_artifacts s) \<and>
     unique_key rg_ID (t_registries s) \<and> unique_key (\<lambda>r. (rg_OwnerID r, rg_Provider r, rg_Username r)) (t_registries s)"

definition store_typed :: "store \<Rightarrow> bool" where
  "store_typed s \<longleftrightarrow>
     store_ok s \<and> keys_typed s \<and> audit_typed s \<and> list_all lease_typed (t_leases s) \<and>
     list_all (\<lambda>r. sr_WorkerID r \<noteq> []) (t_sandboxes s)"

lemma store_typed_empty: "store_typed empty_store"
  by (simp add: store_typed_def keys_typed_def audit_typed_def) (simp add: empty_store_def)


section \<open>Statements keep keys\<close>

lemma unique_insert_row: "unique_key key rs \<Longrightarrow> unique_key key (snd (insert_row c key r rs))"
  by (auto simp: insert_row_def row_by_None_iff split: option.splits)

lemma unique_update_rows:
  "unique_key key rs \<Longrightarrow> (\<And>r. P r \<Longrightarrow> key (f r) = key r) \<Longrightarrow> unique_key key (snd (update_rows m P f rs))"
  by (simp add: update_rows_def map_key_upd_where)

lemma unique_delete_rows: "unique_key key rs \<Longrightarrow> unique_key key (snd (delete_rows m P rs))"
  by (simp add: delete_rows_def unique_key_del_where)

lemma unique_upsert_row:
  "unique_key key rs \<Longrightarrow> (\<And>old. key old = key r \<Longrightarrow> key (merge r old) = key r) \<Longrightarrow> unique_key key (upsert_row key merge r rs)"
  using map_key_upsert [of key "key r" "merge r" rs] by (auto simp: upsert_row_def row_by_None_iff)

lemma snd_db_write: "snd (db_write E op s r) = (if db_fail E op = None then snd r else s)"
  by (simp add: db_write_def split: option.split)

lemma snd_conflict_as [simp]: "snd (conflict_as msg r) = snd r"
  by (simp add: conflict_as_def)

lemmas keeps_keys = unique_insert_row unique_update_rows unique_delete_rows unique_upsert_row

text \<open>Replacing one table keeps the type if the new rows have it.\<close>

lemmas typed_defs = store_typed_def store_ok_def keys_typed_def audit_typed_def

lemma typed_tables:
  assumes "store_typed s"
  shows "unique_key tr_Name r1 \<Longrightarrow> store_typed (s\<lparr>t_templates := r1\<rparr>)"
    and "unique_key tn_ID r2 \<Longrightarrow> store_typed (s\<lparr>t_tenants := r2\<rparr>)"
    and "unique_key (\<lambda>m. (tm_TenantID m, tm_UserID m)) r3 \<Longrightarrow> store_typed (s\<lparr>t_members := r3\<rparr>)"
    and "unique_key p_ID r4 \<Longrightarrow> store_typed (s\<lparr>t_policies := r4\<rparr>)"
    and "unique_key pf_Name r5 \<Longrightarrow> store_typed (s\<lparr>t_provider_configs := r5\<rparr>)"
    and "unique_key es_ID r6 \<Longrightarrow> unique_key (\<lambda>r. (es_OwnerID r, es_Name r)) r6 \<Longrightarrow> store_typed (s\<lparr>t_specs := r6\<rparr>)"
    and "unique_key eb_ID r7 \<Longrightarrow> store_typed (s\<lparr>t_builds := r7\<rparr>)"
    and "unique_key (\<lambda>r. (ar_BuildID r, ar_Target r)) r8 \<Longrightarrow> store_typed (s\<lparr>t_artifacts := r8\<rparr>)"
    and "unique_key rg_ID r9 \<Longrightarrow> unique_key (\<lambda>r. (rg_OwnerID r, rg_Provider r, rg_Username r)) r9 \<Longrightarrow>
        store_typed (s\<lparr>t_registries := r9\<rparr>)"
    and "store_typed (s\<lparr>t_op_audit := r10\<rparr>)" and "store_typed (s\<lparr>t_exec_logs := r11\<rparr>)"
    and "unique_key w_ID r12 \<Longrightarrow> store_typed (s\<lparr>t_workers := r12\<rparr>)"
    and "unique_key q_OwnerID r13 \<Longrightarrow> store_typed (s\<lparr>t_quotas := r13\<rparr>)"
    and "unique_key l_ResourceID r14 \<Longrightarrow> list_all lease_typed r14 \<Longrightarrow> store_typed (s\<lparr>t_leases := r14\<rparr>)"
    and "unique_key sr_ID r15 \<Longrightarrow> list_all (\<lambda>r. sr_WorkerID r \<noteq> []) r15 \<Longrightarrow> store_typed (s\<lparr>t_sandboxes := r15\<rparr>)"
  using assms by (simp_all add: typed_defs)

lemma typed_keys:
  assumes "store_typed s"
  shows "unique_key tr_Name (t_templates s)" and "unique_key tn_ID (t_tenants s)"
    and "unique_key (\<lambda>m. (tm_TenantID m, tm_UserID m)) (t_members s)" and "unique_key p_ID (t_policies s)"
    and "unique_key pf_Name (t_provider_configs s)"
    and "unique_key es_ID (t_specs s)" and "unique_key (\<lambda>r. (es_OwnerID r, es_Name r)) (t_specs s)"
    and "unique_key eb_ID (t_builds s)" and "unique_key (\<lambda>r. (ar_BuildID r, ar_Target r)) (t_artifacts s)"
    and "unique_key rg_ID (t_registries s)" and "unique_key (\<lambda>r. (rg_OwnerID r, rg_Provider r, rg_Username r)) (t_registries s)"
    and "unique_key w_ID (t_workers s)" and "unique_key q_OwnerID (t_quotas s)"
    and "unique_key l_ResourceID (t_leases s)" and "list_all lease_typed (t_leases s)"
    and "unique_key sr_ID (t_sandboxes s)" and "list_all (\<lambda>r. sr_WorkerID r \<noteq> []) (t_sandboxes s)"
  using assms by (simp_all add: typed_defs)

section \<open>Every write keeps the type\<close>

lemmas write_simps = snd_db_write case_prod_beta Let_def

lemma typed_admin_tables:
  assumes "store_typed s"
  shows "store_typed (snd (SaveProviderConfig E c s))" and "store_typed (snd (CreateTemplate E t s))"
    and "store_typed (snd (UpdateTemplate E t s))" and "store_typed (snd (DeleteTemplate E n s))"
    and "store_typed (snd (CreateEnvironmentBuild E b s))" and "store_typed (snd (UpdateEnvironmentBuild E b s))"
    and "store_typed (snd (SaveEnvironmentArtifact E a s))" and "store_typed (snd (DeleteEnvironmentSpec E i s))"
    and "store_typed (snd (DeleteRegistryConnection E i s))" and "store_typed (snd (CreateTenant E te s))"
    and "store_typed (snd (UpdateTenant E te s))" and "store_typed (snd (DeleteTenant E i s))"
    and "store_typed (snd (SaveTenantMember E m s))" and "store_typed (snd (DeleteTenantMember E i u s))"
    and "store_typed (snd (CreatePolicy E p s))" and "store_typed (snd (DeletePolicy E i s))"
  using assms typed_keys [OF assms]
  by (auto simp: SaveProviderConfig_def CreateTemplate_def UpdateTemplate_def DeleteTemplate_def CreateEnvironmentBuild_def
      UpdateEnvironmentBuild_def SaveEnvironmentArtifact_def DeleteEnvironmentSpec_def DeleteRegistryConnection_def CreateTenant_def
      UpdateTenant_def DeleteTenant_def SaveTenantMember_def DeleteTenantMember_def CreatePolicy_def DeletePolicy_def write_simps
      intro!: typed_tables keeps_keys)


lemma typed_CreateSandbox: "store_typed s \<Longrightarrow> store_typed (snd (CreateSandbox E r s))"
  using typed_keys [of s]
  by (auto simp: CreateSandbox_def Let_def row_by_None_iff split: option.split intro!: typed_tables)

lemma typed_UpdateSandbox:
  assumes "store_typed s"
  shows "store_typed (snd (UpdateSandboxState E i st s))" and "store_typed (snd (UpdateSandboxExpiresAt E i t s))"
  using assms typed_keys [OF assms]
  by (auto simp: UpdateSandboxState_def UpdateSandboxExpiresAt_def map_key_upd_where list_all_iff set_upd_where
      split: option.split intro!: typed_tables)

lemma typed_quotas_workers:
  assumes "store_typed s"
  shows "store_typed (snd (SaveOwnerQuota E q s))" and "store_typed (snd (DeleteOwnerQuotaRecord E i s))"
    and "store_typed (snd (SaveWorker E w s))" and "store_typed (snd (DeleteWorker E i s))"
  using assms typed_keys [OF assms]
  by (auto simp: SaveOwnerQuota_def DeleteOwnerQuotaRecord_def SaveWorker_def DeleteWorker_def Let_def map_key_upsert
      row_by_None_iff unique_key_del_where split: option.split intro!: typed_tables)

lemma typed_logs:
  assumes "store_typed s"
  shows "store_typed (snd (CreateOperationAudit E o1 s))" and "store_typed (snd (CreateExecLog E l s))"
  using assms by (auto simp: CreateOperationAudit_def CreateExecLog_def Let_def split: option.split intro!: typed_tables)

lemma typed_leases:
  assumes "store_typed s"
  shows "store_typed (snd (AcquireLease E r ty h ttl s))" and "store_typed (snd (RenewLease E r h ttl s))"
    and "store_typed (snd (ReleaseLease E r h s))"
proof -
  have h: "TrimSpace x \<noteq> [] \<Longrightarrow> x \<noteq> []" for x by auto
  have g: "0 \<le> l_Generation l" if "l \<in> set (t_leases s)" for l
    using typed_keys(15) [OF assms] that by (auto simp: list_all_iff lease_typed_def)
  note k = assms typed_keys [OF assms]
  show "store_typed (snd (AcquireLease E r ty h ttl s))"
    using k h g by (auto simp: AcquireLease_def Let_def map_key_upd_where row_by_None_iff list_all_iff set_upd_where lease_typed_def
        split: option.split intro!: typed_tables)
  show "store_typed (snd (RenewLease E r h ttl s))"
    using k g by (auto simp: RenewLease_def Let_def map_key_upd_where list_all_iff set_upd_where lease_typed_def
        split: option.split intro!: typed_tables)
  show "store_typed (snd (ReleaseLease E r h s))"
    using k by (auto simp: ReleaseLease_def Let_def unique_key_del_where list_all_iff set_del_where
        split: option.split intro!: typed_tables)
qed

lemma typed_admin_audit:
  assumes "store_typed s"
  shows "store_typed (snd (CreateAdminAudit E r s))" and "store_typed (snd (DeleteAdminAuditBefore E t s))"
proof -
  show "store_typed (snd (CreateAdminAudit E r s))"
    using assms by (auto simp: CreateAdminAudit_def write_simps typed_defs sorted_wrt_append)
  have "sorted_wrt (<) (map aa_ID (filter P rs))" if "sorted_wrt (<) (map aa_ID rs)" for P rs
    using that by (induction rs) auto
  then show "store_typed (snd (DeleteAdminAuditBefore E t s))"
    using assms by (auto simp: DeleteAdminAuditBefore_def typed_defs del_where_def split: option.split)
qed

lemma typed_CreateEnvironmentSpec: "store_typed s \<Longrightarrow> store_typed (snd (CreateEnvironmentSpec E r s))"
  using typed_keys [of s]
  by (auto simp: CreateEnvironmentSpec_def write_simps insert_row_def row_by_None_iff intro!: typed_tables)

text \<open>A second unique column stays unique when the row with one id gets a value that no other row has.\<close>

lemma unique_upd_one:
  "unique_key idk rs \<Longrightarrow> unique_key key rs \<Longrightarrow>
   (\<And>x r. x \<in> set rs \<Longrightarrow> r \<in> set rs \<Longrightarrow> idk x = i \<Longrightarrow> idk r \<noteq> i \<Longrightarrow> key (f x) \<noteq> key r) \<Longrightarrow>
   unique_key key (upd_where (\<lambda>r. idk r = i) f rs)"
proof (induction rs)
  case (Cons a rs)
  have rest: "unique_key key (upd_where (\<lambda>r. idk r = i) f rs)"
    using Cons by auto
  show ?case
  proof (cases "idk a = i")
    case True
    then have "upd_where (\<lambda>r. idk r = i) f rs = rs"
      using Cons.prems(1) unfolding upd_where_def by (intro map_idI) (metis (mono_tags) distinct.simps(2) image_eqI list.simps(9) list.set_map)
    moreover have "key (f a) \<notin> key ` set rs"
      using Cons.prems(1,3) True by (auto simp: image_iff)
    ultimately show ?thesis
      using Cons.prems(2) True by (simp add: upd_where_def)
  next
    case False
    have "key (if idk x = i then f x else x) \<noteq> key a" if "x \<in> set rs" for x
      using Cons.prems(2,3) False that by (auto simp: image_iff)
    then show ?thesis
      using rest False by (force simp: upd_where_def)
  qed
qed (simp add: upd_where_def)

lemma typed_UpdateEnvironmentSpec: "store_typed s \<Longrightarrow> store_typed (snd (UpdateEnvironmentSpec E r s))"
  using typed_keys [of s]
  by (auto simp: UpdateEnvironmentSpec_def write_simps update_rows_def intro!: typed_tables unique_upd_one
      simp: map_key_upd_where)

lemma typed_SaveRegistryConnection: "store_typed s \<Longrightarrow> store_typed (snd (SaveRegistryConnection E c s))"
proof -
  assume s: "store_typed s"
  note k = typed_keys [OF s]
  have "unique_key (\<lambda>r. (rg_OwnerID r, rg_Provider r, rg_Username r))
      (upsert_row rg_ID (\<lambda>new old. new\<lparr>rg_CreatedAt := rg_CreatedAt old\<rparr>) r (t_registries s))"
    if "\<forall>x\<in>set (t_registries s). rg_ID x \<noteq> rg_ID r \<longrightarrow> rg_OwnerID x = rg_OwnerID r \<longrightarrow> rg_Provider x = rg_Provider r \<longrightarrow>
      rg_Username x \<noteq> rg_Username r" for r
    using that k(10,11) by (auto simp: upsert_row_def row_by_None_iff intro!: unique_upd_one) (metis imageI)
  note u = this [of "c\<lparr>rg_CreatedAt := db_now E, rg_UpdatedAt := db_now E\<rparr>"]
  show ?thesis
    using s k(10) by (auto simp: SaveRegistryConnection_def write_simps intro!: typed_tables unique_upsert_row u)
qed

lemma sqlite_write_typed: "store_typed s \<Longrightarrow> store_typed (snd (sqlite_write E w s))"
  by (cases w) (simp_all add: typed_CreateSandbox typed_UpdateSandbox DeleteSandbox_def typed_quotas_workers typed_logs typed_leases
      typed_admin_audit typed_CreateEnvironmentSpec typed_UpdateEnvironmentSpec typed_SaveRegistryConnection typed_admin_tables
      only_error_def)

text \<open>
  C7. The store stays well typed: through any writes of its interface, at any times, failed ones and
  constraint errors included, keys and unique columns of every table identify a row, a
  sandbox belongs to a worker, a lease has a holder, a generation from 1 and an expiry after its
  last change, and audit records have ascending ids that were given out once.
\<close>

theorem store_stays_typed:
  assumes "store_typed s"
  shows "store_typed (fold (\<lambda>(E, w) s. snd (sqlite_write E w s)) ws s)"
  using assms by (induction ws arbitrary: s) (auto simp: sqlite_write_typed)

theorem store_stays_typed_witness:
  "store_typed (fold (\<lambda>(E, w) s. snd (sqlite_write E w s))
     [(\<lparr>db_now = 5, db_fail = (\<lambda>q. None)\<rparr>, W_AcquireLease ''sandbox:sb-1'' ''sandbox'' ''w1'' 10),
      (\<lparr>db_now = 20, db_fail = (\<lambda>q. None)\<rparr>, W_AcquireLease ''sandbox:sb-1'' ''sandbox'' ''w2'' 10)] empty_store)"
  by (rule store_stays_typed [OF store_typed_empty])

end
