(* ===== verification/Store_Postgres.thy ===== *)
theory Store_Postgres
  imports Store_Writes
begin

text \<open>
  The PostgreSQL store (\<open>internal/store/postgres.go\<close>), over the same tables.  What the server and its
  driver do is a parameter: rows that no \<open>ORDER BY\<close> tells apart come in an order the server
  chooses (\<open>pg_order n\<close> is the order in which a scan meets \<open>n\<close> rows), text is compared by the
  collation of the database (\<open>pg_le\<close>), and text that is not in its encoding or holds a NUL is
  refused (\<open>pg_text\<close>).  Timestamps have microseconds; \<open>INTEGER\<close> columns have 32 bits; foreign
  keys are enforced; \<open>LIKE\<close> minds the case and knows the backslash.
\<close>

section \<open>The server\<close>

record pgenv = dbenv +
  pg_order :: "nat \<Rightarrow> nat list"
  pg_le :: "string \<Rightarrow> string \<Rightarrow> bool"
  pg_text :: "string \<Rightarrow> bool"

definition us :: "time \<Rightarrow> time" where
  "us t = t div 1000 * 1000"

definition int4 :: "int \<Rightarrow> bool" where
  "int4 n \<longleftrightarrow> - (2 ^ 31) \<le> n \<and> n < 2 ^ 31"

text \<open>The arguments of a statement that go into text and into \<open>INTEGER\<close> columns.\<close>

definition pg_bind :: "pgenv \<Rightarrow> string list \<Rightarrow> int list \<Rightarrow> error option" where
  "pg_bind E texts ints =
     (if \<not> list_all int4 ints then Some (Err ErrOther ''number is out of range for int4'')
      else if \<not> list_all (pg_text E) texts then Some (Err ErrOther ''invalid byte sequence for encoding (SQLSTATE 22021)'')
      else None)"

definition pg_exec :: "pgenv \<Rightarrow> store_op \<Rightarrow> string list \<Rightarrow> int list \<Rightarrow> store \<Rightarrow> error option \<times> store \<Rightarrow> error option \<times> store" where
  "pg_exec E op texts ints s r =
     (case db_fail E op of
        Some e \<Rightarrow> (Some e, s)
      | None \<Rightarrow> (case pg_bind E texts ints of Some e \<Rightarrow> (Some e, s) | None \<Rightarrow> r))"

definition pg_query :: "pgenv \<Rightarrow> store_op \<Rightarrow> string list \<Rightarrow> error + 'a \<Rightarrow> error + 'a" where
  "pg_query E op texts r =
     (case db_fail E op of
        Some e \<Rightarrow> Inl e
      | None \<Rightarrow> (case pg_bind E texts [] of Some e \<Rightarrow> Inl e | None \<Rightarrow> r))"

definition scan :: "pgenv \<Rightarrow> 'r list \<Rightarrow> 'r list" where
  "scan E rs = map ((!) rs) (pg_order E (length rs))"

definition pg_sort :: "pgenv \<Rightarrow> ('r \<Rightarrow> string) \<Rightarrow> 'r list \<Rightarrow> 'r list" where
  "pg_sort E key rs = foldr (insert_by (\<lambda>a b. pg_le E (key a) (key b))) (scan E rs) []"

definition pg_duplicate :: "string \<Rightarrow> error" where
  "pg_duplicate c = Err ErrOther (''ERROR: duplicate key value violates unique constraint '' @ Quote c @ '' (SQLSTATE 23505)'')"

definition pg_foreign :: "string \<Rightarrow> error" where
  "pg_foreign c = Err ErrOther (''ERROR: violates foreign key constraint '' @ Quote c @ '' (SQLSTATE 23503)'')"

definition pg_insert :: "string \<Rightarrow> ('r \<Rightarrow> 'k) \<Rightarrow> 'r \<Rightarrow> 'r list \<Rightarrow> error option \<times> 'r list" where
  "pg_insert c key r rs = (if row_by key (key r) rs \<noteq> None then (Some (pg_duplicate c), rs) else (None, rs @ [r]))"

text \<open>\<open>rebindPostgres\<close>: the question marks of a statement become \<open>$1\<close>, \<open>$2\<close> and so on.\<close>

fun rebind_from :: "nat \<Rightarrow> string \<Rightarrow> string" where
  "rebind_from n [] = []"
| "rebind_from n (c # q) = (if c = CHR ''?'' then CHR ''$'' # Itoa (int n) @ rebind_from (Suc n) q else c # rebind_from n q)"

definition rebindPostgres :: "string \<Rightarrow> string" where
  "rebindPostgres q = rebind_from 1 q"

section \<open>Sandboxes\<close>

definition pg_sandbox :: "SandboxRecord \<Rightarrow> SandboxRecord" where
  "pg_sandbox r = r\<lparr>sr_CreatedAt := us (sr_CreatedAt r), sr_ExpiresAt := us (sr_ExpiresAt r), sr_UpdatedAt := us (sr_UpdatedAt r)\<rparr>"

definition pg_CreateSandbox :: "pgenv \<Rightarrow> SandboxRecord \<Rightarrow> store \<Rightarrow> error option \<times> store" where
  "pg_CreateSandbox E sb s =
     (let sb = (if TrimSpace (sr_WorkerID sb) = [] then sb\<lparr>sr_WorkerID := ''local''\<rparr> else sb)
      in pg_exec E (OpCreateSandbox (sr_ID sb))
           [sr_ID sb, sr_State sb, sr_Provider sb, sr_Image sb, sr_OwnerID sb, sr_TenantID sb, sr_VMID sb, sr_WorkerID sb]
           [sr_MemoryMB sb, sr_VCPUs sb] s
           (let (e, rs) = pg_insert ''sandboxes_pkey'' sr_ID (pg_sandbox sb) (t_sandboxes s) in (e, s\<lparr>t_sandboxes := rs\<rparr>)))"

definition pg_GetSandbox :: "pgenv \<Rightarrow> string \<Rightarrow> store \<Rightarrow> error + SandboxRecord" where
  "pg_GetSandbox E i s = pg_query E (OpGetSandbox i) [i] (find_row ''sandbox'' sr_ID i (t_sandboxes s))"

definition pg_ListSandboxes :: "pgenv \<Rightarrow> store \<Rightarrow> error + SandboxRecord list" where
  "pg_ListSandboxes E s = pg_query E OpListSandboxes []
     (Inr (sort_key (\<lambda>r. - sr_CreatedAt r) (filter (\<lambda>r. sr_State r \<noteq> ''destroyed'') (scan E (t_sandboxes s)))))"

definition pg_UpdateSandboxState :: "pgenv \<Rightarrow> string \<Rightarrow> string \<Rightarrow> store \<Rightarrow> error option \<times> store" where
  "pg_UpdateSandboxState E i st s = pg_exec E (OpUpdateSandboxState i) [st, i] [] s
     (let (e, rs) = update_rows (NotFoundError ''sandbox'' i) (\<lambda>r. sr_ID r = i)
            (\<lambda>r. r\<lparr>sr_State := st, sr_UpdatedAt := us (db_now E)\<rparr>) (t_sandboxes s)
      in (e, s\<lparr>t_sandboxes := rs\<rparr>))"

definition pg_UpdateSandboxExpiresAt :: "pgenv \<Rightarrow> string \<Rightarrow> time \<Rightarrow> store \<Rightarrow> error option \<times> store" where
  "pg_UpdateSandboxExpiresAt E i t s = pg_exec E (OpUpdateSandboxExpiresAt i) [i] [] s
     (let (e, rs) = update_rows (NotFoundError ''sandbox'' i) (\<lambda>r. sr_ID r = i \<and> sr_State r \<noteq> ''destroyed'')
            (\<lambda>r. r\<lparr>sr_ExpiresAt := us t, sr_UpdatedAt := us (db_now E)\<rparr>) (t_sandboxes s)
      in (e, s\<lparr>t_sandboxes := rs\<rparr>))"

definition pg_DeleteSandbox :: "pgenv \<Rightarrow> string \<Rightarrow> store \<Rightarrow> error option \<times> store" where
  "pg_DeleteSandbox E i s = pg_UpdateSandboxState E i ''destroyed'' s"

definition pg_ListExpiredSandboxes :: "pgenv \<Rightarrow> time \<Rightarrow> store \<Rightarrow> error + SandboxRecord list" where
  "pg_ListExpiredSandboxes E before s = pg_query E OpListExpiredSandboxes []
     (Inr (filter (\<lambda>r. sr_State r \<noteq> ''destroyed'' \<and> sr_ExpiresAt r < us before) (scan E (t_sandboxes s))))"

definition pg_ListSandboxesByOwner :: "pgenv \<Rightarrow> string \<Rightarrow> store \<Rightarrow> error + SandboxRecord list" where
  "pg_ListSandboxesByOwner E owner s = pg_query E (OpListSandboxesByOwner owner) [owner]
     (Inr (sort_key (\<lambda>r. - sr_CreatedAt r)
        (filter (\<lambda>r. sr_State r \<noteq> ''destroyed'' \<and> sr_OwnerID r = owner) (scan E (t_sandboxes s)))))"

definition pg_CountSandboxesByVM :: "pgenv \<Rightarrow> string \<Rightarrow> store \<Rightarrow> error + nat" where
  "pg_CountSandboxesByVM E vm s = pg_query E (OpCountSandboxesByVM vm) [vm]
     (Inr (rows_affected (\<lambda>r. sr_State r \<noteq> ''destroyed'' \<and> sr_VMID r = vm) (t_sandboxes s)))"

section \<open>Owner quotas\<close>

definition pg_SaveOwnerQuota :: "pgenv \<Rightarrow> OwnerQuotaRecord \<Rightarrow> store \<Rightarrow> error option \<times> store" where
  "pg_SaveOwnerQuota E q s =
     (let q = (if q_CreatedAt q = 0 then q\<lparr>q_CreatedAt := db_now E\<rparr> else q); q = q\<lparr>q_UpdatedAt := db_now E\<rparr>
      in pg_exec E (OpSaveOwnerQuota (q_OwnerID q)) [q_OwnerID q] [q_MaxSandboxes q] s
           (None, s\<lparr>t_quotas := upsert_row q_OwnerID
              (\<lambda>new old. old\<lparr>q_MaxSandboxes := q_MaxSandboxes new, q_MaxTTLSeconds := q_MaxTTLSeconds new,
                 q_MaxExecTimeoutSeconds := q_MaxExecTimeoutSeconds new, q_UpdatedAt := q_UpdatedAt new\<rparr>)
              (q\<lparr>q_CreatedAt := us (q_CreatedAt q), q_UpdatedAt := us (q_UpdatedAt q)\<rparr>) (t_quotas s)\<rparr>))"

definition pg_GetOwnerQuota :: "pgenv \<Rightarrow> string \<Rightarrow> store \<Rightarrow> error + OwnerQuotaRecord" where
  "pg_GetOwnerQuota E i s = pg_query E (OpGetOwnerQuota i) [i] (find_row ''owner_quota'' q_OwnerID i (t_quotas s))"

definition pg_ListOwnerQuotas :: "pgenv \<Rightarrow> store \<Rightarrow> error + OwnerQuotaRecord list" where
  "pg_ListOwnerQuotas E s = pg_query E OpListOwnerQuotas [] (Inr (pg_sort E q_OwnerID (t_quotas s)))"

definition pg_DeleteOwnerQuota :: "pgenv \<Rightarrow> string \<Rightarrow> store \<Rightarrow> error option \<times> store" where
  "pg_DeleteOwnerQuota E i s = pg_exec E (OpDeleteOwnerQuota i) [i] [] s
     (let (e, rs) = delete_rows (NotFoundError ''owner_quota'' i) (\<lambda>r. q_OwnerID r = i) (t_quotas s) in (e, s\<lparr>t_quotas := rs\<rparr>))"

section \<open>Audit\<close>

definition pg_CreateAdminAudit :: "pgenv \<Rightarrow> AdminAuditRecord \<Rightarrow> store \<Rightarrow> error option \<times> store" where
  "pg_CreateAdminAudit E r s =
     (let r = (if aa_CreatedAt r = 0 then r\<lparr>aa_CreatedAt := db_now E\<rparr> else r); n = t_audit_seq s + 1
      in pg_exec E OpCreateAdminAudit
           [aa_Actor r, aa_Method r, aa_Path r, aa_RequestID r, aa_RemoteAddr r, aa_UserAgent r, aa_TenantID r] [aa_Status r] s
           (None, s\<lparr>t_admin_audit := t_admin_audit s @ [r\<lparr>aa_ID := n, aa_CreatedAt := us (aa_CreatedAt r)\<rparr>], t_audit_seq := n\<rparr>))"

fun pg_like :: "string \<Rightarrow> string \<Rightarrow> bool" where
  "pg_like [] t = (t = [])"
| "pg_like (p # ps) [] = (p = CHR ''%'' \<and> pg_like ps [])"
| "pg_like (p # ps) (c # t) =
     (if p = CHR ''%'' then pg_like ps (c # t) \<or> pg_like (p # ps) t
      else if p = CHR 0x5C then (case ps of [] \<Rightarrow> False | q # qs \<Rightarrow> q = c \<and> pg_like qs t)
      else (p = CHR ''_'' \<or> p = c) \<and> pg_like ps t)"

definition pg_admin_match :: "AdminAuditQuery \<Rightarrow> AdminAuditRecord \<Rightarrow> bool" where
  "pg_admin_match q r \<longleftrightarrow>
     (aaq_Actor q \<noteq> [] \<longrightarrow> aa_Actor r = aaq_Actor q) \<and>
     (aaq_Method q \<noteq> [] \<longrightarrow> aa_Method r = aaq_Method q) \<and>
     (aaq_Status q > 0 \<longrightarrow> aa_Status r = aaq_Status q) \<and>
     (aaq_PathLike q \<noteq> [] \<longrightarrow> pg_like (''%'' @ aaq_PathLike q @ ''%'') (aa_Path r)) \<and>
     (aaq_TenantID q \<noteq> [] \<longrightarrow> aa_TenantID r = aaq_TenantID q)"

definition pg_ListAdminAudit :: "pgenv \<Rightarrow> AdminAuditQuery \<Rightarrow> store \<Rightarrow> error + AdminAuditRecord list" where
  "pg_ListAdminAudit E q s = pg_query E OpListAdminAudit [aaq_Actor q, aaq_Method q, aaq_PathLike q, aaq_TenantID q]
     (Inr (take (nat (audit_limit (aaq_Limit q)))
        (sort_key (\<lambda>r. - aa_CreatedAt r) (sort_key (\<lambda>r. - aa_ID r) (filter (pg_admin_match q) (scan E (t_admin_audit s)))))))"

definition pg_DeleteAdminAuditBefore :: "pgenv \<Rightarrow> time \<Rightarrow> store \<Rightarrow> (error + nat) \<times> store" where
  "pg_DeleteAdminAuditBefore E before s =
     (case db_fail E OpDeleteAdminAuditBefore of
        Some e \<Rightarrow> (Inl e, s)
      | None \<Rightarrow>
          (Inr (rows_affected (\<lambda>r. aa_CreatedAt r < us before) (t_admin_audit s)),
           s\<lparr>t_admin_audit := del_where (\<lambda>r. aa_CreatedAt r < us before) (t_admin_audit s)\<rparr>))"

definition pg_CreateOperationAudit :: "pgenv \<Rightarrow> OperationAuditRecord \<Rightarrow> store \<Rightarrow> error option \<times> store" where
  "pg_CreateOperationAudit E r s =
     (let r = (if oa_CreatedAt r = 0 then r\<lparr>oa_CreatedAt := db_now E\<rparr> else r)
      in pg_exec E OpCreateOperationAudit
           [oa_Actor r, oa_Action r, oa_SandboxID r, oa_Resource r, oa_Provider r, oa_Status r, oa_Detail r, oa_TenantID r] [] s
           (None, s\<lparr>t_op_audit := t_op_audit s @ [r\<lparr>oa_CreatedAt := us (oa_CreatedAt r)\<rparr>]\<rparr>))"

text \<open>Operation records are kept in the order of their ids.\<close>

definition pg_ListOperationAudit :: "pgenv \<Rightarrow> OperationAuditQuery \<Rightarrow> store \<Rightarrow> error + OperationAuditRecord list" where
  "pg_ListOperationAudit E q s = pg_query E OpListOperationAudit
     [aq_Actor q, aq_Action q, aq_SandboxID q, aq_Resource q, aq_Status q, aq_TenantID q]
     (Inr (take (nat (audit_limit (aq_Limit q))) (sort_key (\<lambda>r. - oa_CreatedAt r) (rev (filter (audit_match q) (t_op_audit s))))))"

section \<open>Workers and leases\<close>

definition pg_SaveWorker :: "pgenv \<Rightarrow> WorkerRecord \<Rightarrow> store \<Rightarrow> error option \<times> store" where
  "pg_SaveWorker E w s =
     (let w = (if w_CreatedAt w = 0 then w\<lparr>w_CreatedAt := db_now E\<rparr> else w);
          w = (if w_LastHeartbeat w = 0 then w\<lparr>w_LastHeartbeat := db_now E\<rparr> else w);
          w = w\<lparr>w_UpdatedAt := db_now E\<rparr>
      in pg_exec E (OpSaveWorker (w_ID w)) [w_ID w, w_Hostname w, w_Status w] [] s
           (None, s\<lparr>t_workers := upsert_row w_ID (\<lambda>new old. new\<lparr>w_CreatedAt := w_CreatedAt old\<rparr>)
              (w\<lparr>w_LastHeartbeat := us (w_LastHeartbeat w), w_CreatedAt := us (w_CreatedAt w), w_UpdatedAt := us (w_UpdatedAt w)\<rparr>)
              (t_workers s)\<rparr>))"

definition pg_GetWorker :: "pgenv \<Rightarrow> string \<Rightarrow> store \<Rightarrow> error + WorkerRecord" where
  "pg_GetWorker E i s = pg_query E (OpGetWorker i) [i] (find_row ''worker'' w_ID i (t_workers s))"

definition pg_ListWorkers :: "pgenv \<Rightarrow> store \<Rightarrow> error + WorkerRecord list" where
  "pg_ListWorkers E s = pg_query E OpListWorkers [] (Inr (pg_sort E w_ID (t_workers s)))"

definition pg_DeleteWorker :: "pgenv \<Rightarrow> string \<Rightarrow> store \<Rightarrow> error option \<times> store" where
  "pg_DeleteWorker E i s = pg_exec E (OpDeleteWorker i) [i] [] s
     (let (e, rs) = delete_rows (NotFoundError ''worker'' i) (\<lambda>r. w_ID r = i) (t_workers s) in (e, s\<lparr>t_workers := rs\<rparr>))"

definition pg_GetLease :: "pgenv \<Rightarrow> string \<Rightarrow> store \<Rightarrow> error + LeaseRecord" where
  "pg_GetLease E i s = pg_query E (OpGetLease i) [i] (find_row ''lease'' l_ResourceID i (t_leases s))"

text \<open>The statement of \<open>AcquireLease\<close>: the rows it affects, one or none, and the new table.\<close>

definition pg_lease_upsert :: "string \<Rightarrow> string \<Rightarrow> string \<Rightarrow> time \<Rightarrow> time \<Rightarrow> LeaseRecord list \<Rightarrow> nat \<times> LeaseRecord list" where
  "pg_lease_upsert resource ty holder now expires rs =
     (case row_by l_ResourceID resource rs of
        None \<Rightarrow>
          (1, rs @ [\<lparr>l_ResourceID = resource, l_ResourceType = ty, l_HolderID = holder, l_Generation = 1, l_ExpiresAt = expires,
                     l_CreatedAt = now, l_UpdatedAt = now\<rparr>])
      | Some l \<Rightarrow>
          if l_ExpiresAt l \<le> now \<or> l_HolderID l = holder then
            (1, upd_where (\<lambda>r. l_ResourceID r = resource)
                  (\<lambda>r. r\<lparr>l_ResourceType := ty, l_HolderID := holder, l_Generation := l_Generation r + 1, l_ExpiresAt := expires,
                         l_UpdatedAt := now\<rparr>) rs)
          else (0, rs))"

definition pg_AcquireLease :: "pgenv \<Rightarrow> string \<Rightarrow> string \<Rightarrow> string \<Rightarrow> duration \<Rightarrow> store \<Rightarrow> (error + LeaseRecord) \<times> store" where
  "pg_AcquireLease E resource ty holder ttl s =
     (if TrimSpace resource = [] then (Inl (ConflictError ''lease resource id is required''), s)
      else if TrimSpace holder = [] then (Inl (ConflictError ''lease holder id is required''), s)
      else if ttl \<le> 0 then (Inl (ConflictError ''lease ttl must be positive''), s)
      else
        (let now = db_now E; (n, rs) = pg_lease_upsert resource ty holder (us now) (us (now + ttl)) (t_leases s);
             (r, s) = pg_exec E (OpAcquireLease resource) [resource, ty, holder] [] s
               (if n = 0 then (Some (ConflictError ''lease is held by another worker''), s) else (None, s\<lparr>t_leases := rs\<rparr>))
         in (case r of Some e \<Rightarrow> Inl e | None \<Rightarrow> pg_GetLease E resource s, s)))"

definition pg_RenewLease :: "pgenv \<Rightarrow> string \<Rightarrow> string \<Rightarrow> duration \<Rightarrow> store \<Rightarrow> (error + LeaseRecord) \<times> store" where
  "pg_RenewLease E resource holder ttl s =
     (if ttl \<le> 0 then (Inl (ConflictError ''lease ttl must be positive''), s)
      else
        (let now = db_now E;
             (e, rs) = update_rows (ConflictError ''lease is not held by worker or has expired'')
               (\<lambda>r. l_ResourceID r = resource \<and> l_HolderID r = holder \<and> l_ExpiresAt r > us now)
               (\<lambda>r. r\<lparr>l_Generation := l_Generation r + 1, l_ExpiresAt := us (now + ttl), l_UpdatedAt := us now\<rparr>) (t_leases s);
             (r, s) = pg_exec E (OpRenewLease resource) [resource, holder] [] s (e, s\<lparr>t_leases := rs\<rparr>)
         in (case r of Some e \<Rightarrow> Inl e | None \<Rightarrow> pg_GetLease E resource s, s)))"

definition pg_ListLeases :: "pgenv \<Rightarrow> store \<Rightarrow> error + LeaseRecord list" where
  "pg_ListLeases E s = pg_query E OpListLeases [] (Inr (pg_sort E l_ResourceID (t_leases s)))"

definition pg_ReleaseLease :: "pgenv \<Rightarrow> string \<Rightarrow> string \<Rightarrow> store \<Rightarrow> error option \<times> store" where
  "pg_ReleaseLease E resource holder s = pg_exec E (OpReleaseLease resource) [resource, holder] [] s
     (let (e, rs) = delete_rows (NotFoundError ''lease'' resource) (\<lambda>r. l_ResourceID r = resource \<and> l_HolderID r = holder) (t_leases s)
      in (e, s\<lparr>t_leases := rs\<rparr>))"

section \<open>Exec logs\<close>

definition pg_CreateExecLog :: "pgenv \<Rightarrow> ExecLogRecord \<Rightarrow> store \<Rightarrow> error option \<times> store" where
  "pg_CreateExecLog E l s = pg_exec E OpCreateExecLog
     [xl_SandboxID l, xl_Command l, xl_Stdout l, xl_Stderr l, xl_Duration l] [xl_ExitCode l] s
     (if row_by sr_ID (xl_SandboxID l) (t_sandboxes s) = None then (Some (pg_foreign ''exec_logs_sandbox_id_fkey''), s)
      else (None, s\<lparr>t_exec_logs := t_exec_logs s @ [l\<lparr>xl_CreatedAt := us (xl_CreatedAt l)\<rparr>]\<rparr>))"

definition pg_ListExecLogs :: "pgenv \<Rightarrow> string \<Rightarrow> store \<Rightarrow> error + ExecLogRecord list" where
  "pg_ListExecLogs E i s = pg_query E OpListExecLogs [i]
     (Inr (sort_key (\<lambda>l. - xl_CreatedAt l) (filter (\<lambda>l. xl_SandboxID l = i) (scan E (t_exec_logs s)))))"

section \<open>Provider configurations\<close>

definition pg_GetProviderConfig :: "pgenv \<Rightarrow> string \<Rightarrow> store \<Rightarrow> error + ProviderConfigRecord" where
  "pg_GetProviderConfig E n s = pg_query E (OpGetProviderConfig n) [n] (find_row ''provider config'' pf_Name n (t_provider_configs s))"

definition pg_SaveProviderConfig :: "pgenv \<Rightarrow> ProviderConfigRecord \<Rightarrow> store \<Rightarrow> error option \<times> store" where
  "pg_SaveProviderConfig E c s = pg_exec E (OpSaveProviderConfig (pf_Name c)) [pf_Name c, pf_Config c] [] s
     (None, s\<lparr>t_provider_configs := upsert_row pf_Name
        (\<lambda>new old. old\<lparr>pf_Config := pf_Config new, pf_Enabled := pf_Enabled new, pf_UpdatedAt := pf_UpdatedAt new\<rparr>)
        (c\<lparr>pf_UpdatedAt := us (db_now E)\<rparr>) (t_provider_configs s)\<rparr>)"

definition pg_ListProviderConfigs :: "pgenv \<Rightarrow> store \<Rightarrow> error + ProviderConfigRecord list" where
  "pg_ListProviderConfigs E s = pg_query E OpListProviderConfigs [] (Inr (scan E (t_provider_configs s)))"

section \<open>Templates\<close>

definition template_texts :: "TemplateRecord \<Rightarrow> string list" where
  "template_texts t = [tr_Name t, tr_Image t, tr_Description t]"

definition template_ints :: "TemplateRecord \<Rightarrow> int list" where
  "template_ints t = [tr_Version t, tr_MemoryMB t, tr_CPUCores t, tr_TTLSeconds t, tr_PoolSize t]"

definition pg_CreateTemplate :: "pgenv \<Rightarrow> TemplateRecord \<Rightarrow> store \<Rightarrow> error option \<times> store" where
  "pg_CreateTemplate E t s = conflict_as ''template already exists''
     (pg_exec E (OpCreateTemplate (tr_Name t)) (template_texts t) (template_ints t) s
       (let (e, rs) = pg_insert ''templates_pkey'' tr_Name
              (t\<lparr>tr_CreatedAt := us (tr_CreatedAt t), tr_UpdatedAt := us (tr_UpdatedAt t)\<rparr>) (t_templates s)
        in (e, s\<lparr>t_templates := rs\<rparr>)))"

definition pg_GetTemplate :: "pgenv \<Rightarrow> string \<Rightarrow> store \<Rightarrow> error + TemplateRecord" where
  "pg_GetTemplate E n s = pg_query E (OpGetTemplate n) [n] (find_row ''template'' tr_Name n (t_templates s))"

definition pg_ListTemplates :: "pgenv \<Rightarrow> store \<Rightarrow> error + TemplateRecord list" where
  "pg_ListTemplates E s = pg_query E OpListTemplates [] (Inr (pg_sort E tr_Name (t_templates s)))"

definition pg_UpdateTemplate :: "pgenv \<Rightarrow> TemplateRecord \<Rightarrow> store \<Rightarrow> error option \<times> store" where
  "pg_UpdateTemplate E t s = pg_exec E (OpUpdateTemplate (tr_Name t)) (template_texts t) (template_ints t) s
     (let (e, rs) = update_rows (NotFoundError ''template'' (tr_Name t)) (\<lambda>r. tr_Name r = tr_Name t)
            (\<lambda>r. t\<lparr>tr_CreatedAt := tr_CreatedAt r, tr_UpdatedAt := us (db_now E)\<rparr>) (t_templates s)
      in (e, s\<lparr>t_templates := rs\<rparr>))"

definition pg_DeleteTemplate :: "pgenv \<Rightarrow> string \<Rightarrow> store \<Rightarrow> error option \<times> store" where
  "pg_DeleteTemplate E n s = pg_exec E (OpDeleteTemplate n) [n] [] s
     (let (e, rs) = delete_rows (NotFoundError ''template'' n) (\<lambda>r. tr_Name r = n) (t_templates s) in (e, s\<lparr>t_templates := rs\<rparr>))"

section \<open>Environments\<close>

definition pg_CreateEnvironmentSpec :: "pgenv \<Rightarrow> EnvironmentSpecRecord \<Rightarrow> store \<Rightarrow> error option \<times> store" where
  "pg_CreateEnvironmentSpec E spec s = conflict_as ''spec name already exists for this owner''
     (pg_exec E (OpCreateEnvironmentSpec (es_ID spec))
        [es_ID spec, es_OwnerID spec, es_Name spec, es_BaseImage spec, es_PythonVersion spec] [] s
       (if row_by es_ID (es_ID spec) (t_specs s) \<noteq> None then (Some (pg_duplicate ''environment_specs_pkey''), s)
        else (let (e, rs) = pg_insert ''environment_specs_owner_id_name_key'' (\<lambda>r. (es_OwnerID r, es_Name r))
                    (spec\<lparr>es_CreatedAt := us (es_CreatedAt spec), es_UpdatedAt := us (es_UpdatedAt spec)\<rparr>) (t_specs s)
              in (e, s\<lparr>t_specs := rs\<rparr>))))"

definition pg_GetEnvironmentSpec :: "pgenv \<Rightarrow> string \<Rightarrow> store \<Rightarrow> error + EnvironmentSpecRecord" where
  "pg_GetEnvironmentSpec E i s = pg_query E (OpGetEnvironmentSpec i) [i] (find_row ''environment spec'' es_ID i (t_specs s))"

definition pg_ListEnvironmentSpecs :: "pgenv \<Rightarrow> string \<Rightarrow> store \<Rightarrow> error + EnvironmentSpecRecord list" where
  "pg_ListEnvironmentSpecs E owner s = pg_query E (OpListEnvironmentSpecs owner) [owner]
     (Inr (sort_key (\<lambda>r. - es_CreatedAt r) (filter (\<lambda>r. es_OwnerID r = owner) (scan E (t_specs s)))))"

definition pg_UpdateEnvironmentSpec :: "pgenv \<Rightarrow> EnvironmentSpecRecord \<Rightarrow> store \<Rightarrow> error option \<times> store" where
  "pg_UpdateEnvironmentSpec E spec s = pg_exec E (OpUpdateEnvironmentSpec (es_ID spec))
     [es_Name spec, es_BaseImage spec, es_PythonVersion spec, es_ID spec] [] s
     (if \<exists>r\<in>set (t_specs s). es_ID r \<noteq> es_ID spec \<and> es_Name r = es_Name spec \<and>
           (\<exists>x\<in>set (t_specs s). es_ID x = es_ID spec \<and> es_OwnerID x = es_OwnerID r)
      then (Some (pg_duplicate ''environment_specs_owner_id_name_key''), s)
      else (let (e, rs) = update_rows (NotFoundError ''environment spec'' (es_ID spec)) (\<lambda>r. es_ID r = es_ID spec)
              (\<lambda>r. r\<lparr>es_Name := es_Name spec, es_BaseImage := es_BaseImage spec, es_PythonPackages := es_PythonPackages spec,
                     es_AptPackages := es_AptPackages spec, es_PythonVersion := es_PythonVersion spec,
                     es_UpdatedAt := us (db_now E)\<rparr>)
              (t_specs s)
            in (e, s\<lparr>t_specs := rs\<rparr>)))"

text \<open>A specification that a build refers to cannot be deleted.\<close>

definition pg_DeleteEnvironmentSpec :: "pgenv \<Rightarrow> string \<Rightarrow> store \<Rightarrow> error option \<times> store" where
  "pg_DeleteEnvironmentSpec E i s = pg_exec E (OpDeleteEnvironmentSpec i) [i] [] s
     (if row_by es_ID i (t_specs s) \<noteq> None \<and> (\<exists>b\<in>set (t_builds s). eb_SpecID b = i)
      then (Some (pg_foreign ''environment_builds_spec_id_fkey''), s)
      else (let (e, rs) = delete_rows (NotFoundError ''environment spec'' i) (\<lambda>r. es_ID r = i) (t_specs s)
            in (e, s\<lparr>t_specs := rs\<rparr>)))"

definition postgresNullableTime :: "time option \<Rightarrow> time option" where
  "postgresNullableTime t = (case t of None \<Rightarrow> None | Some t \<Rightarrow> Some (us t))"

definition pg_CreateEnvironmentBuild :: "pgenv \<Rightarrow> EnvironmentBuildRecord \<Rightarrow> store \<Rightarrow> error option \<times> store" where
  "pg_CreateEnvironmentBuild E b s = pg_exec E (OpCreateEnvironmentBuild (eb_ID b))
     [eb_ID b, eb_SpecID b, eb_Status b, eb_CurrentStep b, eb_LogBlob b, eb_DigestLocal b, eb_Error b] [] s
     (if row_by eb_ID (eb_ID b) (t_builds s) \<noteq> None then (Some (pg_duplicate ''environment_builds_pkey''), s)
      else if row_by es_ID (eb_SpecID b) (t_specs s) = None then (Some (pg_foreign ''environment_builds_spec_id_fkey''), s)
      else (None, s\<lparr>t_builds := t_builds s @
             [b\<lparr>eb_CreatedAt := us (eb_CreatedAt b), eb_FinishedAt := postgresNullableTime (eb_FinishedAt b),
                eb_UpdatedAt := us (eb_UpdatedAt b)\<rparr>]\<rparr>))"

definition pg_GetEnvironmentBuild :: "pgenv \<Rightarrow> string \<Rightarrow> store \<Rightarrow> error + EnvironmentBuildRecord" where
  "pg_GetEnvironmentBuild E i s = pg_query E (OpGetEnvironmentBuild i) [i] (find_row ''environment build'' eb_ID i (t_builds s))"

definition pg_ListEnvironmentBuilds :: "pgenv \<Rightarrow> string \<Rightarrow> store \<Rightarrow> error + EnvironmentBuildRecord list" where
  "pg_ListEnvironmentBuilds E spec s = pg_query E (OpListEnvironmentBuilds spec) [spec]
     (Inr (sort_key (\<lambda>r. - eb_CreatedAt r) (filter (\<lambda>r. eb_SpecID r = spec) (scan E (t_builds s)))))"

definition pg_UpdateEnvironmentBuild :: "pgenv \<Rightarrow> EnvironmentBuildRecord \<Rightarrow> store \<Rightarrow> error option \<times> store" where
  "pg_UpdateEnvironmentBuild E b s = pg_exec E (OpUpdateEnvironmentBuild (eb_ID b))
     [eb_Status b, eb_CurrentStep b, eb_LogBlob b, eb_DigestLocal b, eb_Error b, eb_ID b] [] s
     (let (e, rs) = update_rows (NotFoundError ''environment build'' (eb_ID b)) (\<lambda>r. eb_ID r = eb_ID b)
            (\<lambda>r. b\<lparr>eb_SpecID := eb_SpecID r, eb_CreatedAt := eb_CreatedAt r,
                   eb_FinishedAt := postgresNullableTime (eb_FinishedAt b), eb_UpdatedAt := us (db_now E)\<rparr>) (t_builds s)
      in (e, s\<lparr>t_builds := rs\<rparr>))"

definition pg_SaveEnvironmentArtifact :: "pgenv \<Rightarrow> EnvironmentArtifactRecord \<Rightarrow> store \<Rightarrow> error option \<times> store" where
  "pg_SaveEnvironmentArtifact E a s = pg_exec E (OpSaveEnvironmentArtifact (ar_BuildID a) (ar_Target a))
     [ar_BuildID a, ar_Target a, ar_ImageRef a, ar_Digest a, ar_Status a, ar_Error a] [] s
     (if row_by (\<lambda>r. (ar_BuildID r, ar_Target r)) (ar_BuildID a, ar_Target a) (t_artifacts s) = None \<and>
         row_by eb_ID (ar_BuildID a) (t_builds s) = None
      then (Some (pg_foreign ''environment_artifacts_build_id_fkey''), s)
      else (None, s\<lparr>t_artifacts := upsert_row (\<lambda>r. (ar_BuildID r, ar_Target r))
              (\<lambda>new old. new\<lparr>ar_CreatedAt := ar_CreatedAt old\<rparr>)
              (a\<lparr>ar_CreatedAt := us (db_now E), ar_UpdatedAt := us (db_now E)\<rparr>) (t_artifacts s)\<rparr>))"

text \<open>Artifacts are kept in the order of their ids.\<close>

definition pg_ListEnvironmentArtifacts :: "pgenv \<Rightarrow> string \<Rightarrow> store \<Rightarrow> error + EnvironmentArtifactRecord list" where
  "pg_ListEnvironmentArtifacts E b s = pg_query E (OpListEnvironmentArtifacts b) [b]
     (Inr (filter (\<lambda>r. ar_BuildID r = b) (t_artifacts s)))"

section \<open>Registry connections\<close>

definition pg_SaveRegistryConnection :: "pgenv \<Rightarrow> RegistryConnectionRecord \<Rightarrow> store \<Rightarrow> error option \<times> store" where
  "pg_SaveRegistryConnection E c s = conflict_as ''registry connection already exists''
     (pg_exec E (OpSaveRegistryConnection (rg_ID c)) [rg_ID c, rg_OwnerID c, rg_Provider c, rg_Username c, rg_SecretRef c] [] s
       (if \<exists>r\<in>set (t_registries s). rg_ID r \<noteq> rg_ID c \<and> rg_OwnerID r = rg_OwnerID c \<and> rg_Provider r = rg_Provider c \<and>
             rg_Username r = rg_Username c
        then (Some (pg_duplicate ''registry_connections_owner_id_provider_username_key''), s)
        else (None, s\<lparr>t_registries := upsert_row rg_ID (\<lambda>new old. new\<lparr>rg_CreatedAt := rg_CreatedAt old\<rparr>)
                (c\<lparr>rg_CreatedAt := us (db_now E), rg_UpdatedAt := us (db_now E)\<rparr>) (t_registries s)\<rparr>)))"

definition pg_GetRegistryConnection :: "pgenv \<Rightarrow> string \<Rightarrow> store \<Rightarrow> error + RegistryConnectionRecord" where
  "pg_GetRegistryConnection E i s =
     pg_query E (OpGetRegistryConnection i) [i] (find_row ''registry connection'' rg_ID i (t_registries s))"

definition pg_ListRegistryConnections :: "pgenv \<Rightarrow> string \<Rightarrow> store \<Rightarrow> error + RegistryConnectionRecord list" where
  "pg_ListRegistryConnections E owner s = pg_query E (OpListRegistryConnections owner) [owner]
     (Inr (sort_key (\<lambda>r. - rg_CreatedAt r) (filter (\<lambda>r. rg_OwnerID r = owner) (scan E (t_registries s)))))"

definition pg_DeleteRegistryConnection :: "pgenv \<Rightarrow> string \<Rightarrow> store \<Rightarrow> error option \<times> store" where
  "pg_DeleteRegistryConnection E i s = pg_exec E (OpDeleteRegistryConnection i) [i] [] s
     (let (e, rs) = delete_rows (NotFoundError ''registry connection'' i) (\<lambda>r. rg_ID r = i) (t_registries s)
      in (e, s\<lparr>t_registries := rs\<rparr>))"

section \<open>Tenants, members, policies\<close>

definition pg_CreateTenant :: "pgenv \<Rightarrow> TenantRecord \<Rightarrow> store \<Rightarrow> error option \<times> store" where
  "pg_CreateTenant E t s =
     (let t = (if tn_CreatedAt t = 0 then t\<lparr>tn_CreatedAt := db_now E\<rparr> else t);
          t = t\<lparr>tn_UpdatedAt := db_now E\<rparr>;
          t = (if tn_Settings t = [] then t\<lparr>tn_Settings := ''{}''\<rparr> else t)
      in pg_exec E (OpCreateTenant (tn_ID t)) [tn_ID t, tn_Name t, tn_OwnerID t, tn_Settings t] [] s
           (let (e, rs) = pg_insert ''tenants_pkey'' tn_ID
                  (t\<lparr>tn_CreatedAt := us (tn_CreatedAt t), tn_UpdatedAt := us (tn_UpdatedAt t)\<rparr>) (t_tenants s)
            in (e, s\<lparr>t_tenants := rs\<rparr>)))"

definition pg_GetTenant :: "pgenv \<Rightarrow> string \<Rightarrow> store \<Rightarrow> error + TenantRecord" where
  "pg_GetTenant E i s = pg_query E (OpGetTenant i) [i] (find_row ''tenant'' tn_ID i (t_tenants s))"

definition pg_ListTenants :: "pgenv \<Rightarrow> store \<Rightarrow> error + TenantRecord list" where
  "pg_ListTenants E s = pg_query E OpListTenants [] (Inr (sort_key (\<lambda>r. - tn_CreatedAt r) (scan E (t_tenants s))))"

definition pg_UpdateTenant :: "pgenv \<Rightarrow> TenantRecord \<Rightarrow> store \<Rightarrow> error option \<times> store" where
  "pg_UpdateTenant E t s = pg_exec E (OpUpdateTenant (tn_ID t)) [tn_Name t, tn_OwnerID t, tn_Settings t, tn_ID t] [] s
     (let (e, rs) = update_rows (NotFoundError ''tenant'' (tn_ID t)) (\<lambda>r. tn_ID r = tn_ID t)
            (\<lambda>r. t\<lparr>tn_CreatedAt := tn_CreatedAt r, tn_UpdatedAt := us (db_now E)\<rparr>) (t_tenants s)
      in (e, s\<lparr>t_tenants := rs\<rparr>))"

definition pg_DeleteTenant :: "pgenv \<Rightarrow> string \<Rightarrow> store \<Rightarrow> error option \<times> store" where
  "pg_DeleteTenant E i s = pg_exec E (OpDeleteTenant i) [i] [] s
     (let (e, rs) = delete_rows (NotFoundError ''tenant'' i) (\<lambda>r. tn_ID r = i) (t_tenants s) in (e, s\<lparr>t_tenants := rs\<rparr>))"

definition pg_SaveTenantMember :: "pgenv \<Rightarrow> TenantMemberRecord \<Rightarrow> store \<Rightarrow> error option \<times> store" where
  "pg_SaveTenantMember E m s =
     (let m = (if tm_CreatedAt m = 0 then m\<lparr>tm_CreatedAt := db_now E\<rparr> else m); m = m\<lparr>tm_UpdatedAt := db_now E\<rparr>
      in pg_exec E (OpSaveTenantMember (tm_TenantID m) (tm_UserID m)) [tm_TenantID m, tm_UserID m, tm_Role m] [] s
           (None, s\<lparr>t_members := upsert_row (\<lambda>r. (tm_TenantID r, tm_UserID r))
              (\<lambda>new old. old\<lparr>tm_Role := tm_Role new, tm_UpdatedAt := tm_UpdatedAt new\<rparr>)
              (m\<lparr>tm_CreatedAt := us (tm_CreatedAt m), tm_UpdatedAt := us (tm_UpdatedAt m)\<rparr>) (t_members s)\<rparr>))"

definition pg_GetTenantMember :: "pgenv \<Rightarrow> string \<Rightarrow> string \<Rightarrow> store \<Rightarrow> error + TenantMemberRecord" where
  "pg_GetTenantMember E t u s = pg_query E (OpGetTenantMember t u) [t, u]
     (case row_by (\<lambda>r. (tm_TenantID r, tm_UserID r)) (t, u) (t_members s) of
        None \<Rightarrow> Inl (NotFoundError ''tenant_member'' (t @ ''/'' @ u))
      | Some m \<Rightarrow> Inr m)"

definition pg_ListTenantMembers :: "pgenv \<Rightarrow> string \<Rightarrow> store \<Rightarrow> error + TenantMemberRecord list" where
  "pg_ListTenantMembers E t s = pg_query E OpListTenantMembers [t]
     (Inr (sort_key tm_CreatedAt (filter (\<lambda>r. tm_TenantID r = t) (scan E (t_members s)))))"

definition pg_DeleteTenantMember :: "pgenv \<Rightarrow> string \<Rightarrow> string \<Rightarrow> store \<Rightarrow> error option \<times> store" where
  "pg_DeleteTenantMember E t u s = pg_exec E (OpDeleteTenantMember t u) [t, u] [] s
     (let (e, rs) = delete_rows (NotFoundError ''tenant_member'' (t @ ''/'' @ u)) (\<lambda>r. tm_TenantID r = t \<and> tm_UserID r = u) (t_members s)
      in (e, s\<lparr>t_members := rs\<rparr>))"

definition pg_CreatePolicy :: "pgenv \<Rightarrow> PolicyRecord \<Rightarrow> store \<Rightarrow> error option \<times> store" where
  "pg_CreatePolicy E p s =
     (let p = (if p_CreatedAt p = 0 then p\<lparr>p_CreatedAt := db_now E\<rparr> else p); p = p\<lparr>p_UpdatedAt := db_now E\<rparr>
      in pg_exec E (OpCreatePolicy (p_ID p)) [p_ID p, p_TenantID p, p_ResourceType p, p_Effect p, p_Pattern p] [p_Priority p] s
           (let (e, rs) = pg_insert ''policies_pkey'' p_ID
                  (p\<lparr>p_CreatedAt := us (p_CreatedAt p), p_UpdatedAt := us (p_UpdatedAt p)\<rparr>) (t_policies s)
            in (e, s\<lparr>t_policies := rs\<rparr>)))"

definition pg_GetPolicy :: "pgenv \<Rightarrow> string \<Rightarrow> store \<Rightarrow> error + PolicyRecord" where
  "pg_GetPolicy E i s = pg_query E (OpGetPolicy i) [i] (find_row ''policy'' p_ID i (t_policies s))"

definition pg_ListPolicies :: "pgenv \<Rightarrow> PolicyQuery \<Rightarrow> store \<Rightarrow> error + PolicyRecord list" where
  "pg_ListPolicies E q s = pg_query E OpListPolicies [pq_TenantID q, pq_ResourceType q]
     (Inr (sort_key p_Priority (sort_key p_CreatedAt (filter (policy_in q) (scan E (t_policies s))))))"

definition pg_DeletePolicy :: "pgenv \<Rightarrow> string \<Rightarrow> store \<Rightarrow> error option \<times> store" where
  "pg_DeletePolicy E i s = pg_exec E (OpDeletePolicy i) [i] [] s
     (let (e, rs) = delete_rows (NotFoundError ''policy'' i) (\<lambda>r. p_ID r = i) (t_policies s) in (e, s\<lparr>t_policies := rs\<rparr>))"

end
