(* ===== verification/Store_Postgres_Laws.thy ===== *)
theory Store_Postgres_Laws
  imports Store_Postgres "HOL-Library.Multiset"
begin

text \<open>
  The two stores answer alike.  The writes of the interface run on PostgreSQL and on SQLite leave the
  same tables and give the same errors, a duplicate key in the words of each driver, as long as the
  server takes the arguments, the times are whole microseconds and the rows that foreign keys name
  are there (\<open>fits\<close>).
\<close>

section \<open>Writes on the server\<close>

fun pg_write :: "pgenv \<Rightarrow> store_write \<Rightarrow> store \<Rightarrow> error option \<times> store" where
  "pg_write E (W_CreateSandbox r) s = pg_CreateSandbox E r s"
| "pg_write E (W_UpdateSandboxState i st) s = pg_UpdateSandboxState E i st s"
| "pg_write E (W_UpdateSandboxExpiresAt i t) s = pg_UpdateSandboxExpiresAt E i t s"
| "pg_write E (W_DeleteSandbox i) s = pg_DeleteSandbox E i s"
| "pg_write E (W_SaveOwnerQuota q) s = pg_SaveOwnerQuota E q s"
| "pg_write E (W_DeleteOwnerQuota i) s = pg_DeleteOwnerQuota E i s"
| "pg_write E (W_CreateAdminAudit r) s = pg_CreateAdminAudit E r s"
| "pg_write E (W_DeleteAdminAuditBefore t) s = only_error (pg_DeleteAdminAuditBefore E t s)"
| "pg_write E (W_CreateOperationAudit r) s = pg_CreateOperationAudit E r s"
| "pg_write E (W_SaveWorker w) s = pg_SaveWorker E w s"
| "pg_write E (W_DeleteWorker i) s = pg_DeleteWorker E i s"
| "pg_write E (W_AcquireLease r ty h ttl) s = only_error (pg_AcquireLease E r ty h ttl s)"
| "pg_write E (W_RenewLease r h ttl) s = only_error (pg_RenewLease E r h ttl s)"
| "pg_write E (W_ReleaseLease r h) s = pg_ReleaseLease E r h s"
| "pg_write E (W_CreateExecLog l) s = pg_CreateExecLog E l s"
| "pg_write E (W_SaveProviderConfig c) s = pg_SaveProviderConfig E c s"
| "pg_write E (W_CreateTemplate t) s = pg_CreateTemplate E t s"
| "pg_write E (W_UpdateTemplate t) s = pg_UpdateTemplate E t s"
| "pg_write E (W_DeleteTemplate n) s = pg_DeleteTemplate E n s"
| "pg_write E (W_CreateEnvironmentSpec r) s = pg_CreateEnvironmentSpec E r s"
| "pg_write E (W_UpdateEnvironmentSpec r) s = pg_UpdateEnvironmentSpec E r s"
| "pg_write E (W_DeleteEnvironmentSpec i) s = pg_DeleteEnvironmentSpec E i s"
| "pg_write E (W_CreateEnvironmentBuild b) s = pg_CreateEnvironmentBuild E b s"
| "pg_write E (W_UpdateEnvironmentBuild b) s = pg_UpdateEnvironmentBuild E b s"
| "pg_write E (W_SaveEnvironmentArtifact a) s = pg_SaveEnvironmentArtifact E a s"
| "pg_write E (W_SaveRegistryConnection c) s = pg_SaveRegistryConnection E c s"
| "pg_write E (W_DeleteRegistryConnection i) s = pg_DeleteRegistryConnection E i s"
| "pg_write E (W_CreateTenant t) s = pg_CreateTenant E t s"
| "pg_write E (W_UpdateTenant t) s = pg_UpdateTenant E t s"
| "pg_write E (W_DeleteTenant i) s = pg_DeleteTenant E i s"
| "pg_write E (W_SaveTenantMember m) s = pg_SaveTenantMember E m s"
| "pg_write E (W_DeleteTenantMember t u) s = pg_DeleteTenantMember E t u s"
| "pg_write E (W_CreatePolicy p) s = pg_CreatePolicy E p s"
| "pg_write E (W_DeletePolicy i) s = pg_DeletePolicy E i s"

section \<open>What a write carries\<close>

fun write_texts :: "store_write \<Rightarrow> string list" where
  "write_texts (W_CreateSandbox r) =
     [sr_ID r, sr_State r, sr_Provider r, sr_Image r, sr_OwnerID r, sr_TenantID r, sr_VMID r, sr_WorkerID r, ''local'']"
| "write_texts (W_UpdateSandboxState i st) = [i, st]"
| "write_texts (W_UpdateSandboxExpiresAt i t) = [i]"
| "write_texts (W_DeleteSandbox i) = [i, ''destroyed'']"
| "write_texts (W_SaveOwnerQuota q) = [q_OwnerID q]"
| "write_texts (W_DeleteOwnerQuota i) = [i]"
| "write_texts (W_CreateAdminAudit r) =
     [aa_Actor r, aa_Method r, aa_Path r, aa_RequestID r, aa_RemoteAddr r, aa_UserAgent r, aa_TenantID r]"
| "write_texts (W_DeleteAdminAuditBefore t) = []"
| "write_texts (W_CreateOperationAudit r) =
     [oa_Actor r, oa_Action r, oa_SandboxID r, oa_Resource r, oa_Provider r, oa_Status r, oa_Detail r, oa_TenantID r]"
| "write_texts (W_SaveWorker w) = [w_ID w, w_Hostname w, w_Status w]"
| "write_texts (W_DeleteWorker i) = [i]"
| "write_texts (W_AcquireLease r ty h ttl) = [r, ty, h]"
| "write_texts (W_RenewLease r h ttl) = [r, h]"
| "write_texts (W_ReleaseLease r h) = [r, h]"
| "write_texts (W_CreateExecLog l) = [xl_SandboxID l, xl_Command l, xl_Stdout l, xl_Stderr l, xl_Duration l]"
| "write_texts (W_SaveProviderConfig c) = [pf_Name c, pf_Config c]"
| "write_texts (W_CreateTemplate t) = template_texts t"
| "write_texts (W_UpdateTemplate t) = template_texts t"
| "write_texts (W_DeleteTemplate n) = [n]"
| "write_texts (W_CreateEnvironmentSpec r) = [es_ID r, es_OwnerID r, es_Name r, es_BaseImage r, es_PythonVersion r]"
| "write_texts (W_UpdateEnvironmentSpec r) = [es_ID r, es_Name r, es_BaseImage r, es_PythonVersion r]"
| "write_texts (W_DeleteEnvironmentSpec i) = [i]"
| "write_texts (W_CreateEnvironmentBuild b) =
     [eb_ID b, eb_SpecID b, eb_Status b, eb_CurrentStep b, eb_LogBlob b, eb_DigestLocal b, eb_Error b]"
| "write_texts (W_UpdateEnvironmentBuild b) = [eb_ID b, eb_Status b, eb_CurrentStep b, eb_LogBlob b, eb_DigestLocal b, eb_Error b]"
| "write_texts (W_SaveEnvironmentArtifact a) = [ar_BuildID a, ar_Target a, ar_ImageRef a, ar_Digest a, ar_Status a, ar_Error a]"
| "write_texts (W_SaveRegistryConnection c) = [rg_ID c, rg_OwnerID c, rg_Provider c, rg_Username c, rg_SecretRef c]"
| "write_texts (W_DeleteRegistryConnection i) = [i]"
| "write_texts (W_CreateTenant t) = [tn_ID t, tn_Name t, tn_OwnerID t, tn_Settings t, ''{}'']"
| "write_texts (W_UpdateTenant t) = [tn_ID t, tn_Name t, tn_OwnerID t, tn_Settings t]"
| "write_texts (W_DeleteTenant i) = [i]"
| "write_texts (W_SaveTenantMember m) = [tm_TenantID m, tm_UserID m, tm_Role m]"
| "write_texts (W_DeleteTenantMember t u) = [t, u]"
| "write_texts (W_CreatePolicy p) = [p_ID p, p_TenantID p, p_ResourceType p, p_Effect p, p_Pattern p]"
| "write_texts (W_DeletePolicy i) = [i]"

fun write_ints :: "store_write \<Rightarrow> int list" where
  "write_ints (W_CreateSandbox r) = [sr_MemoryMB r, sr_VCPUs r]"
| "write_ints (W_SaveOwnerQuota q) = [q_MaxSandboxes q]"
| "write_ints (W_CreateAdminAudit r) = [aa_Status r]"
| "write_ints (W_CreateExecLog l) = [xl_ExitCode l]"
| "write_ints (W_CreateTemplate t) = template_ints t"
| "write_ints (W_UpdateTemplate t) = template_ints t"
| "write_ints (W_CreatePolicy p) = [p_Priority p]"
| "write_ints w = []"

fun write_times :: "store_write \<Rightarrow> time list" where
  "write_times (W_CreateSandbox r) = [sr_CreatedAt r, sr_ExpiresAt r, sr_UpdatedAt r]"
| "write_times (W_UpdateSandboxExpiresAt i t) = [t]"
| "write_times (W_SaveOwnerQuota q) = [q_CreatedAt q]"
| "write_times (W_CreateAdminAudit r) = [aa_CreatedAt r]"
| "write_times (W_DeleteAdminAuditBefore t) = [t]"
| "write_times (W_CreateOperationAudit r) = [oa_CreatedAt r]"
| "write_times (W_SaveWorker w) = [w_LastHeartbeat w, w_CreatedAt w]"
| "write_times (W_AcquireLease r ty h ttl) = [ttl]"
| "write_times (W_RenewLease r h ttl) = [ttl]"
| "write_times (W_CreateExecLog l) = [xl_CreatedAt l]"
| "write_times (W_CreateTemplate t) = [tr_CreatedAt t, tr_UpdatedAt t]"
| "write_times (W_CreateEnvironmentSpec r) = [es_CreatedAt r, es_UpdatedAt r]"
| "write_times (W_CreateEnvironmentBuild b) = [eb_CreatedAt b, eb_UpdatedAt b] @ (case eb_FinishedAt b of None \<Rightarrow> [] | Some t \<Rightarrow> [t])"
| "write_times (W_UpdateEnvironmentBuild b) = (case eb_FinishedAt b of None \<Rightarrow> [] | Some t \<Rightarrow> [t])"
| "write_times (W_CreateTenant t) = [tn_CreatedAt t]"
| "write_times (W_SaveTenantMember m) = [tm_CreatedAt m]"
| "write_times (W_CreatePolicy p) = [p_CreatedAt p]"
| "write_times w = []"

text \<open>The rows the foreign keys of the statement ask for.\<close>

fun referenced :: "store_write \<Rightarrow> store \<Rightarrow> bool" where
  "referenced (W_CreateExecLog l) s = (row_by sr_ID (xl_SandboxID l) (t_sandboxes s) \<noteq> None)"
| "referenced (W_CreateEnvironmentBuild b) s = (row_by es_ID (eb_SpecID b) (t_specs s) \<noteq> None)"
| "referenced (W_SaveEnvironmentArtifact a) s = (row_by eb_ID (ar_BuildID a) (t_builds s) \<noteq> None)"
| "referenced (W_DeleteEnvironmentSpec i) s = list_all (\<lambda>b. eb_SpecID b \<noteq> i) (t_builds s)"
| "referenced w s = True"

definition whole :: "time \<Rightarrow> bool" where
  "whole t \<longleftrightarrow> t mod 1000 = 0"

definition fits :: "pgenv \<Rightarrow> store_write \<Rightarrow> store \<Rightarrow> bool" where
  "fits E w s \<longleftrightarrow>
     list_all (pg_text E) (write_texts w) \<and> list_all int4 (write_ints w) \<and>
     whole (db_now E) \<and> list_all whole (write_times w) \<and> referenced w s"

text \<open>Errors a caller cannot tell apart, but for the words of a duplicate key.\<close>

definition alike :: "error option \<Rightarrow> error option \<Rightarrow> bool" where
  "alike e f \<longleftrightarrow> e = f \<or>
     IsConstraintError e \<and> IsConstraintError f \<and> map_option err_kind e = Some ErrOther \<and> map_option err_kind f = Some ErrOther"

section \<open>Statement by statement\<close>

lemma us_whole [simp]: "whole t \<Longrightarrow> us t = t"
  by (auto simp: whole_def us_def)

lemma whole_add [simp]: "whole a \<Longrightarrow> whole b \<Longrightarrow> whole (a + b)"
  by (auto simp: whole_def dvd_eq_mod_eq_0 [symmetric])

lemma alike_refl [simp]: "alike e e"
  by (simp add: alike_def)

lemma constraint_duplicate [simp]: "IsConstraintError (Some (pg_duplicate c))"
proof -
  have "HasPrefix (drop 7 (err_msg (pg_duplicate c))) ''duplicate key value violates unique constraint''"
    unfolding HasPrefix_iff by (simp add: pg_duplicate_def)
  moreover have "7 < length (err_msg (pg_duplicate c))"
    by (simp add: pg_duplicate_def)
  ultimately have "contains (err_msg (pg_duplicate c)) ''duplicate key value violates unique constraint''"
    by (auto simp: contains_def list_ex_iff intro!: bexI [of _ 7])
  then show ?thesis by (simp add: IsConstraintError_def)
qed

lemma alike_duplicate [simp]: "alike (Some (pg_duplicate c)) (Some (unique_violation d))"
  by (simp add: alike_def) (simp add: pg_duplicate_def unique_violation_def)

lemma alike_conflict [simp]: "alike (fst a) (fst b) \<Longrightarrow> alike (fst (conflict_as m a)) (fst (conflict_as m b))"
  by (auto simp: conflict_as_def alike_def)

lemma pg_exec_fits:
  "list_all (pg_text E) ts \<Longrightarrow> list_all int4 ns \<Longrightarrow> pg_exec E op ts ns s r = db_write E op s r"
  by (simp add: pg_exec_def db_write_def pg_bind_def split: option.split)

lemma alike_db_write [simp]: "alike (fst a) (fst b) \<Longrightarrow> alike (fst (db_write E op s a)) (fst (db_write E op s b))"
  by (simp add: db_write_def split: option.split)

lemma pg_insert_alike:
  "snd (pg_insert c key r rs) = snd (insert_row d key r rs) \<and> alike (fst (pg_insert c key r rs)) (fst (insert_row d key r rs))"
  by (simp add: pg_insert_def insert_row_def)

definition same :: "error option \<times> store \<Rightarrow> error option \<times> store \<Rightarrow> bool" where
  "same a b \<longleftrightarrow> snd a = snd b \<and> alike (fst a) (fst b)"

lemma same_refl [simp]: "same a a"
  by (simp add: same_def)

lemma same_db_write: "same a b \<Longrightarrow> same (db_write E op s a) (db_write E op s b)"
  by (simp add: same_def snd_db_write)

lemma same_conflict: "same a b \<Longrightarrow> same (conflict_as m a) (conflict_as m b)"
  by (simp add: same_def)

lemma same_insert:
  "same (case pg_insert c key r rs of (e, rs) \<Rightarrow> (e, f rs)) (case insert_row d key r rs of (e, rs) \<Rightarrow> (e, f rs))"
  by (simp add: same_def pg_insert_def insert_row_def)

lemma same_if: "same a b \<Longrightarrow> same c d \<Longrightarrow> same (if P then a else c) (if P then b else d)"
  by simp

lemma same_errors: "alike e f \<Longrightarrow> same (e, s) (f, s)"
  by (simp add: same_def)

text \<open>The methods of \<open>Store\<close> in the terms of the statements.\<close>

lemma first_methods:
  "CreateSandbox E sb s =
     (let sb = (if TrimSpace (sr_WorkerID sb) = [] then sb\<lparr>sr_WorkerID := ''local''\<rparr> else sb)
      in db_write E (OpCreateSandbox (sr_ID sb)) s
           (let (e, rs) = insert_row ''sandboxes.id'' sr_ID sb (t_sandboxes s) in (e, s\<lparr>t_sandboxes := rs\<rparr>)))"
  "UpdateSandboxState E i st s = db_write E (OpUpdateSandboxState i) s
     (let (e, rs) = update_rows (NotFoundError ''sandbox'' i) (\<lambda>r. sr_ID r = i)
            (\<lambda>r. r\<lparr>sr_State := st, sr_UpdatedAt := db_now E\<rparr>) (t_sandboxes s)
      in (e, s\<lparr>t_sandboxes := rs\<rparr>))"
  "UpdateSandboxExpiresAt E i t s = db_write E (OpUpdateSandboxExpiresAt i) s
     (let (e, rs) = update_rows (NotFoundError ''sandbox'' i) (\<lambda>r. sr_ID r = i \<and> sr_State r \<noteq> ''destroyed'')
            (\<lambda>r. r\<lparr>sr_ExpiresAt := t, sr_UpdatedAt := db_now E\<rparr>) (t_sandboxes s)
      in (e, s\<lparr>t_sandboxes := rs\<rparr>))"
  "DeleteOwnerQuotaRecord E i s = db_write E (OpDeleteOwnerQuota i) s
     (let (e, rs) = delete_rows (NotFoundError ''owner_quota'' i) (\<lambda>r. q_OwnerID r = i) (t_quotas s) in (e, s\<lparr>t_quotas := rs\<rparr>))"
  "DeleteWorker E i s = db_write E (OpDeleteWorker i) s
     (let (e, rs) = delete_rows (NotFoundError ''worker'' i) (\<lambda>r. w_ID r = i) (t_workers s) in (e, s\<lparr>t_workers := rs\<rparr>))"
  "ReleaseLease E resource holder s = db_write E (OpReleaseLease resource) s
     (let (e, rs) = delete_rows (NotFoundError ''lease'' resource) (\<lambda>r. l_ResourceID r = resource \<and> l_HolderID r = holder) (t_leases s)
      in (e, s\<lparr>t_leases := rs\<rparr>))"
  by (simp_all add: CreateSandbox_def UpdateSandboxState_def UpdateSandboxExpiresAt_def DeleteOwnerQuotaRecord_def DeleteWorker_def
      ReleaseLease_def db_write_def insert_row_def update_rows_def delete_rows_def Let_def split: option.split)

lemmas fits_defs = fits_def postgresNullableTime_def

lemma same_sandboxes:
  "fits E (W_CreateSandbox r) s \<Longrightarrow> same (pg_CreateSandbox E r s) (CreateSandbox E r s)"
  "fits E (W_UpdateSandboxState i st) s \<Longrightarrow> same (pg_UpdateSandboxState E i st s) (UpdateSandboxState E i st s)"
  "fits E (W_UpdateSandboxExpiresAt i t) s \<Longrightarrow> same (pg_UpdateSandboxExpiresAt E i t s) (UpdateSandboxExpiresAt E i t s)"
  "fits E (W_DeleteSandbox i) s \<Longrightarrow> same (pg_DeleteSandbox E i s) (DeleteSandbox E i s)"
  by (auto simp: pg_CreateSandbox_def pg_UpdateSandboxState_def pg_UpdateSandboxExpiresAt_def pg_DeleteSandbox_def DeleteSandbox_def
      first_methods pg_exec_fits fits_defs pg_sandbox_def Let_def intro!: same_db_write same_insert)

lemma same_quotas_workers:
  "fits E (W_SaveOwnerQuota q) s \<Longrightarrow> same (pg_SaveOwnerQuota E q s) (SaveOwnerQuota E q s)"
  "fits E (W_DeleteOwnerQuota i) s \<Longrightarrow> same (pg_DeleteOwnerQuota E i s) (DeleteOwnerQuotaRecord E i s)"
  "fits E (W_SaveWorker w) s \<Longrightarrow> same (pg_SaveWorker E w s) (SaveWorker E w s)"
  "fits E (W_DeleteWorker i) s \<Longrightarrow> same (pg_DeleteWorker E i s) (DeleteWorker E i s)"
     apply (auto simp: pg_SaveOwnerQuota_def SaveOwnerQuota_def pg_exec_fits fits_defs db_write_def upsert_row_def Let_def
      split: option.split)[1]
    apply (simp add: pg_DeleteOwnerQuota_def first_methods pg_exec_fits fits_defs)
   apply (cases w; auto simp: pg_SaveWorker_def SaveWorker_def pg_exec_fits fits_defs db_write_def upsert_row_def Let_def
      split: option.split)
  apply (simp add: pg_DeleteWorker_def first_methods pg_exec_fits fits_defs)
  done

lemma same_audit:
  "fits E (W_CreateAdminAudit r) s \<Longrightarrow> same (pg_CreateAdminAudit E r s) (CreateAdminAudit E r s)"
  "fits E (W_DeleteAdminAuditBefore t) s \<Longrightarrow> pg_DeleteAdminAuditBefore E t s = DeleteAdminAuditBefore E t s"
  "fits E (W_CreateOperationAudit o1) s \<Longrightarrow> same (pg_CreateOperationAudit E o1 s) (CreateOperationAudit E o1 s)"
  "fits E (W_CreateExecLog l) s \<Longrightarrow> same (pg_CreateExecLog E l s) (CreateExecLog E l s)"
  by (auto simp: pg_CreateAdminAudit_def CreateAdminAudit_def pg_DeleteAdminAuditBefore_def DeleteAdminAuditBefore_def
      pg_CreateOperationAudit_def CreateOperationAudit_def pg_CreateExecLog_def CreateExecLog_def
      pg_exec_fits fits_defs db_write_def Let_def split: option.split)

lemma pg_GetLease_fits: "pg_text E i \<Longrightarrow> pg_GetLease E i s = GetLease E i s"
  by (simp add: pg_GetLease_def GetLease_def pg_query_def pg_bind_def find_row_def split: option.split)

lemma same_leases:
  "fits E (W_AcquireLease r ty h ttl) s \<Longrightarrow> pg_AcquireLease E r ty h ttl s = AcquireLease E r ty h ttl s"
  "fits E (W_RenewLease r h ttl) s \<Longrightarrow> pg_RenewLease E r h ttl s = RenewLease E r h ttl s"
  "fits E (W_ReleaseLease r h) s \<Longrightarrow> same (pg_ReleaseLease E r h s) (ReleaseLease E r h s)"
  by (simp_all add: pg_AcquireLease_def AcquireLease_def pg_RenewLease_def RenewLease_def pg_ReleaseLease_def first_methods
      pg_lease_upsert_def update_rows_def pg_GetLease_fits pg_exec_fits fits_defs db_write_def Let_def split: option.split)

lemma same_templates:
  "fits E (W_SaveProviderConfig c) s \<Longrightarrow> same (pg_SaveProviderConfig E c s) (SaveProviderConfig E c s)"
  "fits E (W_CreateTemplate t) s \<Longrightarrow> same (pg_CreateTemplate E t s) (CreateTemplate E t s)"
  "fits E (W_UpdateTemplate t) s \<Longrightarrow> same (pg_UpdateTemplate E t s) (UpdateTemplate E t s)"
  "fits E (W_DeleteTemplate n) s \<Longrightarrow> same (pg_DeleteTemplate E n s) (DeleteTemplate E n s)"
  by (auto simp: pg_SaveProviderConfig_def SaveProviderConfig_def pg_CreateTemplate_def CreateTemplate_def pg_UpdateTemplate_def
      UpdateTemplate_def pg_DeleteTemplate_def DeleteTemplate_def pg_exec_fits fits_defs
      intro!: same_conflict same_db_write same_insert)

lemma build_time:
  "list_all whole (case eb_FinishedAt b of None \<Rightarrow> [] | Some t \<Rightarrow> [t]) \<Longrightarrow> postgresNullableTime (eb_FinishedAt b) = eb_FinishedAt b"
  by (simp add: postgresNullableTime_def split: option.splits)

lemma same_environments:
  "fits E (W_CreateEnvironmentSpec r) s \<Longrightarrow> same (pg_CreateEnvironmentSpec E r s) (CreateEnvironmentSpec E r s)"
  "fits E (W_UpdateEnvironmentSpec r) s \<Longrightarrow> same (pg_UpdateEnvironmentSpec E r s) (UpdateEnvironmentSpec E r s)"
  "fits E (W_DeleteEnvironmentSpec i) s \<Longrightarrow> same (pg_DeleteEnvironmentSpec E i s) (DeleteEnvironmentSpec E i s)"
  "fits E (W_CreateEnvironmentBuild b) s \<Longrightarrow> same (pg_CreateEnvironmentBuild E b s) (CreateEnvironmentBuild E b s)"
  "fits E (W_UpdateEnvironmentBuild b) s \<Longrightarrow> same (pg_UpdateEnvironmentBuild E b s) (UpdateEnvironmentBuild E b s)"
  "fits E (W_SaveEnvironmentArtifact a) s \<Longrightarrow> same (pg_SaveEnvironmentArtifact E a s) (SaveEnvironmentArtifact E a s)"
proof -
  show "fits E (W_CreateEnvironmentSpec r) s \<Longrightarrow> same (pg_CreateEnvironmentSpec E r s) (CreateEnvironmentSpec E r s)"
    unfolding pg_CreateEnvironmentSpec_def CreateEnvironmentSpec_def
    by (rule same_conflict) (auto simp: pg_exec_fits fits_defs same_def snd_db_write pg_insert_def insert_row_def)
  show "fits E (W_UpdateEnvironmentSpec r) s \<Longrightarrow> same (pg_UpdateEnvironmentSpec E r s) (UpdateEnvironmentSpec E r s)"
    unfolding pg_UpdateEnvironmentSpec_def UpdateEnvironmentSpec_def
    by (auto simp: pg_exec_fits fits_defs intro!: same_db_write) (simp_all add: same_def)
  show "fits E (W_DeleteEnvironmentSpec i) s \<Longrightarrow> same (pg_DeleteEnvironmentSpec E i s) (DeleteEnvironmentSpec E i s)"
    unfolding pg_DeleteEnvironmentSpec_def DeleteEnvironmentSpec_def
    by (auto simp: pg_exec_fits fits_defs list_all_iff intro!: same_db_write)
  show "fits E (W_CreateEnvironmentBuild b) s \<Longrightarrow> same (pg_CreateEnvironmentBuild E b s) (CreateEnvironmentBuild E b s)"
    unfolding pg_CreateEnvironmentBuild_def CreateEnvironmentBuild_def
    using build_time [of b]
    by (auto simp: pg_exec_fits fits_def insert_row_def intro!: same_db_write same_errors)
  show "fits E (W_UpdateEnvironmentBuild b) s \<Longrightarrow> same (pg_UpdateEnvironmentBuild E b s) (UpdateEnvironmentBuild E b s)"
    unfolding pg_UpdateEnvironmentBuild_def UpdateEnvironmentBuild_def
    using build_time [of b] by (simp add: pg_exec_fits fits_def)
  show "fits E (W_SaveEnvironmentArtifact a) s \<Longrightarrow> same (pg_SaveEnvironmentArtifact E a s) (SaveEnvironmentArtifact E a s)"
    unfolding pg_SaveEnvironmentArtifact_def SaveEnvironmentArtifact_def
    by (auto simp: pg_exec_fits fits_defs)
qed

lemma same_registries:
  "fits E (W_SaveRegistryConnection c) s \<Longrightarrow> same (pg_SaveRegistryConnection E c s) (SaveRegistryConnection E c s)"
  "fits E (W_DeleteRegistryConnection i) s \<Longrightarrow> same (pg_DeleteRegistryConnection E i s) (DeleteRegistryConnection E i s)"
proof -
  show "fits E (W_SaveRegistryConnection c) s \<Longrightarrow> same (pg_SaveRegistryConnection E c s) (SaveRegistryConnection E c s)"
    unfolding pg_SaveRegistryConnection_def SaveRegistryConnection_def
    by (rule same_conflict) (simp add: pg_exec_fits fits_def same_db_write same_if same_errors)
qed (auto simp: pg_DeleteRegistryConnection_def DeleteRegistryConnection_def pg_exec_fits fits_defs)

lemma same_tenants:
  "fits E (W_CreateTenant t) s \<Longrightarrow> same (pg_CreateTenant E t s) (CreateTenant E t s)"
  "fits E (W_UpdateTenant t) s \<Longrightarrow> same (pg_UpdateTenant E t s) (UpdateTenant E t s)"
  "fits E (W_DeleteTenant i) s \<Longrightarrow> same (pg_DeleteTenant E i s) (DeleteTenant E i s)"
  unfolding pg_CreateTenant_def CreateTenant_def pg_UpdateTenant_def UpdateTenant_def pg_DeleteTenant_def DeleteTenant_def
  by (simp add: pg_exec_fits fits_defs Let_def same_db_write same_insert)
    (simp_all add: pg_exec_fits fits_defs)

lemma same_members_policies:
  "fits E (W_SaveTenantMember m) s \<Longrightarrow> same (pg_SaveTenantMember E m s) (SaveTenantMember E m s)"
  "fits E (W_DeleteTenantMember t u) s \<Longrightarrow> same (pg_DeleteTenantMember E t u s) (DeleteTenantMember E t u s)"
  "fits E (W_CreatePolicy p) s \<Longrightarrow> same (pg_CreatePolicy E p s) (CreatePolicy E p s)"
  "fits E (W_DeletePolicy i) s \<Longrightarrow> same (pg_DeletePolicy E i s) (DeletePolicy E i s)"
  unfolding pg_SaveTenantMember_def SaveTenantMember_def pg_DeleteTenantMember_def DeleteTenantMember_def pg_CreatePolicy_def
    CreatePolicy_def pg_DeletePolicy_def DeletePolicy_def
  by (simp_all add: pg_exec_fits fits_defs Let_def same_db_write same_insert)

lemma same_write: "fits E w s \<Longrightarrow> same (pg_write E w s) (sqlite_write E w s)"
  by (cases w)
    (simp_all add: same_sandboxes same_quotas_workers same_audit same_leases same_templates same_environments same_registries same_tenants same_members_policies)

section \<open>Runs\<close>

fun pg_run :: "(pgenv \<times> store_write) list \<Rightarrow> store \<Rightarrow> error option list \<times> store" where
  "pg_run [] s = ([], s)"
| "pg_run ((E, w) # ws) s = (let (e, s) = pg_write E w s; (es, s) = pg_run ws s in (e # es, s))"

fun sqlite_run :: "(pgenv \<times> store_write) list \<Rightarrow> store \<Rightarrow> error option list \<times> store" where
  "sqlite_run [] s = ([], s)"
| "sqlite_run ((E, w) # ws) s = (let (e, s) = sqlite_write E w s; (es, s) = sqlite_run ws s in (e # es, s))"

fun fits_run :: "(pgenv \<times> store_write) list \<Rightarrow> store \<Rightarrow> bool" where
  "fits_run [] s = True"
| "fits_run ((E, w) # ws) s = (fits E w s \<and> fits_run ws (snd (sqlite_write E w s)))"

text \<open>C8. The PostgreSQL store refines the SQLite store in use: the same writes leave the same tables and answer alike.\<close>

theorem postgres_like_sqlite:
  assumes "fits_run ws s"
  shows "snd (pg_run ws s) = snd (sqlite_run ws s) \<and> list_all2 alike (fst (pg_run ws s)) (fst (sqlite_run ws s))"
  using assms
proof (induction ws s rule: sqlite_run.induct)
  case (2 E w ws s)
  then show ?case
    using same_write [of E w s] by (auto simp: same_def Let_def split: prod.split)
qed simp

definition pg_sample :: pgenv where
  "pg_sample = \<lparr>db_now = 5000, db_fail = (\<lambda>op. None), pg_order = (\<lambda>n. rev [0..<n]), pg_le = bytes_le, pg_text = (\<lambda>t. CHR 0x00 \<notin> set t)\<rparr>"

definition pg_sample_box :: SandboxRecord where
  "pg_sample_box = \<lparr>sr_ID = ''sb-1'', sr_State = ''running'', sr_Provider = ''mock'', sr_Image = ''alpine'', sr_MemoryMB = 512,
     sr_VCPUs = 1, sr_Metadata = [], sr_OwnerID = ''ann'', sr_TenantID = [], sr_VMID = [], sr_WorkerID = [], sr_CreatedAt = 1000,
     sr_ExpiresAt = 9000, sr_UpdatedAt = 1000\<rparr>"

definition pg_sample_writes :: "(pgenv \<times> store_write) list" where
  "pg_sample_writes = [(pg_sample, W_CreateSandbox pg_sample_box), (pg_sample, W_CreateSandbox pg_sample_box),
     (pg_sample, W_AcquireLease ''sb-1'' ''sandbox'' ''w1'' 2000), (pg_sample, W_DeleteSandbox ''sb-2'')]"

lemma pg_sample_fits: "fits_run pg_sample_writes empty_store"
  by code_simp

theorem postgres_like_sqlite_witness:
  "snd (pg_run pg_sample_writes empty_store) = snd (sqlite_run pg_sample_writes empty_store)"
  using postgres_like_sqlite [OF pg_sample_fits] by simp

section \<open>Lists\<close>

text \<open>A scan meets every row once; an order that tells the rows apart makes the lists the same.\<close>

lemma mset_scan: "mset (pg_order E (length rs)) = mset [0..<length rs] \<Longrightarrow> mset (scan E rs) = mset rs"
  unfolding scan_def by (metis map_nth mset_map)

lemma sort_scan:
  assumes "mset (pg_order E (length rs)) = mset [0..<length rs]" and "inj_on f (set rs)"
  shows "sort_key f (filter P (scan E rs)) = sort_key f (filter P rs)"
proof (rule sort_key_inj_key_eq)
  have m: "mset (scan E rs) = mset rs"
    using assms(1) by (rule mset_scan)
  then show "mset (filter P (scan E rs)) = mset (sort_key f (filter P rs))"
    by simp
  have "set (scan E rs) = set rs"
    using m by (rule mset_eq_setD)
  then show "inj_on f (set (filter P (scan E rs)))"
    using assms(2) by (auto intro: inj_on_subset)
qed simp

lemma pg_lists_same:
  assumes "\<And>n. mset (pg_order E n) = mset [0..<n]" and "pg_text E owner"
    and "inj_on (\<lambda>r. - sr_CreatedAt r) (set (t_sandboxes s))"
  shows "pg_ListSandboxes E s = ListSandboxes E s" and "pg_ListSandboxesByOwner E owner s = ListSandboxesByOwner E owner s"
  using assms by (simp_all add: pg_ListSandboxes_def ListSandboxes_def pg_ListSandboxesByOwner_def ListSandboxesByOwner_def
      pg_query_def pg_bind_def sort_scan split: option.split)

text \<open>The expired sandboxes come in the order of the scan.\<close>

lemma pg_expired_same:
  assumes "\<And>n. mset (pg_order E n) = mset [0..<n]" and "whole before" and "ListExpiredSandboxes E before s = Inr rs"
  shows "\<exists>rs'. pg_ListExpiredSandboxes E before s = Inr rs' \<and> mset rs' = mset rs"
  using assms mset_scan [of E "t_sandboxes s"]
  by (auto simp: pg_ListExpiredSandboxes_def ListExpiredSandboxes_def pg_query_def pg_bind_def split: option.splits)

end
