(* ===== verification/Go_URL.thy ===== *)
theory Go_URL
  imports Go_Path
begin

text \<open>
  What the code uses of \<open>net/url\<close>: escaping of path segments and of query values, and how the other
  side reads them back (\<open>PathUnescape\<close>, \<open>ParseQuery\<close>).
\<close>

section \<open>Escaping\<close>

definition unreserved :: "char \<Rightarrow> bool" where
  "unreserved c \<longleftrightarrow>
     (let n = of_char c :: nat in 97 \<le> n \<and> n < 123 \<or> 65 \<le> n \<and> n < 91 \<or> 48 \<le> n \<and> n < 58 \<or> c \<in> set ''-_.~'')"

definition hex_upper :: "nat \<Rightarrow> char" where
  "hex_upper n = (if n < 10 then char_of (48 + n) else char_of (55 + n))"

definition percent :: "char \<Rightarrow> string" where
  "percent c = [CHR ''%'', hex_upper (of_char c div 16), hex_upper (of_char c mod 16)]"

definition QueryEscape :: "string \<Rightarrow> string" where
  "QueryEscape s = concat (map (\<lambda>c. if unreserved c then [c] else if c = CHR '' '' then ''+'' else percent c) s)"

definition PathEscape :: "string \<Rightarrow> string" where
  "PathEscape s = concat (map (\<lambda>c. if unreserved c \<or> c \<in> set ''$&+=:@'' then [c] else percent c) s)"

text \<open>\<open>url.Values.Encode\<close>, for the keys in order.\<close>

definition encode_query :: "(string \<times> string) list \<Rightarrow> string" where
  "encode_query ps = join_with CHR ''&'' (map (\<lambda>(k, v). QueryEscape k @ ''='' @ QueryEscape v) ps)"

section \<open>Reading\<close>

definition unhex :: "char \<Rightarrow> nat option" where
  "unhex c =
     (let n = of_char c in
      if 48 \<le> n \<and> n < 58 then Some (n - 48)
      else if 65 \<le> n \<and> n < 71 then Some (n - 55)
      else if 97 \<le> n \<and> n < 103 then Some (n - 87) else None)"

fun unescape :: "bool \<Rightarrow> string \<Rightarrow> string option" where
  "unescape sp [] = Some []"
| "unescape sp (c # s) =
     (if c = CHR ''%'' then
        (case s of
           a # b # s' \<Rightarrow>
             (case (unhex a, unhex b) of
                (Some m, Some n) \<Rightarrow> map_option ((#) (char_of (16 * m + n))) (unescape sp s')
              | _ \<Rightarrow> None)
         | _ \<Rightarrow> None)
      else map_option ((#) (if sp \<and> c = CHR ''+'' then CHR '' '' else c)) (unescape sp s))"

definition parse_pair :: "string \<Rightarrow> (string \<times> string) option" where
  "parse_pair s =
     (let k = takeWhile (\<lambda>c. c \<noteq> CHR ''='') s; v = drop (Suc (length k)) s in
      case (unescape True k, unescape True v) of (Some k, Some v) \<Rightarrow> Some (k, v) | _ \<Rightarrow> None)"

fun all_some :: "'a option list \<Rightarrow> 'a list option" where
  "all_some [] = Some []"
| "all_some (x # xs) = (case x of None \<Rightarrow> None | Some a \<Rightarrow> map_option ((#) a) (all_some xs))"

definition parse_query :: "string \<Rightarrow> (string \<times> string) list option" where
  "parse_query s = all_some (map parse_pair (filter (\<lambda>p. p \<noteq> []) (split_on CHR ''&'' s)))"

text \<open>The path of a request, by segments, and its query.\<close>

definition read_url :: "string \<Rightarrow> (string list \<times> (string \<times> string) list) option" where
  "read_url u =
     (let path = takeWhile (\<lambda>c. c \<noteq> CHR ''?'') u; query = drop (Suc (length path)) u in
      case (all_some (map (unescape False) (split_on CHR ''/'' path)), parse_query query) of
        (Some segs, Some ps) \<Rightarrow> Some (segs, ps) | _ \<Rightarrow> None)"

section \<open>Round trips\<close>

lemma all_some_map: "(\<And>x. x \<in> set xs \<Longrightarrow> f x = Some (g x)) \<Longrightarrow> all_some (map f xs) = Some (map g xs)"
  by (induction xs) auto

lemma unhex_hex_upper: "n < 16 \<Longrightarrow> unhex (hex_upper n) = Some n"
  by (auto simp: unhex_def hex_upper_def Let_def of_char_of)

lemma of_char_less: "(of_char c :: nat) < 256"
  by (metis nat_of_char_less_256)

lemma unescape_percent: "unescape sp (percent c @ s) = map_option ((#) c) (unescape sp s)"
proof -
  have "(of_char c :: nat) div 16 < 16" "(of_char c :: nat) mod 16 < 16"
    using of_char_less [of c] by (simp_all add: less_mult_imp_div_less)
  then show ?thesis by (simp add: percent_def unhex_hex_upper)
qed

lemma unreserved_plain: "unreserved c \<Longrightarrow> c \<notin> set ''%+/?&= #;''"
  by (auto simp: unreserved_def)

lemma unescape_query [simp]: "unescape True (QueryEscape s @ t) = map_option ((@) s) (unescape True t)"
proof (induction s)
  case (Cons c s)
  then show ?case
    using unreserved_plain [of c]
    by (auto simp: QueryEscape_def unescape_percent option.map_comp o_def)
qed (simp add: QueryEscape_def option.map_ident)

lemma unescape_path [simp]: "unescape False (PathEscape s @ t) = map_option ((@) s) (unescape False t)"
proof (induction s)
  case (Cons c s)
  then show ?case
    using unreserved_plain [of c]
    by (auto simp: PathEscape_def unescape_percent option.map_comp o_def)
qed (simp add: PathEscape_def option.map_ident)

section \<open>Requests read back\<close>

lemma hex_upper_digit: "n < 16 \<Longrightarrow> hex_upper n \<in> set ''0123456789ABCDEF''"
proof -
  have "\<forall>n\<in>set [0..<16]. hex_upper n \<in> set ''0123456789ABCDEF''" by code_simp
  then show "n < 16 \<Longrightarrow> hex_upper n \<in> set ''0123456789ABCDEF''" by simp
qed

lemma percent_chars: "x \<in> set (percent c) \<Longrightarrow> x \<in> set ''%0123456789ABCDEF''"
proof -
  have "(of_char c :: nat) div 16 < 16" "(of_char c :: nat) mod 16 < 16"
    using of_char_less [of c] by (simp_all add: less_mult_imp_div_less)
  from this [THEN hex_upper_digit] show "x \<in> set (percent c) \<Longrightarrow> x \<in> set ''%0123456789ABCDEF''"
    unfolding percent_def by auto
qed

lemma QueryEscape_no:
  assumes "c \<in> set ''?&=/#;''"
  shows "c \<notin> set (QueryEscape s)"
proof
  assume "c \<in> set (QueryEscape s)"
  then obtain x where "c \<in> set (if unreserved x then [x] else if x = CHR '' '' then ''+'' else percent x)"
    unfolding QueryEscape_def set_concat set_map by blast
  then have "unreserved c \<or> c = CHR ''+'' \<or> c \<in> set ''%0123456789ABCDEF''"
    by (auto dest: percent_chars split: if_splits)
  with assms show False by (auto simp: unreserved_def)
qed

lemma PathEscape_no:
  assumes "c \<in> set ''/?#''"
  shows "c \<notin> set (PathEscape s)"
proof
  assume "c \<in> set (PathEscape s)"
  then obtain x where "c \<in> set (if unreserved x \<or> x \<in> set ''$&+=:@'' then [x] else percent x)"
    unfolding PathEscape_def set_concat set_map by blast
  then have "unreserved c \<or> c \<in> set ''$&+=:@'' \<or> c \<in> set ''%0123456789ABCDEF''"
    by (auto dest: percent_chars split: if_splits)
  with assms show False by (auto simp: unreserved_def)
qed

lemma split_joined: "xs \<noteq> [] \<Longrightarrow> \<forall>x\<in>set xs. c \<notin> set x \<Longrightarrow> split_on c (join_with c xs) = xs"
  by (induction c xs rule: join_with.induct) (simp_all add: split_on_id split_on_append)

lemma takeWhile_to: "c \<notin> set xs \<Longrightarrow> takeWhile (\<lambda>x. x \<noteq> c) (xs @ c # ys) = xs"
  by (induction xs) auto

lemma takeWhile_all: "c \<notin> set xs \<Longrightarrow> takeWhile (\<lambda>x. x \<noteq> c) xs = xs"
  by (induction xs) auto

lemma parse_pair_escaped: "parse_pair (QueryEscape k @ ''='' @ QueryEscape v) = Some (k, v)"
proof -
  have "takeWhile (\<lambda>c. c \<noteq> CHR ''='') (QueryEscape k @ CHR ''='' # QueryEscape v) = QueryEscape k"
    by (rule takeWhile_to) (simp add: QueryEscape_no)
  then show ?thesis
    using unescape_query [of k "[]"] unescape_query [of v "[]"] by (simp add: parse_pair_def)
qed

lemma parse_encoded: "parse_query (encode_query ps) = Some ps"
proof (cases "ps = []")
  case True
  then show ?thesis by (simp add: parse_query_def encode_query_def)
next
  case False
  let ?enc = "\<lambda>(k, v). QueryEscape k @ ''='' @ QueryEscape v"
  have "split_on CHR ''&'' (encode_query ps) = map ?enc ps"
    using False QueryEscape_no [of "CHR ''&''"] unfolding encode_query_def by (intro split_joined) auto
  moreover have "filter (\<lambda>p. p \<noteq> []) (map ?enc ps) = map ?enc ps" by (simp add: filter_id_conv split_beta)
  moreover have "all_some (map parse_pair (map ?enc ps)) = Some (map (\<lambda>p. p) ps)"
    unfolding map_map by (rule all_some_map) (use parse_pair_escaped in auto)
  ultimately show ?thesis by (simp add: parse_query_def)
qed

definition escaped_path :: "string list \<Rightarrow> string" where
  "escaped_path segs = join_with slash (map PathEscape segs)"

lemma escaped_path_segments:
  assumes "segs \<noteq> []"
  shows "all_some (map (unescape False) (split_on slash (escaped_path segs))) = Some segs"
proof -
  have "split_on slash (escaped_path segs) = map PathEscape segs"
    using assms PathEscape_no [of slash] unfolding escaped_path_def by (intro split_joined) auto
  moreover have "all_some (map (unescape False) (map PathEscape segs)) = Some (map (\<lambda>s. s) segs)"
    unfolding map_map by (rule all_some_map) (use unescape_path [where t = "[]"] in auto)
  ultimately show ?thesis by simp
qed

lemma escaped_path_no_query: "CHR ''?'' \<notin> set (escaped_path segs)"
proof -
  have "set (join_with d xs) \<subseteq> insert d (\<Union> (set (map set xs)))" for d and xs :: "string list"
    by (induction d xs rule: join_with.induct) auto
  from this [of slash "map PathEscape segs"] show ?thesis
    using PathEscape_no [of "CHR ''?''"] by (auto simp: escaped_path_def)
qed

text \<open>A URL of escaped segments and an encoded query means what it was built from.\<close>

lemma read_url_query: "segs \<noteq> [] \<Longrightarrow> read_url (escaped_path segs @ ''?'' @ encode_query ps) = Some (segs, ps)"
  by (simp add: read_url_def takeWhile_to escaped_path_no_query escaped_path_segments parse_encoded)

lemma read_url_path: "segs \<noteq> [] \<Longrightarrow> read_url (escaped_path segs) = Some (segs, [])"
  using parse_encoded [of "[]"]
  by (simp add: read_url_def takeWhile_all escaped_path_no_query escaped_path_segments encode_query_def)

end
