(* ===== verification/Provider_Remote.thy ===== *)
theory Provider_Remote
  imports Provider_Contract Go_URL
begin

text \<open>
  The providers that are clients of an HTTP service: \<open>internal/providers/custom.go\<close> and
  \<open>internal/providers/e2b.go\<close>.  A request is logged and answered by the environment, as a function of
  the requests so far: an error, or the status and the body.  A body is the JSON object that is sent;
  how the JSON of a reply is read is a parameter.  An empty map of metadata or of variables is a
  nil one.
\<close>

section \<open>Requests\<close>

datatype jval = JStr string | JInt int | JBool bool | JList "string list" | JMap metadata

record http_request =
  hq_Method :: string
  hq_URL :: string
  hq_Headers :: "(string \<times> string) list"
  hq_Body :: "(string \<times> jval) list option"

record httpenv =
  hp_bad_url :: "string \<Rightarrow> string \<Rightarrow> error option"
  hp_do :: "http_request list \<Rightarrow> http_request \<Rightarrow> error + nat \<times> string"
  hp_notice :: "http_request list \<Rightarrow> bool"
  js_id :: "string \<Rightarrow> string \<Rightarrow> error + string"
  js_exec :: "string \<Rightarrow> error + int \<times> string \<times> string"
  js_files :: "string \<Rightarrow> error + FileInfo list"
  js_info :: "string \<Rightarrow> error + FileInfo"
  js_names :: "string \<Rightarrow> error + string list"
  js_status :: "string \<Rightarrow> error + string \<times> string"
  js_chunk :: "string \<Rightarrow> (string \<times> string) option"
  js_e2b_exec :: "string \<Rightarrow> int \<times> string \<times> string"
  js_e2b_files :: "string \<Rightarrow> (string \<times> int \<times> bool) list"

record CustomProviderConfig =
  cu_ProviderName :: string
  cu_BaseURL :: string
  cu_APIKey :: string
  cu_Timeout :: duration

text \<open>A client; \<open>hc_calls\<close> are the requests it has sent.\<close>

record http_client =
  hc_calls :: "http_request list"
  hc_baseURL :: string
  hc_apiKey :: string

record CustomProvider = http_client +
  hc_name :: string
  hc_timeout :: duration

definition NewCustomProvider :: "CustomProviderConfig \<Rightarrow> CustomProvider" where
  "NewCustomProvider cfg =
     \<lparr>hc_calls = [], hc_baseURL = cu_BaseURL cfg, hc_apiKey = cu_APIKey cfg,
      hc_name = (if cu_ProviderName cfg = [] then ''custom'' else cu_ProviderName cfg), hc_timeout = (if cu_Timeout cfg \<le> 0 then 60 * Second else cu_Timeout cfg)\<rparr>"

definition ProviderUnavailableError :: "string \<Rightarrow> error \<Rightarrow> error" where
  "ProviderUnavailableError name e = Err ErrProviderUnavailable (''provider unavailable: '' @ name @ '': '' @ err_msg e)"

definition http_error :: "string \<Rightarrow> nat \<Rightarrow> string \<Rightarrow> error" where
  "http_error operation code data = Err ErrOther (operation @ '' failed (HTTP '' @ Itoa (int code) @ ''): '' @ data)"

definition customHTTPError :: "string \<Rightarrow> nat \<Rightarrow> string \<Rightarrow> string \<Rightarrow> error" where
  "customHTTPError operation code data sid =
     (if code = 404 then SandboxNotFoundError sid
      else if code = 410 then SandboxDestroyedError sid
      else if code = 408 then ExecTimeoutError sid
      else if code = 429 then ResourceLimitError operation
      else if code = 503 then ProviderUnavailableError ''custom'' (Err ErrOther data)
      else http_error operation code data)"

text \<open>One request: nothing is sent when the URL does not parse.\<close>

definition send_request ::
  "httpenv \<Rightarrow> http_request \<Rightarrow> 'c http_client_scheme \<Rightarrow> (error + nat \<times> string) \<times> 'c http_client_scheme" where
  "send_request E q p = (hp_do E (hc_calls p) q, p\<lparr>hc_calls := hc_calls p @ [q]\<rparr>)"

definition doRequest ::
  "httpenv \<Rightarrow> string \<Rightarrow> string \<Rightarrow> (string \<times> jval) list option \<Rightarrow> CustomProvider \<Rightarrow> (error + nat \<times> string) \<times> CustomProvider" where
  "doRequest E meth path body p =
     (case hp_bad_url E meth (hc_baseURL p @ path) of
        Some e \<Rightarrow> (Inl (wrap_err ''building request'' e), p)
      | None \<Rightarrow>
          send_request E \<lparr>hq_Method = meth, hq_URL = hc_baseURL p @ path,
            hq_Headers = (''Content-Type'', ''application/json'') # (if hc_apiKey p = [] then [] else [(''X-API-Key'', hc_apiKey p)]),
            hq_Body = body\<rparr> p)"

definition doStreamRequest ::
  "httpenv \<Rightarrow> string \<Rightarrow> string \<Rightarrow> (string \<times> jval) list option \<Rightarrow> CustomProvider \<Rightarrow> (error + nat \<times> string) \<times> CustomProvider" where
  "doStreamRequest E meth path body p =
     (case hp_bad_url E meth (hc_baseURL p @ path) of
        Some e \<Rightarrow> (Inl (wrap_err ''building request'' e), p)
      | None \<Rightarrow>
          send_request E \<lparr>hq_Method = meth, hq_URL = hc_baseURL p @ path,
            hq_Headers = [(''Content-Type'', ''application/json''), (''Accept'', ''application/x-ndjson'')] @
              (if hc_apiKey p = [] then [] else [(''X-API-Key'', hc_apiKey p)]),
            hq_Body = body\<rparr> p)"

text \<open>What every operation makes of the answer: transport errors, statuses from 400 on, else the body.\<close>

definition custom_answer ::
  "string \<Rightarrow> string \<Rightarrow> (string \<Rightarrow> error + 'a) \<Rightarrow> (error + nat \<times> string) \<times> CustomProvider \<Rightarrow> (error + 'a) \<times> CustomProvider" where
  "custom_answer operation sid dec r =
     (case r of
        (Inl e, p) \<Rightarrow> (Inl (wrap_err operation e), p)
      | (Inr (code, data), p) \<Rightarrow> (if code \<ge> 400 then Inl (customHTTPError operation code data sid) else dec data, p))"

definition decoded :: "string \<Rightarrow> (string \<Rightarrow> error + 'a) \<Rightarrow> string \<Rightarrow> error + 'a" where
  "decoded operation js data =
     (case js data of Inl e \<Rightarrow> Inl (wrap_err (operation @ '': invalid response'') e) | Inr x \<Rightarrow> Inr x)"

definition unit_error :: "(error + unit) \<times> 's \<Rightarrow> error option \<times> 's" where
  "unit_error r = (case fst r of Inl e \<Rightarrow> Some e | Inr u \<Rightarrow> None, snd r)"

section \<open>The custom provider\<close>

definition spawn_body :: "SpawnOptions \<Rightarrow> (string \<times> jval) list" where
  "spawn_body o1 =
     [(''image'', JStr (so_Image o1))] @
     (if so_MemoryMB o1 > 0 then [(''memory_mb'', JInt (so_MemoryMB o1))] else []) @
     (if so_VCPUs o1 > 0 then [(''vcpus'', JInt (so_VCPUs o1))] else []) @
     (if so_DiskSizeMB o1 > 0 then [(''disk_size_mb'', JInt (so_DiskSizeMB o1))] else []) @
     (if so_Metadata o1 \<noteq> [] then [(''metadata'', JMap (so_Metadata o1))] else [])"

definition custom_Spawn :: "httpenv \<Rightarrow> SpawnOptions \<Rightarrow> CustomProvider \<Rightarrow> (error + string) \<times> CustomProvider" where
  "custom_Spawn E opts p =
     custom_answer ''custom spawn'' []
       (\<lambda>data. case decoded ''custom spawn'' (js_id E ''id'') data of
           Inl e \<Rightarrow> Inl e
         | Inr i \<Rightarrow> if i = [] then Inl (Err ErrOther ''custom spawn: no sandbox ID in response'') else Inr i)
       (doRequest E ''POST'' ''/spawn'' (Some (spawn_body opts)) p)"

definition exec_body :: "string \<Rightarrow> bool \<Rightarrow> ExecOptions \<Rightarrow> (string \<times> jval) list" where
  "exec_body sid stream o1 =
     [(''sandbox_id'', JStr sid), (''command'', JStr (xo_Command o1))] @
     (if stream then [(''stream'', JBool True)] else []) @
     (if xo_Args o1 \<noteq> [] then [(''args'', JList (xo_Args o1))] else []) @
     (if xo_Mode o1 \<noteq> [] then [(''mode'', JStr (xo_Mode o1))] else []) @
     (if xo_Env o1 \<noteq> [] then [(''env'', JMap (xo_Env o1))] else []) @
     (if xo_WorkDir o1 \<noteq> [] then [(''workdir'', JStr (xo_WorkDir o1))] else [])"

definition custom_Exec ::
  "httpenv \<Rightarrow> string \<Rightarrow> ExecOptions \<Rightarrow> CustomProvider \<Rightarrow> (error + int \<times> string \<times> string) \<times> CustomProvider" where
  "custom_Exec E sid opts p =
     custom_answer ''custom exec'' sid (decoded ''custom exec'' (js_exec E)) (doRequest E ''POST'' ''/exec'' (Some (exec_body sid False opts)) p)"

text \<open>
  The lines of \<open>bufio.Scanner\<close>: without their end of line, a last empty one left out; a line that does
  not fit into its 64 KiB ends the stream.
\<close>

fun scan_lines :: "string list \<Rightarrow> string list" where
  "scan_lines [] = []"
| "scan_lines [l] = (if l = [] \<or> length l \<ge> 65536 then [] else [l])"
| "scan_lines (l # ls) = (if length l \<ge> 65536 then [] else l # scan_lines ls)"

definition drop_cr :: "string \<Rightarrow> string" where
  "drop_cr l = (if l \<noteq> [] \<and> last l = CHR 0x0D then butlast l else l)"

definition stream_lines :: "httpenv \<Rightarrow> string \<Rightarrow> (string \<times> string) list" where
  "stream_lines E body = List.map_filter (\<lambda>l. if drop_cr l = [] then None else js_chunk E (drop_cr l)) (scan_lines (split_on CHR 0x0A body))"

definition custom_ExecStream ::
  "httpenv \<Rightarrow> string \<Rightarrow> ExecOptions \<Rightarrow> CustomProvider \<Rightarrow> (error + (string \<times> string) list) \<times> CustomProvider" where
  "custom_ExecStream E sid opts p =
     (case doStreamRequest E ''POST'' ''/exec'' (Some (exec_body sid True opts)) p of
        (Inl e, p) \<Rightarrow> (Inl (wrap_err ''custom exec stream'' e), p)
      | (Inr (code, data), p) \<Rightarrow>
          (if code \<ge> 400 then Inl (customHTTPError ''custom exec stream'' code data sid)
           else Inr (stream_lines E data @ (if hp_notice E (hc_calls p) then [(''stderr'', err_msg (ExecTimeoutError sid))] else [])), p))"

definition custom_unit ::
  "httpenv \<Rightarrow> string \<Rightarrow> string \<Rightarrow> string \<Rightarrow> string \<Rightarrow> (string \<times> jval) list \<Rightarrow> CustomProvider \<Rightarrow> error option \<times> CustomProvider" where
  "custom_unit E operation sid meth path body p =
     unit_error (custom_answer operation sid (\<lambda>_. Inr ()) (doRequest E meth path (Some body) p))"

definition custom_WriteFile ::
  "httpenv \<Rightarrow> string \<Rightarrow> string \<Rightarrow> error + string \<Rightarrow> string \<Rightarrow> CustomProvider \<Rightarrow> error option \<times> CustomProvider" where
  "custom_WriteFile E sid path content mode p =
     (case content of
        Inl e \<Rightarrow> (Some (wrap_err ''reading content'' e), p)
      | Inr data \<Rightarrow>
          custom_unit E ''custom write'' sid ''POST'' ''/files''
            ([(''sandbox_id'', JStr sid), (''path'', JStr path), (''content'', JStr data)] @
             (if mode \<noteq> [] then [(''mode'', JStr mode)] else [])) p)"

definition custom_query ::
  "httpenv \<Rightarrow> string \<Rightarrow> string \<Rightarrow> string \<Rightarrow> (string \<times> string) list \<Rightarrow> (string \<Rightarrow> error + 'a) \<Rightarrow> CustomProvider \<Rightarrow> (error + 'a) \<times> CustomProvider" where
  "custom_query E operation sid path params dec p =
     custom_answer operation sid dec (doRequest E ''GET'' (path @ ''?'' @ encode_query params) None p)"

definition custom_ReadFile :: "httpenv \<Rightarrow> string \<Rightarrow> string \<Rightarrow> CustomProvider \<Rightarrow> (error + string) \<times> CustomProvider" where
  "custom_ReadFile E sid path = custom_query E ''custom read'' sid ''/files'' [(''path'', path), (''sandbox_id'', sid)] Inr"

definition custom_ListFiles :: "httpenv \<Rightarrow> string \<Rightarrow> string \<Rightarrow> CustomProvider \<Rightarrow> (error + FileInfo list) \<times> CustomProvider" where
  "custom_ListFiles E sid path = custom_query E ''custom list'' sid ''/files/list'' [(''path'', path), (''sandbox_id'', sid)]
     (decoded ''custom list'' (js_files E))"

definition custom_DeleteFile :: "httpenv \<Rightarrow> string \<Rightarrow> string \<Rightarrow> bool \<Rightarrow> CustomProvider \<Rightarrow> error option \<times> CustomProvider" where
  "custom_DeleteFile E sid path recursive = custom_unit E ''custom delete'' sid ''DELETE'' ''/files''
     [(''sandbox_id'', JStr sid), (''path'', JStr path), (''recursive'', JBool recursive)]"

definition custom_MoveFile :: "httpenv \<Rightarrow> string \<Rightarrow> string \<Rightarrow> string \<Rightarrow> CustomProvider \<Rightarrow> error option \<times> CustomProvider" where
  "custom_MoveFile E sid old new = custom_unit E ''custom move'' sid ''POST'' ''/files/move''
     [(''sandbox_id'', JStr sid), (''old_path'', JStr old), (''new_path'', JStr new)]"

definition custom_ChmodFile :: "httpenv \<Rightarrow> string \<Rightarrow> string \<Rightarrow> string \<Rightarrow> CustomProvider \<Rightarrow> error option \<times> CustomProvider" where
  "custom_ChmodFile E sid path mode = custom_unit E ''custom chmod'' sid ''POST'' ''/files/chmod''
     [(''sandbox_id'', JStr sid), (''path'', JStr path), (''mode'', JStr mode)]"

definition custom_StatFile :: "httpenv \<Rightarrow> string \<Rightarrow> string \<Rightarrow> CustomProvider \<Rightarrow> (error + FileInfo) \<times> CustomProvider" where
  "custom_StatFile E sid path = custom_query E ''custom stat'' sid ''/files/stat'' [(''path'', path), (''sandbox_id'', sid)]
     (decoded ''custom stat'' (js_info E))"

definition custom_GlobFiles :: "httpenv \<Rightarrow> string \<Rightarrow> string \<Rightarrow> CustomProvider \<Rightarrow> (error + string list) \<times> CustomProvider" where
  "custom_GlobFiles E sid pattern = custom_query E ''custom glob'' sid ''/files/glob'' [(''pattern'', pattern), (''sandbox_id'', sid)]
     (decoded ''custom glob'' (js_names E))"

definition custom_Status :: "httpenv \<Rightarrow> string \<Rightarrow> CustomProvider \<Rightarrow> (error + SandboxStatus) \<times> CustomProvider" where
  "custom_Status E sid p =
     custom_answer ''custom status'' sid
       (\<lambda>data. case decoded ''custom status'' (js_status E) data of
           Inl e \<Rightarrow> Inl e
         | Inr (i, st) \<Rightarrow> Inr \<lparr>st_ID = (if i = [] then sid else i), st_State = (if st = [] then ''running'' else st)\<rparr>)
       (doRequest E ''GET'' (''/status/'' @ PathEscape sid) None p)"

definition custom_Destroy :: "httpenv \<Rightarrow> string \<Rightarrow> CustomProvider \<Rightarrow> error option \<times> CustomProvider" where
  "custom_Destroy E sid p =
     (case doRequest E ''DELETE'' (''/sandboxes/'' @ PathEscape sid) None p of
        (Inl e, p) \<Rightarrow> (Some (wrap_err ''custom destroy'' e), p)
      | (Inr (code, data), p) \<Rightarrow>
          (if code \<ge> 400 \<and> code \<noteq> 404 then Some (customHTTPError ''custom destroy'' code data sid) else None, p))"

definition custom_ConsoleLog :: "string \<Rightarrow> int \<Rightarrow> CustomProvider \<Rightarrow> (error + string list) \<times> CustomProvider" where
  "custom_ConsoleLog sid n p = (Inr [''[INFO] console logs not available for custom provider''], p)"

definition custom_Healthy :: "httpenv \<Rightarrow> CustomProvider \<Rightarrow> bool \<times> CustomProvider" where
  "custom_Healthy E p =
     (case doRequest E ''GET'' ''/health'' None p of (Inl e, p) \<Rightarrow> (False, p) | (Inr (code, data), p) \<Rightarrow> (code < 400, p))"


section \<open>The E2B provider\<close>

text \<open>
  Replies are read without looking at the error of \<open>json.Unmarshal\<close>: \<open>js_e2b_exec\<close> and \<open>js_e2b_files\<close> are what
  it leaves behind.
\<close>

type_synonym E2BProvider = http_client

definition NewE2BProvider :: "string \<Rightarrow> string \<Rightarrow> E2BProvider" where
  "NewE2BProvider apiKey baseURL =
     \<lparr>hc_calls = [], hc_baseURL = (if baseURL = [] then ''https://api.e2b.dev'' else baseURL), hc_apiKey = apiKey\<rparr>"

definition e2b_doRequest ::
  "httpenv \<Rightarrow> string \<Rightarrow> string \<Rightarrow> (string \<times> jval) list option \<Rightarrow> E2BProvider \<Rightarrow> (error + nat \<times> string) \<times> E2BProvider" where
  "e2b_doRequest E meth path body p =
     (case hp_bad_url E meth (hc_baseURL p @ path) of
        Some e \<Rightarrow> (Inl e, p)
      | None \<Rightarrow>
          send_request E \<lparr>hq_Method = meth, hq_URL = hc_baseURL p @ path,
            hq_Headers = [(''Content-Type'', ''application/json''), (''X-API-Key'', hc_apiKey p)], hq_Body = body\<rparr> p)"

definition e2b_failed :: "string \<Rightarrow> nat \<Rightarrow> error" where
  "e2b_failed operation code = Err ErrOther (operation @ '' failed (HTTP '' @ Itoa (int code) @ '')'')"

definition e2b_Spawn :: "httpenv \<Rightarrow> SpawnOptions \<Rightarrow> E2BProvider \<Rightarrow> (error + string) \<times> E2BProvider" where
  "e2b_Spawn E opts p =
     (case e2b_doRequest E ''POST'' ''/sandboxes''
         (Some ((''template'', JStr (so_Image opts)) # (if so_Metadata opts \<noteq> [] then [(''metadata'', JMap (so_Metadata opts))] else []))) p of
        (Inl e, p) \<Rightarrow> (Inl (wrap_err ''e2b spawn'' e), p)
      | (Inr (code, data), p) \<Rightarrow>
          (if code \<ge> 400 then Inl (http_error ''e2b spawn'' code data)
           else case js_id E ''sandboxID'' data of
             Inl e \<Rightarrow> Inl (Err ErrOther ''e2b: no sandbox ID in response'')
           | Inr i \<Rightarrow> if i = [] then Inl (Err ErrOther ''e2b: no sandbox ID in response'') else Inr i, p))"

definition e2b_command :: "ExecOptions \<Rightarrow> string" where
  "e2b_command o1 = xo_Command o1 @ concat (map (\<lambda>a. '' '' @ shellQuoteArg a) (xo_Args o1))"

definition e2b_Exec :: "httpenv \<Rightarrow> string \<Rightarrow> ExecOptions \<Rightarrow> E2BProvider \<Rightarrow> (error + int \<times> string \<times> string) \<times> E2BProvider" where
  "e2b_Exec E sid opts p =
     (case normalizeExecMode (xo_Mode opts) of
        Inl e \<Rightarrow> (Inl e, p)
      | Inr mode \<Rightarrow>
          if mode = ''argv'' then (Inl (Err ErrOther ''e2b provider does not support argv exec mode''), p)
          else
            (case e2b_doRequest E ''POST'' (''/sandboxes/'' @ sid @ ''/commands'')
                 (Some ([(''cmd'', JStr (e2b_command opts))] @
                    (if xo_WorkDir opts \<noteq> [] then [(''cwd'', JStr (xo_WorkDir opts))] else []) @
                    (if xo_Env opts \<noteq> [] then [(''envVars'', JMap (xo_Env opts))] else []))) p of
               (Inl e, p) \<Rightarrow> (Inl (wrap_err ''e2b exec'' e), p)
             | (Inr (code, data), p) \<Rightarrow>
                 (if code \<ge> 400 then Inl (http_error ''e2b exec'' code data) else Inr (js_e2b_exec E data), p)))"

definition e2b_ExecStream :: "httpenv \<Rightarrow> string \<Rightarrow> ExecOptions \<Rightarrow> E2BProvider \<Rightarrow> (error + (string \<times> string) list) \<times> E2BProvider" where
  "e2b_ExecStream E sid opts p =
     (case e2b_Exec E sid opts p of
        (Inl e, p) \<Rightarrow> (Inl e, p)
      | (Inr (code, out, err), p) \<Rightarrow>
          (Inr ((if out \<noteq> [] then [(''stdout'', out)] else []) @ (if err \<noteq> [] then [(''stderr'', err)] else [])), p))"

definition e2b_WriteFile ::
  "httpenv \<Rightarrow> string \<Rightarrow> string \<Rightarrow> error + string \<Rightarrow> string \<Rightarrow> E2BProvider \<Rightarrow> error option \<times> E2BProvider" where
  "e2b_WriteFile E sid path content mode p =
     (case content of
        Inl e \<Rightarrow> (Some e, p)
      | Inr data \<Rightarrow>
          (case e2b_doRequest E ''POST'' (''/sandboxes/'' @ sid @ ''/files'') (Some [(''path'', JStr path), (''content'', JStr data)]) p of
             (Inl e, p) \<Rightarrow> (Some (wrap_err ''e2b write'' e), p)
           | (Inr (code, reply), p) \<Rightarrow> (if code \<ge> 400 then Some (e2b_failed ''e2b write'' code) else None, p)))"

definition e2b_ReadFile :: "httpenv \<Rightarrow> string \<Rightarrow> string \<Rightarrow> E2BProvider \<Rightarrow> (error + string) \<times> E2BProvider" where
  "e2b_ReadFile E sid path p =
     (case e2b_doRequest E ''GET'' (''/sandboxes/'' @ sid @ ''/files?path='' @ path) None p of
        (Inl e, p) \<Rightarrow> (Inl (wrap_err ''e2b read'' e), p)
      | (Inr (code, data), p) \<Rightarrow> (if code \<ge> 400 then Inl (e2b_failed ''e2b read'' code) else Inr data, p))"

definition e2b_ListFiles :: "httpenv \<Rightarrow> string \<Rightarrow> string \<Rightarrow> E2BProvider \<Rightarrow> (error + FileInfo list) \<times> E2BProvider" where
  "e2b_ListFiles E sid path p =
     (case e2b_doRequest E ''GET'' (''/sandboxes/'' @ sid @ ''/files?path='' @ path @ ''&list=true'') None p of
        (Inl e, p) \<Rightarrow> (Inl (wrap_err ''e2b list'' e), p)
      | (Inr (code, data), p) \<Rightarrow>
          (if code \<ge> 400 then Inl (e2b_failed ''e2b list'' code)
           else Inr (map (\<lambda>(n, sz, dir). \<lparr>fi_Path = n, fi_Size = sz, fi_Mode = [], fi_IsDir = dir, fi_ModTime = []\<rparr>) (js_e2b_files E data)), p))"

definition e2b_unsupported :: "string \<Rightarrow> error" where
  "e2b_unsupported operation = Err ErrOther (''e2b: '' @ operation @ '' not supported'')"

definition e2b_DeleteFile :: "string \<Rightarrow> string \<Rightarrow> bool \<Rightarrow> error option" where
  "e2b_DeleteFile sid path recursive = Some (e2b_unsupported ''delete_file'')"

definition e2b_MoveFile :: "string \<Rightarrow> string \<Rightarrow> string \<Rightarrow> error option" where
  "e2b_MoveFile sid old new = Some (e2b_unsupported ''move_file'')"

definition e2b_ChmodFile :: "string \<Rightarrow> string \<Rightarrow> string \<Rightarrow> error option" where
  "e2b_ChmodFile sid path mode = Some (e2b_unsupported ''chmod_file'')"

definition e2b_StatFile :: "string \<Rightarrow> string \<Rightarrow> error + FileInfo" where
  "e2b_StatFile sid path = Inl (e2b_unsupported ''stat_file'')"

definition e2b_GlobFiles :: "string \<Rightarrow> string \<Rightarrow> error + string list" where
  "e2b_GlobFiles sid pattern = Inl (e2b_unsupported ''glob_files'')"

definition e2b_Status :: "httpenv \<Rightarrow> string \<Rightarrow> E2BProvider \<Rightarrow> (error + SandboxStatus) \<times> E2BProvider" where
  "e2b_Status E sid p =
     (case e2b_doRequest E ''GET'' (''/sandboxes/'' @ sid) None p of
        (Inl e, p) \<Rightarrow> (Inl (wrap_err ''e2b status'' e), p)
      | (Inr (code, data), p) \<Rightarrow>
          (if code = 404 then Inr \<lparr>st_ID = sid, st_State = ''destroyed''\<rparr>
           else if code \<ge> 400 then Inl (http_error ''e2b status'' code data)
           else Inr \<lparr>st_ID = sid, st_State = ''running''\<rparr>, p))"

definition e2b_Destroy :: "httpenv \<Rightarrow> string \<Rightarrow> E2BProvider \<Rightarrow> error option \<times> E2BProvider" where
  "e2b_Destroy E sid p =
     (case e2b_doRequest E ''DELETE'' (''/sandboxes/'' @ sid) None p of
        (Inl e, p) \<Rightarrow> (Some (wrap_err ''e2b destroy'' e), p)
      | (Inr (code, data), p) \<Rightarrow> (if code \<ge> 400 \<and> code \<noteq> 404 then Some (e2b_failed ''e2b destroy'' code) else None, p))"

definition e2b_ConsoleLog :: "string \<Rightarrow> int \<Rightarrow> string list" where
  "e2b_ConsoleLog sid n = [''[INFO] console logs not available for E2B provider'']"

definition e2b_Healthy :: "httpenv \<Rightarrow> E2BProvider \<Rightarrow> bool \<times> E2BProvider" where
  "e2b_Healthy E p =
     (case e2b_doRequest E ''GET'' ''/health'' None p of (Inl e, p) \<Rightarrow> (False, p) | (Inr (code, data), p) \<Rightarrow> (code < 400, p))"

end
