(* ===== verification/Provider_Remote_Laws.thy ===== *)
theory Provider_Remote_Laws
  imports Provider_Remote
begin

text \<open>
  What the services behind the remote providers read in the requests they are sent.
\<close>

section \<open>The custom provider\<close>




















section \<open>The E2B provider\<close>

text \<open>The path is put into the URL as it is: reading one file can be the request that lists another.\<close>

lemma e2b_read_is_list:
  "hc_calls (snd (e2b_ReadFile E sid (path @ ''&list=true'') p)) = hc_calls (snd (e2b_ListFiles E sid path p))"
  by (simp add: e2b_ReadFile_def e2b_ListFiles_def e2b_doRequest_def send_request_def split: prod.split sum.split option.split)

end
