(* ===== verification/Server_Config.thy ===== *)
theory Server_Config
  imports Manager_State Host_OS
begin

text \<open>
  The configuration of the server: \<open>internal/config/config.go\<close>, \<open>internal/config/detect.go\<close> and the choice
  of the database in \<open>internal/store/factory.go\<close>.  The configuration library (it merges the defaults
  with the file and with the variables of the environment), the parser of URLs and the system are
  parameters.
\<close>

section \<open>The sections\<close>

record ServerSection =
  srv_Host :: string
  srv_Port :: int
  srv_PreviewDomain :: string
  srv_CORSAllowedOrigins :: "string list"

record WorkerRPCTLSSection =
  tls_Enabled :: bool
  tls_ServerCertFile :: string
  tls_ServerKeyFile :: string
  tls_ClientCAFile :: string
  tls_CAFile :: string
  tls_ClientCertFile :: string
  tls_ClientKeyFile :: string
  tls_ServerName :: string
  tls_InsecureSkipVerify :: bool

record WorkerSection =
  wrk_ID :: string
  wrk_ControlPlaneURL :: string
  wrk_ListenAddr :: string
  wrk_PreviewDomain :: string
  wrk_HeartbeatInterval :: string
  wrk_ShutdownTimeout :: string
  wrk_RPCTLS :: WorkerRPCTLSSection

record MockSection =
  mkc_Enabled :: bool

record FirecrackerSection =
  fcc_Enabled :: bool
  fcc_FirecrackerPath :: string
  fcc_KernelPath :: string
  fcc_DefaultRootfs :: string
  fcc_AgentPath :: string
  fcc_DataDir :: string

record PoolSecuritySection =
  psc_PerUserUID :: bool
  psc_PIDNamespace :: bool
  psc_WorkspacePermissions :: bool
  psc_HidePID :: bool

record DockerSection =
  dkc_Enabled :: bool
  dkc_Socket :: string
  dkc_Runtime :: string
  dkc_DefaultImage :: string
  dkc_NetworkMode :: string
  dkc_SeccompProfile :: string
  dkc_ReadOnlyRootfs :: bool
  dkc_Memory :: string
  dkc_CPUs :: string
  dkc_PidsLimit :: int
  dkc_User :: string
  dkc_DroppedCaps :: "string list"
  dkc_AddedCaps :: "string list"
  dkc_Tmpfs :: metadata
  dkc_PoolSecurity :: PoolSecuritySection

record E2BSection =
  e2c_Enabled :: bool
  e2c_APIKey :: string
  e2c_BaseURL :: string

record CustomSection =
  cuc_Enabled :: bool
  cuc_Name :: string
  cuc_BaseURL :: string
  cuc_APIKey :: string
  cuc_Timeout :: string

record PRootSection =
  prc_Enabled :: bool
  prc_RootfsPath :: string
  prc_PRootBinary :: string
  prc_WorkspaceBase :: string
  prc_DefaultTimeout :: string
  prc_MaxSandboxes :: int
  prc_MaxMemoryMB :: int
  prc_MaxDiskMB :: int
  prc_Languages :: "string list"

record ProvidersSection =
  prv_Default :: string
  prv_Mock :: MockSection
  prv_Firecracker :: FirecrackerSection
  prv_Docker :: DockerSection
  prv_E2B :: E2BSection
  prv_Custom :: CustomSection
  prv_PRoot :: PRootSection

record DefaultsSection =
  dfl_TTL :: string
  dfl_Image :: string
  dfl_MemoryMB :: int
  dfl_VCPUs :: int
  dfl_DiskSizeMB :: int
  dfl_PoolSize :: int
  dfl_PoolTemplate :: string
  dfl_MaxTTL :: string
  dfl_DefaultExecTimeout :: string
  dfl_MaxExecTimeout :: string
  dfl_MaxSandboxes :: int
  dfl_MaxSandboxesPerOwner :: int
  dfl_SpawnOverflow :: string
  dfl_SpawnQueueTimeout :: string
  dfl_MaxSpawnQueue :: int

record AuthSection =
  ath_Enabled :: bool
  ath_APIKey :: string
  ath_AdminAPIKey :: string
  ath_WorkerToken :: string
  ath_WorkerTokenFile :: string
  ath_WorkerTokens :: metadata
  ath_WorkerSigningKey :: string
  ath_WorkerSigningKeyFile :: string
  ath_WorkerSigningKeys :: "string list"
  ath_WorkerRevokedTokenIDs :: "string list"
  ath_AdminFallbackEnabled :: bool
  ath_AdminAuditRetention :: string
  ath_OIDCEnabled :: bool
  ath_OIDCIssuer :: string
  ath_OIDCAudience :: string
  ath_OIDCJWKSUrl :: string
  ath_OIDCPublicKey :: string
  ath_OIDCPublicKeyFile :: string
  ath_OIDCGroupsClaim :: string
  ath_OIDCTenantClaim :: string
  ath_OIDCAdminGroups :: "string list"
  ath_OIDCOperatorGroups :: "string list"
  ath_OIDCViewerGroups :: "string list"

record RateLimitSection =
  rlc_Enabled :: bool
  rlc_RequestsPerMinute :: int
  rlc_Burst :: int
  rlc_KeyBy :: string
  rlc_BucketTTL :: string
  rlc_CleanupInterval :: string

record DatabaseSection =
  dbc_Driver :: string
  dbc_Path :: string
  dbc_DSN :: string

record LoggingSection =
  log_Level :: string
  log_Format :: string

record PoolSection =
  pol_Enabled :: bool
  pol_MaxVMs :: int
  pol_MaxUsersPerVM :: int
  pol_Image :: string
  pol_MemoryMB :: int
  pol_VCPUs :: int
  pol_Overflow :: string

record Config =
  cfg_Server :: ServerSection
  cfg_Worker :: WorkerSection
  cfg_Providers :: ProvidersSection
  cfg_Defaults :: DefaultsSection
  cfg_Auth :: AuthSection
  cfg_RateLimit :: RateLimitSection
  cfg_Database :: DatabaseSection
  cfg_Logging :: LoggingSection
  cfg_Pool :: PoolSection

section \<open>Defaults\<close>

definition default_ServerConfig :: ServerSection where
  "default_ServerConfig =
     \<lparr>srv_Host = ''0.0.0.0'', srv_Port = 7423, srv_PreviewDomain = ''localhost'',
      srv_CORSAllowedOrigins = [''*'']\<rparr>"

definition default_WorkerRPCTLSConfig :: WorkerRPCTLSSection where
  "default_WorkerRPCTLSConfig =
     \<lparr>tls_Enabled = False, tls_ServerCertFile = [], tls_ServerKeyFile = [], tls_ClientCAFile = [], tls_CAFile = [],
      tls_ClientCertFile = [], tls_ClientKeyFile = [], tls_ServerName = [], tls_InsecureSkipVerify = False\<rparr>"

definition default_WorkerConfig :: WorkerSection where
  "default_WorkerConfig =
     \<lparr>wrk_ID = [], wrk_ControlPlaneURL = ''http://localhost:7423'', wrk_ListenAddr = [], wrk_PreviewDomain = [],
      wrk_HeartbeatInterval = ''30s'', wrk_ShutdownTimeout = ''10s'', wrk_RPCTLS = default_WorkerRPCTLSConfig\<rparr>"

definition default_MockConfig :: MockSection where
  "default_MockConfig =
     \<lparr>mkc_Enabled = False\<rparr>"

definition default_FirecrackerConfig :: FirecrackerSection where
  "default_FirecrackerConfig =
     \<lparr>fcc_Enabled = True, fcc_FirecrackerPath = ''/usr/local/bin/firecracker'',
      fcc_KernelPath = ''/var/lib/stacyvm/vmlinux.bin'', fcc_DefaultRootfs = [], fcc_AgentPath = ''./bin/stacyvm-agent'',
      fcc_DataDir = ''/var/lib/stacyvm''\<rparr>"

definition default_PoolSecurityConfig :: PoolSecuritySection where
  "default_PoolSecurityConfig =
     \<lparr>psc_PerUserUID = False, psc_PIDNamespace = False, psc_WorkspacePermissions = True, psc_HidePID = False\<rparr>"

definition default_DockerConfig :: DockerSection where
  "default_DockerConfig =
     \<lparr>dkc_Enabled = True, dkc_Socket = [], dkc_Runtime = ''runc'', dkc_DefaultImage = ''alpine:latest'',
      dkc_NetworkMode = ''bridge'', dkc_SeccompProfile = ''default'', dkc_ReadOnlyRootfs = False, dkc_Memory = ''512m'',
      dkc_CPUs = ''1'', dkc_PidsLimit = 256, dkc_User = [], dkc_DroppedCaps = [''ALL''], dkc_AddedCaps = [], dkc_Tmpfs = [],
      dkc_PoolSecurity = default_PoolSecurityConfig\<rparr>"

definition default_E2BConfig :: E2BSection where
  "default_E2BConfig =
     \<lparr>e2c_Enabled = False, e2c_APIKey = [], e2c_BaseURL = ''https://api.e2b.dev''\<rparr>"

definition default_CustomConfig :: CustomSection where
  "default_CustomConfig =
     \<lparr>cuc_Enabled = False, cuc_Name = ''custom'', cuc_BaseURL = [], cuc_APIKey = [], cuc_Timeout = ''60s''\<rparr>"

definition default_PRootConfig :: PRootSection where
  "default_PRootConfig =
     \<lparr>prc_Enabled = False, prc_RootfsPath = ''/var/lib/stacyvm/rootfs'', prc_PRootBinary = ''proot'',
      prc_WorkspaceBase = ''/var/lib/stacyvm/workspaces'', prc_DefaultTimeout = ''60s'', prc_MaxSandboxes = 10,
      prc_MaxMemoryMB = 512, prc_MaxDiskMB = 1024, prc_Languages = [''python3'', ''node'', ''bash'']\<rparr>"

definition default_ProvidersConfig :: ProvidersSection where
  "default_ProvidersConfig =
     \<lparr>prv_Default = ''docker'', prv_Mock = default_MockConfig, prv_Firecracker = default_FirecrackerConfig,
      prv_Docker = default_DockerConfig, prv_E2B = default_E2BConfig, prv_Custom = default_CustomConfig,
      prv_PRoot = default_PRootConfig\<rparr>"

definition default_DefaultsConfig :: DefaultsSection where
  "default_DefaultsConfig =
     \<lparr>dfl_TTL = ''30m'', dfl_Image = ''alpine:latest'', dfl_MemoryMB = 1024, dfl_VCPUs = 1, dfl_DiskSizeMB = 1024,
      dfl_PoolSize = 0, dfl_PoolTemplate = [], dfl_MaxTTL = ''24h'', dfl_DefaultExecTimeout = ''0s'',
      dfl_MaxExecTimeout = ''10m'', dfl_MaxSandboxes = 0, dfl_MaxSandboxesPerOwner = 0, dfl_SpawnOverflow = ''reject'',
      dfl_SpawnQueueTimeout = ''30s'', dfl_MaxSpawnQueue = 100\<rparr>"

definition default_AuthConfig :: AuthSection where
  "default_AuthConfig =
     \<lparr>ath_Enabled = False, ath_APIKey = [], ath_AdminAPIKey = [], ath_WorkerToken = [], ath_WorkerTokenFile = [],
      ath_WorkerTokens = [], ath_WorkerSigningKey = [], ath_WorkerSigningKeyFile = [], ath_WorkerSigningKeys = [],
      ath_WorkerRevokedTokenIDs = [], ath_AdminFallbackEnabled = True, ath_AdminAuditRetention = ''0s'',
      ath_OIDCEnabled = False, ath_OIDCIssuer = [], ath_OIDCAudience = [], ath_OIDCJWKSUrl = [], ath_OIDCPublicKey = [],
      ath_OIDCPublicKeyFile = [], ath_OIDCGroupsClaim = ''groups'', ath_OIDCTenantClaim = ''tenant_id'',
      ath_OIDCAdminGroups = [], ath_OIDCOperatorGroups = [], ath_OIDCViewerGroups = []\<rparr>"

definition default_RateLimitConfig :: RateLimitSection where
  "default_RateLimitConfig =
     \<lparr>rlc_Enabled = False, rlc_RequestsPerMinute = 120, rlc_Burst = 60, rlc_KeyBy = ''owner'',
      rlc_BucketTTL = ''15m'', rlc_CleanupInterval = ''1m''\<rparr>"

definition default_DatabaseConfig :: DatabaseSection where
  "default_DatabaseConfig =
     \<lparr>dbc_Driver = ''sqlite'', dbc_Path = ''stacyvm.db'', dbc_DSN = []\<rparr>"

definition default_LoggingConfig :: LoggingSection where
  "default_LoggingConfig =
     \<lparr>log_Level = ''info'', log_Format = ''json''\<rparr>"

definition default_PoolConfig :: PoolSection where
  "default_PoolConfig =
     \<lparr>pol_Enabled = False, pol_MaxVMs = 10, pol_MaxUsersPerVM = 5, pol_Image = ''alpine:latest'', pol_MemoryMB = 2048,
      pol_VCPUs = 2, pol_Overflow = ''reject''\<rparr>"

definition default_config :: Config where
  "default_config =
     \<lparr>cfg_Server = default_ServerConfig, cfg_Worker = default_WorkerConfig, cfg_Providers = default_ProvidersConfig,
      cfg_Defaults = default_DefaultsConfig, cfg_Auth = default_AuthConfig, cfg_RateLimit = default_RateLimitConfig,
      cfg_Database = default_DatabaseConfig, cfg_Logging = default_LoggingConfig, cfg_Pool = default_PoolConfig\<rparr>"

section \<open>The environment\<close>

record parsed_url =
  ur_Scheme :: string
  ur_Host :: string
  ur_Path :: string
  ur_RawQuery :: string
  ur_Fragment :: string

text \<open>
  \<open>ce_order\<close> is the order a Go map is iterated in.  \<open>ce_unmarshal\<close> is the configuration as the library
  merges it, from the file, if there is one; \<open>ce_parse\<close> its error on reading the file.
\<close>

record cfgenv =
  ce_url :: "string \<Rightarrow> error + parsed_url"
  ce_order :: "(string \<times> string) list \<Rightarrow> (string \<times> string) list"
  ce_stat :: "string \<Rightarrow> error option"
  ce_read_file :: "string \<Rightarrow> error + string"
  ce_parse :: "string \<Rightarrow> error option"
  ce_unmarshal :: "string option \<Rightarrow> error + Config"
  ce_home :: "string option"
  ce_executable :: "string option"
  ce_abs :: "string \<Rightarrow> string option"
  ce_look_path :: "string \<Rightarrow> string option"

definition cfg_error :: "string \<Rightarrow> error" where
  "cfg_error message = Err ErrOther message"

section \<open>Validation\<close>

definition validateDuration :: "string \<Rightarrow> string \<Rightarrow> error option" where
  "validateDuration name value =
     (if value = [] then None
      else case ParseDuration value of
        Inl e \<Rightarrow> Some (wrap_err (name @ '' must be a valid duration'') e)
      | Inr d \<Rightarrow> if d < 0 then Some (cfg_error (name @ '' cannot be negative'')) else None)"

definition isOneOf :: "string \<Rightarrow> string list \<Rightarrow> bool" where
  "isOneOf value allowed = list_ex (\<lambda>candidate. value = candidate) allowed"

definition origin_error :: "string \<Rightarrow> string \<Rightarrow> error" where
  "origin_error origin problem = cfg_error (''server.cors_allowed_origins origin '' @ Quote origin @ problem)"

definition validate_origin :: "cfgenv \<Rightarrow> string \<Rightarrow> error option" where
  "validate_origin E origin =
     (let origin = TrimSpace origin;
          invalid = Some (cfg_error (''server.cors_allowed_origins contains invalid origin '' @ Quote origin)) in
      if origin = [] \<or> origin = ''*'' then None
      else case ce_url E origin of
        Inl e \<Rightarrow> invalid
      | Inr u \<Rightarrow>
          if ur_Scheme u = [] \<or> ur_Host u = [] then invalid
          else if ur_Scheme u \<noteq> ''http'' \<and> ur_Scheme u \<noteq> ''https'' then Some (origin_error origin '' must use http or https'')
          else if ur_Path u \<noteq> [] \<or> ur_RawQuery u \<noteq> [] \<or> ur_Fragment u \<noteq> []
          then Some (origin_error origin '' must not include path, query, or fragment'')
          else None)"

fun first_error :: "('a \<Rightarrow> error option) \<Rightarrow> 'a list \<Rightarrow> error option" where
  "first_error f [] = None"
| "first_error f (x # xs) = (case f x of Some e \<Rightarrow> Some e | None \<Rightarrow> first_error f xs)"

definition validateCORSAllowedOrigins :: "cfgenv \<Rightarrow> string list \<Rightarrow> error option" where
  "validateCORSAllowedOrigins E origins = first_error (validate_origin E) origins"

definition duration_fields :: "Config \<Rightarrow> (string \<times> string) list" where
  "duration_fields c =
     (let d = cfg_Defaults c; r = cfg_RateLimit c; w = cfg_Worker c in
      [(''defaults.ttl'', dfl_TTL d), (''defaults.max_ttl'', dfl_MaxTTL d),
       (''defaults.default_exec_timeout'', dfl_DefaultExecTimeout d), (''defaults.max_exec_timeout'', dfl_MaxExecTimeout d),
       (''defaults.spawn_queue_timeout'', dfl_SpawnQueueTimeout d), (''rate_limit.bucket_ttl'', rlc_BucketTTL r),
       (''rate_limit.cleanup_interval'', rlc_CleanupInterval r),
       (''auth.admin_audit_retention'', ath_AdminAuditRetention (cfg_Auth c)),
       (''worker.heartbeat_interval'', wrk_HeartbeatInterval w), (''worker.shutdown_timeout'', wrk_ShutdownTimeout w),
       (''providers.custom.timeout'', cuc_Timeout (prv_Custom (cfg_Providers c))),
       (''providers.proot.default_timeout'', prc_DefaultTimeout (prv_PRoot (cfg_Providers c)))])"

definition validate_database :: "DatabaseSection \<Rightarrow> error option" where
  "validate_database d =
     (let driver = ToLower (TrimSpace (dbc_Driver d)) in
      if driver \<in> set [[], ''sqlite'', ''sqlite3''] then
        (if TrimSpace (dbc_Path d) = [] then Some (cfg_error ''database.path is required for sqlite'') else None)
      else if driver \<in> set [''postgres'', ''postgresql''] then
        (if TrimSpace (dbc_DSN d) = [] then Some (cfg_error ''database.dsn is required for postgres'') else None)
      else Some (cfg_error (''unsupported database.driver '' @ Quote (dbc_Driver d))))"

definition validate_limits :: "Config \<Rightarrow> error option" where
  "validate_limits c =
     (let d = cfg_Defaults c; r = cfg_RateLimit c in
      if dfl_MaxSandboxes d < 0 then Some (cfg_error ''defaults.max_sandboxes cannot be negative'')
      else if dfl_MaxSandboxesPerOwner d < 0 then Some (cfg_error ''defaults.max_sandboxes_per_owner cannot be negative'')
      else if dfl_MaxSpawnQueue d < 0 then Some (cfg_error ''defaults.max_spawn_queue cannot be negative'')
      else if rlc_RequestsPerMinute r < 0 then Some (cfg_error ''rate_limit.requests_per_minute cannot be negative'')
      else if rlc_Burst r < 0 then Some (cfg_error ''rate_limit.burst cannot be negative'')
      else if \<not> isOneOf (dfl_SpawnOverflow d) [[], ''reject'', ''queue'']
      then Some (cfg_error ''defaults.spawn_overflow must be reject or queue'')
      else if \<not> isOneOf (rlc_KeyBy r) [[], ''owner'', ''api_key'', ''ip'']
      then Some (cfg_error ''rate_limit.key_by must be owner, api_key, or ip'')
      else if \<not> isOneOf (pol_Overflow (cfg_Pool c)) [[], ''reject'', ''queue'']
      then Some (cfg_error ''pool.overflow must be reject or queue'')
      else None)"

definition Validate :: "cfgenv \<Rightarrow> Config \<Rightarrow> error option" where
  "Validate E c =
     (case validate_database (cfg_Database c) of
        Some e \<Rightarrow> Some e
      | None \<Rightarrow>
     (case first_error (\<lambda>(name, value). validateDuration name value) (ce_order E (duration_fields c)) of
        Some e \<Rightarrow> Some e
      | None \<Rightarrow>
     (case validate_limits c of
        Some e \<Rightarrow> Some e
      | None \<Rightarrow> validateCORSAllowedOrigins E (srv_CORSAllowedOrigins (cfg_Server c)))))"

section \<open>Loading\<close>

text \<open>The value that the configuration ends up with.\<close>

definition resolveSecretFile :: "cfgenv \<Rightarrow> string \<Rightarrow> string \<Rightarrow> string \<Rightarrow> string \<Rightarrow> error + string" where
  "resolveSecretFile E valueName value fileName path =
     (let path = TrimSpace path in
      if path = [] then Inr value
      else if TrimSpace value \<noteq> [] then Inl (cfg_error (valueName @ '' and '' @ fileName @ '' cannot both be set''))
      else case ce_read_file E path of
        Inl e \<Rightarrow> Inl (wrap_err fileName e)
      | Inr data \<Rightarrow>
          (let secret = TrimSpace data in
           if secret = [] then Inl (cfg_error (fileName @ '' is empty'')) else Inr secret))"

definition resolve_auth :: "cfgenv \<Rightarrow> AuthSection \<Rightarrow> error + AuthSection" where
  "resolve_auth E a =
     (case resolveSecretFile E ''auth.worker_token'' (ath_WorkerToken a) ''auth.worker_token_file'' (ath_WorkerTokenFile a) of
        Inl e \<Rightarrow> Inl e
      | Inr token \<Rightarrow>
     (case resolveSecretFile E ''auth.worker_signing_key'' (ath_WorkerSigningKey a) ''auth.worker_signing_key_file'' (ath_WorkerSigningKeyFile a) of
        Inl e \<Rightarrow> Inl e
      | Inr key \<Rightarrow>
     (case resolveSecretFile E ''auth.oidc_public_key'' (ath_OIDCPublicKey a) ''auth.oidc_public_key_file'' (ath_OIDCPublicKeyFile a) of
        Inl e \<Rightarrow> Inl e
      | Inr pem \<Rightarrow> Inr (a\<lparr>ath_WorkerToken := token, ath_WorkerSigningKey := key, ath_OIDCPublicKey := pem\<rparr>))))"

definition resolveAuthSecretFiles :: "cfgenv \<Rightarrow> Config \<Rightarrow> error + Config" where
  "resolveAuthSecretFiles E c = (case resolve_auth E (cfg_Auth c) of Inl e \<Rightarrow> Inl e | Inr a \<Rightarrow> Inr (c\<lparr>cfg_Auth := a\<rparr>))"

text \<open>The first of the paths that exists; a path that was asked for has to.\<close>

fun find_config :: "cfgenv \<Rightarrow> bool \<Rightarrow> string list \<Rightarrow> error + string option" where
  "find_config E required [] = Inr None"
| "find_config E required (p # ps) =
     (case ce_stat E p of
        None \<Rightarrow> (case ce_parse E p of Some e \<Rightarrow> Inl (wrap_err (''reading config '' @ p) e) | None \<Rightarrow> Inr (Some p))
      | Some e \<Rightarrow> if required then Inl (wrap_err (''config file '' @ p) e) else find_config E required ps)"

definition load :: "cfgenv \<Rightarrow> string list \<Rightarrow> bool \<Rightarrow> error + Config" where
  "load E configPaths required =
     (case find_config E required configPaths of
        Inl e \<Rightarrow> Inl e
      | Inr file \<Rightarrow>
     (case ce_unmarshal E file of
        Inl e \<Rightarrow> Inl (wrap_err ''unmarshaling config'' e)
      | Inr c \<Rightarrow>
     (case resolveAuthSecretFiles E c of
        Inl e \<Rightarrow> Inl e
      | Inr c \<Rightarrow> (case Validate E c of Some e \<Rightarrow> Inl e | None \<Rightarrow> Inr c))))"

definition Load :: "cfgenv \<Rightarrow> error + Config" where
  "Load E =
     load E (''stacyvm.yaml'' # (case ce_home E of None \<Rightarrow> [] | Some home \<Rightarrow> [Join2 (Join2 home ''.stacyvm'') ''config.yaml''])) False"

definition LoadFile :: "cfgenv \<Rightarrow> string \<Rightarrow> error + Config" where
  "LoadFile E path = (if TrimSpace path = [] then Inl (cfg_error ''config path is required'') else load E [path] True)"

text \<open>\<open>ce_executable\<close> is the directory of the executable.\<close>

definition ResolveAgentPath :: "cfgenv \<Rightarrow> Config \<Rightarrow> string" where
  "ResolveAgentPath E c =
     (let p = fcc_AgentPath (prv_Firecracker (cfg_Providers c));
          exists_at = (\<lambda>candidate. case candidate of None \<Rightarrow> False | Some q \<Rightarrow> ce_stat E q = None);
          beside = map_option (\<lambda>dir. Join2 dir p) (ce_executable E)
      in if IsAbs p then p
         else if exists_at beside then the beside
         else if exists_at (ce_abs E p) then the (ce_abs E p)
         else case ce_look_path E (Base p) of Some found \<Rightarrow> found | None \<Rightarrow> p)"

section \<open>Detection\<close>

datatype Environment = EnvUnknown | EnvAndroid | EnvDocker | EnvFirecracker | EnvPRoot

fun Environment_String :: "Environment \<Rightarrow> string" where
  "Environment_String EnvAndroid = ''android''"
| "Environment_String EnvDocker = ''docker''"
| "Environment_String EnvFirecracker = ''firecracker''"
| "Environment_String EnvPRoot = ''proot''"
| "Environment_String EnvUnknown = ''unknown''"

definition DetectEnvironment :: "cfgenv \<Rightarrow> Environment" where
  "DetectEnvironment E =
     (if ce_stat E ''/system/build.prop'' = None then EnvAndroid
      else if ce_look_path E ''firecracker'' \<noteq> None then EnvFirecracker
      else if ce_look_path E ''docker'' \<noteq> None then EnvDocker
      else if ce_look_path E ''proot'' \<noteq> None then EnvPRoot else EnvUnknown)"

fun DefaultProviderForEnv :: "Environment \<Rightarrow> string" where
  "DefaultProviderForEnv EnvAndroid = ''proot''"
| "DefaultProviderForEnv EnvFirecracker = ''firecracker''"
| "DefaultProviderForEnv EnvDocker = ''docker''"
| "DefaultProviderForEnv EnvPRoot = ''proot''"
| "DefaultProviderForEnv EnvUnknown = ''mock''"

section \<open>The database\<close>

datatype database = SQLiteAt string | PostgresAt string

definition store_Open :: "DatabaseSection \<Rightarrow> error + database" where
  "store_Open cfg =
     (let driver = ToLower (TrimSpace (dbc_Driver cfg)); driver = (if driver = [] then ''sqlite'' else driver) in
      if driver = ''sqlite'' \<or> driver = ''sqlite3'' then
        (if TrimSpace (dbc_Path cfg) = [] then Inl (cfg_error ''sqlite database path is required'') else Inr (SQLiteAt (dbc_Path cfg)))
      else if driver = ''postgres'' \<or> driver = ''postgresql'' then
        (if TrimSpace (dbc_DSN cfg) = [] then Inl (cfg_error ''postgres database dsn is required'') else Inr (PostgresAt (dbc_DSN cfg)))
      else Inl (cfg_error (''unsupported store driver: '' @ driver)))"

end
