(* ===== verification/Server_Start.thy ===== *)
theory Server_Start
  imports Server_Config Provider_PRoot Firecracker Provider_Docker Provider_Remote Reconcile Auth Worker_Token Rate_Limit
begin

text \<open>
  How the server is put together: \<open>runServe\<close> of \<open>cmd/stacyvm/cmd_serve.go\<close>, from the configuration to the
  manager and to what \<open>NewServer\<close> is given, and the TLS settings of the worker RPC
  (\<open>internal/worker/tls.go\<close>).
\<close>

section \<open>Settings of the providers\<close>

text \<open>\<open>d, _ := time.ParseDuration(s)\<close>.\<close>

definition parsed :: "string \<Rightarrow> duration" where
  "parsed s = (case ParseDuration s of Inl e \<Rightarrow> 0 | Inr d \<Rightarrow> d)"

definition or_minute :: "duration \<Rightarrow> duration" where
  "or_minute d = (if d = 0 then 60 * Second else d)"

definition firecracker_settings :: "cfgenv \<Rightarrow> Config \<Rightarrow> FirecrackerProviderConfig" where
  "firecracker_settings E c =
     (let f = prv_Firecracker (cfg_Providers c) in
      \<lparr>fx_FirecrackerPath = fcc_FirecrackerPath f, fx_KernelPath = fcc_KernelPath f, fx_DefaultRootfs = fcc_DefaultRootfs f,
       fx_AgentPath = ResolveAgentPath E c, fx_DataDir = fcc_DataDir f, fx_DefaultMemoryMB = dfl_MemoryMB (cfg_Defaults c)\<rparr>)"

definition custom_settings :: "Config \<Rightarrow> CustomProviderConfig" where
  "custom_settings c =
     (let u = prv_Custom (cfg_Providers c) in
      \<lparr>cu_ProviderName = cuc_Name u, cu_BaseURL = cuc_BaseURL u, cu_APIKey = cuc_APIKey u,
       cu_Timeout = or_minute (parsed (cuc_Timeout u))\<rparr>)"

definition docker_settings :: "Config \<Rightarrow> DockerProviderConfig" where
  "docker_settings c =
     (let d = prv_Docker (cfg_Providers c) in
      \<lparr>dx_Runtime = dkc_Runtime d, dx_DefaultImage = dkc_DefaultImage d, dx_NetworkMode = dkc_NetworkMode d,
       dx_SeccompProfile = dkc_SeccompProfile d, dx_ReadOnlyRootfs = dkc_ReadOnlyRootfs d, dx_Memory = dkc_Memory d,
       dx_CPUs = dkc_CPUs d, dx_PidsLimit = dkc_PidsLimit d, dx_User = dkc_User d, dx_DroppedCaps = dkc_DroppedCaps d,
       dx_AddedCaps = dkc_AddedCaps d, dx_Tmpfs = dkc_Tmpfs d, dx_PreviewDomain = srv_PreviewDomain (cfg_Server c)\<rparr>)"

definition proot_settings :: "Config \<Rightarrow> PRootProviderConfig" where
  "proot_settings c =
     (let r = prv_PRoot (cfg_Providers c) in
      \<lparr>px_RootfsPath = prc_RootfsPath r, px_PRootBinary = prc_PRootBinary r, px_WorkspaceBase = prc_WorkspaceBase r,
       px_DefaultTimeout = or_minute (parsed (prc_DefaultTimeout r)), px_MaxSandboxes = prc_MaxSandboxes r\<rparr>)"

section \<open>The registry\<close>

text \<open>
  The providers in the order they are registered, with whether they list their runtimes; \<open>docker_ok\<close> tells
  whether the Docker client can be made.
\<close>

definition configured_providers :: "bool \<Rightarrow> Config \<Rightarrow> (string \<times> bool) list" where
  "configured_providers docker_ok c =
     (let p = cfg_Providers c in
      (if mkc_Enabled (prv_Mock p) then [(''mock'', False)] else []) @
      (if fcc_Enabled (prv_Firecracker p) then [(''firecracker'', False)] else []) @
      (if e2c_Enabled (prv_E2B p) then [(''e2b'', False)] else []) @
      (if cuc_Enabled (prv_Custom p) \<and> cuc_BaseURL (prv_Custom p) \<noteq> []
       then [(hc_name (NewCustomProvider (custom_settings c)), False)] else []) @
      (if dkc_Enabled (prv_Docker p) \<and> docker_ok then [(''docker'', True)] else []) @
      (if prc_Enabled (prv_PRoot p) then [(''proot'', False)] else []))"

definition default_provider :: "cfgenv \<Rightarrow> Config \<Rightarrow> string" where
  "default_provider E c =
     (if prv_Default (cfg_Providers c) = ''auto'' then DefaultProviderForEnv (DetectEnvironment E)
      else prv_Default (cfg_Providers c))"

text \<open>A default that is not registered is only warned about.\<close>

definition serve_registry :: "cfgenv \<Rightarrow> bool \<Rightarrow> Config \<Rightarrow> Registry" where
  "serve_registry E docker_ok c =
     snd (registry_SetDefault (default_provider E c)
       (fold (\<lambda>(name, lister). registry_Register name lister) (configured_providers docker_ok c) \<lparr>rg_providers = [], rg_dflt = []\<rparr>))"

section \<open>Settings of the manager and of the API\<close>

definition pool_settings :: "PoolSection \<Rightarrow> PoolConfig" where
  "pool_settings p =
     \<lparr>pc_Enabled = pol_Enabled p, pc_MaxVMs = pol_MaxVMs p, pc_MaxUsersPerVM = pol_MaxUsersPerVM p, pc_Image = pol_Image p,
      pc_MemoryMB = pol_MemoryMB p, pc_VCPUs = pol_VCPUs p\<rparr>"

definition manager_settings :: "Config \<Rightarrow> mconfig" where
  "manager_settings c =
     (let d = cfg_Defaults c; a = cfg_Auth c in
      \<lparr>mc_defaultTTL = parsed (dfl_TTL d), mc_defaultImage = dfl_Image d, mc_defaultMemory = dfl_MemoryMB d,
       mc_defaultVCPUs = dfl_VCPUs d,
       mc_limits =
         \<lparr>lim_MaxSandboxes = dfl_MaxSandboxes d, lim_MaxSandboxesPerOwner = dfl_MaxSandboxesPerOwner d,
          lim_DefaultExecTimeout = parsed (dfl_DefaultExecTimeout d), lim_MaxExecTimeout = parsed (dfl_MaxExecTimeout d),
          lim_MaxTTL = parsed (dfl_MaxTTL d), lim_SpawnOverflow = dfl_SpawnOverflow d,
          lim_SpawnQueueTimeout = parsed (dfl_SpawnQueueTimeout d), lim_MaxSpawnQueue = dfl_MaxSpawnQueue d\<rparr>,
       mc_workerID = [], mc_workerToken = ath_WorkerToken a, mc_workerSigningKey = ath_WorkerSigningKey a,
       mc_pool = pool_settings (cfg_Pool c), mc_previewDomain = srv_PreviewDomain (cfg_Server c)\<rparr>)"

record ServerConfig =
  sv_Addr :: string
  sv_Auth :: ServerAuth
  sv_AdminAuditRetention :: duration
  sv_CORSAllowedOrigins :: "string list"
  sv_Worker :: WorkerAuthConfig
  sv_RateLimit :: RateLimitConfig

definition Addr :: "ServerSection \<Rightarrow> string" where
  "Addr s = srv_Host s @ '':'' @ Itoa (srv_Port s)"

definition server_settings :: "Config \<Rightarrow> ServerConfig" where
  "server_settings c =
     (let a = cfg_Auth c; r = cfg_RateLimit c in
      \<lparr>sv_Addr = Addr (cfg_Server c),
       sv_Auth =
         \<lparr>sa_APIKey = ath_APIKey a, sa_AdminAPIKey = ath_AdminAPIKey a,
          sa_AdminFallbackDisabled = (\<not> ath_AdminFallbackEnabled a),
          sa_OIDC =
            \<lparr>oc_Issuer = ath_OIDCIssuer a, oc_Audience = ath_OIDCAudience a, oc_JWKSUrl = ath_OIDCJWKSUrl a,
             oc_PublicKeyPEM = ath_OIDCPublicKey a, oc_GroupsClaim = ath_OIDCGroupsClaim a, oc_TenantClaim = ath_OIDCTenantClaim a,
             oc_AdminGroups = ath_OIDCAdminGroups a, oc_OperatorGroups = ath_OIDCOperatorGroups a,
             oc_ViewerGroups = ath_OIDCViewerGroups a\<rparr>\<rparr>,
       sv_AdminAuditRetention = parsed (ath_AdminAuditRetention a),
       sv_CORSAllowedOrigins = srv_CORSAllowedOrigins (cfg_Server c),
       sv_Worker =
         \<lparr>wa_SharedToken = ath_WorkerToken a, wa_WorkerTokens = ath_WorkerTokens a, wa_SigningKey = ath_WorkerSigningKey a,
          wa_SigningKeys = ath_WorkerSigningKeys a, wa_RevokedTokenIDs = ath_WorkerRevokedTokenIDs a\<rparr>,
       sv_RateLimit =
         \<lparr>rc_Enabled = rlc_Enabled r, rc_RequestsPerMinute = rlc_RequestsPerMinute r, rc_Burst = rlc_Burst r,
          rc_KeyBy = rlc_KeyBy r, rc_BucketTTL = parsed (rlc_BucketTTL r), rc_CleanupInterval = parsed (rlc_CleanupInterval r)\<rparr>\<rparr>)"

text \<open>The limiter of \<open>NewServer\<close>, when rate limits are on.\<close>

definition server_limiter :: "ServerConfig \<Rightarrow> RateLimiter option" where
  "server_limiter sv = (if rc_Enabled (sv_RateLimit sv) then Some (NewRateLimiter (sv_RateLimit sv)) else None)"

section \<open>Start\<close>

text \<open>
  What the start meets: the database as it is when it is opened, whether the Docker client can be made,
  whether a provider is healthy.
\<close>

record startenv =
  se_cfg :: cfgenv
  se_open :: "database \<Rightarrow> error + store"
  se_docker :: "DockerProviderConfig \<Rightarrow> bool"
  se_healthy :: "string \<Rightarrow> bool"
  se_env :: env

definition not_active :: "string \<Rightarrow> error" where
  "not_active name = Err ErrOther (''The default provider '' @ [CHR 0x27] @ name @ [CHR 0x27] @
     '' is not active or accessible. Please ensure the corresponding service (e.g., Docker daemon) is running and you have the correct permissions before starting stacyvm.'')"

text \<open>A default provider that is registered has to be healthy.\<close>

definition preflight :: "startenv \<Rightarrow> Registry \<Rightarrow> string \<Rightarrow> bool" where
  "preflight S r name = (case registry_Get r name of Inl _ \<Rightarrow> True | Inr prov \<Rightarrow> se_healthy S prov)"

text \<open>The settings of the API with the manager that it serves.\<close>

definition runServe :: "startenv \<Rightarrow> error + ServerConfig \<times> mgr" where
  "runServe S =
     (case Load (se_cfg S) of
        Inl e \<Rightarrow> Inl e
      | Inr c \<Rightarrow>
     (case store_Open (cfg_Database c) of
        Inl e \<Rightarrow> Inl e
      | Inr db \<Rightarrow>
     (case se_open S db of
        Inl e \<Rightarrow> Inl e
      | Inr st \<Rightarrow>
          (let r = serve_registry (se_cfg S) (se_docker S (docker_settings c)) c; name = default_provider (se_cfg S) c in
           if \<not> preflight S r name then Inl (not_active name)
           else (case Reconcile (se_env S) (NewManager r st NewEventBus (manager_settings c)) of
                   (Some e, m) \<Rightarrow> Inl e
                 | (None, m) \<Rightarrow> Inr (server_settings c, InitVMPool m))))))"

section \<open>TLS of the worker RPC\<close>

text \<open>Reading key pairs and certificates is the system's and the library's.\<close>

record tlsenv =
  te_key_pair :: "string \<Rightarrow> string \<Rightarrow> error option"
  te_read :: "string \<Rightarrow> error + string"
  te_has_certs :: "string \<Rightarrow> bool"

definition loadCertPool :: "tlsenv \<Rightarrow> string \<Rightarrow> error option" where
  "loadCertPool E path =
     (case te_read E path of
        Inl e \<Rightarrow> Some e
      | Inr data \<Rightarrow> if te_has_certs E data then None else Some (Err ErrOther (''no PEM certificates found in '' @ path)))"

text \<open>The certificate that the server shows and, if clients have to show one, the pool to check it against.\<close>

record tls_server =
  tsv_Certificate :: "string \<times> string"
  tsv_ClientCAs :: "string option"

definition tls_ServerConfig :: "tlsenv \<Rightarrow> WorkerRPCTLSSection \<Rightarrow> error + tls_server option" where
  "tls_ServerConfig E c =
     (if \<not> tls_Enabled c then Inr None
      else if TrimSpace (tls_ServerCertFile c) = [] \<or> TrimSpace (tls_ServerKeyFile c) = []
      then Inl (Err ErrOther ''worker RPC TLS server cert and key files are required'')
      else case te_key_pair E (tls_ServerCertFile c) (tls_ServerKeyFile c) of
        Some e \<Rightarrow> Inl (wrap_err ''load worker RPC server certificate'' e)
      | None \<Rightarrow>
          (let s = \<lparr>tsv_Certificate = (tls_ServerCertFile c, tls_ServerKeyFile c), tsv_ClientCAs = None\<rparr> in
           if TrimSpace (tls_ClientCAFile c) = [] then Inr (Some s)
           else case loadCertPool E (tls_ClientCAFile c) of
             Some e \<Rightarrow> Inl (wrap_err ''load worker RPC client CA'' e)
           | None \<Rightarrow> Inr (Some (s\<lparr>tsv_ClientCAs := Some (tls_ClientCAFile c)\<rparr>))))"

record tls_client =
  tcl_ServerName :: string
  tcl_InsecureSkipVerify :: bool
  tcl_RootCAs :: "string option"
  tcl_Certificate :: "(string \<times> string) option"

definition tls_client_certificate :: "tlsenv \<Rightarrow> WorkerRPCTLSSection \<Rightarrow> tls_client \<Rightarrow> error + tls_client" where
  "tls_client_certificate E c t =
     (if TrimSpace (tls_ClientCertFile c) = [] \<and> TrimSpace (tls_ClientKeyFile c) = [] then Inr t
      else if TrimSpace (tls_ClientCertFile c) = [] \<or> TrimSpace (tls_ClientKeyFile c) = []
      then Inl (Err ErrOther ''worker RPC TLS client cert and key files must be configured together'')
      else case te_key_pair E (tls_ClientCertFile c) (tls_ClientKeyFile c) of
        Some e \<Rightarrow> Inl (wrap_err ''load worker RPC client certificate'' e)
      | None \<Rightarrow> Inr (t\<lparr>tcl_Certificate := Some (tls_ClientCertFile c, tls_ClientKeyFile c)\<rparr>))"

definition tls_HTTPClient :: "tlsenv \<Rightarrow> WorkerRPCTLSSection \<Rightarrow> error + tls_client option" where
  "tls_HTTPClient E c =
     (if \<not> tls_Enabled c then Inr None
      else
        (let t = \<lparr>tcl_ServerName = TrimSpace (tls_ServerName c), tcl_InsecureSkipVerify = tls_InsecureSkipVerify c,
                  tcl_RootCAs = None, tcl_Certificate = None\<rparr> in
         case (if TrimSpace (tls_CAFile c) = [] then Inr t
               else case loadCertPool E (tls_CAFile c) of
                 Some e \<Rightarrow> Inl (wrap_err ''load worker RPC CA'' e)
               | None \<Rightarrow> Inr (t\<lparr>tcl_RootCAs := Some (tls_CAFile c)\<rparr>)) of
           Inl e \<Rightarrow> Inl e
         | Inr t \<Rightarrow> (case tls_client_certificate E c t of Inl e \<Rightarrow> Inl e | Inr t \<Rightarrow> Inr (Some t))))"

end
