(* ===== verification/Server_Start_Laws.thy ===== *)
theory Server_Start_Laws
  imports Server_Start Reconcile_Laws Sample
begin

text \<open>
  What a server that has started is known to run with: every setting that the validation accepts reaches
  the manager and the limiter as it was written, within the bounds they rely on.
\<close>

section \<open>Validated settings\<close>

lemma first_error_None: "first_error f xs = None \<longleftrightarrow> (\<forall>x\<in>set xs. f x = None)"
  by (induction xs) (auto split: option.split)

lemma parsed_empty [simp]: "parsed [] = 0"
  by (simp add: parsed_def ParseDuration_def)

lemma validDuration:
  assumes "validateDuration name s = None"
  shows "0 \<le> parsed s" and "s \<noteq> [] \<Longrightarrow> ParseDuration s = Inr (parsed s)"
proof -
  have "0 \<le> parsed s \<and> (s \<noteq> [] \<longrightarrow> ParseDuration s = Inr (parsed s))"
  proof (cases "s = []")
    case False
    then show ?thesis
      using assms by (auto simp: validateDuration_def parsed_def split: if_splits sum.splits)
  qed simp
  then show "0 \<le> parsed s" and "s \<noteq> [] \<Longrightarrow> ParseDuration s = Inr (parsed s)" by simp_all
qed

lemma Validate_durations:
  assumes "Validate E c = None" and "\<And>xs. set (ce_order E xs) = set xs" and "s \<in> snd ` set (duration_fields c)"
  shows "0 \<le> parsed s" and "s \<noteq> [] \<Longrightarrow> ParseDuration s = Inr (parsed s)"
proof -
  from assms(3) obtain name where "(name, s) \<in> set (duration_fields c)" by auto
  then have "validateDuration name s = None"
    using assms(1,2) by (auto simp: Validate_def first_error_None split: option.splits)
  from validDuration [OF this] show "0 \<le> parsed s" and "s \<noteq> [] \<Longrightarrow> ParseDuration s = Inr (parsed s)" by simp_all
qed

lemma Validate_limits: "Validate E c = None \<Longrightarrow> validate_limits c = None"
  by (auto simp: Validate_def split: option.splits)

lemma load_valid: "load E ps req = Inr c \<Longrightarrow> Validate E c = None"
  by (auto simp: load_def split: sum.splits option.splits)

lemma Load_valid: "Load E = Inr c \<Longrightarrow> Validate E c = None"
  by (simp add: Load_def load_valid)

text \<open>A conditional update as an update by a condition.\<close>

lemma conditional_updates:
  "(if b then mc_defaultTTL_update (\<lambda>_. x0) r0 else r0) = mc_defaultTTL_update (\<lambda>y. if b then x0 else y) r0"
  "(if b then mc_defaultImage_update (\<lambda>_. x1) r0 else r0) = mc_defaultImage_update (\<lambda>y. if b then x1 else y) r0"
  "(if b then mc_defaultMemory_update (\<lambda>_. x2) r0 else r0) = mc_defaultMemory_update (\<lambda>y. if b then x2 else y) r0"
  "(if b then mc_defaultVCPUs_update (\<lambda>_. x3) r0 else r0) = mc_defaultVCPUs_update (\<lambda>y. if b then x3 else y) r0"
  "(if b then mc_workerID_update (\<lambda>_. x4) r0 else r0) = mc_workerID_update (\<lambda>y. if b then x4 else y) r0"
  "(if b then lim_SpawnOverflow_update (\<lambda>_. x5) r1 else r1) = lim_SpawnOverflow_update (\<lambda>y. if b then x5 else y) r1"
  "(if b then lim_SpawnQueueTimeout_update (\<lambda>_. x6) r1 else r1) = lim_SpawnQueueTimeout_update (\<lambda>y. if b then x6 else y) r1"
  "(if b then lim_MaxSpawnQueue_update (\<lambda>_. x7) r1 else r1) = lim_MaxSpawnQueue_update (\<lambda>y. if b then x7 else y) r1"
  by simp_all

text \<open>The settings the manager keeps when it is made.\<close>

lemma NewManager_cfg:
  "lim_MaxSandboxes (m_limits (NewManager r st eb c)) = lim_MaxSandboxes (mc_limits c)"
  "lim_MaxSandboxesPerOwner (m_limits (NewManager r st eb c)) = lim_MaxSandboxesPerOwner (mc_limits c)"
  "lim_DefaultExecTimeout (m_limits (NewManager r st eb c)) = lim_DefaultExecTimeout (mc_limits c)"
  "lim_MaxExecTimeout (m_limits (NewManager r st eb c)) = lim_MaxExecTimeout (mc_limits c)"
  "lim_MaxTTL (m_limits (NewManager r st eb c)) = lim_MaxTTL (mc_limits c)"
  "lim_SpawnOverflow (m_limits (NewManager r st eb c)) = (if lim_SpawnOverflow (mc_limits c) = [] then ''reject'' else lim_SpawnOverflow (mc_limits c))"
  "lim_SpawnQueueTimeout (m_limits (NewManager r st eb c)) = (if lim_SpawnQueueTimeout (mc_limits c) = 0 then 30 * Second else lim_SpawnQueueTimeout (mc_limits c))"
  "lim_MaxSpawnQueue (m_limits (NewManager r st eb c)) = (if lim_MaxSpawnQueue (mc_limits c) = 0 then 100 else lim_MaxSpawnQueue (mc_limits c))"
  "mc_defaultTTL (m_cfg (NewManager r st eb c)) = (if mc_defaultTTL c = 0 then 30 * Minute else mc_defaultTTL c)"
  "m_registry (NewManager r st eb c) = r"
  unfolding NewManager_def Let_def conditional_updates by simp_all

lemma Reconcile_settings:
  "m_cfg (snd (Reconcile E m)) = m_cfg m \<and> m_registry (snd (Reconcile E m)) = m_registry m"
proof (cases "ListSandboxes E (m_store m)")
  case (Inr records)
  obtain err m' where each: "each (reconcile_record E) records m = (err, m')" by force
  then have "m_cfg m' = m_cfg m \<and> m_registry m' = m_registry m"
    using records_cfg [of E records m] by simp
  then show ?thesis
    using reconcileProviderRuntimes_adoption [of E m' "map sr_ID records"] Inr each
    by (simp add: Reconcile_def adoption_def split: option.split)
qed (simp add: Reconcile_def)

lemma InitVMPool_settings [simp]: "m_cfg (InitVMPool m) = m_cfg m" "m_registry (InitVMPool m) = m_registry m"
  by (simp_all add: InitVMPool_def)

text \<open>What a started server consists of.\<close>

lemma runServe_parts:
  assumes "runServe S = Inr (sv, m)"
  obtains c st where "Load (se_cfg S) = Inr c" and "sv = server_settings c"
    and "m_cfg m = m_cfg (NewManager (m_registry m) st NewEventBus (manager_settings c))"
    and "m_registry m = serve_registry (se_cfg S) (se_docker S (docker_settings c)) c"
    and "\<And>name. registry_Get (m_registry m) (default_provider (se_cfg S) c) = Inr name \<Longrightarrow> se_healthy S name"
proof -
  from assms obtain c db st m0 where c: "Load (se_cfg S) = Inr c" and sv: "sv = server_settings c"
    and ok: "preflight S (serve_registry (se_cfg S) (se_docker S (docker_settings c)) c) (default_provider (se_cfg S) c)"
    and m0: "Reconcile (se_env S) (NewManager (serve_registry (se_cfg S) (se_docker S (docker_settings c)) c) st NewEventBus
               (manager_settings c)) = (None, m0)" and m: "m = InitVMPool m0"
    by (auto simp: runServe_def Let_def split: sum.splits prod.splits option.splits if_splits)
  have "m_registry m = serve_registry (se_cfg S) (se_docker S (docker_settings c)) c"
    and "m_cfg m = m_cfg (NewManager (m_registry m) st NewEventBus (manager_settings c))"
    using Reconcile_settings [of "se_env S"] m0 by (simp_all add: m NewManager_cfg) (metis snd_conv NewManager_cfg(10))+
  then show ?thesis
    using that [OF c sv, of st] ok by (simp add: preflight_def split: sum.splits)
qed

lemma serve_default:
  assumes "rg_dflt (serve_registry E ok c) \<noteq> []"
  shows "registry_Get (serve_registry E ok c) (default_provider E c) = Inr (rg_dflt (serve_registry E ok c))"
proof -
  have dflt: "rg_dflt (fold (\<lambda>(name, lister). registry_Register name lister) ps r) = rg_dflt r" for ps r
    by (induction ps arbitrary: r) (auto simp: registry_Register_def)
  show ?thesis
    using assms by (auto simp: serve_registry_def registry_SetDefault_def registry_Get_def dflt split: option.splits)
qed

text \<open>
  A duration as it was written: empty or zero stands for the default \<open>dflt\<close>, anything else for itself.
\<close>

definition as_written :: "string \<Rightarrow> duration \<Rightarrow> duration \<Rightarrow> bool" where
  "as_written s dflt v \<longleftrightarrow> (if s = [] \<or> ParseDuration s = Inr 0 then v = dflt else ParseDuration s = Inr v \<and> 0 < v)"

lemma as_written_parsed:
  assumes "Validate E c = None" and "\<And>xs. set (ce_order E xs) = set xs" and "s \<in> snd ` set (duration_fields c)"
  shows "as_written s dflt (if parsed s = 0 then dflt else parsed s)"
proof (cases "s = []")
  case False
  then have "0 \<le> parsed s" "ParseDuration s = Inr (parsed s)" using Validate_durations [OF assms] by simp_all
  then show ?thesis by (simp add: as_written_def)
qed (simp add: as_written_def)

lemmas as_written_zero = as_written_parsed [where dflt = 0, simplified]

lemma as_written_nonneg: "as_written s dflt v \<Longrightarrow> 0 \<le> dflt \<Longrightarrow> 0 \<le> v"
  by (auto simp: as_written_def split: if_splits)

lemma key_names:
  assumes "k \<in> {[], ''owner'', ''api_key'', ''ip''}"
  shows "(let k = TrimSpace (ToLower k) in if k = [] then ''owner'' else k) = (if k = [] then ''owner'' else k)"
proof -
  have "\<forall>k\<in>set [[], ''owner'', ''api_key'', ''ip''].
      (let k = TrimSpace (ToLower k) in if k = [] then ''owner'' else k) = (if k = [] then ''owner'' else k)"
    by code_simp
  moreover have "k \<in> set [[], ''owner'', ''api_key'', ''ip'']" using assms by simp
  ultimately show ?thesis by (rule bspec)
qed

text \<open>The limiter of a section of the configuration: off, or with the section's numbers.\<close>

definition limiter_in_force :: "RateLimitSection \<Rightarrow> RateLimiter option \<Rightarrow> bool" where
  "limiter_in_force r lim \<longleftrightarrow>
     (case lim of
        None \<Rightarrow> \<not> rlc_Enabled r
      | Some rl \<Rightarrow>
          rlc_Enabled r \<and> rl_disabled rl = (rlc_RequestsPerMinute r = 0) \<and>
          0 \<le> rl_requestsPerMinute rl \<and> rl_requestsPerMinute rl = rlc_RequestsPerMinute r \<and>
          0 \<le> rl_burst rl \<and> rl_burst rl = (if rlc_Burst r = 0 then rlc_RequestsPerMinute r else rlc_Burst r) \<and>
          rl_keyBy rl = (if rlc_KeyBy r = [] then ''owner'' else rlc_KeyBy r) \<and>
          rl_keyBy rl \<in> {''owner'', ''api_key'', ''ip''} \<and>
          as_written (rlc_BucketTTL r) (15 * Minute) (rl_bucketTTL rl) \<and> 0 < rl_bucketTTL rl \<and>
          as_written (rlc_CleanupInterval r) Minute (rl_cleanupInterval rl) \<and> 0 < rl_cleanupInterval rl)"

lemma limiter_settings:
  assumes v: "Validate E c = None" and o: "\<And>xs. set (ce_order E xs) = set xs"
  shows "limiter_in_force (cfg_RateLimit c) (server_limiter (server_settings c))"
proof -
  let ?r = "cfg_RateLimit c" and ?rl = "NewRateLimiter (sv_RateLimit (server_settings c))"
  have l: "0 \<le> rlc_RequestsPerMinute ?r" "0 \<le> rlc_Burst ?r" and key: "rlc_KeyBy ?r \<in> {[], ''owner'', ''api_key'', ''ip''}"
    using Validate_limits [OF v] by (auto simp: validate_limits_def isOneOf_def Let_def split: if_splits)
  have b: "rl_bucketTTL ?rl = (if parsed (rlc_BucketTTL ?r) = 0 then 15 * Minute else parsed (rlc_BucketTTL ?r))"
    "rl_cleanupInterval ?rl = (if parsed (rlc_CleanupInterval ?r) = 0 then Minute else parsed (rlc_CleanupInterval ?r))"
    "rl_keyBy ?rl = (if rlc_KeyBy ?r = [] then ''owner'' else rlc_KeyBy ?r)"
    using key_names [OF key] by (simp_all add: NewRateLimiter_def server_settings_def Let_def)
  have t: "as_written (rlc_BucketTTL ?r) (15 * Minute) (rl_bucketTTL ?rl)"
    "as_written (rlc_CleanupInterval ?r) Minute (rl_cleanupInterval ?rl)"
    unfolding b by (rule as_written_parsed [OF v o], simp add: duration_fields_def Let_def)+
  then have pos: "0 < rl_bucketTTL ?rl" "0 < rl_cleanupInterval ?rl" by (simp_all add: as_written_def split: if_splits)
  have n: "rl_requestsPerMinute ?rl = rlc_RequestsPerMinute ?r"
    "rl_burst ?rl = (if rlc_Burst ?r = 0 then rlc_RequestsPerMinute ?r else rlc_Burst ?r)"
    "rl_disabled ?rl = (\<not> rlc_Enabled ?r \<or> rlc_RequestsPerMinute ?r = 0)"
    using l by (simp_all add: NewRateLimiter_def server_settings_def Let_def)
  have e: "rc_Enabled (sv_RateLimit (server_settings c)) = rlc_Enabled ?r" by (simp add: server_settings_def Let_def)
  from key have "rl_keyBy ?rl \<in> {''owner'', ''api_key'', ''ip''}" by (auto simp: b(3))
  then show ?thesis
    using t pos l by (simp add: limiter_in_force_def server_limiter_def e n b(3))
qed

section \<open>A started server\<close>

text \<open>
  What the code relies on: every limit and every duration is the one written down, with the defaults that
  stand for an empty or a zero one; the limits are non-negative and the queue has room and patience.
\<close>

definition in_force :: "Config \<Rightarrow> mgr \<Rightarrow> bool" where
  "in_force c m \<longleftrightarrow>
     (let l = m_limits m; d = cfg_Defaults c in
      as_written (dfl_MaxTTL d) 0 (lim_MaxTTL l) \<and>
      as_written (dfl_DefaultExecTimeout d) 0 (lim_DefaultExecTimeout l) \<and>
      as_written (dfl_MaxExecTimeout d) 0 (lim_MaxExecTimeout l) \<and>
      as_written (dfl_TTL d) (30 * Minute) (mc_defaultTTL (m_cfg m)) \<and> 0 < mc_defaultTTL (m_cfg m) \<and>
      as_written (dfl_SpawnQueueTimeout d) (30 * Second) (lim_SpawnQueueTimeout l) \<and> 0 < lim_SpawnQueueTimeout l \<and>
      0 \<le> lim_MaxSandboxes l \<and> lim_MaxSandboxes l = dfl_MaxSandboxes d \<and>
      0 \<le> lim_MaxSandboxesPerOwner l \<and> lim_MaxSandboxesPerOwner l = dfl_MaxSandboxesPerOwner d \<and>
      lim_SpawnOverflow l = (if dfl_SpawnOverflow d = [] then ''reject'' else dfl_SpawnOverflow d) \<and>
      lim_SpawnOverflow l \<in> {''reject'', ''queue''} \<and>
      0 < lim_MaxSpawnQueue l \<and> lim_MaxSpawnQueue l = (if dfl_MaxSpawnQueue d = 0 then 100 else dfl_MaxSpawnQueue d))"

lemma in_force_settings:
  assumes v: "Validate E c = None" and o: "\<And>xs. set (ce_order E xs) = set xs"
    and m: "m_cfg m = m_cfg (NewManager r st eb (manager_settings c))"
  shows "in_force c m"
proof -
  let ?d = "cfg_Defaults c" and ?m = "NewManager r st eb (manager_settings c)"
  have f: "s \<in> snd ` set (duration_fields c)"
    if "s \<in> set [dfl_TTL ?d, dfl_MaxTTL ?d, dfl_DefaultExecTimeout ?d, dfl_MaxExecTimeout ?d, dfl_SpawnQueueTimeout ?d]" for s
    using that by (auto simp: duration_fields_def Let_def)
  note z = as_written_zero [OF v o f] and w = as_written_parsed [OF v o f]
  have l: "0 \<le> dfl_MaxSandboxes ?d" "0 \<le> dfl_MaxSandboxesPerOwner ?d" "0 \<le> dfl_MaxSpawnQueue ?d"
    "dfl_SpawnOverflow ?d \<in> {[], ''reject'', ''queue''}"
    using Validate_limits [OF v] by (auto simp: validate_limits_def isOneOf_def Let_def split: if_splits)
  have e: "m_limits m = m_limits ?m" "mc_defaultTTL (m_cfg m) = mc_defaultTTL (m_cfg ?m)" by (simp_all add: m)
  have durations:
    "as_written (dfl_MaxTTL ?d) 0 (lim_MaxTTL (m_limits m))"
    "as_written (dfl_DefaultExecTimeout ?d) 0 (lim_DefaultExecTimeout (m_limits m))"
    "as_written (dfl_MaxExecTimeout ?d) 0 (lim_MaxExecTimeout (m_limits m))"
    "as_written (dfl_TTL ?d) (30 * Minute) (mc_defaultTTL (m_cfg m))"
    "as_written (dfl_SpawnQueueTimeout ?d) (30 * Second) (lim_SpawnQueueTimeout (m_limits m))"
    using z [of "dfl_MaxTTL ?d"] z [of "dfl_DefaultExecTimeout ?d"] z [of "dfl_MaxExecTimeout ?d"]
      w [of "dfl_TTL ?d" "30 * Minute"] w [of "dfl_SpawnQueueTimeout ?d" "30 * Second"]
    by (simp_all add: e NewManager_cfg manager_settings_def Let_def split: if_splits)
  moreover from durations(4,5) have "0 < mc_defaultTTL (m_cfg m)" "0 < lim_SpawnQueueTimeout (m_limits m)"
    by (simp_all add: as_written_def split: if_splits)
  ultimately show ?thesis
    using l by (auto simp: in_force_def e NewManager_cfg manager_settings_def Let_def)
qed

text \<open>
  C36. A server that has started runs with what its validated configuration says. The manager has its limits on
  sandboxes, the overflow mode of its spawn queue and the queue's length (reject and 100 where nothing
  is written). Every duration is in force exactly as it is written and none is negative; an empty or zero
  one stands for its default: no limit for the longest time to live and for the two command timeouts, 30 minutes for
  the time to live, 30 seconds for the wait in the queue, 15 minutes and a minute for the limiter's
  bucket lifetime and sweep. The limiter is there exactly when rate limits are enabled, with the rate, the burst and
  the key that are written. A default provider was healthy when the server started.
\<close>

theorem started_server_configured:
  assumes "runServe S = Inr (sv, m)" and "\<And>xs. set (ce_order (se_cfg S) xs) = set xs"
  shows "\<exists>c. Load (se_cfg S) = Inr c \<and> sv = server_settings c \<and> in_force c m \<and>
           as_written (ath_AdminAuditRetention (cfg_Auth c)) 0 (sv_AdminAuditRetention sv) \<and>
           limiter_in_force (cfg_RateLimit c) (server_limiter sv) \<and>
           (rg_dflt (m_registry m) \<noteq> [] \<longrightarrow> se_healthy S (rg_dflt (m_registry m)))"
proof -
  from assms(1) obtain c st where c: "Load (se_cfg S) = Inr c" and sv: "sv = server_settings c"
    and m: "m_cfg m = m_cfg (NewManager (m_registry m) st NewEventBus (manager_settings c))"
    and r: "m_registry m = serve_registry (se_cfg S) (se_docker S (docker_settings c)) c"
    and h: "\<And>name. registry_Get (m_registry m) (default_provider (se_cfg S) c) = Inr name \<Longrightarrow> se_healthy S name"
    by (rule runServe_parts) blast
  note v = Load_valid [OF c]
  have "rg_dflt (m_registry m) \<noteq> [] \<Longrightarrow> se_healthy S (rg_dflt (m_registry m))"
    using serve_default h by (simp add: r)
  moreover have "in_force c m" by (rule in_force_settings [OF v assms(2) m])
  moreover have "as_written (ath_AdminAuditRetention (cfg_Auth c)) 0 (sv_AdminAuditRetention sv)"
    using as_written_zero [OF v assms(2), of "ath_AdminAuditRetention (cfg_Auth c)"]
    by (simp add: sv server_settings_def duration_fields_def Let_def)
  ultimately show ?thesis
    using c sv limiter_settings [OF v assms(2)] by blast
qed

definition sample_cfgenv :: cfgenv where
  "sample_cfgenv =
     \<lparr>ce_url = (\<lambda>u. Inr \<lparr>ur_Scheme = ''https'', ur_Host = ''host'', ur_Path = [], ur_RawQuery = [], ur_Fragment = []\<rparr>),
      ce_order = (\<lambda>xs. xs), ce_stat = (\<lambda>p. Some (Err ErrOther ''not found'')), ce_read_file = (\<lambda>p. Inr ''secret''),
      ce_parse = (\<lambda>p. None), ce_unmarshal = (\<lambda>file. Inr default_config), ce_home = None, ce_executable = None,
      ce_abs = (\<lambda>p. Some p), ce_look_path = (\<lambda>b. None)\<rparr>"

definition sample_start :: startenv where
  "sample_start =
     \<lparr>se_cfg = sample_cfgenv, se_open = (\<lambda>db. Inr empty_store), se_docker = (\<lambda>d. True), se_healthy = (\<lambda>name. True), se_env = sample_env\<rparr>"

lemma sample_loaded: "Load (se_cfg sample_start) = Inr default_config"
proof -
  have "load sample_cfgenv [''stacyvm.yaml''] False = Inr default_config" by code_simp
  then show ?thesis by (simp add: Load_def sample_start_def sample_cfgenv_def)
qed

definition sample_registry :: Registry where
  "sample_registry = serve_registry (se_cfg sample_start) True default_config"

lemma sample_reconciled:
  "fst (Reconcile sample_env (NewManager sample_registry empty_store NewEventBus (manager_settings default_config))) = None"
  by code_simp

lemma sample_opened: "store_Open (cfg_Database default_config) = Inr (SQLiteAt ''stacyvm.db'')"
  by code_simp

lemma sample_started: "\<exists>x. runServe sample_start = Inr x"
proof -
  obtain m where "Reconcile sample_env (NewManager sample_registry empty_store NewEventBus (manager_settings default_config)) = (None, m)"
    using sample_reconciled by (metis prod.collapse)
  moreover have "preflight sample_start r name" for r name
    by (simp add: preflight_def sample_start_def split: sum.split)
  ultimately show ?thesis
    unfolding runServe_def sample_loaded
    by (simp add: sample_opened sample_registry_def sample_start_def Let_def)
qed

lemma started_server_configured_witness:
  "\<exists>sv m. runServe sample_start = Inr (sv, m) \<and> in_force default_config m \<and> ParseDuration ''24h'' = Inr (lim_MaxTTL (m_limits m))"
proof -
  obtain sv m where start: "runServe sample_start = Inr (sv, m)"
    using sample_started by auto
  have "\<And>xs. set (ce_order (se_cfg sample_start) xs) = set xs" by (simp add: sample_start_def sample_cfgenv_def)
  from started_server_configured [OF start this] obtain c where "Load (se_cfg sample_start) = Inr c" and f: "in_force c m" by blast
  then have "in_force default_config m" by (simp add: sample_loaded)
  moreover from this have "ParseDuration ''24h'' = Inr (lim_MaxTTL (m_limits m))"
    by (simp add: in_force_def as_written_def default_config_def default_DefaultsConfig_def Let_def split: if_splits)
  ultimately show ?thesis using start by blast
qed

end
