(* ===== verification/Worker_Runtime.thy ===== *)
theory Worker_Runtime
  imports API_Admin
begin

text \<open>
  The worker's side of the control plane's worker routes: the client (\<open>internal/worker/client.go\<close>) and the
  loop of a worker process (\<open>internal/worker/runtime.go\<close>).  The connection is a parameter, a transport
  that takes a request to a reply: an error, or the status, the text and what its JSON decodes to.
  A URL that cannot be parsed is an error of the transport.
\<close>

section \<open>The client\<close>

record HeartbeatParams =
  hbp_Hostname :: string
  hbp_Status :: string
  hbp_Providers :: "string list"
  hbp_Capabilities :: "string list"
  hbp_Capacity :: workerCapacity

datatype control_body =
    CB_Heartbeat HeartbeatParams
  | CB_Renew string string
  | CB_Issue string string string

record control_request =
  cq_URL :: string
  cq_Header :: headers
  cq_Body :: control_body

record control_reply =
  cy_Status :: nat
  cy_Text :: string
  cy_Lease :: "LeaseToken option"
  cy_Token :: "string option"

type_synonym 's control = "control_request \<Rightarrow> 's \<Rightarrow> (error + control_reply) \<times> 's"

text \<open>\<open>cc_TokenFunc\<close> is what the function answers this time.\<close>

record Client =
  cc_BaseURL :: string
  cc_WorkerID :: string
  cc_Token :: string
  cc_TokenFunc :: "(error + string) option"

definition client_authToken :: "Client \<Rightarrow> error + string" where
  "client_authToken c =
     (case cc_TokenFunc c of
        Some r \<Rightarrow>
          (case r of
             Inl e \<Rightarrow> Inl e
           | Inr token \<Rightarrow> if TrimSpace token = [] then Inl (Err ErrOther ''worker token is required'') else Inr token)
      | None \<Rightarrow>
          if TrimSpace (cc_Token c) = [] then Inl (Err ErrOther ''worker token is required'') else Inr (cc_Token c))"

definition trim_slashes :: "string \<Rightarrow> string" where
  "trim_slashes s = rev (dropWhile (\<lambda>c. c = slash) (rev s))"

definition control_headers :: "string \<Rightarrow> string \<Rightarrow> headers" where
  "control_headers wid token =
     (\<lambda>_. [])(''Content-Type'' := ''application/json'', ''X-Worker-ID'' := wid, ''X-Worker-Token'' := token)"

definition control_failed :: "string \<Rightarrow> nat \<Rightarrow> control_reply \<Rightarrow> error" where
  "control_failed what limit r =
     Err ErrOther (what @ '': HTTP '' @ Itoa (int (cy_Status r)) @ '': '' @ TrimSpace (take limit (cy_Text r)))"

definition Client_Heartbeat :: "'s control \<Rightarrow> Client \<Rightarrow> HeartbeatParams \<Rightarrow> 's \<Rightarrow> error option \<times> 's" where
  "Client_Heartbeat T c params s =
     (if TrimSpace (cc_BaseURL c) = [] then (Some (Err ErrOther ''control plane URL is required''), s)
      else if TrimSpace (cc_WorkerID c) = [] then (Some (Err ErrOther ''worker id is required''), s)
      else case client_authToken c of
        Inl e \<Rightarrow> (Some e, s)
      | Inr token \<Rightarrow>
          (case T \<lparr>cq_URL = trim_slashes (cc_BaseURL c) @ ''/api/v1/worker/'' @ cc_WorkerID c @ ''/heartbeat'',
                   cq_Header = control_headers (cc_WorkerID c) token, cq_Body = CB_Heartbeat params\<rparr> s of
             (Inl e, s) \<Rightarrow> (Some e, s)
           | (Inr r, s) \<Rightarrow> (if cy_Status r \<ge> 300 then Some (control_failed ''worker heartbeat failed'' 4096 r) else None, s)))"

definition Client_RenewLease :: "'s control \<Rightarrow> Client \<Rightarrow> string \<Rightarrow> string \<Rightarrow> 's \<Rightarrow> (error + LeaseToken) \<times> 's" where
  "Client_RenewLease T c resourceID ttl s =
     (if TrimSpace (cc_BaseURL c) = [] then (Inl (Err ErrOther ''control plane URL is required''), s)
      else if TrimSpace (cc_WorkerID c) = [] then (Inl (Err ErrOther ''worker id is required''), s)
      else case client_authToken c of
        Inl e \<Rightarrow> (Inl e, s)
      | Inr token \<Rightarrow>
          if TrimSpace resourceID = [] then (Inl (Err ErrOther ''lease resource id is required''), s)
          else
            (case T \<lparr>cq_URL = trim_slashes (cc_BaseURL c) @ ''/api/v1/worker/'' @ cc_WorkerID c @ ''/leases/'' @ resourceID @ ''/renew'',
                     cq_Header = control_headers (cc_WorkerID c) token, cq_Body = CB_Renew resourceID ttl\<rparr> s of
               (Inl e, s) \<Rightarrow> (Inl e, s)
             | (Inr r, s) \<Rightarrow>
                 (if cy_Status r \<ge> 300 then Inl (control_failed ''worker lease renewal failed'' 4096 r)
                  else case cy_Lease r of None \<Rightarrow> Inl (Err ErrOther ''EOF'') | Some l \<Rightarrow> Inr l, s)))"

text \<open>One call of the function that \<open>NewIssuerTokenFunc\<close> makes.\<close>

definition issuer_token :: "'s control \<Rightarrow> string \<Rightarrow> string \<Rightarrow> string \<Rightarrow> string \<Rightarrow> 's \<Rightarrow> (error + string) \<times> 's" where
  "issuer_token T url wid adminKey ttl s =
     (case T \<lparr>cq_URL = trim_slashes url @ ''/api/v1/admin/worker-tokens'',
              cq_Header = (\<lambda>_. [])(''Content-Type'' := ''application/json'', ''X-Admin-API-Key'' := adminKey),
              cq_Body = CB_Issue wid (if ttl = [] then ''5m'' else ttl) ''worker:control-plane''\<rparr> s of
        (Inl e, s) \<Rightarrow> (Inl (wrap_err ''issuer: calling control plane'' e), s)
      | (Inr r, s) \<Rightarrow>
          (if cy_Status r \<ge> 300 then Inl (control_failed ''issuer'' 2048 r)
           else case cy_Token r of
             None \<Rightarrow> Inl (Err ErrOther ''issuer: decoding response'')
           | Some t \<Rightarrow> if TrimSpace t = [] then Inl (Err ErrOther ''issuer: response contained no token'') else Inr t, s))"

section \<open>The loop of a worker\<close>

record Runtime =
  ru_Client :: Client
  ru_ListenAddr :: string
  ru_HeartbeatInterval :: duration
  ru_Providers :: "string list"
  ru_Capacity :: workerCapacity
  ru_TLS :: bool

definition rpc_url :: "Runtime \<Rightarrow> string" where
  "rpc_url r =
     (if HasPrefix (ru_ListenAddr r) ''http://'' \<or> HasPrefix (ru_ListenAddr r) ''https://'' then ru_ListenAddr r
      else (if ru_TLS r then ''https'' else ''http'') @ ''://'' @ ru_ListenAddr r)"

text \<open>\<open>hostname\<close> is what the system answers, \<open>None\<close> for an error.\<close>

definition heartbeat_params :: "string \<Rightarrow> Runtime \<Rightarrow> bool \<Rightarrow> HeartbeatParams" where
  "heartbeat_params hostname r draining =
     \<lparr>hbp_Hostname = hostname, hbp_Status = (if draining then ''draining'' else ''online''), hbp_Providers = ru_Providers r,
      hbp_Capabilities = [''remote_worker'', ''heartbeat''],
      hbp_Capacity = (if ru_ListenAddr r \<noteq> [] then (ru_Capacity r)\<lparr>wc_RPCURL := rpc_url r\<rparr> else ru_Capacity r)\<rparr>"

definition runtime_heartbeat :: "'s control \<Rightarrow> string option \<Rightarrow> Runtime \<Rightarrow> bool \<Rightarrow> 's \<Rightarrow> error option \<times> 's" where
  "runtime_heartbeat T hostname r draining s =
     (let host = (case hostname of None \<Rightarrow> cc_WorkerID (ru_Client r) | Some h \<Rightarrow> h) in
      if host = [] then (Some (Err ErrOther ''worker hostname is empty''), s)
      else Client_Heartbeat T (ru_Client r) (heartbeat_params host r draining) s)"

definition RunOnce :: "'s control \<Rightarrow> string option \<Rightarrow> Runtime \<Rightarrow> 's \<Rightarrow> error option \<times> 's" where
  "RunOnce T hostname r s = runtime_heartbeat T hostname r False s"

definition heartbeat_interval :: "Runtime \<Rightarrow> duration" where
  "heartbeat_interval r = (if ru_HeartbeatInterval r = 0 then 30 * Second else ru_HeartbeatInterval r)"

text \<open>
  What the loop waits for: a tick, with whether the server is draining, the end of the context or
  the end of the server.  The first heartbeat has to succeed, later ones are only logged.
\<close>

datatype run_event = RunTick bool "string option" | RunDone error | ServerEnded "error option"

fun run_loop :: "'s control \<Rightarrow> Runtime \<Rightarrow> run_event list \<Rightarrow> 's \<Rightarrow> error option option \<times> 's" where
  "run_loop T r [] s = (None, s)"
| "run_loop T r (RunDone e # es) s = (Some (Some e), s)"
| "run_loop T r (ServerEnded e # es) s = (Some e, s)"
| "run_loop T r (RunTick draining host # es) s = run_loop T r es (snd (runtime_heartbeat T host r draining s))"

text \<open>\<open>server\<close> is the error, if any, of making the RPC server; a drain can reach it before the first heartbeat.\<close>

definition Run ::
  "'s control \<Rightarrow> Runtime \<Rightarrow> error option \<Rightarrow> bool \<Rightarrow> string option \<Rightarrow> run_event list \<Rightarrow> 's \<Rightarrow> error option option \<times> 's" where
  "Run T r server draining hostname es s =
     (if ru_ListenAddr r \<noteq> [] \<and> server \<noteq> None then (Some server, s)
      else case runtime_heartbeat T hostname r (ru_ListenAddr r \<noteq> [] \<and> draining) s of
        (Some e, s) \<Rightarrow> (Some (Some e), s)
      | (None, s) \<Rightarrow> run_loop T r es s)"

section \<open>The control plane at the other end\<close>

text \<open>
  A connection that delivers: the routes of \<open>internal/api/server.go\<close> for workers, by the segments of the
  path.  The text of a reply and its JSON are \<open>txt\<close> and what \<open>lease_reply\<close> gives.
\<close>

definition heartbeat_request :: "HeartbeatParams \<Rightarrow> WorkerHeartbeatRequest" where
  "heartbeat_request p =
     \<lparr>hb_Hostname = hbp_Hostname p, hb_Status = hbp_Status p, hb_Providers = Some (hbp_Providers p),
      hb_Capabilities = Some (hbp_Capabilities p), hb_Capacity = hbp_Capacity p\<rparr>"

definition control_plane ::
  "token_lib \<Rightarrow> WorkerAuthConfig \<Rightarrow> 'e dbenv_scheme \<Rightarrow> string \<Rightarrow> (nat \<Rightarrow> control_reply) \<Rightarrow> store control" where
  "control_plane L cfg E base reply q s =
     (if \<not> HasPrefix (cq_URL q) base then (Inl (Err ErrOther ''no route to host''), s)
      else
        (case (split_on slash (drop (length base) (cq_URL q)), cq_Body q) of
           ([z, api, v1, worker, wid, verb], CB_Heartbeat p) \<Rightarrow>
             (if [z, api, v1, worker, verb] = [[], ''api'', ''v1'', ''worker'', ''heartbeat''] then
                (let (st, s) = worker_routes L cfg E (cq_Header q) (WR_Heartbeat wid (Some (heartbeat_request p))) s in (Inr (reply st), s))
              else (Inr (reply 404), s))
         | ([z, api, v1, worker, wid, leases, res, verb], CB_Renew _ ttl) \<Rightarrow>
             (if [z, api, v1, worker, leases, verb] = [[], ''api'', ''v1'', ''worker'', ''leases'', ''renew''] then
                (let (st, s) = worker_routes L cfg E (cq_Header q) (WR_Renew wid res (Some ttl)) s in (Inr (reply st), s))
              else (Inr (reply 404), s))
         | _ \<Rightarrow> (Inr (reply 404), s)))"

end
