(* ===== verification/Worker_Runtime_Laws.thy ===== *)
theory Worker_Runtime_Laws
  imports Worker_Runtime API_Admin_Laws
begin

text \<open>
  A worker's heartbeat, from its loop through the control plane's route into the table of workers, and
  what the scheduler makes of the row.
\<close>

section \<open>The row of a heartbeat\<close>

lemma row_by_upd_own:
  "(\<And>r. w_ID (f r) = k) \<Longrightarrow> row_by w_ID k (upd_where (\<lambda>r. w_ID r = k) f t) = map_option f (row_by w_ID k t)"
  by (induction t) (auto simp: upd_where_def)

lemma Heartbeat_saved:
  assumes "Heartbeat E i p (Some req) s = (Inr x, s')" and "db_now E \<noteq> 0"
  shows "\<exists>w. row_by w_ID (TrimSpace p) (t_workers s') = Some w \<and> w_ID w = TrimSpace p \<and>
           w_Status w = (if TrimSpace (hb_Status req) = [] then ''online'' else TrimSpace (hb_Status req)) \<and>
           w_Providers w = hb_Providers req \<and> w_Capacity w = hb_Capacity req \<and> w_LastHeartbeat w = db_now E"
    and "k \<noteq> TrimSpace p \<Longrightarrow> row_by w_ID k (t_workers s') = row_by w_ID k (t_workers s)"
proof -
  from assms(1) obtain c where save: "SaveWorker E ((heartbeat_record (db_now E) (TrimSpace p) req)\<lparr>w_CreatedAt := c\<rparr>) s = (None, s')"
  proof -
    have "heartbeat_record (db_now E) (TrimSpace p) req = (heartbeat_record (db_now E) (TrimSpace p) req)\<lparr>w_CreatedAt := 0\<rparr>"
      by (simp add: heartbeat_record_def)
    then have "SaveWorker E (heartbeat_record (db_now E) (TrimSpace p) req) s = (None, s') \<Longrightarrow> thesis"
      using that [of 0] by simp
    with assms(1) that show ?thesis
      by (auto simp: Heartbeat_def Let_def split: if_splits sum.splits prod.splits option.splits)
  qed
  then show "\<exists>w. row_by w_ID (TrimSpace p) (t_workers s') = Some w \<and> w_ID w = TrimSpace p \<and>
           w_Status w = (if TrimSpace (hb_Status req) = [] then ''online'' else TrimSpace (hb_Status req)) \<and>
           w_Providers w = hb_Providers req \<and> w_Capacity w = hb_Capacity req \<and> w_LastHeartbeat w = db_now E"
    using assms(2)
    by (auto simp: SaveWorker_def heartbeat_record_def Let_def row_by_append row_by_upd_own
        dest: row_by_SomeD split: option.splits if_splits)
  show "row_by w_ID k (t_workers s') = row_by w_ID k (t_workers s)" if "k \<noteq> TrimSpace p"
    using save that row_SaveWorker(2) [of E "(heartbeat_record (db_now E) (TrimSpace p) req)\<lparr>w_CreatedAt := c\<rparr>" k s]
    by (auto simp: SaveWorker_def heartbeat_record_def Let_def split: option.splits)
qed

section \<open>The way of a heartbeat\<close>

lemma trimmed_status: "TrimSpace ''online'' = ''online''" "TrimSpace ''draining'' = ''draining''"
  by code_simp+

lemma online_status: "EqualFold ''online'' ''online''" "\<not> EqualFold ''draining'' ''online''"
  by code_simp+

lemma writeRouteError_status: "300 \<le> fst (writeRouteError e)"
  by (simp add: writeRouteError_def WriteError_def Let_def)

lemma Heartbeat_refused: "Heartbeat E i p b s = (Inl y, s') \<Longrightarrow> 300 \<le> fst y"
  using writeRouteError_status
  by (auto simp: Heartbeat_def WriteError_def Let_def split: if_splits option.splits sum.splits prod.splits)

lemma worker_rejected: "and_then (WorkerAuthWithConfig L cfg now h i) (RequireScope sc) = Reject st \<Longrightarrow> 300 \<le> st"
  by (auto simp: WorkerAuthWithConfig_def RequireScope_def Let_def split: if_splits prod.splits option.splits)

lemma worker_heartbeat_accepted:
  assumes "worker_routes L cfg E h (WR_Heartbeat p b) s = (st, s')" and "st < 300"
  obtains i x where "Heartbeat E i p b s = (Inr x, s')"
proof (cases "and_then (WorkerAuthWithConfig L cfg (db_now E) h anonymous) (RequireScope ''worker:heartbeat'')")
  case (Reject n)
  then show ?thesis using assms worker_rejected [OF Reject] by (simp add: worker_routes_def)
next
  case (Next i)
  obtain res where res: "Heartbeat E i p b s = (res, s')"
    using assms(1) Next by (cases "Heartbeat E i p b s") (simp add: worker_routes_def)
  have "answered_status res < 300" using assms Next res by (simp add: worker_routes_def)
  then obtain x where "res = Inr x"
    using Heartbeat_refused [of E i p b s _ s'] res
    by (cases res) (fastforce simp: answered_status_def split: prod.splits)+
  then show ?thesis using that res by simp
qed

lemma worker_segments:
  assumes "slash \<notin> set wid"
  shows "split_on slash (''/api/v1/worker/'' @ wid @ ''/heartbeat'') = [[], ''api'', ''v1'', ''worker'', wid, ''heartbeat'']"
  using assms by (simp add: split_on_append split_on_id)

lemma control_plane_heartbeat:
  assumes "control_plane L cfg E base reply
             \<lparr>cq_URL = base @ ''/api/v1/worker/'' @ wid @ ''/heartbeat'', cq_Header = h, cq_Body = CB_Heartbeat p\<rparr> s = (Inr r, s')"
    and "slash \<notin> set wid" and "cy_Status r < 300" and "\<And>st. cy_Status (reply st) = st"
  obtains i x where "Heartbeat E i wid (Some (heartbeat_request p)) s = (Inr x, s')"
proof -
  have pre: "HasPrefix (base @ t) base" for t by (simp add: HasPrefix_def)
  from assms(1) obtain st where "worker_routes L cfg E h (WR_Heartbeat wid (Some (heartbeat_request p))) s = (st, s')" and "r = reply st"
    using worker_segments [OF assms(2)]
    by (auto simp: control_plane_def pre Let_def split: prod.splits)
  then show thesis
    using that assms(3,4) by (auto elim: worker_heartbeat_accepted)
qed

text \<open>A heartbeat of the loop that brings no error was saved by the control plane.\<close>

lemma runtime_heartbeat_saved:
  assumes "runtime_heartbeat (control_plane L cfg E (trim_slashes (cc_BaseURL (ru_Client r))) reply) host r draining s = (None, s')"
    and "slash \<notin> set (cc_WorkerID (ru_Client r))" and "\<And>st. cy_Status (reply st) = st"
  obtains i x h where
    "Heartbeat E i (cc_WorkerID (ru_Client r)) (Some (heartbeat_request (heartbeat_params h r draining))) s = (Inr x, s')"
proof -
  from assms(1) obtain h where
    "Client_Heartbeat (control_plane L cfg E (trim_slashes (cc_BaseURL (ru_Client r))) reply) (ru_Client r)
       (heartbeat_params h r draining) s = (None, s')"
    by (auto simp: runtime_heartbeat_def Let_def split: if_splits)
  then obtain token y where
    "control_plane L cfg E (trim_slashes (cc_BaseURL (ru_Client r))) reply
       \<lparr>cq_URL = trim_slashes (cc_BaseURL (ru_Client r)) @ ''/api/v1/worker/'' @ cc_WorkerID (ru_Client r) @ ''/heartbeat'',
        cq_Header = control_headers (cc_WorkerID (ru_Client r)) token, cq_Body = CB_Heartbeat (heartbeat_params h r draining)\<rparr> s = (Inr y, s')"
    and "cy_Status y < 300"
    by (auto simp: Client_Heartbeat_def split: if_splits sum.splits prod.splits)
  from control_plane_heartbeat [OF this(1) assms(2) this(2) assms(3)] that show thesis by blast
qed

text \<open>
  C38. A heartbeat that a worker's loop sends without an error decides where sandboxes are placed: the control
  plane has the worker's row with the address of its RPC server, no other row changed, and from then on
  the scheduler takes the worker for a spawn exactly while the heartbeat is not stale (two minutes), the
  worker does not drain, it serves the provider and it has room.
\<close>

theorem heartbeat_steers_placement:
  assumes "runtime_heartbeat (control_plane L cfg E (trim_slashes (cc_BaseURL (ru_Client r))) reply) host r draining s = (None, s')"
    and "slash \<notin> set (cc_WorkerID (ru_Client r))" and "\<And>st. cy_Status (reply st) = st" and "db_now E \<noteq> 0"
  defines "wid \<equiv> TrimSpace (cc_WorkerID (ru_Client r))"
  shows "\<exists>w. row_by w_ID wid (t_workers s') = Some w \<and>
    wc_RPCURL (w_Capacity w) = (if ru_ListenAddr r = [] then wc_RPCURL (ru_Capacity r) else rpc_url r) \<and>
    (\<forall>k. k \<noteq> wid \<longrightarrow> row_by w_ID k (t_workers s') = row_by w_ID k (t_workers s)) \<and>
    (\<forall>now provider active. worker_eligible now provider active w \<longleftrightarrow>
       wid \<noteq> [] \<and> \<not> draining \<and> now - db_now E \<le> 2 * Minute \<and>
       (provider = [] \<or> ru_Providers r = [] \<or> (\<exists>name\<in>set (ru_Providers r). EqualFold (TrimSpace name) provider)) \<and>
       (wc_MaxSandboxes (ru_Capacity r) > 0 \<longrightarrow> active wid < wc_MaxSandboxes (ru_Capacity r)))"
proof -
  from assms(1-3) obtain i x h where
    hb: "Heartbeat E i (cc_WorkerID (ru_Client r)) (Some (heartbeat_request (heartbeat_params h r draining))) s = (Inr x, s')"
    by (rule runtime_heartbeat_saved)
  from Heartbeat_saved(1) [OF hb assms(4)] obtain w where row: "row_by w_ID wid (t_workers s') = Some w"
    and w: "w_ID w = wid" "w_Status w = (if draining then ''draining'' else ''online'')" "w_Providers w = Some (ru_Providers r)"
      "w_Capacity w = (if ru_ListenAddr r \<noteq> [] then (ru_Capacity r)\<lparr>wc_RPCURL := rpc_url r\<rparr> else ru_Capacity r)"
      "w_LastHeartbeat w = db_now E"
    by (auto simp: wid_def heartbeat_request_def heartbeat_params_def trimmed_status)
  have "TrimSpace wid = wid" by (simp add: wid_def)
  then have "worker_eligible now provider active w \<longleftrightarrow>
       wid \<noteq> [] \<and> \<not> draining \<and> now - db_now E \<le> 2 * Minute \<and>
       (provider = [] \<or> ru_Providers r = [] \<or> (\<exists>name\<in>set (ru_Providers r). EqualFold (TrimSpace name) provider)) \<and>
       (wc_MaxSandboxes (ru_Capacity r) > 0 \<longrightarrow> active wid < wc_MaxSandboxes (ru_Capacity r))" for now provider active
    by (auto simp: worker_eligible_def workerSupportsProvider_def workerMaxSandboxes_def w online_status Let_def not_less)
  with row w(4) Heartbeat_saved(2) [OF hb assms(4)] show ?thesis
    by (intro exI [of _ w]) (auto simp: wid_def)
qed

definition sample_runtime :: Runtime where
  "sample_runtime =
     \<lparr>ru_Client = \<lparr>cc_BaseURL = ''http://cp/'', cc_WorkerID = ''w1'', cc_Token = ''t1'', cc_TokenFunc = None\<rparr>,
      ru_ListenAddr = ''10.0.0.7:7424'', ru_HeartbeatInterval = 0, ru_Providers = [''docker''],
      ru_Capacity = \<lparr>wc_MaxSandboxes = 2, wc_RPCURL = [], wc_PreviewDomain = []\<rparr>, ru_TLS = False\<rparr>"

definition sample_reply :: "nat \<Rightarrow> control_reply" where
  "sample_reply st = \<lparr>cy_Status = st, cy_Text = [], cy_Lease = None, cy_Token = None\<rparr>"

definition sample_sent :: "error option \<times> store" where
  "sample_sent =
     runtime_heartbeat (control_plane plain_lib sample_worker_auth sample_env ''http://cp'' sample_reply) (Some ''host'')
       sample_runtime False empty_store"

lemma heartbeat_steers_placement_witness:
  "\<exists>w. row_by w_ID ''w1'' (t_workers (snd sample_sent)) = Some w \<and>
       wc_RPCURL (w_Capacity w) = ''http://10.0.0.7:7424'' \<and>
       worker_eligible (1060 * Second) ''docker'' (\<lambda>_. 1) w \<and> \<not> worker_eligible (1060 * Second) ''docker'' (\<lambda>_. 2) w"
proof -
  have base: "trim_slashes (cc_BaseURL (ru_Client sample_runtime)) = ''http://cp''"
    "TrimSpace (cc_WorkerID (ru_Client sample_runtime)) = ''w1''" "rpc_url sample_runtime = ''http://10.0.0.7:7424''"
    "EqualFold (TrimSpace ''docker'') ''docker''" "fst sample_sent = None"
    by code_simp+
  have sent: "runtime_heartbeat (control_plane plain_lib sample_worker_auth sample_env
        (trim_slashes (cc_BaseURL (ru_Client sample_runtime))) sample_reply) (Some ''host'') sample_runtime False empty_store
      = (None, snd sample_sent)"
    using base(5) by (simp add: base(1) sample_sent_def prod_eq_iff)
  have now: "db_now sample_env = 1000 * Second" by (simp add: sample_env_def)
  show ?thesis
    using heartbeat_steers_placement [OF sent] base(2-4) now
    by (auto simp: sample_runtime_def sample_reply_def)
qed

end
