(* ===== verification/Templates.thy ===== *)
theory Templates
  imports API_Environments Lifecycle
begin

text \<open>
  Templates (\<open>internal/orchestrator/templates.go\<close>), their routes (\<open>internal/api/routes/templates.go\<close>) and
  the pool of sandboxes spawned from them in advance (\<open>internal/orchestrator/pool.go\<close>).  The lists and
  maps of a template are stored as JSON, which reads back as written; a nil list is an empty one.
\<close>

section \<open>The registry of templates\<close>

record Template =
  tp_Name :: string
  tp_Version :: int
  tp_Image :: string
  tp_Description :: string
  tp_Setup :: "string list"
  tp_AllowedHosts :: "string list"
  tp_MemoryMB :: int
  tp_CPUCores :: int
  tp_TTLSeconds :: int
  tp_Env :: metadata
  tp_Secrets :: "SecretConfig list"
  tp_PoolSize :: int
  tp_CreatedAt :: time
  tp_UpdatedAt :: time

definition templateToRecord :: "Template \<Rightarrow> TemplateRecord" where
  "templateToRecord t =
     \<lparr>tr_Name = tp_Name t, tr_Version = tp_Version t, tr_Image = tp_Image t, tr_Description = tp_Description t,
      tr_Setup = tp_Setup t, tr_AllowedHosts = tp_AllowedHosts t, tr_MemoryMB = tp_MemoryMB t, tr_CPUCores = tp_CPUCores t,
      tr_TTLSeconds = tp_TTLSeconds t, tr_Env = tp_Env t, tr_Secrets = tp_Secrets t, tr_PoolSize = tp_PoolSize t,
      tr_CreatedAt = tp_CreatedAt t, tr_UpdatedAt = tp_UpdatedAt t\<rparr>"

definition recordToTemplate :: "TemplateRecord \<Rightarrow> Template" where
  "recordToTemplate r =
     \<lparr>tp_Name = tr_Name r, tp_Version = tr_Version r, tp_Image = tr_Image r, tp_Description = tr_Description r,
      tp_Setup = tr_Setup r, tp_AllowedHosts = tr_AllowedHosts r, tp_MemoryMB = tr_MemoryMB r, tp_CPUCores = tr_CPUCores r,
      tp_TTLSeconds = tr_TTLSeconds r, tp_Env = tr_Env r, tp_Secrets = tr_Secrets r, tp_PoolSize = tr_PoolSize r,
      tp_CreatedAt = tr_CreatedAt r, tp_UpdatedAt = tr_UpdatedAt r\<rparr>"

definition template_defaults :: "Template \<Rightarrow> Template" where
  "template_defaults t =
     (let t = (if tp_Version t = 0 then t\<lparr>tp_Version := 1\<rparr> else t);
          t = (if tp_MemoryMB t = 0 then t\<lparr>tp_MemoryMB := 512\<rparr> else t);
          t = (if tp_CPUCores t = 0 then t\<lparr>tp_CPUCores := 1\<rparr> else t)
      in if tp_TTLSeconds t = 0 then t\<lparr>tp_TTLSeconds := 300\<rparr> else t)"

text \<open>The error, or the template as it was completed.\<close>

definition template_Create :: "'e dbenv_scheme \<Rightarrow> Template \<Rightarrow> store \<Rightarrow> (error + Template) \<times> store" where
  "template_Create E t s =
     (if tp_Name t = [] then (Inl (Err ErrOther ''template name is required''), s)
      else if tp_Image t = [] then (Inl (Err ErrOther ''template image is required''), s)
      else
        (let t = (template_defaults t)\<lparr>tp_CreatedAt := db_now E, tp_UpdatedAt := db_now E\<rparr>;
             (e, s) = CreateTemplate E (templateToRecord t) s
         in (case e of Some e \<Rightarrow> Inl e | None \<Rightarrow> Inr t, s)))"

definition template_Get :: "'e dbenv_scheme \<Rightarrow> string \<Rightarrow> store \<Rightarrow> error + Template" where
  "template_Get E name s = (case GetTemplate E name s of Inl e \<Rightarrow> Inl e | Inr r \<Rightarrow> Inr (recordToTemplate r))"

definition template_List :: "'e dbenv_scheme \<Rightarrow> store \<Rightarrow> error + Template list" where
  "template_List E s = (case ListTemplates E s of Inl e \<Rightarrow> Inl e | Inr rs \<Rightarrow> Inr (map recordToTemplate rs))"

definition template_Update :: "'e dbenv_scheme \<Rightarrow> Template \<Rightarrow> store \<Rightarrow> (error + Template) \<times> store" where
  "template_Update E t s =
     (if tp_Name t = [] then (Inl (Err ErrOther ''template name is required''), s)
      else
        (let t = t\<lparr>tp_UpdatedAt := db_now E\<rparr>; (e, s) = UpdateTemplate E (templateToRecord t) s
         in (case e of Some e \<Rightarrow> Inl e | None \<Rightarrow> Inr t, s)))"

definition template_Delete :: "'e dbenv_scheme \<Rightarrow> string \<Rightarrow> store \<Rightarrow> error option \<times> store" where
  "template_Delete E name s = DeleteTemplate E name s"

definition ToSpawnRequest :: "Template \<Rightarrow> SpawnRequest" where
  "ToSpawnRequest t =
     \<lparr>rq_Image = tp_Image t, rq_Provider = [], rq_MemoryMB = tp_MemoryMB t, rq_VCPUs = tp_CPUCores t,
      rq_TTL = Itoa (tp_TTLSeconds t) @ ''s'', rq_Template = tp_Name t, rq_OwnerID = [], rq_TenantID = [],
      rq_Metadata = [(''template'', tp_Name t)]\<rparr>"

section \<open>The routes\<close>

text \<open>A body is the decoded template, \<open>None\<close> when it does not decode.\<close>

definition templates_Create :: "'e dbenv_scheme \<Rightarrow> Template option \<Rightarrow> store \<Rightarrow> Template answered \<times> store" where
  "templates_Create E body s =
     (case body of
        None \<Rightarrow> (Inl bad_body, s)
      | Some t \<Rightarrow>
          (let (r, s) = template_Create E t s
           in (case r of Inl e \<Rightarrow> Inl (writeRouteError e) | Inr t \<Rightarrow> Inr (201, t), s)))"

definition templates_List :: "'e dbenv_scheme \<Rightarrow> store \<Rightarrow> Template list answered" where
  "templates_List E s = (case template_List E s of Inl e \<Rightarrow> Inl (internal e) | Inr ts \<Rightarrow> Inr (200, ts))"

definition templates_Get :: "'e dbenv_scheme \<Rightarrow> string \<Rightarrow> store \<Rightarrow> Template answered" where
  "templates_Get E name s = (case template_Get E name s of Inl e \<Rightarrow> Inl (writeRouteError e) | Inr t \<Rightarrow> Inr (200, t))"

definition templates_Update :: "'e dbenv_scheme \<Rightarrow> string \<Rightarrow> Template option \<Rightarrow> store \<Rightarrow> Template answered \<times> store" where
  "templates_Update E name body s =
     (case body of
        None \<Rightarrow> (Inl bad_body, s)
      | Some t \<Rightarrow>
          (let (r, s) = template_Update E (t\<lparr>tp_Name := name\<rparr>) s
           in (case r of Inl e \<Rightarrow> Inl (writeRouteError e) | Inr t \<Rightarrow> Inr (200, t), s)))"

definition templates_Delete :: "'e dbenv_scheme \<Rightarrow> string \<Rightarrow> store \<Rightarrow> string answered \<times> store" where
  "templates_Delete E name s =
     (let (r, s) = template_Delete E name s
      in (case r of Some e \<Rightarrow> Inl (writeRouteError e) | None \<Rightarrow> Inr (200, ''deleted''), s))"

text \<open>
  The spawn route takes a provider and a TTL from the body, both empty when it does not decode.
\<close>

definition overridden :: "string \<Rightarrow> string \<Rightarrow> SpawnRequest \<Rightarrow> SpawnRequest" where
  "overridden prov ttl req =
     (let req = (if prov \<noteq> [] then req\<lparr>rq_Provider := prov\<rparr> else req) in if ttl \<noteq> [] then req\<lparr>rq_TTL := ttl\<rparr> else req)"

definition templates_Spawn ::
  "env \<Rightarrow> admission_round list \<Rightarrow> string \<Rightarrow> string \<Rightarrow> string \<Rightarrow> mgr \<Rightarrow> Sandbox answered option \<times> mgr" where
  "templates_Spawn E rounds name prov ttl m =
     (case template_Get E name (m_store m) of
        Inl e \<Rightarrow> (Some (Inl (writeRouteError e)), m)
      | Inr t \<Rightarrow>
          (case Spawn E rounds (overridden prov ttl (ToSpawnRequest t)) m of
             (None, m) \<Rightarrow> (None, m)
           | (Some (Inl e), m) \<Rightarrow> (Some (Inl (writeRouteError e)), m)
           | (Some (Inr sb), m) \<Rightarrow> (Some (Inr (201, sb)), m)))"

section \<open>Pools of sandboxes spawned in advance\<close>

record pool =
  pl_targetSize :: int
  pl_sandboxes :: "string list"

record PoolManager =
  pm_pools :: "(string \<times> pool) list"

definition NewPoolManager :: PoolManager where
  "NewPoolManager = \<lparr>pm_pools = []\<rparr>"

definition pool_Configure :: "string \<Rightarrow> int \<Rightarrow> PoolManager \<Rightarrow> PoolManager" where
  "pool_Configure name target pm =
     (case map_of (pm_pools pm) name of
        Some p \<Rightarrow> pm\<lparr>pm_pools := al_put name (p\<lparr>pl_targetSize := target\<rparr>) (pm_pools pm)\<rparr>
      | None \<Rightarrow> pm\<lparr>pm_pools := al_put name \<lparr>pl_targetSize = target, pl_sandboxes = []\<rparr> (pm_pools pm)\<rparr>)"

text \<open>The first sandbox of the pool, or no id.\<close>

definition pool_Acquire :: "string \<Rightarrow> PoolManager \<Rightarrow> string \<times> PoolManager" where
  "pool_Acquire name pm =
     (case map_of (pm_pools pm) name of
        None \<Rightarrow> ([], pm)
      | Some p \<Rightarrow>
          (case pl_sandboxes p of
             [] \<Rightarrow> ([], pm)
           | i # is \<Rightarrow> (i, pm\<lparr>pm_pools := al_put name (p\<lparr>pl_sandboxes := is\<rparr>) (pm_pools pm)\<rparr>)))"

text \<open>The pools with their target and their size.\<close>

definition pool_Status :: "PoolManager \<Rightarrow> (string \<times> int \<times> nat) list" where
  "pool_Status pm = map (\<lambda>(n, p). (n, pl_targetSize p, length (pl_sandboxes p))) (pm_pools pm)"

definition pool_add :: "string \<Rightarrow> string \<Rightarrow> PoolManager \<Rightarrow> PoolManager" where
  "pool_add name i pm =
     (case map_of (pm_pools pm) name of
        None \<Rightarrow> pm
      | Some p \<Rightarrow> pm\<lparr>pm_pools := al_put name (p\<lparr>pl_sandboxes := pl_sandboxes p @ [i]\<rparr>) (pm_pools pm)\<rparr>)"

definition to_refill :: "PoolManager \<Rightarrow> (string \<times> nat) list" where
  "to_refill pm =
     map (\<lambda>(n, p). (n, nat (pl_targetSize p) - length (pl_sandboxes p)))
       (filter (\<lambda>(n, p). pl_targetSize p > 0 \<and> int (length (pl_sandboxes p)) < pl_targetSize p) (pm_pools pm))"

text \<open>
  One spawn of a refill: its environment and the rounds of its admission, and what other
  goroutines do to the pools meanwhile.
\<close>

record refill_round =
  rf_env :: env
  rf_rounds :: "admission_round list"
  rf_others :: "PoolManager \<Rightarrow> PoolManager"

text \<open>Spawns for one template until enough or the first failure; \<open>None\<close> when a spawn never returns.\<close>

fun refill_one :: "(nat \<Rightarrow> refill_round) \<Rightarrow> string \<Rightarrow> nat \<Rightarrow> PoolManager \<Rightarrow> mgr \<Rightarrow> (PoolManager \<times> mgr) option" where
  "refill_one R name 0 pm m = Some (pm, m)"
| "refill_one R name (Suc n) pm m =
     (case template_Get (rf_env (R n)) name (m_store m) of
        Inl e \<Rightarrow> Some (pm, m)
      | Inr t \<Rightarrow>
          (case Spawn (rf_env (R n)) (rf_rounds (R n)) (ToSpawnRequest t) m of
             (None, m) \<Rightarrow> None
           | (Some (Inl e), m) \<Rightarrow> Some (rf_others (R n) pm, m)
           | (Some (Inr sb), m) \<Rightarrow> refill_one R name n (pool_add name (sb_ID sb) (rf_others (R n) pm)) m))"

fun refill_all :: "(string \<Rightarrow> nat \<Rightarrow> refill_round) \<Rightarrow> (string \<times> nat) list \<Rightarrow> PoolManager \<Rightarrow> mgr \<Rightarrow> (PoolManager \<times> mgr) option" where
  "refill_all R [] pm m = Some (pm, m)"
| "refill_all R ((name, need) # ns) pm m =
     (case refill_one (R name) name need pm m of None \<Rightarrow> None | Some (pm, m) \<Rightarrow> refill_all R ns pm m)"

text \<open>The pools are visited in the order \<open>order\<close> puts their list into (a map has none).\<close>

definition pool_refill ::
  "((string \<times> nat) list \<Rightarrow> (string \<times> nat) list) \<Rightarrow> (string \<Rightarrow> nat \<Rightarrow> refill_round) \<Rightarrow> PoolManager \<Rightarrow> mgr \<Rightarrow> (PoolManager \<times> mgr) option" where
  "pool_refill order R pm m = refill_all R (order (to_refill pm)) pm m"

end
