(* ===== verification/Templates_Laws.thy ===== *)
theory Templates_Laws
  imports Templates Store_Laws Sample
begin

text \<open>
  What a template that was created means for the sandboxes spawned from it.
\<close>

section \<open>Seconds\<close>


section \<open>Records\<close>


lemma template_defaults_simps [simp]:
  "tp_Name (template_defaults t) = tp_Name t" "tp_Image (template_defaults t) = tp_Image t"
  "tp_PoolSize (template_defaults t) = tp_PoolSize t"
  "tp_TTLSeconds (template_defaults t) = (if tp_TTLSeconds t = 0 then 300 else tp_TTLSeconds t)"
  "tp_MemoryMB (template_defaults t) = (if tp_MemoryMB t = 0 then 512 else tp_MemoryMB t)"
  "tp_CPUCores (template_defaults t) = (if tp_CPUCores t = 0 then 1 else tp_CPUCores t)"
  by (simp_all add: template_defaults_def Let_def)









end
