(* ===== verification/API_System.thy ===== *)
theory API_System
  imports API_Admin Lifecycle
begin

text \<open>
  The routes about the system itself: providers (\<open>internal/api/routes/providers.go\<close>, \<open>provider_health.go\<close>),
  snapshots (\<open>snapshots.go\<close>), readiness and metrics (\<open>system.go\<close>, \<open>prometheus.go\<close>), and from
  \<open>internal/api/server.go\<close> the CORS middleware and the server's own worker row.  What a provider answers
  when it is asked, and what the Go runtime says of itself, are parameters.
\<close>

section \<open>Providers\<close>

datatype provider_kind = KFirecracker | KDocker | KPRoot | KCustom | KE2B | KMock | KOther

record probes =
  pb_kind :: "string \<Rightarrow> provider_kind"
  pb_healthy :: "string \<Rightarrow> bool"
  pb_latency :: "string \<Rightarrow> int"
  pb_runtimes :: "string \<Rightarrow> (error + nat) option"
  pb_snapshots :: "string \<Rightarrow> string list option"
  pb_config :: "string \<Rightarrow> (string \<times> string) list"

record ProviderHealth =
  ph_Name :: string
  ph_Default :: bool
  ph_Healthy :: bool
  ph_Error :: string
  ph_LatencyMS :: int
  ph_Capabilities :: "string list"
  ph_RuntimeCount :: "nat option"

fun kind_capabilities :: "provider_kind \<Rightarrow> string list" where
  "kind_capabilities KFirecracker = [''microvm'', ''vsock_agent'']"
| "kind_capabilities KDocker = [''container'']"
| "kind_capabilities KPRoot = [''userspace_isolation'']"
| "kind_capabilities KCustom = [''remote_http'']"
| "kind_capabilities KE2B = [''remote_e2b'']"
| "kind_capabilities KMock = [''test_provider'']"
| "kind_capabilities KOther = []"

definition providerCapabilities :: "probes \<Rightarrow> string \<Rightarrow> string list" where
  "providerCapabilities P name =
     (if pb_runtimes P name \<noteq> None then [''runtime_inventory''] else []) @
     (if pb_snapshots P name \<noteq> None then [''snapshots''] else []) @ kind_capabilities (pb_kind P name)"

definition provider_health :: "probes \<Rightarrow> Registry \<Rightarrow> string \<Rightarrow> ProviderHealth" where
  "provider_health P r name =
     (let base = [''spawn'', ''exec'', ''exec_stream'', ''files'', ''console'', ''health''] in
      case registry_Get r name of
        Inl e \<Rightarrow>
          \<lparr>ph_Name = name, ph_Default = (name = rg_dflt r), ph_Healthy = False, ph_Error = err_msg e, ph_LatencyMS = pb_latency P name,
           ph_Capabilities = base, ph_RuntimeCount = None\<rparr>
      | Inr prov \<Rightarrow>
          (let healthy = pb_healthy P prov; err = (if healthy then [] else ''health check returned false'') in
           \<lparr>ph_Name = name, ph_Default = (name = rg_dflt r), ph_Healthy = healthy,
            ph_Error = (case pb_runtimes P prov of Some (Inl e) \<Rightarrow> if err = [] then ''runtime inventory: '' @ err_msg e else err | _ \<Rightarrow> err),
            ph_LatencyMS = pb_latency P prov, ph_Capabilities = base @ providerCapabilities P prov,
            ph_RuntimeCount = (case pb_runtimes P prov of Some (Inr n) \<Rightarrow> Some n | _ \<Rightarrow> None)\<rparr>))"

definition collectProviderHealth :: "probes \<Rightarrow> Registry \<Rightarrow> ProviderHealth list" where
  "collectProviderHealth P r = map (provider_health P r) (registry_List r)"

definition providers_List :: "probes \<Rightarrow> Registry \<Rightarrow> ProviderHealth list answered" where
  "providers_List P r = Inr (200, collectProviderHealth P r)"

definition providers_Test :: "probes \<Rightarrow> Registry \<Rightarrow> (string \<times> bool) list answered" where
  "providers_Test P r =
     Inr (200, map (\<lambda>n. (n, case registry_Get r n of Inl e \<Rightarrow> False | Inr p \<Rightarrow> pb_healthy P p)) (registry_List r))"

record ProviderDetail =
  pd_Name :: string
  pd_Healthy :: bool
  pd_Default :: bool
  pd_SandboxCount :: int
  pd_Health :: ProviderHealth
  pd_Config :: "(string \<times> string) list"

fun kind_name :: "provider_kind \<Rightarrow> string" where
  "kind_name KDocker = ''docker''"
| "kind_name KFirecracker = ''firecracker''"
| "kind_name KMock = ''mock''"
| "kind_name KPRoot = ''proot''"
| "kind_name k = ''other''"

definition providers_Detail :: "probes \<Rightarrow> string \<Rightarrow> mgr \<Rightarrow> ProviderDetail answered" where
  "providers_Detail P name m =
     (case registry_Get (m_registry m) name of
        Inl e \<Rightarrow> Inl (writeRouteError e)
      | Inr prov \<Rightarrow>
          (let h = provider_health P (m_registry m) name in
          Inr (200, \<lparr>pd_Name = name, pd_Healthy = ph_Healthy h, pd_Default = (name = rg_dflt (m_registry m)),
            pd_SandboxCount = CountByProvider name m, pd_Health = h,
            pd_Config = pb_config P prov @ [(''type'', kind_name (pb_kind P prov))]\<rparr>)))"

definition snapshots_List :: "probes \<Rightarrow> Registry \<Rightarrow> string list answered" where
  "snapshots_List P r = Inr (200, concat (map (\<lambda>n. case pb_snapshots P n of None \<Rightarrow> [] | Some ss \<Rightarrow> ss) (registry_List r)))"

section \<open>Readiness\<close>

text \<open>The status, with the providers that are healthy and all of them.\<close>

definition Ready :: "probes \<Rightarrow> Registry \<Rightarrow> nat \<times> nat \<times> nat" where
  "Ready P r =
     (let items = collectProviderHealth P r; ready = length (filter ph_Healthy items) in
      (if length items = 0 \<or> ready = 0 then 503 else 200, ready, length items))"

section \<open>Metrics\<close>

text \<open>What the runtime says: goroutines and the numbers of \<open>runtime.MemStats\<close>.\<close>

record go_runtime =
  gr_goroutines :: nat
  gr_alloc :: nat
  gr_sys :: nat
  gr_heap :: nat
  gr_gc :: nat

record worker_summary =
  wsum_total :: nat
  wsum_online :: nat
  wsum_stale :: nat
  wsum_unhealthy :: nat
  wsum_items :: "(WorkerRecord \<times> bool) list"
  wsum_error :: "string option"

record lease_summary =
  lsum_total :: nat
  lsum_active :: nat
  lsum_expired :: nat
  lsum_by_holder :: "(string \<times> nat) list"
  lsum_error :: "string option"

record systemMetricsSnapshot =
  sm_uptime :: duration
  sm_runtime :: go_runtime
  sm_sandboxTotal :: nat
  sm_sandboxActive :: nat
  sm_byState :: "(string \<times> nat) list"
  sm_byProvider :: "(string \<times> nat) list"
  sm_byWorker :: "(string \<times> nat) list"
  sm_providerHealth :: "ProviderHealth list"
  sm_healthyProviders :: nat
  sm_eventStats :: EventBusStats
  sm_operations :: "OperationMetrics list"
  sm_scheduler :: SchedulerStatus
  sm_maxSpawnQueue :: int
  sm_queue :: spawnQueueStats
  sm_quotas :: QuotaSummary
  sm_rateLimit :: RateLimitStats
  sm_workers :: worker_summary
  sm_leases :: lease_summary

text \<open>A map from keys to counts, \<open>m[k]++\<close> for every element.\<close>

definition tally :: "string list \<Rightarrow> (string \<times> nat) list" where
  "tally ks = fold (\<lambda>k m. al_put k (Suc (case map_of m k of None \<Rightarrow> 0 | Some n \<Rightarrow> n)) m) ks []"

definition workerSummary :: "'e dbenv_scheme \<Rightarrow> store \<Rightarrow> worker_summary" where
  "workerSummary E s =
     (case ListWorkers E s of
        Inl e \<Rightarrow> \<lparr>wsum_total = 0, wsum_online = 0, wsum_stale = 0, wsum_unhealthy = 0, wsum_items = [], wsum_error = Some (err_msg e)\<rparr>
      | Inr ws \<Rightarrow>
          (let items = map (\<lambda>w. workerResponse w (db_now E)) ws in
           \<lparr>wsum_total = length ws, wsum_online = length (filter (\<lambda>(w, stale). w_Status w = ''online'') items),
            wsum_stale = length (filter snd items), wsum_unhealthy = length (filter (\<lambda>(w, stale). w_Status w = ''unhealthy'') items),
            wsum_items = items, wsum_error = None\<rparr>))"

definition leaseSummary :: "'e dbenv_scheme \<Rightarrow> store \<Rightarrow> lease_summary" where
  "leaseSummary E s =
     (case ListLeases E s of
        Inl e \<Rightarrow> \<lparr>lsum_total = 0, lsum_active = 0, lsum_expired = 0, lsum_by_holder = [], lsum_error = Some (err_msg e)\<rparr>
      | Inr ls \<Rightarrow>
          (let active = filter (\<lambda>l. l_ExpiresAt l > db_now E) ls in
           \<lparr>lsum_total = length ls, lsum_active = length active,
            lsum_expired = length (filter (\<lambda>l. \<not> l_ExpiresAt l > db_now E) ls),
            lsum_by_holder = tally (map l_HolderID active), lsum_error = None\<rparr>))"

text \<open>\<open>rl\<close> is the limiter, if rate limits are on; \<open>up\<close> the time since the start.\<close>

definition no_rate_stats :: RateLimitStats where
  "no_rate_stats = \<lparr>rs_Enabled = False, rs_RequestsPerMinute = 0, rs_Burst = 0, rs_KeyBy = [], rs_ActiveBuckets = 0, rs_AllowedTotal = 0,
     rs_LimitedTotal = 0, rs_EvictedTotal = 0, rs_BucketTTL = 0, rs_CleanupInterval = 0\<rparr>"

definition rateLimitStats :: "RateLimiter option \<Rightarrow> RateLimitStats" where
  "rateLimitStats rl = (case rl of None \<Rightarrow> no_rate_stats | Some rl \<Rightarrow> rate_Stats rl)"

definition collectMetrics ::
  "env \<Rightarrow> probes \<Rightarrow> go_runtime \<Rightarrow> duration \<Rightarrow> RateLimiter option \<Rightarrow> mgr \<Rightarrow> error + systemMetricsSnapshot" where
  "collectMetrics E P g up rl m =
     (case Manager_List E m of
        Inl e \<Rightarrow> Inl e
      | Inr sbs \<Rightarrow>
     (case getQuotaSummary E m of
        Inl e \<Rightarrow> Inl e
      | Inr quotas \<Rightarrow>
          (let byState = tally (map sb_State sbs); health = collectProviderHealth P (m_registry m) in
           Inr \<lparr>sm_uptime = up, sm_runtime = g, sm_sandboxTotal = length sbs,
             sm_sandboxActive = (case map_of byState StateRunning of None \<Rightarrow> 0 | Some n \<Rightarrow> n),
             sm_byState = byState, sm_byProvider = tally (map sb_Provider sbs),
             sm_byWorker = tally (filter (\<lambda>w. w \<noteq> []) (map sb_WorkerID sbs)),
             sm_providerHealth = health, sm_healthyProviders = length (filter ph_Healthy health),
             sm_eventStats = Stats (m_events m), sm_operations = Snapshot (m_metrics m), sm_scheduler = getSchedulerStatus E m,
             sm_maxSpawnQueue = lim_MaxSpawnQueue (m_limits m), sm_queue = m_queueStats m, sm_quotas = quotas,
             sm_rateLimit = rateLimitStats rl, sm_workers = workerSummary E (m_store m), sm_leases = leaseSummary E (m_store m)\<rparr>)))"

definition route_Metrics ::
  "env \<Rightarrow> probes \<Rightarrow> go_runtime \<Rightarrow> duration \<Rightarrow> RateLimiter option \<Rightarrow> mgr \<Rightarrow> systemMetricsSnapshot answered" where
  "route_Metrics E P g up rl m =
     (case collectMetrics E P g up rl m of Inl e \<Rightarrow> Inl (writeRouteError e) | Inr s \<Rightarrow> Inr (200, s))"

text \<open>Diagnostics: the metrics, the limits, and whether the store answers, with the error if not.\<close>

definition Diagnostics ::
  "env \<Rightarrow> probes \<Rightarrow> go_runtime \<Rightarrow> duration \<Rightarrow> RateLimiter option \<Rightarrow> mgr
   \<Rightarrow> (systemMetricsSnapshot \<times> OperationalLimitsInfo \<times> bool \<times> string) answered" where
  "Diagnostics E P g up rl m =
     (case collectMetrics E P g up rl m of
        Inl e \<Rightarrow> Inl (writeRouteError e)
      | Inr s \<Rightarrow>
          Inr (200, s, Limits m, (case ListSandboxes E (m_store m) of Inl e \<Rightarrow> (False, err_msg e) | Inr rs \<Rightarrow> (True, []))))"

section \<open>CORS\<close>

definition normalizeCORSAllowedOrigins :: "string list \<Rightarrow> string list" where
  "normalizeCORSAllowedOrigins os = filter (\<lambda>x. x \<noteq> []) (map TrimSpace os)"

text \<open>The headers set, and the status if the middleware answers the request itself.\<close>

definition corsMiddleware :: "string list \<Rightarrow> string \<Rightarrow> string \<Rightarrow> (string \<times> string) list \<times> nat option" where
  "corsMiddleware allowed meth origin =
     (let origins = normalizeCORSAllowedOrigins allowed; allowAll = origins = [] \<or> ''*'' \<in> set origins; origin = TrimSpace origin;
          base = [(''Access-Control-Allow-Methods'', ''GET, POST, PUT, DELETE, OPTIONS''),
            (''Access-Control-Allow-Headers'', ''Content-Type, X-API-Key, X-Admin-API-Key, X-Request-ID, X-User-ID, X-Tenant-ID, Authorization'')];
          done = (if meth = ''OPTIONS'' then Some 200 else None)
      in if allowAll then (base @ [(''Access-Control-Allow-Origin'', ''*'')], done)
         else if origin = [] then (base, done)
         else if origin \<in> set origins then (base @ [(''Vary'', ''Origin''), (''Access-Control-Allow-Origin'', origin)], done)
         else (base @ [(''Vary'', ''Origin'')], if meth = ''OPTIONS'' then Some 403 else None))"

section \<open>The server's own worker row\<close>

definition local_worker :: "string option \<Rightarrow> time \<Rightarrow> mgr \<Rightarrow> WorkerRecord" where
  "local_worker hostname now m =
     \<lparr>w_ID = ''local'', w_Hostname = (case hostname of None \<Rightarrow> ''local'' | Some h \<Rightarrow> h), w_Status = ''online'',
      w_Providers = Some (registry_List (m_registry m)), w_Capabilities = Some [''api'', ''single_node'', ''spawn'', ''exec'', ''files''],
      w_Capacity = \<lparr>wc_MaxSandboxes = li_MaxSandboxes (Limits m), wc_RPCURL = [], wc_PreviewDomain = []\<rparr>,
      w_LastHeartbeat = now, w_CreatedAt = 0, w_UpdatedAt = 0\<rparr>"

text \<open>A failure is only logged.\<close>

definition register_local :: "env \<Rightarrow> string option \<Rightarrow> mgr \<Rightarrow> mgr" where
  "register_local E hostname m = m\<lparr>m_store := snd (SaveWorker E (local_worker hostname (db_now E) m) (m_store m))\<rparr>"

end
