(* ===== verification/API_Prometheus.thy ===== *)
theory API_Prometheus
  imports API_System
begin

text \<open>
  The text that Prometheus scrapes (\<open>internal/api/routes/prometheus.go\<close>), line by line.
\<close>

definition prom_help :: "string \<Rightarrow> string \<Rightarrow> string list" where
  "prom_help name help = [''# HELP '' @ name @ '' '' @ help, ''# TYPE '' @ name @ '' gauge'']"

text \<open>A sample: the name, the labels with their values quoted, the number.\<close>

definition prom_labels :: "(string \<times> string) list \<Rightarrow> string" where
  "prom_labels ls = (if ls = [] then [] else ''{'' @ join_with CHR '','' (map (\<lambda>(k, v). k @ ''='' @ Quote v) ls) @ ''}'')"

definition prom_sample :: "string \<Rightarrow> (string \<times> string) list \<Rightarrow> int \<Rightarrow> string" where
  "prom_sample name ls v = name @ prom_labels ls @ '' '' @ Itoa v"

definition sortedKeys :: "(string \<times> 'v) list \<Rightarrow> string list" where
  "sortedKeys m = order_by id (map fst m)"

definition boolLabel :: "bool \<Rightarrow> string" where
  "boolLabel b = (if b then ''true'' else ''false'')"

definition prom_counts :: "string \<Rightarrow> string \<Rightarrow> (string \<times> nat) list \<Rightarrow> string list" where
  "prom_counts name label m =
     map (\<lambda>k. prom_sample name [(label, k)] (int (case map_of m k of None \<Rightarrow> 0 | Some n \<Rightarrow> n))) (sortedKeys m)"

definition prom_provider :: "ProviderHealth \<Rightarrow> string list" where
  "prom_provider p =
     [prom_sample ''stacyvm_provider_healthy'' [(''provider'', ph_Name p), (''default'', boolLabel (ph_Default p))] (if ph_Healthy p then 1 else 0),
      prom_sample ''stacyvm_provider_health_latency_milliseconds'' [(''provider'', ph_Name p)] (ph_LatencyMS p)] @
     (case ph_RuntimeCount p of None \<Rightarrow> []
      | Some n \<Rightarrow> [prom_sample ''stacyvm_provider_runtime_sandboxes'' [(''provider'', ph_Name p)] (int n)])"

definition prom_one :: "string \<Rightarrow> string \<Rightarrow> int \<Rightarrow> string list" where
  "prom_one name help v = prom_help name help @ [prom_sample name [] v]"

definition prom_runtime :: "systemMetricsSnapshot \<Rightarrow> string list" where
  "prom_runtime s =
     prom_one ''stacyvm_uptime_seconds'' ''StacyVM API process uptime in seconds.'' (sm_uptime s div Second) @
     prom_one ''stacyvm_runtime_goroutines'' ''Current number of goroutines.'' (int (gr_goroutines (sm_runtime s))) @
     prom_one ''stacyvm_runtime_memory_alloc_bytes'' ''Current allocated memory in bytes.'' (int (gr_alloc (sm_runtime s))) @
     prom_one ''stacyvm_runtime_memory_sys_bytes'' ''Total memory obtained from the OS in bytes.'' (int (gr_sys (sm_runtime s))) @
     prom_one ''stacyvm_runtime_gc_cycles_total'' ''Total completed GC cycles.'' (int (gr_gc (sm_runtime s)))"

definition prom_sandboxes :: "systemMetricsSnapshot \<Rightarrow> string list" where
  "prom_sandboxes s =
     prom_help ''stacyvm_sandboxes_total'' ''Current sandbox records by state and provider.'' @
     prom_counts ''stacyvm_sandboxes_total'' ''state'' (sm_byState s) @
     prom_counts ''stacyvm_sandboxes_by_provider_total'' ''provider'' (sm_byProvider s) @
     prom_counts ''stacyvm_sandboxes_by_worker_total'' ''worker'' (sm_byWorker s) @
     prom_help ''stacyvm_provider_healthy'' ''Provider health status where 1 is healthy and 0 is unhealthy.'' @
     prom_help ''stacyvm_provider_health_latency_milliseconds'' ''Provider health check latency in milliseconds.'' @
     prom_help ''stacyvm_provider_runtime_sandboxes'' ''Runtime sandboxes discovered directly from providers.'' @
     concat (map prom_provider (sm_providerHealth s))"

definition prom_cluster :: "systemMetricsSnapshot \<Rightarrow> string list" where
  "prom_cluster s =
     prom_help ''stacyvm_workers_total'' ''Registered worker count by status bucket.'' @
     map (\<lambda>(k, n). prom_sample ''stacyvm_workers_total'' [(''status'', k)] (int n))
       [(''total'', wsum_total (sm_workers s)), (''online'', wsum_online (sm_workers s)), (''stale'', wsum_stale (sm_workers s)),
        (''unhealthy'', wsum_unhealthy (sm_workers s))] @
     prom_help ''stacyvm_leases_total'' ''Durable lease count by status bucket.'' @
     map (\<lambda>(k, n). prom_sample ''stacyvm_leases_total'' [(''status'', k)] (int n))
       [(''total'', lsum_total (sm_leases s)), (''active'', lsum_active (sm_leases s)), (''expired'', lsum_expired (sm_leases s))] @
     prom_one ''stacyvm_events_total'' ''Total events published by the in-process event bus.'' (int (es_EventsTotal (sm_eventStats s))) @
     prom_one ''stacyvm_event_subscribers'' ''Current event stream subscriber count.'' (int (es_Subscribers (sm_eventStats s))) @
     prom_one ''stacyvm_event_history_size'' ''Current event history item count.'' (int (es_HistorySize (sm_eventStats s)))"

definition prom_queue :: "systemMetricsSnapshot \<Rightarrow> string list" where
  "prom_queue s =
     prom_one ''stacyvm_spawn_queue_depth'' ''Current number of spawn requests waiting for capacity.'' (ss_SpawnQueueDepth (sm_scheduler s)) @
     prom_one ''stacyvm_spawn_queue_capacity'' ''Configured maximum number of queued spawn requests.'' (sm_maxSpawnQueue s) @
     prom_one ''stacyvm_spawn_queue_enqueued_total'' ''Total spawn requests admitted into the capacity wait queue.'' (uint (qs_queuedTotal (sm_queue s))) @
     prom_one ''stacyvm_spawn_queue_dequeued_total'' ''Total spawn requests released from the capacity wait queue.'' (uint (qs_dequeuedTotal (sm_queue s))) @
     prom_one ''stacyvm_spawn_queue_timeout_total'' ''Total spawn requests that timed out while waiting in the capacity queue.'' (uint (qs_timeoutTotal (sm_queue s))) @
     prom_one ''stacyvm_spawn_queue_wait_milliseconds_sum'' ''Total observed spawn queue wait time in milliseconds.'' (ss_SpawnQueueWaitTotalMS (sm_scheduler s)) @
     prom_one ''stacyvm_spawn_queue_wait_milliseconds_count'' ''Total observed spawn queue wait samples.'' (uint (qs_waitCount (sm_queue s))) @
     prom_one ''stacyvm_spawn_queue_wait_milliseconds_max'' ''Maximum observed spawn queue wait time in milliseconds.'' (ss_SpawnQueueWaitMaxMS (sm_scheduler s))"

definition prom_limits :: "systemMetricsSnapshot \<Rightarrow> string list" where
  "prom_limits s =
     prom_one ''stacyvm_owner_quotas_total'' ''Total configured owner quota policies.'' (qy_Total (sm_quotas s)) @
     prom_help ''stacyvm_owner_quota_overrides_total'' ''Total configured owner quota overrides by override type.'' @
     [prom_sample ''stacyvm_owner_quota_overrides_total'' [(''type'', ''max_sandboxes'')] (qy_WithMaxSandboxes (sm_quotas s)),
      prom_sample ''stacyvm_owner_quota_overrides_total'' [(''type'', ''max_ttl'')] (qy_WithMaxTTL (sm_quotas s)),
      prom_sample ''stacyvm_owner_quota_overrides_total'' [(''type'', ''max_exec_timeout'')] (qy_WithMaxExecTimeout (sm_quotas s))] @
     prom_one ''stacyvm_rate_limit_allowed_total'' ''Total API requests allowed by the in-process rate limiter.'' (uint (rs_AllowedTotal (sm_rateLimit s))) @
     prom_one ''stacyvm_rate_limit_blocked_total'' ''Total API requests blocked by the in-process rate limiter.'' (uint (rs_LimitedTotal (sm_rateLimit s))) @
     prom_one ''stacyvm_rate_limit_evicted_buckets_total'' ''Total inactive rate-limit buckets evicted from memory.'' (uint (rs_EvictedTotal (sm_rateLimit s))) @
     prom_one ''stacyvm_rate_limit_active_buckets'' ''Current number of active rate-limit buckets.'' (int (rs_ActiveBuckets (sm_rateLimit s)))"

definition operation_samples :: "OperationMetrics \<Rightarrow> string list" where
  "operation_samples o1 =
     (let ls = [(''operation'', om_Operation o1), (''provider'', om_Provider o1)] in
      [prom_sample ''stacyvm_operation_success_total'' ls (uint (om_SuccessTotal o1)),
       prom_sample ''stacyvm_operation_failure_total'' ls (uint (om_FailureTotal o1)),
       prom_sample ''stacyvm_operation_latency_milliseconds_sum'' ls (uint (om_LatencyTotalMS o1)),
       prom_sample ''stacyvm_operation_latency_milliseconds_count'' ls (uint (om_LatencyCount o1)),
       prom_sample ''stacyvm_operation_latency_milliseconds_max'' ls (uint (om_LatencyMaxMS o1))])"

definition writeOperationMetrics :: "OperationMetrics list \<Rightarrow> string list" where
  "writeOperationMetrics os =
     prom_help ''stacyvm_operation_success_total'' ''Total successful operations by operation and provider.'' @
     prom_help ''stacyvm_operation_failure_total'' ''Total failed operations by operation and provider.'' @
     prom_help ''stacyvm_operation_latency_milliseconds_sum'' ''Total operation latency in milliseconds by operation and provider.'' @
     prom_help ''stacyvm_operation_latency_milliseconds_count'' ''Total observed operation latency samples by operation and provider.'' @
     prom_help ''stacyvm_operation_latency_milliseconds_max'' ''Maximum observed operation latency in milliseconds by operation and provider.'' @
     concat (map operation_samples os)"

definition writePrometheusMetrics :: "systemMetricsSnapshot \<Rightarrow> string list" where
  "writePrometheusMetrics s =
     prom_runtime s @ prom_sandboxes s @ prom_cluster s @ prom_queue s @ prom_limits s @ writeOperationMetrics (sm_operations s)"

definition PrometheusMetrics ::
  "env \<Rightarrow> probes \<Rightarrow> go_runtime \<Rightarrow> duration \<Rightarrow> RateLimiter option \<Rightarrow> mgr \<Rightarrow> string list answered" where
  "PrometheusMetrics E P g up rl m =
     (case collectMetrics E P g up rl m of Inl e \<Rightarrow> Inl (writeRouteError e) | Inr s \<Rightarrow> Inr (200, writePrometheusMetrics s))"

end
