(* ===== verification/Spec2Isabelle.thy ===== *)
theory Spec2Isabelle
  imports Reconcile_Laws Provider_Exec Agent_Frame Auth_Laws Worker_RPC_Laws API_Laws Rate_Limit Environments_Laws
    Provider_PRoot_Laws Firecracker_Agent Provider_Docker_Laws API_Admin_Laws Store_Postgres_Laws
    Provider_Remote_Laws Server_Start_Laws Worker_Runtime_Laws Templates_Laws API_Prometheus
begin

text \<open>
  Stacy VM hands out sandboxes (containers, microVMs, prooted processes) over an HTTP API.  A
  control plane keeps the sandboxes in a database, admits and places spawns, runs commands and
  file operations through a provider, shares VMs between users, and talks to remote workers that
  run providers of their own.  This development models that control plane, from the HTTP routes
  down to the calls of the providers and the statements of the database, and proves what makes
  each part right; where the code is not right, the theorem says what it does instead.

  \<^bold>\<open>How the parts interact.\<close>  A request passes the middleware (authentication, rate limit, policies,
  scopes), reaches a route, and the route calls the \<open>Manager\<close> of
  \<open>internal/orchestrator/manager.go\<close> or a method of the store.  The manager holds the cache of
  sandboxes, the spawn queue, the pool of shared VMs, the event bus and the metrics; it calls a
  provider of its registry, or the RPC client when a remote worker was chosen.  The worker's RPC
  server checks the caller and its lease in the shared database before it calls its provider.  At
  startup \<open>Reconcile\<close> compares the table with what the providers run.

  \<^bold>\<open>The theories.\<close>
  \<^item> \<open>Prelude\<close>: errors, Go's integers, tables as lists of rows with their laws, collections of facts.
    \<open>Go_Strings\<close>, \<open>Go_Numbers\<close>, \<open>Go_Path\<close>, \<open>Go_Duration\<close>, \<open>Go_URL\<close>: what the code uses of \<open>strings\<close>, \<open>strconv\<close>,
    \<open>path/filepath\<close>, \<open>time\<close> and \<open>net/url\<close>, with the round trips of durations and of escaped URLs.
  \<^item> \<open>Store_Types\<close>, \<open>Store\<close>, \<open>Store_Admin\<close> (\<open>internal/store\<close>): rows, tables and every method of the SQLite
    store.  \<open>Store_Laws\<close>: the key invariant \<open>store_ok\<close>, kept by every method, and two interfaces as
    locales, \<open>upsert_table\<close> (quotas and workers) and \<open>lease_service\<close> (exclusive leases).  \<open>Store_Writes\<close>:
    the writes of the interface as a datatype and the typing of the tables they keep.
    \<open>Store_Postgres\<close>, \<open>Store_Postgres_Laws\<close>: the methods over PostgreSQL, with its columns, constraints and
    orders, and that its writes are those of SQLite.
  \<^item> \<open>Events\<close>, \<open>Metrics\<close>, \<open>VM_Pool\<close> (locale \<open>slot_pool\<close>: the count of a VM is the number of its users),
    \<open>Scheduler\<close>, \<open>Quotas\<close>: the parts of the manager with a state or a decision of their own.
  \<^item> \<open>Manager_State\<close>: the record \<open>mgr\<close> of the manager, its configuration and helpers; \<open>Manager_Frame\<close>: what
    each small effect leaves alone; \<open>Admission\<close>: limits and the bounded queue; \<open>Lifecycle\<close> and
    \<open>Lifecycle_Laws\<close>: spawn, destroy, prune, TTL; \<open>Exec_Files\<close> and \<open>Exec_Files_Laws\<close>: commands, streams and
    files; \<open>Reconcile\<close> and \<open>Reconcile_Laws\<close>: startup recovery; \<open>Templates\<close> and \<open>Templates_Laws\<close>: templates,
    their routes and the pools spawned in advance.  \<open>Sample\<close>: the server of the witnesses.
  \<^item> \<open>Provider_Exec\<close> (\<open>internal/providers\<close>: command lines, the console buffer, locale \<open>text_sink\<close>),
    \<open>Agent_Frame\<close> (\<open>internal/agentproto\<close>).  \<open>Host_OS\<close>: the calls of the operating system, logged and answered
    by parameters.  \<open>Provider_Contract\<close>: the locale \<open>sandbox_provider\<close>, what every provider owes its
    callers.  \<open>Provider_Mock\<close>, \<open>Provider_PRoot\<close> with \<open>Provider_PRoot_Laws\<close>, and \<open>Firecracker\<close>, \<open>Firecracker_VM\<close>,
    \<open>Firecracker_Ops\<close> with \<open>Firecracker_Laws\<close>: the providers, interpreting it.  \<open>Provider_Docker\<close>,
    \<open>Provider_Docker_Laws\<close>: the Docker provider over a daemon.  \<open>Provider_Remote\<close>, \<open>Provider_Remote_Laws\<close>: the
    custom and the E2B provider, clients of an HTTP service.
  \<^item> \<open>Agent_Server\<close>, \<open>Agent_Laws\<close> (\<open>cmd/stacyvm-agent\<close>): the agent in a microVM.  \<open>Firecracker_Agent\<close>: the
    provider with the agent at the other end of its connection.
  \<^item> \<open>Worker_RPC\<close>, \<open>Worker_Client\<close>, \<open>Worker_RPC_Laws\<close> (\<open>internal/worker\<close>, \<open>internal/workerproto\<close>): both ends of
    the worker RPC, and that a call through it is the call of the provider.  \<open>Worker_Runtime\<close>,
    \<open>Worker_Runtime_Laws\<close>: the worker process, which calls the control plane with heartbeats.
  \<^item> \<open>Auth\<close>, \<open>Worker_Token\<close>, \<open>Auth_Laws\<close>, \<open>API_Policy\<close>, \<open>Rate_Limit\<close> (\<open>internal/api/middleware\<close>): who gets through.
    The locale \<open>metered\<close> states what a token bucket may grant in a window of time.
  \<^item> \<open>API_Sandboxes\<close>, \<open>API_Laws\<close>, \<open>API_Environments\<close>, \<open>API_Admin\<close>, \<open>API_Admin_Laws\<close>, \<open>API_System\<close>, \<open>API_Prometheus\<close>
    (\<open>internal/api/routes\<close>, \<open>internal/api/server.go\<close>): the handlers.
  \<^item> \<open>Environments\<close>, \<open>Environments_Laws\<close> (\<open>internal/environments\<close>): builds of environment images.
  \<^item> \<open>Server_Config\<close>, \<open>Server_Start\<close>, \<open>Server_Start_Laws\<close> (\<open>internal/config\<close>, \<open>cmd/stacyvm/cmd_serve.go\<close>): the
    configuration and the server that is started from it.

  \<^bold>\<open>What the theorems show.\<close>  Spawning does what it promises (C1) or, when it fails, leaves no sandbox on
  this server and destroys what its provider started; the runtime of a remote worker may be left
  running (C2).  Destroying makes the calls that end the sandbox, gives its lease back and drops it from the
  cache, and its record too, if the database takes the update, whose failure the code ignores (C4).
  Limits hold at admission and the queue is bounded (C3, C5, C13, C14);
  leases exclude other workers, in the store, over the RPC and at recovery (C6, C12, C27); the store
  keeps its type, over either database (C7, C8); the pool of shared VMs counts right, and files of one
  user are out of reach of the others (C9, C10); recovery leaves what the providers report (C11);
  a command is answered with the provider's result, audited and logged (C15).  An operation on a
  microVM is the operation on the guest's system and no process of it is left behind (C16, C17); a stream
  arrives whole while only one of its two pipes has output, and can be torn otherwise (C18).  The
  Docker provider refines the set of its containers and its command lines mean what was asked (C19,
  C20); a prooted sandbox keeps its contract, and its directory but for glob patterns (C21, C22); the
  guest's agent serves the requests it is sent in their order (C23); the custom provider asks for the file that
  was named (C37).  Credentials, roles, tenants, policies and rates are enforced as far as each theorem says, which
  names the cases that are let through (C24 to C26, C29 to C32, C35, C39); a remote spawn is
  the spawn of the worker (C28) and heartbeats steer where sandboxes go (C38); builds run the commands
  of their specification only and end (C33, C34); a started server has the configuration that was
  validated in force (C36); a template reads back as it was created and a spawn from it asks for it (C40).

  \<^bold>\<open>How the code is read.\<close>  An operation is a function from the state and its arguments to the result
  and the new state, written as a sequence of \<open>let\<close>s in the order of the code; every early return is
  a branch, and an error is a value.  One operation runs at one instant, \<open>db_now\<close> of its environment.
  The database may fail at every statement (\<open>db_fail\<close>); a reply of a provider, a worker or
  another program is a function of the calls made so far and of the call.  What other
  goroutines do meanwhile is an argument: the events that wake a queue, the state at each round of
  admission, the chunks of a stream that find room, the changes to a build while docker runs.  The
  section that the code runs under \<open>admissionMu\<close> is one step.  A pointer to a cached sandbox
  is modelled by writing the cache entry where the code writes through the pointer.

  JSON, base64, HMAC, SHA-256, signatures, HTTP transport and uuids are parameters, with the round trip
  of the encoding as a hypothesis where a theorem needs it.  JSON columns hold the decoded value.  A request body is
  its decoded value or nothing, except for spawns, whose raw body the policies read.
  \<open>strings.EqualFold\<close> and \<open>ToLower\<close> are those of ASCII.  A duration with a fraction is exact.  Tokens of
  the rate limiter are exact integers (a token is 60 * 10^9 units); the rounding of \<open>float64\<close> is left
  out, and as it can make the announced wait too short by a hair, nothing is claimed of that wait.  The
  instant of a request at the limiter is an argument.  The two goroutines that write a stream in the guest
  take turns at single writes of a header or a payload; in the code these go to a buffered writer without
  a lock.  Where Go's \<open>select\<close> may take either of two cases an argument says which, and a map that the
  code ranges over is a list in the order of that run.  The tests for a nil event bus or recorder are left
  out: both are always there.  A middleware answers the identity it lets through or the status it refuses
  with; texts of such refusals are left out.  Foreign keys are no constraints in the SQLite store, whose driver leaves them off; the model
  of PostgreSQL enforces them.

  \<^bold>\<open>Bounds.\<close>  The queue's wait, the streams and the fuelled loops recurse over the list of events they are
  given, so that every run ends with the list; the frames of the agent carry at most 64 MiB; counters
  are 64-bit words and wrap.  Nothing is assumed about the length of lists but where a theorem says so.

  \<^bold>\<open>Not modelled.\<close>
  \<^item> The migrations and the opening of either database: text of SQL run by the driver.  The bridge that
    carries events between control planes through PostgreSQL beyond what \<open>Events\<close> says of it.
  \<^item> The event stream, the route that rewrites the configuration file and the statistics of the host
    (\<open>system.go\<close>): input and output.  The configuration library is a parameter.
  \<^item> The command line tools, the terminal and desktop interfaces, the generated API documentation: glue
    and presentation.
\<close>

section \<open>Leases\<close>

text \<open>
  C6. A lease is exclusive: whatever the other holders request before it expires (acquisitions,
  renewals, releases, in any order, under any database failures), the lease of a resource stays
  with its holder, until the same instant.
\<close>

theorem lease_exclusive:
  assumes "store_ok s" and "lease_held r s = Some (h, e)"
    and "\<forall>q\<in>set qs. req_holder q \<noteq> h \<and> req_time q < e"
  shows "lease_held r (fold (lease_step F r) qs s) = Some (h, e)"
  using leases.exclusive [OF assms(1,2)] assms(3) by blast

definition sample_leased :: store where
  "sample_leased = snd (AcquireLease sample_env ''sb-1'' ''sandbox'' ''w1'' (60 * Second) empty_store)"

theorem lease_exclusive_witness:
  "lease_held ''sb-1'' (fold (lease_step (\<lambda>_ _. None) ''sb-1'')
     [Acquire ''w2'' (1010 * Second) Minute, Renew ''w3'' (1020 * Second) Minute, Release ''w2'' (1059 * Second)]
     sample_leased) = Some (''w1'', 1060 * Second)"
proof (rule lease_exclusive)
  show "store_ok sample_leased"
    unfolding sample_leased_def by (intro store_ok_AcquireLease) simp
  show "lease_held ''sb-1'' sample_leased = Some (''w1'', 1060 * Second)" by code_simp
qed simp

section \<open>Shared VMs\<close>

text \<open>
  C9. The VM pool's counts are the sandboxes that are in its VMs: after any traffic of sandboxes
  that come (to a free slot, or to a VM spawned for them) and go, the pool invariant holds,
  every VM's count is the number of its sandboxes still there, and a sandbox that leaves makes
  the pool give up the VM exactly when no other sandbox is left in it.
\<close>

theorem vm_pool_counts:
  assumes "1 \<le> pc_MaxUsersPerVM cfg"
    and "vm_pool.traffic (NewVMPoolManager cfg) [] p outs"
  shows "pool_ok p \<and> vm_users p = count_list outs \<and>
    (\<forall>v. v \<in> set outs \<longrightarrow> (fst (vm_release v p) \<longleftrightarrow> v \<notin> set (remove1 v outs)))"
proof -
  have g: "pool_ok (NewVMPoolManager cfg) \<and> 1 \<le> pc_MaxUsersPerVM (vp_config (NewVMPoolManager cfg))"
    using assms(1) by (simp add: pool_ok_New) (simp add: NewVMPoolManager_def)
  have u: "vm_users (NewVMPoolManager cfg) = count_list []"
    by (simp add: vm_users_def NewVMPoolManager_def fun_eq_iff)
  show ?thesis
    using vm_pool.counts_outstanding [OF assms(2) g u] vm_pool.destroyed_when_last_leaves [OF assms(2) g u]
    by blast
qed

theorem vm_pool_counts_witness:
  "\<exists>p. vm_pool.traffic (NewVMPoolManager (mc_pool sample_config)) [] p [''vm-1'', ''vm-1''] \<and>
     vm_users p ''vm-1'' = 2 \<and> pool_ok p"
proof -
  let ?p0 = "NewVMPoolManager (mc_pool sample_config)"
  let ?c = "(0, 5, ''vm-1'', ''mock'')"
  obtain v1 p1 v2 p2 where acq: "vm_acquire ?c ?p0 = Some (v1, p1)" "vm_acquire ?c p1 = Some (v2, p2)"
    "v1 = ''vm-1'' \<and> v2 = ''vm-1''"
    by (simp add: vm_acquire_def NewVMPoolManager_def vm_acquire_existing_def sample_config_def vm_register_def)
  have t: "vm_pool.traffic ?p0 [] p2 [''vm-1'', ''vm-1'']"
    using vm_pool.traffic.come [OF vm_pool.traffic.come [OF vm_pool.traffic.start acq(1)] acq(2)] acq(3) by simp
  from vm_pool_counts [OF _ this] have "pool_ok p2 \<and> vm_users p2 ''vm-1'' = 2"
    by (simp add: sample_config_def)
  with t show ?thesis by blast
qed

end
